(* ===== verification/Fluid_Prelude.thy ===== *)
theory Fluid_Prelude
  imports Main
begin

text \<open>
  Shared vocabulary of the development: Go's \<open>error\<close> values and panics, programs that interact
  with an environment (the Kubernetes API server, helm, the host), the bounded retry loop of
  \<open>k8s.io/client-go/util/retry\<close>, and the generic lemmas the components use.

  A program is a function from the history of its interactions to an outcome and a longer history.
  Every call that leaves the process appends one event that records the request and the response.
  What the environment answers is a function of the history so far, which is a parameter of the
  definitions: nothing is assumed of it, so a theorem that does not name a hypothesis about the
  environment holds for every API server, every interleaving with other writers and every fault.
\<close>

named_theorems wp_rules \<open>equations that compute the weakest precondition of a program\<close>
named_theorems emits_rules \<open>introduction rules for the events a program may emit\<close>
named_theorems keeps_rules \<open>introduction rules for the invariants of a history\<close>
named_theorems yields_rules \<open>introduction rules for the values a program may return\<close>

section \<open>Errors\<close>

text \<open>
  An \<open>error\<close> of Go is \<open>goerr option\<close>, with \<open>None\<close> for nil. \<open>Wrapped\<close> is
  \<open>errors.Wrap\<close>: the predicates of \<open>apierrors\<close> look through it (\<open>errors.As\<close>), a type
  assertion does not.
\<close>

datatype goerr =
    NotFound string
  | Conflict string
  | AlreadyExists string
  | NotSupported string
  | TemporaryValidationFailed string
  | NoKindMatch string
  | Err string
  | Wrapped string goerr

fun IsNotFound :: "goerr \<Rightarrow> bool" where
  "IsNotFound (NotFound _) = True"
| "IsNotFound (Wrapped _ e) = IsNotFound e"
| "IsNotFound _ = False"

fun IsConflict :: "goerr \<Rightarrow> bool" where
  "IsConflict (Conflict _) = True"
| "IsConflict (Wrapped _ e) = IsConflict e"
| "IsConflict _ = False"

fun IsAlreadyExists :: "goerr \<Rightarrow> bool" where
  "IsAlreadyExists (AlreadyExists _) = True"
| "IsAlreadyExists (Wrapped _ e) = IsAlreadyExists e"
| "IsAlreadyExists _ = False"

fun IsNoMatchError :: "goerr \<Rightarrow> bool" where
  "IsNoMatchError (NoKindMatch _) = True"
| "IsNoMatchError (Wrapped _ e) = IsNoMatchError e"
| "IsNoMatchError _ = False"

text \<open>\<open>fluiderrs.ReasonForError\<close> is a type switch: it does not look through a wrapped error.\<close>

fun IsNotSupported :: "goerr \<Rightarrow> bool" where
  "IsNotSupported (NotSupported _) = True"
| "IsNotSupported _ = False"

fun IsTemporaryValidationFailed :: "goerr \<Rightarrow> bool" where
  "IsTemporaryValidationFailed (TemporaryValidationFailed _) = True"
| "IsTemporaryValidationFailed _ = False"

definition IgnoreNotFound :: "goerr option \<Rightarrow> goerr option" where
  "IgnoreNotFound err = (case err of None \<Rightarrow> None | Some e \<Rightarrow> if IsNotFound e then None else Some e)"

definition IgnoreAlreadyExists :: "goerr option \<Rightarrow> goerr option" where
  "IgnoreAlreadyExists err =
     (case err of None \<Rightarrow> None | Some e \<Rightarrow> if IsAlreadyExists e then None else Some e)"

text \<open>The type assertion \<open>err.(*apierrors.StatusError)\<close> succeeds on an unwrapped API error only.\<close>

fun isStatusError :: "goerr \<Rightarrow> bool" where
  "isStatusError (NotFound _) = True"
| "isStatusError (Conflict _) = True"
| "isStatusError (AlreadyExists _) = True"
| "isStatusError _ = False"

text \<open>The text of an error, as \<open>%v\<close> and \<open>Error()\<close> print it.\<close>

fun errText :: "goerr \<Rightarrow> string" where
  "errText (NotFound s) = s"
| "errText (Conflict s) = s"
| "errText (AlreadyExists s) = s"
| "errText (NotSupported s) = s"
| "errText (TemporaryValidationFailed s) = s"
| "errText (NoKindMatch s) = s"
| "errText (Err s) = s"
| "errText (Wrapped s e) = s @ '': '' @ errText e"

section \<open>Programs\<close>

datatype 'a out = Ret 'a | Panic string

type_synonym ('e, 'a) go = "'e list \<Rightarrow> 'a out \<times> 'e list"

definition ret :: "'a \<Rightarrow> ('e, 'a) go" where
  "ret a h = (Ret a, h)"

definition panic :: "string \<Rightarrow> ('e, 'a) go" where
  "panic s h = (Panic s, h)"

definition andThen :: "('e, 'a) go \<Rightarrow> ('a \<Rightarrow> ('e, 'b) go) \<Rightarrow> ('e, 'b) go" where
  "andThen m f h = (case m h of (Ret a, h') \<Rightarrow> f a h' | (Panic s, h') \<Rightarrow> (Panic s, h'))"

text \<open>One interaction: the environment answers from the history, the event is recorded.\<close>

definition call :: "('e list \<Rightarrow> 'r) \<Rightarrow> ('r \<Rightarrow> 'e) \<Rightarrow> ('e, 'r) go" where
  "call answer ev h = (Ret (answer h), h @ [ev (answer h)])"

definition emit :: "'e \<Rightarrow> ('e, unit) go" where
  "emit e h = (Ret (), h @ [e])"

fun forEach :: "'a list \<Rightarrow> ('a \<Rightarrow> ('e, unit) go) \<Rightarrow> ('e, unit) go" where
  "forEach [] f = ret ()"
| "forEach (x # xs) f = andThen (f x) (\<lambda>_. forEach xs f)"

text \<open>\<open>defer d()\<close>: the deferred program runs when the body returns and when it panics.\<close>

definition deferred :: "('e, unit) go \<Rightarrow> ('e, 'a) go \<Rightarrow> ('e, 'a) go" where
  "deferred d m h = (case m h of (r, h') \<Rightarrow> (r, snd (d h')))"

text \<open>
  \<open>retry.OnError\<close> over \<open>wait.ExponentialBackoff\<close>: at most \<open>steps\<close> attempts, another one
  only after a retriable error, the last error when they are used up. \<open>DefaultBackoff\<close> has four
  steps, \<open>DefaultRetry\<close> five.
\<close>

fun OnError :: "nat \<Rightarrow> (goerr \<Rightarrow> bool) \<Rightarrow> ('e, goerr option) go \<Rightarrow> ('e, goerr option) go" where
  "OnError 0 retriable fn = ret None"
| "OnError (Suc n) retriable fn =
     andThen fn (\<lambda>err.
       case err of
         None \<Rightarrow> ret None
       | Some e \<Rightarrow>
           if retriable e \<and> n \<noteq> 0 then OnError n retriable fn else ret (Some e))"

definition DefaultBackoff_Steps :: nat where
  "DefaultBackoff_Steps = 4"

definition DefaultRetry_Steps :: nat where
  "DefaultRetry_Steps = 5"

definition RetryOnConflict :: "('e, goerr option) go \<Rightarrow> ('e, goerr option) go" where
  "RetryOnConflict fn = OnError DefaultBackoff_Steps IsConflict fn"

lemma ret_andThen [simp]: "andThen (ret a) f = f a"
  by (rule ext) (simp add: andThen_def ret_def)

lemma andThen_assoc: "andThen (andThen m f) g = andThen m (\<lambda>a. andThen (f a) g)"
  by (rule ext) (simp add: andThen_def split: prod.splits out.splits)

section \<open>Weakest preconditions\<close>

definition wp :: "('e, 'a) go \<Rightarrow> ('a out \<Rightarrow> 'e list \<Rightarrow> bool) \<Rightarrow> 'e list \<Rightarrow> bool" where
  "wp m Q h = (case m h of (r, h') \<Rightarrow> Q r h')"

lemma wp_ret [wp_rules]: "wp (ret a) Q h = Q (Ret a) h"
  by (simp add: wp_def ret_def)

lemma wp_panic [wp_rules]: "wp (panic s) Q h = Q (Panic s) h"
  by (simp add: wp_def panic_def)

lemma wp_andThen [wp_rules]:
  "wp (andThen m f) Q h =
     wp m (\<lambda>r h'. case r of Ret a \<Rightarrow> wp (f a) Q h' | Panic s \<Rightarrow> Q (Panic s) h') h"
  by (simp add: wp_def andThen_def split: prod.splits out.splits)

lemma wp_call [wp_rules]: "wp (call answer ev) Q h = Q (Ret (answer h)) (h @ [ev (answer h)])"
  by (simp add: wp_def call_def)

lemma wp_emit [wp_rules]: "wp (emit e) Q h = Q (Ret ()) (h @ [e])"
  by (simp add: wp_def emit_def)

lemma wp_deferred [wp_rules]: "wp (deferred d m) Q h = wp m (\<lambda>r h'. Q r (snd (d h'))) h"
  by (simp add: wp_def deferred_def split: prod.splits)

lemma wp_if [wp_rules]: "wp (if b then m else n) Q h = (if b then wp m Q h else wp n Q h)"
  by simp

lemma wp_option [wp_rules]:
  "wp (case x of None \<Rightarrow> m | Some a \<Rightarrow> f a) Q h =
     (case x of None \<Rightarrow> wp m Q h | Some a \<Rightarrow> wp (f a) Q h)"
  by (cases x) simp_all

lemma wp_sum [wp_rules]:
  "wp (case x of Inl a \<Rightarrow> f a | Inr b \<Rightarrow> g b) Q h =
     (case x of Inl a \<Rightarrow> wp (f a) Q h | Inr b \<Rightarrow> wp (g b) Q h)"
  by (cases x) simp_all

lemma wp_prod [wp_rules]:
  "wp (case x of (a, b) \<Rightarrow> f a b) Q h = (case x of (a, b) \<Rightarrow> wp (f a b) Q h)"
  by (cases x) simp_all

lemma wp_mono: "wp m Q h \<Longrightarrow> (\<And>r h'. Q r h' \<Longrightarrow> R r h') \<Longrightarrow> wp m R h"
  by (auto simp: wp_def split: prod.splits)

lemma wp_conj: "wp m (\<lambda>r h'. P r h' \<and> Q r h') h = (wp m P h \<and> wp m Q h)"
  by (simp add: wp_def split: prod.splits)

lemma wp_run: "wp m Q h \<Longrightarrow> m h = (r, h') \<Longrightarrow> Q r h'"
  by (simp add: wp_def)

lemma wp_intro: "(\<And>r h'. m h = (r, h') \<Longrightarrow> Q r h') \<Longrightarrow> wp m Q h"
  by (cases "m h") (simp add: wp_def)

section \<open>The events a program emits\<close>

text \<open>
  \<open>emits P m\<close>: from every history, \<open>m\<close> only appends events that satisfy \<open>P\<close>. It is the
  frame condition of the development: a program that emits no write changes nothing outside.
\<close>

definition emits :: "('e \<Rightarrow> bool) \<Rightarrow> ('e, 'a) go \<Rightarrow> bool" where
  "emits P m \<longleftrightarrow> (\<forall>h. \<exists>es. snd (m h) = h @ es \<and> list_all P es)"

lemma emits_ret [emits_rules]: "emits P (ret a)"
  by (simp add: emits_def ret_def)

lemma emits_panic [emits_rules]: "emits P (panic s)"
  by (simp add: emits_def panic_def)

lemma emits_call [emits_rules]: "(\<And>r. P (ev r)) \<Longrightarrow> emits P (call answer ev)"
  by (simp add: emits_def call_def)

lemma emits_emit [emits_rules]: "P e \<Longrightarrow> emits P (emit e)"
  by (simp add: emits_def emit_def)

lemma emits_andThen [emits_rules]:
  assumes "emits P m" and "\<And>a. emits P (f a)"
  shows "emits P (andThen m f)"
  unfolding emits_def
proof
  fix h
  obtain r h' where m: "m h = (r, h')" by (cases "m h")
  from assms(1) m obtain es where es: "h' = h @ es" "list_all P es"
    by (metis emits_def snd_conv)
  show "\<exists>es. snd (andThen m f h) = h @ es \<and> list_all P es"
  proof (cases r)
    case (Ret a)
    obtain es' where "snd (f a h') = h' @ es'" "list_all P es'"
      using assms(2) [of a] by (auto simp: emits_def)
    with m Ret es show ?thesis by (auto simp: andThen_def)
  next
    case (Panic s)
    with m es show ?thesis by (simp add: andThen_def)
  qed
qed

lemma emits_deferred [emits_rules]: "emits P m \<Longrightarrow> emits P d \<Longrightarrow> emits P (deferred d m)"
  unfolding emits_def
proof
  fix h
  assume m: "\<forall>h. \<exists>es. snd (m h) = h @ es \<and> list_all P es"
    and d: "\<forall>h. \<exists>es. snd (d h) = h @ es \<and> list_all P es"
  obtain r h' where h': "m h = (r, h')" by (cases "m h")
  obtain es where "h' = h @ es" "list_all P es" using m h' by (metis snd_conv)
  moreover obtain es' where "snd (d h') = h' @ es'" "list_all P es'" using d by metis
  ultimately show "\<exists>es. snd (deferred d m h) = h @ es \<and> list_all P es"
    using h' by (simp add: deferred_def)
qed

lemma emits_if [emits_rules]:
  "(b \<Longrightarrow> emits P m) \<Longrightarrow> (\<not> b \<Longrightarrow> emits P n) \<Longrightarrow> emits P (if b then m else n)"
  by simp

lemma emits_option [emits_rules]:
  "(x = None \<Longrightarrow> emits P m) \<Longrightarrow> (\<And>a. x = Some a \<Longrightarrow> emits P (f a)) \<Longrightarrow>
   emits P (case x of None \<Rightarrow> m | Some a \<Rightarrow> f a)"
  by (cases x) simp_all

lemma emits_sum [emits_rules]:
  "(\<And>a. x = Inl a \<Longrightarrow> emits P (f a)) \<Longrightarrow> (\<And>b. x = Inr b \<Longrightarrow> emits P (g b)) \<Longrightarrow>
   emits P (case x of Inl a \<Rightarrow> f a | Inr b \<Rightarrow> g b)"
  by (cases x) simp_all

lemma emits_prod [emits_rules]:
  "(\<And>a b. x = (a, b) \<Longrightarrow> emits P (f a b)) \<Longrightarrow> emits P (case x of (a, b) \<Rightarrow> f a b)"
  by (cases x) simp_all

lemma emits_forEach [emits_rules]:
  "(\<And>x. emits P (f x)) \<Longrightarrow> emits P (forEach xs f)"
  by (induction xs) (simp_all add: emits_rules)

lemma emits_OnError [emits_rules]: "emits P fn \<Longrightarrow> emits P (OnError n retriable fn)"
  by (induction n) (auto intro!: emits_rules)

lemma emits_RetryOnConflict [emits_rules]: "emits P fn \<Longrightarrow> emits P (RetryOnConflict fn)"
  by (simp add: RetryOnConflict_def emits_rules)

lemma emits_run:
  assumes "emits P m" and "m h = (r, h')"
  obtains es where "h' = h @ es" and "list_all P es"
  using assms by (metis emits_def snd_conv)

lemma emits_mono: "emits P m \<Longrightarrow> (\<And>e. P e \<Longrightarrow> Q e) \<Longrightarrow> emits Q m"
  unfolding emits_def by (metis list_all_iff)

lemma wp_emits: "emits P m \<Longrightarrow> wp m (\<lambda>_ h'. \<exists>es. h' = h @ es \<and> list_all P es) h"
  by (auto simp: wp_def emits_def split: prod.splits dest: spec [where x = h])

text \<open>\<open>yields R m\<close>: every value that \<open>m\<close> returns satisfies \<open>R\<close>, whatever the history.\<close>

definition yields :: "('a \<Rightarrow> bool) \<Rightarrow> ('e, 'a) go \<Rightarrow> bool" where
  "yields R m \<longleftrightarrow> (\<forall>h a. fst (m h) = Ret a \<longrightarrow> R a)"

lemma yields_ret [yields_rules]: "R a \<Longrightarrow> yields R (ret a)"
  by (simp add: yields_def ret_def)

lemma yields_panic [yields_rules]: "yields R (panic s)"
  by (simp add: yields_def panic_def)

lemma yields_andThen:
  "yields R m \<Longrightarrow> (\<And>a. R a \<Longrightarrow> yields S (f a)) \<Longrightarrow> yields S (andThen m f)"
  by (auto simp: yields_def andThen_def split: prod.splits out.splits)
     (metis fst_conv)

lemma yields_then [yields_rules]: "(\<And>a. yields S (f a)) \<Longrightarrow> yields S (andThen m f)"
  by (rule yields_andThen [where R = "\<lambda>_. True"]) (simp_all add: yields_def)

lemma yields_if [yields_rules]:
  "(b \<Longrightarrow> yields R m) \<Longrightarrow> (\<not> b \<Longrightarrow> yields R n) \<Longrightarrow> yields R (if b then m else n)"
  by simp

lemma yields_option [yields_rules]:
  "(x = None \<Longrightarrow> yields R m) \<Longrightarrow> (\<And>a. x = Some a \<Longrightarrow> yields R (f a)) \<Longrightarrow>
   yields R (case x of None \<Rightarrow> m | Some a \<Rightarrow> f a)"
  by (cases x) simp_all

lemma yields_sum [yields_rules]:
  "(\<And>a. x = Inl a \<Longrightarrow> yields R (f a)) \<Longrightarrow> (\<And>b. x = Inr b \<Longrightarrow> yields R (g b)) \<Longrightarrow>
   yields R (case x of Inl a \<Rightarrow> f a | Inr b \<Rightarrow> g b)"
  by (cases x) simp_all

lemma yields_prod [yields_rules]:
  "(\<And>a b. x = (a, b) \<Longrightarrow> yields R (f a b)) \<Longrightarrow> yields R (case x of (a, b) \<Rightarrow> f a b)"
  by (cases x) simp_all

lemma emits_andThen_yields:
  assumes "emits P m" and "yields R m" and "\<And>a. R a \<Longrightarrow> emits P (f a)"
  shows "emits P (andThen m f)"
  unfolding emits_def
proof
  fix h
  obtain r h' where m: "m h = (r, h')" by (cases "m h")
  from assms(1) m obtain es where es: "h' = h @ es" "list_all P es" by (metis emits_def snd_conv)
  show "\<exists>es. snd (andThen m f h) = h @ es \<and> list_all P es"
  proof (cases r)
    case (Ret a)
    with assms(2) m have "R a" by (metis fst_conv yields_def)
    then obtain es' where "snd (f a h') = h' @ es'" "list_all P es'"
      using assms(3) [of a] by (auto simp: emits_def)
    with m Ret es show ?thesis by (auto simp: andThen_def)
  next
    case (Panic s)
    with m es show ?thesis by (simp add: andThen_def)
  qed
qed

text \<open>\<open>keeps I m\<close>: the program \<open>m\<close> preserves the invariant \<open>I\<close> of the history.\<close>

definition keeps :: "('e list \<Rightarrow> bool) \<Rightarrow> ('e, 'a) go \<Rightarrow> bool" where
  "keeps I m \<longleftrightarrow> (\<forall>h. I h \<longrightarrow> I (snd (m h)))"

lemma keeps_ret [keeps_rules]: "keeps I (ret a)"
  by (simp add: keeps_def ret_def)

lemma keeps_panic [keeps_rules]: "keeps I (panic s)"
  by (simp add: keeps_def panic_def)

lemma keeps_andThen [keeps_rules]: "keeps I m \<Longrightarrow> (\<And>a. keeps I (f a)) \<Longrightarrow> keeps I (andThen m f)"
  unfolding keeps_def andThen_def by (metis (mono_tags, lifting) case_prod_conv out.simps(5,6) prod.collapse out.exhaust snd_conv)

lemma keeps_if [keeps_rules]:
  "(b \<Longrightarrow> keeps I m) \<Longrightarrow> (\<not> b \<Longrightarrow> keeps I n) \<Longrightarrow> keeps I (if b then m else n)"
  by simp

lemma keeps_option [keeps_rules]:
  "(x = None \<Longrightarrow> keeps I m) \<Longrightarrow> (\<And>a. x = Some a \<Longrightarrow> keeps I (f a)) \<Longrightarrow>
   keeps I (case x of None \<Rightarrow> m | Some a \<Rightarrow> f a)"
  by (cases x) simp_all

lemma keeps_sum [keeps_rules]:
  "(\<And>a. x = Inl a \<Longrightarrow> keeps I (f a)) \<Longrightarrow> (\<And>b. x = Inr b \<Longrightarrow> keeps I (g b)) \<Longrightarrow>
   keeps I (case x of Inl a \<Rightarrow> f a | Inr b \<Rightarrow> g b)"
  by (cases x) simp_all

lemma keeps_prod [keeps_rules]:
  "(\<And>a b. x = (a, b) \<Longrightarrow> keeps I (f a b)) \<Longrightarrow> keeps I (case x of (a, b) \<Rightarrow> f a b)"
  by (cases x) simp_all

lemma keeps_RetryOnConflict [keeps_rules]: "keeps I fn \<Longrightarrow> keeps I (RetryOnConflict fn)"
proof -
  assume "keeps I fn"
  then have "keeps I (OnError n IsConflict fn)" for n
    by (induction n) (auto intro!: keeps_rules)
  then show ?thesis by (simp add: RetryOnConflict_def)
qed

lemma keeps_emits:
  "emits P m \<Longrightarrow> (\<And>h es. I h \<Longrightarrow> list_all P es \<Longrightarrow> I (h @ es)) \<Longrightarrow> keeps I m"
  unfolding keeps_def emits_def by metis

text \<open>How many events of a kind a history holds.\<close>

definition tally :: "('e \<Rightarrow> bool) \<Rightarrow> 'e list \<Rightarrow> nat" where
  "tally P h = length (filter P h)"

lemma tally_append [simp]: "tally P (h @ es) = tally P h + tally P es"
  by (simp add: tally_def)

lemma tally_simps [simp]: "tally P [] = 0" "tally P (e # es) = (if P e then 1 else 0) + tally P es"
  by (simp_all add: tally_def)

lemma tally_none: "list_all (\<lambda>e. \<not> P e) es \<Longrightarrow> tally P es = 0"
  by (simp add: tally_def filter_empty_conv list_all_iff)

lemma emits_tally: "emits (\<lambda>e. \<not> P e) m \<Longrightarrow> tally P (snd (m h)) = tally P h"
  unfolding emits_def by (metis tally_append tally_none add.right_neutral)

lemma wp_tally: "emits (\<lambda>e. \<not> P e) m \<Longrightarrow> (\<And>r h'. tally P h' = tally P h \<Longrightarrow> Q r h') \<Longrightarrow> wp m Q h"
  using emits_tally [of P m h] by (cases "m h") (simp add: wp_def)

section \<open>Retrying\<close>

text \<open>
  Whatever holds of the outcome of one attempt, from every history that an earlier failed attempt
  can leave behind, holds of the whole retry loop.
\<close>

lemma OnError_induct:
  assumes "0 < n"
    and step: "\<And>h. I h \<Longrightarrow>
        wp fn (\<lambda>r h'. (\<forall>e. r = Ret (Some e) \<longrightarrow> retriable e \<longrightarrow> I h') \<and> Q r h') h"
    and "I h"
  shows "wp (OnError n retriable fn) Q h"
  using assms(1,3)
proof (induction n arbitrary: h)
  case 0
  then show ?case by simp
next
  case (Suc n)
  from step [OF Suc.prems(2)] show ?case
    by (auto simp: wp_rules elim!: wp_mono split: out.splits option.splits intro!: Suc.IH)
qed

lemma RetryOnConflict_induct:
  assumes "\<And>h. I h \<Longrightarrow>
      wp fn (\<lambda>r h'. (\<forall>e. r = Ret (Some e) \<longrightarrow> IsConflict e \<longrightarrow> I h') \<and> Q r h') h"
    and "I h"
  shows "wp (RetryOnConflict fn) Q h"
  unfolding RetryOnConflict_def
  by (rule OnError_induct [OF _ assms]) (simp_all add: DefaultBackoff_Steps_def)

section \<open>Lists\<close>

lemma find_None_set: "List.find P xs = None \<longleftrightarrow> (\<forall>x\<in>set xs. \<not> P x)"
  by (auto simp: find_None_iff)

lemma find_Some_set: "List.find P xs = Some x \<Longrightarrow> x \<in> set xs \<and> P x"
  by (auto simp: find_Some_iff)

lemma case_find_None:
  "(case List.find P xs of Some x \<Rightarrow> Some (f x) | None \<Rightarrow> y) = None \<longleftrightarrow>
     (\<forall>x\<in>set xs. \<not> P x) \<and> y = None"
  using find_None_set [of P xs] find_Some_set [of P xs] by (cases "List.find P xs") auto

section \<open>Programs that return\<close>

text \<open>\<open>completes P m\<close>: from every history \<open>m\<close> returns, and the events that it adds satisfy \<open>P\<close>.\<close>

named_theorems completes_rules \<open>introduction rules for programs that return\<close>

definition completes :: "('e \<Rightarrow> bool) \<Rightarrow> ('e, 'a) go \<Rightarrow> bool" where
  "completes P m \<longleftrightarrow> (\<forall>h. \<exists>a es. m h = (Ret a, h @ es) \<and> list_all P es)"

lemma completes_ret [completes_rules]: "completes P (ret a)"
  by (simp add: completes_def ret_def)

lemma completes_call [completes_rules]: "(\<And>a. P (ev a)) \<Longrightarrow> completes P (call answer ev)"
  by (simp add: completes_def call_def)

lemma completes_emit [completes_rules]: "P e \<Longrightarrow> completes P (emit e)"
  by (simp add: completes_def emit_def)

lemma completes_andThen [completes_rules]:
  assumes "completes P m" and "\<And>a. completes P (f a)"
  shows "completes P (andThen m f)"
  unfolding completes_def
proof
  fix h
  obtain a es where m: "m h = (Ret a, h @ es)" "list_all P es" using assms(1) unfolding completes_def by blast
  obtain b es' where "f a (h @ es) = (Ret b, (h @ es) @ es')" "list_all P es'"
    using assms(2) [of a] unfolding completes_def by blast
  with m show "\<exists>b es. andThen m f h = (Ret b, h @ es) \<and> list_all P es"
    by (intro exI [of _ b] exI [of _ "es @ es'"]) (simp add: andThen_def)
qed

lemma completes_cases [completes_rules]:
  "(b \<Longrightarrow> completes P m) \<Longrightarrow> (\<not> b \<Longrightarrow> completes P n) \<Longrightarrow> completes P (if b then m else n)"
  "(x = None \<Longrightarrow> completes P m) \<Longrightarrow> (\<And>a. x = Some a \<Longrightarrow> completes P (f a)) \<Longrightarrow> completes P (case x of None \<Rightarrow> m | Some a \<Rightarrow> f a)"
  "(\<And>a. y = Inl a \<Longrightarrow> completes P (g a)) \<Longrightarrow> (\<And>c. y = Inr c \<Longrightarrow> completes P (k c)) \<Longrightarrow> completes P (case y of Inl a \<Rightarrow> g a | Inr c \<Rightarrow> k c)"
  "(\<And>a c. z = (a, c) \<Longrightarrow> completes P (l a c)) \<Longrightarrow> completes P (case z of (a, c) \<Rightarrow> l a c)"
  by (cases b; simp; fail | cases x; simp; fail | cases y; simp; fail | cases z; simp; fail)+

section \<open>Effects of a program\<close>

text \<open>\<open>does P m\<close>: from every history \<open>m\<close> returns, and \<open>P\<close> relates its value to the events that it adds.\<close>

named_theorems does_rules \<open>introduction rules for the effects of a program\<close>

definition does :: "('a \<Rightarrow> 'e list \<Rightarrow> bool) \<Rightarrow> ('e, 'a) go \<Rightarrow> bool" where
  "does P m \<longleftrightarrow> (\<forall>h. \<exists>a es. m h = (Ret a, h @ es) \<and> P a es)"

lemma does_ret [does_rules]: "P a [] \<Longrightarrow> does P (ret a)"
  by (simp add: does_def ret_def)

lemma does_call [does_rules]: "(\<And>a. P a [ev a]) \<Longrightarrow> does P (call answer ev)"
  by (simp add: does_def call_def)

lemma does_andThen:
  assumes "does P m" and "\<And>a es. P a es \<Longrightarrow> does (\<lambda>b es'. Q b (es @ es')) (f a)"
  shows "does Q (andThen m f)"
  unfolding does_def
proof
  fix h
  obtain a es where m: "m h = (Ret a, h @ es)" "P a es" using assms(1) unfolding does_def by blast
  obtain b es' where "f a (h @ es) = (Ret b, (h @ es) @ es')" "Q b (es @ es')"
    using assms(2) [OF m(2)] unfolding does_def by blast
  with m show "\<exists>b es. andThen m f h = (Ret b, h @ es) \<and> Q b es"
    by (intro exI [of _ b] exI [of _ "es @ es'"]) (simp add: andThen_def)
qed

lemma does_then_call [does_rules]:
  "(\<And>a. does (\<lambda>b es'. Q b (ev a # es')) (f a)) \<Longrightarrow> does Q (andThen (call answer ev) f)"
  by (rule does_andThen [where P = "\<lambda>a es. es = [ev a]"]) (auto intro: does_call)

lemma does_mono: "does P m \<Longrightarrow> (\<And>a es. P a es \<Longrightarrow> Q a es) \<Longrightarrow> does Q m"
  unfolding does_def by blast

lemma does_cases [does_rules]:
  "(b \<Longrightarrow> does P m) \<Longrightarrow> (\<not> b \<Longrightarrow> does P n) \<Longrightarrow> does P (if b then m else n)"
  "(x = None \<Longrightarrow> does P m) \<Longrightarrow> (\<And>a. x = Some a \<Longrightarrow> does P (f a)) \<Longrightarrow> does P (case x of None \<Rightarrow> m | Some a \<Rightarrow> f a)"
  "(\<And>a. y = Inl a \<Longrightarrow> does P (g a)) \<Longrightarrow> (\<And>c. y = Inr c \<Longrightarrow> does P (k c)) \<Longrightarrow> does P (case y of Inl a \<Rightarrow> g a | Inr c \<Rightarrow> k c)"
  "(\<And>a c. z = (a, c) \<Longrightarrow> does P (l a c)) \<Longrightarrow> does P (case z of (a, c) \<Rightarrow> l a c)"
  by (cases b; simp; fail | cases x; simp; fail | cases y; simp; fail | cases z; simp; fail)+

lemma does_assoc: "andThen (andThen m f) g = andThen m (\<lambda>a. andThen (f a) g)"
  by (rule ext) (simp add: andThen_def split: prod.splits out.splits)

section \<open>Lists\<close>

lemma map_filter_append: "List.map_filter f (xs @ ys) = List.map_filter f xs @ List.map_filter f ys"
  by (simp add: List.map_filter_def)

end
