(* ===== verification/Go_Strings.thy ===== *)
theory Go_Strings
  imports Fluid_Prelude
begin

text \<open>
  The functions of Go's \<open>strings\<close> and \<open>strconv\<close> packages that the components call, on byte
  strings. A separator is a single byte wherever the sources use one. The round trips between
  \<open>Split\<close> and \<open>Join\<close> and between \<open>Itoa\<close> and \<open>Atoi\<close> carry the component proofs.
\<close>

section \<open>Prefixes, substrings, trimming\<close>

definition HasPrefix :: "string \<Rightarrow> string \<Rightarrow> bool" where
  "HasPrefix s p \<longleftrightarrow> take (length p) s = p"

definition HasSuffix :: "string \<Rightarrow> string \<Rightarrow> bool" where
  "HasSuffix s p \<longleftrightarrow> length p \<le> length s \<and> drop (length s - length p) s = p"

definition TrimPrefix :: "string \<Rightarrow> string \<Rightarrow> string" where
  "TrimPrefix s p = (if HasPrefix s p then drop (length p) s else s)"

fun Contains :: "string \<Rightarrow> string \<Rightarrow> bool" where
  "Contains [] t = (t = [])"
| "Contains (c # s) t = (HasPrefix (c # s) t \<or> Contains s t)"

lemma HasPrefix_iff: "HasPrefix s p \<longleftrightarrow> (\<exists>r. s = p @ r)"
  unfolding HasPrefix_def by (metis append_take_drop_id append_eq_conv_conj)

lemma HasPrefix_Nil [simp]: "HasPrefix s []"
  by (simp add: HasPrefix_def)

lemma HasPrefix_append [simp]: "HasPrefix (p @ r) p"
  by (simp add: HasPrefix_def)

lemma Contains_iff: "Contains s t \<longleftrightarrow> (\<exists>a b. s = a @ t @ b)"
proof (induction s)
  case Nil
  then show ?case by auto
next
  case (Cons c s)
  show ?case
  proof
    assume "Contains (c # s) t"
    then show "\<exists>a b. c # s = a @ t @ b"
      using Cons by (auto simp: HasPrefix_iff) (metis append_Cons append_Nil)+
  next
    assume "\<exists>a b. c # s = a @ t @ b"
    then obtain a b where ab: "c # s = a @ t @ b" by blast
    show "Contains (c # s) t"
    proof (cases a)
      case Nil
      with ab have "HasPrefix (c # s) t" by (auto simp: HasPrefix_iff)
      then show ?thesis by simp
    next
      case (Cons d a')
      with ab have "s = a' @ t @ b" by simp
      then show ?thesis using Cons.IH by auto
    qed
  qed
qed

lemma Contains_single [simp]: "Contains s [c] \<longleftrightarrow> c \<in> set s"
  by (induction s) (auto simp: HasPrefix_def)

lemma Contains_mono: "Contains s t \<Longrightarrow> Contains (a @ s @ b) t"
  by (auto simp: Contains_iff) (metis append_assoc)

section \<open>Split and Join\<close>

fun Split :: "char \<Rightarrow> string \<Rightarrow> string list" where
  "Split c [] = [[]]"
| "Split c (x # xs) =
     (if x = c then [] # Split c xs
      else (case Split c xs of [] \<Rightarrow> [[x]] | w # ws \<Rightarrow> (x # w) # ws))"

fun Join :: "char \<Rightarrow> string list \<Rightarrow> string" where
  "Join c [] = []"
| "Join c [w] = w"
| "Join c (w # v # ws) = w @ c # Join c (v # ws)"

lemma Split_not_Nil [simp]: "Split c s \<noteq> []"
  by (induction s) (auto split: list.splits)

lemma Join_Cons: "ws \<noteq> [] \<Longrightarrow> Join c (w # ws) = w @ c # Join c ws"
  by (cases ws) simp_all

lemma Join_Cons_Cons: "Join c ((x # w) # ws) = x # Join c (w # ws)"
  by (cases ws) simp_all

lemma Join_Split [simp]: "Join c (Split c s) = s"
  by (induction s) (auto simp: Join_Cons Join_Cons_Cons split: list.splits)

lemma Split_words: "w \<in> set (Split c s) \<Longrightarrow> c \<notin> set w"
  by (induction s arbitrary: w) (auto split: list.splits if_splits)

lemma Split_word: "c \<notin> set w \<Longrightarrow> Split c w = [w]"
  by (induction w) auto

lemma Split_append_sep: "c \<notin> set w \<Longrightarrow> Split c (w @ c # s) = w # Split c s"
  by (induction w) auto

lemma Split_Join: "ws \<noteq> [] \<Longrightarrow> (\<And>w. w \<in> set ws \<Longrightarrow> c \<notin> set w) \<Longrightarrow> Split c (Join c ws) = ws"
  by (induction c ws rule: Join.induct) (auto simp: Split_word Split_append_sep)

lemma Split_singleton_iff: "(\<exists>w. Split c s = [w]) \<longleftrightarrow> c \<notin> set s"
  by (induction s) (auto split: list.splits)

section \<open>White space\<close>

text \<open>
  \<open>unicode.IsSpace\<close> on UTF-8 bytes: the number of bytes of the white-space rune at the start of
  the string, 0 if there is none. The lead bytes of the multi-byte spaces never occur inside
  another rune, so scanning byte by byte finds exactly the runes that \<open>strings.Fields\<close> finds.
\<close>

definition spaceWidth :: "string \<Rightarrow> nat" where
  "spaceWidth s =
     (let b = map of_char s :: nat list in
      case b of
        [] \<Rightarrow> 0
      | x # r \<Rightarrow>
          if x \<in> {9, 10, 11, 12, 13, 32} then 1
          else if x = 194 \<and> take 1 r \<in> {[133], [160]} then 2
          else if x = 225 \<and> take 2 r = [154, 128] then 3
          else if x = 226 \<and> take 1 r = [128] \<and> length r \<ge> 2 \<and>
                  (r ! 1 \<in> {128..138} \<or> r ! 1 \<in> {168, 169, 175}) then 3
          else if x = 226 \<and> take 2 r = [129, 159] then 3
          else if x = 227 \<and> take 2 r = [128, 128] then 3
          else 0)"

lemma spaceWidth_Nil [simp]: "spaceWidth [] = 0"
  by (simp add: spaceWidth_def)

text \<open>\<open>strings.Fields\<close>: the maximal runs of non-space bytes; \<open>acc\<close> is the field being read.\<close>

function fieldsAux :: "string \<Rightarrow> string \<Rightarrow> string list" where
  "fieldsAux acc [] = (if acc = [] then [] else [acc])"
| "fieldsAux acc (x # xs) =
     (if spaceWidth (x # xs) = 0 then fieldsAux (acc @ [x]) xs
      else (if acc = [] then [] else [acc]) @ fieldsAux [] (drop (spaceWidth (x # xs)) (x # xs)))"
  by pat_completeness auto
termination
  by (relation "measure (\<lambda>(acc, s). length s)") auto

declare fieldsAux.simps [simp del]

definition Fields :: "string \<Rightarrow> string list" where
  "Fields s = fieldsAux [] s"

function TrimLeftSpace :: "string \<Rightarrow> string" where
  "TrimLeftSpace s = (if spaceWidth s = 0 then s else TrimLeftSpace (drop (spaceWidth s) s))"
  by pat_completeness auto
termination
proof (relation "measure length")
  fix s assume "spaceWidth s \<noteq> 0"
  then show "(drop (spaceWidth s) s, s) \<in> measure length"
    by (cases s) auto
qed simp

declare TrimLeftSpace.simps [simp del]

fun TrimRightSpace :: "string \<Rightarrow> string" where
  "TrimRightSpace [] = []"
| "TrimRightSpace (x # xs) = (if TrimLeftSpace (x # xs) = [] then [] else x # TrimRightSpace xs)"

definition TrimSpace :: "string \<Rightarrow> string" where
  "TrimSpace s = TrimRightSpace (TrimLeftSpace s)"

text \<open>
  A plain byte is an ASCII byte that is not white space. Trimming, splitting into fields and joining
  them again keeps every plain byte.
\<close>

definition plain :: "char \<Rightarrow> bool" where
  "plain c \<longleftrightarrow> (of_char c :: nat) < 128 \<and> (of_char c :: nat) \<notin> {9, 10, 11, 12, 13, 32}"

lemma spaceWidth_cases:
  assumes "spaceWidth (x # xs) = n" and "n \<noteq> 0"
  obtains "n = 1" "\<not> plain x"
    | "n = 2" "\<not> plain x" "\<And>y. y \<in> set (take 1 xs) \<Longrightarrow> \<not> plain y"
    | "n = 3" "\<not> plain x" "\<And>y. y \<in> set (take 2 xs) \<Longrightarrow> \<not> plain y"
proof -
  let ?x = "of_char x :: nat" and ?r = "map of_char xs :: nat list"
  have two: "(\<forall>y\<in>set (take 2 xs). \<not> plain y)"
    if "take 1 ?r = [a]" "128 \<le> a" "2 \<le> length ?r" "128 \<le> ?r ! 1" for a
  proof -
    from that obtain y z zs where "xs = y # z # zs"
      by (cases xs; cases "tl xs") auto
    with that show ?thesis by (auto simp: plain_def)
  qed
  have two': "(\<forall>y\<in>set (take 2 xs). \<not> plain y)"
    if "take 2 ?r = [a, b]" "128 \<le> a" "128 \<le> b" for a b
  proof -
    from that obtain y z zs where "xs = y # z # zs"
      by (cases xs; cases "tl xs") auto
    with that show ?thesis by (auto simp: plain_def)
  qed
  have one: "(\<forall>y\<in>set (take 1 xs). \<not> plain y)" if "take 1 ?r = [a]" "128 \<le> a" for a
    using that by (cases xs) (auto simp: plain_def)
  consider "?x \<in> {9, 10, 11, 12, 13, 32}" "n = 1"
    | "?x = 194" "take 1 ?r \<in> {[133], [160]}" "n = 2"
    | "?x = 225" "take 2 ?r = [154, 128]" "n = 3"
    | "?x = 226" "take 1 ?r = [128]" "2 \<le> length ?r" "128 \<le> ?r ! 1" "n = 3"
    | "?x = 226" "take 2 ?r = [129, 159]" "n = 3"
    | "?x = 227" "take 2 ?r = [128, 128]" "n = 3"
    using assms by (auto simp: spaceWidth_def Let_def split: if_splits)
  then show thesis
  proof cases
    case 1
    then show thesis using that(1) by (auto simp: plain_def)
  next
    case 2
    then show thesis using that(2) one by (auto simp: plain_def)
  next
    case 3
    then show thesis using that(3) two' by (auto simp: plain_def)
  next
    case 4
    then show thesis using that(3) two by (auto simp: plain_def)
  next
    case 5
    then show thesis using that(3) two' by (auto simp: plain_def)
  next
    case 6
    then show thesis using that(3) two' by (auto simp: plain_def)
  qed
qed

lemma spaceWidth_not_plain: "c \<in> set (take (spaceWidth s) s) \<Longrightarrow> \<not> plain c"
proof (cases s)
  case (Cons x xs)
  assume c: "c \<in> set (take (spaceWidth s) s)"
  then have "spaceWidth (x # xs) \<noteq> 0" using Cons by (intro notI) simp
  from spaceWidth_cases [OF refl this] show ?thesis
  proof cases
    case 1
    with c Cons show ?thesis by simp
  next
    case 2
    with c Cons show ?thesis by (auto simp: numeral_2_eq_2)
  next
    case 3
    with c Cons show ?thesis by (auto simp: numeral_3_eq_3 numeral_2_eq_2)
  qed
qed simp

lemma plain_drop_space:
  assumes "c \<in> set s" and "plain c"
  shows "c \<in> set (drop (spaceWidth s) s)"
proof -
  have "c \<in> set (take (spaceWidth s) s) \<union> set (drop (spaceWidth s) s)"
    using assms(1) by (metis append_take_drop_id set_append)
  with spaceWidth_not_plain assms(2) show ?thesis by blast
qed

lemma fieldsAux_plain:
  "plain c \<Longrightarrow> c \<in> set acc \<union> set s \<Longrightarrow> \<exists>w\<in>set (fieldsAux acc s). c \<in> set w"
proof (induction acc s rule: fieldsAux.induct)
  case (1 acc)
  then show ?case by (auto simp: fieldsAux.simps)
next
  case (2 acc x xs)
  show ?case
  proof (cases "spaceWidth (x # xs) = 0")
    case True
    with 2 show ?thesis by (auto simp: fieldsAux.simps)
  next
    case False
    show ?thesis
    proof (cases "c \<in> set acc")
      case True
      with False show ?thesis by (auto simp: fieldsAux.simps)
    next
      case outside: False
      with 2 have "c \<in> set (drop (spaceWidth (x # xs)) (x # xs))"
        using plain_drop_space by auto
      with False 2 show ?thesis by (auto simp: fieldsAux.simps)
    qed
  qed
qed

lemma TrimLeftSpace_plain: "plain c \<Longrightarrow> c \<in> set s \<Longrightarrow> c \<in> set (TrimLeftSpace s)"
proof (induction s rule: TrimLeftSpace.induct)
  case (1 s)
  then show ?case using plain_drop_space by (subst TrimLeftSpace.simps) auto
qed

lemma TrimRightSpace_plain: "plain c \<Longrightarrow> c \<in> set s \<Longrightarrow> c \<in> set (TrimRightSpace s)"
proof (induction s)
  case (Cons x xs)
  then have "TrimLeftSpace (x # xs) \<noteq> []"
    using TrimLeftSpace_plain by (metis empty_iff empty_set)
  with Cons show ?case by auto
qed simp

lemma Join_in: "w \<in> set ws \<Longrightarrow> set w \<subseteq> set (Join c ws)"
  by (induction c ws rule: Join.induct) auto

lemma normalise_plain:
  "plain c \<Longrightarrow> c \<in> set s \<Longrightarrow> c \<in> set (Join CHR '' '' (Fields (TrimSpace s)))"
proof -
  assume c: "plain c" "c \<in> set s"
  then have "c \<in> set (TrimSpace s)"
    by (simp add: TrimSpace_def TrimLeftSpace_plain TrimRightSpace_plain)
  with c(1) obtain w where "w \<in> set (Fields (TrimSpace s))" "c \<in> set w"
    using fieldsAux_plain [of c "[]"] by (auto simp: Fields_def)
  then show ?thesis using Join_in by blast
qed

section \<open>Replacing\<close>

text \<open>\<open>strings.ReplaceAll\<close> for a non-empty old string: leftmost, non-overlapping.\<close>

function ReplaceAll :: "string \<Rightarrow> string \<Rightarrow> string \<Rightarrow> string" where
  "ReplaceAll s old new =
     (case s of
        [] \<Rightarrow> []
      | x # xs \<Rightarrow>
          if old \<noteq> [] \<and> HasPrefix s old then new @ ReplaceAll (drop (length old) s) old new
          else x # ReplaceAll xs old new)"
  by pat_completeness auto
termination
  by (relation "measure (\<lambda>(s, old, new). length s)") auto

declare ReplaceAll.simps [simp del]

lemma ReplaceAll_no_occurrence: "\<not> Contains s old \<Longrightarrow> ReplaceAll s old new = s"
proof (induction s)
  case Nil
  then show ?case by (simp add: ReplaceAll.simps)
next
  case (Cons x xs)
  then show ?case by (subst ReplaceAll.simps) auto
qed

lemma ReplaceAll_keeps: "set s \<subseteq> set (ReplaceAll s old new) \<union> set old"
proof (induction s old new rule: ReplaceAll.induct)
  case (1 s old new)
  show ?case
  proof (cases "old \<noteq> [] \<and> HasPrefix s old")
    case True
    then obtain r where "s = old @ r" "old \<noteq> []" by (auto simp: HasPrefix_iff)
    then obtain x xs where s: "s = x # xs" by (metis append_is_Nil_conv neq_Nil_conv)
    with True "1" have "set (drop (length old) s) \<subseteq>
        set (ReplaceAll (drop (length old) s) old new) \<union> set old" by simp
    moreover have "ReplaceAll s old new = new @ ReplaceAll (drop (length old) s) old new"
      using True s by (subst ReplaceAll.simps) simp
    ultimately show ?thesis using \<open>s = old @ r\<close> by auto
  next
    case False
    show ?thesis
    proof (cases s)
      case (Cons x xs)
      with False "1" have "set xs \<subseteq> set (ReplaceAll xs old new) \<union> set old" by simp
      with False Cons show ?thesis by (subst ReplaceAll.simps) auto
    qed simp
  qed
qed

section \<open>Numbers\<close>

text \<open>
  \<open>strconv.ParseInt s base bitSize\<close> for an explicit base up to ten: an optional sign, at least one
  digit below the base, and a value that fits a signed integer of that size.
\<close>

fun digitsVal :: "int \<Rightarrow> int \<Rightarrow> string \<Rightarrow> int option" where
  "digitsVal base acc [] = Some acc"
| "digitsVal base acc (c # cs) =
     (let d = of_char c - 48 in
      if 0 \<le> d \<and> d < base then digitsVal base (acc * base + d) cs else None)"

definition ParseInt :: "string \<Rightarrow> int \<Rightarrow> nat \<Rightarrow> int option" where
  "ParseInt s base bits =
     (let neg = (s \<noteq> [] \<and> hd s = CHR ''-'');
          ds = (if s \<noteq> [] \<and> (hd s = CHR ''-'' \<or> hd s = CHR ''+'') then tl s else s) in
      if ds = [] then None
      else (case digitsVal base 0 ds of
              None \<Rightarrow> None
            | Some u \<Rightarrow>
                if \<not> neg \<and> u \<ge> 2 ^ (bits - 1) then None
                else if neg \<and> u > 2 ^ (bits - 1) then None
                else Some (if neg then - u else u)))"

definition Atoi :: "string \<Rightarrow> int option" where
  "Atoi s = ParseInt s 10 64"

function natDigits :: "nat \<Rightarrow> string" where
  "natDigits n =
     (if n < 10 then [char_of (48 + n)] else natDigits (n div 10) @ [char_of (48 + n mod 10)])"
  by pat_completeness auto
termination
  by (relation "measure id") auto

declare natDigits.simps [simp del]

definition Itoa :: "int \<Rightarrow> string" where
  "Itoa i = (if i < 0 then CHR ''-'' # natDigits (nat (- i)) else natDigits (nat i))"

lemma natDigits_not_Nil [simp]: "natDigits n \<noteq> []"
  by (subst natDigits.simps) simp

lemma of_char_digit: "n < 10 \<Longrightarrow> (of_char (char_of (48 + n :: nat)) :: int) = 48 + int n"
proof -
  assume n: "n < 10"
  have "(of_char (char_of (48 + n :: nat)) :: int) = int (of_char (char_of (48 + n :: nat)))"
    by (simp only: of_nat_of_char)
  also have "\<dots> = 48 + int n" using n by simp
  finally show ?thesis .
qed

lemma digitsVal_append:
  "digitsVal b acc (xs @ ys) =
     (case digitsVal b acc xs of None \<Rightarrow> None | Some a \<Rightarrow> digitsVal b a ys)"
  by (induction xs arbitrary: acc) (auto simp: Let_def)

lemma digitsVal_natDigits: "digitsVal 10 0 (natDigits n) = Some (int n)"
proof (induction n rule: natDigits.induct)
  case (1 n)
  show ?case
  proof (cases "n < 10")
    case True
    then show ?thesis by (subst natDigits.simps) (simp add: of_char_digit)
  next
    case False
    have d: "(of_char (char_of (48 + n mod 10 :: nat)) :: int) = 48 + int (n mod 10)"
      by (rule of_char_digit) simp
    from False "1" have "digitsVal 10 0 (natDigits (n div 10)) = Some (int (n div 10))" by simp
    with False d show ?thesis
      by (subst natDigits.simps) (simp add: digitsVal_append zdiv_int zmod_int Let_def)
  qed
qed

lemma natDigits_hd: "of_char (hd (natDigits n)) \<in> {48..<58 :: nat}"
proof (induction n rule: natDigits.induct)
  case (1 n)
  then show ?case by (subst natDigits.simps) (auto simp: hd_append)
qed

lemma natDigits_no_sign: "hd (natDigits n) \<noteq> CHR ''-''" "hd (natDigits n) \<noteq> CHR ''+''"
  using natDigits_hd [of n] by auto

text \<open>Printing a machine integer and reading it back gives the same integer.\<close>

lemma Atoi_Itoa:
  assumes "- (2 ^ 63) \<le> i" and "i < 2 ^ 63"
  shows "Atoi (Itoa i) = Some i"
  using assms natDigits_no_sign [of "nat i"]
  by (auto simp: Atoi_def ParseInt_def Itoa_def Let_def digitsVal_natDigits)

section \<open>Words between spaces\<close>

lemma spaceWidth_plain: "plain x \<Longrightarrow> spaceWidth (x # xs) = 0"
  using spaceWidth_cases [of x xs "spaceWidth (x # xs)"] by auto

lemma fieldsAux_word: "list_all plain v \<Longrightarrow> fieldsAux acc (v @ s) = fieldsAux (acc @ v) s"
  by (induction v arbitrary: acc) (simp_all add: fieldsAux.simps spaceWidth_plain)

lemma spaceWidth_space: "spaceWidth (CHR '' '' # xs) = 1"
  by (simp add: spaceWidth_def Let_def)

lemma Fields_word:
  assumes "list_all plain v" and "v \<noteq> []"
  shows "Fields (v @ CHR '' '' # s) = v # Fields s" "Fields v = [v]"
  using assms fieldsAux_word [of v "[]" "CHR '' '' # s"] fieldsAux_word [of v "[]" "[]"]
  by (simp_all add: Fields_def fieldsAux.simps spaceWidth_space)

lemma TrimSpace_plain:
  assumes "s \<noteq> []" and "plain (hd s)" and "plain (last s)"
  shows "TrimSpace s = s"
proof -
  have right: "TrimRightSpace s = s" if "s \<noteq> []" "plain (last s)" for s
    using that
  proof (induction s)
    case (Cons x xs)
    have "TrimLeftSpace (x # xs) \<noteq> []"
      using TrimLeftSpace_plain [OF Cons.prems(2)] last_in_set [of "x # xs"] by (metis empty_iff empty_set list.distinct(1))
    with Cons show ?case by (cases "xs = []") auto
  qed simp
  have "TrimLeftSpace s = s"
    using assms(1,2) by (cases s) (simp_all add: TrimLeftSpace.simps spaceWidth_plain)
  with right [OF assms(1,3)] show ?thesis by (simp add: TrimSpace_def)
qed

section \<open>Paths\<close>

text \<open>\<open>filepath.Clean\<close> and \<open>filepath.Join\<close>; \<open>kept\<close> holds the elements that are kept so far, the last one first.\<close>

fun cleanParts :: "bool \<Rightarrow> string list \<Rightarrow> string list \<Rightarrow> string list" where
  "cleanParts rooted [] kept = rev kept"
| "cleanParts rooted (part # parts) kept =
     (if part = '''' \<or> part = ''.'' then cleanParts rooted parts kept
      else if part = ''..'' then
        (if kept \<noteq> [] \<and> hd kept \<noteq> ''..'' then cleanParts rooted parts (tl kept)
         else if rooted then cleanParts rooted parts kept
         else cleanParts rooted parts (part # kept))
      else cleanParts rooted parts (part # kept))"

definition Clean :: "string \<Rightarrow> string" where
  "Clean path =
     (let rooted = HasPrefix path ''/'';
          cleaned = (if rooted then ''/'' else '''') @ Join CHR ''/'' (cleanParts rooted (Split CHR ''/'' path) []) in
      if cleaned = '''' then ''.'' else cleaned)"

definition JoinPath :: "string list \<Rightarrow> string" where
  "JoinPath elems =
     (let elems = filter (\<lambda>e. e \<noteq> '''') elems in if elems = [] then '''' else Clean (Join CHR ''/'' elems))"

end
