(* ===== verification/Cmd_Guard.thy ===== *)
theory Cmd_Guard
  imports Go_Strings
begin

text \<open>
  \<open>pkg/utils/cmdguard\<close>: the checks that every external command passes before it is executed
  (\<open>exec.go\<close>) and those for \<open>bash -c\<close> pipelines (\<open>exec_pipes.go\<close>). The tables are the package
  variables; \<open>exec.LookPath\<close> is a parameter. Lemmas: which commands are let through, and what is
  certain of a shell script that is.
\<close>

datatype guard_error =
    IllegalChar string char
  | InvalidSlice nat
  | UnknownShell string
  | UnsupportedPart nat string string
  | IllegalSequence string string

section \<open>exec.go\<close>

definition allowedPathList :: "(string \<times> bool) list" where
  "allowedPathList = [(''ddc-helm'', True)]"

definition shellCommandList :: "(string \<times> bool) list" where
  "shellCommandList = [(''bash'', True), (''sh'', True)]"

definition illegalChars :: "char list" where
  "illegalChars =
     [CHR ''&'', CHR ''|'', CHR '';'', CHR ''$'', CHR 0x27, CHR 0x60, CHR ''('', CHR '')'', CHR ''>'']"

text \<open>\<open>filepath.Base\<close>.\<close>

definition Base :: "string \<Rightarrow> string" where
  "Base p =
     (let q = rev (dropWhile (\<lambda>c. c = CHR ''/'') (rev p)) in
      if p = [] then ''.'' else if q = [] then ''/'' else last (Split CHR ''/'' q))"

definition buildPathList ::
  "(string \<Rightarrow> string option) \<Rightarrow> (string \<times> bool) list \<Rightarrow> string \<rightharpoonup> bool" where
  "buildPathList LookPath pathList =
     fold (\<lambda>(name, enabled) targetPath.
         let targetPath' =
           (if Base name = name
            then (case LookPath name of
                    None \<Rightarrow> targetPath
                  | Some path \<Rightarrow> targetPath(path \<mapsto> enabled))
            else targetPath)
         in targetPath'(name \<mapsto> enabled))
       pathList Map.empty"

text \<open>A Go map lookup of a missing key gives the zero value.\<close>

definition enabledIn :: "(string \<rightharpoonup> bool) \<Rightarrow> string \<Rightarrow> bool" where
  "enabledIn m k = (case m k of None \<Rightarrow> False | Some b \<Rightarrow> b)"

fun checkCommandArgs :: "string list \<Rightarrow> guard_error option" where
  "checkCommandArgs [] = None"
| "checkCommandArgs (value # rest) =
     (case List.find (\<lambda>c. c \<in> set value) illegalChars of
        Some c \<Rightarrow> Some (IllegalChar value c)
      | None \<Rightarrow> checkCommandArgs rest)"

section \<open>exec_pipes.go\<close>

datatype CommandValidater = PrefixMatch | ExactMatch

fun validates :: "CommandValidater \<Rightarrow> string \<Rightarrow> string \<Rightarrow> bool" where
  "validates PrefixMatch str pattern = HasPrefix str pattern"
| "validates ExactMatch str pattern = (str = pattern)"

definition AllowedShellCommands :: "(string \<times> CommandValidater) list" where
  "AllowedShellCommands = [(''bash -c'', ExactMatch), (''sh -c'', ExactMatch)]"

definition allowedFirstCommands :: "(string \<times> CommandValidater) list" where
  "allowedFirstCommands =
     [(''ls'', PrefixMatch), (''df'', PrefixMatch), (''mount'', PrefixMatch),
      (''alluxio'', PrefixMatch), (''goosefs'', PrefixMatch), (''ddc-helm'', PrefixMatch)]"

definition allowedPipedCommands :: "(string \<times> CommandValidater) list" where
  "allowedPipedCommands = [(''grep'', PrefixMatch), (''wc -l'', ExactMatch)]"

definition illegalSequences :: "string list" where
  "illegalSequences =
     [''&'', '';'', ''$'', [CHR 0x27], [CHR 0x60], ''('', '')'', ''||'', ''>>'']"

definition allowedExpressions :: "string list" where
  "allowedExpressions = [''${METAURL}'']"

definition isValidCommand :: "string \<Rightarrow> (string \<times> CommandValidater) list \<Rightarrow> bool" where
  "isValidCommand cmd allowedCommands =
     list_ex (\<lambda>(allowedCmd, validaterFn). validates validaterFn cmd allowedCmd) allowedCommands"

definition checkIllegalSequence :: "string \<Rightarrow> guard_error option" where
  "checkIllegalSequence script =
     (let scriptToCheck =
        fold (\<lambda>allowedEnv s. ReplaceAll s allowedEnv ''ALLOWED_ENV'') allowedExpressions script
      in case List.find (\<lambda>illegalSeq. Contains scriptToCheck illegalSeq) illegalSequences of
           Some illegalSeq \<Rightarrow> Some (IllegalSequence script illegalSeq)
         | None \<Rightarrow> None)"

definition splitShellCommand :: "string list \<Rightarrow> guard_error + (string \<times> string)" where
  "splitShellCommand shellCommandSlice =
     (case shellCommandSlice of
        [name, flag, script] \<Rightarrow>
          Inr (Join CHR '' '' (Fields (name @ '' '' @ flag)), script)
      | _ \<Rightarrow> Inl (InvalidSlice (length shellCommandSlice)))"

definition validateShellCommand :: "string \<Rightarrow> guard_error option" where
  "validateShellCommand shellCommand =
     (case map_of AllowedShellCommands shellCommand of
        None \<Rightarrow> Some (UnknownShell shellCommand)
      | Some _ \<Rightarrow> None)"

text \<open>The loop of \<open>validateShellPipeString\<close> over the parts, with their index.\<close>

fun validatePipeParts :: "string \<Rightarrow> nat \<Rightarrow> string list \<Rightarrow> guard_error option" where
  "validatePipeParts whole i [] = None"
| "validatePipeParts whole i (part # parts) =
     (let cmd = Join CHR '' '' (Fields (TrimSpace part));
          validCmd = (if i > 0 then isValidCommand cmd allowedPipedCommands
                      else isValidCommand cmd allowedFirstCommands) in
      if \<not> validCmd then Some (UnsupportedPart (i + 1) cmd whole)
      else case checkIllegalSequence cmd of
             Some err \<Rightarrow> Some err
           | None \<Rightarrow> validatePipeParts whole (i + 1) parts)"

definition validateShellPipeString :: "string \<Rightarrow> guard_error option" where
  "validateShellPipeString pipedCommandStr =
     validatePipeParts pipedCommandStr 0 (Split CHR ''|'' pipedCommandStr)"

definition ValidateShellCommandSlice :: "string list \<Rightarrow> guard_error option" where
  "ValidateShellCommandSlice shellCommandSlice =
     (case splitShellCommand shellCommandSlice of
        Inl err \<Rightarrow> Some err
      | Inr (shellCommand, shellScript) \<Rightarrow>
          (case validateShellCommand shellCommand of
             Some err \<Rightarrow> Some err
           | None \<Rightarrow>
               if Contains shellScript ''|'' then validateShellPipeString shellScript
               else checkIllegalSequence shellScript))"

definition ValidateCommandSlice ::
  "(string \<Rightarrow> string option) \<Rightarrow> string list \<Rightarrow> guard_error option" where
  "ValidateCommandSlice LookPath commandSlice =
     (case commandSlice of
        [] \<Rightarrow> None
      | mainCmd # args \<Rightarrow>
          if enabledIn (buildPathList LookPath allowedPathList) mainCmd then None
          else if enabledIn (buildPathList LookPath shellCommandList) mainCmd
          then ValidateShellCommandSlice commandSlice
          else checkCommandArgs args)"

section \<open>What the guard lets through\<close>

lemma checkCommandArgs_iff:
  "checkCommandArgs args = None \<longleftrightarrow> (\<forall>a\<in>set args. \<forall>c\<in>set illegalChars. c \<notin> set a)"
  by (induction args) (auto simp: case_find_None)

lemma enabledIn_allowedPathList:
  "enabledIn (buildPathList LookPath allowedPathList) cmd \<longleftrightarrow>
     cmd = ''ddc-helm'' \<or> LookPath ''ddc-helm'' = Some cmd"
  by (auto simp: enabledIn_def buildPathList_def allowedPathList_def Base_def Let_def
      split: option.splits)

lemma enabledIn_shellCommandList:
  "enabledIn (buildPathList LookPath shellCommandList) cmd \<longleftrightarrow>
     cmd \<in> {''bash'', ''sh''} \<or> LookPath ''bash'' = Some cmd \<or> LookPath ''sh'' = Some cmd"
  by (auto simp: enabledIn_def buildPathList_def shellCommandList_def Base_def Let_def
      split: option.splits)

lemma isValidCommand_piped:
  "isValidCommand cmd allowedPipedCommands \<longleftrightarrow> HasPrefix cmd ''grep'' \<or> cmd = ''wc -l''"
  by (auto simp: isValidCommand_def allowedPipedCommands_def)

lemma checkIllegalSequence_None:
  "checkIllegalSequence script = None \<longleftrightarrow>
     (\<forall>q\<in>set illegalSequences. \<not> Contains (ReplaceAll script ''${METAURL}'' ''ALLOWED_ENV'') q)"
  by (simp add: checkIllegalSequence_def allowedExpressions_def Let_def case_find_None)

text \<open>The single bytes that are illegal everywhere in a script, and none of which the allowed
  expression contains.\<close>

definition injectionChars :: "char set" where
  "injectionChars = {CHR ''&'', CHR '';'', CHR 0x27, CHR 0x60, CHR ''('', CHR '')''}"

lemma injectionChars_illegal: "c \<in> injectionChars \<Longrightarrow> [c] \<in> set illegalSequences"
  by (auto simp: injectionChars_def illegalSequences_def)

lemma injectionChars_plain: "c \<in> injectionChars \<Longrightarrow> plain c"
  by (auto simp: injectionChars_def plain_def)

lemma injectionChars_not_expression: "c \<in> injectionChars \<Longrightarrow> c \<notin> set ''${METAURL}''"
  by (auto simp: injectionChars_def)

lemma checkIllegalSequence_sound:
  assumes "checkIllegalSequence script = None" and "c \<in> injectionChars"
  shows "c \<notin> set script"
proof
  assume "c \<in> set script"
  then have "c \<in> set (ReplaceAll script ''${METAURL}'' ''ALLOWED_ENV'')"
    using ReplaceAll_keeps injectionChars_not_expression [OF assms(2)] by blast
  then have "Contains (ReplaceAll script ''${METAURL}'' ''ALLOWED_ENV'') [c]" by simp
  with assms injectionChars_illegal show False
    unfolding checkIllegalSequence_None by blast
qed

lemma validatePipeParts_sound:
  "validatePipeParts whole i parts = None \<Longrightarrow> part \<in> set parts \<Longrightarrow>
     checkIllegalSequence (Join CHR '' '' (Fields (TrimSpace part))) = None"
  by (induction whole i parts rule: validatePipeParts.induct)
    (auto simp: Let_def split: if_splits option.splits)

lemma validatePipeParts_piped:
  "validatePipeParts whole i parts = None \<Longrightarrow> 0 < i \<Longrightarrow> part \<in> set parts \<Longrightarrow>
     isValidCommand (Join CHR '' '' (Fields (TrimSpace part))) allowedPipedCommands"
  by (induction whole i parts rule: validatePipeParts.induct)
    (auto simp: Let_def split: if_splits option.splits)

lemma set_Join: "set (Join c ws) \<subseteq> insert c (\<Union>(set ` set ws))"
  by (induction c ws rule: Join.induct) auto

lemma set_Split: "set s \<subseteq> insert c (\<Union>(set ` set (Split c s)))"
  using set_Join [of c "Split c s"] by simp

lemma Split_double_sep: "Contains s [c, c] \<Longrightarrow> [] \<in> set (tl (Split c s))"
proof -
  assume "Contains s [c, c]"
  then obtain a b where s: "s = a @ c # c # b" by (auto simp: Contains_iff)
  have "\<exists>ws. Split c (a @ c # c # b) = ws @ [] # Split c b \<and> ws \<noteq> []"
  proof (induction a)
    case Nil
    show ?case by (rule exI [where x = "[[]]"]) simp
  next
    case (Cons x a)
    then obtain ws where ws: "Split c (a @ c # c # b) = ws @ [] # Split c b" "ws \<noteq> []" by blast
    then obtain w ws' where "ws = w # ws'" by (cases ws) auto
    with ws show ?case
      by (cases "x = c")
        (auto intro: exI [where x = "[] # w # ws'"] exI [where x = "(x # w) # ws'"])
  qed
  then show ?thesis using s by (auto simp: tl_append split: list.splits)
qed

lemma Fields_empty [simp]: "Fields (TrimSpace []) = []"
  by (simp add: TrimSpace_def TrimLeftSpace.simps Fields_def fieldsAux.simps)

lemma ValidateShellCommandSlice_shape:
  assumes "ValidateShellCommandSlice cs = None"
  obtains name flag script where "cs = [name, flag, script]"
    and "Join CHR '' '' (Fields (name @ '' '' @ flag)) \<in> {''bash -c'', ''sh -c''}"
    and "if CHR ''|'' \<in> set script then validateShellPipeString script = None
         else checkIllegalSequence script = None"
proof -
  from assms obtain name flag script where cs: "cs = [name, flag, script]"
    by (auto simp: ValidateShellCommandSlice_def splitShellCommand_def
        split: sum.splits list.splits)
  show thesis
    by (rule that [OF cs])
      (use assms cs in \<open>auto simp: ValidateShellCommandSlice_def splitShellCommand_def
        validateShellCommand_def AllowedShellCommands_def split: option.splits if_splits\<close>)
qed

lemma validateShellPipeString_sound:
  assumes "validateShellPipeString script = None"
  shows "c \<in> injectionChars \<Longrightarrow> c \<notin> set script" and "\<not> Contains script ''||''"
proof -
  have parts: "validatePipeParts script 0 (Split CHR ''|'' script) = None"
    using assms by (simp add: validateShellPipeString_def)
  show "c \<notin> set script" if c: "c \<in> injectionChars"
  proof
    assume "c \<in> set script"
    moreover have "c \<noteq> CHR ''|''" using c by (auto simp: injectionChars_def)
    ultimately obtain part where part: "part \<in> set (Split CHR ''|'' script)" "c \<in> set part"
      using set_Split [of script "CHR ''|''"] by blast
    then show False
      using normalise_plain [OF injectionChars_plain [OF c] part(2)]
        checkIllegalSequence_sound [OF validatePipeParts_sound [OF parts part(1)] c] by blast
  qed
  show "\<not> Contains script ''||''"
  proof
    assume "Contains script ''||''"
    then have empty: "[] \<in> set (tl (Split CHR ''|'' script))" by (rule Split_double_sep)
    obtain p ps where split: "Split CHR ''|'' script = p # ps" by (cases "Split CHR ''|'' script") auto
    with parts have "validatePipeParts script 1 ps = None"
      by (auto simp: Let_def split: if_splits option.splits)
    from validatePipeParts_piped [OF this _ empty [unfolded split list.sel]] show False
      by (simp add: isValidCommand_piped HasPrefix_def)
  qed
qed

lemma normalised_shell_clean:
  assumes "Join CHR '' '' (Fields (name @ '' '' @ flag)) \<in> {''bash -c'', ''sh -c''}"
    and "c \<in> injectionChars"
  shows "c \<notin> set flag"
proof
  assume "c \<in> set flag"
  then obtain w where "w \<in> set (Fields (name @ '' '' @ flag))" "c \<in> set w"
    using fieldsAux_plain [OF injectionChars_plain [OF assms(2)], of "[]" "name @ '' '' @ flag"]
    by (auto simp: Fields_def)
  then have "c \<in> set (Join CHR '' '' (Fields (name @ '' '' @ flag)))" using Join_in by blast
  with assms show False by (auto simp: injectionChars_def)
qed

section \<open>Properties\<close>

text \<open>A part of a pipeline as the guard reads it.\<close>

definition pipePart :: "string \<Rightarrow> string" where
  "pipePart part = Join CHR '' '' (Fields (TrimSpace part))"

text \<open>A part of a script in which a dollar sign stands only in the allowed expression.\<close>

definition dollarFree :: "string \<Rightarrow> bool" where
  "dollarFree script \<longleftrightarrow> CHR ''$'' \<notin> set (ReplaceAll script ''${METAURL}'' ''ALLOWED_ENV'')"

lemma checkIllegalSequence_dollar: "checkIllegalSequence script = None \<Longrightarrow> dollarFree script"
proof -
  assume "checkIllegalSequence script = None"
  then have "\<not> Contains (ReplaceAll script ''${METAURL}'' ''ALLOWED_ENV'') ''$''"
    unfolding checkIllegalSequence_None by (auto simp: illegalSequences_def)
  then show ?thesis by (simp add: dollarFree_def)
qed

text \<open>What a script with a pipe and one without are known to be.\<close>

definition pipelineAllowed :: "string \<Rightarrow> bool" where
  "pipelineAllowed script \<longleftrightarrow>
     isValidCommand (pipePart (hd (Split CHR ''|'' script))) allowedFirstCommands \<and>
     (\<forall>p\<in>set (tl (Split CHR ''|'' script)). HasPrefix (pipePart p) ''grep'' \<or> pipePart p = ''wc -l'') \<and>
     (\<forall>p\<in>set (Split CHR ''|'' script). dollarFree (pipePart p))"

definition scriptAllowed :: "string \<Rightarrow> bool" where
  "scriptAllowed script \<longleftrightarrow>
     set script \<inter> injectionChars = {} \<and> \<not> Contains script ''||'' \<and>
     (if CHR ''|'' \<in> set script then pipelineAllowed script else dollarFree script)"

lemma pipeline_allowed:
  assumes pipe: "validateShellPipeString script = None"
  shows "pipelineAllowed script"
proof -
  obtain p ps where split: "Split CHR ''|'' script = p # ps" by (cases "Split CHR ''|'' script") auto
  with pipe have first: "isValidCommand (pipePart p) allowedFirstCommands" and rest: "validatePipeParts script 1 ps = None"
    by (auto simp: validateShellPipeString_def pipePart_def Let_def split: if_splits option.splits)
  have "dollarFree (pipePart q)" if "q \<in> set (Split CHR ''|'' script)" for q
    using validatePipeParts_sound [OF pipe [unfolded validateShellPipeString_def] that] checkIllegalSequence_dollar
    by (simp add: pipePart_def)
  with first validatePipeParts_piped [OF rest] split show ?thesis
    by (simp add: pipelineAllowed_def isValidCommand_piped pipePart_def)
qed

lemma script_allowed:
  assumes "if CHR ''|'' \<in> set script then validateShellPipeString script = None else checkIllegalSequence script = None"
  shows "scriptAllowed script"
proof (cases "CHR ''|'' \<in> set script")
  case True
  with assms have pipe: "validateShellPipeString script = None" by simp
  then have "set script \<inter> injectionChars = {}" using validateShellPipeString_sound(1) by blast
  with True show ?thesis by (simp add: scriptAllowed_def pipeline_allowed [OF pipe] validateShellPipeString_sound(2) [OF pipe])
next
  case False
  with assms have ok: "checkIllegalSequence script = None" by simp
  then have "set script \<inter> injectionChars = {}" using checkIllegalSequence_sound by blast
  moreover have "\<not> Contains script ''||''" using False by (auto simp: Contains_iff)
  ultimately show ?thesis using False checkIllegalSequence_dollar [OF ok] by (simp add: scriptAllowed_def)
qed

lemma guard_accepted:
  assumes "ValidateCommandSlice LookPath (cmd # args) = None"
    and "cmd \<noteq> ''ddc-helm''" and "LookPath ''ddc-helm'' \<noteq> Some cmd"
  shows "if cmd \<in> {''bash'', ''sh''} \<or> LookPath ''bash'' = Some cmd \<or> LookPath ''sh'' = Some cmd
    then \<exists>flag script. args = [flag, script] \<and> Join CHR '' '' (Fields (cmd @ '' '' @ flag)) \<in> {''bash -c'', ''sh -c''} \<and>
      set flag \<inter> injectionChars = {} \<and> scriptAllowed script
    else \<forall>a\<in>set args. set a \<inter> set illegalChars = {}"
proof (cases "enabledIn (buildPathList LookPath shellCommandList) cmd")
  case False
  with assms have "checkCommandArgs args = None"
    by (simp add: ValidateCommandSlice_def enabledIn_allowedPathList split: if_splits)
  with False show ?thesis by (auto simp: checkCommandArgs_iff enabledIn_shellCommandList)
next
  case True
  with assms have "ValidateShellCommandSlice (cmd # args) = None"
    by (simp add: ValidateCommandSlice_def enabledIn_allowedPathList split: if_splits)
  then obtain flag script where args: "args = [flag, script]"
    and sh: "Join CHR '' '' (Fields (cmd @ '' '' @ flag)) \<in> {''bash -c'', ''sh -c''}"
    and ok: "if CHR ''|'' \<in> set script then validateShellPipeString script = None else checkIllegalSequence script = None"
    by (rule ValidateShellCommandSlice_shape) auto
  have "set flag \<inter> injectionChars = {}" using normalised_shell_clean [OF sh] by blast
  with True args sh script_allowed [OF ok] show ?thesis by (simp add: enabledIn_shellCommandList)
qed

lemma guard_clean:
  assumes "ValidateCommandSlice LookPath (cmd # args) = None"
    and "cmd \<noteq> ''ddc-helm''" and "LookPath ''ddc-helm'' \<noteq> Some cmd"
    and "a \<in> set args" and "c \<in> injectionChars"
  shows "c \<notin> set a"
proof -
  have "injectionChars \<subseteq> set illegalChars" by (auto simp: injectionChars_def illegalChars_def)
  with guard_accepted [OF assms(1-3)] assms(4,5) show ?thesis by (auto simp: scriptAllowed_def split: if_splits)
qed

text \<open>
  C39. What passes the guard, unless it is the whitelisted helm binary. A command that is no shell has no argument with one of
  the bytes \<open>& | ; $ ' ` ( ) >\<close>. A shell is called as \<open>bash -c\<close> or \<open>sh -c\<close> with one script; neither the flag nor the
  script has one of the bytes \<open>& ; ' ` ( )\<close>, a dollar sign stands only in the expression of the meta data URL, and there is no
  \<open>||\<close>. If the script is a pipeline, it starts with a whitelisted command and feeds only into \<open>grep\<close> or exactly \<open>wc -l\<close>.
  Line breaks, double quotes, backslashes and a single redirection are not among what is kept out of a script.
\<close>

theorem guard_blocks_injection:
  assumes "ValidateCommandSlice LookPath (cmd # args) = None"
    and "cmd \<noteq> ''ddc-helm''" and "LookPath ''ddc-helm'' \<noteq> Some cmd"
  shows "if cmd \<in> {''bash'', ''sh''} \<or> LookPath ''bash'' = Some cmd \<or> LookPath ''sh'' = Some cmd
    then \<exists>flag script. args = [flag, script] \<and> Join CHR '' '' (Fields (cmd @ '' '' @ flag)) \<in> {''bash -c'', ''sh -c''} \<and>
      set flag \<inter> injectionChars = {} \<and> scriptAllowed script
    else \<forall>a\<in>set args. set a \<inter> set illegalChars = {}"
  by (rule guard_accepted [OF assms])

lemma witness_guard_input:
  "ValidateCommandSlice (\<lambda>_. None) [''bash'', ''-c'', ''ls /data | grep x | wc -l''] = None"
  by code_simp

theorem guard_blocks_injection_witness:
  "scriptAllowed ''ls /data | grep x | wc -l'' \<and> set ''/data'' \<inter> set illegalChars = {}"
proof
  show "scriptAllowed ''ls /data | grep x | wc -l''"
    using guard_blocks_injection [OF witness_guard_input] by simp
  have "ValidateCommandSlice (\<lambda>_. None) [''umount'', ''/data''] = None" by code_simp
  from guard_blocks_injection [OF this] show "set ''/data'' \<inter> set illegalChars = {}" by simp
qed

text \<open>
  The check of a script without a pipe is a black list of bytes only: every such script is let
  through, whatever commands it runs and however many lines it has, since a line break is not on
  the list.
\<close>

theorem guard_accepts_multiline:
  assumes "\<forall>c\<in>set script. c \<notin> set illegalChars"
  shows "ValidateShellCommandSlice [''bash'', ''-c'', script] = None"
proof -
  have illegal: "list_all (list_ex (\<lambda>c. c \<in> set illegalChars))
      (illegalSequences @ [''|'', ''${METAURL}''])"
    by code_simp
  have no: "\<not> Contains script q" if that: "q \<in> set (illegalSequences @ [''|'', ''${METAURL}''])" for q
  proof
    assume "Contains script q"
    then have "set q \<subseteq> set script" by (auto simp: Contains_iff)
    moreover have "\<exists>c\<in>set q. c \<in> set illegalChars"
      using bspec [OF illegal [unfolded list_all_iff] that] by (simp only: list_ex_iff)
    ultimately show False using assms by blast
  qed
  have "checkIllegalSequence script = None"
    using no by (simp add: checkIllegalSequence_None ReplaceAll_no_occurrence)
  moreover have "splitShellCommand [''bash'', ''-c'', script] = Inr (''bash -c'', script)"
    by (simp add: splitShellCommand_def) code_simp
  moreover have "validateShellCommand ''bash -c'' = None" by code_simp
  ultimately show ?thesis using no [of "''|''"]
    by (simp add: ValidateShellCommandSlice_def)
qed

theorem guard_accepts_multiline_witness:
  "ValidateShellCommandSlice [''bash'', ''-c'', ''ls'' @ [CHR 0x0A] @ ''reboot''] = None"
  by (rule guard_accepts_multiline) (simp add: illegalChars_def)

end
