(* ===== verification/Mount_Info.thy ===== *)
theory Mount_Info
  imports Go_Strings "HOL-Library.AList"
begin

text \<open>
  \<open>pkg/utils/mountinfo\<close>: the parser of \<open>/proc/self/mountinfo\<close> (\<open>mountinfo.go\<close>) and the search
  for bind mounts that lost their FUSE mount (\<open>mountpoint.go\<close>). The file is given as the list of
  lines the scanner yields; a Go map is an association list whose order is the order in which
  \<open>range\<close> visits it. Lemmas: what a parsed line and the table of mounts hold, and which mounts are
  reported broken.
\<close>

section \<open>mountinfo.go\<close>

record Mount =
  Subtree :: string
  MountPath :: string
  FilesystemType :: string
  PeerGroups :: "int set"
  ReadOnly :: bool
  Count :: nat

definition newMount :: Mount where
  "newMount = \<lparr>Subtree = '''', MountPath = '''', FilesystemType = '''', PeerGroups = {},
               ReadOnly = False, Count = 0\<rparr>"

text \<open>\<open>uint8(parsed)\<close> keeps the low byte of the parsed number.\<close>

fun unescapeString :: "string \<Rightarrow> string" where
  "unescapeString [] = []"
| "unescapeString [b] = [b]"
| "unescapeString [b, c] = [b, c]"
| "unescapeString [b, c, d] = [b, c, d]"
| "unescapeString (b # c # d # e # rest) =
     (case if b = CHR 0x5C then ParseInt [c, d, e] 8 8 else None of
        Some parsed \<Rightarrow> char_of (nat (parsed mod 256)) # unescapeString rest
      | None \<Rightarrow> b # unescapeString (c # d # e # rest))"

definition peerGroupFromString :: "string \<Rightarrow> goerr + (string \<times> int)" where
  "peerGroupFromString str =
     (case Split CHR '':'' str of
        [tag, grp] \<Rightarrow>
          if tag \<noteq> ''shared'' \<and> tag \<noteq> ''master''
          then Inl (Err (tag @ '' is not a legal peer group tag''))
          else (case Atoi grp of
                  None \<Rightarrow> Inl (Err (''failed to atoi '' @ grp))
                | Some g \<Rightarrow> Inr (tag, g))
      | _ \<Rightarrow> Inl (Err (str @ '' is not a peer group tag'')))"

text \<open>
  The loop over the optional fields: the peer groups and what follows, from the separator on;
  \<open>None\<close> when a field is no peer group or there is no separator.
\<close>

fun optionalFields :: "string list \<Rightarrow> int set \<Rightarrow> (int set \<times> string list) option" where
  "optionalFields [] groups = None"
| "optionalFields (f # fs) groups =
     (if f = ''-'' then Some (groups, f # fs)
      else case peerGroupFromString f of
             Inl _ \<Rightarrow> None
           | Inr (tag, g) \<Rightarrow>
               optionalFields fs
                 (if tag = ''shared'' \<or> tag = ''master'' then insert g groups else groups))"

definition parseMountInfoLine :: "string \<Rightarrow> Mount option" where
  "parseMountInfoLine line =
     (let fields = Split CHR '' '' line in
      if length fields < 10 then None
      else case optionalFields (drop 6 fields) {} of
             None \<Rightarrow> None
           | Some (groups, rest) \<Rightarrow>
               if length rest < 4 then None
               else Some \<lparr>Subtree = unescapeString (fields ! 3),
                          MountPath = unescapeString (fields ! 4),
                          FilesystemType = unescapeString (rest ! 1),
                          PeerGroups = groups,
                          ReadOnly = (''ro'' \<in> set (Split CHR '','' (fields ! 5))),
                          Count = 1\<rparr>)"

text \<open>One round of the loop of \<open>readMountInfo\<close>, and the loop.\<close>

definition readMountLine :: "string \<Rightarrow> (string \<times> Mount) list \<Rightarrow> (string \<times> Mount) list" where
  "readMountLine line mountsByPath =
     (case parseMountInfoLine line of
        None \<Rightarrow> mountsByPath
      | Some mnt \<Rightarrow>
          if PeerGroups mnt = {} then mountsByPath
          else AList.update (MountPath mnt)
                 (case map_of mountsByPath (MountPath mnt) of
                    Some oldMnt \<Rightarrow> mnt\<lparr>Count := Count oldMnt + 1\<rparr>
                  | None \<Rightarrow> mnt)
                 mountsByPath)"

definition readMountInfo :: "string list \<Rightarrow> (string \<times> Mount) list" where
  "readMountInfo lines = fold readMountLine lines []"

section \<open>mountpoint.go\<close>

record MountPoint =
  mpSourcePath :: string
  mpMountPath :: string
  mpFilesystemType :: string
  mpReadOnly :: bool
  mpCount :: nat
  mpNamespacedDatasetName :: string

text \<open>\<open>path.Clean\<close> and \<open>path.Join\<close> of the standard library.\<close>

definition cleanStep :: "bool \<Rightarrow> string \<Rightarrow> string list \<Rightarrow> string list" where
  "cleanStep rooted elem stack =
     (if elem = '''' \<or> elem = ''.'' then stack
      else if elem = ''..'' then
        (if stack \<noteq> [] \<and> last stack \<noteq> ''..'' then butlast stack
         else if rooted then stack else stack @ [''..''])
      else stack @ [elem])"

definition path_Clean :: "string \<Rightarrow> string" where
  "path_Clean p =
     (let rooted = (p \<noteq> [] \<and> hd p = CHR ''/'');
          stack = fold (cleanStep rooted) (Split CHR ''/'' p) [] in
      if rooted then CHR ''/'' # Join CHR ''/'' stack
      else if stack = [] then ''.'' else Join CHR ''/'' stack)"

definition path_Join :: "string list \<Rightarrow> string" where
  "path_Join elems =
     (let ne = filter (\<lambda>e. e \<noteq> []) elems in
      if ne = [] then '''' else path_Clean (Join CHR ''/'' ne))"

definition globalName :: "string \<Rightarrow> string \<Rightarrow> string option" where
  "globalName mountRoot k =
     (if Contains k mountRoot then
        let fields = Split CHR ''/'' k in
        if length fields < 6 then None else Some (fields ! 3 @ ''-'' @ fields ! 4)
      else None)"

definition getGlobalMounts :: "string \<Rightarrow> (string \<times> Mount) list \<Rightarrow> string \<rightharpoonup> Mount" where
  "getGlobalMounts mountRoot mountByPath =
     fold (\<lambda>(k, v) globalMountByName.
         case globalName mountRoot k of
           None \<Rightarrow> globalMountByName
         | Some namespacedName \<Rightarrow> globalMountByName(namespacedName \<mapsto> v))
       mountByPath Map.empty"

text \<open>
  The names under which one mount path is recorded by the body of the loop of \<open>getBindMounts\<close>: by
  the CSI volume path, and by the sub-path mount. A too short path ends the body early
  (\<open>continue\<close>).
\<close>

definition bindNames :: "string \<Rightarrow> string list" where
  "bindNames k =
     (let fields = Split CHR ''/'' k;
          csi = Contains k ''kubernetes.io~csi'' \<and> Contains k ''mount'';
          sub = Contains k ''volume-subpaths'' in
      if csi \<and> length fields < 3 then []
      else (if csi then [fields ! (length fields - 2)] else []) @
           (if sub \<and> length fields \<ge> 4 then [fields ! (length fields - 3)] else []))"

definition appendAt :: "string \<Rightarrow> Mount \<Rightarrow> (string \<times> Mount list) list \<Rightarrow> (string \<times> Mount list) list"
  where
  "appendAt name m binds =
     AList.update name ((case map_of binds name of None \<Rightarrow> [] | Some ms \<Rightarrow> ms) @ [m]) binds"

definition getBindMounts :: "(string \<times> Mount) list \<Rightarrow> (string \<times> Mount list) list" where
  "getBindMounts mountByPath =
     fold (\<lambda>(k, m) binds. fold (\<lambda>name b. appendAt name m b) (bindNames k) binds) mountByPath []"

definition IntersectIntegerSets :: "int set \<Rightarrow> int set \<Rightarrow> int set" where
  "IntersectIntegerSets s1 s2 = {x \<in> s1. x \<in> s2}"

definition getBrokenBindMounts ::
  "(string \<rightharpoonup> Mount) \<Rightarrow> (string \<times> Mount list) list \<Rightarrow> MountPoint list" where
  "getBrokenBindMounts globalMountByName bindMountByName =
     concat (map (\<lambda>(name, bindMounts).
       case globalMountByName name of
         None \<Rightarrow> []
       | Some globalMount \<Rightarrow>
           map (\<lambda>bindMount.
               \<lparr>mpSourcePath = path_Join [MountPath globalMount, Subtree bindMount],
                mpMountPath = MountPath bindMount,
                mpFilesystemType = FilesystemType bindMount,
                mpReadOnly = ReadOnly bindMount,
                mpCount = Count bindMount,
                mpNamespacedDatasetName = name\<rparr>)
             (filter (\<lambda>bindMount.
                 IntersectIntegerSets (PeerGroups bindMount) (PeerGroups globalMount) = {})
               bindMounts))
       bindMountByName)"

definition GetBrokenMountPoints :: "string \<Rightarrow> (string \<times> Mount) list \<Rightarrow> MountPoint list" where
  "GetBrokenMountPoints mountRoot mountByPath =
     getBrokenBindMounts (getGlobalMounts mountRoot mountByPath) (getBindMounts mountByPath)"

section \<open>Lemmas on the table of mounts\<close>

text \<open>The mount a line contributes, if any.\<close>

definition sharedMount :: "string \<Rightarrow> Mount option" where
  "sharedMount line =
     (case parseMountInfoLine line of
        None \<Rightarrow> None
      | Some m \<Rightarrow> if PeerGroups m = {} then None else Some m)"

definition mountsOn :: "string \<Rightarrow> string list \<Rightarrow> Mount list" where
  "mountsOn p lines = filter (\<lambda>m. MountPath m = p) (List.map_filter sharedMount lines)"

lemma mountsOn_snoc:
  "mountsOn p (lines @ [l]) =
     mountsOn p lines @
       (case sharedMount l of None \<Rightarrow> [] | Some m \<Rightarrow> if MountPath m = p then [m] else [])"
  by (auto simp: mountsOn_def map_filter_def split: option.splits)

lemma parsed_Count: "parseMountInfoLine l = Some m \<Longrightarrow> Count m = 1"
  by (auto simp: parseMountInfoLine_def Let_def split: if_splits option.splits prod.splits)

lemma sharedMount_Count: "sharedMount l = Some m \<Longrightarrow> Count m = 1"
  by (auto simp: sharedMount_def parsed_Count split: option.splits if_splits)

lemma readMountLine_map_of:
  "map_of (readMountLine l ms) p =
     (case sharedMount l of
        None \<Rightarrow> map_of ms p
      | Some m \<Rightarrow>
          if MountPath m = p
          then Some (case map_of ms p of Some old \<Rightarrow> m\<lparr>Count := Count old + 1\<rparr> | None \<Rightarrow> m)
          else map_of ms p)"
  by (auto simp: readMountLine_def sharedMount_def AList.update_conv' split: option.splits)

lemma readMountInfo_map_of:
  "map_of (readMountInfo lines) p =
     (if mountsOn p lines = [] then None
      else Some ((last (mountsOn p lines))\<lparr>Count := length (mountsOn p lines)\<rparr>))"
proof (induction lines rule: rev_induct)
  case Nil
  then show ?case by (simp add: readMountInfo_def mountsOn_def map_filter_def)
next
  case (snoc l lines)
  have step: "map_of (readMountInfo (lines @ [l])) p =
      map_of (readMountLine l (readMountInfo lines)) p"
    by (simp add: readMountInfo_def)
  show ?case
  proof (cases "sharedMount l")
    case None
    with step snoc show ?thesis by (simp add: readMountLine_map_of mountsOn_snoc)
  next
    case (Some m)
    then have "m\<lparr>Count := 1\<rparr> = m" using sharedMount_Count [OF Some] by simp
    with Some step snoc show ?thesis
      by (cases "mountsOn p lines = []"; cases "MountPath m = p")
        (simp_all add: readMountLine_map_of mountsOn_snoc)
  qed
qed

section \<open>Lemmas on the search for broken mounts\<close>

lemma appendAt_map_of:
  "map_of (appendAt name m b) n =
     (if n = name then Some ((case map_of b n of None \<Rightarrow> [] | Some ms \<Rightarrow> ms) @ [m]) else map_of b n)"
  by (simp add: appendAt_def AList.update_conv')

text \<open>\<open>boundTo b n\<close>: the mounts recorded under a name.\<close>

definition boundTo :: "(string \<times> Mount list) list \<Rightarrow> string \<Rightarrow> Mount list" where
  "boundTo b n = (case map_of b n of None \<Rightarrow> [] | Some ms \<Rightarrow> ms)"

lemma boundTo_appendAt: "boundTo (appendAt name m b) n = boundTo b n @ (if n = name then [m] else [])"
  by (simp add: boundTo_def appendAt_map_of)

lemma boundTo_names:
  "set (boundTo (fold (\<lambda>name b. appendAt name m b) ns b) n) =
     set (boundTo b n) \<union> (if n \<in> set ns then {m} else {})"
  by (induction ns arbitrary: b) (auto simp: boundTo_appendAt)

lemma boundTo_getBindMounts_aux:
  "set (boundTo (fold (\<lambda>(k, m) binds. fold (\<lambda>name b. appendAt name m b) (bindNames k) binds) es b) n) =
     set (boundTo b n) \<union> {m. \<exists>k. (k, m) \<in> set es \<and> n \<in> set (bindNames k)}"
  by (induction es arbitrary: b) (auto simp: boundTo_names split: if_splits)

lemma boundTo_getBindMounts:
  "set (boundTo (getBindMounts es) n) = {m. \<exists>k. (k, m) \<in> set es \<and> n \<in> set (bindNames k)}"
  unfolding getBindMounts_def boundTo_getBindMounts_aux by (simp add: boundTo_def)

lemma distinct_appendAt: "distinct (map fst b) \<Longrightarrow> distinct (map fst (appendAt name m b))"
  by (simp add: appendAt_def distinct_update)

lemma distinct_names:
  "distinct (map fst b) \<Longrightarrow> distinct (map fst (fold (\<lambda>name b. appendAt name m b) ns b))"
  by (induction ns arbitrary: b) (auto simp: distinct_appendAt)

lemma distinct_getBindMounts: "distinct (map fst (getBindMounts es))"
proof -
  have "distinct (map fst b) \<Longrightarrow>
      distinct (map fst (fold (\<lambda>(k, m) binds. fold (\<lambda>name b. appendAt name m b) (bindNames k) binds) es b))"
    for b
    by (induction es arbitrary: b) (auto simp: distinct_names)
  then show ?thesis by (simp add: getBindMounts_def)
qed

lemma getBindMounts_entry:
  "(\<exists>ms. (n, ms) \<in> set (getBindMounts es) \<and> m \<in> set ms) \<longleftrightarrow>
     (\<exists>k. (k, m) \<in> set es \<and> n \<in> set (bindNames k))"
proof -
  have "(\<exists>ms. (n, ms) \<in> set (getBindMounts es) \<and> m \<in> set ms) \<longleftrightarrow>
      m \<in> set (boundTo (getBindMounts es) n)"
  proof (cases "map_of (getBindMounts es) n")
    case None
    then have "n \<notin> fst ` set (getBindMounts es)" by (simp add: map_of_eq_None_iff)
    then have "(n, ms) \<notin> set (getBindMounts es)" for ms by (metis fst_conv image_eqI)
    moreover have "boundTo (getBindMounts es) n = []" by (simp add: boundTo_def None)
    ultimately show ?thesis by simp
  next
    case (Some ms)
    then have "(n, ms') \<in> set (getBindMounts es) \<longleftrightarrow> ms' = ms" for ms'
      using map_of_eq_Some_iff [OF distinct_getBindMounts, of es n] by (metis option.inject)
    with Some show ?thesis by (simp add: boundTo_def)
  qed
  then show ?thesis using boundTo_getBindMounts [of es n] by blast
qed

text \<open>Where the global mounts have different names, the last entry visited does not matter.\<close>

definition uniqueGlobals :: "string \<Rightarrow> (string \<times> Mount) list \<Rightarrow> bool" where
  "uniqueGlobals mountRoot es \<longleftrightarrow>
     (\<forall>(k, v)\<in>set es. \<forall>(k', v')\<in>set es.
        globalName mountRoot k = globalName mountRoot k' \<longrightarrow> globalName mountRoot k \<noteq> None \<longrightarrow> v = v')"

definition globalsOf :: "string \<Rightarrow> (string \<times> Mount) list \<Rightarrow> (string \<times> Mount) list" where
  "globalsOf r es = List.map_filter (\<lambda>(k, v). map_option (\<lambda>n. (n, v)) (globalName r k)) es"

lemma globalsOf_iff:
  "(n, v) \<in> set (globalsOf r es) \<longleftrightarrow> (\<exists>k. (k, v) \<in> set es \<and> globalName r k = Some n)"
  by (induction es) (auto simp: globalsOf_def map_filter_def)

lemma getGlobalMounts_map_of: "getGlobalMounts r es = map_of (rev (globalsOf r es))"
proof -
  have "fold (\<lambda>(k, v) g. case globalName r k of None \<Rightarrow> g | Some n \<Rightarrow> g(n \<mapsto> v)) es g =
      g ++ map_of (rev (globalsOf r es))" for g
    by (induction es arbitrary: g)
      (auto simp: globalsOf_def map_filter_def split: option.splits)
  then show ?thesis by (simp add: getGlobalMounts_def)
qed

lemma getGlobalMounts_iff:
  assumes "uniqueGlobals r es"
  shows "getGlobalMounts r es n = Some v \<longleftrightarrow> (\<exists>k. (k, v) \<in> set es \<and> globalName r k = Some n)"
proof
  assume "getGlobalMounts r es n = Some v"
  then have "(n, v) \<in> set (globalsOf r es)"
    unfolding getGlobalMounts_map_of by (auto dest: map_of_SomeD)
  then show "\<exists>k. (k, v) \<in> set es \<and> globalName r k = Some n" by (simp add: globalsOf_iff)
next
  assume k: "\<exists>k. (k, v) \<in> set es \<and> globalName r k = Some n"
  then have "(n, v) \<in> set (globalsOf r es)" by (simp add: globalsOf_iff)
  then have "n \<in> fst ` set (rev (globalsOf r es))" by force
  then obtain v' where v': "getGlobalMounts r es n = Some v'"
    unfolding getGlobalMounts_map_of by (metis map_of_eq_None_iff not_None_eq)
  then have "(n, v') \<in> set (globalsOf r es)"
    unfolding getGlobalMounts_map_of by (auto dest: map_of_SomeD)
  then have "\<exists>k. (k, v') \<in> set es \<and> globalName r k = Some n" by (simp add: globalsOf_iff)
  with k assms have "v = v'" unfolding uniqueGlobals_def by fastforce
  with v' show "getGlobalMounts r es n = Some v" by simp
qed

lemma getBrokenBindMounts_iff:
  "p \<in> set (getBrokenBindMounts globals binds) \<longleftrightarrow>
     (\<exists>name ms bindMount globalMount.
        (name, ms) \<in> set binds \<and> bindMount \<in> set ms \<and> globals name = Some globalMount \<and>
        PeerGroups bindMount \<inter> PeerGroups globalMount = {} \<and>
        p = \<lparr>mpSourcePath = path_Join [MountPath globalMount, Subtree bindMount],
             mpMountPath = MountPath bindMount, mpFilesystemType = FilesystemType bindMount,
             mpReadOnly = ReadOnly bindMount, mpCount = Count bindMount,
             mpNamespacedDatasetName = name\<rparr>)"
proof -
  have inter: "IntersectIntegerSets A B = A \<inter> B" for A B
    by (auto simp: IntersectIntegerSets_def)
  show ?thesis (is "?l \<longleftrightarrow> ?r")
  proof
    assume ?l
    then show ?r
      by (clarsimp simp: getBrokenBindMounts_def inter split: option.splits) metis
  next
    assume ?r
    then obtain name ms b g where *: "(name, ms) \<in> set binds" "b \<in> set ms"
        "globals name = Some g" "PeerGroups b \<inter> PeerGroups g = {}"
      and p: "p = \<lparr>mpSourcePath = path_Join [MountPath g, Subtree b],
             mpMountPath = MountPath b, mpFilesystemType = FilesystemType b,
             mpReadOnly = ReadOnly b, mpCount = Count b, mpNamespacedDatasetName = name\<rparr>"
      by blast
    show ?l
      unfolding getBrokenBindMounts_def set_concat set_map p
      by (rule UN_I, rule imageI, rule *(1)) (use * in \<open>simp add: inter\<close>)
  qed
qed

definition brokenPoint :: "string \<Rightarrow> Mount \<Rightarrow> Mount \<Rightarrow> MountPoint" where
  "brokenPoint name g b =
     \<lparr>mpSourcePath = path_Join [MountPath g, Subtree b], mpMountPath = MountPath b,
      mpFilesystemType = FilesystemType b, mpReadOnly = ReadOnly b, mpCount = Count b,
      mpNamespacedDatasetName = name\<rparr>"

lemma broken_mounts:
  assumes "uniqueGlobals r es"
  shows "p \<in> set (GetBrokenMountPoints r es) \<longleftrightarrow>
     (\<exists>name b g. (\<exists>k. (k, g) \<in> set es \<and> globalName r k = Some name) \<and>
        (\<exists>k'. (k', b) \<in> set es \<and> name \<in> set (bindNames k')) \<and> PeerGroups b \<inter> PeerGroups g = {} \<and>
        p = brokenPoint name g b)"
proof -
  have "p \<in> set (GetBrokenMountPoints r es) \<longleftrightarrow>
     (\<exists>name b g. (\<exists>ms. (name, ms) \<in> set (getBindMounts es) \<and> b \<in> set ms) \<and>
        getGlobalMounts r es name = Some g \<and> PeerGroups b \<inter> PeerGroups g = {} \<and>
        p = brokenPoint name g b)"
    unfolding GetBrokenMountPoints_def getBrokenBindMounts_iff brokenPoint_def by blast
  then show ?thesis
    unfolding getBindMounts_entry getGlobalMounts_iff [OF assms] by blast
qed

section \<open>Properties\<close>

text \<open>The escaping of \<open>seq_path\<close> of the kernel: the four bytes its comment names, as three octal digits.\<close>

fun octalOf :: "char \<Rightarrow> string option" where
  "octalOf c =
     (if c = CHR '' '' then Some ''040'' else if c = CHR 0x09 then Some ''011''
      else if c = CHR 0x0A then Some ''012'' else if c = CHR 0x5C then Some ''134'' else None)"

fun kernelEscape :: "string \<Rightarrow> string" where
  "kernelEscape [] = []"
| "kernelEscape (c # cs) =
     (case octalOf c of Some ds \<Rightarrow> CHR 0x5C # ds @ kernelEscape cs | None \<Rightarrow> c # kernelEscape cs)"

lemma unescape_plain: "b \<noteq> CHR 0x5C \<Longrightarrow> unescapeString (b # rest) = b # unescapeString rest"
  by (cases "b # rest" rule: unescapeString.cases) auto

lemma parse_octal:
  "ParseInt ''040'' 8 8 = Some 32" "ParseInt ''011'' 8 8 = Some 9"
  "ParseInt ''012'' 8 8 = Some 10" "ParseInt ''134'' 8 8 = Some 92"
  by code_simp+

lemma char_octal:
  "(char_of (32::nat) :: char) = CHR '' ''" "(char_of (9::nat) :: char) = CHR 0x09"
  "(char_of (10::nat) :: char) = CHR 0x0A" "(char_of (92::nat) :: char) = CHR 0x5C"
  by code_simp+

text \<open>
  Unescaping exactly inverts what the kernel does to the paths and names of the table.
\<close>

theorem unescape_kernelEscape: "unescapeString (kernelEscape s) = s"
  by (induction s)
    (auto simp: unescape_plain parse_octal char_octal split: option.splits if_splits)

text \<open>
  The table of mounts has, for each path, the last mount on it in mount order, and its count is
  the number of shared or slave mounts stacked on that path; lines that are malformed or that have no
  peer group leave it alone.
\<close>

theorem readMountInfo_table:
  "map_of (readMountInfo lines) p =
     (let ms = filter (\<lambda>m. PeerGroups m \<noteq> {} \<and> MountPath m = p)
                 (List.map_filter parseMountInfoLine lines) in
      if ms = [] then None else Some ((last ms)\<lparr>Count := length ms\<rparr>))"
proof -
  have "mountsOn p lines = filter (\<lambda>m. PeerGroups m \<noteq> {} \<and> MountPath m = p)
      (List.map_filter parseMountInfoLine lines)"
    by (induction lines)
      (auto simp: mountsOn_def map_filter_def sharedMount_def split: option.splits)
  then show ?thesis by (simp add: readMountInfo_map_of Let_def)
qed

text \<open>
  C34. Where no two global mounts share a name, the mounts reported broken are exactly the bind
  mounts (CSI volume paths and sub-paths) whose peer groups are disjoint from those of the global
  mount of the same name, each with its count and with the source path below the global mount; the
  order in which the maps are visited does not matter.
\<close>

theorem GetBrokenMountPoints_spec:
  assumes "uniqueGlobals r es" and "set es' = set es"
  shows "set (GetBrokenMountPoints r es') =
     {brokenPoint name g b | k g k' b name.
      (k, g) \<in> set es \<and> globalName r k = Some name \<and>
      (k', b) \<in> set es \<and> name \<in> set (bindNames k') \<and> PeerGroups b \<inter> PeerGroups g = {}}"
proof -
  have u: "uniqueGlobals r es'" using assms by (simp add: uniqueGlobals_def)
  show ?thesis
    by (rule set_eqI, simp only: broken_mounts [OF u] assms(2)) blast
qed

definition exampleTable :: "(string \<times> Mount) list" where
  "exampleTable = readMountInfo
     [''1 0 0:1 / /runtime-mnt/juicefs/default/demo/juicefs-fuse rw shared:475 - fuse.juicefs J rw'',
      ''2 0 0:1 / /var/lib/kubelet/pods/u/volumes/kubernetes.io~csi/default-demo/mount rw shared:7 - fuse.juicefs J rw'']"

lemma exampleTable_value:
  "exampleTable =
    [(''/runtime-mnt/juicefs/default/demo/juicefs-fuse'',
      \<lparr>Subtree = ''/'', MountPath = ''/runtime-mnt/juicefs/default/demo/juicefs-fuse'',
       FilesystemType = ''fuse.juicefs'', PeerGroups = {475}, ReadOnly = False, Count = 1\<rparr>),
     (''/var/lib/kubelet/pods/u/volumes/kubernetes.io~csi/default-demo/mount'',
      \<lparr>Subtree = ''/'',
       MountPath = ''/var/lib/kubelet/pods/u/volumes/kubernetes.io~csi/default-demo/mount'',
       FilesystemType = ''fuse.juicefs'', PeerGroups = {7}, ReadOnly = False, Count = 1\<rparr>)]"
  by code_simp

lemma example_unique: "uniqueGlobals ''/runtime-mnt/juicefs'' exampleTable"
  unfolding exampleTable_value by code_simp

lemma example_names:
  "globalName ''/runtime-mnt/juicefs'' ''/runtime-mnt/juicefs/default/demo/juicefs-fuse'' =
     Some ''default-demo''"
  "''default-demo'' \<in>
     set (bindNames ''/var/lib/kubelet/pods/u/volumes/kubernetes.io~csi/default-demo/mount'')"
  by code_simp+

theorem GetBrokenMountPoints_spec_witness:
  "brokenPoint ''default-demo'' (snd (exampleTable ! 0)) (snd (exampleTable ! 1))
     \<in> set (GetBrokenMountPoints ''/runtime-mnt/juicefs'' (rev exampleTable))"
  unfolding GetBrokenMountPoints_spec [OF example_unique set_rev]
  by (rule CollectI, intro exI conjI, rule refl)
    (use example_names in \<open>auto simp: exampleTable_value\<close>)

text \<open>
  Two datasets whose namespace and name give the same text when joined with a dash: \<open>c\<close> of the
  namespace \<open>a-b\<close>, mounted and bound in one peer group, and \<open>b-c\<close> of the namespace \<open>a\<close>.
\<close>

definition mountIn :: "string \<Rightarrow> int \<Rightarrow> string \<times> Mount" where
  "mountIn path grp =
     (path, \<lparr>Subtree = ''/'', MountPath = path, FilesystemType = ''fuse.juicefs'',
             PeerGroups = {grp}, ReadOnly = False, Count = 1\<rparr>)"

definition healthyBind :: "string \<times> Mount" where
  "healthyBind = mountIn ''/var/lib/kubelet/pods/u/volumes/kubernetes.io~csi/a-b-c/mount'' 1"

definition ownGlobal :: "string \<times> Mount" where
  "ownGlobal = mountIn ''/runtime-mnt/juicefs/a-b/c/juicefs-fuse'' 1"

definition otherGlobal :: "string \<times> Mount" where
  "otherGlobal = mountIn ''/runtime-mnt/juicefs/a/b-c/juicefs-fuse'' 2"

text \<open>
  The name of a global mount does not determine the dataset: with the two datasets above on one
  node, the bind mount of \<open>a-b/c\<close>, which shares its peer group with its own global mount, is
  reported broken when the map happens to be visited with \<open>a/b-c\<close> last (with the other dataset's
  path as its source), and is not reported in the other order.
\<close>

theorem broken_depends_on_order:
  "PeerGroups (snd healthyBind) = PeerGroups (snd ownGlobal) \<and>
   GetBrokenMountPoints ''/runtime-mnt/juicefs'' [healthyBind, ownGlobal, otherGlobal] =
     [brokenPoint ''a-b-c'' (snd otherGlobal) (snd healthyBind)] \<and>
   GetBrokenMountPoints ''/runtime-mnt/juicefs'' [healthyBind, otherGlobal, ownGlobal] = []"
  by code_simp

end
