(* ===== verification/Volume_Locks.thy ===== *)
theory Volume_Locks
  imports Fluid_Prelude
begin

text \<open>
  \<open>pkg/utils/volume_lock.go\<close>: the set of locked volumes that the CSI node server and the FUSE
  recovery share. The mutex makes each operation one atomic step. The interface is the locale
  \<open>try_lock\<close>; goroutines that follow the protocol of its callers (give up when the lock is taken,
  release it by \<open>defer\<close>) are a step relation, of which mutual exclusion is proved.
\<close>

section \<open>volume_lock.go\<close>

record VolumeLocks =
  vlLocks :: "string set"

definition NewVolumeLocks :: VolumeLocks where
  "NewVolumeLocks = \<lparr>vlLocks = {}\<rparr>"

definition TryAcquire :: "VolumeLocks \<Rightarrow> string \<Rightarrow> bool \<times> VolumeLocks" where
  "TryAcquire lock volumeID =
     (if volumeID \<in> vlLocks lock then (False, lock)
      else (True, lock\<lparr>vlLocks := insert volumeID (vlLocks lock)\<rparr>))"

definition Release :: "VolumeLocks \<Rightarrow> string \<Rightarrow> VolumeLocks" where
  "Release lock volumeID = lock\<lparr>vlLocks := vlLocks lock - {volumeID}\<rparr>"

section \<open>The interface\<close>

text \<open>What the callers rely on: a lock is granted to one of them only, and nobody else's is touched.\<close>

locale try_lock =
  fixes held :: "'s \<Rightarrow> 'k \<Rightarrow> bool"
    and acquire :: "'s \<Rightarrow> 'k \<Rightarrow> bool \<times> 's"
    and release :: "'s \<Rightarrow> 'k \<Rightarrow> 's"
  assumes granted: "fst (acquire s k) \<longleftrightarrow> \<not> held s k"
    and acquired: "held (snd (acquire s k)) k' \<longleftrightarrow> k' = k \<or> held s k'"
    and released: "held (release s k) k' \<longleftrightarrow> k' \<noteq> k \<and> held s k'"
begin

text \<open>The owners of the locks: who holds which key.\<close>

definition owned :: "'s \<Rightarrow> ('t \<rightharpoonup> 'k) \<Rightarrow> bool" where
  "owned s own \<longleftrightarrow>
     (\<forall>k. held s k \<longleftrightarrow> (\<exists>t. own t = Some k)) \<and>
     (\<forall>t u k. own t = Some k \<longrightarrow> own u = Some k \<longrightarrow> t = u)"

lemma owned_acquire:
  assumes "owned s own" and "own t = None" and "acquire s k = (True, s')"
  shows "owned s' (own(t \<mapsto> k))"
proof -
  have free: "\<not> held s k" using granted [of s k] assms(3) by simp
  have s': "held s' k' \<longleftrightarrow> k' = k \<or> held s k'" for k'
    using acquired [of s k k'] assms(3) by simp
  from assms(1,2) have keys: "(\<exists>u. (own(t \<mapsto> k)) u = Some k') \<longleftrightarrow> k' = k \<or> (\<exists>u. own u = Some k')" for k'
    by (auto simp: owned_def) (metis option.distinct(1))
  show ?thesis
    using assms(1,2) free unfolding owned_def s' keys by (auto split: if_splits)
qed

lemma owned_refused:
  assumes "owned s own" and "acquire s k = (False, s')"
  shows "owned s' own"
proof -
  have "held s k" using granted [of s k] assms(2) by simp
  then have "held s' k' \<longleftrightarrow> held s k'" for k'
    using acquired [of s k k'] assms(2) by auto
  with assms(1) show ?thesis by (simp add: owned_def)
qed

lemma owned_release:
  assumes "owned s own" and "own t = Some k"
  shows "owned (release s k) (own(t := None))"
proof -
  from assms have uniq: "own u = Some k \<longleftrightarrow> u = t" for u by (auto simp: owned_def)
  have keys: "(\<exists>u. (own(t := None)) u = Some k') \<longleftrightarrow> k' \<noteq> k \<and> (\<exists>u. own u = Some k')" for k'
    using uniq by (auto split: if_splits) (metis option.inject)
  show ?thesis using assms(1) unfolding owned_def released keys by (simp split: if_splits)
qed

lemma acquire_release:
  "acquire s k = (True, s') \<Longrightarrow> held (release s' k) k' \<longleftrightarrow> held s k'"
  using granted [of s k] acquired [of s k k'] released [of s' k k'] by auto

end

interpretation vl: try_lock "\<lambda>l v. v \<in> vlLocks l" TryAcquire Release
  by unfold_locales (auto simp: TryAcquire_def Release_def)

section \<open>Goroutines that share the locks\<close>

text \<open>
  A configuration is the lock set and, for every goroutine, the key whose critical section it is in.
  The callers are \<open>FuseRecover.doRecover\<close> and the handlers of \<open>nodeServer\<close>: they return at once when
  the lock is refused.
\<close>

type_synonym lockConfig = "VolumeLocks \<times> (nat \<rightharpoonup> string)"

inductive lockStep :: "lockConfig \<Rightarrow> lockConfig \<Rightarrow> bool" where
  enter: "own t = None \<Longrightarrow> TryAcquire l v = (True, l') \<Longrightarrow> lockStep (l, own) (l', own(t \<mapsto> v))"
| refuse: "own t = None \<Longrightarrow> TryAcquire l v = (False, l') \<Longrightarrow> lockStep (l, own) (l', own)"
| leave: "own t = Some v \<Longrightarrow> lockStep (l, own) (Release l v, own(t := None))"

inductive lockReachable :: "lockConfig \<Rightarrow> bool" where
  init: "lockReachable (NewVolumeLocks, Map.empty)"
| step: "lockReachable c \<Longrightarrow> lockStep c c' \<Longrightarrow> lockReachable c'"

inductive_cases lockStepE: "lockStep (l, own) c'"

lemma lockStep_owned: "lockStep (l, own) (l', own') \<Longrightarrow> vl.owned l own \<Longrightarrow> vl.owned l' own'"
  by (erule lockStepE) (auto intro: vl.owned_acquire vl.owned_refused vl.owned_release)

lemma lockReachable_owned: "lockReachable c \<Longrightarrow> vl.owned (fst c) (snd c)"
proof (induction rule: lockReachable.induct)
  case init
  then show ?case by (simp add: vl.owned_def NewVolumeLocks_def)
next
  case (step c c')
  then show ?case using lockStep_owned [of "fst c" "snd c" "fst c'" "snd c'"] by simp
qed

section \<open>Properties\<close>

text \<open>
  C20. Mutual exclusion: however the goroutines of the CSI plugin interleave, no two of them are in
  the critical section of the same volume or path, and the lock set is exactly the set of keys whose
  critical section is occupied, so nothing stays locked when all of them have returned.
\<close>

theorem volume_locks_exclusive:
  assumes "lockReachable (l, own)"
  shows "(own t = Some v \<and> own u = Some v \<longrightarrow> t = u) \<and> vlLocks l = ran own"
  using lockReachable_owned [OF assms] by (auto simp: vl.owned_def ran_def)

lemma lockReachable_example: "lockReachable (\<lparr>vlLocks = {''a''}\<rparr>, Map.empty(0 \<mapsto> ''a''))"
  by (rule lockReachable.step [OF lockReachable.init])
    (rule lockStep.enter, simp_all add: TryAcquire_def NewVolumeLocks_def)

theorem volume_locks_exclusive_witness:
  "vlLocks \<lparr>vlLocks = {''a''}\<rparr> = ran (Map.empty(0 \<mapsto> ''a'') :: nat \<rightharpoonup> string)"
  using volume_locks_exclusive [OF lockReachable_example] by blast

end
