(* ===== verification/Fuse_Recover.thy ===== *)
theory Fuse_Recover
  imports Mount_Info Volume_Locks
begin

text \<open>
  \<open>pkg/csi/recover/recover.go\<close>: the goroutine of the CSI plugin that binds broken mounts again, with
  \<open>GetNamespacedNameByVolumeId\<close> of \<open>pkg/utils/dataset/volume/get.go\<close> and \<open>CheckIfPVCIsDataset\<close> of
  \<open>pkg/utils/kubeclient/volume.go\<close>. The host (mount, umount, the mount table), the lock set shared with
  other goroutines and the API server are the environment \<open>recoverEnv\<close>; each call of it is an event.
  Lemmas: the lock protocol, how many unmounts happen, and which events are recorded.
\<close>

section \<open>The environment\<close>

record PersistentVolume =
  pvClaimRef :: "(string \<times> string) option"

type_synonym labels = "(string \<times> string) list"

text \<open>The errors of \<open>IsLikelyNotMountPoint\<close> as \<open>os.IsNotExist\<close> and \<open>mount.IsCorruptedMnt\<close> tell them apart.\<close>

datatype mountErr = MntNotExist | MntCorrupted | MntOther string

datatype recoverEvent =
    TriedAcquire string bool
  | Released string
  | CheckedMountPoint string "bool \<times> mountErr option"
  | Mounted string string string "string list" "goerr option"
  | Unmounted string "goerr option"
  | GotPV string "goerr + PersistentVolume"
  | GotPVC string string "goerr + labels"
  | GotDataset string string "goerr option"
  | RecordedEvent string string string string string
  | LoadedMountInfo "goerr + string list"

type_synonym 'a rgo = "(recoverEvent, 'a) go"

record recoverEnv =
  reTryAcquire :: "recoverEvent list \<Rightarrow> string \<Rightarrow> bool"
  reIsLikelyNotMountPoint :: "recoverEvent list \<Rightarrow> string \<Rightarrow> bool \<times> mountErr option"
  reMount :: "recoverEvent list \<Rightarrow> string \<Rightarrow> string \<Rightarrow> string list \<Rightarrow> goerr option"
  reUnmount :: "recoverEvent list \<Rightarrow> string \<Rightarrow> goerr option"
  reGetPV :: "recoverEvent list \<Rightarrow> string \<Rightarrow> goerr + PersistentVolume"
  reGetPVC :: "recoverEvent list \<Rightarrow> string \<Rightarrow> string \<Rightarrow> goerr + labels"
  reGetDataset :: "recoverEvent list \<Rightarrow> string \<Rightarrow> string \<Rightarrow> goerr option"
  reMountInfo :: "recoverEvent list \<Rightarrow> goerr + string list"
  reRange :: "recoverEvent list \<Rightarrow> (string \<times> Mount) list \<Rightarrow> (string \<times> Mount) list"
  reMountRoot :: "goerr + string"

record FuseRecover =
  recoverWarningThreshold :: nat

section \<open>volume.go and get.go\<close>

definition GetManagerDatasetFromLabels :: "labels \<Rightarrow> string option" where
  "GetManagerDatasetFromLabels ls =
     (case map_of ls ''fluid.io/managed-by'' of
        Some n \<Rightarrow> Some n
      | None \<Rightarrow> map_of ls ''fluid.io/wrapped-by'')"

definition CheckIfPVCIsDataset :: "labels \<Rightarrow> bool" where
  "CheckIfPVCIsDataset ls =
     (list_ex (\<lambda>(k, v). HasPrefix k ''fluid.io/s-'') ls \<or> GetManagerDatasetFromLabels ls \<noteq> None)"

definition GetNamespacedNameByVolumeId :: "recoverEnv \<Rightarrow> string \<Rightarrow> (goerr + string \<times> string) rgo" where
  "GetNamespacedNameByVolumeId env volumeId =
     andThen (call (\<lambda>h. reGetPV env h volumeId) (GotPV volumeId)) (\<lambda>r.
     case r of
       Inl e \<Rightarrow> ret (Inl e)
     | Inr pv \<Rightarrow>
         (case pvClaimRef pv of
            None \<Rightarrow> ret (Inl (Err (''pv '' @ volumeId @ '' has unexpected nil claimRef'')))
          | Some (namespace, name) \<Rightarrow>
              andThen (call (\<lambda>h. reGetPVC env h name namespace) (GotPVC name namespace)) (\<lambda>r'.
              case r' of
                Inl e \<Rightarrow> ret (Inl e)
              | Inr ls \<Rightarrow>
                  if \<not> CheckIfPVCIsDataset ls
                  then ret (Inl (Err (''pv '' @ volumeId @ '' is not bounded with a fluid pvc'')))
                  else ret (Inr (namespace, name)))))"

section \<open>recover.go\<close>

text \<open>\<open>err\<close> is shadowed inside the \<open>if\<close>: the named result stays nil.\<close>

definition recoverBrokenMount :: "recoverEnv \<Rightarrow> MountPoint \<Rightarrow> (goerr option) rgo" where
  "recoverBrokenMount env point =
     (let mountOption = ''bind'' # (if mpReadOnly point then [''ro''] else []) in
      andThen (call (\<lambda>h. reMount env h (mpSourcePath point) (mpMountPath point) mountOption)
                (Mounted (mpSourcePath point) (mpMountPath point) ''none'' mountOption)) (\<lambda>_.
      ret None))"

text \<open>The loop \<open>for i := point.Count; i > 1; i--\<close>.\<close>

fun umountLoop :: "recoverEnv \<Rightarrow> string \<Rightarrow> nat \<Rightarrow> unit rgo" where
  "umountLoop env path i =
     (if i > 1 then
        andThen (call (\<lambda>h. reUnmount env h path) (Unmounted path)) (\<lambda>_. umountLoop env path (i - 1))
      else ret ())"

definition umountDuplicate :: "recoverEnv \<Rightarrow> MountPoint \<Rightarrow> unit rgo" where
  "umountDuplicate env point = umountLoop env (mpMountPath point) (mpCount point)"

definition eventMessage :: "MountPoint \<Rightarrow> string \<Rightarrow> string option" where
  "eventMessage point eventReason =
     (if eventReason = ''FuseRecoverSucceed''
      then Some (''Fuse recover '' @ mpMountPath point @ '' succeed'')
      else if eventReason = ''FuseRecoverFailed''
      then Some (''Fuse recover '' @ mpMountPath point @ '' failed'')
      else if eventReason = ''UnmountDuplicateMountpoint''
      then Some (''Mountpoint '' @ mpMountPath point @ '' has been mounted '' @
                 Itoa (int (mpCount point)) @
                 '' times, unmount duplicate mountpoint to avoid large /proc/self/mountinfo file, this may potential make data access connection broken'')
      else None)"

definition eventRecord :: "recoverEnv \<Rightarrow> MountPoint \<Rightarrow> string \<Rightarrow> string \<Rightarrow> unit rgo" where
  "eventRecord env point eventType eventReason =
     (let namespacedName = mpNamespacedDatasetName point in
      if length (Split CHR ''-'' namespacedName) < 2 then ret ()
      else andThen (GetNamespacedNameByVolumeId env namespacedName) (\<lambda>r.
        case r of
          Inl e \<Rightarrow> ret ()
        | Inr (namespace, datasetName) \<Rightarrow>
            andThen (call (\<lambda>h. reGetDataset env h datasetName namespace)
                      (GotDataset datasetName namespace)) (\<lambda>err.
            case err of
              Some e \<Rightarrow> ret ()
            | None \<Rightarrow>
                (case eventMessage point eventReason of
                   None \<Rightarrow> ret ()
                 | Some msg \<Rightarrow> emit (RecordedEvent namespace datasetName eventType eventReason msg)))))"

definition shouldRecover :: "recoverEnv \<Rightarrow> string \<Rightarrow> (bool \<times> mountErr option) rgo" where
  "shouldRecover env mountPath =
     andThen (call (\<lambda>h. reIsLikelyNotMountPoint env h mountPath) (CheckedMountPoint mountPath))
       (\<lambda>(notMount, err).
        if err = Some MntNotExist \<or> (err = None \<and> notMount) then ret (False, None)
        else if err \<noteq> None \<and> err \<noteq> Some MntCorrupted then ret (False, err)
        else ret (True, None))"

definition doRecoverLocked :: "recoverEnv \<Rightarrow> FuseRecover \<Rightarrow> MountPoint \<Rightarrow> unit rgo" where
  "doRecoverLocked env r point =
     andThen (shouldRecover env (mpMountPath point)) (\<lambda>(should, err).
     if err \<noteq> None then ret ()
     else if \<not> should then ret ()
     else
       andThen (if mpCount point > recoverWarningThreshold r
                then andThen (eventRecord env point ''Warning'' ''UnmountDuplicateMountpoint'') (\<lambda>_.
                     umountDuplicate env point)
                else ret ()) (\<lambda>_.
       andThen (recoverBrokenMount env point) (\<lambda>err.
       if err \<noteq> None then eventRecord env point ''Warning'' ''FuseRecoverFailed''
       else eventRecord env point ''Normal'' ''FuseRecoverSucceed'')))"

definition doRecover :: "recoverEnv \<Rightarrow> FuseRecover \<Rightarrow> MountPoint \<Rightarrow> unit rgo" where
  "doRecover env r point =
     andThen (call (\<lambda>h. reTryAcquire env h (mpMountPath point)) (TriedAcquire (mpMountPath point))) (\<lambda>lock.
     if \<not> lock then ret ()
     else deferred (emit (Released (mpMountPath point))) (doRecoverLocked env r point))"

definition recover :: "recoverEnv \<Rightarrow> FuseRecover \<Rightarrow> unit rgo" where
  "recover env r =
     andThen (call (reMountInfo env) LoadedMountInfo) (\<lambda>info.
     case info of
       Inl e \<Rightarrow> ret ()
     | Inr lines \<Rightarrow>
         (case reMountRoot env of
            Inl e \<Rightarrow> ret ()
          | Inr mountRoot \<Rightarrow>
              (\<lambda>h. forEach (GetBrokenMountPoints mountRoot (reRange env h (readMountInfo lines)))
                     (doRecover env r) h)))"

declare umountLoop.simps [simp del]

section \<open>Lemmas\<close>

text \<open>What a recovery does inside its critical section.\<close>

fun isLockEvent :: "recoverEvent \<Rightarrow> bool" where
  "isLockEvent (TriedAcquire _ _) = True"
| "isLockEvent (Released _) = True"
| "isLockEvent _ = False"

fun isUnmount :: "recoverEvent \<Rightarrow> bool" where
  "isUnmount (Unmounted _ _) = True"
| "isUnmount _ = False"

text \<open>The events that touch the file system, and the path they touch.\<close>

fun touches :: "string \<Rightarrow> recoverEvent \<Rightarrow> bool" where
  "touches p (Mounted _ q _ _ _) = (q = p)"
| "touches p (Unmounted q _) = (q = p)"
| "touches p (TriedAcquire _ _) = False"
| "touches p (Released _) = False"
| "touches p _ = True"

lemma emits_GetNamespacedName [emits_rules]:
  "(\<And>v r. P (GotPV v r)) \<Longrightarrow> (\<And>n ns r. P (GotPVC n ns r)) \<Longrightarrow>
   emits P (GetNamespacedNameByVolumeId env volumeId)"
  unfolding GetNamespacedNameByVolumeId_def by (auto intro!: emits_rules split: prod.splits)

lemma emits_eventRecord [emits_rules]:
  "(\<And>v r. P (GotPV v r)) \<Longrightarrow> (\<And>n ns r. P (GotPVC n ns r)) \<Longrightarrow> (\<And>n ns r. P (GotDataset n ns r)) \<Longrightarrow>
   (\<And>ns n msg. P (RecordedEvent ns n ty reason msg)) \<Longrightarrow>
   emits P (eventRecord env point ty reason)"
  unfolding eventRecord_def Let_def by (auto intro!: emits_rules split: prod.splits)

lemma umountLoop_end: "i \<le> 1 \<Longrightarrow> umountLoop env path i = ret ()"
  by (simp add: umountLoop.simps)

lemma umountLoop_step:
  "umountLoop env path (Suc (Suc i)) =
     andThen (call (\<lambda>h. reUnmount env h path) (Unmounted path)) (\<lambda>_. umountLoop env path (Suc i))"
  by (simp add: umountLoop.simps [of _ _ "Suc (Suc i)"])

lemma emits_umountLoop [emits_rules]:
  assumes "\<And>r. P (Unmounted path r)"
  shows "emits P (umountLoop env path i)"
proof (cases i)
  case (Suc n)
  have "emits P (umountLoop env path (Suc n))" for n
    by (induction n) (use assms in \<open>auto intro!: emits_rules simp: umountLoop_end umountLoop_step\<close>)
  with Suc show ?thesis by simp
qed (simp add: umountLoop_end emits_rules)

text \<open>The result of the bind mount is lost: the continuation always sees nil.\<close>

lemma andThen_recoverBrokenMount:
  "andThen (recoverBrokenMount env point) f =
     (let mountOption = ''bind'' # (if mpReadOnly point then [''ro''] else []) in
      andThen (call (\<lambda>h. reMount env h (mpSourcePath point) (mpMountPath point) mountOption)
                (Mounted (mpSourcePath point) (mpMountPath point) ''none'' mountOption)) (\<lambda>_. f None))"
  by (simp add: recoverBrokenMount_def Let_def andThen_assoc)

lemma emits_doRecoverLocked:
  assumes "\<And>r. P (CheckedMountPoint (mpMountPath point) r)"
    and "\<And>v r. P (GotPV v r)" and "\<And>n ns r. P (GotPVC n ns r)" and "\<And>n ns r. P (GotDataset n ns r)"
    and "\<And>ns n ty reason msg. reason \<noteq> ''FuseRecoverFailed'' \<Longrightarrow> P (RecordedEvent ns n ty reason msg)"
    and "\<And>r. P (Unmounted (mpMountPath point) r)"
    and "\<And>s ty os r. P (Mounted s (mpMountPath point) ty os r)"
  shows "emits P (doRecoverLocked env r point)"
  unfolding doRecoverLocked_def shouldRecover_def andThen_recoverBrokenMount umountDuplicate_def Let_def
  using assms by (auto intro!: emits_rules split: prod.splits)

lemma umountLoop_run:
  "\<exists>es. umountLoop env path i h = (Ret (), h @ es) \<and> tally isUnmount es = i - 1"
proof (cases i)
  case (Suc n)
  have "\<exists>es. umountLoop env path (Suc n) h = (Ret (), h @ es) \<and> tally isUnmount es = n" for n h
  proof (induction n arbitrary: h)
    case (Suc n)
    let ?e = "Unmounted path (reUnmount env h path)"
    obtain es where "umountLoop env path (Suc n) (h @ [?e]) = (Ret (), (h @ [?e]) @ es)"
      "tally isUnmount es = n" using Suc.IH by blast
    then show ?case
      by (intro exI [where x = "?e # es"]) (simp add: umountLoop_step andThen_def call_def)
  qed (simp add: umountLoop_end ret_def)
  with Suc show ?thesis by simp
qed (simp add: umountLoop_end ret_def)

lemma wp_umountDuplicate:
  "(\<And>h'. tally isUnmount h' = tally isUnmount h + (mpCount point - 1) \<Longrightarrow> Q (Ret ()) h') \<Longrightarrow>
   wp (umountDuplicate env point) Q h"
  using umountLoop_run [of env "mpMountPath point" "mpCount point" h]
  by (auto simp: wp_def umountDuplicate_def)

lemma doRecoverLocked_unmounts:
  "wp (doRecoverLocked env r point) (\<lambda>_ h'.
      tally isUnmount h' = tally isUnmount h \<or>
      mpCount point > recoverWarningThreshold r \<and>
      tally isUnmount h' = tally isUnmount h + (mpCount point - 1)) h"
proof -
  have quiet: "emits (\<lambda>e. \<not> isUnmount e) (eventRecord env point ty reason)" for ty reason
    by (auto intro!: emits_rules)
  show ?thesis
    unfolding doRecoverLocked_def shouldRecover_def recoverBrokenMount_def Let_def
    by (auto simp: wp_rules split: prod.splits out.splits
        intro!: wp_tally [OF quiet] wp_umountDuplicate)
qed

lemma doRecover_run:
  "doRecover env r point h =
     (let p = mpMountPath point; ok = reTryAcquire env h p; h1 = h @ [TriedAcquire p ok] in
      if ok then (fst (doRecoverLocked env r point h1),
                  snd (doRecoverLocked env r point h1) @ [Released p])
      else (Ret (), h1))"
  by (simp add: doRecover_def andThen_def call_def deferred_def emit_def ret_def Let_def
      split: prod.splits)

section \<open>Properties\<close>

text \<open>
  A recovery either finds the path locked and does nothing at all, or takes the lock of its mount
  path first and gives it back last, whatever fails in between; under the lock it takes no other lock
  and mounts and unmounts nothing but that path.
\<close>

theorem doRecover_lock_protocol:
  "\<exists>es. snd (doRecover env r point h) = h @ es \<and>
     (es = [TriedAcquire (mpMountPath point) False] \<or>
      (\<exists>body. es = TriedAcquire (mpMountPath point) True # body @ [Released (mpMountPath point)] \<and>
         list_all (touches (mpMountPath point)) body))"
proof -
  have "emits (touches (mpMountPath point)) (doRecoverLocked env r point)"
    by (rule emits_doRecoverLocked) simp_all
  then show ?thesis
    unfolding doRecover_run Let_def emits_def
    by (cases "reTryAcquire env h (mpMountPath point)") (auto, metis append.assoc append_Cons append_Nil)
qed

text \<open>
  Duplicate mounts are removed down to one and never completely, so that mount propagation keeps
  working, and only above the configured threshold: one recovery unmounts either nothing or exactly
  the count minus one.
\<close>

theorem doRecover_unmounts:
  "\<exists>es. snd (doRecover env r point h) = h @ es \<and>
     (tally isUnmount es = 0 \<or>
      recoverWarningThreshold r < mpCount point \<and> tally isUnmount es = mpCount point - 1)"
proof -
  let ?h = "snd (doRecover env r point h)"
  have "tally isUnmount ?h = tally isUnmount h \<or>
      mpCount point > recoverWarningThreshold r \<and>
      tally isUnmount ?h = tally isUnmount h + (mpCount point - 1)"
    using doRecoverLocked_unmounts [of env r point "h @ [TriedAcquire (mpMountPath point) True]"]
    by (simp add: doRecover_run wp_def Let_def split: prod.splits)
  moreover have "emits (\<lambda>_. True) (doRecover env r point)"
    unfolding doRecover_def by (auto intro!: emits_rules emits_doRecoverLocked)
  then obtain es where "?h = h @ es" by (auto simp: emits_def)
  ultimately show ?thesis by auto
qed

fun isFailureEvent :: "recoverEvent \<Rightarrow> bool" where
  "isFailureEvent (RecordedEvent _ _ _ reason _) = (reason = ''FuseRecoverFailed'')"
| "isFailureEvent _ = False"

text \<open>
  A failed recovery is never reported: whatever the mounts answer, no round of the recovery records
  a \<open>FuseRecoverFailed\<close> event.
\<close>

theorem recover_never_reports_failure: "emits (\<lambda>e. \<not> isFailureEvent e) (recover env r)"
proof -
  have "emits (\<lambda>e. \<not> isFailureEvent e) (doRecover env r point)" for point
    unfolding doRecover_def by (auto intro!: emits_rules emits_doRecoverLocked)
  then have each: "emits (\<lambda>e. \<not> isFailureEvent e) (forEach ps (doRecover env r))" for ps
    by (auto intro: emits_rules)
  then have "emits (\<lambda>e. \<not> isFailureEvent e) (\<lambda>h. forEach (ps h) (doRecover env r) h)" for ps
    by (simp add: emits_def)
  then show ?thesis unfolding recover_def by (auto intro!: emits_rules)
qed

definition failingMountEnv :: recoverEnv where
  "failingMountEnv =
     \<lparr>reTryAcquire = \<lambda>_ _. True, reIsLikelyNotMountPoint = \<lambda>_ _. (False, Some MntCorrupted),
      reMount = \<lambda>_ _ _ _. Some (Err ''exit status 32''), reUnmount = \<lambda>_ _. None,
      reGetPV = \<lambda>_ _. Inr \<lparr>pvClaimRef = Some (''default'', ''demo'')\<rparr>,
      reGetPVC = \<lambda>_ _ _. Inr [(''fluid.io/managed-by'', ''demo'')], reGetDataset = \<lambda>_ _ _. None,
      reMountInfo = \<lambda>_. Inr [], reRange = \<lambda>_ es. es, reMountRoot = Inr ''/runtime-mnt''\<rparr>"

text \<open>
  When the bind mount of a broken mount point fails, the dataset gets a \<open>FuseRecoverSucceed\<close> event
  all the same.
\<close>

theorem failed_mount_reported_as_success:
  "doRecover failingMountEnv \<lparr>recoverWarningThreshold = 50\<rparr>
     \<lparr>mpSourcePath = ''/s'', mpMountPath = ''/t'', mpFilesystemType = ''fuse'', mpReadOnly = False,
      mpCount = 1, mpNamespacedDatasetName = ''default-demo''\<rparr> [] =
   (Ret (),
    [TriedAcquire ''/t'' True, CheckedMountPoint ''/t'' (False, Some MntCorrupted),
     Mounted ''/s'' ''/t'' ''none'' [''bind''] (Some (Err ''exit status 32'')),
     GotPV ''default-demo'' (Inr \<lparr>pvClaimRef = Some (''default'', ''demo'')\<rparr>),
     GotPVC ''demo'' ''default'' (Inr [(''fluid.io/managed-by'', ''demo'')]),
     GotDataset ''demo'' ''default'' None,
     RecordedEvent ''default'' ''demo'' ''Normal'' ''FuseRecoverSucceed'' ''Fuse recover /t succeed'',
     Released ''/t''])"
  by code_simp

end
