(* ===== verification/Port_Allocator.thy ===== *)
theory Port_Allocator
  imports Fluid_Prelude
begin

text \<open>
  \<open>pkg/ddc/base/portallocator\<close>: the two batch allocators (\<open>random_allocator.go\<close>,
  \<open>bitmap_allocator.go\<close>) and the singleton \<open>RuntimePortAllocator\<close> (\<open>port_allocator.go\<close>). The bitmap
  allocator wraps \<open>PortAllocator\<close> of Kubernetes, which is a parameter \<open>k8sPortAllocator\<close> with an abstract
  state; \<open>PortAllocatorContract\<close> is its documented behaviour. The random numbers are a sequence of draws of
  \<open>rand.Intn\<close>. Lemmas: ports handed out are distinct and in range, none is in use under the bitmap policy,
  a failed batch is rolled back, and the random loop ends.
\<close>

section \<open>Outcomes\<close>

text \<open>A call may return, end the process (\<open>os.Exit\<close>) or dereference a nil pointer.\<close>

datatype 'a procOut = Returned 'a | Exited int | NilDereference

record PortRange =
  prBase :: int
  prSize :: int

section \<open>random_allocator.go\<close>

text \<open>The state of the generator is the number of draws made so far.\<close>

partial_function (option) randomBatchLoop ::
  "(nat \<Rightarrow> int) \<Rightarrow> PortRange \<Rightarrow> int \<Rightarrow> nat \<Rightarrow> int list \<Rightarrow> (int list \<times> nat) option" where
  "randomBatchLoop Intn pr portNum k ports =
     (if int (length ports) < portNum then
        (let availPort = prBase pr + Intn k in
         if availPort \<in> set ports then randomBatchLoop Intn pr portNum (Suc k) ports
         else randomBatchLoop Intn pr portNum (Suc k) (ports @ [availPort]))
      else Some (ports, k))"

text \<open>\<open>None\<close> is a loop that never ends.\<close>

definition randomAllocateBatch ::
  "(nat \<Rightarrow> int) \<Rightarrow> PortRange \<Rightarrow> nat \<Rightarrow> int \<Rightarrow> ((int list \<times> goerr option) \<times> nat) option" where
  "randomAllocateBatch Intn pr k portNum =
     (if portNum > prSize pr
      then Some (([], Some (Err ''required port size exceeds the configured size'')), k)
      else map_option (\<lambda>(ports, k'). ((ports, None), k')) (randomBatchLoop Intn pr portNum k []))"

section \<open>bitmap_allocator.go\<close>

record 's k8sPortAllocator =
  kNew :: "PortRange \<Rightarrow> goerr + 's"
  kAllocate :: "'s \<Rightarrow> int \<Rightarrow> goerr option \<times> 's"
  kAllocateNext :: "'s \<Rightarrow> (goerr + int) \<times> 's"
  kRelease :: "'s \<Rightarrow> int \<Rightarrow> goerr option \<times> 's"

text \<open>The first loop: at most \<open>n\<close> ports, ended by the first error.\<close>

fun allocateNextLoop ::
  "'s k8sPortAllocator \<Rightarrow> nat \<Rightarrow> int list \<Rightarrow> 's \<Rightarrow> (int list \<times> goerr option) \<times> 's" where
  "allocateNextLoop k 0 ports s = ((ports, None), s)"
| "allocateNextLoop k (Suc n) ports s =
     (case kAllocateNext k s of
        (Inl e, s') \<Rightarrow> ((ports, Some e), s')
      | (Inr availPort, s') \<Rightarrow> allocateNextLoop k n (ports @ [availPort]) s')"

fun releaseAll :: "'s k8sPortAllocator \<Rightarrow> int list \<Rightarrow> 's \<Rightarrow> 's" where
  "releaseAll k [] s = s"
| "releaseAll k (p # ps) s = releaseAll k ps (snd (kRelease k s p))"

definition bitmapAllocateBatch ::
  "'s k8sPortAllocator \<Rightarrow> 's \<Rightarrow> int \<Rightarrow> (int list \<times> goerr option) procOut \<times> 's" where
  "bitmapAllocateBatch k s portNum =
     (case allocateNextLoop k (nat portNum) [] s of
        ((ports, err), s') \<Rightarrow>
          if err \<noteq> None \<or> int (length ports) < portNum then (Exited 1, releaseAll k ports s')
          else (Returned (ports, err), s'))"

section \<open>port_allocator.go\<close>

definition ValidateEnum :: "string \<Rightarrow> string \<times> goerr option" where
  "ValidateEnum allocatePolicyStr =
     (if allocatePolicyStr = ''random'' \<or> allocatePolicyStr = ''bitmap''
      then (allocatePolicyStr, None)
      else (allocatePolicyStr, Some (Err ''runtime-port-allocator can only be random or bitmap'')))"

text \<open>\<open>BatchAllocatorInterface\<close> with its two implementations, and the singleton \<open>rpa\<close>.\<close>

datatype 's BatchAllocator = RandomAllocator nat | BitMapAllocator 's

text \<open>\<open>getReservedPorts\<close> reads the cluster through the client \<open>'c\<close>.\<close>

record ('s, 'c) RuntimePortAllocator =
  rpaPa :: "'s BatchAllocator option"
  rpaPolicy :: string
  rpaPr :: PortRange
  rpaReserved :: "'c \<Rightarrow> goerr + int list"

definition SetupRuntimePortAllocatorWithType ::
  "PortRange \<Rightarrow> string \<Rightarrow> ('c \<Rightarrow> goerr + int list) \<Rightarrow> ('s, 'c) RuntimePortAllocator option" where
  "SetupRuntimePortAllocatorWithType pr allocatePolicy getReservedPorts =
     Some \<lparr>rpaPa = None, rpaPolicy = allocatePolicy, rpaPr = pr, rpaReserved = getReservedPorts\<rparr>"

definition SetupRuntimePortAllocator ::
  "('s, 'c) RuntimePortAllocator option \<Rightarrow> PortRange \<Rightarrow> string \<Rightarrow> ('c \<Rightarrow> goerr + int list) \<Rightarrow>
   goerr option \<times> ('s, 'c) RuntimePortAllocator option" where
  "SetupRuntimePortAllocator rpa pr allocatePolicyStr getReservedPorts =
     (case ValidateEnum allocatePolicyStr of
        (_, Some e) \<Rightarrow> (Some e, rpa)
      | (policy, None) \<Rightarrow> (None, SetupRuntimePortAllocatorWithType pr policy getReservedPorts))"

definition needResetReservedPorts :: "'s BatchAllocator \<Rightarrow> bool" where
  "needResetReservedPorts pa = (case pa of RandomAllocator _ \<Rightarrow> False | BitMapAllocator _ \<Rightarrow> True)"

definition paAllocate :: "'s k8sPortAllocator \<Rightarrow> 's BatchAllocator \<Rightarrow> int \<Rightarrow> goerr option \<times> 's BatchAllocator"
  where
  "paAllocate k pa port =
     (case pa of
        RandomAllocator n \<Rightarrow> (None, RandomAllocator n)
      | BitMapAllocator s \<Rightarrow> (case kAllocate k s port of (err, s') \<Rightarrow> (err, BitMapAllocator s')))"

definition paRelease :: "'s k8sPortAllocator \<Rightarrow> 's BatchAllocator \<Rightarrow> int \<Rightarrow> goerr option \<times> 's BatchAllocator"
  where
  "paRelease k pa port =
     (case pa of
        RandomAllocator n \<Rightarrow> (None, RandomAllocator n)
      | BitMapAllocator s \<Rightarrow> (case kRelease k s port of (err, s') \<Rightarrow> (err, BitMapAllocator s')))"

text \<open>
  \<open>createAndRestorePortAllocator\<close>: an error of \<open>getReservedPorts\<close> is returned, but \<open>pa\<close> has been
  assigned by then.
\<close>

definition createAndRestorePortAllocator ::
  "'s k8sPortAllocator \<Rightarrow> 'c \<Rightarrow> ('s, 'c) RuntimePortAllocator \<Rightarrow>
   goerr option \<times> ('s, 'c) RuntimePortAllocator" where
  "createAndRestorePortAllocator k client alloc =
     (let created =
        (if rpaPolicy alloc = ''random'' then Inr (RandomAllocator 0)
         else if rpaPolicy alloc = ''bitmap'' then
           (case kNew k (rpaPr alloc) of Inl e \<Rightarrow> Inl e | Inr s \<Rightarrow> Inr (BitMapAllocator s))
         else Inl (Err ''runtime-port-allocator can only be random or bitmap'')) in
      case created of
        Inl e \<Rightarrow> (Some e, alloc\<lparr>rpaPa := None\<rparr>)
      | Inr pa \<Rightarrow>
          if needResetReservedPorts pa then
            (case rpaReserved alloc client of
               Inl e \<Rightarrow> (Some e, alloc\<lparr>rpaPa := Some pa\<rparr>)
             | Inr ports \<Rightarrow>
                 (None, alloc\<lparr>rpaPa := Some (fold (\<lambda>port pa. snd (paAllocate k pa port)) ports pa)\<rparr>))
          else (None, alloc\<lparr>rpaPa := Some pa\<rparr>))"

definition GetRuntimePortAllocator ::
  "'s k8sPortAllocator \<Rightarrow> 'c \<Rightarrow> ('s, 'c) RuntimePortAllocator option \<Rightarrow>
   (goerr option) procOut \<times> ('s, 'c) RuntimePortAllocator option" where
  "GetRuntimePortAllocator k client rpa =
     (case rpa of
        None \<Rightarrow> (NilDereference, None)
      | Some alloc \<Rightarrow>
          if rpaPa alloc = None then
            (case createAndRestorePortAllocator k client alloc of (err, alloc') \<Rightarrow> (Returned err, Some alloc'))
          else (Returned None, Some alloc))"

definition GetAvailablePorts ::
  "(nat \<Rightarrow> int) \<Rightarrow> 's k8sPortAllocator \<Rightarrow> ('s, 'c) RuntimePortAllocator \<Rightarrow> int \<Rightarrow>
   ((int list \<times> goerr option) procOut \<times> ('s, 'c) RuntimePortAllocator) option" where
  "GetAvailablePorts Intn k alloc portNum =
     (case rpaPa alloc of
        None \<Rightarrow> Some (Returned ([], Some (Err ''Runtime port allocator not setup'')), alloc)
      | Some (RandomAllocator n) \<Rightarrow>
          map_option (\<lambda>(r, n'). (Returned r, alloc\<lparr>rpaPa := Some (RandomAllocator n')\<rparr>))
            (randomAllocateBatch Intn (rpaPr alloc) n portNum)
      | Some (BitMapAllocator s) \<Rightarrow>
          (case bitmapAllocateBatch k s portNum of
             (r, s') \<Rightarrow> Some (r, alloc\<lparr>rpaPa := Some (BitMapAllocator s')\<rparr>)))"

definition ReleaseReservedPorts ::
  "'s k8sPortAllocator \<Rightarrow> ('s, 'c) RuntimePortAllocator \<Rightarrow> int list \<Rightarrow> unit procOut \<times> ('s, 'c) RuntimePortAllocator"
  where
  "ReleaseReservedPorts k alloc ports =
     (case rpaPa alloc of
        None \<Rightarrow> (if ports = [] then Returned () else NilDereference, alloc)
      | Some pa \<Rightarrow>
          (Returned (), alloc\<lparr>rpaPa := Some (fold (\<lambda>port pa. snd (paRelease k pa port)) ports pa)\<rparr>))"

section \<open>Lemmas on the random allocator\<close>

definition IntnRange :: "(nat \<Rightarrow> int) \<Rightarrow> int \<Rightarrow> bool" where
  "IntnRange Intn n \<longleftrightarrow> (\<forall>k. 0 \<le> Intn k \<and> Intn k < n)"

text \<open>Every value in range is drawn again and again.\<close>

definition IntnFair :: "(nat \<Rightarrow> int) \<Rightarrow> int \<Rightarrow> bool" where
  "IntnFair Intn n \<longleftrightarrow> (\<forall>v k. 0 \<le> v \<longrightarrow> v < n \<longrightarrow> (\<exists>j\<ge>k. Intn j = v))"

definition portsOf :: "PortRange \<Rightarrow> int set" where
  "portsOf pr = {prBase pr ..< prBase pr + prSize pr}"

lemma randomBatchLoop_skip:
  assumes "int (length ports) < portNum" and "\<And>j. k \<le> j \<Longrightarrow> j < k + d \<Longrightarrow> prBase pr + Intn j \<in> set ports"
  shows "randomBatchLoop Intn pr portNum k ports = randomBatchLoop Intn pr portNum (k + d) ports"
  using assms(2)
proof (induction d)
  case (Suc d)
  then have "randomBatchLoop Intn pr portNum k ports = randomBatchLoop Intn pr portNum (k + d) ports"
    by simp
  moreover have "prBase pr + Intn (k + d) \<in> set ports" using Suc.prems by simp
  ultimately show ?case using assms(1)
    by (simp add: randomBatchLoop.simps [of Intn pr portNum "k + d" ports] Let_def)
qed simp

text \<open>From any point on, a draw comes that is not in the list yet.\<close>

lemma fresh_draw:
  assumes "IntnFair Intn (prSize pr)" and "set ports \<subseteq> portsOf pr" and "distinct ports"
    and "int (length ports) < prSize pr"
  obtains d where "prBase pr + Intn (k + d) \<notin> set ports"
    and "\<And>j. k \<le> j \<Longrightarrow> j < k + d \<Longrightarrow> prBase pr + Intn j \<in> set ports"
proof -
  have "card (portsOf pr) = nat (prSize pr)" by (simp add: portsOf_def)
  moreover have "card (set ports) = length ports" using assms(3) by (rule distinct_card)
  ultimately have "set ports \<noteq> portsOf pr" using assms(4) by auto
  with assms(2) obtain p where p: "p \<in> portsOf pr" "p \<notin> set ports" by blast
  then obtain j where j: "j \<ge> k" "Intn j = p - prBase pr"
    using assms(1) unfolding IntnFair_def portsOf_def
    by (metis atLeastLessThan_iff diff_ge_0_iff_ge diff_less_eq add.commute)
  define d where "d = (LEAST d. prBase pr + Intn (k + d) \<notin> set ports)"
  have ex: "prBase pr + Intn (k + (j - k)) \<notin> set ports" using j p(2) by simp
  have "prBase pr + Intn (k + d) \<notin> set ports" unfolding d_def by (rule LeastI, rule ex)
  moreover have "prBase pr + Intn j \<in> set ports" if "k \<le> j" "j < k + d" for j
    using not_less_Least [of "j - k" "\<lambda>d. prBase pr + Intn (k + d) \<notin> set ports"] that
    unfolding d_def by force
  ultimately show ?thesis by (rule that)
qed

lemma randomBatchLoop_total:
  assumes range: "IntnRange Intn (prSize pr)" and fair: "IntnFair Intn (prSize pr)"
    and le: "portNum \<le> prSize pr"
  shows "set ports \<subseteq> portsOf pr \<Longrightarrow> distinct ports \<Longrightarrow> int (length ports) \<le> max 0 portNum \<Longrightarrow>
    \<exists>ps k'. randomBatchLoop Intn pr portNum k ports = Some (ps, k') \<and>
      set ps \<subseteq> portsOf pr \<and> distinct ps \<and> int (length ps) = max 0 portNum"
proof (induction "nat portNum - length ports" arbitrary: k ports)
  case 0
  then have "int (length ports) = max 0 portNum" by linarith
  with 0 show ?case by (simp add: randomBatchLoop.simps [of Intn pr portNum k ports])
next
  case (Suc n)
  then have lt: "int (length ports) < portNum" by linarith
  with le have "int (length ports) < prSize pr" by linarith
  from fresh_draw [OF fair Suc.prems(1,2) this, of k]
  obtain d where d: "prBase pr + Intn (k + d) \<notin> set ports"
    and skip: "\<And>j. k \<le> j \<Longrightarrow> j < k + d \<Longrightarrow> prBase pr + Intn j \<in> set ports" by blast
  let ?p = "prBase pr + Intn (k + d)"
  have "randomBatchLoop Intn pr portNum k ports =
      randomBatchLoop Intn pr portNum (Suc (k + d)) (ports @ [?p])"
    using randomBatchLoop_skip [OF lt skip] d lt
    by (simp add: randomBatchLoop.simps [of Intn pr portNum "k + d" ports] Let_def)
  moreover have "?p \<in> portsOf pr" using range by (simp add: IntnRange_def portsOf_def)
  ultimately show ?case
    using Suc.hyps(1) [of "ports @ [?p]" "Suc (k + d)"] Suc.hyps(2) Suc.prems d lt by auto
qed

section \<open>Lemmas on the bitmap allocator\<close>

text \<open>
  What the comments of \<open>k8s.io/kubernetes/pkg/registry/core/service/portallocator\<close> say, with
  \<open>used\<close> for the ports that are taken: \<open>AllocateNext\<close> reserves a free port of the range or fails,
  \<open>Allocate\<close> reserves the given port or fails, \<open>Release\<close> gives a port back.
\<close>

definition PortAllocatorContract :: "'s k8sPortAllocator \<Rightarrow> PortRange \<Rightarrow> ('s \<Rightarrow> int set) \<Rightarrow> bool" where
  "PortAllocatorContract k pr used \<longleftrightarrow>
     (\<forall>s. kNew k pr = Inr s \<longrightarrow> used s = {}) \<and>
     (\<forall>s e s'. kAllocateNext k s = (Inl e, s') \<longrightarrow> used s' = used s) \<and>
     (\<forall>s p s'. kAllocateNext k s = (Inr p, s') \<longrightarrow>
        p \<in> portsOf pr \<and> p \<notin> used s \<and> used s' = insert p (used s)) \<and>
     (\<forall>s p s'. kAllocate k s p = (None, s') \<longrightarrow>
        p \<in> portsOf pr \<and> p \<notin> used s \<and> used s' = insert p (used s)) \<and>
     (\<forall>s p e s'. kAllocate k s p = (Some e, s') \<longrightarrow>
        used s' = used s \<and> (p \<in> portsOf pr \<longrightarrow> p \<in> used s)) \<and>
     (\<forall>s p. used (snd (kRelease k s p)) = used s - {p})"

lemma contractD:
  assumes "PortAllocatorContract k pr used"
  shows "kNew k pr = Inr s \<Longrightarrow> used s = {}"
    and "kAllocateNext k s = (Inl e, s') \<Longrightarrow> used s' = used s"
    and "kAllocateNext k s = (Inr p, s') \<Longrightarrow>
          p \<in> portsOf pr \<and> p \<notin> used s \<and> used s' = insert p (used s)"
    and "kAllocate k s p = (None, s') \<Longrightarrow> p \<in> portsOf pr \<and> used s' = insert p (used s)"
    and "kAllocate k s p = (Some e, s') \<Longrightarrow> used s' = used s \<and> (p \<in> portsOf pr \<longrightarrow> p \<in> used s)"
    and "used (snd (kRelease k s p)) = used s - {p}"
proof -
  note c = assms [unfolded PortAllocatorContract_def]
  show "kNew k pr = Inr s \<Longrightarrow> used s = {}" using conjunct1 [OF c] by blast
  note c = conjunct2 [OF c]
  show "kAllocateNext k s = (Inl e, s') \<Longrightarrow> used s' = used s" using conjunct1 [OF c] by blast
  note c = conjunct2 [OF c]
  show "kAllocateNext k s = (Inr p, s') \<Longrightarrow>
      p \<in> portsOf pr \<and> p \<notin> used s \<and> used s' = insert p (used s)" using conjunct1 [OF c] by blast
  note c = conjunct2 [OF c]
  show "kAllocate k s p = (None, s') \<Longrightarrow> p \<in> portsOf pr \<and> used s' = insert p (used s)"
    using conjunct1 [OF c] by blast
  note c = conjunct2 [OF c]
  show "kAllocate k s p = (Some e, s') \<Longrightarrow> used s' = used s \<and> (p \<in> portsOf pr \<longrightarrow> p \<in> used s)"
    using conjunct1 [OF c] by blast
  show "used (snd (kRelease k s p)) = used s - {p}" using conjunct2 [OF c] by blast
qed

lemma allocateNextLoop_contract:
  assumes "PortAllocatorContract k pr used"
  shows "allocateNextLoop k n ports s = ((ps, err), s') \<Longrightarrow>
    \<exists>new. ps = ports @ new \<and> distinct new \<and> set new \<subseteq> portsOf pr - used s \<and>
      used s' = used s \<union> set new \<and> length new \<le> n \<and> (err = None \<longrightarrow> length new = n)"
proof (induction n arbitrary: ports s)
  case (Suc n)
  show ?case
  proof (cases "kAllocateNext k s")
    case (Pair r s1)
    show ?thesis
    proof (cases r)
      case (Inl e)
      with Pair Suc.prems contractD(2) [OF assms] show ?thesis
        by (intro exI [where x = "[]"]) auto
    next
      case (Inr p)
      with Pair contractD(3) [OF assms, of s p s1]
      have p: "p \<in> portsOf pr" "p \<notin> used s" "used s1 = insert p (used s)" by auto
      from Pair Inr Suc.prems have "allocateNextLoop k n (ports @ [p]) s1 = ((ps, err), s')" by simp
      from Suc.IH [OF this] obtain new where new: "ps = (ports @ [p]) @ new" "distinct new"
        "set new \<subseteq> portsOf pr - used s1" "used s' = used s1 \<union> set new" "length new \<le> n"
        "err = None \<longrightarrow> length new = n" by blast
      then show ?thesis using p by (intro exI [where x = "p # new"]) auto
    qed
  qed
qed auto

lemma releaseAll_contract:
  assumes "PortAllocatorContract k pr used"
  shows "used (releaseAll k ps s) = used s - set ps"
proof (induction ps arbitrary: s)
  case (Cons p ps)
  with contractD(6) [OF assms, of s p] show ?case by auto
qed simp

lemma restore_contract:
  assumes "PortAllocatorContract k pr used"
  shows "\<exists>s'. fold (\<lambda>port pa. snd (paAllocate k pa port)) ports (BitMapAllocator s) = BitMapAllocator s' \<and>
    used s' = used s \<union> (set ports \<inter> portsOf pr)"
proof (induction ports arbitrary: s)
  case (Cons p ports)
  obtain err s1 where r: "kAllocate k s p = (err, s1)" by (cases "kAllocate k s p")
  have "used s1 = used s \<union> ({p} \<inter> portsOf pr)"
    using contractD(4,5) [OF assms, of s p] r by (cases err) auto
  moreover have "fold (\<lambda>port pa. snd (paAllocate k pa port)) (p # ports) (BitMapAllocator s) =
      fold (\<lambda>port pa. snd (paAllocate k pa port)) ports (BitMapAllocator s1)"
    using r by (simp add: paAllocate_def)
  ultimately show ?case using Cons.IH [of s1] by auto
qed simp

lemma bitmap_batch_cases:
  assumes "PortAllocatorContract k pr used" and "bitmapAllocateBatch k s portNum = (r, s')"
  shows "(\<exists>ports. r = Returned (ports, None) \<and> length ports = nat portNum \<and> distinct ports \<and>
            set ports \<subseteq> portsOf pr - used s \<and> used s' = used s \<union> set ports) \<or>
         (r = Exited 1 \<and> used s' = used s)"
proof -
  obtain ports err s1 where l: "allocateNextLoop k (nat portNum) [] s = ((ports, err), s1)"
    by (metis prod.collapse)
  from allocateNextLoop_contract [OF assms(1) l]
  have ports: "distinct ports" "set ports \<subseteq> portsOf pr - used s" "used s1 = used s \<union> set ports"
    "err = None \<longrightarrow> length ports = nat portNum" by auto
  have "used (releaseAll k ports s1) = used s"
    using ports releaseAll_contract [OF assms(1)] by auto
  note rollback = this
  have res: "(r, s') = (if err \<noteq> None \<or> int (length ports) < portNum
      then (Exited 1, releaseAll k ports s1) else (Returned (ports, err), s1))"
    using l assms(2) by (simp add: bitmapAllocateBatch_def)
  show ?thesis
  proof (cases "err \<noteq> None \<or> int (length ports) < portNum")
    case True
    with res rollback show ?thesis by simp
  next
    case False
    with res have "r = Returned (ports, None)" "s' = s1" by auto
    with False ports show ?thesis by blast
  qed
qed

section \<open>Properties\<close>

text \<open>
  The random allocator ends and delivers: a batch that fits the range gives exactly as many ports
  as asked, pairwise different and in range, if \<open>rand.Intn\<close> stays below its bound and keeps producing
  every value.
\<close>

theorem random_batch:
  assumes "IntnRange Intn (prSize pr)" and "IntnFair Intn (prSize pr)" and "portNum \<le> prSize pr"
  shows "\<exists>ports k'. randomAllocateBatch Intn pr k portNum = Some ((ports, None), k') \<and>
    int (length ports) = max 0 portNum \<and> distinct ports \<and> set ports \<subseteq> portsOf pr"
  using randomBatchLoop_total [OF assms, of "[]" k] assms(3)
  by (auto simp: randomAllocateBatch_def)

lemma cyclic_draws: "IntnRange (\<lambda>k. int (k mod 4)) 4" "IntnFair (\<lambda>k. int (k mod 4)) 4"
proof -
  show "IntnRange (\<lambda>k. int (k mod 4)) 4" by (simp add: IntnRange_def)
  show "IntnFair (\<lambda>k. int (k mod 4)) 4"
    unfolding IntnFair_def
  proof (intro allI impI)
    fix v :: int and k :: nat
    assume "0 \<le> v" "v < 4"
    then show "\<exists>j\<ge>k. int (j mod 4) = v"
      by (intro exI [where x = "4 * k + nat v"]) auto
  qed
qed

theorem random_batch_witness:
  "\<exists>ports k'. randomAllocateBatch (\<lambda>k. int (k mod 4)) \<lparr>prBase = 20000, prSize = 4\<rparr> 0 3 =
     Some ((ports, None), k') \<and>
     int (length ports) = max 0 3 \<and> distinct ports \<and> set ports \<subseteq> portsOf \<lparr>prBase = 20000, prSize = 4\<rparr>"
  by (rule random_batch) (simp_all add: cyclic_draws)

text \<open>
  The bitmap allocator is all or nothing: it returns the asked number of ports, different from each
  other and from all ports in use, and marks exactly these; or it gives back what it took, leaves the
  ports in use as they were and ends the process.
\<close>

theorem bitmap_batch:
  assumes "PortAllocatorContract k pr used" and "bitmapAllocateBatch k s portNum = (r, s')"
  shows "(\<exists>ports. r = Returned (ports, None) \<and> length ports = nat portNum \<and> distinct ports \<and>
            set ports \<subseteq> portsOf pr - used s \<and> used s' = used s \<union> set ports) \<or>
         (r = Exited 1 \<and> used s' = used s)"
  by (rule bitmap_batch_cases [OF assms])

text \<open>A first-fit allocator over the list of free ports, which meets the contract.\<close>

definition firstFit :: "PortRange \<Rightarrow> (int set) k8sPortAllocator" where
  "firstFit pr =
     \<lparr>kNew = \<lambda>_. Inr {},
      kAllocate = \<lambda>u p. if p \<in> portsOf pr \<and> p \<notin> u then (None, insert p u) else (Some (Err ''in use''), u),
      kAllocateNext = \<lambda>u.
        (case filter (\<lambda>p. p \<notin> u) [prBase pr .. prBase pr + prSize pr - 1] of
           [] \<Rightarrow> (Inl (Err ''full''), u)
         | p # _ \<Rightarrow> (Inr p, insert p u)),
      kRelease = \<lambda>u p. (None, u - {p})\<rparr>"

lemma firstFit_new: "kNew (firstFit pr) pr' = Inr {}"
  by (simp add: firstFit_def)

lemma firstFit_contract: "PortAllocatorContract (firstFit pr) pr id"
proof -
  have next_free: "p \<in> portsOf pr \<and> p \<notin> u"
    if "filter (\<lambda>p. p \<notin> u) [prBase pr .. prBase pr + prSize pr - 1] = p # ps" for u p ps
    using arg_cong [OF that, of set] by (auto simp: portsOf_def)
  show ?thesis
    unfolding PortAllocatorContract_def firstFit_def
    by (auto split: list.splits if_splits dest: next_free)
qed

theorem bitmap_batch_witness:
  "(\<exists>ports. Returned ([20000 :: int, 20002], None) = Returned (ports, None :: goerr option) \<and>
      length ports = nat 2 \<and> distinct ports \<and>
      set ports \<subseteq> portsOf \<lparr>prBase = 20000, prSize = 4\<rparr> - id {20001} \<and>
      id {20000, 20001, 20002} = id {20001} \<union> set ports) \<or>
   (Returned ([20000 :: int, 20002], None :: goerr option) = Exited 1 \<and>
      id {20000, 20001, 20002 :: int} = id {20001})"
proof (rule bitmap_batch [OF firstFit_contract])
  show "bitmapAllocateBatch (firstFit \<lparr>prBase = 20000, prSize = 4\<rparr>) {20001} 2 =
      (Returned ([20000, 20002], None), {20000, 20001, 20002})"
    by code_simp
qed

lemma release_contract:
  assumes "PortAllocatorContract k pr used"
  shows "\<exists>s'. fold (\<lambda>port pa. snd (paRelease k pa port)) ports (BitMapAllocator s) = BitMapAllocator s' \<and> used s' = used s - set ports"
proof (induction ports arbitrary: s)
  case (Cons p ports)
  obtain err s1 where r: "kRelease k s p = (err, s1)" by (cases "kRelease k s p")
  then have "used s1 = used s - {p}" using contractD(6) [OF assms, of s p] by simp
  with r Cons.IH [of s1] show ?case by (auto simp: paRelease_def)
qed simp

text \<open>
  The life of the allocator from its first use on: what the callers do with it, in any order, and the ports that are then held,
  which are the reserved ports of the cluster and those handed out and not given back.
\<close>

inductive allocatorLife ::
  "(nat \<Rightarrow> int) \<Rightarrow> 's k8sPortAllocator \<Rightarrow> ('s, 'c) RuntimePortAllocator \<Rightarrow> ('s, 'c) RuntimePortAllocator \<Rightarrow> int set \<Rightarrow> bool"
  for Intn k alloc where
  firstUse: "rpaPa alloc = None \<Longrightarrow> rpaReserved alloc client = Inr reserved \<Longrightarrow>
    GetRuntimePortAllocator k client (Some alloc) = (Returned None, Some a) \<Longrightarrow>
    allocatorLife Intn k alloc a (set reserved \<inter> portsOf (rpaPr alloc))"
| laterUse: "allocatorLife Intn k alloc a held \<Longrightarrow> GetRuntimePortAllocator k client (Some a) = (Returned err, Some a') \<Longrightarrow>
    allocatorLife Intn k alloc a' held"
| taken: "allocatorLife Intn k alloc a held \<Longrightarrow> GetAvailablePorts Intn k a portNum = Some (Returned (ports, err), a') \<Longrightarrow>
    allocatorLife Intn k alloc a' (held \<union> set ports)"
| given: "allocatorLife Intn k alloc a held \<Longrightarrow> ReleaseReservedPorts k a ports = (r, a') \<Longrightarrow>
    allocatorLife Intn k alloc a' (held - set ports)"

lemma allocatorLife_held:
  assumes "PortAllocatorContract k (rpaPr alloc) used" and "rpaPolicy alloc = ''bitmap''"
    and "allocatorLife Intn k alloc a held"
  shows "\<exists>s. rpaPa a = Some (BitMapAllocator s) \<and> used s = held"
  using assms(3)
proof (induction rule: allocatorLife.induct)
  case (firstUse client reserved a)
  then obtain s0 where s0: "kNew k (rpaPr alloc) = Inr s0"
    using assms(2) by (auto simp: GetRuntimePortAllocator_def createAndRestorePortAllocator_def split: sum.splits)
  obtain s where "fold (\<lambda>port pa. snd (paAllocate k pa port)) reserved (BitMapAllocator s0) = BitMapAllocator s"
    "used s = used s0 \<union> (set reserved \<inter> portsOf (rpaPr alloc))"
    using restore_contract [OF assms(1)] by blast
  with firstUse s0 assms(2) contractD(1) [OF assms(1) s0] show ?case
    by (auto simp: GetRuntimePortAllocator_def createAndRestorePortAllocator_def needResetReservedPorts_def)
next
  case (taken a held portNum ports err a')
  then obtain s s' where s: "rpaPa a = Some (BitMapAllocator s)" "used s = held"
    and batch: "bitmapAllocateBatch k s portNum = (Returned (ports, err), s')" "rpaPa a' = Some (BitMapAllocator s')"
    by (auto simp: GetAvailablePorts_def split: prod.splits)
  from bitmap_batch_cases [OF assms(1) batch(1)] s batch(2) show ?case by auto
next
  case (given a held ports r a')
  then obtain s where s: "rpaPa a = Some (BitMapAllocator s)" "used s = held" by blast
  obtain s' where "fold (\<lambda>port pa. snd (paRelease k pa port)) ports (BitMapAllocator s) = BitMapAllocator s'" "used s' = held - set ports"
    using release_contract [OF assms(1)] s(2) by blast
  with given.hyps s show ?case by (auto simp: ReleaseReservedPorts_def)
qed (auto simp: GetRuntimePortAllocator_def)

text \<open>
  C35. Under the bitmap policy, at every point of the life of the allocator after a first use that succeeded, whatever batches
  were handed out and given back since: the ports it has marked are exactly the ports in range that the cluster
  reported as reserved at the first use together with the ports handed out, less those that were given back, and a batch that it
  returns then has the number of ports asked for, all different, in range, and none of them among the marked ones.
\<close>

theorem bitmap_respects_reserved:
  assumes "PortAllocatorContract k (rpaPr alloc) used" and "rpaPolicy alloc = ''bitmap''"
    and "allocatorLife Intn k alloc a held"
  shows "(\<exists>s. rpaPa a = Some (BitMapAllocator s) \<and> used s = held) \<and>
    (\<forall>portNum ports err a'. GetAvailablePorts Intn k a portNum = Some (Returned (ports, err), a') \<longrightarrow>
       err = None \<and> length ports = nat portNum \<and> distinct ports \<and> set ports \<subseteq> portsOf (rpaPr alloc) - held)"
proof -
  obtain s where s: "rpaPa a = Some (BitMapAllocator s)" "used s = held"
    using allocatorLife_held [OF assms] by blast
  have "err = None \<and> length ports = nat portNum \<and> distinct ports \<and> set ports \<subseteq> portsOf (rpaPr alloc) - held"
    if "GetAvailablePorts Intn k a portNum = Some (Returned (ports, err), a')" for portNum ports err a'
  proof -
    from that s(1) obtain s' where "bitmapAllocateBatch k s portNum = (Returned (ports, err), s')"
      by (auto simp: GetAvailablePorts_def split: prod.splits)
    from bitmap_batch_cases [OF assms(1) this] s(2) show ?thesis by auto
  qed
  with s show ?thesis by blast
qed

definition exampleAllocator :: "(int set, unit) RuntimePortAllocator" where
  "exampleAllocator = \<lparr>rpaPa = None, rpaPolicy = ''bitmap'', rpaPr = \<lparr>prBase = 20000, prSize = 4\<rparr>, rpaReserved = \<lambda>_. Inr [20001]\<rparr>"

abbreviation exampleState :: "int set \<Rightarrow> (int set, unit) RuntimePortAllocator" where
  "exampleState u \<equiv> exampleAllocator\<lparr>rpaPa := Some (BitMapAllocator u)\<rparr>"

lemma example_batches:
  "GetAvailablePorts (\<lambda>_. 0) (firstFit (rpaPr exampleAllocator)) (exampleState {20001}) 2 =
     Some (Returned ([20000, 20002], None), exampleState {20000, 20001, 20002})"
  "GetAvailablePorts (\<lambda>_. 0) (firstFit (rpaPr exampleAllocator)) (exampleState {20001, 20002}) 1 =
     Some (Returned ([20000], None), exampleState {20000, 20001, 20002})"
  by (simp_all add: GetAvailablePorts_def bitmapAllocateBatch_def firstFit_def exampleAllocator_def numeral_2_eq_2 upto.simps insert_commute)

lemma example_life: "allocatorLife (\<lambda>_. 0) (firstFit (rpaPr exampleAllocator)) exampleAllocator (exampleState {20001, 20002}) {20001, 20002}"
proof -
  let ?life = "allocatorLife (\<lambda>_. 0) (firstFit (rpaPr exampleAllocator)) exampleAllocator"
  have "?life (exampleState {20001}) (set [20001] \<inter> portsOf (rpaPr exampleAllocator))"
    by (rule allocatorLife.firstUse [where client = "()"])
       (simp_all add: exampleAllocator_def GetRuntimePortAllocator_def createAndRestorePortAllocator_def firstFit_def
          needResetReservedPorts_def paAllocate_def portsOf_def)
  then have "?life (exampleState {20001}) {20001}" by (simp add: portsOf_def exampleAllocator_def)
  from allocatorLife.taken [OF this example_batches(1)]
  have "?life (exampleState {20000, 20001, 20002}) {20000, 20001, 20002}" by (simp add: insert_commute)
  from allocatorLife.given [OF this, of "[20000]" "Returned ()" "exampleState {20001, 20002}"]
  show ?thesis by (simp add: ReleaseReservedPorts_def paRelease_def firstFit_def exampleAllocator_def insert_commute insert_Diff_if)
qed

theorem bitmap_respects_reserved_witness:
  "set [20000 :: int] \<subseteq> portsOf (rpaPr exampleAllocator) - {20001, 20002} \<and> length [20000 :: int] = nat 1"
proof -
  have policy: "rpaPolicy exampleAllocator = ''bitmap''" by (simp add: exampleAllocator_def)
  from conjunct2 [OF bitmap_respects_reserved [OF firstFit_contract policy example_life], rule_format, OF example_batches(2)]
  show ?thesis by simp
qed

text \<open>
  If the reserved ports cannot be read at the first use, that use fails; every later use then
  succeeds with an allocator in which no port is reserved, whatever the cluster reports by then.
\<close>

theorem failed_restore_forgets_reserved:
  assumes "PortAllocatorContract k (rpaPr alloc) used"
    and "rpaPolicy alloc = ''bitmap''" and "rpaPa alloc = None" and "kNew k (rpaPr alloc) = Inr s0"
    and "rpaReserved alloc client = Inl e"
  shows "\<exists>alloc'. GetRuntimePortAllocator k client (Some alloc) = (Returned (Some e), Some alloc') \<and>
    (\<forall>client'. GetRuntimePortAllocator k client' (Some alloc') = (Returned None, Some alloc')) \<and>
    rpaPa alloc' = Some (BitMapAllocator s0) \<and> used s0 = {}"
  using assms contractD(1) [OF assms(1,4)]
  by (simp add: GetRuntimePortAllocator_def createAndRestorePortAllocator_def needResetReservedPorts_def)

theorem failed_restore_forgets_reserved_witness:
  "\<exists>alloc'. GetRuntimePortAllocator (firstFit \<lparr>prBase = 20000, prSize = 4\<rparr>) False
     (Some \<lparr>rpaPa = None, rpaPolicy = ''bitmap'', rpaPr = \<lparr>prBase = 20000, prSize = 4\<rparr>,
            rpaReserved = \<lambda>up. if up then Inr [20001] else Inl (Err ''timeout'')\<rparr>) =
     (Returned (Some (Err ''timeout'')), Some alloc') \<and>
    (\<forall>client'. GetRuntimePortAllocator (firstFit \<lparr>prBase = 20000, prSize = 4\<rparr>) client' (Some alloc') =
       (Returned None, Some alloc')) \<and>
    rpaPa alloc' = Some (BitMapAllocator {}) \<and> id {} = ({} :: int set)"
proof (rule failed_restore_forgets_reserved)
  show "PortAllocatorContract (firstFit \<lparr>prBase = 20000, prSize = 4\<rparr>)
      (rpaPr \<lparr>rpaPa = None, rpaPolicy = ''bitmap'', rpaPr = \<lparr>prBase = 20000, prSize = 4\<rparr>,
              rpaReserved = \<lambda>up. if up then Inr [20001] else Inl (Err ''timeout'')\<rparr>) id"
    by (simp only: RuntimePortAllocator.select_convs firstFit_contract)
qed (simp_all add: firstFit_new)

end
