(* ===== verification/Dataset_Api.thy ===== *)
theory Dataset_Api
  imports Go_Strings "HOL-Library.AList"
begin

text \<open>
  The data model of the \<open>Dataset\<close> custom resource (\<open>api/v1alpha1/dataset_types.go\<close>, \<open>status.go\<close>) and the
  pure operations on it: binding and the record of running data operations (methods of \<open>Dataset\<close>), the
  condition lists of datasets and runtimes (\<open>pkg/utils/dataset_condition.go\<close>, \<open>runtime_condition.go\<close>),
  slices (\<open>slice.go\<close>, \<open>crtl_utils.go\<close>) and the difference between mounted and wanted paths
  (\<open>dataset.go\<close>, \<open>ufs_path_builder.go\<close>). Two interfaces are locales: \<open>condition_list\<close>, which both kinds of
  conditions interpret, and \<open>operation_refs\<close>, which the methods of \<open>Dataset\<close> interpret. A Go map is an
  association list with distinct keys, a nil map \<open>None\<close>; a time is a number of nanoseconds.
\<close>

section \<open>Object metadata\<close>

record OwnerReference =
  orAPIVersion :: string
  orKind :: string
  orName :: string
  orUID :: string
  orController :: "bool option"

record ObjectMeta =
  omName :: string
  omNamespace :: string
  omUID :: string
  omResourceVersion :: string
  omGeneration :: int
  omCreationTimestamp :: int
  omDeletionTimestamp :: "int option"
  omFinalizers :: "string list"
  omOwnerReferences :: "OwnerReference list"
  omLabels :: "(string \<times> string) list"
  omAnnotations :: "(string \<times> string) list"

section \<open>dataset_types.go and status.go\<close>

text \<open>The fields of \<open>Mount\<close>, \<open>Runtime\<close>, \<open>DatasetSpec\<close> and \<open>DatasetStatus\<close> that controllers read or write.\<close>

record NodeSelectorRequirement =
  nrKey :: string
  nrOperator :: string
  nrValues :: "string list"

type_synonym NodeSelectorTerm = "NodeSelectorRequirement list"

text \<open>An option whose value is a key of a secret.\<close>

record EncryptOption =
  eoName :: string
  eoSecretName :: string
  eoSecretKey :: string

record DatasetMount =
  dmMountPoint :: string
  dmOptions :: "(string \<times> string) list"
  dmEncryptOptions :: "EncryptOption list"
  dmName :: string
  dmPath :: string
  dmReadOnly :: bool
  dmShared :: bool

record Runtime =
  rtName :: string
  rtNamespace :: string
  rtCategory :: string
  rtType :: string
  rtMasterReplicas :: int

record DatasetCondition =
  dcType :: string
  dcStatus :: string
  dcReason :: string
  dcMessage :: string
  dcLastUpdateTime :: int
  dcLastTransitionTime :: int

record RuntimeCondition =
  rcType :: string
  rcStatus :: string
  rcReason :: string
  rcMessage :: string
  rcLastProbeTime :: int
  rcLastTransitionTime :: int

record DatasetSpec =
  dsMounts :: "DatasetMount list"
  dsAccessModes :: "string list"
  dsRuntimes :: "Runtime list"
  dsPlacementMode :: string
  dsNodeAffinity :: "NodeSelectorTerm list option option"
  dsSharedOptions :: "(string \<times> string) list"
  dsSharedEncryptOptions :: "EncryptOption list"
  dsRestorePath :: "string option"

record DatasetStatus =
  dstMounts :: "DatasetMount list"
  dstUfsTotal :: string
  dstPhase :: string
  dstRuntimes :: "Runtime list"
  dstConditions :: "DatasetCondition list"
  dstCacheStates :: "(string \<times> string) list"
  dstHCFSStatus :: "(string \<times> string) option"
  dstFileNum :: string
  dstDataLoadRef :: string
  dstDataBackupRef :: string
  dstOperationRef :: "(string \<times> string) list option"
  dstDatasetRef :: "string list"

record Dataset =
  dAPIVersion :: string
  dKind :: string
  dMeta :: ObjectMeta
  dSpec :: DatasetSpec
  dStatus :: DatasetStatus

abbreviation setStatus :: "(DatasetStatus \<Rightarrow> DatasetStatus) \<Rightarrow> Dataset \<Rightarrow> Dataset" where
  "setStatus f d \<equiv> d\<lparr>dStatus := f (dStatus d)\<rparr>"

definition CanbeBound :: "Dataset \<Rightarrow> string \<Rightarrow> string \<Rightarrow> string \<Rightarrow> bool" where
  "CanbeBound dataset name namespace category =
     (dstRuntimes (dStatus dataset) = [] \<or>
      list_ex (\<lambda>r. rtName r = name \<and> rtNamespace r = namespace \<and> rtCategory r = category)
        (dstRuntimes (dStatus dataset)))"

definition IsExclusiveMode :: "Dataset \<Rightarrow> bool" where
  "IsExclusiveMode dataset =
     (dsPlacementMode (dSpec dataset) = '''' \<or> dsPlacementMode (dSpec dataset) = ''Exclusive'')"

text \<open>Reading an absent key of a map gives the empty string.\<close>

definition lookupStr :: "(string \<times> string) list \<Rightarrow> string \<Rightarrow> string" where
  "lookupStr m k = (case map_of m k of None \<Rightarrow> '''' | Some v \<Rightarrow> v)"

definition GetDataOperationInProgress :: "Dataset \<Rightarrow> string \<Rightarrow> string" where
  "GetDataOperationInProgress dataset operationType =
     (case dstOperationRef (dStatus dataset) of
        None \<Rightarrow> ''''
      | Some refs \<Rightarrow> lookupStr refs operationType)"

definition setOperationRef :: "(string \<times> string) list \<Rightarrow> Dataset \<Rightarrow> Dataset" where
  "setOperationRef refs dataset = setStatus (\<lambda>s. s\<lparr>dstOperationRef := Some refs\<rparr>) dataset"

definition SetDataOperationInProgress :: "Dataset \<Rightarrow> string \<Rightarrow> string \<Rightarrow> Dataset" where
  "SetDataOperationInProgress dataset operationType name =
     (case dstOperationRef (dStatus dataset) of
        None \<Rightarrow> setOperationRef [(operationType, name)] dataset
      | Some refs \<Rightarrow>
          if lookupStr refs operationType = ''''
          then setOperationRef (AList.update operationType name refs) dataset
          else if name \<in> set (Split CHR '','' (lookupStr refs operationType)) then dataset
          else setOperationRef
                 (AList.update operationType (lookupStr refs operationType @ '','' @ name) refs) dataset)"

text \<open>The returned string is what is left under the operation type.\<close>

definition RemoveDataOperationInProgress :: "Dataset \<Rightarrow> string \<Rightarrow> string \<Rightarrow> string \<times> Dataset" where
  "RemoveDataOperationInProgress dataset operationType name =
     (case dstOperationRef (dStatus dataset) of
        None \<Rightarrow> ('''', dataset)
      | Some refs \<Rightarrow>
          let dataOpKeys = Split CHR '','' (lookupStr refs operationType) in
          if dataOpKeys = [name]
          then ('''', setOperationRef (AList.delete operationType refs) dataset)
          else let left = Join CHR '','' (remove1 name dataOpKeys) in
               (left, setOperationRef (AList.update operationType left refs) dataset))"

section \<open>dataset_condition.go\<close>

definition NewDatasetCondition :: "string \<Rightarrow> string \<Rightarrow> string \<Rightarrow> string \<Rightarrow> int \<Rightarrow> DatasetCondition" where
  "NewDatasetCondition conditionType reason message status now =
     \<lparr>dcType = conditionType, dcStatus = status, dcReason = reason, dcMessage = message,
      dcLastUpdateTime = now, dcLastTransitionTime = now\<rparr>"

text \<open>The index and the condition of the first match, \<open>-1\<close> and nil without one.\<close>

fun findCondition :: "('c \<Rightarrow> string) \<Rightarrow> 'c list \<Rightarrow> string \<Rightarrow> nat \<Rightarrow> int \<times> 'c option" where
  "findCondition ty [] condType i = (-1, None)"
| "findCondition ty (c # cs) condType i =
     (if ty c = condType then (int i, Some c) else findCondition ty cs condType (Suc i))"

definition GetDatasetCondition :: "DatasetCondition list \<Rightarrow> string \<Rightarrow> int \<times> DatasetCondition option" where
  "GetDatasetCondition conditions condType = findCondition dcType conditions condType 0"

definition UpdateDatasetCondition ::
  "DatasetCondition list \<Rightarrow> DatasetCondition \<Rightarrow> DatasetCondition list" where
  "UpdateDatasetCondition conditions condition =
     (case GetDatasetCondition conditions (dcType condition) of
        (index, None) \<Rightarrow> conditions @ [condition]
      | (index, Some oldCondition) \<Rightarrow>
          conditions[nat index :=
            (if dcStatus condition = dcStatus oldCondition
             then condition\<lparr>dcLastTransitionTime := dcLastTransitionTime oldCondition\<rparr>
             else condition)])"

definition IsDatasetConditionExist :: "DatasetCondition list \<Rightarrow> DatasetCondition \<Rightarrow> bool" where
  "IsDatasetConditionExist conditions cond =
     (case GetDatasetCondition conditions (dcType cond) of
        (index, Some existCond) \<Rightarrow> index \<noteq> -1 \<and> dcStatus existCond = ''True''
      | (index, None) \<Rightarrow> False)"

section \<open>runtime_condition.go\<close>

definition NewRuntimeCondition :: "string \<Rightarrow> string \<Rightarrow> string \<Rightarrow> string \<Rightarrow> int \<Rightarrow> RuntimeCondition" where
  "NewRuntimeCondition conditionType reason message status now =
     \<lparr>rcType = conditionType, rcStatus = status, rcReason = reason, rcMessage = message,
      rcLastProbeTime = now, rcLastTransitionTime = now\<rparr>"

definition GetRuntimeCondition :: "RuntimeCondition list \<Rightarrow> string \<Rightarrow> int \<times> RuntimeCondition option" where
  "GetRuntimeCondition conditions condType = findCondition rcType conditions condType 0"

definition isReadyTypeCondition :: "RuntimeCondition \<Rightarrow> bool" where
  "isReadyTypeCondition condition =
     (rcType condition = ''MasterReady'' \<or> rcType condition = ''FusesReady'' \<or>
      rcType condition = ''WorkersReady'')"

definition isOnceActionTypeCondition :: "RuntimeCondition \<Rightarrow> bool" where
  "isOnceActionTypeCondition condition =
     (rcType condition = ''MasterInitialized'' \<or> rcType condition = ''FusesInitialized'' \<or>
      rcType condition = ''WorkersInitialized'')"

definition UpdateRuntimeCondition ::
  "RuntimeCondition list \<Rightarrow> RuntimeCondition \<Rightarrow> RuntimeCondition list" where
  "UpdateRuntimeCondition conditions condition =
     (case GetRuntimeCondition conditions (rcType condition) of
        (index, None) \<Rightarrow> conditions @ [condition]
      | (index, Some oldCondition) \<Rightarrow>
          if isOnceActionTypeCondition condition then conditions
          else conditions[nat index :=
            (if isReadyTypeCondition condition \<and> rcStatus condition = rcStatus oldCondition
             then condition\<lparr>rcLastTransitionTime := rcLastTransitionTime oldCondition,
                            rcLastProbeTime := rcLastProbeTime oldCondition\<rparr>
             else condition)])"

section \<open>slice.go and crtl_utils.go\<close>

text \<open>The map \<open>hash\<close> is the set of its keys.\<close>

definition SubtractString :: "string list \<Rightarrow> string list \<Rightarrow> string list" where
  "SubtractString x y =
     (if x = [] then []
      else if y = [] then x
      else let hash = set x - set y in filter (\<lambda>v. v \<in> hash) x)"

fun removeDuplicateLoop :: "string list \<Rightarrow> string list \<Rightarrow> string list" where
  "removeDuplicateLoop [] lst = lst"
| "removeDuplicateLoop (item # items) lst =
     removeDuplicateLoop items (if item \<in> set lst then lst else lst @ [item])"

definition RemoveDuplicateStr :: "string list \<Rightarrow> string list" where
  "RemoveDuplicateStr strSlice = removeDuplicateLoop strSlice []"

definition ContainsString :: "string list \<Rightarrow> string \<Rightarrow> bool" where
  "ContainsString slice s = list_ex (\<lambda>item. item = s) slice"

definition ContainsSubString :: "string list \<Rightarrow> string \<Rightarrow> bool" where
  "ContainsSubString slice s = list_ex (\<lambda>item. Contains item s) slice"

definition ContainsOwners :: "OwnerReference list \<Rightarrow> Dataset \<Rightarrow> bool" where
  "ContainsOwners owners dataset = list_ex (\<lambda>owner. orUID owner = omUID (dMeta dataset)) owners"

definition ContainsLabel :: "(string \<times> string) list \<Rightarrow> string \<Rightarrow> string \<Rightarrow> bool" where
  "ContainsLabel labels labelKey labelValue = (map_of labels labelKey = Some labelValue)"

definition ContainsSelector :: "(string \<times> string) list \<Rightarrow> (string \<times> string) list \<Rightarrow> bool" where
  "ContainsSelector labels selector = list_all (\<lambda>(key, val). lookupStr labels key = val) selector"

definition RemoveString :: "string list \<Rightarrow> string \<Rightarrow> string list" where
  "RemoveString slice s = filter (\<lambda>item. item \<noteq> s) slice"

definition HasDeletionTimestamp :: "ObjectMeta \<Rightarrow> bool" where
  "HasDeletionTimestamp obj = (omDeletionTimestamp obj \<noteq> None)"

text \<open>\<open>ctrl.Result\<close>, with \<open>RequeueAfter\<close> in nanoseconds.\<close>

record Result =
  requeue :: bool
  requeueAfter :: int

type_synonym reconcileResult = "Result \<times> goerr option"

definition RequeueIfError :: "goerr option \<Rightarrow> reconcileResult" where
  "RequeueIfError err = (\<lparr>requeue = False, requeueAfter = 0\<rparr>, err)"

definition NoRequeue :: reconcileResult where
  "NoRequeue = RequeueIfError None"

definition RequeueAfterInterval :: "int \<Rightarrow> reconcileResult" where
  "RequeueAfterInterval interval = (\<lparr>requeue = False, requeueAfter = interval\<rparr>, None)"

definition RequeueImmediately :: reconcileResult where
  "RequeueImmediately = (\<lparr>requeue = True, requeueAfter = 0\<rparr>, None)"

definition RequeueImmediatelyUnlessGenerationChanged :: "int \<Rightarrow> int \<Rightarrow> reconcileResult" where
  "RequeueImmediatelyUnlessGenerationChanged prevGeneration curGeneration =
     (if prevGeneration = curGeneration then RequeueImmediately else NoRequeue)"

abbreviation second :: int where
  "second \<equiv> 1000000000"

text \<open>\<open>Duration.Round(time.Second)\<close> rounds half away from zero; \<open>Duration.String\<close> of whole seconds.\<close>

definition durationString :: "int \<Rightarrow> string" where
  "durationString d =
     (let u = (abs d + second div 2) div second;
          s = u mod 60; m = u div 60 mod 60; h = u div 3600 in
      if u = 0 then ''0s''
      else (if d < 0 then ''-'' else '''') @
           (if h > 0 then Itoa h @ ''h'' else '''') @
           (if u \<ge> 60 then Itoa m @ ''m'' else '''') @ Itoa s @ ''s'')"

text \<open>The zero time is \<open>0\<close>.\<close>

definition CalculateDuration :: "int \<Rightarrow> int \<Rightarrow> int \<Rightarrow> string" where
  "CalculateDuration now creationTime finishTime =
     durationString ((if finishTime = 0 then now else finishTime) - creationTime)"

section \<open>dataset.go and ufs_path_builder.go\<close>

definition IsFluidNativeScheme :: "string \<Rightarrow> bool" where
  "IsFluidNativeScheme s = (HasPrefix s ''local://'' \<or> HasPrefix s ''pvc://'')"

definition IsSetupDone :: "Dataset \<Rightarrow> bool" where
  "IsSetupDone dataset = (fst (GetDatasetCondition (dstConditions (dStatus dataset)) ''Ready'') \<noteq> -1)"

definition IsAbs :: "string \<Rightarrow> bool" where
  "IsAbs p = HasPrefix p ''/''"

definition GenUFSPathInUnifiedNamespace :: "DatasetMount \<Rightarrow> string" where
  "GenUFSPathInUnifiedNamespace mount =
     (if IsAbs (dmPath mount) then dmPath mount
      else ''/'' @ dropWhile (\<lambda>c. c = CHR ''/'') (dmName mount))"

definition GenAlluxioUFSRootPath :: "DatasetMount list \<Rightarrow> string \<times> DatasetMount option" where
  "GenAlluxioUFSRootPath items =
     (case items of
        [m] \<Rightarrow>
          if \<not> IsFluidNativeScheme (dmMountPoint m) \<and> GenUFSPathInUnifiedNamespace m = ''/''
          then (dmMountPoint m, Some m) else (''/underFSStorage'', None)
      | _ \<Rightarrow> (''/underFSStorage'', None))"

record UFSToUpdate =
  utToAdd :: "string list"
  utToRemove :: "string list"
  utDataset :: Dataset

definition NewUFSToUpdate :: "Dataset \<Rightarrow> UFSToUpdate" where
  "NewUFSToUpdate ds = \<lparr>utToAdd = [], utToRemove = [], utDataset = ds\<rparr>"

definition mountPaths :: "DatasetMount list \<Rightarrow> string list" where
  "mountPaths mounts =
     map GenUFSPathInUnifiedNamespace (filter (\<lambda>m. \<not> IsFluidNativeScheme (dmMountPoint m)) mounts)"

definition AnalyzePathsDelta :: "UFSToUpdate \<Rightarrow> (string list \<times> string list) \<times> UFSToUpdate" where
  "AnalyzePathsDelta u =
     (let specMountPaths = mountPaths (dsMounts (dSpec (utDataset u)));
          mountedMountPaths = mountPaths (dstMounts (dStatus (utDataset u))) in
      ((specMountPaths, mountedMountPaths),
       u\<lparr>utToAdd := SubtractString specMountPaths mountedMountPaths,
         utToRemove := SubtractString mountedMountPaths specMountPaths\<rparr>))"

definition ShouldUpdate :: "UFSToUpdate \<Rightarrow> bool" where
  "ShouldUpdate u = (length (utToAdd u) > 0 \<or> length (utToRemove u) > 0)"

definition AddMountPaths :: "string list \<Rightarrow> UFSToUpdate \<Rightarrow> UFSToUpdate" where
  "AddMountPaths paths u =
     (if utToAdd u = [] then u\<lparr>utToAdd := paths\<rparr>
      else u\<lparr>utToAdd := utToAdd u @ filter (\<lambda>p. p \<notin> set (utToAdd u)) paths\<rparr>)"

text \<open>\<open>GetRuntimeByCategory\<close> of \<open>dataset_runtime.go\<close>.\<close>

definition GetRuntimeByCategory :: "Runtime list \<Rightarrow> string \<Rightarrow> int \<times> Runtime option" where
  "GetRuntimeByCategory runtimes category = findCondition rtCategory runtimes category 0"

section \<open>Lemmas on condition lists\<close>

lemma findCondition_None: "snd (findCondition ty cs t i) = None \<longleftrightarrow> t \<notin> ty ` set cs"
  by (induction cs arbitrary: i) auto

lemma findCondition_index: "fst (findCondition ty cs t i) = -1 \<longleftrightarrow> t \<notin> ty ` set cs"
  by (induction cs arbitrary: i) auto

lemma findCondition_Some:
  "findCondition ty cs t i = (k, Some c) \<Longrightarrow>
     i \<le> nat k \<and> 0 \<le> k \<and> nat k - i < length cs \<and> cs ! (nat k - i) = c \<and> ty c = t"
proof (induction cs arbitrary: i)
  case (Cons d cs)
  show ?case
  proof (cases "ty d = t")
    case True
    with Cons.prems show ?thesis by auto
  next
    case False
    with Cons.prems have "findCondition ty cs t (Suc i) = (k, Some c)" by simp
    from Cons.IH [OF this] show ?thesis by (auto simp: nth_Cons' Suc_diff_Suc)
  qed
qed simp

lemma findCondition_update:
  "findCondition ty cs t i = (k, Some old) \<Longrightarrow> ty new = t \<Longrightarrow>
     findCondition ty (cs[nat k - i := new]) t i = (k, Some new)"
proof (induction cs arbitrary: i)
  case (Cons d ds)
  show ?case
  proof (cases "ty d = t")
    case True
    with Cons.prems show ?thesis by auto
  next
    case False
    with Cons.prems have *: "findCondition ty ds t (Suc i) = (k, Some old)" by simp
    from findCondition_Some [OF *] obtain j where "nat k - i = Suc j" "nat k - Suc i = j"
      by (metis Suc_diff_Suc Suc_le_eq)
    with False Cons.IH [OF * Cons.prems(2)] show ?thesis by simp
  qed
qed simp

lemma findCondition_cases [case_names absent present]:
  obtains "t \<notin> ty ` set cs" and "findCondition ty cs t 0 = (-1, None)"
  | k where "k < length cs" and "ty (cs ! k) = t" and "t \<in> ty ` set cs"
      and "findCondition ty cs t 0 = (int k, Some (cs ! k))"
proof (cases "findCondition ty cs t 0")
  case (Pair k r)
  show ?thesis
  proof (cases r)
    case None
    with Pair show ?thesis
      using findCondition_None [of ty cs t 0] findCondition_index [of ty cs t 0] that(1) by simp
  next
    case (Some c)
    with Pair have "0 \<le> k" "nat k < length cs" "cs ! nat k = c" "ty c = t"
      using findCondition_Some [of ty cs t 0 k c] by auto
    then show ?thesis using Pair Some that(2) [of "nat k"] by auto
  qed
qed

text \<open>
  What the controllers rely on when they record conditions: at most one entry for a type, entries of
  other types untouched, no entry ever lost.
\<close>

locale condition_list =
  fixes ty :: "'c \<Rightarrow> 't"
    and update :: "'c list \<Rightarrow> 'c \<Rightarrow> 'c list"
  assumes types: "map ty (update cs c) = (if ty c \<in> ty ` set cs then map ty cs else map ty cs @ [ty c])"
    and others: "t \<noteq> ty c \<Longrightarrow> filter (\<lambda>d. ty d = t) (update cs c) = filter (\<lambda>d. ty d = t) cs"
begin

lemma distinct_update: "distinct (map ty cs) \<Longrightarrow> distinct (map ty (update cs c))"
  by (auto simp: types)

lemma distinct_updates: "distinct (map ty cs) \<Longrightarrow> distinct (map ty (fold (\<lambda>c cs. update cs c) new cs))"
  by (induction new arbitrary: cs) (auto simp: distinct_update)

lemma types_updates:
  "ty ` set (fold (\<lambda>c cs. update cs c) new cs) = ty ` set cs \<union> ty ` set new"
proof (induction new arbitrary: cs)
  case (Cons c new)
  have "ty ` set (update cs c) = insert (ty c) (ty ` set cs)"
    using arg_cong [OF types [of cs c], of set] by auto
  with Cons show ?case by auto
qed simp

lemma others_updates:
  "t \<notin> ty ` set new \<Longrightarrow>
     filter (\<lambda>d. ty d = t) (fold (\<lambda>c cs. update cs c) new cs) = filter (\<lambda>d. ty d = t) cs"
  by (induction new arbitrary: cs) (auto simp: others)

end

lemma map_update_same: "k < length cs \<Longrightarrow> f (cs ! k) = f d \<Longrightarrow> map f (cs[k := d]) = map f cs"
  by (simp add: map_update list_update_same_conv)

lemma filter_update_other:
  "k < length cs \<Longrightarrow> \<not> P (cs ! k) \<Longrightarrow> \<not> P d \<Longrightarrow> filter P (cs[k := d]) = filter P cs"
proof (induction cs arbitrary: k)
  case (Cons c cs)
  then show ?case by (cases k) auto
qed simp

lemma UpdateDatasetCondition_laws:
  "map dcType (UpdateDatasetCondition cs c) =
     (if dcType c \<in> dcType ` set cs then map dcType cs else map dcType cs @ [dcType c])"
  "t \<noteq> dcType c \<Longrightarrow>
     filter (\<lambda>d. dcType d = t) (UpdateDatasetCondition cs c) = filter (\<lambda>d. dcType d = t) cs"
  by (cases rule: findCondition_cases [of "dcType c" dcType cs];
      simp add: UpdateDatasetCondition_def GetDatasetCondition_def map_update_same filter_update_other)+

lemma UpdateRuntimeCondition_laws:
  "map rcType (UpdateRuntimeCondition cs c) =
     (if rcType c \<in> rcType ` set cs then map rcType cs else map rcType cs @ [rcType c])"
  "t \<noteq> rcType c \<Longrightarrow>
     filter (\<lambda>d. rcType d = t) (UpdateRuntimeCondition cs c) = filter (\<lambda>d. rcType d = t) cs"
  by (cases rule: findCondition_cases [of "rcType c" rcType cs];
      simp add: UpdateRuntimeCondition_def GetRuntimeCondition_def map_update_same filter_update_other)+

interpretation dsCond: condition_list dcType UpdateDatasetCondition
  by unfold_locales (fact UpdateDatasetCondition_laws)+

interpretation rtCond: condition_list rcType UpdateRuntimeCondition
  by unfold_locales (fact UpdateRuntimeCondition_laws)+

section \<open>Lemmas on the data operations in progress\<close>

text \<open>
  The contract of the methods of \<open>Dataset\<close>: for each operation type the dataset holds a list of
  operation names, to which one name is added at most once and from which it can be removed.
\<close>

locale operation_refs =
  fixes valid :: "'n \<Rightarrow> bool"
    and wf :: "'d \<Rightarrow> bool"
    and holders :: "'d \<Rightarrow> 't \<Rightarrow> 'n list"
    and setOp :: "'d \<Rightarrow> 't \<Rightarrow> 'n \<Rightarrow> 'd"
    and removeOp :: "'d \<Rightarrow> 't \<Rightarrow> 'n \<Rightarrow> 'd"
  assumes wf_set: "wf d \<Longrightarrow> valid n \<Longrightarrow> wf (setOp d t n)"
    and wf_remove: "wf d \<Longrightarrow> valid n \<Longrightarrow> wf (removeOp d t n)"
    and holders_set: "wf d \<Longrightarrow> valid n \<Longrightarrow>
      holders (setOp d t n) t' =
        (if t' = t \<and> n \<notin> set (holders d t) then holders d t @ [n] else holders d t')"
    and holders_remove: "wf d \<Longrightarrow> valid n \<Longrightarrow>
      holders (removeOp d t n) t' = (if t' = t then remove1 n (holders d t) else holders d t')"
begin

text \<open>A history of requests: \<open>(True, t, n)\<close> registers, \<open>(False, t, n)\<close> releases.\<close>

fun apply1 :: "bool \<times> 't \<times> 'n \<Rightarrow> 'd \<Rightarrow> 'd" where
  "apply1 (b, t, n) d = (if b then setOp d t n else removeOp d t n)"

definition run :: "(bool \<times> 't \<times> 'n) list \<Rightarrow> 'd \<Rightarrow> 'd" where
  "run reqs d = fold apply1 reqs d"

lemma run_snoc: "run (reqs @ [q]) d = apply1 q (run reqs d)"
  by (simp add: run_def)

lemma wf_run: "wf d \<Longrightarrow> (\<And>b t n. (b, t, n) \<in> set reqs \<Longrightarrow> valid n) \<Longrightarrow> wf (run reqs d)"
proof (induction reqs rule: rev_induct)
  case (snoc q reqs)
  then show ?case by (cases q) (auto simp: run_snoc intro: wf_set wf_remove)
qed (simp add: run_def)

lemma distinct_run:
  assumes "wf d" and "\<And>t. distinct (holders d t)" and "\<And>b t n. (b, t, n) \<in> set reqs \<Longrightarrow> valid n"
  shows "distinct (holders (run reqs d) t)"
  using assms(3)
proof (induction reqs rule: rev_induct)
  case Nil
  then show ?case by (simp add: run_def assms(2))
next
  case (snoc q reqs)
  then have "wf (run reqs d)" using assms(1) by (intro wf_run) auto
  moreover obtain b t' n where q: "q = (b, t', n)" by (cases q)
  moreover have "valid n" using snoc.prems q by auto
  moreover have "distinct (holders (run reqs d) t)" using snoc by auto
  ultimately show ?case by (auto simp: run_snoc holders_set holders_remove intro: distinct_remove1)
qed

text \<open>An operation is registered exactly if its last request was a registration.\<close>

lemma run_registered:
  assumes "wf d" and "\<And>t. holders d t = []" and "\<And>b t n. (b, t, n) \<in> set reqs \<Longrightarrow> valid n"
  shows "n \<in> set (holders (run reqs d) t) \<longleftrightarrow>
    (\<exists>pre post. reqs = pre @ (True, t, n) # post \<and> (False, t, n) \<notin> set post)"
  using assms(3)
proof (induction reqs rule: rev_induct)
  case Nil
  then show ?case by (simp add: run_def assms(2))
next
  case (snoc q reqs)
  have wfr: "wf (run reqs d)" using assms(1) snoc.prems by (intro wf_run) auto
  have dist: "distinct (holders (run reqs d) t)"
    using distinct_run [OF assms(1), of reqs t] assms(2) snoc.prems by auto
  obtain b t' n' where q: "q = (b, t', n')" by (cases q)
  have valid: "valid n'" using snoc.prems q by auto
  have IH: "n \<in> set (holders (run reqs d) t) \<longleftrightarrow>
      (\<exists>pre post. reqs = pre @ (True, t, n) # post \<and> (False, t, n) \<notin> set post)"
    by (rule snoc.IH) (use snoc.prems in auto)
  have last: "(\<exists>pre post. reqs @ [q] = pre @ (True, t, n) # post \<and> (False, t, n) \<notin> set post) \<longleftrightarrow>
      q = (True, t, n) \<or>
      (q \<noteq> (False, t, n) \<and> (\<exists>pre post. reqs = pre @ (True, t, n) # post \<and> (False, t, n) \<notin> set post))"
    (is "?L \<longleftrightarrow> ?R")
  proof
    assume ?L
    then obtain pre post where "reqs @ [q] = pre @ (True, t, n) # post" "(False, t, n) \<notin> set post"
      by blast
    then show ?R by (cases post rule: rev_cases) auto
  next
    assume ?R
    then show ?L
    proof
      assume "q \<noteq> (False, t, n) \<and>
        (\<exists>pre post. reqs = pre @ (True, t, n) # post \<and> (False, t, n) \<notin> set post)"
      then obtain pre post where "reqs = pre @ (True, t, n) # post" "(False, t, n) \<notin> set post"
        "q \<noteq> (False, t, n)" by blast
      then show ?L by (intro exI [of _ pre] exI [of _ "post @ [q]"]) auto
    next
      assume "q = (True, t, n)"
      then show ?L by (intro exI [of _ reqs] exI [of _ "[]"]) simp
    qed
  qed
  show ?case
    unfolding last IH [symmetric] unfolding run_snoc q
    using wfr valid dist by (auto simp: holders_set holders_remove)
qed

end

text \<open>The names under one operation type: the entry is empty or a comma-separated list.\<close>

definition parseRefs :: "string \<Rightarrow> string list" where
  "parseRefs v = (if v = '''' then [] else Split CHR '','' v)"

definition holders :: "Dataset \<Rightarrow> string \<Rightarrow> string list" where
  "holders d t = parseRefs (GetDataOperationInProgress d t)"

definition validName :: "string \<Rightarrow> bool" where
  "validName n \<longleftrightarrow> n \<noteq> '''' \<and> CHR '','' \<notin> set n"

text \<open>No entry has an empty name between its commas.\<close>

definition wfRefs :: "Dataset \<Rightarrow> bool" where
  "wfRefs d \<longleftrightarrow> (\<forall>t. \<forall>n\<in>set (holders d t). n \<noteq> '''')"

lemma Split_append_at: "Split c (v @ c # n) = Split c v @ Split c n"
  by (induction v) (auto split: list.splits)

lemma parseRefs_single: "validName n \<Longrightarrow> parseRefs n = [n]"
  by (simp add: parseRefs_def validName_def Split_word)

lemma parseRefs_add: "v \<noteq> '''' \<Longrightarrow> validName n \<Longrightarrow> parseRefs (v @ '','' @ n) = parseRefs v @ [n]"
  by (simp add: parseRefs_def validName_def Split_append_at Split_word)

lemma Join_hd_not_Nil: "ws \<noteq> [] \<Longrightarrow> hd ws \<noteq> [] \<Longrightarrow> Join c ws \<noteq> []"
  by (induction c ws rule: Join.induct) auto

lemma remove1_not_Nil: "xs \<noteq> [] \<Longrightarrow> xs \<noteq> [x] \<Longrightarrow> remove1 x xs \<noteq> []"
  by (cases xs; cases "tl xs") auto

lemma parseRefs_remove:
  assumes "validName n" and "\<forall>m\<in>set (parseRefs v). m \<noteq> ''''" and "Split CHR '','' v \<noteq> [n]"
  shows "parseRefs (Join CHR '','' (remove1 n (Split CHR '','' v))) = remove1 n (parseRefs v)"
proof (cases "v = ''''")
  case True
  with assms(1) show ?thesis by (simp add: parseRefs_def validName_def)
next
  case False
  let ?ks = "remove1 n (Split CHR '','' v)"
  have ne: "?ks \<noteq> []" by (rule remove1_not_Nil) (use assms(3) in auto)
  have sub: "set ?ks \<subseteq> set (Split CHR '','' v)" by (rule set_remove1_subset)
  have "hd ?ks \<in> set (Split CHR '','' v)" using ne sub by (meson hd_in_set subsetD)
  then have "hd ?ks \<noteq> []" using assms(2) False by (auto simp: parseRefs_def)
  then have "Join CHR '','' ?ks \<noteq> ''''" using ne by (rule Join_hd_not_Nil [rotated])
  moreover have "Split CHR '','' (Join CHR '','' ?ks) = ?ks"
    by (rule Split_Join [OF ne]) (use sub Split_words in blast)
  ultimately show ?thesis using False by (simp add: parseRefs_def)
qed

lemma lookupStr_update: "lookupStr (AList.update k v m) k' = (if k' = k then v else lookupStr m k')"
  by (simp add: lookupStr_def AList.update_conv')

lemma lookupStr_delete: "lookupStr (AList.delete k m) k' = (if k' = k then '''' else lookupStr m k')"
  by (simp add: lookupStr_def AList.delete_conv')

lemma dstOperationRef_set [simp]: "dstOperationRef (dStatus (setOperationRef refs d)) = Some refs"
  by (simp add: setOperationRef_def)

lemma holders_SetDataOperation:
  assumes "validName n"
  shows "holders (SetDataOperationInProgress d t n) t' =
     (if t' = t \<and> n \<notin> set (holders d t) then holders d t @ [n] else holders d t')"
proof (cases "dstOperationRef (dStatus d)")
  case None
  then show ?thesis using parseRefs_single [OF assms]
    by (simp add: holders_def SetDataOperationInProgress_def GetDataOperationInProgress_def
        parseRefs_def [of "[]"] lookupStr_def)
next
  case (Some refs)
  show ?thesis
  proof (cases "lookupStr refs t = ''''")
    case True
    with Some parseRefs_single [OF assms] show ?thesis
      by (simp add: holders_def SetDataOperationInProgress_def GetDataOperationInProgress_def
          lookupStr_update parseRefs_def [of "[]"])
  next
    case False
    then have "set (parseRefs (lookupStr refs t)) = set (Split CHR '','' (lookupStr refs t))"
      by (simp add: parseRefs_def)
    with False Some parseRefs_add [OF False assms] show ?thesis
      by (simp add: holders_def SetDataOperationInProgress_def GetDataOperationInProgress_def
          lookupStr_update)
  qed
qed

lemma holders_RemoveDataOperation:
  assumes "wfRefs d" and "validName n"
  shows "holders (snd (RemoveDataOperationInProgress d t n)) t' =
     (if t' = t then remove1 n (holders d t) else holders d t')"
proof (cases "dstOperationRef (dStatus d)")
  case None
  then show ?thesis
    by (simp add: holders_def RemoveDataOperationInProgress_def GetDataOperationInProgress_def parseRefs_def)
next
  case (Some refs)
  have wf: "\<forall>m\<in>set (parseRefs (lookupStr refs t)). m \<noteq> ''''"
    using assms(1) Some unfolding wfRefs_def holders_def GetDataOperationInProgress_def by simp
  show ?thesis
  proof (cases "Split CHR '','' (lookupStr refs t) = [n]")
    case True
    then have "parseRefs (lookupStr refs t) = [n]"
      using assms(2) by (auto simp: parseRefs_def validName_def)
    with True Some show ?thesis
      by (simp add: holders_def RemoveDataOperationInProgress_def GetDataOperationInProgress_def
          lookupStr_delete parseRefs_def [of "[]"])
  next
    case False
    with Some parseRefs_remove [OF assms(2) wf False] show ?thesis
      by (simp add: holders_def RemoveDataOperationInProgress_def GetDataOperationInProgress_def
          lookupStr_update Let_def)
  qed
qed

text \<open>How often a name is listed, without any assumption on the entries.\<close>

lemma listed_remove:
  assumes "validName n" and "validName m"
  shows "count_list (parseRefs (Join CHR '','' (remove1 n (Split CHR '','' v)))) m =
    count_list (parseRefs v) m - (if m = n then 1 else 0) \<or> Split CHR '','' v = [n]"
proof (cases "Split CHR '','' v = [n]")
  case False
  let ?ks = "remove1 n (Split CHR '','' v)"
  have ne: "?ks \<noteq> []" by (rule remove1_not_Nil) (use False in auto)
  have sub: "set ?ks \<subseteq> set (Split CHR '','' v)" by (rule set_remove1_subset)
  have split: "Split CHR '','' (Join CHR '','' ?ks) = ?ks"
    by (rule Split_Join [OF ne]) (use sub Split_words in blast)
  have parse: "count_list (parseRefs w) m = count_list (Split CHR '','' w) m" for w
    using assms(2) by (cases "w = ''''") (auto simp: parseRefs_def validName_def)
  have "count_list (remove1 n xs) m = count_list xs m - (if m = n then 1 else 0)" for xs
    by (induction xs) (auto simp: count_list_0_iff)
  with split show ?thesis by (simp add: parse)
qed simp

lemma listed_RemoveDataOperation:
  assumes "validName n" and "validName m"
  shows "count_list (holders (snd (RemoveDataOperationInProgress d t n)) t') m =
    count_list (holders d t') m - (if t' = t \<and> m = n then 1 else 0)"
proof (cases "dstOperationRef (dStatus d)")
  case None
  then show ?thesis
    by (simp add: holders_def RemoveDataOperationInProgress_def GetDataOperationInProgress_def parseRefs_def)
next
  case (Some refs)
  show ?thesis
  proof (cases "Split CHR '','' (lookupStr refs t) = [n]")
    case True
    then have "parseRefs (lookupStr refs t) = [n]" using assms(1) by (auto simp: parseRefs_def validName_def)
    with True Some show ?thesis
      by (simp add: holders_def RemoveDataOperationInProgress_def GetDataOperationInProgress_def lookupStr_delete parseRefs_def [of "[]"])
  next
    case False
    with Some listed_remove [OF assms, of "lookupStr refs t"] show ?thesis
      by (auto simp: holders_def RemoveDataOperationInProgress_def GetDataOperationInProgress_def lookupStr_update Let_def)
  qed
qed

lemma RemoveDataOperation_left:
  "fst (RemoveDataOperationInProgress d t n) =
     GetDataOperationInProgress (snd (RemoveDataOperationInProgress d t n)) t"
  by (auto simp: RemoveDataOperationInProgress_def GetDataOperationInProgress_def Let_def
      lookupStr_update lookupStr_delete split: option.splits)

interpretation opRefs: operation_refs validName wfRefs holders SetDataOperationInProgress
  "\<lambda>d t n. snd (RemoveDataOperationInProgress d t n)"
proof unfold_locales
  fix d t n
  assume wf: "wfRefs d" and valid: "validName n"
  show "wfRefs (SetDataOperationInProgress d t n)"
    using wf valid by (auto simp: wfRefs_def holders_SetDataOperation validName_def)
  show "wfRefs (snd (RemoveDataOperationInProgress d t n))"
    using wf valid unfolding wfRefs_def holders_RemoveDataOperation [OF wf valid]
    by (auto dest: notin_set_remove1)
qed (simp_all add: holders_SetDataOperation holders_RemoveDataOperation)

section \<open>Properties\<close>

text \<open>A sequence of registrations (\<open>True\<close>) and releases (\<open>False\<close>) by the controllers.\<close>

fun replay :: "(bool \<times> string \<times> string) list \<Rightarrow> Dataset \<Rightarrow> Dataset" where
  "replay [] d = d"
| "replay ((b, t, n) # reqs) d =
     replay reqs (if b then SetDataOperationInProgress d t n
                  else snd (RemoveDataOperationInProgress d t n))"

lemma replay_run: "replay reqs d = opRefs.run reqs d"
  by (induction reqs d rule: replay.induct) (simp_all add: opRefs.run_def)

text \<open>
  C9. The dataset keeps an exact account of the running data operations: after any sequence of
  registrations and releases by any number of operations, a name is listed under its type exactly if
  its last request was a registration, and no name is listed twice.
\<close>

theorem operations_accounted:
  assumes "dstOperationRef (dStatus d) = None" and "\<forall>(b, t, n)\<in>set reqs. validName n"
  shows "(n \<in> set (holders (replay reqs d) t) \<longleftrightarrow>
      (\<exists>pre post. reqs = pre @ (True, t, n) # post \<and> (False, t, n) \<notin> set post)) \<and>
    distinct (holders (replay reqs d) t)"
proof -
  have none: "holders d t' = []" for t'
    using assms(1) by (simp add: holders_def GetDataOperationInProgress_def parseRefs_def)
  then have wf: "wfRefs d" by (simp add: wfRefs_def)
  have valid: "validName n'" if "(b, t', n') \<in> set reqs" for b t' n' using assms(2) that by auto
  show ?thesis
    unfolding replay_run
    using opRefs.run_registered [OF wf none valid] opRefs.distinct_run [OF wf _ valid] none by auto
qed

definition exampleDataset :: Dataset where
  "exampleDataset =
     \<lparr>dAPIVersion = ''data.fluid.io/v1alpha1'', dKind = ''Dataset'',
      dMeta = \<lparr>omName = ''demo'', omNamespace = ''default'', omUID = ''u1'', omResourceVersion = ''1'',
               omGeneration = 1, omCreationTimestamp = 0, omDeletionTimestamp = None,
               omFinalizers = [], omOwnerReferences = [], omLabels = [], omAnnotations = []\<rparr>,
      dSpec = \<lparr>dsMounts = [], dsAccessModes = [], dsRuntimes = [], dsPlacementMode = '''',
               dsNodeAffinity = None, dsSharedOptions = [], dsSharedEncryptOptions = [], dsRestorePath = None\<rparr>,
      dStatus = \<lparr>dstMounts = [], dstUfsTotal = '''', dstPhase = ''Bound'',
                 dstRuntimes = [\<lparr>rtName = ''demo'', rtNamespace = ''default'',
                                 rtCategory = ''Accelerate'', rtType = ''alluxio'', rtMasterReplicas = 1\<rparr>],
                 dstConditions = [], dstCacheStates = [], dstHCFSStatus = None, dstFileNum = '''',
                 dstDataLoadRef = '''', dstDataBackupRef = '''', dstOperationRef = None,
                 dstDatasetRef = []\<rparr>\<rparr>"

theorem operations_accounted_witness:
  "''b'' \<in> set (holders (replay [(True, ''DataLoad'', ''a''), (True, ''DataLoad'', ''b''),
      (False, ''DataLoad'', ''a'')] exampleDataset) ''DataLoad'')"
proof -
  have "dstOperationRef (dStatus exampleDataset) = None" by (simp add: exampleDataset_def)
  from conjunct1 [OF operations_accounted [OF this,
      of "[(True, ''DataLoad'', ''a''), (True, ''DataLoad'', ''b''), (False, ''DataLoad'', ''a'')]"
         "''b''" "''DataLoad''"]]
  show ?thesis
    by (simp add: validName_def)
      (rule exI [of _ "[(True, ''DataLoad'', ''a'')]"], rule exI [of _ "[(False, ''DataLoad'', ''a'')]"], simp)
qed

text \<open>
  Registering an operation and releasing it again leaves the account of every operation type as it
  was, and the release reports an empty account exactly if nobody else is registered.
\<close>

theorem register_release:
  assumes "wfRefs d" and "validName n" and "n \<notin> set (holders d t)"
  shows "GetDataOperationInProgress
      (snd (RemoveDataOperationInProgress (SetDataOperationInProgress d t n) t n)) t' =
      GetDataOperationInProgress d t' \<and>
    (fst (RemoveDataOperationInProgress (SetDataOperationInProgress d t n) t n) = '''' \<longleftrightarrow>
      holders d t = [])"
proof -
  let ?d = "snd (RemoveDataOperationInProgress (SetDataOperationInProgress d t n) t n)"
  have same: "holders ?d t'' = holders d t''" for t''
    using assms opRefs.wf_set [OF assms(1,2), of t]
    by (auto simp: opRefs.holders_remove opRefs.holders_set remove1_append)
  have inj: "v = w" if "parseRefs v = parseRefs w" for v w
    using that by (metis Join_Split Split_not_Nil parseRefs_def)
  have "GetDataOperationInProgress ?d t'' = GetDataOperationInProgress d t''" for t''
    using same [of t''] by (auto simp: holders_def dest: inj)
  moreover have "GetDataOperationInProgress d t = '''' \<longleftrightarrow> holders d t = []"
    by (simp add: holders_def parseRefs_def)
  ultimately show ?thesis by (simp add: RemoveDataOperation_left)
qed

theorem register_release_witness:
  "GetDataOperationInProgress
      (snd (RemoveDataOperationInProgress
        (SetDataOperationInProgress exampleDataset ''DataLoad'' ''a'') ''DataLoad'' ''a'')) ''DataBackup'' =
      GetDataOperationInProgress exampleDataset ''DataBackup'' \<and>
    (fst (RemoveDataOperationInProgress
        (SetDataOperationInProgress exampleDataset ''DataLoad'' ''a'') ''DataLoad'' ''a'') = '''' \<longleftrightarrow>
      holders exampleDataset ''DataLoad'' = [])"
  by (rule register_release)
    (simp_all add: wfRefs_def holders_def GetDataOperationInProgress_def exampleDataset_def
      parseRefs_def validName_def)

text \<open>
  Releasing an operation that is not registered is not without effect: it leaves an empty entry for
  the operation type behind, so the status of the dataset changes.
\<close>

theorem release_unregistered_leaves_entry:
  assumes "dstOperationRef (dStatus d) = Some refs" and "map_of refs t = None" and "validName n"
  shows "dstOperationRef (dStatus (snd (RemoveDataOperationInProgress d t n))) =
    Some (AList.update t '''' refs)"
  using assms by (auto simp: RemoveDataOperationInProgress_def lookupStr_def validName_def)

theorem release_unregistered_leaves_entry_witness:
  "dstOperationRef (dStatus (snd (RemoveDataOperationInProgress
     (setOperationRef [] exampleDataset) ''DataLoad'' ''a''))) = Some (AList.update ''DataLoad'' '''' [])"
  by (rule release_unregistered_leaves_entry) (simp_all add: validName_def)

text \<open>
  However often conditions of datasets and of runtimes are recorded, each list has at most one
  condition of a type, loses none, and holds no type but the recorded ones.
\<close>

theorem conditions_unique:
  "distinct (map dcType (fold (\<lambda>c cs. UpdateDatasetCondition cs c) dnew [])) \<and>
   dcType ` set (fold (\<lambda>c cs. UpdateDatasetCondition cs c) dnew []) = dcType ` set dnew \<and>
   distinct (map rcType (fold (\<lambda>c cs. UpdateRuntimeCondition cs c) rnew [])) \<and>
   rcType ` set (fold (\<lambda>c cs. UpdateRuntimeCondition cs c) rnew []) = rcType ` set rnew"
  by (simp add: dsCond.distinct_updates dsCond.types_updates rtCond.distinct_updates
      rtCond.types_updates)

text \<open>
  Recording a condition of a dataset replaces the old one of its type in place; its transition
  time moves exactly when the status changes.
\<close>

theorem dataset_condition_transition:
  assumes "GetDatasetCondition cs (dcType c) = (k, Some old)"
  shows "\<exists>new. UpdateDatasetCondition cs c = cs[nat k := new] \<and>
    GetDatasetCondition (UpdateDatasetCondition cs c) (dcType c) = (k, Some new) \<and>
    dcStatus new = dcStatus c \<and> dcReason new = dcReason c \<and> dcMessage new = dcMessage c \<and>
    dcLastTransitionTime new =
      (if dcStatus c = dcStatus old then dcLastTransitionTime old else dcLastTransitionTime c)"
proof -
  define new where "new = (if dcStatus c = dcStatus old
      then c\<lparr>dcLastTransitionTime := dcLastTransitionTime old\<rparr> else c)"
  have upd: "UpdateDatasetCondition cs c = cs[nat k := new]"
    using assms by (simp add: UpdateDatasetCondition_def new_def)
  have "findCondition dcType (cs[nat k - 0 := new]) (dcType c) 0 = (k, Some new)"
    by (rule findCondition_update) (use assms in \<open>simp_all add: GetDatasetCondition_def new_def\<close>)
  then have "GetDatasetCondition (UpdateDatasetCondition cs c) (dcType c) = (k, Some new)"
    by (simp add: upd GetDatasetCondition_def)
  with upd show ?thesis by (intro exI [of _ new]) (simp add: new_def)
qed

theorem dataset_condition_transition_witness:
  "\<exists>new. UpdateDatasetCondition [NewDatasetCondition ''Ready'' ''r'' ''m'' ''True'' 5]
      (NewDatasetCondition ''Ready'' ''s'' ''m'' ''True'' 9) =
      [NewDatasetCondition ''Ready'' ''r'' ''m'' ''True'' 5][nat 0 := new] \<and>
    dcLastTransitionTime new = 5"
proof -
  have "GetDatasetCondition [NewDatasetCondition ''Ready'' ''r'' ''m'' ''True'' 5]
      (dcType (NewDatasetCondition ''Ready'' ''s'' ''m'' ''True'' 9)) =
      (0, Some (NewDatasetCondition ''Ready'' ''r'' ''m'' ''True'' 5))"
    by (simp add: GetDatasetCondition_def NewDatasetCondition_def)
  from dataset_condition_transition [OF this] show ?thesis
    by (auto simp: NewDatasetCondition_def)
qed

lemma set_SubtractString: "set (SubtractString x y) = set x - set y"
  by (auto simp: SubtractString_def Let_def)

text \<open>
  The difference between the wanted and the mounted paths is exact: removing the paths to remove
  and adding the paths to add turns the mounted paths into the wanted ones, nothing is added or removed
  needlessly, and an update is due exactly if the two differ.
\<close>

theorem paths_delta_exact:
  "case AnalyzePathsDelta u of ((spec, mounted), u') \<Rightarrow>
     (set mounted - set (utToRemove u')) \<union> set (utToAdd u') = set spec \<and>
     set (utToAdd u') \<inter> set mounted = {} \<and> set (utToRemove u') \<subseteq> set mounted \<and>
     (ShouldUpdate u' \<longleftrightarrow> set spec \<noteq> set mounted)"
proof -
  have "length (SubtractString x y) > 0 \<longleftrightarrow> \<not> set x \<subseteq> set y" for x y
    using set_SubtractString [of x y] by (metis Diff_eq_empty_iff length_greater_0_conv set_empty)
  then show ?thesis
    by (auto simp: AnalyzePathsDelta_def Let_def set_SubtractString ShouldUpdate_def)
qed

end
