(* ===== verification/Operation_Api.thy ===== *)
theory Operation_Api
  imports Dataset_Api
begin

text \<open>
  The data operations of Fluid and the world their controllers talk to: the custom resources
  \<open>DataLoad\<close>, \<open>DataBackup\<close>, \<open>DataMigrate\<close> and \<open>DataProcess\<close> with their common \<open>OperationStatus\<close>
  (\<open>api/v1alpha1\<close>), the Kubernetes objects their jobs run in, the record \<open>cluster\<close> of everything the
  controllers call, the events these calls leave in the history, and the accessors of \<open>pkg/utils\<close> and
  \<open>pkg/utils/kubeclient\<close> over them.
\<close>

section \<open>common.go\<close>

record ObjectRef =
  refAPIVersion :: string
  refKind :: string
  refName :: string
  refNamespace :: string

record Prefer =
  pfName :: string
  pfWeight :: int

record AffinityStrategy =
  asDependOn :: "ObjectRef option"
  asPolicy :: string
  asPrefers :: "Prefer list"
  asRequires :: "string list"

record OperationRef =
  orefObject :: ObjectRef
  orefAffinity :: AffinityStrategy

record Condition =
  cType :: string
  cStatus :: string
  cReason :: string
  cMessage :: string
  cLastProbeTime :: int
  cLastTransitionTime :: int

text \<open>Node affinity of Kubernetes: required terms (nil or a list of terms) and preferred ones.\<close>

record NodeAffinity =
  naRequired :: "NodeSelectorTerm list option option"
  naPreferred :: "(int \<times> NodeSelectorTerm) list"

record PodAffinityTerm =
  ptMatchExpressions :: NodeSelectorTerm
  ptTopologyKey :: string

record PodAntiAffinity =
  paRequired :: "PodAffinityTerm list"
  paPreferred :: "(int \<times> PodAffinityTerm) list"

record Affinity =
  afNodeAffinity :: "NodeAffinity option"
  afPodAntiAffinity :: "PodAntiAffinity option"

record OperationStatus =
  osPhase :: string
  osDuration :: string
  osConditions :: "Condition list"
  osInfos :: "(string \<times> string) list option"
  osLastScheduleTime :: "int option"
  osLastSuccessfulTime :: "int option"
  osWaitingFor :: "bool option"
  osNodeAffinity :: "NodeAffinity option"

section \<open>The custom resources\<close>

text \<open>Of each \<open>Spec\<close> the fields that the controllers read.\<close>

record TargetDataset =
  tdName :: string
  tdNamespace :: string

record DataLoad =
  dlMeta :: ObjectMeta
  dlDataset :: TargetDataset
  dlPolicy :: string
  dlRunAfter :: "OperationRef option"
  dlTTL :: "int option"
  dlStatus :: OperationStatus

record DataBackup =
  dbMeta :: ObjectMeta
  dbDataset :: string
  dbBackupPath :: string
  dbRunAfter :: "OperationRef option"
  dbTTL :: "int option"
  dbStatus :: OperationStatus

record DatasetToMigrate =
  tmName :: string
  tmNamespace :: string
  tmPath :: string

record DataMigrate =
  mgMeta :: ObjectMeta
  mgFrom :: "DatasetToMigrate option"
  mgTo :: "DatasetToMigrate option"
  mgRuntimeType :: string
  mgPolicy :: string
  mgRunAfter :: "OperationRef option"
  mgTTL :: "int option"
  mgParallelism :: int
  mgParallelOptions :: "(string \<times> string) list"
  mgStatus :: OperationStatus

record VolumeMount =
  vmName :: string
  vmMountPath :: string

record Container =
  ctrName :: string
  ctrVolumeMounts :: "VolumeMount list"

record PodSpec =
  psContainers :: "Container list"
  psInitContainers :: "Container list"

text \<open>\<open>Processor.Job\<close> holds an optional pod template, \<open>Processor.Script\<close> its volume mounts.\<close>

record DataProcess =
  dpMeta :: ObjectMeta
  dpDataset :: TargetDataset
  dpMountPath :: string
  dpJob :: "PodSpec option option"
  dpScript :: "VolumeMount list option"
  dpRunAfter :: "OperationRef option"
  dpTTL :: "int option"
  dpStatus :: OperationStatus

datatype OpObject =
    ODataLoad DataLoad
  | ODataBackup DataBackup
  | ODataMigrate DataMigrate
  | ODataProcess DataProcess

fun opMeta :: "OpObject \<Rightarrow> ObjectMeta" where
  "opMeta (ODataLoad o1) = dlMeta o1"
| "opMeta (ODataBackup o1) = dbMeta o1"
| "opMeta (ODataMigrate o1) = mgMeta o1"
| "opMeta (ODataProcess o1) = dpMeta o1"

fun setOpMeta :: "ObjectMeta \<Rightarrow> OpObject \<Rightarrow> OpObject" where
  "setOpMeta m (ODataLoad o1) = ODataLoad (o1\<lparr>dlMeta := m\<rparr>)"
| "setOpMeta m (ODataBackup o1) = ODataBackup (o1\<lparr>dbMeta := m\<rparr>)"
| "setOpMeta m (ODataMigrate o1) = ODataMigrate (o1\<lparr>mgMeta := m\<rparr>)"
| "setOpMeta m (ODataProcess o1) = ODataProcess (o1\<lparr>dpMeta := m\<rparr>)"

text \<open>\<open>GetOperationStatus\<close> of \<open>dataoperation.go\<close>: the status of whichever kind it is.\<close>

fun GetOperationStatus :: "OpObject \<Rightarrow> OperationStatus" where
  "GetOperationStatus (ODataLoad o1) = dlStatus o1"
| "GetOperationStatus (ODataMigrate o1) = mgStatus o1"
| "GetOperationStatus (ODataBackup o1) = dbStatus o1"
| "GetOperationStatus (ODataProcess o1) = dpStatus o1"

fun setOpStatus :: "OperationStatus \<Rightarrow> OpObject \<Rightarrow> OpObject" where
  "setOpStatus s (ODataLoad o1) = ODataLoad (o1\<lparr>dlStatus := s\<rparr>)"
| "setOpStatus s (ODataBackup o1) = ODataBackup (o1\<lparr>dbStatus := s\<rparr>)"
| "setOpStatus s (ODataMigrate o1) = ODataMigrate (o1\<lparr>mgStatus := s\<rparr>)"
| "setOpStatus s (ODataProcess o1) = ODataProcess (o1\<lparr>dpStatus := s\<rparr>)"

lemma opMeta_setOpStatus [simp]: "opMeta (setOpStatus s ob) = opMeta ob"
  by (cases ob) simp_all

lemma GetOperationStatus_setOpStatus [simp]: "GetOperationStatus (setOpStatus s ob) = s"
  by (cases ob) simp_all

lemma setOpStatus_twice [simp]: "setOpStatus s (setOpStatus s' ob) = setOpStatus s ob"
  by (cases ob) simp_all

section \<open>Objects of Kubernetes\<close>

record JobCondition =
  jcType :: string
  jcStatus :: string
  jcReason :: string
  jcMessage :: string
  jcLastProbeTime :: int
  jcLastTransitionTime :: int

record Job =
  jobName :: string
  jobNamespace :: string
  jobAnnotations :: "(string \<times> string) list"
  jobCreationTimestamp :: int
  jobSuspend :: "bool option"
  jobConditions :: "JobCondition list"

record CronJobStatus =
  cjLastScheduleTime :: "int option"
  cjLastSuccessfulTime :: "int option"

record Pod =
  podPhase :: string
  podNodeName :: string
  podCreationTimestamp :: int
  podConditionTimes :: "int list"

record StatefulSet =
  stsName :: string
  stsNamespace :: string
  stsUID :: string
  stsSelector :: string
  stsReplicas :: "int option"
  stsNodeSelector :: "(string \<times> string) list"
  stsAffinity :: "Affinity option"
  stsStatusReplicas :: int
  stsReadyReplicas :: int
  stsAvailableReplicas :: int

section \<open>The cluster\<close>

text \<open>
  An engine, as \<open>ddc.CreateEngine\<close> builds it: the dataset it was built for, and whether it is the engine of
  a reference dataset. The methods that depend on the engine are the environment's.
\<close>

record Engine =
  engId :: string
  engNamespace :: string
  engName :: string
  engImpl :: string
  engReference :: bool

text \<open>What a child process leaves: an exit status of 0, another one, or a failure to run it at all.\<close>

datatype procResult = ProcOk string | ProcExit int string | ProcFail goerr

datatype event =
    GotDataset string string "goerr + Dataset"
  | UpdatedDatasetStatus Dataset "goerr option"
  | GotOperation string string string "goerr + OpObject"
  | UpdatedOperationStatus OpObject "goerr option"
  | UpdatedOperation OpObject "goerr + int"
  | DeletedOperation OpObject "goerr option"
  | GotJob string string "goerr + Job"
  | UpdatedJob Job "goerr option"
  | ListedJobs string string "goerr + Job list"
  | GotCronJobStatus string string "goerr + CronJobStatus"
  | GotPod string string "goerr + Pod"
  | GotStatefulSet string string "goerr + StatefulSet"
  | UpdatedStatefulSet StatefulSet "goerr option"
  | Recorded string string string string string
  | RanHelm "string list" procResult
  | ReadClock int
  | CheckedRuntimeReady Engine bool
  | GeneratedValueFile Engine "goerr + string"
  | GotRuntime string string string "goerr + string"
  | BuiltEngine string "goerr + bool"
  | StoredEngine string Engine
  | RemovedEngine string

type_synonym 'a cgo = "(event, 'a) go"

text \<open>
  What the environment answers, as functions of the history. \<open>clLookPath\<close> is \<open>exec.LookPath\<close>,
  \<open>clChartMissing\<close> whether a chart directory does not exist, \<open>clChartsDir\<close> the charts directory;
  \<open>clRuntimeReady\<close> and \<open>clValueFile\<close> are the two methods that a runtime engine provides to data
  operations, \<open>clGetRuntime\<close> reads a runtime object and gives the value file of its status,
  \<open>clBuildEngine\<close> is the build function of an engine implementation and tells whether the engine serves a
  reference dataset, \<open>clGetenv\<close> reads an environment variable.
\<close>

record cluster =
  clGetDataset :: "event list \<Rightarrow> string \<Rightarrow> string \<Rightarrow> goerr + Dataset"
  clUpdateDatasetStatus :: "event list \<Rightarrow> Dataset \<Rightarrow> goerr option"
  clGetOperation :: "event list \<Rightarrow> string \<Rightarrow> string \<Rightarrow> string \<Rightarrow> goerr + OpObject"
  clUpdateOperationStatus :: "event list \<Rightarrow> OpObject \<Rightarrow> goerr option"
  clUpdateOperation :: "event list \<Rightarrow> OpObject \<Rightarrow> goerr + int"
  clDeleteOperation :: "event list \<Rightarrow> OpObject \<Rightarrow> goerr option"
  clGetJob :: "event list \<Rightarrow> string \<Rightarrow> string \<Rightarrow> goerr + Job"
  clUpdateJob :: "event list \<Rightarrow> Job \<Rightarrow> goerr option"
  clListJobs :: "event list \<Rightarrow> string \<Rightarrow> string \<Rightarrow> goerr + Job list"
  clGetCronJob :: "event list \<Rightarrow> string \<Rightarrow> string \<Rightarrow> goerr + CronJobStatus"
  clGetPod :: "event list \<Rightarrow> string \<Rightarrow> string \<Rightarrow> goerr + Pod"
  clGetStatefulSet :: "event list \<Rightarrow> string \<Rightarrow> string \<Rightarrow> goerr + StatefulSet"
  clUpdateStatefulSet :: "event list \<Rightarrow> StatefulSet \<Rightarrow> goerr option"
  clRunHelm :: "event list \<Rightarrow> string list \<Rightarrow> procResult"
  clNow :: "event list \<Rightarrow> int"
  clLookPath :: "string \<Rightarrow> string option"
  clChartMissing :: "string \<Rightarrow> bool"
  clChartsDir :: string
  clRuntimeReady :: "event list \<Rightarrow> Engine \<Rightarrow> bool"
  clValueFile :: "event list \<Rightarrow> Engine \<Rightarrow> OpObject \<Rightarrow> goerr + string"
  clGetRuntime :: "event list \<Rightarrow> string \<Rightarrow> string \<Rightarrow> string \<Rightarrow> goerr + string"
  clBuildEngine :: "event list \<Rightarrow> string \<Rightarrow> string \<Rightarrow> string \<Rightarrow> goerr + bool"
  clGetenv :: "string \<Rightarrow> string"

text \<open>\<open>cruntime.ReconcileRequestContext\<close>: the request, its dataset and the engine that serves it.\<close>

record ReconcileRequestContext =
  ctxNamespace :: string
  ctxName :: string
  ctxDataset :: Dataset
  ctxRuntimeType :: string
  ctxEngineImpl :: string

section \<open>Accessors\<close>

definition GetDataset :: "cluster \<Rightarrow> string \<Rightarrow> string \<Rightarrow> (goerr + Dataset) cgo" where
  "GetDataset cl name namespace =
     call (\<lambda>h. clGetDataset cl h name namespace) (GotDataset name namespace)"

definition updateDatasetStatus :: "cluster \<Rightarrow> Dataset \<Rightarrow> (goerr option) cgo" where
  "updateDatasetStatus cl d = call (\<lambda>h. clUpdateDatasetStatus cl h d) (UpdatedDatasetStatus d)"

definition recordEvent :: "OpObject \<Rightarrow> string \<Rightarrow> string \<Rightarrow> string \<Rightarrow> unit cgo" where
  "recordEvent ob ty reason message =
     emit (Recorded (omNamespace (opMeta ob)) (omName (opMeta ob)) ty reason message)"

definition now :: "cluster \<Rightarrow> int cgo" where
  "now cl = call (clNow cl) ReadClock"

text \<open>
  \<open>GetDataLoad\<close> and its siblings: one \<open>Get\<close> of the kind. An object of another kind under the name
  cannot be returned by the API.
\<close>

definition getOperation :: "cluster \<Rightarrow> string \<Rightarrow> string \<Rightarrow> string \<Rightarrow> (goerr + OpObject) cgo" where
  "getOperation cl kind name namespace =
     call (\<lambda>h. clGetOperation cl h kind name namespace) (GotOperation kind name namespace)"

definition GetDataLoad :: "cluster \<Rightarrow> string \<Rightarrow> string \<Rightarrow> (goerr + OpObject) cgo" where
  "GetDataLoad cl name namespace = getOperation cl ''DataLoad'' name namespace"

definition GetDataBackup :: "cluster \<Rightarrow> string \<Rightarrow> string \<Rightarrow> (goerr + OpObject) cgo" where
  "GetDataBackup cl name namespace = getOperation cl ''DataBackup'' name namespace"

definition GetDataMigrate :: "cluster \<Rightarrow> string \<Rightarrow> string \<Rightarrow> (goerr + OpObject) cgo" where
  "GetDataMigrate cl name namespace = getOperation cl ''DataMigrate'' name namespace"

definition GetDataProcess :: "cluster \<Rightarrow> string \<Rightarrow> string \<Rightarrow> (goerr + OpObject) cgo" where
  "GetDataProcess cl name namespace = getOperation cl ''DataProcess'' name namespace"

definition GetPrecedingOperationStatus ::
  "cluster \<Rightarrow> ObjectRef option \<Rightarrow> string \<Rightarrow> (goerr + OperationStatus option) cgo" where
  "GetPrecedingOperationStatus cl opRef opRefNamespace =
     (case opRef of
        None \<Rightarrow> ret (Inr None)
      | Some ref \<Rightarrow>
          let found = (\<lambda>r. case r of Inl e \<Rightarrow> ret (Inl e) | Inr ob \<Rightarrow> ret (Inr (Some (GetOperationStatus ob)))) in
          if refKind ref = ''DataBackup'' then andThen (GetDataBackup cl (refName ref) opRefNamespace) found
          else if refKind ref = ''DataLoad'' then andThen (GetDataLoad cl (refName ref) opRefNamespace) found
          else if refKind ref = ''DataMigrate'' then andThen (GetDataMigrate cl (refName ref) opRefNamespace) found
          else if refKind ref = ''DataProcess'' then andThen (GetDataProcess cl (refName ref) opRefNamespace) found
          else ret (Inl (Err (''kind '' @ refKind ref @ '' is currently not supported for runAfter''))))"

section \<open>Names of releases and jobs\<close>

definition GetDataLoadReleaseName :: "string \<Rightarrow> string" where
  "GetDataLoadReleaseName name = name @ ''-loader''"

definition GetDataLoadJobName :: "string \<Rightarrow> string" where
  "GetDataLoadJobName releaseName = releaseName @ ''-job''"

definition GetDataBackupReleaseName :: "string \<Rightarrow> string" where
  "GetDataBackupReleaseName name = name @ ''-charts''"

definition GetDataBackupPodName :: "string \<Rightarrow> string" where
  "GetDataBackupPodName name = name @ ''-pod''"

definition GetDataMigrateReleaseName :: "string \<Rightarrow> string" where
  "GetDataMigrateReleaseName name = name @ ''-migrate''"

definition GetDataMigrateJobName :: "string \<Rightarrow> string" where
  "GetDataMigrateJobName releaseName = releaseName @ ''-migrate''"

definition GetDataProcessReleaseName :: "string \<Rightarrow> string" where
  "GetDataProcessReleaseName name = name @ ''-processor''"

definition GetDataProcessJobName :: "string \<Rightarrow> string" where
  "GetDataProcessJobName releaseName = releaseName @ ''-job''"

definition GetParallelOperationWorkersName :: "string \<Rightarrow> string" where
  "GetParallelOperationWorkersName releaseName = releaseName @ ''-workers''"

text \<open>\<open>ParseBackupRestorePath\<close>: \<open>pvc://name/path\<close> or \<open>local://path\<close>, the path with a slash at both ends.\<close>

definition ParseBackupRestorePath :: "string \<Rightarrow> goerr + (string \<times> string)" where
  "ParseBackupRestorePath backupRestorePath =
     (let slashed = (\<lambda>path.
            let p = (if HasPrefix path ''/'' then path else ''/'' @ path) in
            if HasSuffix p ''/'' then p else p @ ''/'') in
      if backupRestorePath = '''' then Inl (Err ''DataBackupRestorePath is empty, cannot parse'')
      else if HasPrefix backupRestorePath ''pvc://'' then
        (let path = TrimPrefix backupRestorePath ''pvc://'';
             pvcName = hd (Split CHR ''/'' path) in
         Inr (pvcName, slashed (TrimPrefix path pvcName)))
      else if HasPrefix backupRestorePath ''local://'' then
        Inr ('''', slashed (TrimPrefix backupRestorePath ''local://''))
      else Inl (Err ''DataBackupRestorePath is not in supported formats, cannot parse''))"

section \<open>kubeclient: job.go, pod.go, cronjob.go, statefulset.go\<close>

definition GetJob :: "cluster \<Rightarrow> string \<Rightarrow> string \<Rightarrow> (goerr + Job) cgo" where
  "GetJob cl name namespace = call (\<lambda>h. clGetJob cl h name namespace) (GotJob name namespace)"

definition UpdateJob :: "cluster \<Rightarrow> Job \<Rightarrow> (goerr option) cgo" where
  "UpdateJob cl job = call (\<lambda>h. clUpdateJob cl h job) (UpdatedJob job)"

definition GetFinishedJobCondition :: "Job \<Rightarrow> JobCondition option" where
  "GetFinishedJobCondition job =
     List.find (\<lambda>c. jcType c = ''Failed'' \<or> jcType c = ''Complete'') (jobConditions job)"

definition GetCronJobStatus :: "cluster \<Rightarrow> string \<Rightarrow> string \<Rightarrow> (goerr + CronJobStatus) cgo" where
  "GetCronJobStatus cl namespace name =
     call (\<lambda>h. clGetCronJob cl h namespace name) (GotCronJobStatus namespace name)"

definition ListDataOperationJobByCronjob :: "cluster \<Rightarrow> string \<Rightarrow> string \<Rightarrow> (goerr + Job list) cgo" where
  "ListDataOperationJobByCronjob cl namespace name =
     call (\<lambda>h. clListJobs cl h namespace name) (ListedJobs namespace name)"

definition IsFinishedPod :: "Pod option \<Rightarrow> bool" where
  "IsFinishedPod pod =
     (case pod of None \<Rightarrow> False | Some p \<Rightarrow> podPhase p = ''Succeeded'' \<or> podPhase p = ''Failed'')"

definition IsSucceededPod :: "Pod option \<Rightarrow> bool" where
  "IsSucceededPod pod = (case pod of None \<Rightarrow> False | Some p \<Rightarrow> podPhase p = ''Succeeded'')"

definition IsFailedPod :: "Pod option \<Rightarrow> bool" where
  "IsFailedPod pod = (case pod of None \<Rightarrow> False | Some p \<Rightarrow> podPhase p = ''Failed'')"

text \<open>A pod that is not found is nil without an error.\<close>

definition GetPodByName :: "cluster \<Rightarrow> string \<Rightarrow> string \<Rightarrow> (goerr + Pod option) cgo" where
  "GetPodByName cl name namespace =
     andThen (call (\<lambda>h. clGetPod cl h name namespace) (GotPod name namespace)) (\<lambda>r.
     case r of
       Inl e \<Rightarrow> ret (if IsNotFound e then Inr None else Inl e)
     | Inr p \<Rightarrow> ret (Inr (Some p)))"

definition GetStatefulSet :: "cluster \<Rightarrow> string \<Rightarrow> string \<Rightarrow> (goerr + StatefulSet) cgo" where
  "GetStatefulSet cl name namespace =
     call (\<lambda>h. clGetStatefulSet cl h name namespace) (GotStatefulSet name namespace)"

definition scaleOnce :: "cluster \<Rightarrow> string \<Rightarrow> string \<Rightarrow> int \<Rightarrow> (goerr option) cgo" where
  "scaleOnce cl name namespace replicas =
     andThen (GetStatefulSet cl name namespace) (\<lambda>r.
     case r of
       Inl e \<Rightarrow> ret (Some e)
     | Inr workers \<Rightarrow>
         let workersToUpdate = workers\<lparr>stsReplicas := Some replicas\<rparr> in
         if workers \<noteq> workersToUpdate
         then call (\<lambda>h. clUpdateStatefulSet cl h workersToUpdate) (UpdatedStatefulSet workersToUpdate)
         else ret None)"

definition ScaleStatefulSet :: "cluster \<Rightarrow> string \<Rightarrow> string \<Rightarrow> int \<Rightarrow> (goerr option) cgo" where
  "ScaleStatefulSet cl name namespace replicas = RetryOnConflict (scaleOnce cl name namespace replicas)"

definition GetPhaseFromStatefulset :: "int \<Rightarrow> int \<Rightarrow> string" where
  "GetPhaseFromStatefulset replicas readyReplicas =
     (if replicas = 0 then ''Ready''
      else if readyReplicas > 0 then (if replicas \<le> readyReplicas then ''Ready'' else ''PartialReady'')
      else ''NotReady'')"

section \<open>Examples\<close>

text \<open>A cluster whose calls all fail, to be updated field by field in examples.\<close>

definition downCluster :: cluster where
  "downCluster =
     \<lparr>clGetDataset = \<lambda>_ _ _. Inl (Err ''down''), clUpdateDatasetStatus = \<lambda>_ _. Some (Err ''down''),
      clGetOperation = \<lambda>_ _ _ _. Inl (Err ''down''), clUpdateOperationStatus = \<lambda>_ _. Some (Err ''down''),
      clUpdateOperation = \<lambda>_ _. Inl (Err ''down''), clDeleteOperation = \<lambda>_ _. Some (Err ''down''),
      clGetJob = \<lambda>_ _ _. Inl (Err ''down''), clUpdateJob = \<lambda>_ _. Some (Err ''down''),
      clListJobs = \<lambda>_ _ _. Inl (Err ''down''), clGetCronJob = \<lambda>_ _ _. Inl (Err ''down''),
      clGetPod = \<lambda>_ _ _. Inl (Err ''down''), clGetStatefulSet = \<lambda>_ _ _. Inl (Err ''down''),
      clUpdateStatefulSet = \<lambda>_ _. Some (Err ''down''), clRunHelm = \<lambda>_ _. ProcFail (Err ''down''),
      clNow = \<lambda>_. 0, clLookPath = \<lambda>_. None, clChartMissing = \<lambda>_. False, clChartsDir = ''/charts'',
      clRuntimeReady = \<lambda>_ _. False, clValueFile = \<lambda>_ _ _. Inl (Err ''down''),
      clGetRuntime = \<lambda>_ _ _ _. Inl (Err ''down''), clBuildEngine = \<lambda>_ _ _ _. Inl (Err ''down''),
      clGetenv = \<lambda>_. ''''\<rparr>"

end
