(* ===== verification/Helm_Client.thy ===== *)
theory Helm_Client
  imports Operation_Api Cmd_Guard
begin

text \<open>
  \<open>pkg/utils/helm/utils.go\<close>: installing, checking, deleting and listing the helm releases in which data
  operations and runtimes run. Every command goes through the guard of \<open>Cmd_Guard\<close>; the outcome of the
  \<open>ddc-helm\<close> process is the environment's. Lemmas: helm is never stopped by the guard, a release counts as
  existing only if its status says so, and a failed installation is rolled back.
\<close>

section \<open>Running a guarded command\<close>

text \<open>\<open>cmdguard.Command\<close> and then \<open>CombinedOutput\<close> or \<open>Output\<close> of the command.\<close>

definition runCommand :: "cluster \<Rightarrow> string list \<Rightarrow> (goerr + procResult) cgo" where
  "runCommand cl cmd =
     (case ValidateCommandSlice (clLookPath cl) cmd of
        Some e \<Rightarrow> ret (Inl (Err ''command rejected''))
      | None \<Rightarrow> andThen (call (\<lambda>h. clRunHelm cl h cmd) (RanHelm cmd)) (\<lambda>r. ret (Inr r)))"

definition helmNotFound :: goerr where
  "helmNotFound = Err ''exec: ddc-helm: executable file not found''"

section \<open>helm/utils.go\<close>

definition DeleteRelease :: "cluster \<Rightarrow> string \<Rightarrow> string \<Rightarrow> (goerr option) cgo" where
  "DeleteRelease cl name namespace =
     (case clLookPath cl ''ddc-helm'' of
        None \<Rightarrow> ret (Some helmNotFound)
      | Some binary \<Rightarrow>
          andThen (runCommand cl [binary, ''uninstall'', name, ''-n'', namespace]) (\<lambda>r.
          case r of
            Inl e \<Rightarrow> ret (Some e)
          | Inr (ProcOk out) \<Rightarrow> ret None
          | Inr _ \<Rightarrow> ret (Some (Err ''failed to delete engine-related kubernetes resources''))))"

text \<open>
  The loop over the lines of \<open>helm status\<close>: a status other than \<open>deployed\<close> makes it delete the
  release. The state is \<open>exist\<close> and \<open>err\<close>.
\<close>

fun statusLines :: "cluster \<Rightarrow> string \<Rightarrow> string \<Rightarrow> string list \<Rightarrow> bool \<Rightarrow> goerr option \<Rightarrow> (bool \<times> goerr option) cgo"
  where
  "statusLines cl name namespace [] exist err = ret (exist, err)"
| "statusLines cl name namespace (line # rest) exist err =
     (if HasPrefix line ''STATUS: '' then
        if TrimPrefix line ''STATUS: '' = ''deployed''
        then statusLines cl name namespace rest True err
        else andThen (DeleteRelease cl name namespace) (\<lambda>rollbackErr.
             statusLines cl name namespace rest exist
               (case rollbackErr of
                  None \<Rightarrow> err
                | Some e \<Rightarrow> Some (Wrapped (''failed to rollback failed release (namespace: '' @ namespace @
                                          '', name: '' @ name @ '')'') e)))
      else statusLines cl name namespace rest exist err)"

text \<open>The command that succeeds has exit status 0, so the last branch of the Go code is never taken.\<close>

definition CheckRelease :: "cluster \<Rightarrow> string \<Rightarrow> string \<Rightarrow> (bool \<times> goerr option) cgo" where
  "CheckRelease cl name namespace =
     (case clLookPath cl ''ddc-helm'' of
        None \<Rightarrow> ret (False, Some helmNotFound)
      | Some _ \<Rightarrow>
          andThen (runCommand cl [''ddc-helm'', ''status'', name, ''-n'', namespace, ''--revision'', ''1'']) (\<lambda>r.
          case r of
            Inl e \<Rightarrow> ret (False, Some e)
          | Inr (ProcFail e) \<Rightarrow> ret (False, Some e)
          | Inr (ProcExit code out) \<Rightarrow>
              ret (False, if code = 1 then None else Some (Err (''exit status '' @ Itoa code)))
          | Inr (ProcOk out) \<Rightarrow>
              statusLines cl name namespace (Split (CHR 0x0A) out) False None))"

definition DeleteReleaseIfExists :: "cluster \<Rightarrow> string \<Rightarrow> string \<Rightarrow> (goerr option) cgo" where
  "DeleteReleaseIfExists cl name namespace =
     andThen (CheckRelease cl name namespace) (\<lambda>(existed, err).
     if err \<noteq> None then ret err
     else if existed then DeleteRelease cl name namespace
     else ret None)"

definition InstallRelease :: "cluster \<Rightarrow> string \<Rightarrow> string \<Rightarrow> string \<Rightarrow> string \<Rightarrow> (goerr option) cgo" where
  "InstallRelease cl name namespace valueFile chartName =
     (case clLookPath cl ''ddc-helm'' of
        None \<Rightarrow> ret (Some helmNotFound)
      | Some binary \<Rightarrow>
          if HasPrefix chartName ''/'' \<and> clChartMissing cl chartName
          then ret (Some (Err (''stat '' @ chartName @ '': no such file or directory'')))
          else
            andThen (runCommand cl [binary, ''install'', ''-f'', valueFile, ''--namespace'', namespace,
                                    name, chartName]) (\<lambda>r.
            let failed = (\<lambda>out.
              andThen (DeleteReleaseIfExists cl name namespace) (\<lambda>rollbackErr.
              ret (Some (Err (''failed to install kubernetes resources of '' @ chartName @ '': '' @ out))))) in
            case r of
              Inl e \<Rightarrow> ret (Some e)
            | Inr (ProcOk out) \<Rightarrow> ret None
            | Inr (ProcExit code out) \<Rightarrow> failed out
            | Inr (ProcFail e) \<Rightarrow> failed ''''))"

definition ListReleases :: "cluster \<Rightarrow> string \<Rightarrow> (goerr + string list) cgo" where
  "ListReleases cl namespace =
     (case clLookPath cl ''ddc-helm'' of
        None \<Rightarrow> ret (Inl helmNotFound)
      | Some _ \<Rightarrow>
          andThen (runCommand cl [''ddc-helm'', ''list'', ''-q'', ''-n'', namespace]) (\<lambda>r.
          case r of
            Inl e \<Rightarrow> ret (Inl e)
          | Inr (ProcOk out) \<Rightarrow> ret (Inr (Split (CHR 0x0A) out))
          | Inr (ProcExit code out) \<Rightarrow> ret (Inl (Err (''exit status '' @ Itoa code)))
          | Inr (ProcFail e) \<Rightarrow> ret (Inl e)))"

text \<open>\<open>strings.Trim(line, " ")\<close>.\<close>

definition trimBlanks :: "string \<Rightarrow> string" where
  "trimBlanks s =
     rev (dropWhile (\<lambda>c. c = CHR '' '') (rev (dropWhile (\<lambda>c. c = CHR '' '') s)))"

text \<open>The table of \<open>helm list\<close>: every line but the heading, with more than \<open>n\<close> columns.\<close>

definition listRows :: "nat \<Rightarrow> string \<Rightarrow> string list list" where
  "listRows n out =
     filter (\<lambda>cols. length cols > n)
       (map Fields (filter (\<lambda>line. \<not> Contains line ''NAME'') (map trimBlanks (Split (CHR 0x0A) out))))"

definition ListReleaseMap :: "cluster \<Rightarrow> string \<Rightarrow> (goerr + (string \<times> string) list) cgo" where
  "ListReleaseMap cl namespace =
     (case clLookPath cl ''ddc-helm'' of
        None \<Rightarrow> ret (Inl helmNotFound)
      | Some _ \<Rightarrow>
          andThen (runCommand cl [''ddc-helm'', ''list'', ''-n'', namespace]) (\<lambda>r.
          case r of
            Inl e \<Rightarrow> ret (Inl e)
          | Inr (ProcOk out) \<Rightarrow>
              ret (Inr (fold (\<lambda>cols m. AList.update (hd cols) (last cols) m) (listRows 1 out) []))
          | Inr (ProcExit code out) \<Rightarrow> ret (Inl (Err (''exit status '' @ Itoa code)))
          | Inr (ProcFail e) \<Rightarrow> ret (Inl e)))"

definition ListAllReleasesWithDetail :: "cluster \<Rightarrow> string \<Rightarrow> (goerr + (string \<times> string list) list) cgo" where
  "ListAllReleasesWithDetail cl namespace =
     (case clLookPath cl ''ddc-helm'' of
        None \<Rightarrow> ret (Inl helmNotFound)
      | Some _ \<Rightarrow>
          andThen (runCommand cl [''ddc-helm'', ''list'', ''--all'', ''-n'', namespace]) (\<lambda>r.
          case r of
            Inl e \<Rightarrow> ret (Inl e)
          | Inr (ProcOk out) \<Rightarrow>
              ret (Inr (fold (\<lambda>cols m. AList.update (hd cols) cols m) (listRows 3 out) []))
          | Inr (ProcExit code out) \<Rightarrow> ret (Inl (Err (''exit status '' @ Itoa code)))
          | Inr (ProcFail e) \<Rightarrow> ret (Inl e)))"

section \<open>Lemmas\<close>

text \<open>The helm binary, by name or by its path, is never rejected, whatever its arguments.\<close>

lemma helm_not_rejected:
  "cmd = ''ddc-helm'' \<or> LookPath ''ddc-helm'' = Some cmd \<Longrightarrow> ValidateCommandSlice LookPath (cmd # args) = None"
  by (simp add: ValidateCommandSlice_def enabledIn_allowedPathList)

lemma runCommand_helm:
  "cmd = ''ddc-helm'' \<or> clLookPath cl ''ddc-helm'' = Some cmd \<Longrightarrow>
   runCommand cl (cmd # args) =
     andThen (call (\<lambda>h. clRunHelm cl h (cmd # args)) (RanHelm (cmd # args))) (\<lambda>r. ret (Inr r))"
  by (simp add: runCommand_def helm_not_rejected)

text \<open>Helm calls leave helm events only; which sub-commands they run.\<close>

fun isHelm :: "event \<Rightarrow> bool" where
  "isHelm (RanHelm _ _) = True"
| "isHelm _ = False"

fun isHelmInstall :: "event \<Rightarrow> bool" where
  "isHelmInstall (RanHelm (_ # sub # _) _) = (sub = ''install'')"
| "isHelmInstall _ = False"

lemma emits_proc [emits_rules]:
  "(\<And>out. x = ProcOk out \<Longrightarrow> emits P (f out)) \<Longrightarrow> (\<And>c out. x = ProcExit c out \<Longrightarrow> emits P (g c out)) \<Longrightarrow>
   (\<And>e. x = ProcFail e \<Longrightarrow> emits P (k e)) \<Longrightarrow>
   emits P (case x of ProcOk out \<Rightarrow> f out | ProcExit c out \<Rightarrow> g c out | ProcFail e \<Rightarrow> k e)"
  by (cases x) simp_all

lemma wp_proc [wp_rules]:
  "wp (case x of ProcOk out \<Rightarrow> f out | ProcExit c out \<Rightarrow> g c out | ProcFail e \<Rightarrow> k e) Q h =
     (case x of ProcOk out \<Rightarrow> wp (f out) Q h | ProcExit c out \<Rightarrow> wp (g c out) Q h | ProcFail e \<Rightarrow> wp (k e) Q h)"
  by (cases x) simp_all

lemma emits_runCommand: "(\<And>r. P (RanHelm cmd r)) \<Longrightarrow> emits P (runCommand cl cmd)"
  unfolding runCommand_def by (auto intro!: emits_rules)

lemma emits_DeleteRelease:
  assumes "\<And>b r. P (RanHelm [b, ''uninstall'', name, ''-n'', namespace] r)"
  shows "emits P (DeleteRelease cl name namespace)"
  unfolding DeleteRelease_def by (auto intro!: emits_rules emits_runCommand assms)

lemma emits_statusLines:
  assumes "\<And>b r. P (RanHelm [b, ''uninstall'', name, ''-n'', namespace] r)"
  shows "emits P (statusLines cl name namespace lines exist err)"
  by (induction lines arbitrary: exist err) (auto intro!: emits_rules emits_DeleteRelease assms)

lemma emits_CheckRelease:
  assumes "\<And>b r. P (RanHelm [b, ''uninstall'', name, ''-n'', namespace] r)"
    and "\<And>r. P (RanHelm [''ddc-helm'', ''status'', name, ''-n'', namespace, ''--revision'', ''1''] r)"
  shows "emits P (CheckRelease cl name namespace)"
  unfolding CheckRelease_def
  by (auto intro!: emits_rules emits_runCommand emits_statusLines assms)

lemma emits_DeleteReleaseIfExists:
  assumes "\<And>b r. P (RanHelm [b, ''uninstall'', name, ''-n'', namespace] r)"
    and "\<And>r. P (RanHelm [''ddc-helm'', ''status'', name, ''-n'', namespace, ''--revision'', ''1''] r)"
  shows "emits P (DeleteReleaseIfExists cl name namespace)"
  unfolding DeleteReleaseIfExists_def
  by (auto intro!: emits_rules emits_CheckRelease emits_DeleteRelease assms)

lemma emits_InstallRelease:
  assumes "\<And>b sub as r. P (RanHelm (b # sub # as) r)"
  shows "emits P (InstallRelease cl name namespace valueFile chartName)"
  unfolding InstallRelease_def Let_def
  by (auto intro!: emits_rules emits_runCommand emits_DeleteReleaseIfExists assms)

lemmas emits_helm = emits_DeleteRelease emits_CheckRelease emits_DeleteReleaseIfExists emits_InstallRelease

section \<open>Properties\<close>

definition statusCmd :: "string \<Rightarrow> string \<Rightarrow> string list" where
  "statusCmd name namespace = [''ddc-helm'', ''status'', name, ''-n'', namespace, ''--revision'', ''1'']"

fun isUninstallOf :: "string \<Rightarrow> string \<Rightarrow> event \<Rightarrow> bool" where
  "isUninstallOf name namespace (RanHelm cmd r) = (tl cmd = [''uninstall'', name, ''-n'', namespace])"
| "isUninstallOf name namespace _ = False"

lemma DeleteRelease_run:
  assumes "clLookPath cl ''ddc-helm'' = Some b"
  shows "\<exists>err r. DeleteRelease cl name namespace h =
    (Ret err, h @ [RanHelm [b, ''uninstall'', name, ''-n'', namespace] r])"
  using assms
  by (simp add: DeleteRelease_def runCommand_helm andThen_def call_def ret_def split: procResult.splits)

definition badStatus :: "string \<Rightarrow> bool" where
  "badStatus line \<longleftrightarrow> HasPrefix line ''STATUS: '' \<and> line \<noteq> ''STATUS: deployed''"

lemma status_line: "HasPrefix line ''STATUS: '' \<Longrightarrow> TrimPrefix line ''STATUS: '' = ''deployed'' \<longleftrightarrow> line = ''STATUS: deployed''"
  by (auto simp: HasPrefix_iff TrimPrefix_def)

lemma statusLines_run:
  assumes "clLookPath cl ''ddc-helm'' = Some b"
  shows "\<exists>es err'. statusLines cl name namespace lines exist err h =
      (Ret (exist \<or> ''STATUS: deployed'' \<in> set lines, err'), h @ es) \<and>
    length es = tally badStatus lines \<and> list_all (isUninstallOf name namespace) es"
proof (induction lines arbitrary: exist err h)
  case Nil
  then show ?case by (simp add: ret_def)
next
  case (Cons line lines)
  show ?case
  proof (cases "badStatus line")
    case True
    obtain err1 r where del: "DeleteRelease cl name namespace h =
        (Ret err1, h @ [RanHelm [b, ''uninstall'', name, ''-n'', namespace] r])"
      using DeleteRelease_run [OF assms] by blast
    obtain es err' where "statusLines cl name namespace lines exist
        (case err1 of None \<Rightarrow> err
         | Some e \<Rightarrow> Some (Wrapped (''failed to rollback failed release (namespace: '' @ namespace @
                                          '', name: '' @ name @ '')'') e))
        (h @ [RanHelm [b, ''uninstall'', name, ''-n'', namespace] r]) =
        (Ret (exist \<or> ''STATUS: deployed'' \<in> set lines, err'),
         (h @ [RanHelm [b, ''uninstall'', name, ''-n'', namespace] r]) @ es)"
      "length es = tally badStatus lines" "list_all (isUninstallOf name namespace) es"
      using Cons.IH by blast
    moreover have "HasPrefix line ''STATUS: ''" "line \<noteq> ''STATUS: deployed''"
      using True by (auto simp: badStatus_def)
    ultimately show ?thesis using True del
      by (intro exI [of _ "RanHelm [b, ''uninstall'', name, ''-n'', namespace] r # es"] exI [of _ err'])
        (auto simp: status_line andThen_def)
  next
    case False
    show ?thesis
    proof (cases "line = ''STATUS: deployed''")
      case True
      moreover from this have "HasPrefix line ''STATUS: ''" by (simp add: HasPrefix_def)
      ultimately show ?thesis using False Cons.IH [of True err h] by (auto simp: status_line)
    next
      case neq: False
      with False have "\<not> HasPrefix line ''STATUS: ''" by (auto simp: badStatus_def)
      with False neq Cons.IH [of exist err h] show ?thesis by auto
    qed
  qed
qed

lemma CheckRelease_run:
  assumes "clLookPath cl ''ddc-helm'' = Some b"
  shows "\<exists>ex err es. CheckRelease cl name namespace h =
    (Ret (ex, err), h @ RanHelm (statusCmd name namespace) (clRunHelm cl h (statusCmd name namespace)) # es)"
proof (cases "clRunHelm cl h (statusCmd name namespace)")
  case (ProcOk out)
  let ?h = "h @ [RanHelm (statusCmd name namespace) (ProcOk out)]"
  obtain es err ex where "statusLines cl name namespace (Split (CHR 0x0A) out) False None ?h =
      (Ret (ex, err), ?h @ es)"
    using statusLines_run [OF assms, of name namespace "Split (CHR 0x0A) out" False None] by blast
  with ProcOk assms show ?thesis
    by (simp add: CheckRelease_def statusCmd_def runCommand_helm andThen_def call_def ret_def)
qed (use assms in \<open>auto simp: CheckRelease_def statusCmd_def runCommand_helm andThen_def
      call_def ret_def\<close>)

lemma DeleteReleaseIfExists_run:
  assumes "clLookPath cl ''ddc-helm'' = Some b"
  shows "\<exists>err es r. DeleteReleaseIfExists cl name namespace h =
    (Ret err, h @ RanHelm (statusCmd name namespace) r # es)"
proof -
  let ?e = "RanHelm (statusCmd name namespace) (clRunHelm cl h (statusCmd name namespace))"
  obtain ex err es where chk: "CheckRelease cl name namespace h = (Ret (ex, err), h @ ?e # es)"
    using CheckRelease_run [OF assms] by blast
  obtain err2 es2 where "DeleteRelease cl name namespace (h @ ?e # es) = (Ret err2, (h @ ?e # es) @ es2)"
    using DeleteRelease_run [OF assms, of name namespace "h @ ?e # es"] by blast
  with chk show ?thesis
    by (cases "err = None"; cases ex) (auto simp: DeleteReleaseIfExists_def andThen_def ret_def)
qed

text \<open>
  A release counts as existing exactly if helm reports its first revision as deployed; every other
  status line makes the check uninstall the release before it answers, and it runs nothing else.
\<close>

theorem CheckRelease_deployed:
  assumes "clLookPath cl ''ddc-helm'' = Some b"
    and "clRunHelm cl h (statusCmd name namespace) = ProcOk out"
  shows "\<exists>err es. CheckRelease cl name namespace h =
      (Ret (''STATUS: deployed'' \<in> set (Split (CHR 0x0A) out), err),
       h @ RanHelm (statusCmd name namespace) (ProcOk out) # es) \<and>
    length es = tally badStatus (Split (CHR 0x0A) out) \<and> list_all (isUninstallOf name namespace) es"
proof -
  let ?h = "h @ [RanHelm (statusCmd name namespace) (ProcOk out)]"
  obtain es err where "statusLines cl name namespace (Split (CHR 0x0A) out) False None ?h =
      (Ret (''STATUS: deployed'' \<in> set (Split (CHR 0x0A) out), err), ?h @ es)"
    "length es = tally badStatus (Split (CHR 0x0A) out)" "list_all (isUninstallOf name namespace) es"
    using statusLines_run [OF assms(1), of name namespace "Split (CHR 0x0A) out" False None ?h] by auto
  with assms show ?thesis
    by (intro exI [of _ err] exI [of _ es])
      (simp add: CheckRelease_def statusCmd_def runCommand_helm andThen_def call_def ret_def)
qed

text \<open>
  A chart counts as installed only if the install command succeeded; if the command fails, the
  caller gets an error and the release is checked at once so that a broken one is removed, and if it
  succeeds nothing else is run.
\<close>

theorem InstallRelease_rollback:
  assumes "clLookPath cl ''ddc-helm'' = Some b" and "\<not> clChartMissing cl chart"
    and "cmd = [b, ''install'', ''-f'', valueFile, ''--namespace'', namespace, name, chart]"
  shows "case clRunHelm cl h cmd of
      ProcOk out \<Rightarrow> InstallRelease cl name namespace valueFile chart h =
        (Ret None, h @ [RanHelm cmd (ProcOk out)])
    | r \<Rightarrow> \<exists>e es. InstallRelease cl name namespace valueFile chart h = (Ret (Some e), h @ RanHelm cmd r # es) \<and>
        es \<noteq> [] \<and> (\<exists>r'. hd es = RanHelm (statusCmd name namespace) r')"
proof -
  note total = DeleteReleaseIfExists_run [OF assms(1)]
  show ?thesis
  proof (cases "clRunHelm cl h cmd")
    case (ProcOk out)
    with assms show ?thesis
      by (simp add: InstallRelease_def runCommand_helm andThen_def call_def ret_def Let_def)
  next
    case (ProcExit c out)
    obtain err es r' where "DeleteReleaseIfExists cl name namespace (h @ [RanHelm cmd (ProcExit c out)]) =
        (Ret err, (h @ [RanHelm cmd (ProcExit c out)]) @ RanHelm (statusCmd name namespace) r' # es)"
      using total by blast
    with ProcExit assms show ?thesis
      by (simp add: InstallRelease_def runCommand_helm andThen_def call_def ret_def Let_def)
  next
    case (ProcFail e)
    obtain err es r' where "DeleteReleaseIfExists cl name namespace (h @ [RanHelm cmd (ProcFail e)]) =
        (Ret err, (h @ [RanHelm cmd (ProcFail e)]) @ RanHelm (statusCmd name namespace) r' # es)"
      using total by blast
    with ProcFail assms show ?thesis
      by (simp add: InstallRelease_def runCommand_helm andThen_def call_def ret_def Let_def)
  qed
qed

definition failedRelease :: cluster where
  "failedRelease = downCluster
     \<lparr>clLookPath := \<lambda>_. Some ''/usr/local/bin/ddc-helm'',
      clRunHelm := \<lambda>_ cmd. if cmd ! 1 = ''status'' then ProcOk (''NAME: a'' @ [CHR 0x0A] @ ''STATUS: failed'')
                           else if cmd ! 1 = ''install'' then ProcExit 1 ''timed out'' else ProcOk ''''\<rparr>"

theorem CheckRelease_deployed_witness:
  "\<exists>err es. CheckRelease failedRelease ''a'' ''ns'' [] =
      (Ret (''STATUS: deployed'' \<in> set (Split (CHR 0x0A) (''NAME: a'' @ [CHR 0x0A] @ ''STATUS: failed'')), err),
       [] @ RanHelm (statusCmd ''a'' ''ns'') (ProcOk (''NAME: a'' @ [CHR 0x0A] @ ''STATUS: failed'')) # es) \<and>
    length es = tally badStatus (Split (CHR 0x0A) (''NAME: a'' @ [CHR 0x0A] @ ''STATUS: failed'')) \<and>
    list_all (isUninstallOf ''a'' ''ns'') es"
  by (rule CheckRelease_deployed) (simp_all add: failedRelease_def statusCmd_def)

theorem InstallRelease_rollback_witness:
  "\<exists>e es. InstallRelease failedRelease ''a'' ''ns'' ''v.yaml'' ''/charts/x'' [] =
      (Ret (Some e), [] @ RanHelm [''/usr/local/bin/ddc-helm'', ''install'', ''-f'', ''v.yaml'', ''--namespace'',
         ''ns'', ''a'', ''/charts/x''] (ProcExit 1 ''timed out'') # es) \<and>
    es \<noteq> [] \<and> (\<exists>r'. hd es = RanHelm (statusCmd ''a'' ''ns'') r')"
  using InstallRelease_rollback [where cl = failedRelease and b = "''/usr/local/bin/ddc-helm''" and
      chart = "''/charts/x''" and h = "[]" and valueFile = "''v.yaml''" and namespace = "''ns''" and
      name = "''a''", OF _ _ refl]
  by (simp add: failedRelease_def downCluster_def)

end
