(* ===== verification/Dataflow_Affinity.thy ===== *)
theory Dataflow_Affinity
  imports Operation_Api
begin

text \<open>
  Affinity between the data operations of a workflow: \<open>pkg/dataflow/helper.go\<close> reads the nodes of a
  finished job from its annotations, \<open>pkg/dataflow/affinity.go\<close> turns them into an affinity of the
  operation that runs after it, \<open>pkg/utils/affinity.go\<close> merges that into the affinity the user asked for.
\<close>

section \<open>helper.go\<close>

abbreviation injectKey :: string where
  "injectKey \<equiv> ''affinity.dataflow.fluid.io/inject''"

abbreviation labelsKey :: string where
  "labelsKey \<equiv> ''affinity.dataflow.fluid.io/labels''"

abbreviation affinityPrefix :: string where
  "affinityPrefix \<equiv> ''affinity.dataflow.fluid.io.''"

abbreviation hostnameKey :: string where
  "hostnameKey \<equiv> ''kubernetes.io/hostname''"

definition requirementOf :: "string \<Rightarrow> string \<Rightarrow> NodeSelectorRequirement" where
  "requirementOf key val = \<lparr>nrKey = key, nrOperator = ''In'', nrValues = [val]\<rparr>"

definition GenerateNodeAffinity :: "Job option \<Rightarrow> goerr + NodeAffinity option" where
  "GenerateNodeAffinity job =
     (case job of
        None \<Rightarrow> Inr None
      | Some j \<Rightarrow>
          if lookupStr (jobAnnotations j) injectKey \<noteq> ''true'' then Inr None
          else let exprs = map (\<lambda>(key, val). requirementOf (TrimPrefix key affinityPrefix) val)
                             (filter (\<lambda>(key, val). HasPrefix key affinityPrefix) (jobAnnotations j)) in
               if exprs = [] then Inl (Err ''the affinity label is not set, wait for next reconcile'')
               else Inr (Some \<lparr>naRequired = Some (Some [exprs]), naPreferred = []\<rparr>))"

section \<open>utils/affinity.go\<close>

abbreviation emptyNodeAffinity :: NodeAffinity where
  "emptyNodeAffinity \<equiv> \<lparr>naRequired = None, naPreferred = []\<rparr>"

definition affinityOr :: "Affinity option \<Rightarrow> Affinity" where
  "affinityOr affinity =
     (case affinity of None \<Rightarrow> \<lparr>afNodeAffinity = None, afPodAntiAffinity = None\<rparr> | Some a \<Rightarrow> a)"

definition nodeAffinityOf :: "Affinity option \<Rightarrow> NodeAffinity" where
  "nodeAffinityOf affinity =
     (case affinity of
        None \<Rightarrow> emptyNodeAffinity
      | Some a \<Rightarrow> (case afNodeAffinity a of None \<Rightarrow> emptyNodeAffinity | Some na \<Rightarrow> na))"

text \<open>
  The loop over existing terms assigns to the loop variable, a copy of the term: the terms of the
  result are the ones that were there.
\<close>

definition InjectNodeSelectorRequirements ::
  "NodeSelectorRequirement list \<Rightarrow> Affinity option \<Rightarrow> Affinity option" where
  "InjectNodeSelectorRequirements matchExpressions affinity =
     (if matchExpressions = [] then affinity
      else let na = nodeAffinityOf affinity in
           Some ((affinityOr affinity)\<lparr>afNodeAffinity := Some (na\<lparr>naRequired := Some
             (case naRequired na of
                Some (Some terms) \<Rightarrow> Some terms
              | _ \<Rightarrow> Some [matchExpressions])\<rparr>)\<rparr>))"

definition InjectPreferredSchedulingTermsToAffinity ::
  "(int \<times> NodeSelectorTerm) list \<Rightarrow> Affinity option \<Rightarrow> Affinity option" where
  "InjectPreferredSchedulingTermsToAffinity terms affinity =
     (if terms = [] then affinity
      else let na = nodeAffinityOf affinity in
           Some ((affinityOr affinity)\<lparr>afNodeAffinity := Some (na\<lparr>naPreferred := naPreferred na @ terms\<rparr>)\<rparr>))"

section \<open>dataflow/affinity.go\<close>

definition InjectAffinityAnnotation ::
  "(string \<times> string) list \<Rightarrow> (string \<times> string) list \<Rightarrow> (string \<times> string) list" where
  "InjectAffinityAnnotation opAnnotation podAnnotation =
     (case map_of opAnnotation labelsKey of
        None \<Rightarrow> podAnnotation
      | Some v \<Rightarrow> AList.update labelsKey v podAnnotation)"

definition injectPreferredAffinity ::
  "OperationRef \<Rightarrow> NodeAffinity \<Rightarrow> Affinity option \<Rightarrow> (Affinity option \<times> goerr option) cgo" where
  "injectPreferredAffinity runAfter prevOpNodeAffinity currentAffinity =
     (let prefers = (if asPrefers (orefAffinity runAfter) = []
                     then [\<lparr>pfName = hostnameKey, pfWeight = 100\<rparr>]
                     else asPrefers (orefAffinity runAfter)) in
      case naRequired prevOpNodeAffinity of
        None \<Rightarrow> panic ''nil pointer dereference''
      | Some terms \<Rightarrow>
          (case (case terms of None \<Rightarrow> [] | Some ts \<Rightarrow> ts) of
             [] \<Rightarrow> ret (currentAffinity, Some (Err ''no node selector terms in the preceding operation''))
           | tm # _ \<Rightarrow>
               ret (InjectPreferredSchedulingTermsToAffinity
                      (concat (map (\<lambda>item. map (\<lambda>e. (pfWeight item, [e]))
                                 (filter (\<lambda>e. nrKey e = pfName item) tm)) prefers))
                      currentAffinity, None)))"

definition injectRequiredAffinity ::
  "OperationRef \<Rightarrow> NodeAffinity \<Rightarrow> Affinity option \<Rightarrow> Affinity option \<times> goerr option" where
  "injectRequiredAffinity runAfter prevOpNodeAffinity currentAffinity =
     (let requires = (if asRequires (orefAffinity runAfter) = [] then [hostnameKey]
                      else asRequires (orefAffinity runAfter)) in
      case naRequired prevOpNodeAffinity of
        Some (Some terms) \<Rightarrow>
          (case terms of
             [] \<Rightarrow> (currentAffinity, Some (Err ''no node selector terms in the preceding operation''))
           | tm # _ \<Rightarrow>
               (InjectNodeSelectorRequirements
                  (concat (map (\<lambda>item. filter (\<lambda>e. nrKey e = item) tm) requires)) currentAffinity, None))
      | _ \<Rightarrow> (currentAffinity, None))"

definition InjectAffinityByRunAfterOp ::
  "cluster \<Rightarrow> OperationRef option \<Rightarrow> string \<Rightarrow> Affinity option \<Rightarrow> (Affinity option \<times> goerr option) cgo" where
  "InjectAffinityByRunAfterOp cl runAfter opNamespace currentAffinity =
     (case runAfter of
        None \<Rightarrow> ret (currentAffinity, None)
      | Some ra \<Rightarrow>
          let policy = asPolicy (orefAffinity ra) in
          if policy = '''' then ret (currentAffinity, None)
          else
            let dependOnOp = (case asDependOn (orefAffinity ra) of None \<Rightarrow> orefObject ra | Some r \<Rightarrow> r);
                precedingOpNamespace =
                  (if refNamespace dependOnOp \<noteq> '''' then refNamespace dependOnOp else opNamespace) in
            andThen (GetPrecedingOperationStatus cl (Some dependOnOp) precedingOpNamespace) (\<lambda>r.
            case r of
              Inl e \<Rightarrow> ret (currentAffinity, Some e)
            | Inr None \<Rightarrow> panic ''nil pointer dereference''
            | Inr (Some precedingOpStatus) \<Rightarrow>
                if osPhase precedingOpStatus \<noteq> ''Complete''
                then ret (None, Some (Err (''dependOn operation '' @ refName dependOnOp @ '' status is '' @
                                           osPhase precedingOpStatus @ '', not completed.'')))
                else (case osNodeAffinity precedingOpStatus of
                        None \<Rightarrow> ret (currentAffinity, None)
                      | Some na \<Rightarrow>
                          if policy = ''Require'' then ret (injectRequiredAffinity ra na currentAffinity)
                          else if policy = ''Prefer'' then injectPreferredAffinity ra na currentAffinity
                          else ret (currentAffinity, Some (Err (''unknown policy for affinity strategy: '' @ policy))))))"

section \<open>Lemmas\<close>

text \<open>The terms a scheduler must satisfy.\<close>

definition requiredTerms :: "Affinity option \<Rightarrow> NodeSelectorTerm list" where
  "requiredTerms affinity =
     (case naRequired (nodeAffinityOf affinity) of Some (Some ts) \<Rightarrow> ts | _ \<Rightarrow> [])"

lemma requiredTerms_inject:
  "requiredTerms (InjectNodeSelectorRequirements es affinity) =
     (if es \<noteq> [] \<and> (case naRequired (nodeAffinityOf affinity) of Some (Some ts) \<Rightarrow> False | _ \<Rightarrow> True)
      then [es] else requiredTerms affinity)"
  by (auto simp: requiredTerms_def InjectNodeSelectorRequirements_def Let_def nodeAffinityOf_def
      split: option.splits)

text \<open>
  The whole way of a node from the annotations of a finished job into the affinity of the next
  operation, under the policy that requires the same host.
\<close>

definition requireSameHost :: "ObjectRef \<Rightarrow> OperationRef" where
  "requireSameHost ref =
     \<lparr>orefObject = ref, orefAffinity = \<lparr>asDependOn = None, asPolicy = ''Require'', asPrefers = [], asRequires = []\<rparr>\<rparr>"

lemma GenerateNodeAffinity_host:
  assumes "GenerateNodeAffinity (Some job) = Inr (Some na)"
    and "filter (\<lambda>(k, v). HasPrefix k affinityPrefix \<and> TrimPrefix k affinityPrefix = hostnameKey)
           (jobAnnotations job) = [(k, host)]"
  shows "\<exists>tm. naRequired na = Some (Some [tm]) \<and>
    filter (\<lambda>e. nrKey e = hostnameKey) tm = [requirementOf hostnameKey host]"
proof -
  let ?es = "map (\<lambda>(key, val). requirementOf (TrimPrefix key affinityPrefix) val)
      (filter (\<lambda>(key, val). HasPrefix key affinityPrefix) (jobAnnotations job))"
  have "naRequired na = Some (Some [?es])"
    using assms(1) by (auto simp: GenerateNodeAffinity_def Let_def split: if_splits)
  moreover have "filter (\<lambda>e. nrKey e = hostnameKey) ?es =
      map (\<lambda>(key, val). requirementOf (TrimPrefix key affinityPrefix) val)
        (filter (\<lambda>(k, v). HasPrefix k affinityPrefix \<and> TrimPrefix k affinityPrefix = hostnameKey)
          (jobAnnotations job))"
    by (induction "jobAnnotations job") (auto simp: requirementOf_def filter_map comp_def case_prod_unfold)
  moreover have "TrimPrefix k affinityPrefix = hostnameKey"
    using arg_cong [OF assms(2), of set] by auto
  ultimately show ?thesis using assms(2) by auto
qed

section \<open>Properties\<close>

text \<open>The status of a finished operation whose node affinity was taken from its job.\<close>

definition completedOn :: "cluster \<Rightarrow> event list \<Rightarrow> ObjectRef \<Rightarrow> NodeAffinity \<Rightarrow> bool" where
  "completedOn cl h ref na \<longleftrightarrow>
     refKind ref \<in> {''DataLoad'', ''DataBackup'', ''DataMigrate'', ''DataProcess''} \<and> refNamespace ref \<noteq> '''' \<and>
     (\<exists>ob. clGetOperation cl h (refKind ref) (refName ref) (refNamespace ref) = Inr ob \<and>
           osPhase (GetOperationStatus ob) = ''Complete'' \<and> osNodeAffinity (GetOperationStatus ob) = Some na)"

lemma GetPreceding_completedOn:
  assumes "completedOn cl h ref na"
  shows "\<exists>st e. GetPrecedingOperationStatus cl (Some ref) (refNamespace ref) h = (Ret (Inr (Some st)), h @ [e]) \<and>
    osPhase st = ''Complete'' \<and> osNodeAffinity st = Some na"
  using assms
  by (auto simp: completedOn_def GetPrecedingOperationStatus_def GetDataLoad_def GetDataBackup_def
      GetDataMigrate_def GetDataProcess_def getOperation_def andThen_def call_def ret_def Let_def)

lemma InjectAffinity_require:
  assumes "completedOn cl h ref na"
  shows "\<exists>e. InjectAffinityByRunAfterOp cl (Some (requireSameHost ref)) ns cur h =
    (Ret (injectRequiredAffinity (requireSameHost ref) na cur), h @ [e])"
  using GetPreceding_completedOn [OF assms] assms
  by (auto simp: InjectAffinityByRunAfterOp_def requireSameHost_def andThen_def ret_def Let_def completedOn_def)

text \<open>
  Affinity is passed on through a workflow: if the job of an operation ran on one host, an
  operation that has to run on the same host and sets no node affinity of its own can be scheduled on
  that host only.
\<close>

theorem same_host_required:
  assumes "GenerateNodeAffinity (Some job) = Inr (Some na)"
    and "filter (\<lambda>(k, v). HasPrefix k affinityPrefix \<and> TrimPrefix k affinityPrefix = hostnameKey)
           (jobAnnotations job) = [(k, host)]"
    and "completedOn cl h ref na"
  shows "\<exists>aff e. InjectAffinityByRunAfterOp cl (Some (requireSameHost ref)) ns None h = (Ret (aff, None), h @ [e]) \<and>
    requiredTerms aff = [[requirementOf hostnameKey host]]"
proof -
  obtain tm where "naRequired na = Some (Some [tm])"
    "filter (\<lambda>e. nrKey e = hostnameKey) tm = [requirementOf hostnameKey host]"
    using GenerateNodeAffinity_host [OF assms(1,2)] by blast
  then have "injectRequiredAffinity (requireSameHost ref) na None =
      (InjectNodeSelectorRequirements [requirementOf hostnameKey host] None, None)"
    by (simp add: injectRequiredAffinity_def requireSameHost_def)
  then show ?thesis using InjectAffinity_require [OF assms(3), of ns None]
    by (auto simp: requiredTerms_inject nodeAffinityOf_def)
qed

definition exampleMeta :: "string \<Rightarrow> ObjectMeta" where
  "exampleMeta name = (dMeta exampleDataset)\<lparr>omName := name\<rparr>"

definition exampleStatus :: "string \<Rightarrow> OperationStatus" where
  "exampleStatus phase =
     \<lparr>osPhase = phase, osDuration = '''', osConditions = [], osInfos = None, osLastScheduleTime = None,
      osLastSuccessfulTime = None, osWaitingFor = None, osNodeAffinity = None\<rparr>"

definition exampleLoad :: "string \<Rightarrow> OperationStatus \<Rightarrow> DataLoad" where
  "exampleLoad name st =
     \<lparr>dlMeta = exampleMeta name, dlDataset = \<lparr>tdName = ''demo'', tdNamespace = ''default''\<rparr>,
      dlPolicy = ''Once'', dlRunAfter = None, dlTTL = None, dlStatus = st\<rparr>"

definition hostJob :: Job where
  "hostJob =
     \<lparr>jobName = ''a-loader-job'', jobNamespace = ''default'',
      jobAnnotations = [(injectKey, ''true''), (affinityPrefix @ hostnameKey, ''node-1'')],
      jobCreationTimestamp = 0, jobSuspend = None, jobConditions = []\<rparr>"

definition hostAffinity :: NodeAffinity where
  "hostAffinity = \<lparr>naRequired = Some (Some [[requirementOf hostnameKey ''node-1'']]), naPreferred = []\<rparr>"

definition loadRef :: ObjectRef where
  "loadRef = \<lparr>refAPIVersion = '''', refKind = ''DataLoad'', refName = ''a'', refNamespace = ''default''\<rparr>"

lemma hostJob_affinity: "GenerateNodeAffinity (Some hostJob) = Inr (Some hostAffinity)"
  by code_simp

lemma hostJob_annotation:
  "filter (\<lambda>(k, v). HasPrefix k affinityPrefix \<and> TrimPrefix k affinityPrefix = hostnameKey)
     (jobAnnotations hostJob) = [(affinityPrefix @ hostnameKey, ''node-1'')]"
  by code_simp

text \<open>
  The required affinity of a workflow is lost if the operation has node affinity terms of its own:
  whatever host the preceding operation ran on, the affinity stays the one the user wrote.
\<close>

theorem required_affinity_lost:
  assumes "completedOn cl h ref na" and "naRequired na = Some (Some (tm # terms'))"
    and "afNodeAffinity cur = Some own" and "naRequired own = Some (Some terms)"
  shows "\<exists>e. InjectAffinityByRunAfterOp cl (Some (requireSameHost ref)) ns (Some cur) h =
    (Ret (Some cur, None), h @ [e])"
proof -
  have "InjectNodeSelectorRequirements es (Some cur) = Some cur" for es
    using assms(3,4)
    by (cases cur; cases own) (simp add: InjectNodeSelectorRequirements_def nodeAffinityOf_def affinityOr_def Let_def)
  then have "injectRequiredAffinity (requireSameHost ref) na (Some cur) = (Some cur, None)"
    using assms(2) by (simp add: injectRequiredAffinity_def Let_def)
  with InjectAffinity_require [OF assms(1), of ns "Some cur"] show ?thesis by simp
qed


definition afterHostJob :: cluster where
  "afterHostJob = downCluster
     \<lparr>clGetOperation := \<lambda>_ _ _ _.
        Inr (ODataLoad (exampleLoad ''a'' ((exampleStatus ''Complete'')\<lparr>osNodeAffinity := Some hostAffinity\<rparr>)))\<rparr>"

lemma afterHostJob_completed: "completedOn afterHostJob [] loadRef hostAffinity"
  by (simp add: completedOn_def afterHostJob_def loadRef_def exampleLoad_def exampleStatus_def)

theorem same_host_required_witness:
  "\<exists>aff e. InjectAffinityByRunAfterOp afterHostJob (Some (requireSameHost loadRef)) ''default'' None [] =
      (Ret (aff, None), [] @ [e]) \<and>
    requiredTerms aff = [[requirementOf hostnameKey ''node-1'']]"
  by (rule same_host_required [OF hostJob_affinity hostJob_annotation afterHostJob_completed])

theorem required_affinity_lost_witness:
  "\<exists>e. InjectAffinityByRunAfterOp afterHostJob (Some (requireSameHost loadRef)) ''default''
      (Some \<lparr>afNodeAffinity = Some \<lparr>naRequired = Some (Some [[requirementOf ''zone'' ''z1'']]), naPreferred = []\<rparr>,
             afPodAntiAffinity = None\<rparr>) [] =
    (Ret (Some \<lparr>afNodeAffinity = Some \<lparr>naRequired = Some (Some [[requirementOf ''zone'' ''z1'']]),
                                        naPreferred = []\<rparr>, afPodAntiAffinity = None\<rparr>, None), [] @ [e])"
  by (rule required_affinity_lost [OF afterHostJob_completed,
        where terms = "[[requirementOf ''zone'' ''z1'']]" and terms' = "[]" and
          tm = "[requirementOf hostnameKey ''node-1'']"])
    (simp add: hostAffinity_def, simp, simp)

end
