(* ===== verification/Operation_Kinds.thy ===== *)
theory Operation_Kinds
  imports Helm_Client Dataflow_Affinity
begin

text \<open>
  The four kinds of data operations: the status handlers (\<open>status_handler.go\<close>) and the implementations of
  \<open>dataoperation.OperationInterface\<close> (\<open>implement.go\<close>) of \<open>pkg/controllers/v1alpha1/dataload\<close>,
  \<open>databackup\<close>, \<open>datamigrate\<close> and \<open>dataprocess\<close>, with \<open>pkg/utils/datamigrate.go\<close> and the mount path check of
  \<open>pkg/dataprocess/processor_types.go\<close>. A Go interface value is a record of its methods. What the engine
  relies on is the locale \<open>operation_contract\<close>, interpreted for each kind.
\<close>

section \<open>Status handlers\<close>

type_synonym statusHandler =
  "ReconcileRequestContext \<Rightarrow> OperationStatus \<Rightarrow> (OperationStatus option \<times> goerr option) cgo"

definition calculateDuration :: "cluster \<Rightarrow> int \<Rightarrow> int \<Rightarrow> string cgo" where
  "calculateDuration cl creationTime finishTime =
     (if finishTime = 0
      then andThen (now cl) (\<lambda>t. ret (CalculateDuration t creationTime finishTime))
      else ret (CalculateDuration 0 creationTime finishTime))"

definition conditionOf :: "JobCondition \<Rightarrow> Condition" where
  "conditionOf c =
     \<lparr>cType = jcType c, cStatus = jcStatus c, cReason = jcReason c, cMessage = jcMessage c,
      cLastProbeTime = jcLastProbeTime c, cLastTransitionTime = jcLastTransitionTime c\<rparr>"

text \<open>The status of an operation whose job has finished with the condition \<open>c\<close>.\<close>

definition finishedStatus :: "OperationStatus \<Rightarrow> JobCondition \<Rightarrow> string \<Rightarrow> string \<Rightarrow> OperationStatus" where
  "finishedStatus st c phase duration =
     st\<lparr>osConditions := [conditionOf c], osPhase := phase, osDuration := duration\<rparr>"

definition jobMissing ::
  "cluster \<Rightarrow> string \<Rightarrow> string \<Rightarrow> goerr \<Rightarrow> OperationStatus \<Rightarrow> (OperationStatus option \<times> goerr option) cgo" where
  "jobMissing cl releaseName namespace e result =
     (if IgnoreNotFound (Some e) = None
      then andThen (DeleteReleaseIfExists cl releaseName namespace) (\<lambda>err. ret (Some result, err))
      else ret (Some result, Some e))"

definition dataLoadOnceStatus :: "cluster \<Rightarrow> DataLoad \<Rightarrow> statusHandler" where
  "dataLoadOnceStatus cl dataLoad ctx opStatus =
     (let result = opStatus;
          releaseName = GetDataLoadReleaseName (omName (dlMeta dataLoad));
          jobName = GetDataLoadJobName releaseName in
      andThen (GetJob cl jobName (ctxNamespace ctx)) (\<lambda>r.
      case r of
        Inl e \<Rightarrow> jobMissing cl releaseName (ctxNamespace ctx) e result
      | Inr job \<Rightarrow>
          (case GetFinishedJobCondition job of
             None \<Rightarrow> ret (Some result, None)
           | Some c \<Rightarrow>
               let isJobSucceed = (jcType c = ''Complete'') in
               (case (if osNodeAffinity result = None \<and> isJobSucceed
                      then GenerateNodeAffinity (Some job) else Inr (osNodeAffinity result)) of
                  Inl e \<Rightarrow> ret (None, Some (Wrapped ''error to generate the node labels'' e))
                | Inr na \<Rightarrow>
                    andThen (calculateDuration cl (jobCreationTimestamp job) (jcLastTransitionTime c)) (\<lambda>d.
                    ret (Some (finishedStatus (result\<lparr>osNodeAffinity := na\<rparr>) c
                           (if isJobSucceed then ''Complete'' else ''Failed'') d), None))))))"

text \<open>The newest job of a cron job: dereferencing the schedule time fails if it is nil.\<close>

definition currentJob :: "Job list \<Rightarrow> int option \<Rightarrow> (Job option) cgo" where
  "currentJob jobs lastScheduleTime =
     (case (jobs, lastScheduleTime) of
        ([], _) \<Rightarrow> ret None
      | (_, None) \<Rightarrow> panic ''nil pointer dereference''
      | (_, Some t) \<Rightarrow> ret (List.find (\<lambda>job. jobCreationTimestamp job = t \<or> jobCreationTimestamp job > t) jobs))"

text \<open>What both cron handlers do with the finished or running job.\<close>

definition cronJobStatus ::
  "cluster \<Rightarrow> OperationStatus \<Rightarrow> OperationStatus \<Rightarrow> Job \<Rightarrow> (OperationStatus option \<times> goerr option) cgo" where
  "cronJobStatus cl opStatus result job =
     (case GetFinishedJobCondition job of
        None \<Rightarrow>
          ret (Some (if osPhase opStatus = ''Complete'' \<or> osPhase opStatus = ''Failed''
                     then result\<lparr>osPhase := ''Pending'', osDuration := ''-''\<rparr> else result), None)
      | Some c \<Rightarrow>
          andThen (calculateDuration cl (jobCreationTimestamp job) (jcLastTransitionTime c)) (\<lambda>d.
          ret (Some (finishedStatus result c
                 (if jcType c = ''Failed'' then ''Failed'' else ''Complete'') d), None)))"

definition dataLoadCronStatus :: "cluster \<Rightarrow> DataLoad \<Rightarrow> statusHandler" where
  "dataLoadCronStatus cl dataLoad ctx opStatus =
     (let releaseName = GetDataLoadReleaseName (omName (dlMeta dataLoad));
          cronjobName = GetDataLoadJobName releaseName;
          namespace = omNamespace (dlMeta dataLoad) in
      andThen (GetCronJobStatus cl namespace cronjobName) (\<lambda>r.
      case r of
        Inl e \<Rightarrow> jobMissing cl releaseName (ctxNamespace ctx) e opStatus
      | Inr cronjobStatus \<Rightarrow>
          let result = opStatus\<lparr>osLastScheduleTime := cjLastScheduleTime cronjobStatus,
                                osLastSuccessfulTime := cjLastSuccessfulTime cronjobStatus\<rparr> in
          andThen (ListDataOperationJobByCronjob cl namespace cronjobName) (\<lambda>r'.
          case r' of
            Inl e \<Rightarrow> ret (Some result, Some e)
          | Inr jobs \<Rightarrow>
              andThen (currentJob jobs (cjLastScheduleTime cronjobStatus)) (\<lambda>cur.
              case cur of
                None \<Rightarrow> ret (Some result, None)
              | Some job \<Rightarrow> cronJobStatus cl opStatus result job))))"

text \<open>The handlers for the policy \<open>OnEvent\<close> return nil without an error.\<close>

definition onEventStatus :: statusHandler where
  "onEventStatus ctx opStatus = ret (None, None)"

definition dataBackupOnceStatus :: "cluster \<Rightarrow> DataBackup option \<Rightarrow> statusHandler" where
  "dataBackupOnceStatus cl dataBackup ctx opStatus =
     (case dataBackup of
        None \<Rightarrow> panic ''nil pointer dereference''
      | Some object \<Rightarrow>
          andThen (GetPodByName cl (GetDataBackupPodName (omName (dbMeta object))) (omNamespace (dbMeta object))) (\<lambda>r.
          case r of
            Inl e \<Rightarrow> ret (Some opStatus, Some e)
          | Inr None \<Rightarrow> ret (Some opStatus, None)
          | Inr (Some pod) \<Rightarrow>
              if \<not> IsFinishedPod (Some pod) then ret (Some opStatus, None)
              else
                andThen (case podConditionTimes pod of [] \<Rightarrow> now cl | t # _ \<Rightarrow> ret t) (\<lambda>finishTime.
                andThen (calculateDuration cl (podCreationTimestamp pod) finishTime) (\<lambda>d.
                andThen (now cl) (\<lambda>t.
                let cond = (\<lambda>ty reason message.
                      [\<lparr>cType = ty, cStatus = ''True'', cReason = reason, cMessage = message,
                        cLastProbeTime = t, cLastTransitionTime = finishTime\<rparr>]);
                    result = opStatus\<lparr>osDuration := d\<rparr> in
                ret (Some (if IsSucceededPod (Some pod)
                     then result\<lparr>osPhase := ''Complete'',
                            osConditions := cond ''Complete'' ''BackupSuccessful'' ''Backup Pod exec successfully and finish''\<rparr>
                     else result\<lparr>osPhase := ''Failed'',
                            osConditions := cond ''Failed'' ''BackupFailed'' ''Backup Pod exec failed and exit''\<rparr>), None))))))"

definition dataMigrateOnceStatus :: "cluster \<Rightarrow> DataMigrate \<Rightarrow> statusHandler" where
  "dataMigrateOnceStatus cl object ctx opStatus =
     (let result = opStatus;
          releaseName = GetDataMigrateReleaseName (omName (mgMeta object));
          jobName = GetDataMigrateJobName releaseName in
      andThen (GetJob cl jobName (omNamespace (mgMeta object))) (\<lambda>r.
      case r of
        Inl e \<Rightarrow> jobMissing cl releaseName (ctxNamespace ctx) e result
      | Inr job \<Rightarrow>
          (case GetFinishedJobCondition job of
             None \<Rightarrow> ret (Some result, None)
           | Some c \<Rightarrow>
               let isJobSucceed = (jcType c = ''Complete'') in
               (case (if mgParallelism object = 1 \<and> osNodeAffinity result = None \<and> isJobSucceed
                      then GenerateNodeAffinity (Some job) else Inr (osNodeAffinity result)) of
                  Inl e \<Rightarrow> ret (None, Some (Wrapped ''error to generate the node labels'' e))
                | Inr na \<Rightarrow>
                    andThen (calculateDuration cl (jobCreationTimestamp job) (jcLastTransitionTime c)) (\<lambda>d.
                    ret (Some (finishedStatus (result\<lparr>osNodeAffinity := na\<rparr>) c
                           (if isJobSucceed then ''Complete'' else ''Failed'') d), None))))))"

text \<open>A suspended job of a parallel migration is started: its workers are scaled up and it is resumed.\<close>

definition resumeJob :: "cluster \<Rightarrow> DataMigrate \<Rightarrow> string \<Rightarrow> Job \<Rightarrow> (goerr option) cgo" where
  "resumeJob cl object releaseName job =
     (if jobSuspend job = Some True then
        andThen (ScaleStatefulSet cl (GetParallelOperationWorkersName releaseName)
                   (omNamespace (mgMeta object)) (mgParallelism object - 1)) (\<lambda>err.
        if err \<noteq> None then ret err else UpdateJob cl (job\<lparr>jobSuspend := Some False\<rparr>))
      else ret None)"

definition dataMigrateCronStatus :: "cluster \<Rightarrow> DataMigrate \<Rightarrow> statusHandler" where
  "dataMigrateCronStatus cl object ctx opStatus =
     (let releaseName = GetDataMigrateReleaseName (omName (mgMeta object));
          cronjobName = GetDataMigrateJobName releaseName;
          namespace = omNamespace (mgMeta object) in
      andThen (GetCronJobStatus cl namespace cronjobName) (\<lambda>r.
      case r of
        Inl e \<Rightarrow> jobMissing cl releaseName (ctxNamespace ctx) e opStatus
      | Inr cronjobStatus \<Rightarrow>
          let result = opStatus\<lparr>osLastScheduleTime := cjLastScheduleTime cronjobStatus,
                                osLastSuccessfulTime := cjLastSuccessfulTime cronjobStatus\<rparr> in
          andThen (ListDataOperationJobByCronjob cl namespace cronjobName) (\<lambda>r'.
          case r' of
            Inl e \<Rightarrow> ret (Some result, Some e)
          | Inr jobs \<Rightarrow>
              andThen (currentJob jobs (cjLastScheduleTime cronjobStatus)) (\<lambda>cur.
              case cur of
                None \<Rightarrow> ret (Some result, None)
              | Some job \<Rightarrow>
                  andThen (resumeJob cl object releaseName job) (\<lambda>err.
                  if err \<noteq> None then ret (Some result, err)
                  else cronJobStatus cl opStatus result job)))))"

text \<open>The condition that is stored is the first one of the job, not the finished one.\<close>

definition dataProcessOnceStatus :: "cluster \<Rightarrow> DataProcess \<Rightarrow> statusHandler" where
  "dataProcessOnceStatus cl object ctx opStatus =
     (let result = opStatus;
          releaseName = GetDataProcessReleaseName (omName (dpMeta object));
          jobName = GetDataProcessJobName releaseName in
      andThen (GetJob cl jobName (ctxNamespace ctx)) (\<lambda>r.
      case r of
        Inl e \<Rightarrow> jobMissing cl releaseName (ctxNamespace ctx) e result
      | Inr job \<Rightarrow>
          (case GetFinishedJobCondition job of
             None \<Rightarrow> ret (Some result, None)
           | Some c \<Rightarrow>
               let isJobSucceed = (jcType c = ''Complete'') in
               (case (if osNodeAffinity result = None \<and> isJobSucceed
                      then GenerateNodeAffinity (Some job) else Inr (osNodeAffinity result)) of
                  Inl e \<Rightarrow> ret (None, Some (Wrapped ''error to generate the node labels'' e))
                | Inr na \<Rightarrow>
                    let jobCondition = jobConditions job ! 0 in
                    andThen (calculateDuration cl (jobCreationTimestamp job)
                               (jcLastTransitionTime jobCondition)) (\<lambda>d.
                    ret (Some (finishedStatus (result\<lparr>osNodeAffinity := na\<rparr>) jobCondition
                           (if isJobSucceed then ''Complete'' else ''Failed'') d), None))))))"

section \<open>dataoperation.OperationInterface\<close>

record OperationInterface =
  GetOperationObject :: OpObject
  HasPrecedingOperation :: bool
  GetPossibleTargetDatasetNamespacedNames :: "(string \<times> string) list"
  GetTargetDataset :: "(goerr + Dataset) cgo"
  GetReleaseNameSpacedName :: "string \<times> string"
  GetChartsDirectory :: string
  GetOperationType :: string
  UpdateOperationApiStatus :: "OperationStatus option \<Rightarrow> (goerr option) cgo"
  Validate :: "ReconcileRequestContext \<Rightarrow> (Condition list \<times> goerr option) cgo"
  UpdateStatusInfoForCompleted :: "(string \<times> string) list \<Rightarrow> ((string \<times> string) list \<times> goerr option) cgo"
  SetTargetDatasetStatusInProgress :: "Dataset \<Rightarrow> Dataset"
  RemoveTargetDatasetStatusInProgress :: "Dataset \<Rightarrow> Dataset"
  GetStatusHandler :: "statusHandler option"
  GetTTL :: "goerr + int option"
  GetParallelTaskNumber :: int

text \<open>All kinds write a copy of their object with the new status; a nil status is dereferenced.\<close>

definition updateApiStatus :: "cluster \<Rightarrow> OpObject \<Rightarrow> OperationStatus option \<Rightarrow> (goerr option) cgo" where
  "updateApiStatus cl object opStatus =
     (case opStatus of
        None \<Rightarrow> panic ''nil pointer dereference''
      | Some st \<Rightarrow>
          call (\<lambda>h. clUpdateOperationStatus cl h (setOpStatus st object))
            (UpdatedOperationStatus (setOpStatus st object)))"

definition failedCondition :: "string \<Rightarrow> string \<Rightarrow> int \<Rightarrow> Condition" where
  "failedCondition reason message t =
     \<lparr>cType = ''Failed'', cStatus = ''True'', cReason = reason, cMessage = message,
      cLastProbeTime = t, cLastTransitionTime = t\<rparr>"

text \<open>\<open>GetTTL\<close> of \<open>DataLoad\<close> and \<open>DataMigrate\<close>.\<close>

definition ttlOfPolicy :: "string \<Rightarrow> int option \<Rightarrow> goerr + int option" where
  "ttlOfPolicy policy ttl =
     (if policy = ''Once'' then Inr ttl
      else if policy = ''Cron'' \<or> policy = ''OnEvent'' then Inr None
      else Inl (Err (''unknown policy type: '' @ policy)))"

section \<open>dataload/implement.go\<close>

definition dataLoadValidate :: "cluster \<Rightarrow> DataLoad \<Rightarrow> ReconcileRequestContext \<Rightarrow> (Condition list \<times> goerr option) cgo" where
  "dataLoadValidate cl dataLoad ctx =
     (if omNamespace (dlMeta dataLoad) \<noteq> tdNamespace (dlDataset dataLoad) then
        (let message = ''dataLoad('' @ omName (dlMeta dataLoad) @ '') namespace is not same as dataset'' in
         andThen (recordEvent (ODataLoad dataLoad) ''Warning'' ''TargetDatasetNamespaceNotSame'' message) (\<lambda>_.
         andThen (now cl) (\<lambda>t.
         ret ([failedCondition ''TargetDatasetNamespaceNotSame'' ''dataLoad namespace is not same as dataset'' t],
              Some (Err message)))))
      else ret ([], None))"

definition dataLoadStatusHandler :: "cluster \<Rightarrow> DataLoad \<Rightarrow> statusHandler option" where
  "dataLoadStatusHandler cl dataLoad =
     (if dlPolicy dataLoad = ''Once'' then Some (dataLoadOnceStatus cl dataLoad)
      else if dlPolicy dataLoad = ''Cron'' then Some (dataLoadCronStatus cl dataLoad)
      else if dlPolicy dataLoad = ''OnEvent'' then Some onEventStatus
      else None)"

definition dataLoadOperation :: "cluster \<Rightarrow> DataLoad \<Rightarrow> OperationInterface" where
  "dataLoadOperation cl dataLoad =
     \<lparr>GetOperationObject = ODataLoad dataLoad,
      HasPrecedingOperation = (dlRunAfter dataLoad \<noteq> None),
      GetPossibleTargetDatasetNamespacedNames = [(tdNamespace (dlDataset dataLoad), tdName (dlDataset dataLoad))],
      GetTargetDataset = GetDataset cl (tdName (dlDataset dataLoad)) (tdNamespace (dlDataset dataLoad)),
      GetReleaseNameSpacedName =
        (omNamespace (dlMeta dataLoad), GetDataLoadReleaseName (omName (dlMeta dataLoad))),
      GetChartsDirectory = clChartsDir cl @ ''/fluid-dataloader'',
      GetOperationType = ''DataLoad'',
      UpdateOperationApiStatus = updateApiStatus cl (ODataLoad dataLoad),
      Validate = dataLoadValidate cl dataLoad,
      UpdateStatusInfoForCompleted = \<lambda>infos. ret (infos, None),
      SetTargetDatasetStatusInProgress = \<lambda>dataset. dataset,
      RemoveTargetDatasetStatusInProgress = \<lambda>dataset. dataset,
      GetStatusHandler = dataLoadStatusHandler cl dataLoad,
      GetTTL = ttlOfPolicy (dlPolicy dataLoad) (dlTTL dataLoad),
      GetParallelTaskNumber = 1\<rparr>"

section \<open>databackup/implement.go\<close>

definition dataBackupUpdateInfo ::
  "cluster \<Rightarrow> DataBackup \<Rightarrow> (string \<times> string) list \<Rightarrow> ((string \<times> string) list \<times> goerr option) cgo" where
  "dataBackupUpdateInfo cl dataBackup infos =
     (let infos1 = AList.update ''BackupLocationPath'' (dbBackupPath dataBackup) infos in
      if HasPrefix (dbBackupPath dataBackup) ''local://'' then
        andThen (GetPodByName cl (omName (dbMeta dataBackup) @ ''-pod'') (omNamespace (dbMeta dataBackup))) (\<lambda>r.
        case r of
          Inl e \<Rightarrow> ret (infos1, Some (Err ''failed to get backup pod''))
        | Inr None \<Rightarrow> panic ''nil pointer dereference''
        | Inr (Some backupPod) \<Rightarrow>
            ret (AList.update ''BackupLocationNodeName'' (podNodeName backupPod) infos1, None))
      else ret (AList.update ''BackupLocationNodeName'' ''NA'' infos1, None))"

definition dataBackupValidate :: "cluster \<Rightarrow> DataBackup \<Rightarrow> ReconcileRequestContext \<Rightarrow> (Condition list \<times> goerr option) cgo" where
  "dataBackupValidate cl dataBackup ctx =
     (if \<not> HasPrefix (dbBackupPath dataBackup) ''local://'' \<and> \<not> HasPrefix (dbBackupPath dataBackup) ''pvc://'' then
        andThen (now cl) (\<lambda>t.
        ret ([failedCondition ''PathNotSupported'' ''Only support pvc and local path now'' t],
             Some (Err (''don't support path in this form, path: '' @ dbBackupPath dataBackup))))
      else ret ([], None))"

definition dataBackupOperation :: "cluster \<Rightarrow> DataBackup \<Rightarrow> OperationInterface" where
  "dataBackupOperation cl dataBackup =
     \<lparr>GetOperationObject = ODataBackup dataBackup,
      HasPrecedingOperation = (dbRunAfter dataBackup \<noteq> None),
      GetPossibleTargetDatasetNamespacedNames = [(omNamespace (dbMeta dataBackup), omName (dbMeta dataBackup))],
      GetTargetDataset = GetDataset cl (dbDataset dataBackup) (omNamespace (dbMeta dataBackup)),
      GetReleaseNameSpacedName =
        (omNamespace (dbMeta dataBackup), GetDataBackupReleaseName (omName (dbMeta dataBackup))),
      GetChartsDirectory = clChartsDir cl @ ''/fluid-databackup'',
      GetOperationType = ''DataBackup'',
      UpdateOperationApiStatus = updateApiStatus cl (ODataBackup dataBackup),
      Validate = dataBackupValidate cl dataBackup,
      UpdateStatusInfoForCompleted = dataBackupUpdateInfo cl dataBackup,
      SetTargetDatasetStatusInProgress = \<lambda>dataset. dataset,
      RemoveTargetDatasetStatusInProgress = \<lambda>dataset. dataset,
      GetStatusHandler = Some (dataBackupOnceStatus cl None),
      GetTTL = Inr (dbTTL dataBackup),
      GetParallelTaskNumber = 1\<rparr>"

section \<open>datamigrate.go and datamigrate/implement.go\<close>

abbreviation named :: "DatasetToMigrate option \<Rightarrow> bool" where
  "named d \<equiv> (case d of None \<Rightarrow> False | Some t \<Rightarrow> tmName t \<noteq> '''')"

definition migrateNamespace :: "DataMigrate \<Rightarrow> DatasetToMigrate \<Rightarrow> string" where
  "migrateNamespace dataMigrate t =
     (if tmNamespace t = '''' then omNamespace (mgMeta dataMigrate) else tmNamespace t)"

abbreviation quoted :: "string \<Rightarrow> string" where
  "quoted s \<equiv> CHR 0x22 # s @ [CHR 0x22]"

text \<open>The loop over \<open>datasetsToCheck\<close>: the first dataset that is bound to the runtime type.\<close>

fun checkMigrateDatasets ::
  "cluster \<Rightarrow> DataMigrate \<Rightarrow> (DatasetToMigrate option) list \<Rightarrow> string list \<Rightarrow> (goerr + string \<times> string) cgo" where
  "checkMigrateDatasets cl dataMigrate [] checked =
     ret (Inl (Err (''invalid spec: the valid runtime type of the dataset is ['' @ Join CHR '' '' checked @
                    ''], but the specified runtime type in dataMigrate is '' @ mgRuntimeType dataMigrate)))"
| "checkMigrateDatasets cl dataMigrate (toCheck # rest) checked =
     (if named toCheck then
        (let t = the toCheck; namespace = migrateNamespace dataMigrate t in
         andThen (GetDataset cl (tmName t) namespace) (\<lambda>r.
         case r of
           Inl e \<Rightarrow> ret (Inl (Wrapped (''failed to get dataset '' @ quoted (namespace @ ''/'' @ tmName t) @
                             '' from DataMigrate '' @ quoted (omNamespace (mgMeta dataMigrate) @ ''/'' @
                             omName (mgMeta dataMigrate)) @ [CHR 0x27] @ ''s spec'') e))
         | Inr dataset \<Rightarrow>
             (case GetRuntimeByCategory (dstRuntimes (dStatus dataset)) ''Accelerate'' of
                (index, None) \<Rightarrow> ret (Inl (Err (''bounded accelerate runtime not ready for dataset '' @
                                        quoted (namespace @ ''/'' @ tmName t))))
              | (index, Some boundedRuntime) \<Rightarrow>
                  if rtType boundedRuntime = mgRuntimeType dataMigrate
                  then ret (Inr (namespace, tmName t))
                  else checkMigrateDatasets cl dataMigrate rest (checked @ [rtType boundedRuntime]))))
      else checkMigrateDatasets cl dataMigrate rest checked)"

definition GetTargetDatasetNamespacedNameOfMigrate ::
  "cluster \<Rightarrow> DataMigrate \<Rightarrow> (goerr + string \<times> string) cgo" where
  "GetTargetDatasetNamespacedNameOfMigrate cl dataMigrate =
     (if \<not> named (mgTo dataMigrate) \<and> \<not> named (mgFrom dataMigrate)
      then ret (Inl (Err ''invalid spec: either spec.to.dataset or spec.from.dataset must be set''))
      else if mgRuntimeType dataMigrate = '''' then
        (let targetDataset = the (if named (mgTo dataMigrate) then mgTo dataMigrate else mgFrom dataMigrate) in
         ret (Inr (migrateNamespace dataMigrate targetDataset, tmName targetDataset)))
      else checkMigrateDatasets cl dataMigrate [mgTo dataMigrate, mgFrom dataMigrate] [])"

definition GetTargetDatasetOfMigrate :: "cluster \<Rightarrow> DataMigrate \<Rightarrow> (goerr + Dataset) cgo" where
  "GetTargetDatasetOfMigrate cl dataMigrate =
     andThen (GetTargetDatasetNamespacedNameOfMigrate cl dataMigrate) (\<lambda>r.
     case r of
       Inl e \<Rightarrow> ret (Inl e)
     | Inr (namespace, name) \<Rightarrow> GetDataset cl name namespace)"

definition dataMigrateValidate :: "cluster \<Rightarrow> DataMigrate \<Rightarrow> ReconcileRequestContext \<Rightarrow> (Condition list \<times> goerr option) cgo" where
  "dataMigrateValidate cl dataMigrate ctx =
     (if mgParallelism dataMigrate > 1 \<and> lookupStr (mgParallelOptions dataMigrate) ''sshSecretName'' = '''' then
        andThen (now cl) (\<lambda>t.
        ret ([failedCondition ''TargetSSHSecretNameNotSet'' ''the sshSecretName key is not set in the parallelOptions'' t],
             Some (Err (''DataMigrate('' @ omName (mgMeta dataMigrate) @
                        '') with parallel tasks does not set the SSHSecretName''))))
      else if omNamespace (mgMeta dataMigrate) \<noteq> omNamespace (dMeta (ctxDataset ctx)) then
        andThen (now cl) (\<lambda>t.
        ret ([failedCondition ''TargetDatasetNamespaceNotSame'' ''DataMigrate namespace is not same as dataset'' t],
             Some (Err (''DataMigrate('' @ omName (mgMeta dataMigrate) @ '') namespace is not same as dataset''))))
      else ret ([], None))"

definition dataMigrateStatusHandler :: "cluster \<Rightarrow> DataMigrate \<Rightarrow> statusHandler option" where
  "dataMigrateStatusHandler cl dataMigrate =
     (if mgPolicy dataMigrate = ''Once'' then Some (dataMigrateOnceStatus cl dataMigrate)
      else if mgPolicy dataMigrate = ''Cron'' then Some (dataMigrateCronStatus cl dataMigrate)
      else if mgPolicy dataMigrate = ''OnEvent'' then Some onEventStatus
      else None)"

definition dataMigrateOperation :: "cluster \<Rightarrow> DataMigrate \<Rightarrow> OperationInterface" where
  "dataMigrateOperation cl dataMigrate =
     \<lparr>GetOperationObject = ODataMigrate dataMigrate,
      HasPrecedingOperation = (mgRunAfter dataMigrate \<noteq> None),
      GetPossibleTargetDatasetNamespacedNames =
        map (\<lambda>d. (migrateNamespace dataMigrate (the d), tmName (the d)))
          (filter named [mgTo dataMigrate, mgFrom dataMigrate]),
      GetTargetDataset = GetTargetDatasetOfMigrate cl dataMigrate,
      GetReleaseNameSpacedName =
        (omNamespace (mgMeta dataMigrate), GetDataMigrateReleaseName (omName (mgMeta dataMigrate))),
      GetChartsDirectory = clChartsDir cl @ ''/fluid-datamigrate'',
      GetOperationType = ''DataMigrate'',
      UpdateOperationApiStatus = updateApiStatus cl (ODataMigrate dataMigrate),
      Validate = dataMigrateValidate cl dataMigrate,
      UpdateStatusInfoForCompleted = \<lambda>infos. ret (infos, None),
      SetTargetDatasetStatusInProgress = setStatus (\<lambda>s. s\<lparr>dstPhase := ''DataMigrating''\<rparr>),
      RemoveTargetDatasetStatusInProgress = setStatus (\<lambda>s. s\<lparr>dstPhase := ''Bound''\<rparr>),
      GetStatusHandler = dataMigrateStatusHandler cl dataMigrate,
      GetTTL = ttlOfPolicy (mgPolicy dataMigrate) (mgTTL dataMigrate),
      GetParallelTaskNumber = mgParallelism dataMigrate\<rparr>"

section \<open>processor_types.go and dataprocess/implement.go\<close>

text \<open>\<open>ValidateDatasetMountPath\<close>: the first volume mount with the path of the dataset, and its container.\<close>

definition scriptMountConflict :: "VolumeMount list \<Rightarrow> string \<Rightarrow> (string \<times> string) option" where
  "scriptMountConflict mounts path =
     map_option (\<lambda>m. (vmName m, ''script-processor'')) (List.find (\<lambda>m. vmMountPath m = path) mounts)"

fun containerMountConflict :: "Container list \<Rightarrow> string \<Rightarrow> (string \<times> string) option" where
  "containerMountConflict [] path = None"
| "containerMountConflict (c # cs) path =
     (case List.find (\<lambda>m. vmMountPath m = path) (ctrVolumeMounts c) of
        Some m \<Rightarrow> Some (vmName m, ctrName c)
      | None \<Rightarrow> containerMountConflict cs path)"

definition ValidateDatasetMountPath :: "DataProcess \<Rightarrow> ((string \<times> string) option) cgo" where
  "ValidateDatasetMountPath dataProcess =
     (case dpJob dataProcess of
        Some None \<Rightarrow> panic ''nil pointer dereference''
      | Some (Some podSpec) \<Rightarrow>
          ret (containerMountConflict (psContainers podSpec @ psInitContainers podSpec) (dpMountPath dataProcess))
      | None \<Rightarrow>
          (case dpScript dataProcess of
             None \<Rightarrow> panic ''nil pointer dereference''
           | Some mounts \<Rightarrow> ret (scriptMountConflict mounts (dpMountPath dataProcess))))"

text \<open>
  A failed check: an event, the time, one condition and an error. The event names the operation, the
  error also its namespace.
\<close>

definition rejectProcess ::
  "cluster \<Rightarrow> DataProcess \<Rightarrow> string \<Rightarrow> string \<Rightarrow> string \<Rightarrow> string \<Rightarrow> (Condition list \<times> goerr option) cgo" where
  "rejectProcess cl dataProcess reason message eventText errMsg =
     andThen (recordEvent (ODataProcess dataProcess) ''Warning'' reason
                (''DataProcess('' @ omName (dpMeta dataProcess) @ '')'' @ eventText)) (\<lambda>_.
     andThen (now cl) (\<lambda>t.
     ret ([failedCondition reason message t],
          Some (Err (''DataProcess('' @ omNamespace (dpMeta dataProcess) @ ''/'' @ omName (dpMeta dataProcess) @
                     '')'' @ errMsg)))))"

abbreviation apostrophe :: char where
  "apostrophe \<equiv> CHR 0x27"

definition dataProcessValidate :: "cluster \<Rightarrow> DataProcess \<Rightarrow> ReconcileRequestContext \<Rightarrow> (Condition list \<times> goerr option) cgo" where
  "dataProcessValidate cl dataProcess ctx =
     (if omNamespace (dpMeta dataProcess) \<noteq> tdNamespace (dpDataset dataProcess) then
        rejectProcess cl dataProcess ''TargetDatasetNamespaceNotSame''
          ''DataProcess's namespace is not same as its spec.dataset''
          (apostrophe # ''s namespace is not same as its spec.dataset'')
          (apostrophe # ''s namespace is not same as its spec.dataset'')
      else if dpJob dataProcess = None \<and> dpScript dataProcess = None then
        rejectProcess cl dataProcess ''ProcessorNotSpecified''
          ''DataProcess's spec.processor is not specified''
          (apostrophe # ''s processor is missing'')
          (apostrophe # ''s spec.processor is not specified'')
      else if dpJob dataProcess \<noteq> None \<and> dpScript dataProcess \<noteq> None then
        rejectProcess cl dataProcess ''MultipleProcessorSpecified''
          ''DataProcess has specified multiple processors''
          (apostrophe # ''s has specified multiple processors, only one processor is allowed'')
          '' has specified multiple processors''
      else
        andThen (ValidateDatasetMountPath dataProcess) (\<lambda>conflict.
        case conflict of
          None \<Rightarrow> ret ([], None)
        | Some (conflictVolName, conflictCtrName) \<Rightarrow>
            let text = '' has conflict mountPath ('' @ dpMountPath dataProcess @
                  '') with spec.dataset.mountPath for volume '' @ conflictVolName @
                  '' mounting on container '' @ conflictCtrName in
            rejectProcess cl dataProcess ''ConflictMountPath''
              ''DataProcess has conflict volume mount paths'' text text))"

definition dataProcessOperation :: "cluster \<Rightarrow> DataProcess \<Rightarrow> OperationInterface" where
  "dataProcessOperation cl dataProcess =
     \<lparr>GetOperationObject = ODataProcess dataProcess,
      HasPrecedingOperation = (dpRunAfter dataProcess \<noteq> None),
      GetPossibleTargetDatasetNamespacedNames = [(tdNamespace (dpDataset dataProcess), tdName (dpDataset dataProcess))],
      GetTargetDataset = GetDataset cl (tdName (dpDataset dataProcess)) (tdNamespace (dpDataset dataProcess)),
      GetReleaseNameSpacedName =
        (omNamespace (dpMeta dataProcess), GetDataProcessReleaseName (omName (dpMeta dataProcess))),
      GetChartsDirectory = clChartsDir cl @ ''/fluid-dataprocess'',
      GetOperationType = ''DataProcess'',
      UpdateOperationApiStatus = updateApiStatus cl (ODataProcess dataProcess),
      Validate = dataProcessValidate cl dataProcess,
      UpdateStatusInfoForCompleted = \<lambda>infos. ret (infos, None),
      SetTargetDatasetStatusInProgress = \<lambda>dataset. dataset,
      RemoveTargetDatasetStatusInProgress = \<lambda>dataset. dataset,
      GetStatusHandler = Some (dataProcessOnceStatus cl dataProcess),
      GetTTL = Inr (dpTTL dataProcess),
      GetParallelTaskNumber = 1\<rparr>"

text \<open>\<open>Build\<close> of the four reconcilers: the interface value of an object.\<close>

definition implementOf :: "cluster \<Rightarrow> OpObject \<Rightarrow> OperationInterface" where
  "implementOf cl ob =
     (case ob of
        ODataLoad d \<Rightarrow> dataLoadOperation cl d
      | ODataBackup d \<Rightarrow> dataBackupOperation cl d
      | ODataMigrate d \<Rightarrow> dataMigrateOperation cl d
      | ODataProcess d \<Rightarrow> dataProcessOperation cl d)"

section \<open>What the engine relies on\<close>

text \<open>
  The events of an operation of some kind: an operation may read the cluster and the clock, run helm on its
  own release, record events and manage its own jobs, but it writes no dataset and no status behind
  the back of the engine.
\<close>

fun writesDataset :: "event \<Rightarrow> bool" where
  "writesDataset (UpdatedDatasetStatus _ _) = True"
| "writesDataset _ = False"

fun writesOperation :: "event \<Rightarrow> bool" where
  "writesOperation (UpdatedOperationStatus _ _) = True"
| "writesOperation (UpdatedOperation _ _) = True"
| "writesOperation (DeletedOperation _ _) = True"
| "writesOperation _ = False"

definition benign :: "event \<Rightarrow> bool" where
  "benign e \<longleftrightarrow> \<not> writesDataset e \<and> \<not> writesOperation e \<and> \<not> isHelmInstall e"

lemma benign_simps [simp]:
  "benign (GotDataset a b c)" "benign (GotJob a b d)" "benign (UpdatedJob e f)" "benign (ListedJobs a b g)"
  "benign (GotCronJobStatus a b i)" "benign (GotPod a b j)" "benign (GotStatefulSet a b k)"
  "benign (UpdatedStatefulSet l f)" "benign (Recorded a b m n p)" "benign (ReadClock q)"
  "benign (GotOperation a b m r)" "benign (CheckedRuntimeReady en s)"
  "benign (GeneratedValueFile en t)" "benign (RanHelm [a, ''uninstall'', b, m, n] u)"
  "benign (RanHelm [a, ''status'', b, m, n, p, v] u)"
  "\<not> benign (UpdatedDatasetStatus w f)" "\<not> benign (UpdatedOperationStatus x f)"
  "\<not> benign (UpdatedOperation x y)" "\<not> benign (DeletedOperation x f)"
  by (simp_all add: benign_def)

lemma emits_list [emits_rules]:
  "(x = [] \<Longrightarrow> emits P m) \<Longrightarrow> (\<And>a as. x = a # as \<Longrightarrow> emits P (f a as)) \<Longrightarrow>
   emits P (case x of [] \<Rightarrow> m | a # as \<Rightarrow> f a as)"
  by (cases x) simp_all

lemma emits_now [emits_rules]: "(\<And>t. P (ReadClock t)) \<Longrightarrow> emits P (now cl)"
  by (simp add: now_def emits_rules)

lemma emits_recordEvent [emits_rules]: "(\<And>a b. P (Recorded a b ty reason msg)) \<Longrightarrow> emits P (recordEvent ob ty reason msg)"
  by (simp add: recordEvent_def emits_rules)

lemma emits_calculateDuration [emits_rules]: "(\<And>t. P (ReadClock t)) \<Longrightarrow> emits P (calculateDuration cl a b)"
  by (simp add: calculateDuration_def emits_rules)

lemma emits_jobMissing [emits_rules]: "emits benign (jobMissing cl rel ns e st)"
  unfolding jobMissing_def by (auto intro!: emits_rules emits_helm)

lemma emits_currentJob [emits_rules]: "emits P (currentJob jobs t)"
  unfolding currentJob_def by (auto intro!: emits_rules split: list.splits option.splits)

lemma emits_cronJobStatus [emits_rules]: "emits benign (cronJobStatus cl op res job)"
  unfolding cronJobStatus_def by (auto intro!: emits_rules)

lemma emits_ScaleStatefulSet [emits_rules]: "emits benign (ScaleStatefulSet cl name ns n)"
  unfolding ScaleStatefulSet_def scaleOnce_def GetStatefulSet_def Let_def by (auto intro!: emits_rules)

lemma emits_resumeJob [emits_rules]: "emits benign (resumeJob cl ob rel job)"
  unfolding resumeJob_def UpdateJob_def by (auto intro!: emits_rules)

lemmas handler_defs = dataLoadOnceStatus_def dataLoadCronStatus_def onEventStatus_def
  dataBackupOnceStatus_def dataMigrateOnceStatus_def dataMigrateCronStatus_def dataProcessOnceStatus_def
  GetJob_def GetCronJobStatus_def ListDataOperationJobByCronjob_def GetPodByName_def Let_def

lemma emits_handlers [emits_rules]:
  "emits benign (dataLoadOnceStatus cl dl ctx st)"
  "emits benign (dataLoadCronStatus cl dl ctx st)"
  "emits benign (onEventStatus ctx st)"
  "emits benign (dataBackupOnceStatus cl db ctx st)"
  "emits benign (dataMigrateOnceStatus cl mg ctx st)"
  "emits benign (dataMigrateCronStatus cl mg ctx st)"
  "emits benign (dataProcessOnceStatus cl dp ctx st)"
  unfolding handler_defs by (auto intro!: emits_rules)

lemma emits_GetDataset [emits_rules]: "(\<And>r. P (GotDataset name ns r)) \<Longrightarrow> emits P (GetDataset cl name ns)"
  by (simp add: GetDataset_def emits_rules)

lemma emits_checkMigrateDatasets [emits_rules]: "emits benign (checkMigrateDatasets cl mg ds checked)"
  by (induction ds arbitrary: checked) (auto intro!: emits_rules simp: Let_def split: prod.splits option.splits)

lemma emits_GetTargetDatasetOfMigrate [emits_rules]: "emits benign (GetTargetDatasetOfMigrate cl mg)"
  unfolding GetTargetDatasetOfMigrate_def GetTargetDatasetNamespacedNameOfMigrate_def Let_def
  by (auto intro!: emits_rules simp del: checkMigrateDatasets.simps)

lemma emits_validate [emits_rules]:
  "emits benign (dataLoadValidate cl dl ctx)"
  "emits benign (dataBackupValidate cl db ctx)"
  "emits benign (dataMigrateValidate cl mg ctx)"
  "emits benign (dataProcessValidate cl dp ctx)"
  unfolding dataLoadValidate_def dataBackupValidate_def dataMigrateValidate_def dataProcessValidate_def
    rejectProcess_def ValidateDatasetMountPath_def Let_def
  by (auto intro!: emits_rules)

lemma emits_dataBackupUpdateInfo [emits_rules]: "emits benign (dataBackupUpdateInfo cl db infos)"
  unfolding dataBackupUpdateInfo_def GetPodByName_def Let_def by (auto intro!: emits_rules)

text \<open>
  How a handler may move the phase, and that the handlers of all kinds do: only the handler of an operation on a schedule
  (\<open>cron\<close>) starts a finished operation again.
\<close>

fun onSchedule :: "OpObject \<Rightarrow> bool" where
  "onSchedule (ODataLoad dataLoad) = (dlPolicy dataLoad = ''Cron'')"
| "onSchedule (ODataMigrate dataMigrate) = (mgPolicy dataMigrate = ''Cron'')"
| "onSchedule _ = False"

definition handlerPhase :: "bool \<Rightarrow> string \<Rightarrow> string \<Rightarrow> bool" where
  "handlerPhase cron p q \<longleftrightarrow>
     q = p \<or> q = ''Complete'' \<or> q = ''Failed'' \<or> (cron \<and> q = ''Pending'' \<and> (p = ''Complete'' \<or> p = ''Failed''))"

definition movesFrom :: "bool \<Rightarrow> OperationStatus \<Rightarrow> OperationStatus option \<times> goerr option \<Rightarrow> bool" where
  "movesFrom cron st r \<longleftrightarrow> (\<forall>st'. fst r = Some st' \<longrightarrow> handlerPhase cron (osPhase st) (osPhase st'))"

lemma movesFrom_simps [simp]:
  "movesFrom cron st (None, e)" "movesFrom cron st (Some st, e)"
  "movesFrom cron st (Some (st\<lparr>osLastScheduleTime := t, osLastSuccessfulTime := u\<rparr>), e)"
  "movesFrom cron st (Some (finishedStatus st' c (if b then ''Complete'' else ''Failed'') d), e)"
  "movesFrom cron st (Some (finishedStatus st' c (if b then ''Failed'' else ''Complete'') d), e)"
  by (simp_all add: movesFrom_def handlerPhase_def finishedStatus_def)

lemma yields_jobMissing [yields_rules]: "movesFrom cron st (Some st', e) \<Longrightarrow> yields (movesFrom cron st) (jobMissing cl rel ns e1 st')"
  unfolding jobMissing_def by (auto intro!: yields_rules simp: movesFrom_def)

lemma yields_cronJobStatus [yields_rules]:
  "osPhase st' = osPhase st \<Longrightarrow> yields (movesFrom True st) (cronJobStatus cl st st' job)"
  unfolding cronJobStatus_def by (auto intro!: yields_rules simp: movesFrom_def handlerPhase_def finishedStatus_def)

lemma yields_handlers:
  "yields (movesFrom cron st) (dataLoadOnceStatus cl dl ctx st)"
  "yields (movesFrom True st) (dataLoadCronStatus cl dl ctx st)"
  "yields (movesFrom cron st) (onEventStatus ctx st)"
  "yields (movesFrom cron st) (dataBackupOnceStatus cl db ctx st)"
  "yields (movesFrom cron st) (dataMigrateOnceStatus cl mg ctx st)"
  "yields (movesFrom True st) (dataMigrateCronStatus cl mg ctx st)"
  "yields (movesFrom cron st) (dataProcessOnceStatus cl dp ctx st)"
  unfolding handler_defs
  by (auto intro!: yields_rules simp: movesFrom_def handlerPhase_def finishedStatus_def split: if_splits)

text \<open>The last event is a read of a dataset that does not exist.\<close>

definition datasetMissing :: "event list \<Rightarrow> bool" where
  "datasetMissing h \<longleftrightarrow> h \<noteq> [] \<and> (\<exists>name ns e. last h = GotDataset name ns (Inl e) \<and> IsNotFound e)"

fun reportsMissing :: "(goerr + 'a) out \<Rightarrow> event list \<Rightarrow> bool" where
  "reportsMissing (Ret (Inl e)) h = (IsNotFound e \<longrightarrow> datasetMissing h)"
| "reportsMissing _ h = True"

locale operation_contract =
  fixes cl :: cluster and operation :: OperationInterface
  assumes update_status:
      "UpdateOperationApiStatus operation st = updateApiStatus cl (GetOperationObject operation) st"
    and target_benign: "emits benign (GetTargetDataset operation)"
    and target_read: "wp (GetTargetDataset operation) (\<lambda>r h'. \<forall>d. r = Ret (Inr d) \<longrightarrow>
      (\<exists>h0 name ns. clGetDataset cl h0 name ns = Inr d \<and> h' = h0 @ [GotDataset name ns (Inr d)])) h"
    and target_missing: "wp (GetTargetDataset operation) reportsMissing h"
    and validate_benign: "emits benign (Validate operation ctx)"
    and infos_benign: "emits benign (UpdateStatusInfoForCompleted operation infos)"
    and handler_benign: "GetStatusHandler operation = Some handler \<Longrightarrow> emits benign (handler ctx st')"
    and handler_phase: "GetStatusHandler operation = Some handler \<Longrightarrow> 
      yields (movesFrom (onSchedule (GetOperationObject operation)) st') (handler ctx st')"
    and set_in_progress: "\<exists>phase. SetTargetDatasetStatusInProgress operation d =
      d\<lparr>dStatus := (dStatus d)\<lparr>dstPhase := phase\<rparr>\<rparr>"
    and remove_in_progress: "\<exists>phase. RemoveTargetDatasetStatusInProgress operation d =
      d\<lparr>dStatus := (dStatus d)\<lparr>dstPhase := phase\<rparr>\<rparr>"
    and kind_of: "GetOperationType operation \<in> {''DataLoad'', ''DataBackup'', ''DataMigrate'', ''DataProcess''}"

lemma wp_GetDataset: "wp (GetDataset cl name ns) Q h =
    Q (Ret (clGetDataset cl h name ns)) (h @ [GotDataset name ns (clGetDataset cl h name ns)])"
  by (simp add: GetDataset_def wp_rules)

lemma wp_target_migrate:
  "wp (GetTargetDatasetOfMigrate cl mg) (\<lambda>r h'. \<forall>d. r = Ret (Inr d) \<longrightarrow>
     (\<exists>h0 name ns. clGetDataset cl h0 name ns = Inr d \<and> h' = h0 @ [GotDataset name ns (Inr d)])) h"
  unfolding GetTargetDatasetOfMigrate_def wp_andThen
  by (rule wp_intro) (auto simp: wp_rules wp_GetDataset split: out.splits sum.splits prod.splits)

lemma wp_list [wp_rules]:
  "wp (case x of [] \<Rightarrow> m | a # as \<Rightarrow> f a as) Q h = (case x of [] \<Rightarrow> wp m Q h | a # as \<Rightarrow> wp (f a as) Q h)"
  by (cases x) simp_all

lemma reportsMissing_read [simp]: "reportsMissing (Ret r) (h @ [GotDataset name ns r])"
  by (cases r) (simp_all add: datasetMissing_def)

lemma wp_missing_check:
  "wp (checkMigrateDatasets cl mg ds checked) reportsMissing h"
  by (induction ds arbitrary: checked h)
    (auto simp: wp_rules wp_GetDataset Let_def datasetMissing_def split: sum.splits option.splits prod.splits)

lemma wp_missing_migrate:
  "wp (GetTargetDatasetOfMigrate cl mg) reportsMissing h"
proof -
  have "wp (GetTargetDatasetNamespacedNameOfMigrate cl mg)
      reportsMissing h"
    unfolding GetTargetDatasetNamespacedNameOfMigrate_def Let_def
    by (auto simp: wp_if wp_ret simp del: checkMigrateDatasets.simps intro!: wp_missing_check)
  then show ?thesis
    unfolding GetTargetDatasetOfMigrate_def wp_andThen
    by (rule wp_mono) (auto simp: wp_rules wp_GetDataset datasetMissing_def split: out.splits sum.splits prod.splits)
qed

lemma same_phase: "\<exists>phase. d = d\<lparr>dStatus := (dStatus d)\<lparr>dstPhase := phase\<rparr>\<rparr>"
  by (rule exI [of _ "dstPhase (dStatus d)"]) simp

interpretation loadOp: operation_contract cl "dataLoadOperation cl dataLoad" for cl dataLoad
  by unfold_locales
    (auto simp: dataLoadOperation_def dataLoadStatusHandler_def same_phase wp_GetDataset split: if_splits intro!: emits_rules yields_handlers wp_target_migrate wp_missing_migrate)

interpretation backupOp: operation_contract cl "dataBackupOperation cl dataBackup" for cl dataBackup
  by unfold_locales
    (auto simp: dataBackupOperation_def same_phase wp_GetDataset intro!: emits_rules yields_handlers wp_target_migrate wp_missing_migrate)

interpretation migrateOp: operation_contract cl "dataMigrateOperation cl dataMigrate" for cl dataMigrate
  by unfold_locales
    (auto simp: dataMigrateOperation_def dataMigrateStatusHandler_def same_phase split: if_splits intro!: emits_rules yields_handlers wp_target_migrate wp_missing_migrate)

interpretation processOp: operation_contract cl "dataProcessOperation cl dataProcess" for cl dataProcess
  by unfold_locales
    (auto simp: dataProcessOperation_def same_phase wp_GetDataset intro!: emits_rules yields_handlers wp_target_migrate wp_missing_migrate)

lemma implementOf_contract: "operation_contract cl (implementOf cl ob)"
  by (cases ob)
    (simp_all add: implementOf_def loadOp.operation_contract_axioms backupOp.operation_contract_axioms
      migrateOp.operation_contract_axioms processOp.operation_contract_axioms)

lemma implementOf_object [simp]: "GetOperationObject (implementOf cl ob) = ob"
  by (cases ob)
    (simp_all add: implementOf_def dataLoadOperation_def dataBackupOperation_def dataMigrateOperation_def
      dataProcessOperation_def)

end
