(* ===== verification/Operation_Engine.thy ===== *)
theory Operation_Engine
  imports Operation_Kinds
begin

text \<open>
  The life cycle of a data operation, as all engines run it: \<open>pkg/ddc/base/operation.go\<close> with
  \<open>operation_lock.go\<close>, \<open>operation_helm.go\<close>, \<open>template_engine_operation.go\<close>, and the clean-up helpers of
  \<open>pkg/utils/dataoperation.go\<close>. One reconciliation reads the phase of the operation and takes one step of
  None \<open>\<rightarrow>\<close> Pending \<open>\<rightarrow>\<close> Executing \<open>\<rightarrow>\<close> Complete or Failed. The lemmas about what a step may write are
  proved once over the contract of the four kinds (locale \<open>operation_contract\<close>).
\<close>

section \<open>dataoperation.go\<close>

definition NeedCleanUp :: "OperationStatus \<Rightarrow> OperationInterface \<Rightarrow> bool" where
  "NeedCleanUp opStatus operation =
     (if osConditions opStatus = [] then False
      else case GetTTL operation of Inl _ \<Rightarrow> False | Inr ttl \<Rightarrow> ttl \<noteq> None)"

text \<open>\<open>time.Time.Sub\<close> saturates at the bounds of a \<open>Duration\<close>, a 64 bit number of nanoseconds.\<close>

definition saturate :: "int \<Rightarrow> int" where
  "saturate d = max (- (2 ^ 63)) (min (2 ^ 63 - 1) d)"

definition Timeleft :: "cluster \<Rightarrow> OperationStatus \<Rightarrow> OperationInterface \<Rightarrow> (goerr + int option) cgo" where
  "Timeleft cl opStatus operation =
     (case osConditions opStatus of
        [] \<Rightarrow> ret (Inr None)
      | c # _ \<Rightarrow>
          if cType c \<noteq> ''Complete'' \<and> cType c \<noteq> ''Failed'' then ret (Inr None)
          else case GetTTL operation of
                 Inl e \<Rightarrow> ret (Inl e)
               | Inr None \<Rightarrow> ret (Inr None)
               | Inr (Some ttl) \<Rightarrow>
                   andThen (now cl) (\<lambda>curTime.
                   ret (Inr (Some (saturate (cLastTransitionTime c + ttl * second - curTime))))))"

section \<open>operation\_lock.go\<close>

definition getDataOperationKey :: "OpObject option \<Rightarrow> string" where
  "getDataOperationKey object = (case object of None \<Rightarrow> '''' | Some ob \<Rightarrow> omName (opMeta ob))"

definition setLockOnce ::
  "cluster \<Rightarrow> ReconcileRequestContext \<Rightarrow> OperationInterface \<Rightarrow> (goerr option) cgo" where
  "setLockOnce cl ctx operation =
     andThen (GetDataset cl (omName (dMeta (ctxDataset ctx))) (omNamespace (dMeta (ctxDataset ctx)))) (\<lambda>r.
     case r of
       Inl e \<Rightarrow> ret (Some e)
     | Inr dataset \<Rightarrow>
         let datasetToUpdate = SetTargetDatasetStatusInProgress operation
               (SetDataOperationInProgress dataset (GetOperationType operation)
                  (getDataOperationKey (Some (GetOperationObject operation)))) in
         if dStatus dataset \<noteq> dStatus datasetToUpdate
         then updateDatasetStatus cl datasetToUpdate else ret None)"

definition SetDataOperationInTargetDataset ::
  "cluster \<Rightarrow> Engine \<Rightarrow> ReconcileRequestContext \<Rightarrow> OperationInterface \<Rightarrow> (goerr option) cgo" where
  "SetDataOperationInTargetDataset cl engine ctx operation =
     andThen (call (\<lambda>h. clRuntimeReady cl h engine) (CheckedRuntimeReady engine)) (\<lambda>ready.
     if \<not> ready then
       andThen (recordEvent (GetOperationObject operation) ''Normal'' ''RuntimeNotReady''
                  ''Bounded accelerate runtime not ready'') (\<lambda>_.
       ret (Some (Err ''bounded accelerate runtime not ready'')))
     else RetryOnConflict (setLockOnce cl ctx operation))"

text \<open>A missing dataset is ignored, but only after a type assertion on the error that may fail.\<close>

definition releaseLockOnce :: "cluster \<Rightarrow> OperationInterface \<Rightarrow> (goerr option) cgo" where
  "releaseLockOnce cl operation =
     andThen (GetTargetDataset operation) (\<lambda>r.
     case r of
       Inl e \<Rightarrow>
         if IgnoreNotFound (Some e) = None
         then (if isStatusError e then ret None else panic ''interface conversion'')
         else ret (Some e)
     | Inr dataset \<Rightarrow>
         (case RemoveDataOperationInProgress dataset (GetOperationType operation)
                 (getDataOperationKey (Some (GetOperationObject operation))) of
            (dataOpRef, removed) \<Rightarrow>
              let datasetToUpdate =
                    (if dataOpRef = '''' then RemoveTargetDatasetStatusInProgress operation removed else removed) in
              if dStatus datasetToUpdate \<noteq> dStatus dataset
              then updateDatasetStatus cl datasetToUpdate else ret None))"

definition ReleaseTargetDataset :: "cluster \<Rightarrow> OperationInterface \<Rightarrow> (goerr option) cgo" where
  "ReleaseTargetDataset cl operation = RetryOnConflict (releaseLockOnce cl operation)"

section \<open>operation\_helm.go\<close>

definition InstallDataOperationHelmIfNotExist ::
  "cluster \<Rightarrow> Engine \<Rightarrow> ReconcileRequestContext \<Rightarrow> OperationInterface \<Rightarrow> (goerr option) cgo" where
  "InstallDataOperationHelmIfNotExist cl engine ctx operation =
     (case GetReleaseNameSpacedName operation of
        (namespace, name) \<Rightarrow>
          andThen (CheckRelease cl name namespace) (\<lambda>(existed, err).
          if err \<noteq> None then ret err
          else if existed then ret None
          else
            andThen (call (\<lambda>h. clValueFile cl h engine (GetOperationObject operation)) (GeneratedValueFile engine)) (\<lambda>r.
            case r of
              Inl e \<Rightarrow> ret (Some e)
            | Inr valueFileName \<Rightarrow>
                let chartName =
                  (if GetOperationType operation = ''DataProcess''
                   then GetChartsDirectory operation @ ''/'' @ ''common''
                   else GetChartsDirectory operation @ ''/'' @ ctxEngineImpl ctx) in
                InstallRelease cl name namespace valueFileName chartName)))"

section \<open>operation.go\<close>

definition reconcileNone ::
  "ReconcileRequestContext \<Rightarrow> OperationStatus \<Rightarrow> OperationInterface \<Rightarrow> reconcileResult cgo" where
  "reconcileNone ctx opStatus operation =
     andThen (Validate operation ctx) (\<lambda>(conditions, err).
     case err of
       Some e \<Rightarrow>
         andThen (recordEvent (GetOperationObject operation) ''Warning'' ''DataOperationNotValid'' (errText e)) (\<lambda>_.
         andThen (UpdateOperationApiStatus operation
                    (Some (opStatus\<lparr>osConditions := conditions, osPhase := ''Failed''\<rparr>))) (\<lambda>err'.
         ret (if err' \<noteq> None then RequeueIfError err' else NoRequeue)))
     | None \<Rightarrow>
         let pending = opStatus\<lparr>osPhase := ''Pending'', osDuration := ''Unfinished'', osInfos := Some []\<rparr>;
             waiting = (if HasPrecedingOperation operation then pending\<lparr>osWaitingFor := Some True\<rparr> else pending) in
         andThen (UpdateOperationApiStatus operation (Some waiting)) (\<lambda>err'.
         ret (if err' \<noteq> None then RequeueIfError err' else NoRequeue)))"

definition reconcilePending ::
  "cluster \<Rightarrow> Engine \<Rightarrow> ReconcileRequestContext \<Rightarrow> OperationStatus \<Rightarrow> OperationInterface \<Rightarrow> reconcileResult cgo" where
  "reconcilePending cl engine ctx opStatus operation =
     (if osWaitingFor opStatus = Some True then ret NoRequeue
      else
        andThen (SetDataOperationInTargetDataset cl engine ctx operation) (\<lambda>err.
        if err \<noteq> None then ret (RequeueAfterInterval (20 * second))
        else
          andThen (UpdateOperationApiStatus operation (Some (opStatus\<lparr>osPhase := ''Executing''\<rparr>))) (\<lambda>err'.
          ret (if err' \<noteq> None then RequeueIfError err' else NoRequeue))))"

text \<open>
  The part that Executing, Complete and Failed share: ask the handler for the new status and write it
  if it changed. \<open>Inl\<close> is the early return, \<open>Inr\<close> the status the handler returned.
\<close>

definition updateByHandler ::
  "ReconcileRequestContext \<Rightarrow> OperationStatus \<Rightarrow> OperationInterface \<Rightarrow>
     (reconcileResult + OperationStatus option) cgo" where
  "updateByHandler ctx opStatus operation =
     (case GetStatusHandler operation of
        None \<Rightarrow> ret (Inl (RequeueIfError (Some (Err ''fail to get status handler''))))
      | Some handler \<Rightarrow>
          andThen (handler ctx opStatus) (\<lambda>(opStatusToUpdate, err).
          if err \<noteq> None then ret (Inl (RequeueIfError err))
          else if opStatusToUpdate \<noteq> Some opStatus then
            andThen (UpdateOperationApiStatus operation opStatusToUpdate) (\<lambda>err'.
            ret (if err' \<noteq> None then Inl (RequeueIfError err') else Inr opStatusToUpdate))
          else ret (Inr opStatusToUpdate)))"

definition reconcileExecuting ::
  "cluster \<Rightarrow> Engine \<Rightarrow> ReconcileRequestContext \<Rightarrow> OperationStatus \<Rightarrow> OperationInterface \<Rightarrow> reconcileResult cgo" where
  "reconcileExecuting cl engine ctx opStatus operation =
     andThen (InstallDataOperationHelmIfNotExist cl engine ctx operation) (\<lambda>err.
     case err of
       Some e \<Rightarrow>
         if IsNotSupported e then
           andThen (recordEvent (GetOperationObject operation) ''Warning'' ''DataOperationNotSupport''
                      (''RuntimeType '' @ ctxRuntimeType ctx @ '' not support '' @ GetOperationType operation)) (\<lambda>_.
           andThen (UpdateOperationApiStatus operation (Some (opStatus\<lparr>osPhase := ''Failed''\<rparr>))) (\<lambda>err'.
           ret (if err' \<noteq> None then RequeueIfError err' else NoRequeue)))
         else
           andThen (recordEvent (GetOperationObject operation) ''Warning'' ''DataOperationExecutionFailed''
                      (''fail to execute data operation: '' @ errText e)) (\<lambda>_.
           ret (RequeueAfterInterval (20 * second)))
     | None \<Rightarrow>
         andThen (updateByHandler ctx opStatus operation) (\<lambda>r.
         ret (case r of Inl res \<Rightarrow> res | Inr _ \<Rightarrow> RequeueAfterInterval (20 * second))))"

text \<open>
  \<open>processTTL\<close> returns both the remaining time and the error of the deletion. A \<open>NotFound\<close> error skips
  the early return, but is still the value of \<open>err\<close> at the last return.
\<close>

definition processTTL ::
  "cluster \<Rightarrow> OperationStatus \<Rightarrow> OperationInterface \<Rightarrow> (int option \<times> goerr option) cgo" where
  "processTTL cl opStatus operation =
     andThen (Timeleft cl opStatus operation) (\<lambda>r.
     case r of
       Inl e \<Rightarrow> ret (None, Some e)
     | Inr None \<Rightarrow> ret (None, None)
     | Inr (Some ttl) \<Rightarrow>
         if ttl \<le> 0 then
           andThen (call (\<lambda>h. clDeleteOperation cl h (GetOperationObject operation))
                      (DeletedOperation (GetOperationObject operation))) (\<lambda>err.
           ret (Some ttl, err))
         else ret (Some ttl, None))"

text \<open>Step 0 of Complete and Failed: \<open>Inl\<close> is the early return, \<open>Inr\<close> the remaining time.\<close>

definition cleanUp ::
  "cluster \<Rightarrow> OperationStatus \<Rightarrow> OperationInterface \<Rightarrow> (reconcileResult + int option) cgo" where
  "cleanUp cl opStatus operation =
     (if NeedCleanUp opStatus operation then
        andThen (processTTL cl opStatus operation) (\<lambda>(ttl, err).
        ret (if err \<noteq> None then Inl (RequeueIfError err)
             else case ttl of
                    None \<Rightarrow> Inr None
                  | Some t \<Rightarrow> if t \<le> 0 then Inl NoRequeue else Inr (Some t)))
      else ret (Inr None))"

text \<open>
  The end of Complete and Failed: record the outcome and scale the workers down if the phase is still
  \<open>phase\<close>, then requeue for the clean-up. A nil status is dereferenced.
\<close>

definition finishReconcile ::
  "cluster \<Rightarrow> OperationInterface \<Rightarrow> string \<Rightarrow> unit cgo \<Rightarrow> OperationStatus option \<Rightarrow> int option \<Rightarrow>
     reconcileResult cgo" where
  "finishReconcile cl operation phase outcome opStatusToUpdate ttl =
     (let requeued = (case ttl of Some t \<Rightarrow> if t > 0 then RequeueAfterInterval t else NoRequeue | None \<Rightarrow> NoRequeue) in
      case opStatusToUpdate of
        None \<Rightarrow> panic ''nil pointer dereference''
      | Some st \<Rightarrow>
          if osPhase st = phase then
            andThen outcome (\<lambda>_.
            if GetParallelTaskNumber operation > 1 then
              (case GetReleaseNameSpacedName operation of
                 (namespace, name) \<Rightarrow>
                   andThen (ScaleStatefulSet cl (GetParallelOperationWorkersName name) namespace 0) (\<lambda>err.
                   ret (if err \<noteq> None then RequeueIfError err else requeued)))
            else ret requeued)
          else ret requeued)"

definition reconcileComplete ::
  "cluster \<Rightarrow> ReconcileRequestContext \<Rightarrow> OperationStatus \<Rightarrow> OperationInterface \<Rightarrow> reconcileResult cgo" where
  "reconcileComplete cl ctx opStatus operation =
     andThen (cleanUp cl opStatus operation) (\<lambda>r.
     case r of
       Inl res \<Rightarrow> ret res
     | Inr ttl \<Rightarrow>
         andThen (UpdateStatusInfoForCompleted operation (case osInfos opStatus of None \<Rightarrow> [] | Some m \<Rightarrow> m)) (\<lambda>(infos, err).
         if err \<noteq> None then ret (RequeueIfError err)
         else
           let opStatus' = opStatus\<lparr>osInfos := Some infos\<rparr> in
           andThen (UpdateOperationApiStatus operation (Some opStatus')) (\<lambda>err1.
           if err1 \<noteq> None then ret (RequeueIfError err1)
           else
             andThen (ReleaseTargetDataset cl operation) (\<lambda>err2.
             if err2 \<noteq> None then ret (RequeueIfError err2)
             else
               andThen (updateByHandler ctx opStatus' operation) (\<lambda>r'.
               case r' of
                 Inl res \<Rightarrow> ret res
               | Inr opStatusToUpdate \<Rightarrow>
                   finishReconcile cl operation ''Complete''
                     (recordEvent (GetOperationObject operation) ''Normal'' ''DataOperationSucceed''
                        (GetOperationType operation @ '' '' @ omName (opMeta (GetOperationObject operation)) @
                         '' succeeded''))
                     opStatusToUpdate ttl)))))"

definition reconcileFailed ::
  "cluster \<Rightarrow> ReconcileRequestContext \<Rightarrow> OperationStatus \<Rightarrow> OperationInterface \<Rightarrow> reconcileResult cgo" where
  "reconcileFailed cl ctx opStatus operation =
     andThen (cleanUp cl opStatus operation) (\<lambda>r.
     case r of
       Inl res \<Rightarrow> ret res
     | Inr ttl \<Rightarrow>
         andThen (ReleaseTargetDataset cl operation) (\<lambda>err.
         if err \<noteq> None then ret (RequeueIfError err)
         else
           andThen (updateByHandler ctx opStatus operation) (\<lambda>r'.
           case r' of
             Inl res \<Rightarrow> ret res
           | Inr opStatusToUpdate \<Rightarrow>
               finishReconcile cl operation ''Failed''
                 (recordEvent (GetOperationObject operation) ''Warning'' ''DataOperationFailed''
                    (GetOperationType operation @ '' '' @ omName (opMeta (GetOperationObject operation)) @
                     '' failed''))
                 opStatusToUpdate ttl)))"

definition ReconcileOperation ::
  "cluster \<Rightarrow> Engine \<Rightarrow> ReconcileRequestContext \<Rightarrow> OperationStatus \<Rightarrow> OperationInterface \<Rightarrow> reconcileResult cgo" where
  "ReconcileOperation cl engine ctx opStatus operation =
     (if osPhase opStatus = '''' then reconcileNone ctx opStatus operation
      else if osPhase opStatus = ''Pending'' then reconcilePending cl engine ctx opStatus operation
      else if osPhase opStatus = ''Executing'' then reconcileExecuting cl engine ctx opStatus operation
      else if osPhase opStatus = ''Complete'' then reconcileComplete cl ctx opStatus operation
      else if osPhase opStatus = ''Failed'' then reconcileFailed cl ctx opStatus operation
      else ret NoRequeue)"

text \<open>
  \<open>Operate\<close> of the engines: \<open>template_engine_operation.go\<close> reconciles with the engine itself, the engine of a
  reference dataset (\<open>referencedataset/engine.go\<close>) rejects data operations.
\<close>

definition Operate ::
  "cluster \<Rightarrow> Engine \<Rightarrow> ReconcileRequestContext \<Rightarrow> OperationStatus \<Rightarrow> OperationInterface \<Rightarrow> reconcileResult cgo" where
  "Operate cl engine ctx opStatus operation =
     (if engReference engine then
        andThen (recordEvent (GetOperationObject operation) ''Warning'' ''DataOperationNotSupport''
                   ''thinEngine for reference dataset does not support data operations'') (\<lambda>_.
        ret NoRequeue)
      else ReconcileOperation cl engine ctx opStatus operation)"

section \<open>What one step may write\<close>

definition phaseStep :: "bool \<Rightarrow> string \<Rightarrow> string \<Rightarrow> bool" where
  "phaseStep cron p q \<longleftrightarrow>
     p = '''' \<and> q \<in> {''Pending'', ''Failed''} \<or>
     p = ''Pending'' \<and> q = ''Executing'' \<or>
     p = ''Executing'' \<and> q \<in> {''Executing'', ''Complete'', ''Failed''} \<or>
     p \<in> {''Complete'', ''Failed''} \<and> (q \<in> {''Complete'', ''Failed''} \<or> cron \<and> q = ''Pending'')"

text \<open>The writes that are allowed while the operation \<open>ob\<close> is in the phase \<open>p\<close>.\<close>

fun allowedIn :: "string \<Rightarrow> OpObject \<Rightarrow> event \<Rightarrow> bool" where
  "allowedIn p ob (UpdatedOperationStatus ob' _) =
     (ob' = setOpStatus (GetOperationStatus ob') ob \<and> phaseStep (onSchedule ob) p (osPhase (GetOperationStatus ob')))"
| "allowedIn p ob (UpdatedOperation _ _) = False"
| "allowedIn p ob (DeletedOperation ob' _) = (ob' = ob \<and> p \<in> {''Complete'', ''Failed''})"
| "allowedIn p ob (UpdatedDatasetStatus _ _) = (p \<in> {''Pending'', ''Complete'', ''Failed''})"
| "allowedIn p ob (RanHelm cmd r) = (isHelmInstall (RanHelm cmd r) \<longrightarrow> p = ''Executing'')"
| "allowedIn p ob _ = True"

lemma allowedIn_benign: "benign e \<Longrightarrow> allowedIn p ob e"
  by (cases e) (simp_all add: benign_def)

lemmas emits_allowed = emits_mono [OF _ allowedIn_benign]

lemma allowedIn_helm [simp]:
  "allowedIn p ob (RanHelm [b, ''uninstall'', c, d, e] r)" "allowedIn p ob (RanHelm [b, ''status'', c, d, e, f, g] r)"
  "allowedIn ''Executing'' ob (RanHelm cmd r)"
  by simp_all

context operation_contract
begin

abbreviation allowed :: "string \<Rightarrow> event \<Rightarrow> bool" where
  "allowed p \<equiv> allowedIn p (GetOperationObject operation)"

lemma emits_update [emits_rules]:
  "(\<And>s. st = Some s \<Longrightarrow> phaseStep (onSchedule (GetOperationObject operation)) p (osPhase s)) \<Longrightarrow>
     emits (allowed p) (UpdateOperationApiStatus operation st)"
  unfolding update_status updateApiStatus_def by (auto intro!: emits_rules)

lemma emits_contract [emits_rules]:
  "emits (allowed p) (GetTargetDataset operation)"
  "emits (allowed p) (Validate operation ctx)"
  "emits (allowed p) (UpdateStatusInfoForCompleted operation infos)"
  by (simp_all add: emits_allowed [OF target_benign] emits_allowed [OF validate_benign] emits_allowed [OF infos_benign])

lemma emits_SetDataOperation [emits_rules]:
  "emits (allowed ''Pending'') (SetDataOperationInTargetDataset cl engine ctx operation)"
  unfolding SetDataOperationInTargetDataset_def setLockOnce_def Let_def updateDatasetStatus_def
  by (auto intro!: emits_rules)

lemma emits_Release [emits_rules]:
  "p \<in> {''Complete'', ''Failed''} \<Longrightarrow> emits (allowed p) (ReleaseTargetDataset cl operation)"
  unfolding ReleaseTargetDataset_def releaseLockOnce_def Let_def updateDatasetStatus_def
  by (auto intro!: emits_rules)

lemma emits_InstallHelm [emits_rules]:
  "emits (allowed ''Executing'') (InstallDataOperationHelmIfNotExist cl engine ctx operation)"
  unfolding InstallDataOperationHelmIfNotExist_def Let_def
  by (auto intro!: emits_rules emits_helm)

lemma emits_cleanUp [emits_rules]:
  "p \<in> {''Complete'', ''Failed''} \<Longrightarrow> emits (allowed p) (cleanUp cl st operation)"
  unfolding cleanUp_def processTTL_def Timeleft_def Let_def
  by (auto intro!: emits_rules)

lemma emits_updateByHandler [emits_rules]:
  assumes "osPhase st \<in> {''Executing'', ''Complete'', ''Failed''}"
  shows "emits (allowed (osPhase st)) (updateByHandler ctx st operation)"
proof (cases "GetStatusHandler operation")
  case None
  then show ?thesis by (simp add: updateByHandler_def emits_rules)
next
  case (Some handler)
  have "emits (allowed (osPhase st))
      (andThen (UpdateOperationApiStatus operation st') (\<lambda>err'. ret (f err')))"
    if "movesFrom (onSchedule (GetOperationObject operation)) st (st', err)" for st' err f
    using that assms
    by (auto intro!: emits_rules simp: movesFrom_def handlerPhase_def phaseStep_def)
  then show ?thesis
    unfolding updateByHandler_def using Some
    by (auto intro!: emits_andThen_yields [OF emits_allowed [OF handler_benign] handler_phase] emits_ret
        split: prod.splits)
qed

lemma emits_finish [emits_rules]:
  "emits (allowed p) outcome \<Longrightarrow> emits (allowed p) (finishReconcile cl operation phase outcome st ttl)"
  unfolding finishReconcile_def Let_def
  by (auto intro!: emits_rules emits_allowed [OF emits_ScaleStatefulSet])

lemma reconcile_allowed: "emits (allowed (osPhase st)) (ReconcileOperation cl engine ctx st operation)"
proof -
  have "emits (allowed '''') (reconcileNone ctx st operation)"
    unfolding reconcileNone_def Let_def by (auto intro!: emits_rules simp: phaseStep_def)
  moreover have "emits (allowed ''Pending'') (reconcilePending cl engine ctx st operation)"
    unfolding reconcilePending_def by (auto intro!: emits_rules simp: phaseStep_def)
  moreover have "emits (allowed ''Executing'') (reconcileExecuting cl engine ctx st operation)" if "osPhase st = ''Executing''"
    unfolding reconcileExecuting_def using emits_updateByHandler [of st ctx] that
    by (auto intro!: emits_rules simp: phaseStep_def)
  moreover have "emits (allowed ''Complete'') (reconcileComplete cl ctx st operation)" if "osPhase st = ''Complete''"
    unfolding reconcileComplete_def Let_def
    using emits_updateByHandler [of "st\<lparr>osInfos := i\<rparr>" ctx for i] that
    by (auto intro!: emits_rules simp: phaseStep_def)
  moreover have "emits (allowed ''Failed'') (reconcileFailed cl ctx st operation)" if "osPhase st = ''Failed''"
    unfolding reconcileFailed_def using emits_updateByHandler [of st ctx] that
    by (auto intro!: emits_rules simp: phaseStep_def)
  ultimately show ?thesis by (auto simp: ReconcileOperation_def emits_ret)
qed

end

text \<open>
  C1. One reconciliation of a data operation, of any kind and whatever the cluster answers: of all data
  operations it writes only the status of its own object, whose phase moves from None to Pending or Failed, from
  Pending to Executing, and from Executing to Complete or Failed. A finished operation stays Complete or Failed, as its job
  is seen to have ended, and goes back to Pending only if it is a load or migration with the policy Cron. The
  reconciliation changes a dataset in the phases Pending, Complete and Failed only, installs a chart only while Executing,
  and deletes its object only after it has finished.
\<close>

theorem operation_life_cycle:
  "emits (allowedIn (osPhase st) ob) (ReconcileOperation cl engine ctx st (implementOf cl ob))"
  using operation_contract.reconcile_allowed [of cl "implementOf cl ob" st engine ctx, OF implementOf_contract] by simp

section \<open>Optimistic concurrency\<close>

text \<open>The two datasets differ in the references to operations and the phase only, not in the resource version.\<close>

definition sameButOperations :: "Dataset \<Rightarrow> Dataset \<Rightarrow> bool" where
  "sameButOperations d0 d \<longleftrightarrow>
     (\<exists>refs phase. d = setStatus (\<lambda>s. s\<lparr>dstOperationRef := refs, dstPhase := phase\<rparr>) d0)"

lemma sameButOperations_refl [simp]: "sameButOperations d d"
  unfolding sameButOperations_def
  by (rule exI [of _ "dstOperationRef (dStatus d)"], rule exI [of _ "dstPhase (dStatus d)"]) simp

lemma sameButOperations_phase:
  "sameButOperations d0 d \<Longrightarrow> sameButOperations d0 (d\<lparr>dStatus := (dStatus d)\<lparr>dstPhase := phase\<rparr>\<rparr>)"
  unfolding sameButOperations_def by (elim exE, rule exI, rule exI [of _ phase]) simp

lemma sameButOperations_refs: "sameButOperations d (setOperationRef refs d)"
  unfolding sameButOperations_def setOperationRef_def
  by (rule exI [of _ "Some refs"], rule exI [of _ "dstPhase (dStatus d)"]) simp

lemma sameButOperations_set: "sameButOperations d (SetDataOperationInProgress d t n)"
  by (simp add: SetDataOperationInProgress_def sameButOperations_refs split: option.splits)

lemma sameButOperations_remove: "sameButOperations d (snd (RemoveDataOperationInProgress d t n))"
  by (simp add: RemoveDataOperationInProgress_def sameButOperations_refs Let_def split: option.splits)

text \<open>Every write of a dataset comes right after a read of it and is based on what was read.\<close>

definition freshWrites :: "event list \<Rightarrow> bool" where
  "freshWrites h \<longleftrightarrow>
     (\<forall>pre d r post. h = pre @ UpdatedDatasetStatus d r # post \<longrightarrow>
        (\<exists>pre' name ns d0. pre = pre' @ [GotDataset name ns (Inr d0)] \<and> sameButOperations d0 d))"

lemma freshWrites_Nil [simp]: "freshWrites []"
  by (simp add: freshWrites_def)

lemma freshWrites_snoc:
  "freshWrites (h @ [e]) \<longleftrightarrow> freshWrites h \<and>
     (\<forall>d r. e = UpdatedDatasetStatus d r \<longrightarrow>
        (\<exists>pre' name ns d0. h = pre' @ [GotDataset name ns (Inr d0)] \<and> sameButOperations d0 d))"
  (is "?L \<longleftrightarrow> ?R")
proof
  assume l: ?L
  have "freshWrites h"
    unfolding freshWrites_def
  proof (intro allI impI)
    fix pre d r post
    assume "h = pre @ UpdatedDatasetStatus d r # post"
    then have "h @ [e] = pre @ UpdatedDatasetStatus d r # (post @ [e])" by simp
    with l show "\<exists>pre' name ns d0. pre = pre' @ [GotDataset name ns (Inr d0)] \<and> sameButOperations d0 d"
      unfolding freshWrites_def by blast
  qed
  with l show ?R by (auto simp: freshWrites_def)
next
  assume r: ?R
  show ?L
    unfolding freshWrites_def
  proof (intro allI impI)
    fix pre d r' post
    assume eq: "h @ [e] = pre @ UpdatedDatasetStatus d r' # post"
    show "\<exists>pre' name ns d0. pre = pre' @ [GotDataset name ns (Inr d0)] \<and> sameButOperations d0 d"
    proof (cases post rule: rev_cases)
      case Nil
      with eq r show ?thesis by auto
    next
      case (snoc post' e')
      with eq have "(h @ [e]) = (pre @ UpdatedDatasetStatus d r' # post') @ [e']" by simp
      then have "h = pre @ UpdatedDatasetStatus d r' # post'" by (simp only: append1_eq_conv)
      with r show ?thesis unfolding freshWrites_def by blast
    qed
  qed
qed

lemma freshWrites_append: "freshWrites h \<Longrightarrow> list_all (\<lambda>e. \<not> writesDataset e) es \<Longrightarrow> freshWrites (h @ es)"
  by (induction es rule: rev_induct) (auto simp: freshWrites_snoc simp flip: append_assoc)

lemmas keeps_fresh = keeps_emits [of "\<lambda>e. \<not> writesDataset e" _ freshWrites, OF _ freshWrites_append]

lemma benign_not_write: "benign e \<Longrightarrow> \<not> writesDataset e"
  by (simp add: benign_def)

lemmas keeps_benign = keeps_fresh [OF emits_mono [OF _ benign_not_write]]

text \<open>A program that reads a dataset and writes what it read keeps the writes fresh.\<close>

lemma keeps_read_write:
  assumes "emits benign m"
    and "\<And>h. wp m (\<lambda>r h'. \<forall>d. r = Ret (Inr d) \<longrightarrow> (\<exists>h0 name ns. h' = h0 @ [GotDataset name ns (Inr d)])) h"
    and "\<And>e. keeps freshWrites (k e)"
    and "\<And>d h. (\<exists>h0 name ns. h = h0 @ [GotDataset name ns (Inr d)]) \<Longrightarrow> freshWrites h \<Longrightarrow> freshWrites (snd (g d h))"
  shows "keeps freshWrites (andThen m (\<lambda>r. case r of Inl e \<Rightarrow> k e | Inr d \<Rightarrow> g d))"
  unfolding keeps_def
proof (intro allI impI)
  fix h :: "event list"
  assume fresh: "freshWrites h"
  obtain r h' where m: "m h = (r, h')" by (cases "m h")
  have h': "freshWrites h'" using keeps_benign [OF assms(1)] fresh m by (metis keeps_def snd_conv)
  have rd: "\<forall>d. r = Ret (Inr d) \<longrightarrow> (\<exists>h0 name ns. h' = h0 @ [GotDataset name ns (Inr d)])"
    using assms(2) m by (rule wp_run)
  show "freshWrites (snd (andThen m (\<lambda>r. case r of Inl e \<Rightarrow> k e | Inr d \<Rightarrow> g d) h))"
    using m h' rd assms(3,4)
    by (auto simp: andThen_def keeps_def split: out.splits sum.splits)
qed

lemma freshWrites_update:
  assumes "\<exists>h0 name ns. h = h0 @ [GotDataset name ns (Inr d0)]" and "freshWrites h" and "sameButOperations d0 d"
  shows "freshWrites (snd (updateDatasetStatus cl d h))"
  using assms by (auto simp: updateDatasetStatus_def call_def freshWrites_snoc)

context operation_contract
begin

lemma keeps_setLock: "keeps freshWrites (setLockOnce cl ctx operation)"
  unfolding setLockOnce_def
proof (rule keeps_read_write)
  fix d :: Dataset and h
  assume "\<exists>h0 name ns. h = h0 @ [GotDataset name ns (Inr d)]" "freshWrites h"
  moreover have "sameButOperations d (SetTargetDatasetStatusInProgress operation (SetDataOperationInProgress d t n))" for t n
    using set_in_progress [of "SetDataOperationInProgress d t n"] sameButOperations_phase sameButOperations_set by metis
  ultimately show "freshWrites (snd ((let datasetToUpdate = SetTargetDatasetStatusInProgress operation
               (SetDataOperationInProgress d (GetOperationType operation)
                  (getDataOperationKey (Some (GetOperationObject operation)))) in
         if dStatus d \<noteq> dStatus datasetToUpdate
         then updateDatasetStatus cl datasetToUpdate else ret None) h))"
    by (auto simp: Let_def ret_def intro: freshWrites_update)
qed (auto simp: wp_GetDataset intro!: emits_rules keeps_rules)

lemma keeps_releaseLock: "keeps freshWrites (releaseLockOnce cl operation)"
  unfolding releaseLockOnce_def
proof (rule keeps_read_write)
  fix d :: Dataset and h
  assume "\<exists>h0 name ns. h = h0 @ [GotDataset name ns (Inr d)]" "freshWrites h"
  moreover have "sameButOperations d (snd (RemoveDataOperationInProgress d t n))"
    "sameButOperations d (RemoveTargetDatasetStatusInProgress operation (snd (RemoveDataOperationInProgress d t n)))" for t n
    using remove_in_progress [of "snd (RemoveDataOperationInProgress d t n)"] sameButOperations_phase
      sameButOperations_remove by metis+
  ultimately show "freshWrites (snd ((case RemoveDataOperationInProgress d (GetOperationType operation)
                 (getDataOperationKey (Some (GetOperationObject operation))) of
            (dataOpRef, removed) \<Rightarrow>
              let datasetToUpdate =
                    (if dataOpRef = '''' then RemoveTargetDatasetStatusInProgress operation removed else removed) in
              if dStatus datasetToUpdate \<noteq> dStatus d
              then updateDatasetStatus cl datasetToUpdate else ret None) h))"
    by (auto simp: Let_def ret_def case_prod_beta intro!: freshWrites_update)
qed (auto intro!: keeps_rules target_benign wp_mono [OF target_read])


lemma keeps_update [keeps_rules]: "keeps freshWrites (UpdateOperationApiStatus operation st)"
  by (rule keeps_fresh) (auto simp: update_status updateApiStatus_def intro!: emits_rules)

lemma keeps_contract [keeps_rules]:
  "keeps freshWrites (Validate operation ctx)"
  "keeps freshWrites (UpdateStatusInfoForCompleted operation infos)"
  by (simp_all add: keeps_benign [OF validate_benign] keeps_benign [OF infos_benign])

lemma keeps_locks [keeps_rules]:
  "keeps freshWrites (SetDataOperationInTargetDataset cl engine ctx operation)"
  "keeps freshWrites (ReleaseTargetDataset cl operation)"
  unfolding SetDataOperationInTargetDataset_def ReleaseTargetDataset_def
  by (auto intro!: keeps_rules keeps_setLock keeps_releaseLock keeps_fresh [OF emits_call] keeps_fresh [OF emits_recordEvent])

lemma keeps_InstallHelm [keeps_rules]:
  "keeps freshWrites (InstallDataOperationHelmIfNotExist cl engine ctx operation)"
  by (rule keeps_fresh) (auto simp: InstallDataOperationHelmIfNotExist_def Let_def intro!: emits_rules emits_helm)

lemma keeps_cleanUp [keeps_rules]: "keeps freshWrites (cleanUp cl st operation)"
  by (rule keeps_fresh) (auto simp: cleanUp_def processTTL_def Timeleft_def Let_def intro!: emits_rules)

lemma keeps_updateByHandler [keeps_rules]: "keeps freshWrites (updateByHandler ctx st operation)"
  unfolding updateByHandler_def
  by (auto intro!: keeps_rules keeps_benign [OF handler_benign])

lemma keeps_finish [keeps_rules]:
  "keeps freshWrites outcome \<Longrightarrow> keeps freshWrites (finishReconcile cl operation phase outcome st ttl)"
  unfolding finishReconcile_def Let_def
  by (auto intro!: keeps_rules keeps_benign [OF emits_ScaleStatefulSet])

lemma keeps_recordEvent [keeps_rules]: "keeps freshWrites (recordEvent ob ty reason msg)"
  by (rule keeps_fresh) (simp add: emits_rules)

lemma reconcile_fresh: "keeps freshWrites (ReconcileOperation cl engine ctx st operation)"
  unfolding ReconcileOperation_def reconcileNone_def reconcilePending_def reconcileExecuting_def
    reconcileComplete_def reconcileFailed_def Let_def
  by (intro keeps_rules)

end

text \<open>
  C15. No update of a dataset is lost: every status that a reconciliation writes to a dataset is written
  right after the dataset was read, and is what was read, with its resource version, except for the
  references to operations and the phase. So the API server rejects it if somebody else wrote in between.
\<close>

theorem dataset_writes_are_fresh:
  "freshWrites (snd (ReconcileOperation cl engine ctx st (implementOf cl ob) []))"
  using operation_contract.reconcile_fresh [OF implementOf_contract] freshWrites_Nil
  unfolding keeps_def by blast

section \<open>Registration\<close>

text \<open>The last event of a history shows the dataset \<open>d\<close>: it was read or written successfully.\<close>

definition lastSeen :: "event list \<Rightarrow> Dataset \<Rightarrow> bool" where
  "lastSeen h d \<longleftrightarrow> h \<noteq> [] \<and>
     (last h = UpdatedDatasetStatus d None \<or> (\<exists>name ns. last h = GotDataset name ns (Inr d)))"

lemma holders_status: "dStatus d = dStatus d' \<Longrightarrow> holders d t = holders d' t"
  by (simp add: holders_def GetDataOperationInProgress_def)

lemma holders_phase [simp]: "holders (d\<lparr>dStatus := (dStatus d)\<lparr>dstPhase := phase\<rparr>\<rparr>) t = holders d t"
  by (simp add: holders_def GetDataOperationInProgress_def)

context operation_contract
begin

abbreviation opName :: string where
  "opName \<equiv> omName (opMeta (GetOperationObject operation))"

lemma setLock_registers:
  assumes "validName opName"
  shows "wp (setLockOnce cl ctx operation) (\<lambda>r h'. r = Ret None \<longrightarrow>
    (\<exists>d. lastSeen h' d \<and> opName \<in> set (holders d (GetOperationType operation)))) h"
proof -
  have reg: "opName \<in> set (holders (SetTargetDatasetStatusInProgress operation
      (SetDataOperationInProgress d (GetOperationType operation) opName)) (GetOperationType operation))" for d
    using set_in_progress [of "SetDataOperationInProgress d (GetOperationType operation) opName"]
      holders_SetDataOperation [OF assms] by auto
  show ?thesis
    unfolding setLockOnce_def getDataOperationKey_def Let_def updateDatasetStatus_def
    using reg by (auto simp: wp_rules wp_GetDataset lastSeen_def split: sum.splits)
      (metis holders_status reg)
qed

lemma SetDataOperation_registers:
  assumes "validName opName"
  shows "wp (SetDataOperationInTargetDataset cl engine ctx operation) (\<lambda>r h'. r = Ret None \<longrightarrow>
    (\<exists>d. lastSeen h' d \<and> opName \<in> set (holders d (GetOperationType operation)))) h"
  unfolding SetDataOperationInTargetDataset_def
  by (auto simp: wp_rules recordEvent_def intro!: RetryOnConflict_induct [where I = "\<lambda>_. True"]
      wp_mono [OF setLock_registers [OF assms]])

lemma pending_registers:
  assumes "validName opName" and "osPhase st = ''Pending''"
  shows "wp (ReconcileOperation cl engine ctx st operation) (\<lambda>_ h'.
    \<forall>es ob r. h' = h @ es \<and> UpdatedOperationStatus ob r \<in> set es \<longrightarrow>
      (\<exists>pre d. es = pre @ [UpdatedOperationStatus ob r] \<and> lastSeen (h @ pre) d \<and>
         opName \<in> set (holders d (GetOperationType operation)))) h"
proof -
  let ?set = "SetDataOperationInTargetDataset cl engine ctx operation"
  obtain r h' where run: "?set h = (r, h')" by (cases "?set h")
  have quiet: "emits (\<lambda>e. \<not> writesOperation e) ?set"
    unfolding SetDataOperationInTargetDataset_def setLockOnce_def Let_def updateDatasetStatus_def
    by (auto intro!: emits_rules)
  obtain es0 where es0: "h' = h @ es0" "list_all (\<lambda>e. \<not> writesOperation e) es0"
    using emits_run [OF quiet run] .
  have reg: "r = Ret None \<longrightarrow> (\<exists>d. lastSeen h' d \<and> opName \<in> set (holders d (GetOperationType operation)))"
    using SetDataOperation_registers [OF assms(1)] run by (rule wp_run)
  have no: "UpdatedOperationStatus ob r' \<notin> set es0" for ob r'
    using es0(2) by (auto simp: list_all_iff)
  show ?thesis
    using assms(2) run reg es0(1) no
    by (auto simp: ReconcileOperation_def reconcilePending_def wp_rules update_status updateApiStatus_def
        wp_def [of ?set] split: out.splits option.splits)
qed


end

text \<open>
  C4. No operation runs unregistered: when a pending operation is moved on, it is moved to Executing by
  the last write of the reconciliation, and the event before shows that the dataset, as it was last read
  or written, lists the operation among its operations in progress.
\<close>

theorem executing_is_registered:
  assumes "validName (omName (opMeta ob))" and "osPhase st = ''Pending''"
    and "ReconcileOperation cl engine ctx st (implementOf cl ob) h = (res, h @ es)"
    and "UpdatedOperationStatus ob' r \<in> set es"
  shows "osPhase (GetOperationStatus ob') = ''Executing'' \<and>
    (\<exists>pre d. es = pre @ [UpdatedOperationStatus ob' r] \<and> lastSeen (h @ pre) d \<and>
       omName (opMeta ob) \<in> set (holders d (GetOperationType (implementOf cl ob))))"
proof
  have "list_all (allowedIn ''Pending'' ob) es"
    using emits_run [OF operation_contract.reconcile_allowed [OF implementOf_contract] assms(3)] assms(2) by auto
  with assms(4) show "osPhase (GetOperationStatus ob') = ''Executing''"
    by (auto simp: list_all_iff phaseStep_def)
  show "\<exists>pre d. es = pre @ [UpdatedOperationStatus ob' r] \<and> lastSeen (h @ pre) d \<and>
       omName (opMeta ob) \<in> set (holders d (GetOperationType (implementOf cl ob)))"
    using wp_run [OF operation_contract.pending_registers [OF implementOf_contract _ assms(2)] assms(3)] assms(1,4)
    by simp
qed

section \<open>Release\<close>

text \<open>
  \<open>d\<close> lists the operation \<open>n\<close> of type \<open>t\<close> once less than \<open>d0\<close>, and every other operation as often. An operation is listed
  at most once if it registered itself; then it is no longer listed.
\<close>

definition unregistered :: "string \<Rightarrow> string \<Rightarrow> Dataset \<Rightarrow> Dataset \<Rightarrow> bool" where
  "unregistered t n d0 d \<longleftrightarrow> (\<forall>t' m. validName m \<longrightarrow>
     count_list (holders d t') m = count_list (holders d0 t') m - (if t' = t \<and> m = n then 1 else 0))"

text \<open>
  The last attempt: the operation read its target dataset and either wrote it with the operation removed or found that there is
  nothing to change.
\<close>

definition releasedSince :: "OperationInterface \<Rightarrow> string \<Rightarrow> event list \<Rightarrow> event list \<Rightarrow> bool" where
  "releasedSince operation n h h' \<longleftrightarrow>
     (\<exists>es h1 d0 d. GetTargetDataset operation (h @ es) = (Ret (Inr d0), h1) \<and> unregistered (GetOperationType operation) n d0 d \<and>
        (h' = h1 \<and> d = d0 \<or> h' = h1 @ [UpdatedDatasetStatus d None]))"

context operation_contract
begin

lemma releaseLock_unregisters:
  assumes "validName opName"
  shows "wp (releaseLockOnce cl operation) (\<lambda>r h'. r = Ret None \<longrightarrow> releasedSince operation opName h h' \<or> datasetMissing h') (h @ es)"
proof -
  let ?t = "GetOperationType operation"
  obtain r h1 where run: "GetTargetDataset operation (h @ es) = (r, h1)" by (cases "GetTargetDataset operation (h @ es)")
  show ?thesis
  proof (cases "\<exists>d. r = Ret (Inr d)")
    case False
    have "reportsMissing r h1" using target_missing run by (rule wp_run)
    with False run show ?thesis
      by (auto simp: releaseLockOnce_def wp_rules wp_def [of "GetTargetDataset operation"] IgnoreNotFound_def
          split: out.splits sum.splits)
  next
    case True
    then obtain d where r: "r = Ret (Inr d)" by blast
    let ?rm = "RemoveDataOperationInProgress d ?t opName"
    let ?d' = "if fst ?rm = '''' then RemoveTargetDatasetStatusInProgress operation (snd ?rm) else snd ?rm"
    have "holders ?d' = holders (snd ?rm)" using remove_in_progress [of "snd ?rm"] by auto
    then have removed: "unregistered ?t opName d ?d'"
      by (simp add: unregistered_def listed_RemoveDataOperation [OF assms])
    have same: "unregistered ?t opName d d" if "dStatus ?d' = dStatus d"
      using removed holders_status [OF that] by (simp add: unregistered_def)
    have since: "releasedSince operation opName h (h1 @ [UpdatedDatasetStatus ?d' None])"
      "dStatus ?d' = dStatus d \<Longrightarrow> releasedSince operation opName h h1"
      unfolding releasedSince_def using run [unfolded r] removed same by blast+
    have "wp (if dStatus ?d' \<noteq> dStatus d then updateDatasetStatus cl ?d' else ret None)
        (\<lambda>r h'. r = Ret None \<longrightarrow> releasedSince operation opName h h') h1"
      unfolding wp_if updateDatasetStatus_def wp_call wp_ret using since by (auto simp del: if_split)
    then show ?thesis
      using run r unfolding releaseLockOnce_def
      by (auto simp: wp_andThen wp_def [of "GetTargetDataset operation"] getDataOperationKey_def Let_def case_prod_beta elim!: wp_mono)
  qed
qed

lemma ReleaseTargetDataset_unregisters:
  assumes "validName opName"
  shows "wp (ReleaseTargetDataset cl operation) (\<lambda>r h'. r = Ret None \<longrightarrow> releasedSince operation opName h h' \<or> datasetMissing h') h"
proof -
  have any: "emits (\<lambda>_. True) (releaseLockOnce cl operation)"
    unfolding releaseLockOnce_def Let_def updateDatasetStatus_def
    by (auto intro!: emits_rules emits_mono [OF target_benign])
  show ?thesis
    unfolding ReleaseTargetDataset_def
  proof (rule RetryOnConflict_induct [where I = "\<lambda>h'. \<exists>es. h' = h @ es"])
    fix h1 assume "\<exists>es. h1 = h @ es"
    then obtain es where h1: "h1 = h @ es" by blast
    have "wp (releaseLockOnce cl operation) (\<lambda>r h'. (r = Ret None \<longrightarrow> releasedSince operation opName h h' \<or> datasetMissing h') \<and>
        (\<exists>es'. h' = h1 @ es' \<and> list_all (\<lambda>_. True) es')) h1"
      unfolding wp_conj h1 using releaseLock_unregisters [OF assms] wp_emits [OF any] by blast
    then show "wp (releaseLockOnce cl operation) (\<lambda>r h'. (\<forall>e. r = Ret (Some e) \<longrightarrow> IsConflict e \<longrightarrow> (\<exists>es. h' = h @ es)) \<and>
        (r = Ret None \<longrightarrow> releasedSince operation opName h h' \<or> datasetMissing h')) h1"
      by (rule wp_mono) (auto simp: h1)
  qed simp
qed

end

text \<open>
  C28. When the release of a dataset succeeds, the target dataset of the operation is gone, or in the last attempt the operation
  read its target dataset and left it with the operation listed once less among the operations in progress of its type and every
  other operation, of every type, listed as often as before: it wrote that status, or found the operation not listed and
  nothing to write. Names are not empty and have no comma, as all names in Kubernetes. An operation is listed at most once as
  long as the list is kept by registrations and releases (the account of operations in progress of \<open>Dataset_Api\<close>), so it is not
  listed any more.
\<close>

theorem release_unregisters:
  assumes "validName (omName (opMeta ob))" and "ReleaseTargetDataset cl (implementOf cl ob) h = (Ret None, h')"
  shows "releasedSince (implementOf cl ob) (omName (opMeta ob)) h h' \<or> datasetMissing h'"
  using wp_run [OF operation_contract.ReleaseTargetDataset_unregisters [OF implementOf_contract] assms(2)] assms(1) by simp

section \<open>Progress\<close>

lemma RetryOnConflict_first: "fn h = (Ret None, h') \<Longrightarrow> RetryOnConflict fn h = (Ret None, h')"
  by (simp add: RetryOnConflict_def DefaultBackoff_Steps_def numeral_eq_Suc andThen_def ret_def)

lemma setLock_succeeds:
  assumes "clGetDataset cl h (omName (dMeta (ctxDataset ctx))) (omNamespace (dMeta (ctxDataset ctx))) = Inr d"
    and "\<And>h d. clUpdateDatasetStatus cl h d = None"
  shows "\<exists>h'. setLockOnce cl ctx operation h = (Ret None, h')"
  using assms by (auto simp: setLockOnce_def GetDataset_def updateDatasetStatus_def andThen_def call_def ret_def Let_def)

text \<open>
  C30. A pending operation makes progress: if it waits for no other operation, the runtime is ready, the
  dataset can be read and the API server accepts the writes, one reconciliation writes the phase
  Executing and reports no error.
\<close>

theorem pending_progress:
  assumes "osPhase st = ''Pending''" and "osWaitingFor st \<noteq> Some True"
    and "\<And>h. clRuntimeReady cl h engine" and "\<And>h name ns. \<exists>d. clGetDataset cl h name ns = Inr d"
    and "\<And>h d. clUpdateDatasetStatus cl h d = None" and "\<And>h ob. clUpdateOperationStatus cl h ob = None"
  shows "\<exists>h'. ReconcileOperation cl engine ctx st (implementOf cl ob) h =
    (Ret NoRequeue, h' @ [UpdatedOperationStatus (setOpStatus (st\<lparr>osPhase := ''Executing''\<rparr>) ob) None])"
proof -
  let ?op = "implementOf cl ob"
  let ?h = "h @ [CheckedRuntimeReady engine True]"
  obtain d where "clGetDataset cl ?h (omName (dMeta (ctxDataset ctx))) (omNamespace (dMeta (ctxDataset ctx))) = Inr d"
    using assms(4) by blast
  then obtain h' where "setLockOnce cl ctx ?op ?h = (Ret None, h')"
    using setLock_succeeds assms(5) by blast
  then have "SetDataOperationInTargetDataset cl engine ctx ?op h = (Ret None, h')"
    using assms(3) by (simp add: SetDataOperationInTargetDataset_def andThen_def call_def RetryOnConflict_first)
  moreover have "UpdateOperationApiStatus ?op (Some s) = updateApiStatus cl ob (Some s)" for s
    using operation_contract.update_status [OF implementOf_contract, of cl ob] by simp
  ultimately show ?thesis
    using assms(1,2,6)
    by (simp add: ReconcileOperation_def reconcilePending_def andThen_def ret_def updateApiStatus_def call_def NoRequeue_def)
qed

section \<open>Clean-up\<close>

definition expired :: "int \<Rightarrow> OperationStatus \<Rightarrow> OperationInterface \<Rightarrow> bool" where
  "expired curTime st operation \<longleftrightarrow>
     (\<exists>c cs ttl. osConditions st = c # cs \<and> cType c \<in> {''Complete'', ''Failed''} \<and>
        GetTTL operation = Inr (Some ttl) \<and> cLastTransitionTime c + ttl * second \<le> curTime)"

lemma saturate_sign: "saturate d \<le> 0 \<longleftrightarrow> d \<le> 0"
  by (auto simp: saturate_def)

lemma cleanUp_run:
  "\<exists>r es. cleanUp cl st operation h = (Ret r, h @ es) \<and>
     (if expired (clNow cl h) st operation
      then (case clDeleteOperation cl (h @ [ReadClock (clNow cl h)]) (GetOperationObject operation) of
              None \<Rightarrow> r = Inl NoRequeue | Some e \<Rightarrow> r = Inl (RequeueIfError (Some e))) \<and>
        es = [ReadClock (clNow cl h), DeletedOperation (GetOperationObject operation)
          (clDeleteOperation cl (h @ [ReadClock (clNow cl h)]) (GetOperationObject operation))]
      else (\<exists>ttl. r = Inr ttl) \<and> list_all (\<lambda>e. e = ReadClock (clNow cl h)) es)"
proof (cases "osConditions st")
  case Nil
  then show ?thesis by (simp add: cleanUp_def NeedCleanUp_def expired_def ret_def)
next
  case (Cons c cs)
  show ?thesis
  proof (cases "GetTTL operation")
    case (Inl e)
    with Cons show ?thesis by (simp add: cleanUp_def NeedCleanUp_def expired_def ret_def)
  next
    case (Inr ttl)
    with Cons show ?thesis
      by (cases ttl)
        (auto simp: cleanUp_def NeedCleanUp_def expired_def ret_def processTTL_def Timeleft_def andThen_def
          call_def now_def saturate_sign NoRequeue_def split: option.splits)
  qed
qed

fun isDelete :: "event \<Rightarrow> bool" where
  "isDelete (DeletedOperation _ _) = True"
| "isDelete _ = False"

context operation_contract
begin

lemma emits_undeleted [emits_rules]:
  "emits (\<lambda>e. \<not> isDelete e) (UpdateOperationApiStatus operation st)"
  "emits (\<lambda>e. \<not> isDelete e) (ReleaseTargetDataset cl operation)"
  "emits (\<lambda>e. \<not> isDelete e) (UpdateStatusInfoForCompleted operation infos)"
  "emits (\<lambda>e. \<not> isDelete e) (updateByHandler ctx st1 operation)"
  "emits (\<lambda>e. \<not> isDelete e) outcome \<Longrightarrow>
   emits (\<lambda>e. \<not> isDelete e) (finishReconcile cl operation phase outcome st' ttl)"
proof -
  have undeleted: "\<not> isDelete e" if "benign e" for e
    using that by (cases e) (auto simp: benign_def)
  note benign_undeleted = emits_mono [OF _ undeleted]
  show upd: "emits (\<lambda>e. \<not> isDelete e) (UpdateOperationApiStatus operation st)" for st
    unfolding update_status updateApiStatus_def by (auto intro!: emits_rules)
  show "emits (\<lambda>e. \<not> isDelete e) (ReleaseTargetDataset cl operation)"
    unfolding ReleaseTargetDataset_def releaseLockOnce_def Let_def updateDatasetStatus_def
    by (auto intro!: emits_rules benign_undeleted [OF target_benign])
  show "emits (\<lambda>e. \<not> isDelete e) (UpdateStatusInfoForCompleted operation infos)"
    by (rule benign_undeleted [OF infos_benign])
  show "emits (\<lambda>e. \<not> isDelete e) (updateByHandler ctx st1 operation)"
    unfolding updateByHandler_def by (auto intro!: emits_rules upd benign_undeleted [OF handler_benign])
  show "emits (\<lambda>e. \<not> isDelete e) outcome \<Longrightarrow>
      emits (\<lambda>e. \<not> isDelete e) (finishReconcile cl operation phase outcome st' ttl)"
    unfolding finishReconcile_def Let_def
    by (auto intro!: emits_rules benign_undeleted [OF emits_ScaleStatefulSet])
qed

lemma reconcile_after_cleanUp:
  assumes "osPhase st \<in> {''Complete'', ''Failed''}"
  shows "\<exists>k. ReconcileOperation cl engine ctx st operation = andThen (cleanUp cl st operation)
        (\<lambda>r. case r of Inl res \<Rightarrow> ret res | Inr ttl \<Rightarrow> k ttl) \<and>
      (\<forall>ttl. emits (\<lambda>e. \<not> isDelete e) (k ttl))"
proof (cases "osPhase st = ''Complete''")
  case True
  then show ?thesis
    by (auto simp: ReconcileOperation_def reconcileComplete_def [abs_def] Let_def intro!: exI emits_rules)
next
  case False
  with assms show ?thesis
    by (auto simp: ReconcileOperation_def reconcileFailed_def [abs_def] intro!: exI emits_rules)
qed

end

text \<open>
  C29. An operation is deleted exactly if it has finished, has a time to live, and that time is used up.
  Then nothing else is done in that reconciliation and the error of the deletion is what it returns.
\<close>

theorem deleted_iff_expired:
  assumes "osPhase st \<in> {''Complete'', ''Failed''}"
    and "ReconcileOperation cl engine ctx st (implementOf cl ob) h = (res, h @ es)"
  shows "if expired (clNow cl h) st (implementOf cl ob)
    then \<exists>err. es = [ReadClock (clNow cl h), DeletedOperation ob err] \<and> res = Ret (RequeueIfError err)
    else \<not> list_ex isDelete es"
proof -
  let ?op = "implementOf cl ob"
  obtain r es0 where run: "cleanUp cl st ?op h = (Ret r, h @ es0)" and
    del: "if expired (clNow cl h) st ?op
      then (case clDeleteOperation cl (h @ [ReadClock (clNow cl h)]) (GetOperationObject ?op) of
              None \<Rightarrow> r = Inl NoRequeue | Some e \<Rightarrow> r = Inl (RequeueIfError (Some e))) \<and>
        es0 = [ReadClock (clNow cl h), DeletedOperation (GetOperationObject ?op)
          (clDeleteOperation cl (h @ [ReadClock (clNow cl h)]) (GetOperationObject ?op))]
      else (\<exists>ttl. r = Inr ttl) \<and> list_all (\<lambda>e. e = ReadClock (clNow cl h)) es0"
    using cleanUp_run [of cl st ?op h] by blast
  show ?thesis
  proof (cases "expired (clNow cl h) st ?op")
    case True
    then show ?thesis using del run assms
      by (auto simp: ReconcileOperation_def reconcileComplete_def reconcileFailed_def andThen_def ret_def
          NoRequeue_def split: option.splits)
  next
    case False
    then obtain ttl where r: "r = Inr ttl" "list_all (\<lambda>e. e = ReadClock (clNow cl h)) es0" using del by auto
    obtain k where k: "ReconcileOperation cl engine ctx st ?op = andThen (cleanUp cl st ?op)
        (\<lambda>r. case r of Inl res \<Rightarrow> ret res | Inr ttl \<Rightarrow> k ttl)"
      "emits (\<lambda>e. \<not> isDelete e) (k ttl)"
      using operation_contract.reconcile_after_cleanUp [OF implementOf_contract assms(1)] by blast
    with run r(1) assms(2) have "k ttl (h @ es0) = (res, h @ es)" by (simp add: andThen_def)
    with k(2) obtain es1 where "h @ es = (h @ es0) @ es1" "list_all (\<lambda>e. \<not> isDelete e) es1"
      by (rule emits_run)
    with r(2) False show ?thesis by (auto simp: list_all_iff list_ex_iff)
  qed
qed

section \<open>Where the reconciliation panics\<close>

text \<open>
  C40. The engine cannot run a data backup to its end: once the chart of a backup is installed, every
  reconciliation in the phase Executing panics, because the status handler of backups is created without
  the backup.
\<close>

theorem backup_executing_panics:
  assumes "osPhase st = ''Executing''"
    and "InstallDataOperationHelmIfNotExist cl engine ctx (implementOf cl (ODataBackup b)) h = (Ret None, h')"
  shows "ReconcileOperation cl engine ctx st (implementOf cl (ODataBackup b)) h = (Panic ''nil pointer dereference'', h')"
  using assms
  by (simp add: ReconcileOperation_def reconcileExecuting_def andThen_def updateByHandler_def
      implementOf_def dataBackupOperation_def dataBackupOnceStatus_def panic_def)

text \<open>
  Releasing the dataset of a migration that names a runtime type panics if the dataset is gone,
  although a missing dataset is meant to be ignored: the error is wrapped, and a type assertion on it fails.
\<close>

theorem migrate_release_panics:
  assumes "mgTo mg = Some t" and "tmName t \<noteq> ''''" and "mgRuntimeType mg \<noteq> ''''"
    and "clGetDataset cl h (tmName t) (migrateNamespace mg t) = Inl (NotFound s)"
  shows "ReleaseTargetDataset cl (implementOf cl (ODataMigrate mg)) h =
    (Panic ''interface conversion'', h @ [GotDataset (tmName t) (migrateNamespace mg t) (Inl (NotFound s))])"
proof -
  have "fst (releaseLockOnce cl (implementOf cl (ODataMigrate mg)) h) = Panic ''interface conversion'' \<and>
      snd (releaseLockOnce cl (implementOf cl (ODataMigrate mg)) h) =
        h @ [GotDataset (tmName t) (migrateNamespace mg t) (Inl (NotFound s))]"
    using assms
    by (simp add: releaseLockOnce_def implementOf_def dataMigrateOperation_def GetTargetDatasetOfMigrate_def
        GetTargetDatasetNamespacedNameOfMigrate_def GetDataset_def andThen_def call_def ret_def panic_def Let_def
        IgnoreNotFound_def)
  then show ?thesis
    by (simp add: ReleaseTargetDataset_def RetryOnConflict_def DefaultBackoff_Steps_def numeral_eq_Suc andThen_def
        case_prod_beta)
qed

section \<open>Examples\<close>

definition readyCluster :: cluster where
  "readyCluster = downCluster
     \<lparr>clGetDataset := \<lambda>_ name _. if name = ''demo'' then Inr exampleDataset else Inl (NotFound name),
      clUpdateDatasetStatus := \<lambda>_ _. None, clUpdateOperationStatus := \<lambda>_ _. None,
      clDeleteOperation := \<lambda>_ _. Some (NotFound ''a''), clNow := \<lambda>_. 100 * second,
      clRuntimeReady := \<lambda>_ _. True, clLookPath := \<lambda>_. Some ''/bin/ddc-helm'',
      clRunHelm := \<lambda>_ _. ProcOk ''STATUS: deployed''\<rparr>"

definition exampleCtx :: ReconcileRequestContext where
  "exampleCtx = \<lparr>ctxNamespace = ''default'', ctxName = ''demo'', ctxDataset = exampleDataset,
     ctxRuntimeType = ''alluxio'', ctxEngineImpl = ''alluxio''\<rparr>"

definition exampleEngine :: Engine where
  "exampleEngine = \<lparr>engId = ''default-demo'', engNamespace = ''default'', engName = ''demo'', engImpl = ''alluxio'',
     engReference = False\<rparr>"

definition loadInPhase :: "string \<Rightarrow> OpObject" where
  "loadInPhase phase = ODataLoad (exampleLoad ''a'' (exampleStatus phase))"

lemma validName_a: "validName ''a''"
  by code_simp

abbreviation pendingRun :: "reconcileResult out \<times> event list" where
  "pendingRun \<equiv> ReconcileOperation readyCluster exampleEngine exampleCtx (exampleStatus ''Pending'')
     (implementOf readyCluster (loadInPhase ''Pending'')) []"

lemma pendingRun_writes:
  "UpdatedOperationStatus (loadInPhase ''Executing'') None \<in> set (snd pendingRun)"
  by code_simp

theorem executing_is_registered_witness:
  "osPhase (GetOperationStatus (loadInPhase ''Executing'')) = ''Executing'' \<and>
    (\<exists>pre d. snd pendingRun = pre @ [UpdatedOperationStatus (loadInPhase ''Executing'') None] \<and>
       lastSeen ([] @ pre) d \<and>
       omName (opMeta (loadInPhase ''Pending'')) \<in>
         set (holders d (GetOperationType (implementOf readyCluster (loadInPhase ''Pending'')))))"
proof (rule executing_is_registered)
  show "validName (omName (opMeta (loadInPhase ''Pending'')))" by code_simp
  show "pendingRun = (fst pendingRun, [] @ snd pendingRun)" by simp
qed (simp add: exampleStatus_def, rule pendingRun_writes)

theorem release_unregisters_witness:
  "\<exists>h'. ReleaseTargetDataset readyCluster (implementOf readyCluster (loadInPhase ''Failed'')) [] = (Ret None, h') \<and>
     (releasedSince (implementOf readyCluster (loadInPhase ''Failed'')) (omName (opMeta (loadInPhase ''Failed''))) [] h' \<or> datasetMissing h')"
proof -
  let ?run = "ReleaseTargetDataset readyCluster (implementOf readyCluster (loadInPhase ''Failed'')) []"
  have "fst ?run = Ret None" by code_simp
  then have run: "?run = (Ret None, snd ?run)" by (metis prod.collapse)
  have "validName (omName (opMeta (loadInPhase ''Failed'')))" by code_simp
  from release_unregisters [OF this run] run show ?thesis by blast
qed

text \<open>A ready cluster in which every dataset can be read.\<close>

definition openCluster :: cluster where
  "openCluster = readyCluster\<lparr>clGetDataset := \<lambda>_ _ _. Inr exampleDataset\<rparr>"

theorem pending_progress_witness:
  "\<exists>h'. ReconcileOperation openCluster exampleEngine exampleCtx (exampleStatus ''Pending'')
      (implementOf openCluster (loadInPhase ''Pending'')) [] =
    (Ret NoRequeue, h' @ [UpdatedOperationStatus
       (setOpStatus ((exampleStatus ''Pending'')\<lparr>osPhase := ''Executing''\<rparr>) (loadInPhase ''Pending'')) None])"
  by (rule pending_progress) (simp_all add: exampleStatus_def openCluster_def readyCluster_def)

text \<open>A finished operation with a time to live that is used up, and which somebody else has deleted.\<close>

definition expiredStatus :: OperationStatus where
  "expiredStatus = (exampleStatus ''Complete'')\<lparr>osConditions := [failedCondition '''' '''' 0]\<rparr>"

definition expiredLoad :: OpObject where
  "expiredLoad = ODataLoad ((exampleLoad ''a'' expiredStatus)\<lparr>dlTTL := Some 10\<rparr>)"

theorem deleted_iff_expired_witness:
  "\<exists>err. snd (ReconcileOperation readyCluster exampleEngine exampleCtx expiredStatus (implementOf readyCluster expiredLoad) []) =
      [ReadClock (clNow readyCluster []), DeletedOperation expiredLoad err] \<and>
    fst (ReconcileOperation readyCluster exampleEngine exampleCtx expiredStatus (implementOf readyCluster expiredLoad) []) =
      Ret (RequeueIfError err)"
proof -
  let ?run = "ReconcileOperation readyCluster exampleEngine exampleCtx expiredStatus (implementOf readyCluster expiredLoad) []"
  have "?run = (fst ?run, [] @ snd ?run)" by simp
  from deleted_iff_expired [OF _ this] show ?thesis
    by (simp add: expiredStatus_def exampleStatus_def expired_def expiredLoad_def implementOf_def
        dataLoadOperation_def ttlOfPolicy_def exampleLoad_def failedCondition_def readyCluster_def)
qed

definition exampleBackup :: DataBackup where
  "exampleBackup = \<lparr>dbMeta = exampleMeta ''b'', dbDataset = ''demo'', dbBackupPath = ''local:///data'',
     dbRunAfter = None, dbTTL = None, dbStatus = exampleStatus ''Executing''\<rparr>"

theorem backup_executing_panics_witness:
  "ReconcileOperation readyCluster exampleEngine exampleCtx (exampleStatus ''Executing'')
      (implementOf readyCluster (ODataBackup exampleBackup)) [] =
    (Panic ''nil pointer dereference'',
     snd (InstallDataOperationHelmIfNotExist readyCluster exampleEngine exampleCtx
       (implementOf readyCluster (ODataBackup exampleBackup)) []))"
proof (rule backup_executing_panics)
  have "fst (InstallDataOperationHelmIfNotExist readyCluster exampleEngine exampleCtx
      (implementOf readyCluster (ODataBackup exampleBackup)) []) = Ret None"
    by code_simp
  then show "InstallDataOperationHelmIfNotExist readyCluster exampleEngine exampleCtx
      (implementOf readyCluster (ODataBackup exampleBackup)) [] = (Ret None,
      snd (InstallDataOperationHelmIfNotExist readyCluster exampleEngine exampleCtx
        (implementOf readyCluster (ODataBackup exampleBackup)) []))"
    by (metis prod.collapse)
qed (simp add: exampleStatus_def)

definition exampleMigrate :: DataMigrate where
  "exampleMigrate = \<lparr>mgMeta = exampleMeta ''m'', mgFrom = None,
     mgTo = Some \<lparr>tmName = ''gone'', tmNamespace = '''', tmPath = ''''\<rparr>, mgRuntimeType = ''juicefs'',
     mgPolicy = ''Once'', mgRunAfter = None, mgTTL = None, mgParallelism = 1, mgParallelOptions = [],
     mgStatus = exampleStatus ''Failed''\<rparr>"

theorem migrate_release_panics_witness:
  "ReleaseTargetDataset readyCluster (implementOf readyCluster (ODataMigrate exampleMigrate)) [] =
    (Panic ''interface conversion'', [] @ [GotDataset
       (tmName \<lparr>tmName = ''gone'', tmNamespace = '''', tmPath = ''''\<rparr>)
       (migrateNamespace exampleMigrate \<lparr>tmName = ''gone'', tmNamespace = '''', tmPath = ''''\<rparr>)
       (Inl (NotFound ''gone''))])"
  by (rule migrate_release_panics) (simp_all add: exampleMigrate_def readyCluster_def)

end
