(* ===== verification/Operation_Controller.thy ===== *)
theory Operation_Controller
  imports Operation_Engine
begin

text \<open>
  The controllers of data operations: \<open>pkg/controllers/operation_controller.go\<close>, the four reconcilers of
  \<open>pkg/controllers/v1alpha1\<close> that build on it, and the engine factory \<open>pkg/ddc/factory.go\<close>. The cache of
  engines, which all reconciliations share under a mutex, is a function of the history: the events
  \<open>StoredEngine\<close> and \<open>RemovedEngine\<close> are the writes to it.
\<close>

section \<open>ddc/factory.go\<close>

definition GenerateEngineID :: "string \<Rightarrow> string \<Rightarrow> string" where
  "GenerateEngineID namespace name = namespace @ ''-'' @ name"

definition buildFuncMap :: "string list" where
  "buildFuncMap = [''alluxio'', ''jindo'', ''jindofsx'', ''jindocache'', ''goosefs'', ''juicefs'', ''thin'', ''efc'',
     ''vineyard'', ''cache'']"

definition CreateEngine :: "cluster \<Rightarrow> string \<Rightarrow> ReconcileRequestContext \<Rightarrow> (goerr + Engine) cgo" where
  "CreateEngine cl eid ctx =
     (if ctxEngineImpl ctx \<in> set buildFuncMap then
        andThen (call (\<lambda>h. clBuildEngine cl h (ctxEngineImpl ctx) (ctxNamespace ctx) (ctxName ctx)) (BuiltEngine eid)) (\<lambda>r.
        ret (case r of
               Inl e \<Rightarrow> Inl e
             | Inr isReference \<Rightarrow>
                 Inr \<lparr>engId = eid, engNamespace = ctxNamespace ctx, engName = ctxName ctx,
                      engImpl = ctxEngineImpl ctx, engReference = isReference\<rparr>))
      else ret (Inl (Err (''failed to build the engine due to the engineImpl '' @ ctxEngineImpl ctx @
                          '' is not found''))))"

definition InferEngineImpl :: "string \<Rightarrow> string \<Rightarrow> string" where
  "InferEngineImpl valueFileConfigmap defaultImpl =
     (if valueFileConfigmap = '''' then defaultImpl
      else
        let parts = Split CHR ''-'' valueFileConfigmap in
        if length parts \<ge> 3 \<and> parts ! (length parts - 2) \<in> set buildFuncMap
        then parts ! (length parts - 2) else defaultImpl)"

text \<open>\<open>pkg/utils/jindo/jindo.go\<close>\<close>

definition GetDefaultEngineImpl :: "cluster \<Rightarrow> string" where
  "GetDefaultEngineImpl cl =
     (let env = clGetenv cl ''JINDO_ENGINE_TYPE'' in
      if env = ''jindo'' \<or> env = ''jindofsx'' then env else ''jindocache'')"

section \<open>The reconcilers' Build\<close>

fun kindOf :: "OpObject \<Rightarrow> string" where
  "kindOf (ODataLoad _) = ''DataLoad''"
| "kindOf (ODataBackup _) = ''DataBackup''"
| "kindOf (ODataMigrate _) = ''DataMigrate''"
| "kindOf (ODataProcess _) = ''DataProcess''"

text \<open>The type assertion of \<open>Build\<close> in each of the reconcilers.\<close>

definition Build :: "cluster \<Rightarrow> string \<Rightarrow> OpObject \<Rightarrow> goerr + OperationInterface" where
  "Build cl kind object =
     (if kindOf object = kind then Inr (implementOf cl object)
      else Inl (Err (''object is not a '' @ kind)))"

section \<open>operation\_controller.go\<close>

text \<open>The engines of an \<open>OperationReconciler\<close>.\<close>

fun storeEngine :: "event \<Rightarrow> (string \<times> Engine) list \<Rightarrow> (string \<times> Engine) list" where
  "storeEngine (StoredEngine eid engine) m = AList.update eid engine m"
| "storeEngine (RemovedEngine eid) m = AList.delete eid m"
| "storeEngine _ m = m"

definition enginesOf :: "event list \<Rightarrow> (string \<times> Engine) list" where
  "enginesOf h = fold storeEngine h []"

definition engineOf :: "string \<Rightarrow> (Engine option) cgo" where
  "engineOf eid h = (Ret (map_of (enginesOf h) eid), h)"

definition GetOrCreateEngine :: "cluster \<Rightarrow> ReconcileRequestContext \<Rightarrow> (goerr + Engine) cgo" where
  "GetOrCreateEngine cl ctx =
     (let eid = GenerateEngineID (ctxNamespace ctx) (ctxName ctx) in
      andThen (engineOf eid) (\<lambda>found.
      case found of
        Some engine \<Rightarrow> ret (Inr engine)
      | None \<Rightarrow>
          andThen (CreateEngine cl eid ctx) (\<lambda>r.
          case r of
            Inl e \<Rightarrow> ret (Inl e)
          | Inr engine \<Rightarrow> andThen (emit (StoredEngine eid engine)) (\<lambda>_. ret (Inr engine)))))"

definition RemoveEngine :: "string \<times> string \<Rightarrow> unit cgo" where
  "RemoveEngine namespacedName =
     (case namespacedName of (namespace, name) \<Rightarrow> emit (RemovedEngine (GenerateEngineID namespace name)))"

text \<open>
  The object of a data operation always has metadata, so \<open>utils.GetObjectMeta\<close> does not fail. An update
  answers with the new generation of the object.
\<close>

definition updateOperation :: "cluster \<Rightarrow> OpObject \<Rightarrow> (goerr + int) cgo" where
  "updateOperation cl object = call (\<lambda>h. clUpdateOperation cl h object) (UpdatedOperation object)"

definition addFinalizerAndRequeue :: "cluster \<Rightarrow> string \<Rightarrow> OpObject \<Rightarrow> reconcileResult cgo" where
  "addFinalizerAndRequeue cl finalizer object =
     (let objectMeta = opMeta object;
          prevGeneration = omGeneration objectMeta in
      andThen (updateOperation cl (setOpMeta (objectMeta\<lparr>omFinalizers := omFinalizers objectMeta @ [finalizer]\<rparr>) object)) (\<lambda>r.
      ret (case r of
             Inl e \<Rightarrow> RequeueIfError (Some e)
           | Inr generation \<Rightarrow> RequeueImmediatelyUnlessGenerationChanged prevGeneration generation)))"

definition addOwnerAndRequeue :: "cluster \<Rightarrow> OpObject \<Rightarrow> Dataset \<Rightarrow> reconcileResult cgo" where
  "addOwnerAndRequeue cl object dataset =
     (let objectMeta = opMeta object;
          owner = \<lparr>orAPIVersion = dAPIVersion dataset, orKind = dKind dataset, orName = omName (dMeta dataset),
                   orUID = omUID (dMeta dataset), orController = None\<rparr> in
      andThen (updateOperation cl (setOpMeta (objectMeta\<lparr>omOwnerReferences := omOwnerReferences objectMeta @ [owner]\<rparr>) object)) (\<lambda>r.
      ret (case r of Inl e \<Rightarrow> RequeueIfError (Some e) | Inr _ \<Rightarrow> RequeueImmediately)))"

text \<open>One \<open>Get\<close> of the runtime; what is read of it is the name of its value file.\<close>

definition getRuntimeObjectAndEngineImpl :: "cluster \<Rightarrow> string \<Rightarrow> string \<Rightarrow> string \<Rightarrow> (goerr + string) cgo" where
  "getRuntimeObjectAndEngineImpl cl runtimeType name namespace =
     (if runtimeType \<in> {''alluxio'', ''jindo'', ''goosefs'', ''juicefs'', ''efc'', ''thin'', ''vineyard'', ''cache''} then
        andThen (call (\<lambda>h. clGetRuntime cl h runtimeType name namespace) (GotRuntime runtimeType name namespace)) (\<lambda>r.
        ret (case r of
               Inl e \<Rightarrow> Inl e
             | Inr valueFile \<Rightarrow>
                 if runtimeType = ''cache'' then Inr ''cache''
                 else if runtimeType = ''thin'' then Inr ''thin''
                 else if runtimeType = ''jindo'' then Inr (InferEngineImpl valueFile (GetDefaultEngineImpl cl))
                 else Inr (InferEngineImpl valueFile runtimeType)))
      else ret (Inl (Err (''runtimeType '' @ runtimeType @ '' is not supported''))))"

definition ReconcileDeletion :: "cluster \<Rightarrow> string \<Rightarrow> OperationInterface \<Rightarrow> reconcileResult cgo" where
  "ReconcileDeletion cl finalizer implement =
     (case GetReleaseNameSpacedName implement of
        (namespace, name) \<Rightarrow>
          andThen (DeleteReleaseIfExists cl name namespace) (\<lambda>err.
          if err \<noteq> None then ret (RequeueIfError err)
          else
            andThen (ReleaseTargetDataset cl implement) (\<lambda>err1.
            if IgnoreNotFound err1 \<noteq> None then ret (RequeueIfError err1)
            else
              andThen (forEach (GetPossibleTargetDatasetNamespacedNames implement) RemoveEngine) (\<lambda>_.
              let object = GetOperationObject implement; objectMeta = opMeta object in
              if omDeletionTimestamp objectMeta \<noteq> None then
                andThen (updateOperation cl
                  (setOpMeta (objectMeta\<lparr>omFinalizers := RemoveString (omFinalizers objectMeta) finalizer\<rparr>) object)) (\<lambda>r.
                ret (case r of Inl e \<Rightarrow> RequeueIfError (Some e) | Inr _ \<Rightarrow> NoRequeue))
              else ret NoRequeue))))"

definition ReconcileInternal :: "cluster \<Rightarrow> string \<Rightarrow> string \<Rightarrow> OpObject \<Rightarrow> OperationStatus \<Rightarrow> reconcileResult cgo" where
  "ReconcileInternal cl kind finalizer object opStatus =
     (case Build cl kind object of
        Inl e \<Rightarrow> ret (RequeueIfError (Some e))
      | Inr implement \<Rightarrow>
          if omDeletionTimestamp (opMeta object) \<noteq> None then ReconcileDeletion cl finalizer implement
          else
            andThen (GetTargetDataset implement) (\<lambda>r.
            case r of
              Inl e \<Rightarrow>
                if IgnoreNotFound (Some e) = None then
                  andThen (recordEvent object ''Warning'' ''TargetDatasetNotFound''
                             (''Target dataset not found: '' @ errText e)) (\<lambda>_.
                  ret (RequeueAfterInterval (20 * second)))
                else ret (RequeueIfError (Some (Wrapped ''Unable to get dataset'' e)))
            | Inr targetDataset \<Rightarrow>
                (case GetRuntimeByCategory (dstRuntimes (dStatus targetDataset)) ''Accelerate'' of
                   (index, None) \<Rightarrow>
                     andThen (recordEvent object ''Normal'' ''RuntimeNotReady''
                                ''Bounded accelerate runtime not ready'') (\<lambda>_.
                     ret (RequeueAfterInterval (20 * second)))
                 | (index, Some boundedRuntime) \<Rightarrow>
                     andThen (getRuntimeObjectAndEngineImpl cl (rtType boundedRuntime) (rtName boundedRuntime)
                                (rtNamespace boundedRuntime)) (\<lambda>r1.
                     case r1 of
                       Inl e \<Rightarrow>
                         ret (if IgnoreNotFound (Some e) = None then NoRequeue
                              else RequeueIfError (Some (Wrapped ''Unable to get ddc runtime'' e)))
                     | Inr engineImpl \<Rightarrow>
                         let ctx = \<lparr>ctxNamespace = omNamespace (dMeta targetDataset), ctxName = omName (dMeta targetDataset),
                                    ctxDataset = targetDataset, ctxRuntimeType = rtType boundedRuntime,
                                    ctxEngineImpl = engineImpl\<rparr> in
                         andThen (GetOrCreateEngine cl ctx) (\<lambda>r2.
                         case r2 of
                           Inl e \<Rightarrow>
                             andThen (recordEvent object ''Warning'' ''ErrorProcessDataset''
                                        (''Process '' @ GetOperationType implement @ '' error '' @ errText e)) (\<lambda>_.
                             ret (RequeueIfError (Some (Wrapped ''Failed to create or get engine'' e))))
                         | Inr engine \<Rightarrow>
                             if \<not> ContainsString (omFinalizers (opMeta object)) finalizer
                             then addFinalizerAndRequeue cl finalizer object
                             else if \<not> ContainsOwners (omOwnerReferences (opMeta object)) targetDataset
                             then addOwnerAndRequeue cl object targetDataset
                             else Operate cl engine ctx opStatus implement)))))"

section \<open>The reconcilers\<close>

definition reconcileKind ::
  "cluster \<Rightarrow> string \<Rightarrow> string \<Rightarrow> (goerr + OpObject) cgo \<Rightarrow> reconcileResult cgo" where
  "reconcileKind cl kind finalizer getObject =
     andThen getObject (\<lambda>r.
     case r of
       Inl e \<Rightarrow>
         ret (if IgnoreNotFound (Some e) = None then NoRequeue
              else RequeueIfError (Some (Wrapped (''failed to get '' @ kind @ '' info'') e)))
     | Inr object \<Rightarrow> ReconcileInternal cl kind finalizer object (GetOperationStatus object))"

definition DataLoadReconcile :: "cluster \<Rightarrow> string \<Rightarrow> string \<Rightarrow> reconcileResult cgo" where
  "DataLoadReconcile cl name namespace =
     reconcileKind cl ''DataLoad'' ''fluid-dataload-controller-finalizer'' (GetDataLoad cl name namespace)"

definition DataBackupReconcile :: "cluster \<Rightarrow> string \<Rightarrow> string \<Rightarrow> reconcileResult cgo" where
  "DataBackupReconcile cl name namespace =
     reconcileKind cl ''DataBackup'' ''fluid-databackup-controller-finalizer'' (GetDataBackup cl name namespace)"

definition DataMigrateReconcile :: "cluster \<Rightarrow> string \<Rightarrow> string \<Rightarrow> reconcileResult cgo" where
  "DataMigrateReconcile cl name namespace =
     reconcileKind cl ''DataMigrate'' ''fluid-datamigrate-controller-finalizer'' (GetDataMigrate cl name namespace)"

definition DataProcessReconcile :: "cluster \<Rightarrow> string \<Rightarrow> string \<Rightarrow> reconcileResult cgo" where
  "DataProcessReconcile cl name namespace =
     reconcileKind cl ''DataProcess'' ''fluid-dataprocess-controller-finalizer'' (GetDataProcess cl name namespace)"

section \<open>The cache of engines\<close>

lemma enginesOf_snoc: "enginesOf (h @ [e]) = storeEngine e (enginesOf h)"
  by (simp add: enginesOf_def)

lemma distinct_enginesOf: "distinct (map fst (enginesOf h))"
  unfolding enginesOf_def
proof (induction h rule: rev_induct)
  case (snoc e h)
  then show ?case by (cases e) (simp_all add: distinct_update distinct_delete)
qed simp

lemma GetOrCreateEngine_stored:
  assumes "GetOrCreateEngine cl ctx h = (Ret (Inr engine), h')"
  shows "map_of (enginesOf h') (GenerateEngineID (ctxNamespace ctx) (ctxName ctx)) = Some engine"
  using assms
  by (auto simp: GetOrCreateEngine_def engineOf_def andThen_def emit_def ret_def Let_def enginesOf_def
      AList.update_conv' CreateEngine_def call_def split: option.splits sum.splits out.splits prod.splits if_splits)

text \<open>
  Engines are cached by namespace and name: after a successful call, the next call for the same dataset
  returns the same engine without building one, until the engine is removed.
\<close>

theorem engine_cached:
  assumes "GetOrCreateEngine cl ctx h = (Ret (Inr engine), h')"
    and "ctxNamespace ctx' = ctxNamespace ctx" and "ctxName ctx' = ctxName ctx"
  shows "GetOrCreateEngine cl ctx' h' = (Ret (Inr engine), h') \<and>
    map_of (enginesOf (snd (RemoveEngine (ctxNamespace ctx, ctxName ctx) h')))
      (GenerateEngineID (ctxNamespace ctx) (ctxName ctx)) = None"
proof -
  have "map_of (enginesOf h') (GenerateEngineID (ctxNamespace ctx) (ctxName ctx)) = Some engine"
    by (rule GetOrCreateEngine_stored [OF assms(1)])
  with assms(2,3) show ?thesis
    by (simp add: GetOrCreateEngine_def Let_def engineOf_def andThen_def ret_def RemoveEngine_def emit_def enginesOf_snoc
        AList.delete_conv')
qed

text \<open>
  Two datasets share one engine if their namespaces and names differ only in where the dash between
  them is: the engine of the dataset \<open>c\<close> in the namespace \<open>a-b\<close> serves the operations on the dataset \<open>b-c\<close>
  in the namespace \<open>a\<close>.
\<close>

theorem engine_shared_by_other_dataset:
  assumes "GetOrCreateEngine cl ctx h = (Ret (Inr engine), h')"
    and "ctxNamespace ctx = a @ ''-'' @ b" and "ctxName ctx = c"
    and "ctxNamespace ctx' = a" and "ctxName ctx' = b @ ''-'' @ c"
  shows "GetOrCreateEngine cl ctx' h' = (Ret (Inr engine), h')"
proof -
  have "map_of (enginesOf h') (GenerateEngineID (ctxNamespace ctx) (ctxName ctx)) = Some engine"
    by (rule GetOrCreateEngine_stored [OF assms(1)])
  with assms(2-5) show ?thesis
    by (simp add: GetOrCreateEngine_def Let_def engineOf_def andThen_def ret_def GenerateEngineID_def)
qed

lemma buildFuncMap_plain: "impl \<in> set buildFuncMap \<Longrightarrow> CHR ''-'' \<notin> set impl"
  by (auto simp: buildFuncMap_def)

text \<open>
  The engine implementation is read back from the name of the value file, \<open><dataset>-<impl>-values\<close>,
  for every registered implementation and every name of a dataset, also one with dashes.
\<close>

theorem InferEngineImpl_values:
  assumes "impl \<in> set buildFuncMap"
  shows "InferEngineImpl (name @ ''-'' @ impl @ ''-values'') defaultImpl = impl"
proof -
  have "Split CHR ''-'' (name @ ''-'' @ impl @ ''-values'') = Split CHR ''-'' name @ [impl, ''values'']"
    using Split_append_at [of "CHR ''-''" name "impl @ ''-values''"]
      Split_append_sep [OF buildFuncMap_plain [OF assms], of "''values''"]
    by simp
  moreover have "length (Split CHR ''-'' name) \<ge> 1" by (simp add: Suc_le_eq)
  ultimately show ?thesis using assms by (simp add: InferEngineImpl_def nth_append)
qed

section \<open>Work is done under a finalizer\<close>

text \<open>The events by which an operation takes effect: it changes a dataset, installs a chart, moves on or deletes itself.\<close>

fun takesEffect :: "event \<Rightarrow> bool" where
  "takesEffect (UpdatedDatasetStatus _ _) = True"
| "takesEffect (UpdatedOperationStatus _ _) = True"
| "takesEffect (DeletedOperation _ _) = True"
| "takesEffect (RanHelm cmd r) = isHelmInstall (RanHelm cmd r)"
| "takesEffect _ = False"

lemma benign_noEffect: "benign e \<Longrightarrow> \<not> takesEffect e"
  by (cases e) (auto simp: benign_def)

lemmas emits_noEffect = emits_mono [OF _ benign_noEffect]

lemma yields_target: "yields (\<lambda>r. \<forall>d. r = Inr d \<longrightarrow> (\<exists>h name ns. clGetDataset cl h name ns = Inr d))
    (GetTargetDataset (implementOf cl ob))"
  unfolding yields_def
proof (intro allI impI)
  fix h r d
  assume "fst (GetTargetDataset (implementOf cl ob) h) = Ret r" "r = Inr d"
  then show "\<exists>h name ns. clGetDataset cl h name ns = Inr d"
    using wp_run [OF operation_contract.target_read [OF implementOf_contract, of cl ob h]]
    by (metis prod.collapse)
qed

lemma emits_engineOf [emits_rules]: "emits P (engineOf eid)"
  by (simp add: emits_def engineOf_def)

lemma noEffect_prepare:
  "emits (\<lambda>e. \<not> takesEffect e) (getRuntimeObjectAndEngineImpl cl ty name ns)"
  "emits (\<lambda>e. \<not> takesEffect e) (GetOrCreateEngine cl ctx)"
  "emits (\<lambda>e. \<not> takesEffect e) (addFinalizerAndRequeue cl fin ob)"
  "emits (\<lambda>e. \<not> takesEffect e) (addOwnerAndRequeue cl ob d)"
  unfolding getRuntimeObjectAndEngineImpl_def GetOrCreateEngine_def CreateEngine_def addFinalizerAndRequeue_def
    addOwnerAndRequeue_def updateOperation_def Let_def
  by (auto intro!: emits_rules)

lemma noEffect_unprotected:
  assumes "omDeletionTimestamp (opMeta ob) = None"
    and "\<not> (fin \<in> set (omFinalizers (opMeta ob)) \<and>
      (\<exists>h name ns d. clGetDataset cl h name ns = Inr d \<and> ContainsOwners (omOwnerReferences (opMeta ob)) d))"
  shows "emits (\<lambda>e. \<not> takesEffect e) (ReconcileInternal cl kind fin ob st)"
proof -
  have target: "emits (\<lambda>e. \<not> takesEffect e) (GetTargetDataset (implementOf cl ob))"
    by (rule emits_noEffect [OF operation_contract.target_benign [OF implementOf_contract]])
  show ?thesis
    unfolding ReconcileInternal_def Build_def Let_def
    using assms
    by (auto intro!: emits_andThen_yields [OF target yields_target] emits_rules noEffect_prepare
        simp: ContainsString_def list_ex_iff split: sum.splits prod.splits option.splits)
qed

text \<open>
  C16. Work is done only under a finalizer: if the reconciliation of an operation that is not being deleted
  changes a dataset, installs a chart, updates the status or deletes the operation, then the object
  carries the finalizer of its controller and is owned by a dataset that the API server returned.
\<close>

theorem work_needs_finalizer:
  assumes "omDeletionTimestamp (opMeta ob) = None"
    and "ReconcileInternal cl kind fin ob st h = (res, h @ es)" and "list_ex takesEffect es"
  shows "fin \<in> set (omFinalizers (opMeta ob)) \<and>
    (\<exists>h name ns d. clGetDataset cl h name ns = Inr d \<and> ContainsOwners (omOwnerReferences (opMeta ob)) d)"
proof (rule ccontr)
  assume "\<not> ?thesis"
  from noEffect_unprotected [OF assms(1) this] have "emits (\<lambda>e. \<not> takesEffect e) (ReconcileInternal cl kind fin ob st)" .
  from emits_run [OF this assms(2)] assms(3) show False by (auto simp: list_all_iff list_ex_iff)
qed

section \<open>Deletion\<close>

fun isUpdate :: "event \<Rightarrow> bool" where
  "isUpdate (UpdatedOperation _ _) = True"
| "isUpdate _ = False"

lemma RemoveEngine_run [simp]:
  "RemoveEngine (ns, name) h = (Ret (), h @ [RemovedEngine (GenerateEngineID ns name)])"
  by (simp add: RemoveEngine_def emit_def)

lemma forEach_RemoveEngine:
  "\<exists>es. forEach xs RemoveEngine h = (Ret (), h @ es) \<and> list_all (\<lambda>e. \<not> isUpdate e) es"
proof (induction xs arbitrary: h)
  case (Cons x xs)
  obtain es where "forEach xs RemoveEngine (h @ [RemovedEngine (GenerateEngineID (fst x) (snd x))]) =
      (Ret (), (h @ [RemovedEngine (GenerateEngineID (fst x) (snd x))]) @ es)" "list_all (\<lambda>e. \<not> isUpdate e) es"
    using Cons.IH by blast
  then show ?case
    by (cases x) (auto simp: andThen_def)
qed (simp add: ret_def)

lemma quiet_release:
  "emits (\<lambda>e. \<not> isUpdate e) (DeleteReleaseIfExists cl name ns)"
  "emits (\<lambda>e. \<not> isUpdate e) (ReleaseTargetDataset cl (implementOf cl ob))"
proof -
  show "emits (\<lambda>e. \<not> isUpdate e) (DeleteReleaseIfExists cl name ns)"
    by (simp add: emits_helm)
  have "\<not> isUpdate e" if "benign e" for e using that by (cases e) auto
  note target = emits_mono [OF operation_contract.target_benign [OF implementOf_contract, of cl ob] this]
  show "emits (\<lambda>e. \<not> isUpdate e) (ReleaseTargetDataset cl (implementOf cl ob))"
    unfolding ReleaseTargetDataset_def releaseLockOnce_def Let_def updateDatasetStatus_def
    by (auto intro!: emits_rules target)
qed

text \<open>
  C5. The finalizer of an operation is removed last: when the controller updates an operation that is being
  deleted, the helm release has been deleted or found missing and the registration in the dataset has been
  released or the dataset is gone, and the update drops the finalizer of the controller and nothing else.
\<close>

theorem finalizer_removed_last:
  assumes "ReconcileDeletion cl fin (implementOf cl ob) h = (res, h @ es)" and "list_ex isUpdate es"
    and "GetReleaseNameSpacedName (implementOf cl ob) = (ns, name)"
  shows "\<exists>h1 h2 err r pre.
    DeleteReleaseIfExists cl name ns h = (Ret None, h1) \<and>
    ReleaseTargetDataset cl (implementOf cl ob) h1 = (Ret err, h2) \<and> IgnoreNotFound err = None \<and>
    es = pre @ [UpdatedOperation (setOpMeta ((opMeta ob)
      \<lparr>omFinalizers := RemoveString (omFinalizers (opMeta ob)) fin\<rparr>) ob) r] \<and>
    (\<exists>mid. h @ pre = h2 @ mid) \<and> \<not> list_ex isUpdate pre"
proof -
  obtain o1 h1 where d: "DeleteReleaseIfExists cl name ns h = (o1, h1)" by (cases "DeleteReleaseIfExists cl name ns h")
  obtain es1 where es1: "h1 = h @ es1" "list_all (\<lambda>e. \<not> isUpdate e) es1" using emits_run [OF quiet_release(1) d] .
  obtain o2 h2 where r: "ReleaseTargetDataset cl (implementOf cl ob) h1 = (o2, h2)"
    by (cases "ReleaseTargetDataset cl (implementOf cl ob) h1")
  obtain es2 where es2: "h2 = h1 @ es2" "list_all (\<lambda>e. \<not> isUpdate e) es2" using emits_run [OF quiet_release(2) r] .
  obtain es3 where f: "forEach (GetPossibleTargetDatasetNamespacedNames (implementOf cl ob)) RemoveEngine h2 = (Ret (), h2 @ es3)"
    "list_all (\<lambda>e. \<not> isUpdate e) es3" using forEach_RemoveEngine by blast
  have o1: "o1 = Ret None"
  proof (rule ccontr)
    assume "o1 \<noteq> Ret None"
    then have "es = es1" using assms(1,3) d es1(1)
      by (cases o1) (auto simp: ReconcileDeletion_def andThen_def ret_def split: if_splits)
    with assms(2) es1(2) show False by (auto simp: list_ex_iff list_all_iff)
  qed
  obtain err where o2: "o2 = Ret err" "IgnoreNotFound err = None"
  proof (rule ccontr)
    assume no: "\<not> thesis"
    then have "es = es1 @ es2" using assms(1,3) d es1(1) o1 r es2(1) that
      by (cases o2) (auto simp: ReconcileDeletion_def andThen_def ret_def split: if_splits)
    with assms(2) es1(2) es2(2) show False by (auto simp: list_ex_iff list_all_iff)
  qed
  show ?thesis
  proof (cases "omDeletionTimestamp (opMeta ob)")
    case None
    with assms(1,3) d o1 r o2 f(1) es1(1) es2(1) have "es = es1 @ es2 @ es3"
      by (auto simp: ReconcileDeletion_def andThen_def ret_def Let_def)
    with assms(2) es1(2) es2(2) f(2) show ?thesis by (auto simp: list_ex_iff list_all_iff)
  next
    case (Some t)
    with assms(1,3) d o1 r o2 f(1) es1(1) es2(1)
    obtain r' where "es = (es1 @ es2 @ es3) @ [UpdatedOperation (setOpMeta ((opMeta ob)
        \<lparr>omFinalizers := RemoveString (omFinalizers (opMeta ob)) fin\<rparr>) ob) r']"
      by (auto simp: ReconcileDeletion_def andThen_def ret_def Let_def updateOperation_def call_def)
    then show ?thesis using d o1 r o2 es1 es2 f(2)
      by (intro exI [of _ h1] exI [of _ h2] exI [of _ err] exI [of _ r'] exI [of _ "es1 @ es2 @ es3"])
        (auto simp: list_ex_iff list_all_iff)
  qed
qed

section \<open>Examples\<close>

definition loadFinalizer :: string where
  "loadFinalizer = ''fluid-dataload-controller-finalizer''"

text \<open>A cluster with an alluxio runtime, in which a load with finalizer and owner can be operated.\<close>

definition servedCluster :: cluster where
  "servedCluster = openCluster
     \<lparr>clGetRuntime := \<lambda>_ _ _ _. Inr ''demo-alluxio-values'', clBuildEngine := \<lambda>_ _ _ _. Inr False,
      clUpdateOperation := \<lambda>_ _. Inr 2, clRunHelm := \<lambda>_ _. ProcExit 1 ''release: not found''\<rparr>"

definition ownedMeta :: ObjectMeta where
  "ownedMeta = (exampleMeta ''a'')
     \<lparr>omFinalizers := [loadFinalizer],
      omOwnerReferences := [\<lparr>orAPIVersion = '''', orKind = ''Dataset'', orName = ''demo'', orUID = ''u1'',
        orController = None\<rparr>]\<rparr>"

definition ownedLoad :: OpObject where
  "ownedLoad = setOpMeta ownedMeta (loadInPhase ''Pending'')"

definition dyingLoad :: OpObject where
  "dyingLoad = setOpMeta (ownedMeta\<lparr>omDeletionTimestamp := Some 5\<rparr>) (loadInPhase ''Executing'')"

theorem work_needs_finalizer_witness:
  "loadFinalizer \<in> set (omFinalizers (opMeta ownedLoad)) \<and>
    (\<exists>h name ns d. clGetDataset servedCluster h name ns = Inr d \<and> ContainsOwners (omOwnerReferences (opMeta ownedLoad)) d)"
proof (rule work_needs_finalizer)
  let ?run = "ReconcileInternal servedCluster ''DataLoad'' loadFinalizer ownedLoad (exampleStatus ''Pending'') []"
  show "?run = (fst ?run, [] @ snd ?run)" by simp
  show "omDeletionTimestamp (opMeta ownedLoad) = None" by code_simp
  show "list_ex takesEffect (snd ?run)" by code_simp
qed

theorem finalizer_removed_last_witness:
  "\<exists>h1 h2 err r pre.
    DeleteReleaseIfExists servedCluster ''a-loader'' ''default'' [] = (Ret None, h1) \<and>
    ReleaseTargetDataset servedCluster (implementOf servedCluster dyingLoad) h1 = (Ret err, h2) \<and>
    IgnoreNotFound err = None \<and>
    snd (ReconcileDeletion servedCluster loadFinalizer (implementOf servedCluster dyingLoad) []) =
      pre @ [UpdatedOperation (setOpMeta ((opMeta dyingLoad)
        \<lparr>omFinalizers := RemoveString (omFinalizers (opMeta dyingLoad)) loadFinalizer\<rparr>) dyingLoad) r] \<and>
    (\<exists>mid. [] @ pre = h2 @ mid) \<and> \<not> list_ex isUpdate pre"
proof (rule finalizer_removed_last)
  let ?run = "ReconcileDeletion servedCluster loadFinalizer (implementOf servedCluster dyingLoad) []"
  show "?run = (fst ?run, [] @ snd ?run)" by simp
  show "list_ex isUpdate (snd ?run)" by code_simp
  show "GetReleaseNameSpacedName (implementOf servedCluster dyingLoad) = (''default'', ''a-loader'')" by code_simp
qed

theorem engine_cached_witness:
  "GetOrCreateEngine servedCluster exampleCtx (snd (GetOrCreateEngine servedCluster exampleCtx [])) =
      (Ret (Inr exampleEngine), snd (GetOrCreateEngine servedCluster exampleCtx [])) \<and>
    map_of (enginesOf (snd (RemoveEngine (ctxNamespace exampleCtx, ctxName exampleCtx)
        (snd (GetOrCreateEngine servedCluster exampleCtx [])))))
      (GenerateEngineID (ctxNamespace exampleCtx) (ctxName exampleCtx)) = None"
proof (rule engine_cached [where h = "[]"])
  show "GetOrCreateEngine servedCluster exampleCtx [] =
      (Ret (Inr exampleEngine), snd (GetOrCreateEngine servedCluster exampleCtx []))"
    by code_simp
qed simp_all

definition otherCtx :: ReconcileRequestContext where
  "otherCtx = exampleCtx\<lparr>ctxNamespace := ''default-demo'', ctxName := ''x''\<rparr>"

theorem engine_shared_by_other_dataset_witness:
  "GetOrCreateEngine servedCluster (exampleCtx\<lparr>ctxName := ''demo-x''\<rparr>) (snd (GetOrCreateEngine servedCluster otherCtx [])) =
    (Ret (Inr \<lparr>engId = ''default-demo-x'', engNamespace = ''default-demo'', engName = ''x'', engImpl = ''alluxio'',
               engReference = False\<rparr>), snd (GetOrCreateEngine servedCluster otherCtx []))"
proof (rule engine_shared_by_other_dataset [where h = "[]" and a = "''default''" and b = "''demo''" and c = "''x''"])
  show "GetOrCreateEngine servedCluster otherCtx [] =
      (Ret (Inr \<lparr>engId = ''default-demo-x'', engNamespace = ''default-demo'', engName = ''x'', engImpl = ''alluxio'',
               engReference = False\<rparr>), snd (GetOrCreateEngine servedCluster otherCtx []))"
    by code_simp
qed (simp_all add: otherCtx_def exampleCtx_def)

theorem InferEngineImpl_values_witness:
  "InferEngineImpl (''my-data'' @ ''-'' @ ''jindocache'' @ ''-values'') ''jindo'' = ''jindocache''"
  by (rule InferEngineImpl_values) (simp add: buildFuncMap_def)

end
