(* ===== verification/Data_Flow.thy ===== *)
theory Data_Flow
  imports Operation_Engine
begin

text \<open>
  The data flow controller, \<open>pkg/controllers/v1alpha1/dataflow\<close> (\<open>operations.go\<close>, \<open>dataflow_controller.go\<close>): it
  releases an operation that waits for another one (\<open>spec.runAfter\<close>) once that one is complete. A request
  is a namespace and a name, and all four kinds of operations are looked up under it.
\<close>

section \<open>operations.go\<close>

fun opRunAfter :: "OpObject \<Rightarrow> OperationRef option" where
  "opRunAfter (ODataLoad d) = dlRunAfter d"
| "opRunAfter (ODataBackup d) = dbRunAfter d"
| "opRunAfter (ODataMigrate d) = mgRunAfter d"
| "opRunAfter (ODataProcess d) = dpRunAfter d"

text \<open>\<open>updateStatusFn\<close>: read the operation again and set \<open>waitingFor.operationComplete\<close> back to false.\<close>

definition updateStatusFn :: "cluster \<Rightarrow> (goerr + OpObject) cgo \<Rightarrow> (goerr option) cgo" where
  "updateStatusFn cl getOp =
     andThen getOp (\<lambda>r.
     case r of
       Inl e \<Rightarrow> ret (if IgnoreNotFound (Some e) = None then None else Some e)
     | Inr tmp \<Rightarrow>
         let toUpdate = setOpStatus ((GetOperationStatus tmp)\<lparr>osWaitingFor := Some False\<rparr>) tmp in
         if GetOperationStatus toUpdate \<noteq> GetOperationStatus tmp
         then call (\<lambda>h. clUpdateOperationStatus cl h toUpdate) (UpdatedOperationStatus toUpdate)
         else ret None)"

definition reconcileOperationDataFlow ::
  "cluster \<Rightarrow> string \<Rightarrow> OpObject \<Rightarrow> OperationRef option \<Rightarrow> (goerr option) cgo \<Rightarrow> (bool \<times> goerr option) cgo" where
  "reconcileOperationDataFlow cl namespace object runAfter updateFn =
     (case runAfter of
        None \<Rightarrow> panic ''nil pointer dereference''
      | Some ref \<Rightarrow>
          let ob = orefObject ref;
              opRefNamespace = (if refNamespace ob \<noteq> '''' then refNamespace ob else namespace);
              named = refKind ob @ '' '' @ quoted (opRefNamespace @ ''/'' @ refName ob) in
          andThen (GetPrecedingOperationStatus cl (Some ob) opRefNamespace) (\<lambda>r.
          case r of
            Inl e \<Rightarrow>
              if IgnoreNotFound (Some e) = None then
                andThen (recordEvent object ''Warning'' ''DataOperationNotFound''
                           (''Preceding operation '' @ named @ '' not found'')) (\<lambda>_.
                ret (True, None))
              else ret (True, Some (Wrapped ''failed to get preceding operation status'' e))
          | Inr precedingOpStatus \<Rightarrow>
              if (case precedingOpStatus of None \<Rightarrow> False | Some st \<Rightarrow> osPhase st \<noteq> ''Complete'') then
                andThen (recordEvent object ''Normal'' ''DataOperationWaiting''
                           (''Waiting for operation '' @ named @ '' to complete'')) (\<lambda>_.
                ret (True, None))
              else
                andThen (RetryOnConflict updateFn) (\<lambda>err.
                ret (case err of
                       None \<Rightarrow> (False, None)
                     | Some e \<Rightarrow> (True, Some (Wrapped
                         ''failed to update operation status waitingFor.OperationComplete=false'' e))))))"

text \<open>What the four functions of the kinds have in common, with the accessor of the kind.\<close>

definition reconcileFlow ::
  "cluster \<Rightarrow> string \<Rightarrow> (goerr + OpObject) cgo \<Rightarrow> string \<Rightarrow> (bool \<times> goerr option) cgo" where
  "reconcileFlow cl what getOp namespace =
     andThen getOp (\<lambda>r.
     case r of
       Inl e \<Rightarrow>
         ret (if IgnoreNotFound (Some e) = None then (False, None)
              else (True, Some (Wrapped (''failed to get '' @ what) e)))
     | Inr object \<Rightarrow>
         reconcileOperationDataFlow cl namespace object (opRunAfter object) (updateStatusFn cl getOp))"

definition reconcileDataLoad :: "cluster \<Rightarrow> string \<Rightarrow> string \<Rightarrow> (bool \<times> goerr option) cgo" where
  "reconcileDataLoad cl name namespace = reconcileFlow cl ''dataload'' (GetDataLoad cl name namespace) namespace"

definition reconcileDataBackup :: "cluster \<Rightarrow> string \<Rightarrow> string \<Rightarrow> (bool \<times> goerr option) cgo" where
  "reconcileDataBackup cl name namespace = reconcileFlow cl ''databackup'' (GetDataBackup cl name namespace) namespace"

definition reconcileDataMigrate :: "cluster \<Rightarrow> string \<Rightarrow> string \<Rightarrow> (bool \<times> goerr option) cgo" where
  "reconcileDataMigrate cl name namespace = reconcileFlow cl ''datamigrate'' (GetDataMigrate cl name namespace) namespace"

definition reconcileDataProcess :: "cluster \<Rightarrow> string \<Rightarrow> string \<Rightarrow> (bool \<times> goerr option) cgo" where
  "reconcileDataProcess cl name namespace = reconcileFlow cl ''dataprocess'' (GetDataProcess cl name namespace) namespace"

section \<open>dataflow\_controller.go\<close>

definition reconcileFuncs :: "cluster \<Rightarrow> string \<Rightarrow> string \<Rightarrow> ((bool \<times> goerr option) cgo) list" where
  "reconcileFuncs cl name namespace =
     [reconcileDataLoad cl name namespace, reconcileDataMigrate cl name namespace,
      reconcileDataProcess cl name namespace, reconcileDataBackup cl name namespace]"

fun reconcileAll :: "int \<Rightarrow> ((bool \<times> goerr option) cgo) list \<Rightarrow> bool \<Rightarrow> reconcileResult cgo" where
  "reconcileAll resyncPeriod [] needRequeue =
     ret (if needRequeue then RequeueAfterInterval resyncPeriod else NoRequeue)"
| "reconcileAll resyncPeriod (reconcileFn # fns) needRequeue =
     andThen reconcileFn (\<lambda>(opNeedRequeue, err).
     if err \<noteq> None then ret (RequeueIfError err)
     else reconcileAll resyncPeriod fns (needRequeue \<or> opNeedRequeue))"

definition DataFlowReconcile :: "cluster \<Rightarrow> int \<Rightarrow> string \<Rightarrow> string \<Rightarrow> reconcileResult cgo" where
  "DataFlowReconcile cl resyncPeriod name namespace =
     reconcileAll resyncPeriod (reconcileFuncs cl name namespace) False"

text \<open>The predicate of the watches: which objects are enqueued.\<close>

definition enqueued :: "OpObject \<Rightarrow> bool" where
  "enqueued object =
     (omDeletionTimestamp (opMeta object) = None \<and> osWaitingFor (GetOperationStatus object) = Some True)"

section \<open>Properties\<close>

text \<open>A status write of the data flow controller: only the wait of the object that was read is cleared.\<close>

definition clearsWait :: "OpObject \<Rightarrow> OpObject \<Rightarrow> bool" where
  "clearsWait tmp ob \<longleftrightarrow> ob = setOpStatus ((GetOperationStatus tmp)\<lparr>osWaitingFor := Some False\<rparr>) tmp"

text \<open>
  In the events \<open>es\<close> of one function of the controller: the object was read first and refers to a preceding
  operation, which was read next and is complete.
\<close>

definition precedingComplete :: "string \<Rightarrow> event list \<Rightarrow> bool" where
  "precedingComplete namespace es \<longleftrightarrow>
     (\<exists>kind name ns ob ref kind' name' ns' ob' rest.
        es = GotOperation kind name ns (Inr ob) # GotOperation kind' name' ns' (Inr ob') # rest \<and>
        opRunAfter ob = Some ref \<and> kind' = refKind (orefObject ref) \<and> name' = refName (orefObject ref) \<and>
        ns' = (if refNamespace (orefObject ref) \<noteq> '''' then refNamespace (orefObject ref) else namespace) \<and>
        osPhase (GetOperationStatus ob') = ''Complete'')"

definition writesStatus :: "event \<Rightarrow> bool" where
  "writesStatus e \<longleftrightarrow> (\<exists>ob r. e = UpdatedOperationStatus ob r)"

lemma writesStatus_simps [simp]:
  "writesStatus (UpdatedOperationStatus ob r)" "\<not> writesStatus (GotOperation k n ns x)" "\<not> writesStatus (Recorded a b c d e)"
  by (simp_all add: writesStatus_def)

lemma emits_updateStatusFn:
  assumes "emits P (getOp :: (goerr + OpObject) cgo)" and "\<And>ob r. P (UpdatedOperationStatus ob r)"
  shows "emits P (updateStatusFn cl getOp)"
  unfolding updateStatusFn_def Let_def using assms by (auto intro!: emits_rules)

lemma getOperation_run: "getOperation cl kind name ns h =
    (Ret (clGetOperation cl h kind name ns), h @ [GotOperation kind name ns (clGetOperation cl h kind name ns)])"
  by (simp add: getOperation_def call_def)

lemma preceding_run:
  "(\<exists>e. GetPrecedingOperationStatus cl (Some ob) ns h = (Ret (Inl e), h)) \<or>
   (\<exists>x. GetPrecedingOperationStatus cl (Some ob) ns h =
      (Ret (map_sum (\<lambda>e. e) (\<lambda>o'. Some (GetOperationStatus o')) x), h @ [GotOperation (refKind ob) (refName ob) ns x]))"
  by (auto simp: GetPrecedingOperationStatus_def GetDataLoad_def GetDataBackup_def GetDataMigrate_def
      GetDataProcess_def getOperation_def andThen_def call_def ret_def Let_def split: sum.splits)

text \<open>Each function is \<open>reconcileFlow\<close> for one kind.\<close>

lemma reconcileFuncs_flow:
  "f \<in> set (reconcileFuncs cl name ns) \<Longrightarrow>
   \<exists>what kind. f = reconcileFlow cl what (getOperation cl kind name ns) ns"
  by (auto simp: reconcileFuncs_def reconcileDataLoad_def reconcileDataMigrate_def reconcileDataProcess_def
      reconcileDataBackup_def GetDataLoad_def GetDataMigrate_def GetDataProcess_def GetDataBackup_def)

definition clearsAnswer :: "cluster \<Rightarrow> string \<Rightarrow> string \<Rightarrow> event \<Rightarrow> bool" where
  "clearsAnswer cl name ns e \<longleftrightarrow>
     (\<forall>ob r. e = UpdatedOperationStatus ob r \<longrightarrow>
        (\<exists>h kind tmp. clGetOperation cl h kind name ns = Inr tmp \<and> clearsWait tmp ob))"

lemma clearsAnswer_other [simp]:
  "clearsAnswer cl name ns (GotOperation k n m x)" "clearsAnswer cl name ns (Recorded a b c d e)"
  by (simp_all add: clearsAnswer_def)

lemma updateStatusFn_clears: "emits (clearsAnswer cl name ns) (updateStatusFn cl (getOperation cl kind name ns))"
  unfolding updateStatusFn_def
proof (rule emits_andThen_yields)
  show "emits (clearsAnswer cl name ns) (getOperation cl kind name ns)"
    by (simp add: getOperation_def emits_rules)
  show "yields (\<lambda>r. \<exists>h. clGetOperation cl h kind name ns = r) (getOperation cl kind name ns)"
    by (auto simp: yields_def getOperation_def call_def)
  fix r :: "goerr + OpObject"
  assume "\<exists>h. clGetOperation cl h kind name ns = r"
  then show "emits (clearsAnswer cl name ns)
      (case r of Inl e \<Rightarrow> ret (if IgnoreNotFound (Some e) = None then None else Some e)
       | Inr tmp \<Rightarrow>
           let toUpdate = setOpStatus ((GetOperationStatus tmp)\<lparr>osWaitingFor := Some False\<rparr>) tmp in
           if GetOperationStatus toUpdate \<noteq> GetOperationStatus tmp
           then call (\<lambda>h. clUpdateOperationStatus cl h toUpdate) (UpdatedOperationStatus toUpdate)
           else ret None)"
    unfolding Let_def by (auto intro!: emits_rules simp: clearsAnswer_def clearsWait_def) blast
qed

lemma reconcileFlow_waits:
  assumes "reconcileFlow cl what (getOperation cl kind name ns) ns h = (res, h @ es)" and "list_ex writesStatus es"
  shows "precedingComplete ns es \<and> list_all (clearsAnswer cl name ns) es"
proof -
  let ?x = "clGetOperation cl h kind name ns"
  let ?g1 = "GotOperation kind name ns ?x"
  let ?k = "\<lambda>ob. reconcileOperationDataFlow cl ns ob (opRunAfter ob) (updateStatusFn cl (getOperation cl kind name ns))"
  have flow: "reconcileFlow cl what (getOperation cl kind name ns) ns h =
      (case ?x of Inl e \<Rightarrow> ret (if IgnoreNotFound (Some e) = None then (False, None)
              else (True, Some (Wrapped (''failed to get '' @ what) e))) | Inr ob \<Rightarrow> ?k ob) (h @ [?g1])"
    by (simp add: reconcileFlow_def andThen_def getOperation_run)
  obtain ob where ob: "?x = Inr ob" using assms flow by (cases ?x) (auto simp: ret_def)
  obtain ref where ref: "opRunAfter ob = Some ref"
    using assms flow ob by (cases "opRunAfter ob") (auto simp: reconcileOperationDataFlow_def panic_def)
  define o' where "o' = orefObject ref"
  define ns' where "ns' = (if refNamespace o' \<noteq> '''' then refNamespace o' else ns)"
  consider (fails) e where "GetPrecedingOperationStatus cl (Some o') ns' (h @ [?g1]) = (Ret (Inl e), h @ [?g1])"
    | (reads) x where "GetPrecedingOperationStatus cl (Some o') ns' (h @ [?g1]) =
        (Ret (map_sum (\<lambda>e. e) (\<lambda>o'. Some (GetOperationStatus o')) x),
         (h @ [?g1]) @ [GotOperation (refKind o') (refName o') ns' x])"
    using preceding_run by blast
  then show ?thesis
  proof cases
    case fails
    with assms flow ob ref show ?thesis
      by (auto simp: reconcileOperationDataFlow_def Let_def andThen_def ret_def recordEvent_def emit_def
          o'_def [symmetric] ns'_def [symmetric] split: if_splits)
  next
    case (reads x)
    let ?g2 = "GotOperation (refKind o') (refName o') ns' x"
    let ?u = "RetryOnConflict (updateStatusFn cl (getOperation cl kind name ns))"
    obtain r1 h1 where run: "?u (h @ [?g1, ?g2]) = (r1, h1)" by (cases "?u (h @ [?g1, ?g2])")
    obtain es1 where es1: "h1 = (h @ [?g1, ?g2]) @ es1" "list_all (clearsAnswer cl name ns) es1"
      using emits_run [OF emits_RetryOnConflict [OF updateStatusFn_clears] run] .
    have "x = Inr p \<and> osPhase (GetOperationStatus p) = ''Complete'' \<and> es = ?g1 # ?g2 # es1 \<or> \<not> list_ex writesStatus es"
      if "x = Inr p" for p
      using assms(1) flow ob ref reads run es1(1) that
      by (cases r1) (auto simp: reconcileOperationDataFlow_def Let_def andThen_def ret_def recordEvent_def emit_def
          o'_def [symmetric] ns'_def [symmetric] split: if_splits)
    moreover have "\<not> list_ex writesStatus es" if "x = Inl e" for e
      using assms(1) flow ob ref reads that
      by (auto simp: reconcileOperationDataFlow_def Let_def andThen_def ret_def recordEvent_def emit_def
          o'_def [symmetric] ns'_def [symmetric] split: if_splits)
    ultimately obtain p where "x = Inr p" "osPhase (GetOperationStatus p) = ''Complete''" "es = ?g1 # ?g2 # es1"
      using assms(2) by (cases x) auto
    then show ?thesis
      using ob ref es1(2) unfolding precedingComplete_def o'_def ns'_def by auto
  qed
qed

text \<open>
  C19. An operation is released only after its predecessor: whenever the data flow controller writes the
  status of an operation, it has read the operation and then the operation that it runs after, in the
  phase Complete, and the write changes nothing but the flag that the operation waits.
\<close>

theorem released_after_predecessor:
  assumes "f \<in> set (reconcileFuncs cl name ns)" and "f h = (res, h @ es)"
    and "UpdatedOperationStatus ob r \<in> set es"
  shows "precedingComplete ns es \<and>
    (\<exists>h kind tmp. clGetOperation cl h kind name ns = Inr tmp \<and> clearsWait tmp ob)"
proof -
  obtain what kind where "f = reconcileFlow cl what (getOperation cl kind name ns) ns"
    using reconcileFuncs_flow [OF assms(1)] by blast
  with assms(2,3) have "precedingComplete ns es \<and> list_all (clearsAnswer cl name ns) es"
    by (intro reconcileFlow_waits) (auto simp: list_ex_iff intro: bexI [of _ "UpdatedOperationStatus ob r"])
  with assms(3) show ?thesis by (auto simp: list_all_iff clearsAnswer_def)
qed

text \<open>
  The data flow controller panics on an operation that runs after nothing if it is asked for the name,
  for instance because an operation of another kind with the same name waits: the other kinds under the name are
  reconciled too, without a look at whether they wait.
\<close>

theorem dataflow_panics_on_namesake:
  assumes "clGetOperation cl h ''DataLoad'' name ns = Inr ob" and "opRunAfter ob = None"
  shows "fst (DataFlowReconcile cl resyncPeriod name ns h) = Panic ''nil pointer dereference''"
  using assms
  by (simp add: DataFlowReconcile_def reconcileFuncs_def reconcileDataLoad_def reconcileFlow_def GetDataLoad_def
      getOperation_def andThen_def call_def reconcileOperationDataFlow_def panic_def)

section \<open>Examples\<close>

text \<open>The load \<open>b\<close> waits for the load \<open>a\<close>, which is complete.\<close>

definition waitingLoad :: DataLoad where
  "waitingLoad = (exampleLoad ''b'' ((exampleStatus ''Pending'')\<lparr>osWaitingFor := Some True\<rparr>))
     \<lparr>dlRunAfter := Some (requireSameHost loadRef)\<rparr>"

definition flowCluster :: cluster where
  "flowCluster = readyCluster
     \<lparr>clGetOperation := \<lambda>_ kind name _.
        if kind = ''DataLoad'' then Inr (if name = ''b'' then ODataLoad waitingLoad else loadInPhase ''Complete'')
        else Inl (NotFound name)\<rparr>"

definition releasedLoad :: OpObject where
  "releasedLoad = ODataLoad (waitingLoad\<lparr>dlStatus := (exampleStatus ''Pending'')\<lparr>osWaitingFor := Some False\<rparr>\<rparr>)"

theorem released_after_predecessor_witness:
  "precedingComplete ''default'' (snd (reconcileDataLoad flowCluster ''b'' ''default'' [])) \<and>
    (\<exists>h kind tmp. clGetOperation flowCluster h kind ''b'' ''default'' = Inr tmp \<and> clearsWait tmp releasedLoad)"
proof (rule released_after_predecessor [where r = None])
  let ?f = "reconcileDataLoad flowCluster ''b'' ''default''"
  show "?f \<in> set (reconcileFuncs flowCluster ''b'' ''default'')" by (simp add: reconcileFuncs_def)
  show "?f [] = (fst (?f []), [] @ snd (?f []))" by simp
  show "UpdatedOperationStatus releasedLoad None \<in> set (snd (?f []))" by code_simp
qed

theorem dataflow_panics_on_namesake_witness:
  "fst (DataFlowReconcile (flowCluster\<lparr>clGetOperation := \<lambda>_ _ _ _. Inr (loadInPhase ''Pending'')\<rparr>) 30 ''a'' ''default'' []) =
    Panic ''nil pointer dereference''"
  by (rule dataflow_panics_on_namesake [where ob = "loadInPhase ''Pending''"])
    (simp_all add: loadInPhase_def exampleLoad_def)

end
