(* ===== verification/Byte_Size.thy ===== *)
theory Byte_Size
  imports Go_Strings "HOL-Library.Log_Nat"
begin

text \<open>
  Sizes in human-readable form (\<open>pkg/utils/byte_size.go\<close>), with the functions of \<open>go-units\<close> it calls, and the
  percentages that the engines print. A finite \<open>float64\<close> is the rational number it stands for; \<open>roundFloat\<close> rounds to the
  nearest one, ties to even. Dividing by 1024 and multiplying by a unit are exact unless the result overflows.
  The conversion of a number that does not fit \<open>int64\<close> depends on the implementation of Go, so it is a parameter.
\<close>

section \<open>Floating point\<close>

definition exponent :: "rat \<Rightarrow> int" where
  "exponent x =
     (case quotient_of x of
        (n, d) \<Rightarrow>
          let e = bitlen n - bitlen d in
          if 2 powi e \<le> x then e else e - 1)"

definition roundHalfEven :: "rat \<Rightarrow> int" where
  "roundHalfEven x =
     (let f = \<lfloor>x\<rfloor>; r = x - of_int f in
      if r < 1 / 2 then f else if 1 / 2 < r then f + 1 else if even f then f else f + 1)"

definition roundPos :: "rat \<Rightarrow> rat" where
  "roundPos x = (let q = 2 powi (max (-1022) (exponent x) - 52) in of_int (roundHalfEven (x / q)) * q)"

definition roundFloat :: "rat \<Rightarrow> rat" where
  "roundFloat x = (if x = 0 then 0 else if x < 0 then - roundPos (- x) else roundPos x)"

abbreviation maxFloat :: rat where
  "maxFloat \<equiv> 2 ^ 1024"

text \<open>The verb \<open>%.pf\<close> for a number that is not negative.\<close>

definition formatFixed :: "nat \<Rightarrow> rat \<Rightarrow> string" where
  "formatFixed p x =
     (let m = nat (roundHalfEven (x * 10 ^ p)); ds = natDigits (m mod 10 ^ p) in
      natDigits (m div 10 ^ p) @ (if p = 0 then [] else ''.'' @ replicate (p - length ds) (CHR ''0'') @ ds))"

section \<open>byte_size.go\<close>

abbreviation binaryAbbrs :: "string list" where
  "binaryAbbrs \<equiv> [''B'', ''KiB'', ''MiB'', ''GiB'', ''TiB'', ''PiB'', ''EiB'', ''ZiB'', ''YiB'']"

fun getSizeAndUnit :: "rat \<Rightarrow> string list \<Rightarrow> rat \<times> string" where
  "getSizeAndUnit sz (unit # unit' # units) =
     (if sz \<ge> 1024 then getSizeAndUnit (sz / 1024) (unit' # units) else (sz, unit))"
| "getSizeAndUnit sz [unit] = (sz, unit)"
| "getSizeAndUnit sz [] = (sz, '''')"

definition BytesSize :: "rat \<Rightarrow> string" where
  "BytesSize sz =
     (case getSizeAndUnit sz binaryAbbrs of
        (s, unit) \<Rightarrow> (if s < 0 then ''-'' @ formatFixed 2 (- s) else formatFixed 2 s) @ unit)"

definition binaryMap :: "(char \<times> int) list" where
  "binaryMap =
     [(CHR ''k'', 2 ^ 10), (CHR ''m'', 2 ^ 20), (CHR ''g'', 2 ^ 30), (CHR ''t'', 2 ^ 40), (CHR ''p'', 2 ^ 50),
      (CHR ''e'', 2 ^ 60)]"

definition decimalDigit :: "char \<Rightarrow> bool" where
  "decimalDigit c = (48 \<le> (of_char c :: nat) \<and> (of_char c :: nat) \<le> 57)"

definition ToLower :: "char \<Rightarrow> char" where
  "ToLower c = (if 65 \<le> (of_char c :: nat) \<and> (of_char c :: nat) \<le> 90 then char_of (of_char c + 32 :: nat) else c)"

text \<open>An optional character of a set.\<close>

definition skipOne :: "string \<Rightarrow> string \<Rightarrow> string \<times> string" where
  "skipOne cs s = (case s of c # s' \<Rightarrow> if c \<in> set cs then ([c], s') else ([], s) | [] \<Rightarrow> ([], []))"

text \<open>
  The regular expression \<open>^(\d+(\.\d+)*) ?([kKmMgGtTpP])?[iI]?[bB]?$\<close>: the number and the unit. What follows the number
  is neither a digit nor a dot, so the number is the longest prefix of such characters.
\<close>

definition sizeRegex :: "string \<Rightarrow> (string \<times> string) option" where
  "sizeRegex s =
     (let number = takeWhile (\<lambda>c. decimalDigit c \<or> c = CHR ''.'') s;
          (_, s1) = skipOne '' '' (drop (length number) s);
          (unit, s2) = skipOne ''kKmMgGtTpP'' s1;
          (_, s3) = skipOne ''iI'' s2;
          (_, s4) = skipOne ''bB'' s3 in
      if list_all (\<lambda>part. part \<noteq> []) (Split CHR ''.'' number) \<and> s4 = [] then Some (number, unit) else None)"

text \<open>\<open>strconv.ParseFloat\<close> for digits and dots.\<close>

definition parseDecimal :: "string \<Rightarrow> rat option" where
  "parseDecimal s =
     (let parts = Split CHR ''.'' s in
      if length parts > 2 then None
      else
        (case digitsVal 10 0 (concat parts) of
           None \<Rightarrow> None
         | Some m \<Rightarrow>
             let x = roundFloat (of_int m / 10 ^ length (concat (tl parts))) in
             if x < maxFloat then Some x else None))"

definition toInt64 :: "(rat \<Rightarrow> int) \<Rightarrow> rat \<Rightarrow> int" where
  "toInt64 outOfRange x =
     (let i = (if x < 0 then - \<lfloor>- x\<rfloor> else \<lfloor>x\<rfloor>) in if - (2 ^ 63) \<le> i \<and> i < 2 ^ 63 then i else outOfRange x)"

text \<open>The value next to an error is \<open>-1\<close>. The number is far below the largest float when it is multiplied by the unit
  and fits \<open>int64\<close>; an infinite product does not fit either.\<close>

definition FromHumanSize :: "(rat \<Rightarrow> int) \<Rightarrow> string \<Rightarrow> int \<times> bool" where
  "FromHumanSize outOfRange sizeStr =
     (case sizeRegex sizeStr of
        None \<Rightarrow> (-1, False)
      | Some (number, unit) \<Rightarrow>
          (case parseDecimal number of
             None \<Rightarrow> (-1, False)
           | Some sz \<Rightarrow>
               (case unit of
                  [] \<Rightarrow> (toInt64 outOfRange sz, True)
                | c # _ \<Rightarrow>
                    (case map_of binaryMap (ToLower c) of
                       None \<Rightarrow> (toInt64 outOfRange sz, True)
                     | Some mul \<Rightarrow> (toInt64 outOfRange (sz * of_int mul), True)))))"

section \<open>Percentages\<close>

text \<open>
  The verb \<open>%.1f%%\<close> for a quotient: \<open>negative\<close> is the sign of the quotient, which may be that of a zero.
\<close>

definition formatPercent :: "bool \<Rightarrow> rat \<Rightarrow> string" where
  "formatPercent negative x = (if negative then ''-'' else '''') @ formatFixed 1 \<bar>x\<bar> @ ''%''"

definition notFinite :: "rat \<Rightarrow> string" where
  "notFinite a = (if a = 0 then ''NaN%'' else if a > 0 then ''+Inf%'' else ''-Inf%'')"

text \<open>\<open>float64(a)/float64(b)*100.0\<close> and \<open>float64(a)*100.0/float64(b)\<close>.\<close>

definition sharePercent :: "int \<Rightarrow> int \<Rightarrow> string" where
  "sharePercent a b =
     (let x = roundFloat (of_int a); y = roundFloat (of_int b) in
      if y = 0 then notFinite x
      else formatPercent ((x < 0) \<noteq> (y < 0)) (roundFloat (roundFloat (x / y) * 100)))"

definition ratioPercent :: "int \<Rightarrow> int \<Rightarrow> string" where
  "ratioPercent a b =
     (let x = roundFloat (of_int a); y = roundFloat (of_int b) in
      if y = 0 then notFinite x
      else formatPercent ((x < 0) \<noteq> (y < 0)) (roundFloat (roundFloat (x * 100) / y)))"

end
