(* ===== verification/Pod_Spec.thy ===== *)
theory Pod_Spec
  imports Operation_Api
begin

text \<open>
  The parts of a pod that the modelled code reads or changes, and the helpers on volumes, volume mounts and
  capabilities of \<open>pkg/utils/volumes.go\<close>, \<open>capabilities.go\<close> and \<open>random.go\<close>. Kubernetes allows one source per volume;
  sources that no code distinguishes are \<open>OtherVolume\<close>.
\<close>

section \<open>Pods\<close>

datatype VolumeSource =
    ClaimVolume string
  | HostPathVolume string
  | ConfigMapVolume string int
  | EmptyDirVolume
  | OtherVolume string

record Volume =
  volName :: string
  volSource :: VolumeSource

record VolumeMount =
  vmName :: string
  vmMountPath :: string
  vmSubPath :: string
  vmReadOnly :: bool
  vmPropagation :: "string option"

text \<open>The commands that run after the start and before the end of a container.\<close>

record Lifecycle =
  lcPostStart :: "string list option"
  lcPreStop :: "string list option"

record SecurityContext =
  scPrivileged :: "bool option"
  scAddCapabilities :: "string list option"

record Container =
  ctName :: string
  ctImage :: string
  ctCommand :: "string list"
  ctArgs :: "string list"
  ctPorts :: "(string \<times> int) list"
  ctEnv :: "(string \<times> string) list"
  ctVolumeMounts :: "VolumeMount list"
  ctLifecycle :: "Lifecycle option"
  ctSecurity :: "SecurityContext option"
  ctRestartPolicy :: "string option"

record Pod =
  pdName :: string
  pdGenerateName :: string
  pdNamespace :: string
  pdLabels :: "(string \<times> string) list"
  pdAnnotations :: "(string \<times> string) list"
  pdNodeSelector :: "(string \<times> string) list"
  pdAffinity :: "Affinity option"
  pdVolumes :: "Volume list"
  pdContainers :: "Container list"
  pdInitContainers :: "Container list"

definition claimOf :: "Volume \<Rightarrow> string option" where
  "claimOf v = (case volSource v of ClaimVolume c \<Rightarrow> Some c | _ \<Rightarrow> None)"

definition pdClaims :: "Pod \<Rightarrow> string list" where
  "pdClaims pod = List.map_filter claimOf (pdVolumes pod)"

section \<open>volumes.go and capabilities.go\<close>

definition namePrefixed :: "string list \<Rightarrow> string \<Rightarrow> bool" where
  "namePrefixed prefixes name = list_ex (\<lambda>p. HasPrefix name p) prefixes"

definition TrimVolumes :: "Volume list \<Rightarrow> string list \<Rightarrow> Volume list" where
  "TrimVolumes inputs excludeNames = filter (\<lambda>v. \<not> namePrefixed excludeNames (volName v)) inputs"

definition TrimVolumeMounts :: "VolumeMount list \<Rightarrow> string list \<Rightarrow> VolumeMount list" where
  "TrimVolumeMounts inputs excludeNames = filter (\<lambda>m. \<not> namePrefixed excludeNames (vmName m)) inputs"

definition IsVolumeNameHasPrefixes :: "Volume \<Rightarrow> string list \<Rightarrow> bool" where
  "IsVolumeNameHasPrefixes v prefixes = namePrefixed prefixes (volName v)"

definition FindVolumeByVolumeMount :: "VolumeMount \<Rightarrow> Volume list \<Rightarrow> Volume option" where
  "FindVolumeByVolumeMount m volumes = find (\<lambda>v. volName v = vmName m) volumes"

definition FilterVolumesByVolumeMounts :: "Volume list \<Rightarrow> VolumeMount list \<Rightarrow> Volume list" where
  "FilterVolumesByVolumeMounts volumes mounts = filter (\<lambda>v. list_ex (\<lambda>m. vmName m = volName v) mounts) volumes"

definition TrimCapabilities :: "string list \<Rightarrow> string list \<Rightarrow> string list" where
  "TrimCapabilities inputs excludeNames = filter (\<lambda>c. c \<notin> set excludeNames) inputs"

section \<open>random.go\<close>

text \<open>Slicing a string from beyond its end panics.\<close>

definition ReplacePrefix :: "string \<Rightarrow> string \<Rightarrow> ('e, string) go" where
  "ReplacePrefix input suffix =
     (if length input + 1 \<le> length suffix then ret suffix
      else if length suffix + 1 \<le> length input then ret (suffix @ ''-'' @ drop (length suffix + 1) input)
      else panic ''slice bounds out of range'')"

section \<open>annotations.go\<close>

text \<open>\<open>deprecatedKey\<close> is the label key of the variable \<open>DeprecatedServerlessPlatformKey\<close>, empty by default.\<close>

definition CheckExpectValue :: "(string \<times> string) list \<Rightarrow> string \<Rightarrow> string \<Rightarrow> bool" where
  "CheckExpectValue m key targetValue = (map_of m key = Some targetValue)"

definition enabled :: "(string \<times> string) list \<Rightarrow> string \<Rightarrow> bool" where
  "enabled infos name = (map_of infos name = Some ''true'')"

definition ServerfulFuseEnabled :: "(string \<times> string) list \<Rightarrow> bool" where
  "ServerfulFuseEnabled infos = enabled infos ''fuse.serverful.fluid.io/inject''"

definition InjectCacheDirEnabled :: "(string \<times> string) list \<Rightarrow> bool" where
  "InjectCacheDirEnabled infos = enabled infos ''cachedir.sidecar.fluid.io/inject''"

definition SkipSidecarPostStartInject :: "(string \<times> string) list \<Rightarrow> bool" where
  "SkipSidecarPostStartInject infos = (map_of infos ''fuse.sidecar.poststart.fluid.io/inject'' = Some ''false'')"

definition AppContainerPostStartInjectEnabled :: "(string \<times> string) list \<Rightarrow> bool" where
  "AppContainerPostStartInjectEnabled infos = enabled infos ''app.poststart.fluid.io/inject''"

definition InjectSidecarDone :: "(string \<times> string) list \<Rightarrow> bool" where
  "InjectSidecarDone infos = enabled infos ''done.sidecar.fluid.io/inject''"

definition SkipPrecheckEnable :: "(string \<times> string) list \<Rightarrow> bool" where
  "SkipPrecheckEnable infos = enabled infos ''sidecar.fluid.io/skip-precheck''"

definition serverlessPlatformMatched :: "string \<Rightarrow> (string \<times> string) list \<Rightarrow> bool" where
  "serverlessPlatformMatched deprecatedKey infos = (deprecatedKey \<noteq> '''' \<and> map_of infos deprecatedKey \<noteq> None)"

definition ServerlessEnabled :: "string \<Rightarrow> (string \<times> string) list \<Rightarrow> bool" where
  "ServerlessEnabled deprecatedKey infos =
     (enabled infos ''serverless.fluid.io/inject'' \<or> serverlessPlatformMatched deprecatedKey infos \<or>
      enabled infos ''fuse.sidecar.fluid.io/inject'')"

definition GetServerlessPlatform ::
  "string \<Rightarrow> (string \<times> string) list \<Rightarrow> (string \<times> string) list \<Rightarrow> goerr + string" where
  "GetServerlessPlatform deprecatedKey labels annotations =
     (let unprivileged = enabled labels ''unprivileged.sidecar.fluid.io/inject'' in
      case map_of labels deprecatedKey of
        Some platform \<Rightarrow>
          if enabled labels ''serverless.fluid.io/inject''
          then Inl (Err (deprecatedKey @ '' and serverless.fluid.io/inject is not allowed to set together''))
          else Inr platform
      | None \<Rightarrow>
          if enabled labels ''fuse.sidecar.fluid.io/inject''
          then Inr (if unprivileged then ''unprivileged'' else ''default'')
          else if enabled labels ''serverless.fluid.io/inject''
          then (if unprivileged then Inr ''unprivileged''
                else case map_of annotations ''serverless.fluid.io/platform'' of
                       Some platform \<Rightarrow> Inr platform
                     | None \<Rightarrow> Inr ''default'')
          else Inl (Err ''no serverless platform can be found from Pod's metadata''))"

definition FuseSidecarPrivileged :: "string \<Rightarrow> (string \<times> string) list \<Rightarrow> (string \<times> string) list \<Rightarrow> bool" where
  "FuseSidecarPrivileged deprecatedKey labels annotations =
     (GetServerlessPlatform deprecatedKey labels annotations = Inr ''default'')"

definition AppControllerDisabled :: "string \<Rightarrow> (string \<times> string) list \<Rightarrow> bool" where
  "AppControllerDisabled disableKey info = (map_of info disableKey \<noteq> None)"

text \<open>The platform is known for every pod that is enabled for injection by exactly one of the labels.\<close>

lemma GetServerlessPlatform_found:
  assumes "ServerlessEnabled deprecatedKey labels"
    and "map_of labels deprecatedKey = None \<or> \<not> enabled labels ''serverless.fluid.io/inject''"
  shows "\<exists>platform. GetServerlessPlatform deprecatedKey labels annotations = Inr platform"
  using assms
  by (auto simp: GetServerlessPlatform_def ServerlessEnabled_def serverlessPlatformMatched_def Let_def
      split: option.splits)

end
