(* ===== verification/Runtime_Api.thy ===== *)
theory Runtime_Api
  imports Helm_Client Dataflow_Affinity Pod_Spec
begin

text \<open>
  The world of the dataset controller, the runtime controllers and the cache engines: the runtime custom
  resource with its \<open>RuntimeStatus\<close> (\<open>api/v1alpha1/status.go\<close>), nodes, pods, claims, volumes, daemon sets and
  config maps of Kubernetes, the record \<open>world\<close> of what the environment answers, the events \<open>kevent\<close> its calls
  leave, and the accessors of \<open>pkg/utils\<close> and \<open>pkg/utils/kubeclient\<close> over them. Programs of \<open>Operation_Api\<close>
  run inside this world through \<open>viaOp\<close>: their events become events \<open>Op e\<close>, and the cluster that answers them may
  depend on everything that has happened before.
\<close>

section \<open>status.go\<close>

record RuntimeStatus =
  rsValueFileConfigmap :: string
  rsMasterPhase :: string
  rsWorkerPhase :: string
  rsFusePhase :: string
  rsFuseReason :: string
  rsDesiredMaster :: int
  rsCurrentMaster :: int
  rsMasterReady :: int
  rsDesiredWorker :: int
  rsCurrentWorker :: int
  rsWorkerReady :: int
  rsWorkerAvailable :: int
  rsWorkerUnavailable :: int
  rsDesiredFuse :: int
  rsCurrentFuse :: int
  rsFuseReady :: int
  rsFuseAvailable :: int
  rsFuseUnavailable :: int
  rsSetupDuration :: string
  rsConditions :: "RuntimeCondition list"
  rsCacheStates :: "(string \<times> string) list"
  rsSelector :: string
  rsAPIGatewayStatus :: "string option"
  rsMountTime :: "int option"
  rsMounts :: "DatasetMount list"
  rsCacheAffinity :: "NodeAffinity option"

section \<open>The runtime resource\<close>

text \<open>
  A level of the tiered store: medium, volume type, comma-separated paths, quota in bytes (nil or a value),
  comma-separated quotas, and the two watermarks.
\<close>

record StoreLevel =
  slMediumType :: string
  slVolumeType :: string
  slPath :: string
  slQuota :: "int option"
  slQuotaList :: string
  slHigh :: string
  slLow :: string

text \<open>
  The runtime kinds share their metadata and status; of the spec the fields that the modelled code reads. The
  method \<open>Replicas()\<close> of \<open>RuntimeInterface\<close> reads \<open>roReplicas\<close>, \<open>GetStatus()\<close> reads \<open>roStatus\<close>.
\<close>

record RuntimeObject =
  roKind :: string
  roMeta :: ObjectMeta
  roReplicas :: int
  roMasterReplicas :: int
  roHostNetwork :: bool
  roTieredStore :: "StoreLevel list"
  roFuseNodeSelector :: "(string \<times> string) list"
  roFuseCleanPolicy :: string
  roFuseScrapeTarget :: string
  roAPIGateway :: bool
  roGracefulShutdown :: "int option"
  roCleanGracePeriod :: "int option"
  roAutoSync :: "bool option"
  roStatus :: RuntimeStatus

section \<open>Objects of Kubernetes\<close>

record DaemonSet =
  dsmName :: string
  dsmNamespace :: string
  dsmOwners :: "OwnerReference list"
  dsmLabels :: "(string \<times> string) list"
  dsmGeneration :: int
  dsmContainers :: "Container list"
  dsmVolumes :: "Volume list"
  dsmNodeSelector :: "(string \<times> string) list"
  dsmDesired :: int
  dsmCurrent :: int
  dsmReady :: int
  dsmAvailable :: int
  dsmUnavailable :: int

record Node =
  nodeName :: string
  nodeLabels :: "(string \<times> string) list"

record ControllerRef =
  crGroup :: string
  crKind :: string
  crName :: string
  crUID :: string

text \<open>A volume of a pod: its name and the claim it refers to, if it refers to one.\<close>

record PodInfo =
  piName :: string
  piNamespace :: string
  piPhase :: string
  piNodeName :: string
  piDeletionTimestamp :: "int option"
  piClaims :: "(string \<times> string option) list"
  piController :: "ControllerRef option"

record Claim =
  pvcMeta :: ObjectMeta
  pvcVolumeName :: string
  pvcAccessModes :: "string list"
  pvcRequest :: string

record PersistentVolume =
  pvMeta :: ObjectMeta
  pvPhase :: string
  pvClaimRef :: "(string \<times> string) option"
  pvAccessModes :: "string list"
  pvCapacity :: string
  pvVolumeHandle :: string
  pvAttributes :: "(string \<times> string) list"
  pvNodeAffinity :: "NodeSelectorTerm list option"

record Deployment =
  dpName :: string
  dpNamespace :: string
  dpAnnotations :: "(string \<times> string) list"
  dpReplicas :: "int option"

record ConfigMap =
  cmName :: string
  cmNamespace :: string
  cmOwners :: "OwnerReference list"
  cmLabels :: "(string \<times> string) list"
  cmAnnotations :: "(string \<times> string) list"
  cmData :: "(string \<times> string) list"

text \<open>What a receive from the channel of the metadata synchronisation gives within its timeout.\<close>

datatype syncMessage =
    SyncRunning
  | SyncClosed
  | SyncFinished bool string string "goerr option"

section \<open>Events and environment\<close>

datatype kevent =
    Op event
  | ReadRuntime string string string "goerr + RuntimeObject"
  | WroteRuntimeStatus RuntimeObject "goerr option"
  | WroteRuntime RuntimeObject "goerr + int"
  | CreatedRuntime string string "OwnerReference list" "(string \<times> string) list" "goerr option"
  | WroteDataset Dataset "goerr + int"
  | PatchedDataset Dataset string string "goerr + Dataset"
  | PatchedRuntime RuntimeObject string string "goerr + RuntimeObject"
  | ReadDaemonSet string string "goerr + DaemonSet"
  | CreatedDaemonSet DaemonSet "goerr option"
  | ReadNode string "goerr + Node"
  | ListedNodes string string "goerr + Node list"
  | PatchedNode string "(string \<times> string option) list" "goerr option"
  | WroteNode Node "goerr option"
  | ListedPods string string "goerr + PodInfo list"
  | ReadClaim string string "goerr + Claim"
  | WroteClaim Claim "goerr option"
  | CreatedClaim Claim "goerr option"
  | DeletedClaim string string "goerr option"
  | ReadVolume string "goerr + PersistentVolume"
  | CreatedVolume PersistentVolume "goerr option"
  | DeletedVolume string "goerr option"
  | ReadDeployment string string "goerr + Deployment"
  | WroteDeployment Deployment "goerr option"
  | ReadConfigMap string string "goerr + ConfigMap"
  | CreatedConfigMap ConfigMap "goerr option"
  | DeletedConfigMap string string "goerr option"
  | ForgotMetrics string string
  | WroteConfigMap ConfigMap "goerr option"
  | ReadService string string "goerr + (string \<times> int) list"
  | ReadSecret string string "goerr + (string \<times> string) list"
  | ReadContainers string string "goerr + (string \<times> int option) list"
  | Executed string string string "string list" "goerr + string"
  | MadeValues string string "goerr + string"
  | CreatedTemp string "goerr + string"
  | WroteFile string string "goerr option"
  | ReceivedSync syncMessage
  | StartedSync
  | CachedClaim string string bool
  | ReleasedPorts "int list"

type_synonym 'a kgo = "(kevent, 'a) go"

text \<open>
  What the environment answers, as functions of the history. \<open>kwGetService\<close> gives the named ports of a service,
  \<open>kwGetSecret\<close> the data of a secret, \<open>kwGetContainers\<close> the containers of a pod and when each started if it is running,
  \<open>kwExec\<close> what a command in a container prints, \<open>kwMakeValues\<close> the values a chart is installed with (the
  \<open>transform\<close> functions of the engines), \<open>kwCreateTemp\<close> and \<open>kwWriteFile\<close> the temporary files, \<open>kwReceive\<close> the
  channel of the metadata synchronisation, \<open>kwLookupEnv\<close> for \<open>os.LookupEnv\<close>, \<open>kwExpired\<close> for the context of the request having expired, \<open>kwPolls\<close> for how
  often a poll evaluates its condition after the first time before its deadline, \<open>kwBadSelector\<close> for the error of
  parsing a label selector, \<open>kwNodeExcluded\<close> for the node selector that excludes nodes from placement, and \<open>kwRandom\<close>
  for \<open>rand.Intn\<close>. A patch of a label answers with the object as it is then.
\<close>

record world =
  kwCluster :: "kevent list \<Rightarrow> cluster"
  kwGetRuntime :: "kevent list \<Rightarrow> string \<Rightarrow> string \<Rightarrow> string \<Rightarrow> goerr + RuntimeObject"
  kwUpdateRuntimeStatus :: "kevent list \<Rightarrow> RuntimeObject \<Rightarrow> goerr option"
  kwUpdateRuntime :: "kevent list \<Rightarrow> RuntimeObject \<Rightarrow> goerr + int"
  kwCreateRuntime :: "kevent list \<Rightarrow> string \<Rightarrow> string \<Rightarrow> goerr option"
  kwUpdateDataset :: "kevent list \<Rightarrow> Dataset \<Rightarrow> goerr + int"
  kwPatchDataset :: "kevent list \<Rightarrow> Dataset \<Rightarrow> string \<Rightarrow> string \<Rightarrow> goerr + Dataset"
  kwPatchRuntime :: "kevent list \<Rightarrow> RuntimeObject \<Rightarrow> string \<Rightarrow> string \<Rightarrow> goerr + RuntimeObject"
  kwGetDaemonSet :: "kevent list \<Rightarrow> string \<Rightarrow> string \<Rightarrow> goerr + DaemonSet"
  kwCreateDaemonSet :: "kevent list \<Rightarrow> DaemonSet \<Rightarrow> goerr option"
  kwGetNode :: "kevent list \<Rightarrow> string \<Rightarrow> goerr + Node"
  kwListNodes :: "kevent list \<Rightarrow> string \<Rightarrow> string \<Rightarrow> goerr + Node list"
  kwPatchNode :: "kevent list \<Rightarrow> string \<Rightarrow> (string \<times> string option) list \<Rightarrow> goerr option"
  kwUpdateNode :: "kevent list \<Rightarrow> Node \<Rightarrow> goerr option"
  kwListPods :: "kevent list \<Rightarrow> string \<Rightarrow> string \<Rightarrow> goerr + PodInfo list"
  kwGetClaim :: "kevent list \<Rightarrow> string \<Rightarrow> string \<Rightarrow> goerr + Claim"
  kwUpdateClaim :: "kevent list \<Rightarrow> Claim \<Rightarrow> goerr option"
  kwCreateClaim :: "kevent list \<Rightarrow> Claim \<Rightarrow> goerr option"
  kwDeleteClaim :: "kevent list \<Rightarrow> string \<Rightarrow> string \<Rightarrow> goerr option"
  kwGetVolume :: "kevent list \<Rightarrow> string \<Rightarrow> goerr + PersistentVolume"
  kwCreateVolume :: "kevent list \<Rightarrow> PersistentVolume \<Rightarrow> goerr option"
  kwDeleteVolume :: "kevent list \<Rightarrow> string \<Rightarrow> goerr option"
  kwGetDeployment :: "kevent list \<Rightarrow> string \<Rightarrow> string \<Rightarrow> goerr + Deployment"
  kwUpdateDeployment :: "kevent list \<Rightarrow> Deployment \<Rightarrow> goerr option"
  kwGetConfigMap :: "kevent list \<Rightarrow> string \<Rightarrow> string \<Rightarrow> goerr + ConfigMap"
  kwCreateConfigMap :: "kevent list \<Rightarrow> ConfigMap \<Rightarrow> goerr option"
  kwDeleteConfigMap :: "kevent list \<Rightarrow> string \<Rightarrow> string \<Rightarrow> goerr option"
  kwUpdateConfigMap :: "kevent list \<Rightarrow> ConfigMap \<Rightarrow> goerr option"
  kwGetService :: "kevent list \<Rightarrow> string \<Rightarrow> string \<Rightarrow> goerr + (string \<times> int) list"
  kwGetSecret :: "kevent list \<Rightarrow> string \<Rightarrow> string \<Rightarrow> goerr + (string \<times> string) list"
  kwGetContainers :: "kevent list \<Rightarrow> string \<Rightarrow> string \<Rightarrow> goerr + (string \<times> int option) list"
  kwExec :: "kevent list \<Rightarrow> string \<Rightarrow> string \<Rightarrow> string \<Rightarrow> string list \<Rightarrow> goerr + string"
  kwMakeValues :: "kevent list \<Rightarrow> RuntimeObject \<Rightarrow> goerr + string"
  kwCreateTemp :: "kevent list \<Rightarrow> string \<Rightarrow> goerr + string"
  kwWriteFile :: "kevent list \<Rightarrow> string \<Rightarrow> string \<Rightarrow> goerr option"
  kwReceive :: "kevent list \<Rightarrow> syncMessage"
  kwLookupEnv :: "string \<Rightarrow> string option"
  kwBadSelector :: "string \<Rightarrow> goerr option"
  kwNodeExcluded :: "(string \<times> string) list \<Rightarrow> bool"
  kwPolls :: "kevent list \<Rightarrow> nat"
  kwExpired :: "kevent list \<Rightarrow> bool"
  kwRandom :: "kevent list \<Rightarrow> int \<Rightarrow> int"

section \<open>Running an operation program in the world\<close>

definition opHistory :: "kevent list \<Rightarrow> event list" where
  "opHistory h = List.map_filter (\<lambda>e. case e of Op o1 \<Rightarrow> Some o1 | _ \<Rightarrow> None) h"

definition viaOp :: "world \<Rightarrow> (cluster \<Rightarrow> 'a cgo) \<Rightarrow> 'a kgo" where
  "viaOp w m h =
     (case m (kwCluster w h) (opHistory h) of
        (r, oh) \<Rightarrow> (r, h @ map Op (drop (length (opHistory h)) oh)))"

lemma emits_viaOp [emits_rules]:
  assumes "\<And>cl. emits (\<lambda>e. P (Op e)) (m cl)"
  shows "emits P (viaOp w m)"
  unfolding emits_def
proof
  fix h
  obtain r oh where run: "m (kwCluster w h) (opHistory h) = (r, oh)"
    by (cases "m (kwCluster w h) (opHistory h)")
  obtain es where "oh = opHistory h @ es" "list_all (\<lambda>e. P (Op e)) es"
    using emits_run [OF assms run] by blast
  with run show "\<exists>es. snd (viaOp w m h) = h @ es \<and> list_all P es"
    by (intro exI [of _ "map Op es"]) (simp add: viaOp_def list.pred_map comp_def)
qed

lemma completes_viaOp [completes_rules]:
  assumes "\<And>cl. completes (\<lambda>e. P (Op e)) (m cl)"
  shows "completes P (viaOp w m)"
  unfolding completes_def
proof
  fix h
  obtain a es where "m (kwCluster w h) (opHistory h) = (Ret a, opHistory h @ es)" "list_all (\<lambda>e. P (Op e)) es"
    using assms unfolding completes_def by blast
  then show "\<exists>a es. viaOp w m h = (Ret a, h @ es) \<and> list_all P es"
    by (intro exI [of _ a] exI [of _ "map Op es"]) (simp add: viaOp_def list.pred_map comp_def)
qed

lemma does_viaOp:
  assumes "\<And>cl. does (\<lambda>a es. P a (map Op es)) (m cl)"
  shows "does P (viaOp w m)"
  unfolding does_def
proof
  fix h
  obtain a es where "m (kwCluster w h) (opHistory h) = (Ret a, opHistory h @ es)" "P a (map Op es)"
    using assms unfolding does_def by blast
  then show "\<exists>a es. viaOp w m h = (Ret a, h @ es) \<and> P a es"
    by (intro exI [of _ a] exI [of _ "map Op es"]) (simp add: viaOp_def)
qed

lemma wp_viaOp_call [wp_rules]:
  "wp (viaOp w (\<lambda>cl. call (answer cl) ev)) Q h =
     (let a = answer (kwCluster w h) (opHistory h) in Q (Ret a) (h @ [Op (ev a)]))"
  by (simp add: wp_def viaOp_def call_def Let_def)

lemma wp_viaOp:
  "wp (viaOp w m) Q h =
     wp (m (kwCluster w h)) (\<lambda>r oh. Q r (h @ map Op (drop (length (opHistory h)) oh))) (opHistory h)"
  by (simp add: wp_def viaOp_def split: prod.splits)

section \<open>Polling\<close>

text \<open>
  \<open>wait.PollUntilContextCancel\<close> with an immediate first evaluation: the condition is evaluated until it says that it
  is done, fails, or the deadline passes.
\<close>

definition deadlineExceeded :: goerr where
  "deadlineExceeded = Err ''context deadline exceeded''"

fun pollLoop :: "nat \<Rightarrow> ('e, bool \<times> goerr option) go \<Rightarrow> ('e, goerr option) go" where
  "pollLoop 0 cond = ret (Some deadlineExceeded)"
| "pollLoop (Suc n) cond =
     andThen cond (\<lambda>(done, err).
       case err of
         Some e \<Rightarrow> ret (Some e)
       | None \<Rightarrow> if done then ret None else pollLoop n cond)"

definition Poll :: "world \<Rightarrow> (bool \<times> goerr option) kgo \<Rightarrow> (goerr option) kgo" where
  "Poll w cond h = pollLoop (Suc (kwPolls w h)) cond h"

lemma emits_pollLoop: "emits P cond \<Longrightarrow> emits P (pollLoop n cond)"
  by (induction n) (auto intro!: emits_rules)

lemma emits_Poll [emits_rules]: "emits P cond \<Longrightarrow> emits P (Poll w cond)"
  using emits_pollLoop [of P cond] by (simp add: emits_def Poll_def del: pollLoop.simps)

lemma completes_pollLoop: "completes P cond \<Longrightarrow> completes P (pollLoop n cond)"
  by (induction n) (auto intro!: completes_rules)

text \<open>A poll that succeeds ends with an evaluation that said that it is done.\<close>

lemma wp_pollLoop:
  assumes step: "\<And>h. I h \<Longrightarrow>
      wp cond (\<lambda>r h'. (r = Ret (False, None) \<longrightarrow> I h') \<and>
        (\<forall>d e. r = Ret (d, Some e) \<longrightarrow> Q (Ret (Some e)) h') \<and>
        (r = Ret (True, None) \<longrightarrow> Q (Ret None) h') \<and> (\<forall>s. r = Panic s \<longrightarrow> Q (Panic s) h')) h"
    and late: "\<And>h. I h \<Longrightarrow> Q (Ret (Some deadlineExceeded)) h" and "I h"
  shows "wp (pollLoop n cond) Q h"
  using \<open>I h\<close>
proof (induction n arbitrary: h)
  case 0
  with late show ?case by (simp add: wp_rules)
next
  case (Suc n)
  from step [OF Suc.prems] show ?case
    by (auto simp: wp_rules elim!: wp_mono split: out.splits option.splits intro!: Suc.IH)
qed

lemma wp_Poll: "wp (Poll w cond) Q h = wp (pollLoop (Suc (kwPolls w h)) cond) Q h"
  by (simp add: wp_def Poll_def)

lemma opHistory_simps [simp]:
  "opHistory [] = []" "opHistory (h @ h') = opHistory h @ opHistory h'"
  by (simp_all add: opHistory_def List.map_filter_def)

section \<open>Retrying with local state\<close>

text \<open>
  \<open>retry.RetryOnConflict\<close> with a function that assigns to variables of the surrounding function: their values are
  carried from one attempt to the next.
\<close>

fun OnErrorS :: "nat \<Rightarrow> (goerr \<Rightarrow> bool) \<Rightarrow> ('s \<Rightarrow> ('e, goerr option \<times> 's) go) \<Rightarrow> 's \<Rightarrow> ('e, goerr option \<times> 's) go" where
  "OnErrorS 0 retriable fn s = ret (None, s)"
| "OnErrorS (Suc n) retriable fn s =
     andThen (fn s) (\<lambda>(err, s').
       case err of
         None \<Rightarrow> ret (None, s')
       | Some e \<Rightarrow> if retriable e \<and> n \<noteq> 0 then OnErrorS n retriable fn s' else ret (Some e, s'))"

definition RetryOnConflictS :: "('s \<Rightarrow> ('e, goerr option \<times> 's) go) \<Rightarrow> 's \<Rightarrow> ('e, goerr option \<times> 's) go" where
  "RetryOnConflictS fn s = OnErrorS DefaultBackoff_Steps IsConflict fn s"

lemma emits_OnErrorS: "(\<And>s. emits P (fn s)) \<Longrightarrow> emits P (OnErrorS n retriable fn s)"
  by (induction n arbitrary: s) (auto intro!: emits_rules)

lemma emits_RetryOnConflictS [emits_rules]: "(\<And>s. emits P (fn s)) \<Longrightarrow> emits P (RetryOnConflictS fn s)"
  by (simp add: RetryOnConflictS_def emits_OnErrorS)

lemma RetryOnConflictS_induct:
  assumes "\<And>s h. I s h \<Longrightarrow>
      wp (fn s) (\<lambda>r h'. (\<forall>e s'. r = Ret (Some e, s') \<longrightarrow> IsConflict e \<longrightarrow> I s' h') \<and> Q r h') h"
    and "I s h"
  shows "wp (RetryOnConflictS fn s) Q h"
proof -
  have "wp (OnErrorS (Suc n) IsConflict fn s) Q h" if "I s h" for n s h
    using that
  proof (induction n arbitrary: s h)
    case 0
    from assms(1) [OF 0] show ?case
      by (auto simp: wp_rules elim!: wp_mono split: out.splits option.splits)
  next
    case (Suc n)
    from assms(1) [OF Suc.prems] show ?case
      unfolding OnErrorS.simps(2) [of "Suc n"]
      by (auto simp: wp_rules elim!: wp_mono split: out.splits option.splits intro!: Suc.IH simp del: OnErrorS.simps)
  qed
  from this [OF assms(2), of 3] show ?thesis
    by (simp add: RetryOnConflictS_def DefaultBackoff_Steps_def numeral_eq_Suc)
qed

section \<open>Histories\<close>

text \<open>The last answer to a question in a history.\<close>

definition lastAnswer :: "('e \<Rightarrow> 'a option) \<Rightarrow> 'e list \<Rightarrow> 'a option" where
  "lastAnswer f h = (case rev (List.map_filter f h) of [] \<Rightarrow> None | a # _ \<Rightarrow> Some a)"

lemma lastAnswer_simps [simp]:
  "lastAnswer f [] = None"
  "lastAnswer f (h @ [e]) = (case f e of None \<Rightarrow> lastAnswer f h | Some a \<Rightarrow> Some a)"
  by (simp_all add: lastAnswer_def List.map_filter_def split: option.splits)

section \<open>Examples\<close>

text \<open>A world whose calls all fail, to be updated field by field in examples.\<close>

definition downWorld :: world where
  "downWorld =
     \<lparr>kwCluster = \<lambda>_. downCluster, kwGetRuntime = \<lambda>_ _ _ _. Inl (Err ''down''),
      kwUpdateRuntimeStatus = \<lambda>_ _. Some (Err ''down''), kwUpdateRuntime = \<lambda>_ _. Inl (Err ''down''),
      kwCreateRuntime = \<lambda>_ _ _. Some (Err ''down''), kwUpdateDataset = \<lambda>_ _. Inl (Err ''down''),
      kwPatchDataset = \<lambda>_ _ _ _. Inl (Err ''down''), kwPatchRuntime = \<lambda>_ _ _ _. Inl (Err ''down''), kwGetDaemonSet = \<lambda>_ _ _. Inl (Err ''down''),
      kwCreateDaemonSet = \<lambda>_ _. Some (Err ''down''), kwGetNode = \<lambda>_ _. Inl (Err ''down''), kwListNodes = \<lambda>_ _ _. Inl (Err ''down''),
      kwPatchNode = \<lambda>_ _ _. Some (Err ''down''), kwUpdateNode = \<lambda>_ _. Some (Err ''down''), kwListPods = \<lambda>_ _ _. Inl (Err ''down''),
      kwGetClaim = \<lambda>_ _ _. Inl (Err ''down''), kwUpdateClaim = \<lambda>_ _. Some (Err ''down''),
      kwCreateClaim = \<lambda>_ _. Some (Err ''down''), kwDeleteClaim = \<lambda>_ _ _. Some (Err ''down''),
      kwGetVolume = \<lambda>_ _. Inl (Err ''down''), kwCreateVolume = \<lambda>_ _. Some (Err ''down''),
      kwDeleteVolume = \<lambda>_ _. Some (Err ''down''), kwGetDeployment = \<lambda>_ _ _. Inl (Err ''down''),
      kwUpdateDeployment = \<lambda>_ _. Some (Err ''down''), kwGetConfigMap = \<lambda>_ _ _. Inl (Err ''down''),
      kwCreateConfigMap = \<lambda>_ _. Some (Err ''down''), kwDeleteConfigMap = \<lambda>_ _ _. Some (Err ''down''),
      kwUpdateConfigMap = \<lambda>_ _. Some (Err ''down''), kwGetService = \<lambda>_ _ _. Inl (Err ''down''),
      kwGetSecret = \<lambda>_ _ _. Inl (Err ''down''), kwGetContainers = \<lambda>_ _ _. Inl (Err ''down''),
      kwExec = \<lambda>_ _ _ _ _. Inl (Err ''down''), kwMakeValues = \<lambda>_ _. Inl (Err ''down''),
      kwCreateTemp = \<lambda>_ _. Inl (Err ''down''), kwWriteFile = \<lambda>_ _ _. Some (Err ''down''),
      kwReceive = \<lambda>_. SyncRunning, kwLookupEnv = \<lambda>_. None, kwBadSelector = \<lambda>_. None,
      kwNodeExcluded = \<lambda>_. False, kwPolls = \<lambda>_. 1,
      kwExpired = \<lambda>_. False, kwRandom = \<lambda>_ _. 0\<rparr>"

end
