(* ===== verification/Kube_Client.thy ===== *)
theory Kube_Client
  imports Runtime_Api
begin

text \<open>
  \<open>pkg/utils/kubeclient\<close>, the accessors that the dataset controller, the runtime controllers and the engines use:
  claims and volumes (\<open>volume.go\<close>, \<open>volume_claim.go\<close>), pods (\<open>pod.go\<close>, \<open>statefulset.go\<close>), config maps, nodes and
  daemon sets, and \<open>pkg/utils/dataset/volume\<close> that deletes the volume of a dataset.
\<close>

section \<open>Reading\<close>

definition getRuntimeObject :: "world \<Rightarrow> string \<Rightarrow> string \<Rightarrow> string \<Rightarrow> (goerr + RuntimeObject) kgo" where
  "getRuntimeObject w kind name namespace =
     call (\<lambda>h. kwGetRuntime w h kind name namespace) (ReadRuntime kind name namespace)"

definition updateRuntimeStatus :: "world \<Rightarrow> RuntimeObject \<Rightarrow> (goerr option) kgo" where
  "updateRuntimeStatus w r = call (\<lambda>h. kwUpdateRuntimeStatus w h r) (WroteRuntimeStatus r)"

definition GetNode :: "world \<Rightarrow> string \<Rightarrow> (goerr + Node) kgo" where
  "GetNode w name = call (\<lambda>h. kwGetNode w h name) (ReadNode name)"

definition GetDaemonset :: "world \<Rightarrow> string \<Rightarrow> string \<Rightarrow> (goerr + DaemonSet) kgo" where
  "GetDaemonset w name namespace = call (\<lambda>h. kwGetDaemonSet w h name namespace) (ReadDaemonSet name namespace)"

definition GetPersistentVolume :: "world \<Rightarrow> string \<Rightarrow> (goerr + PersistentVolume) kgo" where
  "GetPersistentVolume w name = call (\<lambda>h. kwGetVolume w h name) (ReadVolume name)"

definition GetPersistentVolumeClaim :: "world \<Rightarrow> string \<Rightarrow> string \<Rightarrow> (goerr + Claim) kgo" where
  "GetPersistentVolumeClaim w name namespace =
     call (\<lambda>h. kwGetClaim w h name namespace) (ReadClaim name namespace)"

section \<open>pod.go and statefulset.go\<close>

definition IsCompletePod :: "PodInfo \<Rightarrow> bool" where
  "IsCompletePod pod =
     (piDeletionTimestamp pod \<noteq> None \<or> piPhase pod = ''Succeeded'' \<or> piPhase pod = ''Failed'')"

definition GetPVCNamesFromPod :: "PodInfo \<Rightarrow> string list" where
  "GetPVCNamesFromPod pod = List.map_filter snd (piClaims pod)"

definition requirementIn :: "string \<Rightarrow> string \<Rightarrow> NodeSelectorRequirement" where
  "requirementIn key val = \<lparr>nrKey = key, nrOperator = ''In'', nrValues = [val]\<rparr>"

definition MergeNodeSelectorAndNodeAffinity ::
  "(string \<times> string) list \<Rightarrow> Affinity option \<Rightarrow> NodeAffinity" where
  "MergeNodeSelectorAndNodeAffinity nodeSelector podAffinity =
     (let nodeAffinity =
            (case Option.bind podAffinity afNodeAffinity of
               Some na \<Rightarrow> na
             | None \<Rightarrow> \<lparr>naRequired = Some (Some []), naPreferred = []\<rparr>);
          terms = (case naRequired nodeAffinity of Some (Some ts) \<Rightarrow> ts | _ \<Rightarrow> []);
          expressions = map (\<lambda>(key, val). requirementIn key val) nodeSelector;
          merged = (if expressions = [] then
                      (case naRequired nodeAffinity of None \<Rightarrow> Some [] | Some ts \<Rightarrow> ts)
                    else if terms = [] then Some [expressions]
                    else Some (map (\<lambda>t. t @ expressions) terms)) in
      nodeAffinity\<lparr>naRequired := Some merged\<rparr>)"

text \<open>
  The regular expression \<open>(.*)-([0-9]+)$\<close>: what precedes the last dash, if digits and nothing else follow it, and
  the ordinal, \<open>-1\<close> if it does not fit 32 bits.
\<close>

definition isDigit :: "char \<Rightarrow> bool" where
  "isDigit c = (48 \<le> (of_char c :: nat) \<and> (of_char c :: nat) \<le> 57)"

definition getParentNameAndOrdinal :: "string \<Rightarrow> string \<times> int" where
  "getParentNameAndOrdinal name =
     (let digits = takeWhile (\<lambda>c. c \<noteq> CHR ''-'') (rev name);
          rest = dropWhile (\<lambda>c. c \<noteq> CHR ''-'') (rev name) in
      if rest = [] \<or> digits = [] \<or> \<not> list_all isDigit digits then ('''', -1)
      else (rev (tl rest), case ParseInt (rev digits) 10 32 of None \<Rightarrow> -1 | Some i \<Rightarrow> i))"

definition getParentName :: "PodInfo \<Rightarrow> string" where
  "getParentName pod = fst (getParentNameAndOrdinal (piName pod))"

definition isMemberOf :: "StatefulSet \<Rightarrow> PodInfo \<Rightarrow> bool" where
  "isMemberOf sts pod = (getParentName pod = stsName sts)"

text \<open>
  \<open>compareOwnerRefMatcheWithExpected\<close> for a stateful set: the reference has to name its kind and group, the object it
  names has to exist, and the UIDs have to agree.
\<close>

definition compareOwnerRef :: "world \<Rightarrow> ControllerRef \<Rightarrow> string \<Rightarrow> StatefulSet \<Rightarrow> (bool \<times> goerr option) kgo" where
  "compareOwnerRef w controllerRef namespace sts =
     (if crKind controllerRef \<noteq> ''StatefulSet'' \<or> crGroup controllerRef \<noteq> ''apps'' then ret (False, None)
      else
        andThen (viaOp w (\<lambda>cl. GetStatefulSet cl (crName controllerRef) namespace)) (\<lambda>r.
        case r of
          Inl e \<Rightarrow> ret (False, IgnoreNotFound (Some e))
        | Inr _ \<Rightarrow> ret (crUID controllerRef = stsUID sts, None)))"

fun podsOf :: "world \<Rightarrow> StatefulSet \<Rightarrow> PodInfo list \<Rightarrow> PodInfo list \<Rightarrow> (PodInfo list \<times> goerr option) kgo" where
  "podsOf w sts [] pods = ret (pods, None)"
| "podsOf w sts (pod # rest) pods =
     (case (isMemberOf sts pod, piController pod) of
        (True, Some controllerRef) \<Rightarrow>
          andThen (compareOwnerRef w controllerRef (piNamespace pod) sts) (\<lambda>(matched, err).
          if err \<noteq> None then ret (pods, err)
          else podsOf w sts rest (if matched then pods @ [pod] else pods))
      | _ \<Rightarrow> podsOf w sts rest pods)"

definition GetPodsForStatefulSet :: "world \<Rightarrow> StatefulSet \<Rightarrow> string \<Rightarrow> (PodInfo list \<times> goerr option) kgo" where
  "GetPodsForStatefulSet w sts selector =
     andThen (call (\<lambda>h. kwListPods w h (stsNamespace sts) selector) (ListedPods (stsNamespace sts) selector)) (\<lambda>r.
     case r of
       Inl e \<Rightarrow> ret ([], Some e)
     | Inr items \<Rightarrow> podsOf w sts items [])"

section \<open>volume.go\<close>

definition GetExpectedFluidAnnotations :: "(string \<times> string) list" where
  "GetExpectedFluidAnnotations = [(''CreatedBy'', ''fluid'')]"

text \<open>An object without annotations is not found, nor is one whose annotations differ from the expected ones.\<close>

definition annotated :: "(string \<times> string) list \<Rightarrow> ObjectMeta \<Rightarrow> bool" where
  "annotated annotations meta =
     (omAnnotations meta \<noteq> [] \<and> list_all (\<lambda>(k, v). lookupStr (omAnnotations meta) k = v) annotations)"

definition IsPersistentVolumeExist ::
  "world \<Rightarrow> string \<Rightarrow> (string \<times> string) list \<Rightarrow> (bool \<times> goerr option) kgo" where
  "IsPersistentVolumeExist w name annotations =
     andThen (GetPersistentVolume w name) (\<lambda>r.
     case r of
       Inl e \<Rightarrow> ret (False, if IsNotFound e then None else Some e)
     | Inr pv \<Rightarrow> ret (annotated annotations (pvMeta pv), None))"

definition IsPersistentVolumeClaimExist ::
  "world \<Rightarrow> string \<Rightarrow> string \<Rightarrow> (string \<times> string) list \<Rightarrow> (bool \<times> goerr option) kgo" where
  "IsPersistentVolumeClaimExist w name namespace annotations =
     andThen (GetPersistentVolumeClaim w name namespace) (\<lambda>r.
     case r of
       Inl e \<Rightarrow> ret (False, if IsNotFound e then None else Some e)
     | Inr pvc \<Rightarrow> ret (annotated annotations (pvcMeta pvc), None))"

definition DeletePersistentVolume :: "world \<Rightarrow> string \<Rightarrow> (goerr option) kgo" where
  "DeletePersistentVolume w name =
     andThen (GetPersistentVolume w name) (\<lambda>r.
     case r of
       Inl e \<Rightarrow> ret (if IsNotFound e then None else Some e)
     | Inr pv \<Rightarrow>
         andThen (call (\<lambda>h. kwDeleteVolume w h name) (DeletedVolume name)) (\<lambda>err.
         case err of
           Some e \<Rightarrow>
             if IsNotFound e then ret (Some e)
             else ret (Some (Err (''error deleting pv '' @ name @ '': '' @ errText e)))
         | None \<Rightarrow> ret None))"

definition DeletePersistentVolumeClaim :: "world \<Rightarrow> string \<Rightarrow> string \<Rightarrow> (goerr option) kgo" where
  "DeletePersistentVolumeClaim w name namespace =
     andThen (GetPersistentVolumeClaim w name namespace) (\<lambda>r.
     case r of
       Inl e \<Rightarrow> ret (if IsNotFound e then None else Some e)
     | Inr pvc \<Rightarrow>
         if omDeletionTimestamp (pvcMeta pvc) \<noteq> None then ret None
         else
           andThen (call (\<lambda>h. kwDeleteClaim w h name namespace) (DeletedClaim name namespace)) (\<lambda>err.
           case err of
             Some e \<Rightarrow>
               if IsNotFound e then ret (Some e)
               else ret (Some (Err (''error deleting pvc '' @ name @ '': '' @ errText e)))
           | None \<Rightarrow> ret None))"

definition GetPVCsFromPod :: "PodInfo \<Rightarrow> (string \<times> string option) list" where
  "GetPVCsFromPod pod = filter (\<lambda>v. snd v \<noteq> None) (piClaims pod)"

text \<open>A pod is listed once for every volume of it that refers to the claim.\<close>

definition mountPods :: "string \<Rightarrow> PodInfo list \<Rightarrow> PodInfo list" where
  "mountPods pvcName pods =
     concat (map (\<lambda>pod. map (\<lambda>_. pod) (filter (\<lambda>v. snd v = Some pvcName) (GetPVCsFromPod pod))) pods)"

definition GetPvcMountPods :: "world \<Rightarrow> string \<Rightarrow> string \<Rightarrow> (goerr + PodInfo list) kgo" where
  "GetPvcMountPods w pvcName namespace =
     andThen (call (\<lambda>h. kwListPods w h namespace '''') (ListedPods namespace '''')) (\<lambda>r.
     case r of
       Inl e \<Rightarrow> ret (Inl e)
     | Inr pods \<Rightarrow> ret (Inr (mountPods pvcName pods)))"

fun countNodes :: "PodInfo list \<Rightarrow> (string \<times> int) list \<Rightarrow> (string \<times> int) list" where
  "countNodes [] nodes = nodes"
| "countNodes (pod # pods) nodes =
     countNodes pods
       (if IsCompletePod pod \<or> piNodeName pod = '''' then nodes
        else case map_of nodes (piNodeName pod) of
               None \<Rightarrow> AList.update (piNodeName pod) 1 nodes
             | Some n \<Rightarrow> AList.update (piNodeName pod) (n + 1) nodes)"

definition GetPvcMountNodes :: "world \<Rightarrow> string \<Rightarrow> string \<Rightarrow> (goerr + (string \<times> int) list) kgo" where
  "GetPvcMountNodes w pvcName namespace =
     andThen (GetPvcMountPods w pvcName namespace) (\<lambda>r.
     case r of
       Inl e \<Rightarrow> ret (Inl e)
     | Inr pods \<Rightarrow> ret (Inr (countNodes pods [])))"

abbreviation protectionFinalizer :: string where
  "protectionFinalizer \<equiv> ''kubernetes.io/pvc-protection''"

definition RemoveProtectionFinalizer :: "world \<Rightarrow> string \<Rightarrow> string \<Rightarrow> (goerr option) kgo" where
  "RemoveProtectionFinalizer w name namespace =
     andThen (GetPersistentVolumeClaim w name namespace) (\<lambda>r.
     case r of
       Inl e \<Rightarrow> ret (Some e)
     | Inr pvc \<Rightarrow>
         let pvc' = pvc\<lparr>pvcMeta := (pvcMeta pvc)
                          \<lparr>omFinalizers := RemoveString (omFinalizers (pvcMeta pvc)) protectionFinalizer\<rparr>\<rparr> in
         call (\<lambda>h. kwUpdateClaim w h pvc') (WroteClaim pvc'))"

definition inUse :: "PodInfo \<Rightarrow> string" where
  "inUse pod = ''Pod '' @ piName pod @ '' in Namespace '' @ piNamespace pod"

definition ShouldDeleteDataset :: "world \<Rightarrow> string \<Rightarrow> string \<Rightarrow> (goerr option) kgo" where
  "ShouldDeleteDataset w name namespace =
     andThen (IsPersistentVolumeClaimExist w name namespace GetExpectedFluidAnnotations) (\<lambda>(exist, err).
     if err \<noteq> None then ret err
     else if \<not> exist then ret None
     else
       andThen (GetPvcMountPods w name namespace) (\<lambda>r.
       case r of
         Inl e \<Rightarrow> ret (Some e)
       | Inr pods \<Rightarrow>
           (case List.find (\<lambda>p. \<not> IsCompletePod p) pods of
              Some pod \<Rightarrow> ret (Some (Err (''can not delete dataset because '' @ inUse pod @ '' is using it'')))
            | None \<Rightarrow> ret None)))"

abbreviation pvcDeleteTimeout :: int where
  "pvcDeleteTimeout \<equiv> 30 * second"

definition ShouldRemoveProtectionFinalizer :: "world \<Rightarrow> string \<Rightarrow> string \<Rightarrow> (bool \<times> goerr option) kgo" where
  "ShouldRemoveProtectionFinalizer w name namespace =
     andThen (GetPersistentVolumeClaim w name namespace) (\<lambda>r.
     case r of
       Inl e \<Rightarrow> ret (False, Some e)
     | Inr pvc \<Rightarrow>
         (case omDeletionTimestamp (pvcMeta pvc) of
            None \<Rightarrow> ret (False, None)
          | Some deleted \<Rightarrow>
              if \<not> ContainsString (omFinalizers (pvcMeta pvc)) protectionFinalizer then ret (False, None)
              else
                andThen (viaOp w now) (\<lambda>t.
                if t < deleted + pvcDeleteTimeout then ret (False, None)
                else
                  andThen (GetPvcMountPods w name namespace) (\<lambda>r.
                  case r of
                    Inl e \<Rightarrow> ret (False, Some e)
                  | Inr pods \<Rightarrow>
                      (case List.find (\<lambda>p. \<not> IsCompletePod p) pods of
                         Some pod \<Rightarrow>
                           ret (False, Some (Err (''can not remove pvc-protection finalizer because '' @
                                                  inUse pod @ '' is not completed'')))
                       | None \<Rightarrow> ret (True, None))))))"

text \<open>The labels by which a claim is known to belong to a dataset.\<close>

definition GetManagerDatasetFromLabels :: "(string \<times> string) list \<Rightarrow> string \<times> bool" where
  "GetManagerDatasetFromLabels labels =
     (case map_of labels ''fluid.io/managed-by'' of
        Some n \<Rightarrow> (n, True)
      | None \<Rightarrow> (case map_of labels ''fluid.io/wrapped-by'' of Some n \<Rightarrow> (n, True) | None \<Rightarrow> ('''', False)))"

definition CheckIfPVCIsDataset :: "Claim option \<Rightarrow> bool" where
  "CheckIfPVCIsDataset pvc =
     (case pvc of
        None \<Rightarrow> False
      | Some c \<Rightarrow>
          list_ex (\<lambda>(key, _). HasPrefix key ''fluid.io/s-'') (omLabels (pvcMeta c)) \<or>
          snd (GetManagerDatasetFromLabels (omLabels (pvcMeta c))))"

definition GetReferringDatasetPVCInfo :: "Claim \<Rightarrow> bool \<times> string \<times> string" where
  "GetReferringDatasetPVCInfo pvc =
     (map_of (omLabels (pvcMeta pvc)) ''fluid.io/dataset.referring-namespace'' \<noteq> None,
      lookupStr (omLabels (pvcMeta pvc)) ''fluid.io/dataset.referring-name'',
      lookupStr (omLabels (pvcMeta pvc)) ''fluid.io/dataset.referring-namespace'')"

lemmas read_defs = GetPersistentVolume_def GetPersistentVolumeClaim_def GetNode_def GetDaemonset_def
  getRuntimeObject_def

section \<open>The meaning of a merged affinity\<close>

text \<open>
  Which nodes a node affinity admits, as Kubernetes defines it: \<open>sat\<close> tells which requirements the node satisfies; a
  term needs all of its requirements, an empty term admits no node, and one of the terms has to admit the node.
\<close>

definition admits :: "(NodeSelectorRequirement \<Rightarrow> bool) \<Rightarrow> NodeSelectorTerm list \<Rightarrow> bool" where
  "admits sat terms = list_ex (\<lambda>t. t \<noteq> [] \<and> list_all sat t) terms"

definition termsOf :: "NodeAffinity option \<Rightarrow> NodeSelectorTerm list" where
  "termsOf na = (case na of Some a \<Rightarrow> (case naRequired a of Some (Some ts) \<Rightarrow> ts | _ \<Rightarrow> []) | None \<Rightarrow> [])"

text \<open>
  Merging the node selector of the workers into their node affinity keeps its meaning: the merged affinity admits
  exactly the nodes that have all labels of the selector and that the affinity of the workers admits, if it has terms.
\<close>

theorem merged_affinity_meaning:
  assumes "nodeSelector \<noteq> []" and "[] \<notin> set (termsOf (Option.bind podAffinity afNodeAffinity))"
  shows "admits sat (termsOf (Some (MergeNodeSelectorAndNodeAffinity nodeSelector podAffinity))) \<longleftrightarrow>
    list_all (\<lambda>(k, v). sat (requirementIn k v)) nodeSelector \<and>
    (termsOf (Option.bind podAffinity afNodeAffinity) = [] \<or>
     admits sat (termsOf (Option.bind podAffinity afNodeAffinity)))"
proof -
  let ?es = "map (\<lambda>(k, v). requirementIn k v) nodeSelector"
  let ?ts = "termsOf (Option.bind podAffinity afNodeAffinity)"
  have es: "?es \<noteq> []" "list_all sat ?es = list_all (\<lambda>(k, v). sat (requirementIn k v)) nodeSelector"
    using assms(1) by (auto simp: list_all_iff)
  have "termsOf (Some (MergeNodeSelectorAndNodeAffinity nodeSelector podAffinity)) =
      (if ?ts = [] then [?es] else map (\<lambda>t. t @ ?es) ?ts)"
    using assms(1)
    by (auto simp: MergeNodeSelectorAndNodeAffinity_def termsOf_def Let_def split: option.splits)
  moreover have "admits sat (map (\<lambda>t. t @ ?es) ?ts) \<longleftrightarrow> list_all sat ?es \<and> admits sat ?ts"
    using assms(2) es(1) unfolding admits_def list_ex_iff
    by (simp only: set_map list_all_append append_is_Nil_conv bex_simps) (metis (no_types, lifting))
  moreover have "admits sat [?es] \<longleftrightarrow> list_all sat ?es" using es(1) by (simp add: admits_def)
  ultimately show ?thesis using es(2) by auto
qed

theorem merged_affinity_meaning_witness:
  "admits (\<lambda>r. nrKey r = ''zone'') (termsOf (Some (MergeNodeSelectorAndNodeAffinity [(''zone'', ''z1'')] None))) \<longleftrightarrow>
    list_all (\<lambda>(k, v). nrKey (requirementIn k v) = ''zone'') [(''zone'', ''z1'')] \<and>
    (termsOf (Option.bind (None :: Affinity option) afNodeAffinity) = [] \<or>
     admits (\<lambda>r. nrKey r = ''zone'') (termsOf (Option.bind (None :: Affinity option) afNodeAffinity)))"
  by (rule merged_affinity_meaning [where sat = "\<lambda>r. nrKey r = ''zone''"]) (simp_all add: termsOf_def)

end
