(* ===== verification/Runtime_Info.thy ===== *)
theory Runtime_Info
  imports Kube_Client
begin

text \<open>
  \<open>RuntimeInfo\<close> (\<open>pkg/ddc/base/runtime.go\<close>, \<open>label.go\<close>, \<open>pv.go\<close>, \<open>runtime_conventions.go\<close>): what an engine knows of
  its runtime, the names of labels, volumes and stateful sets that are derived from it (\<open>pkg/utils/label.go\<close>), the
  tiered store (\<open>pkg/utils/tieredstore\<close>) and the helpers on maps (\<open>pkg/utils/map.go\<close>). \<open>resource.ParseQuantity\<close> is
  a parameter; a quantity is its value in bytes.
\<close>

section \<open>map.go\<close>

definition ContainsAll :: "(string \<times> string) list \<Rightarrow> string list \<Rightarrow> bool" where
  "ContainsAll m slice =
     (if slice = [] then True
      else if m = [] then False
      else list_all (\<lambda>elem. map_of m elem \<noteq> None) slice)"

text \<open>A Go map built by assignments: the last one of a key wins.\<close>

definition assignAll :: "(string \<times> 'v) list \<Rightarrow> (string \<times> 'v) list \<Rightarrow> (string \<times> 'v) list" where
  "assignAll kvs m = fold (\<lambda>(k, v) m. AList.update k v m) kvs m"

definition UnionMapsWithOverride ::
  "(string \<times> string) list \<Rightarrow> (string \<times> string) list \<Rightarrow> (string \<times> string) list" where
  "UnionMapsWithOverride m1 m2 = assignAll m2 (assignAll m1 [])"

definition GetMapsDifference ::
  "(string \<times> string) list \<Rightarrow> (string \<times> string) list \<Rightarrow> (string \<times> string) list" where
  "GetMapsDifference m1 m2 = assignAll (filter (\<lambda>(k, v). map_of m2 k = None) m1) []"

definition SetValueIfKeyAbsent :: "(string \<times> string) list \<Rightarrow> string \<Rightarrow> string \<Rightarrow> (string \<times> string) list" where
  "SetValueIfKeyAbsent m key val = (if map_of m key = None then AList.update key val m else m)"

lemma map_of_assignAll: "map_of (assignAll kvs m) = map_of m ++ map_of (rev kvs)"
proof (induction kvs arbitrary: m)
  case Nil
  then show ?case by (simp add: assignAll_def)
next
  case (Cons kv kvs)
  obtain k v where kv: "kv = (k, v)" by (cases kv)
  have "assignAll (kv # kvs) m = assignAll kvs (AList.update k v m)"
    by (simp add: assignAll_def kv)
  then show ?case
    by (simp add: Cons.IH kv update_conv' map_add_upd_left)
       (auto simp: map_add_def fun_eq_iff split: option.splits)
qed

lemma dom_assignAll: "dom (map_of (assignAll kvs m)) = dom (map_of m) \<union> fst ` set kvs"
  by (auto simp: map_of_assignAll dom_map_of_conv_image_fst)

lemma distinct_assignAll: "distinct (map fst m) \<Longrightarrow> distinct (map fst (assignAll kvs m))"
  by (induction kvs arbitrary: m) (auto simp: assignAll_def distinct_update)

section \<open>label.go\<close>

definition GetNamespacedNameValueWithPrefix :: "string \<Rightarrow> string \<Rightarrow> string \<Rightarrow> string \<Rightarrow> string" where
  "GetNamespacedNameValueWithPrefix prefix namespace name ownerDatasetUID =
     (let full = prefix @ namespace @ ''-'' @ name in
      if length full < 63 then full
      else if ownerDatasetUID = '''' then full
      else prefix @ ownerDatasetUID)"

abbreviation storagePrefix :: string where
  "storagePrefix \<equiv> ''fluid.io/s-''"

definition GetStorageLabelName :: "string \<Rightarrow> string \<Rightarrow> string \<Rightarrow> string \<Rightarrow> string \<Rightarrow> string \<Rightarrow> string" where
  "GetStorageLabelName read storage runtimeType namespace name uid =
     GetNamespacedNameValueWithPrefix (storagePrefix @ read @ runtimeType @ ''-'' @ storage) namespace name uid"

definition GetLabelNameForMemory :: "string \<Rightarrow> string \<Rightarrow> string \<Rightarrow> string \<Rightarrow> string" where
  "GetLabelNameForMemory = GetStorageLabelName ''h-'' ''m-''"

definition GetLabelNameForDisk :: "string \<Rightarrow> string \<Rightarrow> string \<Rightarrow> string \<Rightarrow> string" where
  "GetLabelNameForDisk = GetStorageLabelName ''h-'' ''d-''"

definition GetLabelNameForTotal :: "string \<Rightarrow> string \<Rightarrow> string \<Rightarrow> string \<Rightarrow> string" where
  "GetLabelNameForTotal = GetStorageLabelName ''h-'' ''t-''"

definition GetCommonLabelName :: "string \<Rightarrow> string \<Rightarrow> string \<Rightarrow> string" where
  "GetCommonLabelName = GetNamespacedNameValueWithPrefix storagePrefix"

definition GetRuntimeLabelName :: "string \<Rightarrow> string \<Rightarrow> string \<Rightarrow> string \<Rightarrow> string" where
  "GetRuntimeLabelName runtimeType =
     GetNamespacedNameValueWithPrefix (storagePrefix @ runtimeType @ ''-'')"

definition GetFuseLabelName :: "string \<Rightarrow> string \<Rightarrow> string \<Rightarrow> string" where
  "GetFuseLabelName = GetNamespacedNameValueWithPrefix ''fluid.io/f-''"

definition GetExclusiveKey :: string where
  "GetExclusiveKey = ''fluid_exclusive''"

definition GetDatasetId :: "string \<Rightarrow> string \<Rightarrow> string \<Rightarrow> string" where
  "GetDatasetId = GetNamespacedNameValueWithPrefix ''''"

definition GetDatasetNumLabelName :: string where
  "GetDatasetNumLabelName = ''fluid.io/dataset-num''"

section \<open>runtime.go\<close>

record CachePath =
  cpPath :: string
  cpQuota :: int

record Level =
  lvMediumType :: string
  lvVolumeType :: string
  lvCachePaths :: "CachePath list"
  lvHigh :: string
  lvLow :: string

text \<open>\<open>Metadata\<close>: labels and annotations for the objects of a group and kind.\<close>

record Metadata =
  mdGroup :: string
  mdKind :: string
  mdLabels :: "(string \<times> string) list"
  mdAnnotations :: "(string \<times> string) list"

record RuntimeInfo =
  riName :: string
  riNamespace :: string
  riOwnerDatasetUID :: string
  riRuntimeType :: string
  riTieredStore :: "Level list"
  riPlacementMode :: "string option"
  riFuseName :: string
  riFuseNodeSelector :: "(string \<times> string) list"
  riFuseCleanPolicy :: string
  riMetricsScrapeTarget :: "string list"
  riAnnotations :: "(string \<times> string) list"
  riMetadataList :: "Metadata list"

text \<open>The modes by which a pod reaches a dataset whose metrics are scraped; \<open>All\<close> and \<open>None\<close> end the list.\<close>

abbreviation SupportedMountModes :: "string list" where
  "SupportedMountModes \<equiv> [''MountPod'', ''Sidecar'']"

fun selectModes :: "string list \<Rightarrow> string list \<Rightarrow> goerr + string list" where
  "selectModes [] selected = Inr selected"
| "selectModes (mode # modes) selected =
     (if mode = ''All'' then Inr (selected @ SupportedMountModes)
      else if mode = ''None'' then Inr selected
      else if mode \<in> set SupportedMountModes then selectModes modes (selected @ [mode])
      else Inl (Err (''unsupported mount mode '' @ mode @ '', supported mount modes are [MountPod Sidecar]'')))"

definition ParseMountModeSelectorFromStr :: "string \<Rightarrow> goerr + string list" where
  "ParseMountModeSelectorFromStr mountModeStr =
     (if mountModeStr = '''' then Inr [] else selectModes (Split CHR '','' mountModeStr) [])"

definition WithClientMetrics :: "string \<Rightarrow> RuntimeInfo \<Rightarrow> goerr + RuntimeInfo" where
  "WithClientMetrics scrapeTarget info =
     (case ParseMountModeSelectorFromStr (if scrapeTarget = '''' then ''None'' else scrapeTarget) of
        Inl e \<Rightarrow> Inl e
      | Inr target \<Rightarrow> Inr (info\<lparr>riMetricsScrapeTarget := target\<rparr>))"

text \<open>Division of \<open>int64\<close> in Go truncates towards zero.\<close>

definition quotient :: "int \<Rightarrow> int \<Rightarrow> int" where
  "quotient a b = sgn a * sgn b * (\<bar>a\<bar> div \<bar>b\<bar>)"

definition TrimRightSlash :: "string \<Rightarrow> string" where
  "TrimRightSlash s = rev (dropWhile (\<lambda>c. c = CHR ''/'') (rev s))"

fun quotaPaths :: "(string \<Rightarrow> int option) \<Rightarrow> string list \<Rightarrow> string list \<Rightarrow> goerr + CachePath list" where
  "quotaPaths parseQuantity (quotaStr # quotaStrs) (path # paths) =
     (case parseQuantity quotaStr of
        None \<Rightarrow> Inl (Err (''can't correctly parse quota '' @ quotaStr @ '' to a quantity type''))
      | Some q \<Rightarrow>
          (case quotaPaths parseQuantity quotaStrs paths of
             Inl e \<Rightarrow> Inl e
           | Inr cps \<Rightarrow> Inr (\<lparr>cpPath = TrimRightSlash path, cpQuota = q\<rparr> # cps)))"
| "quotaPaths parseQuantity _ _ = Inr []"

definition convertLevel :: "(string \<Rightarrow> int option) \<Rightarrow> StoreLevel \<Rightarrow> goerr + Level" where
  "convertLevel parseQuantity level =
     (let paths = Split CHR '','' (slPath level);
          cachePaths =
            (if slQuotaList level = '''' then
               (case slQuota level of
                  None \<Rightarrow> Inl (Err ''either quota or quotaList must be set'')
                | Some quota \<Rightarrow>
                    Inr (map (\<lambda>path. \<lparr>cpPath = TrimRightSlash path,
                                      cpQuota = quotient quota (int (length paths))\<rparr>) paths))
             else
               let quotaStrs = Split CHR '','' (slQuotaList level) in
               if length quotaStrs \<noteq> length paths
               then Inl (Err ''length of quotaList must be consistent with length of paths'')
               else quotaPaths parseQuantity quotaStrs paths) in
      case cachePaths of
        Inl e \<Rightarrow> Inl e
      | Inr cps \<Rightarrow> Inr \<lparr>lvMediumType = slMediumType level, lvVolumeType = slVolumeType level,
                       lvCachePaths = cps, lvHigh = slHigh level, lvLow = slLow level\<rparr>)"

fun convertToTieredstoreInfo :: "(string \<Rightarrow> int option) \<Rightarrow> StoreLevel list \<Rightarrow> goerr + Level list" where
  "convertToTieredstoreInfo parseQuantity [] = Inr []"
| "convertToTieredstoreInfo parseQuantity (level # levels) =
     (case convertLevel parseQuantity level of
        Inl e \<Rightarrow> Inl e
      | Inr l \<Rightarrow>
          (case convertToTieredstoreInfo parseQuantity levels of Inl e \<Rightarrow> Inl e | Inr ls \<Rightarrow> Inr (l # ls)))"

definition BuildRuntimeInfo ::
  "(string \<Rightarrow> int option) \<Rightarrow> string \<Rightarrow> string \<Rightarrow> string \<Rightarrow> StoreLevel list \<Rightarrow> Metadata list \<Rightarrow>
   (string \<times> string) list \<Rightarrow> goerr + RuntimeInfo" where
  "BuildRuntimeInfo parseQuantity name namespace runtimeType tieredStore metadataList annotations =
     (case convertToTieredstoreInfo parseQuantity tieredStore of
        Inl e \<Rightarrow> Inl (Wrapped (''fail to build runtime info '' @ namespace @ ''/'' @ name) e)
      | Inr levels \<Rightarrow>
          Inr \<lparr>riName = name, riNamespace = namespace, riOwnerDatasetUID = '''', riRuntimeType = runtimeType,
               riTieredStore = levels, riPlacementMode = None, riFuseName = '''', riFuseNodeSelector = [],
               riFuseCleanPolicy = '''', riMetricsScrapeTarget = [], riAnnotations = annotations, riMetadataList = metadataList\<rparr>)"

definition IsPlacementModeSet :: "RuntimeInfo \<Rightarrow> bool" where
  "IsPlacementModeSet info = (riPlacementMode info \<noteq> None)"

definition GetPlacementModeWithDefault :: "RuntimeInfo \<Rightarrow> string \<Rightarrow> string" where
  "GetPlacementModeWithDefault info defaultMode =
     (case riPlacementMode info of None \<Rightarrow> defaultMode | Some m \<Rightarrow> m)"

definition SetupWithDataset :: "Dataset \<Rightarrow> RuntimeInfo \<Rightarrow> RuntimeInfo" where
  "SetupWithDataset dataset info =
     info\<lparr>riPlacementMode :=
       Some (if dsPlacementMode (dSpec dataset) = '''' then ''Exclusive'' else dsPlacementMode (dSpec dataset))\<rparr>"

definition SetOwnerDatasetUID :: "string \<Rightarrow> RuntimeInfo \<Rightarrow> RuntimeInfo" where
  "SetOwnerDatasetUID datasetUID info =
     (if datasetUID = '''' then info else info\<lparr>riOwnerDatasetUID := datasetUID\<rparr>)"

definition SetFuseNodeSelector :: "(string \<times> string) list \<Rightarrow> RuntimeInfo \<Rightarrow> RuntimeInfo" where
  "SetFuseNodeSelector nodeSelector info = info\<lparr>riFuseNodeSelector := nodeSelector\<rparr>"

definition SetupFuseCleanPolicy :: "string \<Rightarrow> RuntimeInfo \<Rightarrow> RuntimeInfo" where
  "SetupFuseCleanPolicy policy info =
     info\<lparr>riFuseCleanPolicy := (if policy = '''' then ''OnRuntimeDeleted'' else policy)\<rparr>"

text \<open>The names derived from a \<open>RuntimeInfo\<close>: its methods in \<open>label.go\<close>, \<open>pv.go\<close> and \<open>runtime_conventions.go\<close>.\<close>

definition memoryLabel :: "RuntimeInfo \<Rightarrow> string" where
  "memoryLabel info =
     GetLabelNameForMemory (riRuntimeType info) (riNamespace info) (riName info) (riOwnerDatasetUID info)"

definition diskLabel :: "RuntimeInfo \<Rightarrow> string" where
  "diskLabel info =
     GetLabelNameForDisk (riRuntimeType info) (riNamespace info) (riName info) (riOwnerDatasetUID info)"

definition totalLabel :: "RuntimeInfo \<Rightarrow> string" where
  "totalLabel info =
     GetLabelNameForTotal (riRuntimeType info) (riNamespace info) (riName info) (riOwnerDatasetUID info)"

definition commonLabel :: "RuntimeInfo \<Rightarrow> string" where
  "commonLabel info = GetCommonLabelName (riNamespace info) (riName info) (riOwnerDatasetUID info)"

definition runtimeLabel :: "RuntimeInfo \<Rightarrow> string" where
  "runtimeLabel info =
     GetRuntimeLabelName (riRuntimeType info) (riNamespace info) (riName info) (riOwnerDatasetUID info)"

definition fuseLabel :: "RuntimeInfo \<Rightarrow> string" where
  "fuseLabel info = GetFuseLabelName (riNamespace info) (riName info) (riOwnerDatasetUID info)"

definition GetExclusiveLabelValue :: "RuntimeInfo \<Rightarrow> string" where
  "GetExclusiveLabelValue info =
     (let exclusiveLabelValue = riNamespace info @ ''_'' @ riName info in
      if length exclusiveLabelValue < 63 then exclusiveLabelValue
      else GetNamespacedNameValueWithPrefix '''' (riNamespace info) (riName info) (riOwnerDatasetUID info))"

definition GetPersistentVolumeName :: "RuntimeInfo \<Rightarrow> string" where
  "GetPersistentVolumeName info = riNamespace info @ ''-'' @ riName info"

definition GetWorkerStatefulsetName :: "RuntimeInfo \<Rightarrow> string" where
  "GetWorkerStatefulsetName info =
     (if riRuntimeType info \<in> {''jindo'', ''jindocache'', ''jindofsx''} then riName info @ ''-jindofs-worker''
      else riName info @ ''-worker'')"

section \<open>tiered_store.go\<close>

definition GetDefaultTieredStoreOrder :: "string \<Rightarrow> int" where
  "GetDefaultTieredStoreOrder medium =
     (if medium = ''MEM'' then 0 else if medium = ''SSD'' then 1 else if medium = ''HDD'' then 2 else 0)"

text \<open>The first occurrences in order, sorted by the default order of their medium.\<close>

definition makeMediumTypeSorted :: "string list \<Rightarrow> string list" where
  "makeMediumTypeSorted mediumTypes = sort_key GetDefaultTieredStoreOrder (RemoveDuplicateStr mediumTypes)"

text \<open>
  A storage type is \<open>Memory\<close> or \<open>Disk\<close>. The quantities are pointers: adding to the capacity found in the map
  changes the entry of the map.
\<close>

fun levelStorage :: "Level list \<Rightarrow> (string \<times> int) list \<Rightarrow> (string \<times> int) list" where
  "levelStorage [] storage = storage"
| "levelStorage (level # levels) storage =
     (let storageType = (if lvMediumType level = ''SSD'' \<or> lvMediumType level = ''HDD'' then ''Disk'' else ''Memory'');
          totalQuota = (case map_of storage storageType of None \<Rightarrow> 0 | Some q \<Rightarrow> q) +
                       sum_list (map cpQuota (lvCachePaths level)) in
      levelStorage levels (AList.update storageType totalQuota storage))"

definition GetLevelStorageMap :: "RuntimeInfo \<Rightarrow> (string \<times> int) list" where
  "GetLevelStorageMap info = levelStorage (riTieredStore info) []"

fun indexFrom :: "int \<Rightarrow> string \<Rightarrow> string list \<Rightarrow> int" where
  "indexFrom i x [] = -1"
| "indexFrom i x (y # ys) = (if y = x then i else indexFrom (i + 1) x ys)"

definition GetTieredLevel :: "RuntimeInfo \<Rightarrow> string \<Rightarrow> int" where
  "GetTieredLevel info mediumType =
     indexFrom 0 mediumType (makeMediumTypeSorted (map lvMediumType (riTieredStore info)))"

section \<open>Lemmas and properties\<close>

lemma sum_list_same: "sum_list (map (\<lambda>_. c) xs) = int (length xs) * c"
  by (induction xs) (simp_all add: algebra_simps)

text \<open>
  A quota that is divided among the paths of a level is never exceeded: every path gets the same share, the shares
  add up to at most the quota, and less than one byte per path is lost to rounding.
\<close>

theorem quota_shared:
  assumes "slQuotaList level = ''''" and "slQuota level = Some q" and "0 \<le> q"
    and "convertLevel parseQuantity level = Inr l"
  shows "let shares = map cpQuota (lvCachePaths l) in
     length shares = length (Split CHR '','' (slPath level)) \<and>
     sum_list shares \<le> q \<and> q - sum_list shares < int (length shares)"
proof -
  let ?n = "int (length (Split CHR '','' (slPath level)))"
  have n: "0 < ?n" by simp
  have cps: "map cpQuota (lvCachePaths l) = map (\<lambda>_. quotient q ?n) (Split CHR '','' (slPath level))"
    using assms(1,2,4) by (auto simp: convertLevel_def Let_def comp_def split: sum.splits)
  have "quotient q ?n = q div ?n"
    using assms(3) n by (simp add: quotient_def sgn_if)
  then have "sum_list (map cpQuota (lvCachePaths l)) = ?n * (q div ?n)"
    by (simp add: cps sum_list_same)
  moreover have "?n * (q div ?n) \<le> q" "q - ?n * (q div ?n) < ?n"
    using n by (simp_all add: minus_mult_div_eq_mod)
      (metis div_mult_mod_eq assms(3) mult.commute le_add_same_cancel1 pos_mod_sign n)
  ultimately show ?thesis by (simp add: cps Let_def)
qed

theorem quota_shared_witness:
  "let shares = map cpQuota (lvCachePaths
      \<lparr>lvMediumType = ''MEM'', lvVolumeType = '''',
       lvCachePaths = [\<lparr>cpPath = ''/a'', cpQuota = 3\<rparr>, \<lparr>cpPath = ''/b'', cpQuota = 3\<rparr>],
       lvHigh = '''', lvLow = ''''\<rparr>) in
     length shares = length (Split CHR '','' (slPath \<lparr>slMediumType = ''MEM'', slVolumeType = '''', slPath = ''/a,/b/'',
        slQuota = Some 7, slQuotaList = '''', slHigh = '''', slLow = ''''\<rparr>)) \<and>
     sum_list shares \<le> 7 \<and> 7 - sum_list shares < int (length shares)"
  by (rule quota_shared [where parseQuantity = "\<lambda>_. None"])
    (simp_all add: convertLevel_def quotient_def TrimRightSlash_def sgn_if)

text \<open>
  A label derived from a dataset with a UID is never longer than 62 characters or than its prefix and the UID
  together, however long the names of the dataset and its namespace are.
\<close>

theorem names_bounded:
  assumes "uid \<noteq> ''''"
  shows "length (GetNamespacedNameValueWithPrefix prefix namespace name uid) \<le>
    max 62 (length prefix + length uid)"
  using assms by (auto simp: GetNamespacedNameValueWithPrefix_def Let_def)

theorem names_bounded_witness:
  "length (GetNamespacedNameValueWithPrefix ''fluid.io/s-'' (replicate 60 CHR ''n'') ''d'' ''uid'') \<le>
    max 62 (length ''fluid.io/s-'' + length ''uid'')"
  by (rule names_bounded) simp

lemma removeDuplicateLoop_props:
  "distinct lst \<Longrightarrow> distinct (removeDuplicateLoop xs lst) \<and> set (removeDuplicateLoop xs lst) = set xs \<union> set lst"
  by (induction xs arbitrary: lst) (auto)

lemma RemoveDuplicateStr_props:
  "distinct (RemoveDuplicateStr xs)" "set (RemoveDuplicateStr xs) = set xs"
  using removeDuplicateLoop_props [of "[]" xs] by (simp_all add: RemoveDuplicateStr_def)

lemma indexFrom_absent: "x \<notin> set xs \<Longrightarrow> indexFrom i x xs = -1"
  by (induction xs arbitrary: i) auto

lemma indexFrom_rank:
  assumes "x \<in> set xs" and "sorted (map f xs)" and "inj_on f (set xs)" and "distinct xs"
  shows "indexFrom i x xs = i + int (card {y \<in> set xs. f y < f x})"
  using assms
proof (induction xs arbitrary: i)
  case Nil
  then show ?case by simp
next
  case (Cons a xs)
  show ?case
  proof (cases "a = x")
    case True
    with Cons.prems have "{y \<in> set (a # xs). f y < f x} = {}" by auto
    with True show ?thesis by (simp only: card.empty indexFrom.simps) simp
  next
    case False
    with Cons.prems have x: "x \<in> set xs" by simp
    have "f a \<le> f x" using Cons.prems(2) x by simp
    moreover have "f a \<noteq> f x" using Cons.prems(3) x False by (auto simp: inj_on_def)
    ultimately have "f a < f x" by simp
    then have "{y \<in> set (a # xs). f y < f x} = insert a {y \<in> set xs. f y < f x}" by auto
    moreover have "a \<notin> {y \<in> set xs. f y < f x}" using Cons.prems(4) by simp
    ultimately have "card {y \<in> set (a # xs). f y < f x} = Suc (card {y \<in> set xs. f y < f x})" by simp
    moreover have "indexFrom (i + 1) x xs = i + 1 + int (card {y \<in> set xs. f y < f x})"
      by (rule Cons.IH) (use x Cons.prems in \<open>auto simp: inj_on_def\<close>)
    ultimately show ?thesis using False by simp
  qed
qed

text \<open>
  The level of a medium in the tiered store is its rank: the number of faster media that the runtime uses, and
  \<open>-1\<close> if the runtime does not use it, however often and in whatever order the media are listed.
\<close>

theorem tiered_level_rank:
  assumes "lvMediumType ` set (riTieredStore info) \<subseteq> {''MEM'', ''SSD'', ''HDD''}"
  shows "GetTieredLevel info medium =
    (if medium \<in> lvMediumType ` set (riTieredStore info)
     then int (card {m \<in> lvMediumType ` set (riTieredStore info).
       GetDefaultTieredStoreOrder m < GetDefaultTieredStoreOrder medium})
     else -1)"
proof -
  let ?ms = "makeMediumTypeSorted (map lvMediumType (riTieredStore info))"
  have set: "set ?ms = lvMediumType ` set (riTieredStore info)"
    by (simp add: makeMediumTypeSorted_def RemoveDuplicateStr_props)
  have "distinct ?ms" by (simp add: makeMediumTypeSorted_def RemoveDuplicateStr_props)
  moreover have "sorted (map GetDefaultTieredStoreOrder ?ms)" by (simp add: makeMediumTypeSorted_def)
  moreover have "inj_on GetDefaultTieredStoreOrder {''MEM'', ''SSD'', ''HDD''}"
    by (simp add: GetDefaultTieredStoreOrder_def)
  then have "inj_on GetDefaultTieredStoreOrder (set ?ms)"
    by (rule inj_on_subset) (use assms in \<open>simp add: set\<close>)
  ultimately show ?thesis
    using indexFrom_rank [of medium ?ms GetDefaultTieredStoreOrder 0] indexFrom_absent [of medium ?ms 0]
    by (simp add: GetTieredLevel_def set)
qed

definition exampleInfo :: RuntimeInfo where
  "exampleInfo =
     \<lparr>riName = ''demo'', riNamespace = ''default'', riOwnerDatasetUID = ''u1'', riRuntimeType = ''alluxio'',
      riTieredStore =
        [\<lparr>lvMediumType = ''HDD'', lvVolumeType = '''', lvCachePaths = [\<lparr>cpPath = ''/d'', cpQuota = 8\<rparr>],
          lvHigh = '''', lvLow = ''''\<rparr>,
         \<lparr>lvMediumType = ''MEM'', lvVolumeType = '''', lvCachePaths = [\<lparr>cpPath = ''/m'', cpQuota = 2\<rparr>],
          lvHigh = '''', lvLow = ''''\<rparr>],
      riPlacementMode = None, riFuseName = ''demo-fuse'', riFuseNodeSelector = [],
      riFuseCleanPolicy = ''OnRuntimeDeleted'', riMetricsScrapeTarget = [], riAnnotations = [], riMetadataList = []\<rparr>"

theorem tiered_level_rank_witness: "GetTieredLevel exampleInfo ''HDD'' = 1"
proof -
  have "lvMediumType ` set (riTieredStore exampleInfo) \<subseteq> {''MEM'', ''SSD'', ''HDD''}"
    by (simp add: exampleInfo_def)
  moreover have "{m. (m = ''HDD'' \<or> m = ''MEM'') \<and>
      GetDefaultTieredStoreOrder m < GetDefaultTieredStoreOrder ''HDD''} = {''MEM''}"
    by (auto simp: GetDefaultTieredStoreOrder_def)
  ultimately show ?thesis
    using tiered_level_rank [of exampleInfo "''HDD''"] by (simp add: exampleInfo_def)
qed

abbreviation storageOf :: "Level \<Rightarrow> string" where
  "storageOf level \<equiv> (if lvMediumType level = ''SSD'' \<or> lvMediumType level = ''HDD'' then ''Disk'' else ''Memory'')"

lemma levelStorage_sum:
  "map_of (levelStorage levels storage) t =
     (if \<exists>l\<in>set levels. storageOf l = t
      then Some ((case map_of storage t of None \<Rightarrow> 0 | Some q \<Rightarrow> q) +
        sum_list (map cpQuota (concat (map lvCachePaths (filter (\<lambda>l. storageOf l = t) levels)))))
      else map_of storage t)"
  by (induction levels storage rule: levelStorage.induct)
     (auto simp: Let_def update_conv' split: option.splits if_splits)

text \<open>
  The capacity labels are computed from exact totals: the storage map holds, for memory and for disk, the sum of
  the quotas of all paths of all levels of that kind, and no entry for a kind without levels.
\<close>

theorem level_storage_totals:
  "map_of (GetLevelStorageMap info) t =
     (if \<exists>l\<in>set (riTieredStore info). storageOf l = t
      then Some (sum_list (map cpQuota
             (concat (map lvCachePaths (filter (\<lambda>l. storageOf l = t) (riTieredStore info))))))
      else None)"
  by (simp add: GetLevelStorageMap_def levelStorage_sum)

text \<open>
  The volume of dataset \<open>c\<close> in namespace \<open>a-b\<close> and the volume of dataset \<open>b-c\<close> in namespace \<open>a\<close> have the same
  name, although a persistent volume belongs to no namespace.
\<close>

theorem volume_name_collides:
  "GetPersistentVolumeName (info\<lparr>riNamespace := ''a-b'', riName := ''c''\<rparr>) =
   GetPersistentVolumeName (info\<lparr>riNamespace := ''a'', riName := ''b-c''\<rparr>)"
  by (simp add: GetPersistentVolumeName_def)

end
