(* ===== verification/Dataset_Volume.thy ===== *)
theory Dataset_Volume
  imports Runtime_Info
begin

text \<open>
  \<open>pkg/utils/dataset/volume\<close>: creating and deleting the persistent volume and the claim through which pods use a
  dataset, and finding the dataset of a volume. \<open>quantityOk\<close> tells whether \<open>resource.ParseQuantity\<close> accepts a string.
\<close>

section \<open>dataset.go of pkg/utils\<close>

definition GetAccessModesOfDataset :: "world \<Rightarrow> string \<Rightarrow> string \<Rightarrow> (goerr + string list) kgo" where
  "GetAccessModesOfDataset w name namespace =
     andThen (viaOp w (\<lambda>cl. GetDataset cl name namespace)) (\<lambda>r.
     case r of
       Inl e \<Rightarrow> ret (Inl e)
     | Inr dataset \<Rightarrow>
         ret (Inr (if dsAccessModes (dSpec dataset) = [] then [''ReadOnlyMany''] else dsAccessModes (dSpec dataset))))"

abbreviation DefaultStorageCapacity :: string where
  "DefaultStorageCapacity \<equiv> ''100Pi''"

definition GetPVCStorageCapacityOfDataset ::
  "world \<Rightarrow> (string \<Rightarrow> bool) \<Rightarrow> string \<Rightarrow> string \<Rightarrow> (goerr + string) kgo" where
  "GetPVCStorageCapacityOfDataset w quantityOk name namespace =
     andThen (viaOp w (\<lambda>cl. GetDataset cl name namespace)) (\<lambda>r.
     case r of
       Inl e \<Rightarrow> ret (Inl (Wrapped (''failed to get dataset '' @ namespace @ ''/'' @ name) e))
     | Inr dataset \<Rightarrow>
         let size = lookupStr (omAnnotations (dMeta dataset)) ''pvc.fluid.io/resources.requests.storage'' in
         ret (Inr (if size = '''' \<or> \<not> quantityOk size then DefaultStorageCapacity else size)))"

section \<open>create.go\<close>

definition newMeta ::
  "string \<Rightarrow> string \<Rightarrow> (string \<times> string) list \<Rightarrow> (string \<times> string) list \<Rightarrow> ObjectMeta" where
  "newMeta name namespace labels annotations =
     \<lparr>omName = name, omNamespace = namespace, omUID = '''', omResourceVersion = '''', omGeneration = 0,
      omCreationTimestamp = 0, omDeletionTimestamp = None, omFinalizers = [], omOwnerReferences = [],
      omLabels = labels, omAnnotations = annotations\<rparr>"

definition datasetLabels :: "RuntimeInfo \<Rightarrow> (string \<times> string) list" where
  "datasetLabels runtime =
     assignAll [(commonLabel runtime, ''true''),
       (''fluid.io/dataset-id'', GetDatasetId (riNamespace runtime) (riName runtime) (riOwnerDatasetUID runtime))] []"

text \<open>The metadata that the runtime asks for on objects of a kind of the core group, in order.\<close>

definition metadataFor :: "RuntimeInfo \<Rightarrow> string \<Rightarrow> Metadata list" where
  "metadataFor runtime kind = filter (\<lambda>m. mdGroup m = '''' \<and> mdKind m = kind) (riMetadataList runtime)"

definition withMetadata :: "Metadata list \<Rightarrow> ObjectMeta \<Rightarrow> ObjectMeta" where
  "withMetadata ms meta =
     fold (\<lambda>m meta. meta\<lparr>omLabels := UnionMapsWithOverride (omLabels meta) (mdLabels m),
                         omAnnotations := UnionMapsWithOverride (omAnnotations meta) (mdAnnotations m)\<rparr>) ms meta"

abbreviation skipCheckKey :: string where
  "skipCheckKey \<equiv> ''fluid.io/skip-check-mount-ready-target''"

definition volumeAttributes :: "RuntimeInfo \<Rightarrow> string \<Rightarrow> string \<Rightarrow> (string \<times> string) list" where
  "volumeAttributes runtime mountPath mountType =
     assignAll
       ([(''fluid_path'', mountPath), (''mount_type'', mountType), (''runtime_namespace'', riNamespace runtime),
         (''runtime_name'', riName runtime), (''mount_pod_node_selector_key'', fuseLabel runtime)] @
        filter (\<lambda>(k, v). k = skipCheckKey) (riAnnotations runtime) @
        concat (map (\<lambda>m. if map_of (mdLabels m) ''fluid.io/node-publish-method'' = Some ''symlink''
                         then [(''node_publish_method'', ''symlink'')] else [])
                 (metadataFor runtime ''PersistentVolume''))) []"

definition volumeFor :: "RuntimeInfo \<Rightarrow> string \<Rightarrow> string \<Rightarrow> string list \<Rightarrow> string \<Rightarrow> PersistentVolume" where
  "volumeFor runtime mountPath mountType accessModes storageCapacity =
     \<lparr>pvMeta = withMetadata (metadataFor runtime ''PersistentVolume'')
        (newMeta (GetPersistentVolumeName runtime) (riNamespace runtime) (datasetLabels runtime)
           GetExpectedFluidAnnotations),
      pvPhase = '''',
      pvClaimRef = Some (riNamespace runtime, riName runtime),
      pvAccessModes = accessModes,
      pvCapacity = storageCapacity,
      pvVolumeHandle = GetPersistentVolumeName runtime,
      pvAttributes = volumeAttributes runtime mountPath mountType,
      pvNodeAffinity =
        (if riFuseNodeSelector runtime = [] then None
         else Some [map (\<lambda>(key, val). requirementIn key val) (riFuseNodeSelector runtime)])\<rparr>"

definition CreatePersistentVolumeForRuntime ::
  "world \<Rightarrow> (string \<Rightarrow> bool) \<Rightarrow> RuntimeInfo \<Rightarrow> string \<Rightarrow> string \<Rightarrow> (goerr option) kgo" where
  "CreatePersistentVolumeForRuntime w quantityOk runtime mountPath mountType =
     andThen (GetAccessModesOfDataset w (riName runtime) (riNamespace runtime)) (\<lambda>r.
     case r of
       Inl e \<Rightarrow> ret (Some e)
     | Inr accessModes \<Rightarrow>
     andThen (GetPVCStorageCapacityOfDataset w quantityOk (riName runtime) (riNamespace runtime)) (\<lambda>r.
     case r of
       Inl e \<Rightarrow> ret (Some e)
     | Inr storageCapacity \<Rightarrow>
     andThen (IsPersistentVolumeExist w (GetPersistentVolumeName runtime) GetExpectedFluidAnnotations) (\<lambda>(found, err).
     if err \<noteq> None then ret err
     else if found then ret None
     else
       let pv = volumeFor runtime mountPath mountType accessModes storageCapacity in
       andThen (call (\<lambda>h. kwCreateVolume w h pv) (CreatedVolume pv)) (\<lambda>err.
       if err \<noteq> None then ret err
       else
         andThen (Poll w (andThen (GetPersistentVolume w (GetPersistentVolumeName runtime)) (\<lambda>r.
                    case r of
                      Inl e \<Rightarrow> ret (False, None)
                    | Inr pvCreated \<Rightarrow> ret (pvPhase pvCreated = ''Available'', None)))) (\<lambda>pollErr.
         \<lambda>h. if pollErr \<noteq> None \<and> kwExpired w h then ret pollErr h else ret None h)))))"

definition claimFor :: "RuntimeInfo \<Rightarrow> string list \<Rightarrow> string \<Rightarrow> DaemonSet option \<Rightarrow> Claim" where
  "claimFor runtime accessModes storageCapacity fuseDs =
     \<lparr>pvcMeta = withMetadata (metadataFor runtime ''PersistentVolumeClaim'')
        (newMeta (riName runtime) (riNamespace runtime)
           (case fuseDs of
              Some ds \<Rightarrow>
                if length (dsmContainers ds) = 1
                then AList.update ''fuse.runtime.fluid.io/generation'' (Itoa (dsmGeneration ds)) (datasetLabels runtime)
                else datasetLabels runtime
            | None \<Rightarrow> datasetLabels runtime)
           GetExpectedFluidAnnotations),
      pvcVolumeName = GetPersistentVolumeName runtime,
      pvcAccessModes = accessModes,
      pvcRequest = storageCapacity\<rparr>"

definition CreatePersistentVolumeClaimForRuntime ::
  "world \<Rightarrow> (string \<Rightarrow> bool) \<Rightarrow> RuntimeInfo \<Rightarrow> (goerr option) kgo" where
  "CreatePersistentVolumeClaimForRuntime w quantityOk runtime =
     andThen (GetAccessModesOfDataset w (riName runtime) (riNamespace runtime)) (\<lambda>r.
     case r of
       Inl e \<Rightarrow> ret (Some e)
     | Inr accessModes \<Rightarrow>
     andThen (GetPVCStorageCapacityOfDataset w quantityOk (riName runtime) (riNamespace runtime)) (\<lambda>r.
     case r of
       Inl e \<Rightarrow> ret (Some e)
     | Inr storageCapacity \<Rightarrow>
     andThen (IsPersistentVolumeClaimExist w (riName runtime) (riNamespace runtime) GetExpectedFluidAnnotations)
       (\<lambda>(found, err).
     if err \<noteq> None then ret err
     else if found then ret None
     else
       andThen (GetDaemonset w (riFuseName runtime) (riNamespace runtime)) (\<lambda>r.
       let pvc = claimFor runtime accessModes storageCapacity (case r of Inl _ \<Rightarrow> None | Inr ds \<Rightarrow> Some ds) in
       call (\<lambda>h. kwCreateClaim w h pvc) (CreatedClaim pvc)))))"

section \<open>delete.go\<close>

text \<open>
  The error of a poll that ended by its own deadline gets a text. The deadline is told here by the error of the poll, in
  the code by the context of the poll; they differ only if a query fails with another error as the deadline passes, and then only in the text.
\<close>

definition pollFailure :: "world \<Rightarrow> string \<Rightarrow> goerr \<Rightarrow> (goerr option) kgo" where
  "pollFailure w msg pollErr h =
     (if kwExpired w h then ret (Some pollErr) h
      else if pollErr = deadlineExceeded then ret (Some (Wrapped msg pollErr)) h
      else ret (Some pollErr) h)"

definition deleteFusePersistentVolumeIfExists :: "world \<Rightarrow> string \<Rightarrow> (goerr option) kgo" where
  "deleteFusePersistentVolumeIfExists w pvName =
     andThen (IsPersistentVolumeExist w pvName GetExpectedFluidAnnotations) (\<lambda>(found, err).
     if err \<noteq> None then ret err
     else if \<not> found then ret None
     else
       andThen (DeletePersistentVolume w pvName) (\<lambda>err.
       if err \<noteq> None then ret err
       else
         andThen (Poll w (andThen (IsPersistentVolumeExist w pvName GetExpectedFluidAnnotations) (\<lambda>(found, err).
                    ret (\<not> found, err)))) (\<lambda>pollErr.
         case pollErr of
           Some e \<Rightarrow> pollFailure w (''the PV '' @ pvName @ '' is not cleaned up after 10-second retry'') e
         | None \<Rightarrow> ret None)))"

definition DeleteFusePersistentVolume :: "world \<Rightarrow> RuntimeInfo \<Rightarrow> (goerr option) kgo" where
  "DeleteFusePersistentVolume w runtime =
     deleteFusePersistentVolumeIfExists w (GetPersistentVolumeName runtime)"

text \<open>One evaluation of the polled condition.\<close>

definition claimGone :: "world \<Rightarrow> string \<Rightarrow> string \<Rightarrow> (bool \<times> goerr option) kgo" where
  "claimGone w name namespace =
     andThen (IsPersistentVolumeClaimExist w name namespace GetExpectedFluidAnnotations) (\<lambda>(stillFound, err).
     if err \<noteq> None then ret (False, err)
     else if \<not> stillFound then ret (True, None)
     else
       andThen (ShouldRemoveProtectionFinalizer w name namespace) (\<lambda>(should, err).
       if err \<noteq> None then ret (False, IgnoreNotFound err)
       else if \<not> should then ret (False, None)
       else
         andThen (RemoveProtectionFinalizer w name namespace) (\<lambda>err.
         ret (False, IgnoreNotFound err))))"

definition DeleteFusePersistentVolumeClaim :: "world \<Rightarrow> RuntimeInfo \<Rightarrow> (goerr option) kgo" where
  "DeleteFusePersistentVolumeClaim w runtime =
     andThen (IsPersistentVolumeClaimExist w (riName runtime) (riNamespace runtime) GetExpectedFluidAnnotations)
       (\<lambda>(found, err).
     if err \<noteq> None then ret err
     else if \<not> found then ret None
     else
       andThen (DeletePersistentVolumeClaim w (riName runtime) (riNamespace runtime)) (\<lambda>err.
       if err \<noteq> None then ret err
       else
         andThen (Poll w (claimGone w (riName runtime) (riNamespace runtime))) (\<lambda>pollErr.
         case pollErr of
           Some e \<Rightarrow>
             pollFailure w (''the PVC '' @ riName runtime @ '' in ns '' @ riNamespace runtime @
                            '' is not cleaned up after 10-second retry'') e
         | None \<Rightarrow> ret None)))"

section \<open>get.go\<close>

definition GetVolumePairByVolumeId :: "world \<Rightarrow> string \<Rightarrow> (goerr + Claim \<times> PersistentVolume) kgo" where
  "GetVolumePairByVolumeId w volumeId =
     andThen (GetPersistentVolume w volumeId) (\<lambda>r.
     case r of
       Inl e \<Rightarrow> ret (Inl e)
     | Inr pv \<Rightarrow>
         (case pvClaimRef pv of
            None \<Rightarrow> ret (Inl (Err (''pv '' @ volumeId @ '' has unexpected nil claimRef'')))
          | Some (namespace, name) \<Rightarrow>
              andThen (GetPersistentVolumeClaim w name namespace) (\<lambda>r.
              case r of
                Inl e \<Rightarrow> ret (Inl e)
              | Inr pvc \<Rightarrow>
                  if CheckIfPVCIsDataset (Some pvc) then ret (Inr (pvc, pv))
                  else ret (Inl (Err (''pv '' @ volumeId @ '' is not bounded with a fluid pvc''))))))"

definition GetNamespacedNameByVolumeId :: "world \<Rightarrow> string \<Rightarrow> (goerr + string \<times> string) kgo" where
  "GetNamespacedNameByVolumeId w volumeId =
     andThen (GetPersistentVolume w volumeId) (\<lambda>r.
     case r of
       Inl e \<Rightarrow> ret (Inl e)
     | Inr pv \<Rightarrow>
         (case pvClaimRef pv of
            None \<Rightarrow> ret (Inl (Err (''pv '' @ volumeId @ '' has unexpected nil claimRef'')))
          | Some (namespace, name) \<Rightarrow>
              andThen (GetPersistentVolumeClaim w name namespace) (\<lambda>r.
              case r of
                Inl e \<Rightarrow> ret (Inl e)
              | Inr pvc \<Rightarrow>
                  if CheckIfPVCIsDataset (Some pvc) then ret (Inr (namespace, name))
                  else ret (Inl (Err (''pv '' @ volumeId @ '' is not bounded with a fluid pvc''))))))"

section \<open>Lemmas and properties\<close>

fun claimAnswer :: "string \<Rightarrow> string \<Rightarrow> kevent \<Rightarrow> (goerr + Claim) option" where
  "claimAnswer name namespace (ReadClaim n ns r) = (if n = name \<and> ns = namespace then Some r else None)"
| "claimAnswer name namespace _ = None"

definition claimAbsent :: "goerr + Claim \<Rightarrow> bool" where
  "claimAbsent r =
     (case r of Inl e \<Rightarrow> IsNotFound e | Inr pvc \<Rightarrow> \<not> annotated GetExpectedFluidAnnotations (pvcMeta pvc))"

lemma wp_claimExist:
  "wp (IsPersistentVolumeClaimExist w name ns an) Q h =
     (let r = kwGetClaim w h name ns; h' = h @ [ReadClaim name ns r] in
      case r of
        Inl e \<Rightarrow> Q (Ret (False, if IsNotFound e then None else Some e)) h'
      | Inr pvc \<Rightarrow> Q (Ret (annotated an (pvcMeta pvc), None)) h')"
  by (simp add: IsPersistentVolumeClaimExist_def read_defs wp_rules Let_def split: sum.splits)

lemma wp_claimGone:
  "wp (claimGone w name ns) (\<lambda>r h'. r = Ret (True, None) \<longrightarrow>
     (\<exists>a. lastAnswer (claimAnswer name ns) h' = Some a \<and> claimAbsent a)) h"
  unfolding claimGone_def wp_andThen wp_claimExist
  by (auto simp: Let_def wp_rules claimAbsent_def split: sum.splits prod.splits out.splits
      intro!: wp_intro)

lemma wp_Poll_done:
  assumes "\<And>h. wp cond (\<lambda>r h'. r = Ret (True, None) \<longrightarrow> Q h') h"
  shows "wp (Poll w cond) (\<lambda>r h'. r = Ret None \<longrightarrow> Q h') h"
  unfolding wp_Poll
  by (rule wp_pollLoop [where I = "\<lambda>_. True"]) (auto intro!: wp_mono [OF assms])

definition seenGone :: "string \<Rightarrow> string \<Rightarrow> kevent list \<Rightarrow> bool" where
  "seenGone name ns h \<longleftrightarrow> (\<exists>a. lastAnswer (claimAnswer name ns) h = Some a \<and> claimAbsent a)"

lemma seenGone_snoc [simp]: "seenGone name ns (h @ [ReadClaim name ns a]) = claimAbsent a"
  by (simp add: seenGone_def)

lemma claimAbsent_simps [simp]:
  "claimAbsent (Inl e) = IsNotFound e"
  "claimAbsent (Inr pvc) = (\<not> annotated GetExpectedFluidAnnotations (pvcMeta pvc))"
  by (simp_all add: claimAbsent_def)

lemma wp_gone: "wp (claimGone w name ns) (\<lambda>r h'. r = Ret (True, None) \<longrightarrow> seenGone name ns h') h"
  using wp_claimGone by (simp add: seenGone_def)

lemma wp_pollFailure: "(\<And>e. Q (Ret (Some e)) h) \<Longrightarrow> wp (pollFailure w msg pollErr) Q h"
  by (simp add: pollFailure_def wp_def ret_def)

text \<open>
  C17. Deleting the claim of a dataset reports success only after the claim has been seen to be gone: the last answer
  of the API server in the run says that there is no claim that Fluid created under that name.
\<close>

theorem claim_deletion_confirmed:
  assumes "DeleteFusePersistentVolumeClaim w runtime h = (Ret None, h')"
  shows "seenGone (riName runtime) (riNamespace runtime) h'"
proof -
  have "wp (DeleteFusePersistentVolumeClaim w runtime)
      (\<lambda>r h'. r = Ret None \<longrightarrow> seenGone (riName runtime) (riNamespace runtime) h') h"
    unfolding DeleteFusePersistentVolumeClaim_def wp_andThen wp_claimExist
    by (auto simp: Let_def wp_rules split: sum.splits prod.splits out.splits option.splits
        intro!: wp_pollFailure wp_mono [OF wp_Poll_done [OF wp_gone]] wp_intro [of "DeletePersistentVolumeClaim _ _ _"])
  with assms show ?thesis by (simp add: wp_def)
qed

section \<open>Forced removal of the protection\<close>

definition unusedClaim :: "string \<Rightarrow> string \<Rightarrow> kevent list \<Rightarrow> bool" where
  "unusedClaim name ns h \<longleftrightarrow>
     (\<exists>pvc deleted t pods. ReadClaim name ns (Inr pvc) \<in> set h \<and> Op (ReadClock t) \<in> set h \<and>
        ListedPods ns '''' (Inr pods) \<in> set h \<and> omDeletionTimestamp (pvcMeta pvc) = Some deleted \<and>
        deleted + pvcDeleteTimeout \<le> t \<and>
        (\<forall>pod\<in>set pods. Some name \<in> snd ` set (piClaims pod) \<longrightarrow> IsCompletePod pod))"

definition forcedSafely :: "string \<Rightarrow> string \<Rightarrow> kevent list \<Rightarrow> bool" where
  "forcedSafely name ns h \<longleftrightarrow> (\<forall>pre pvc r post. h = pre @ WroteClaim pvc r # post \<longrightarrow> unusedClaim name ns pre)"

lemma unusedClaim_mono: "unusedClaim name ns h \<Longrightarrow> unusedClaim name ns (h @ es)"
  by (auto simp: unusedClaim_def)

lemma forcedSafely_snoc:
  "forcedSafely name ns (h @ [e]) \<longleftrightarrow>
     forcedSafely name ns h \<and> ((\<exists>pvc r. e = WroteClaim pvc r) \<longrightarrow> unusedClaim name ns h)"
proof -
  have "h @ [e] = pre @ WroteClaim pvc r # post \<longleftrightarrow>
      (\<exists>post'. post = post' @ [e] \<and> h = pre @ WroteClaim pvc r # post') \<or>
      (post = [] \<and> h = pre \<and> e = WroteClaim pvc r)" for pre pvc r post
    by (cases post rule: rev_cases) auto
  then show ?thesis by (auto simp: forcedSafely_def)
qed

lemma forcedSafely_emits:
  assumes "emits (\<lambda>e. \<forall>pvc r. e \<noteq> WroteClaim pvc r) m" and "forcedSafely name ns h"
  shows "wp m (\<lambda>r h'. forcedSafely name ns h') h"
proof -
  have "forcedSafely name ns (h @ es)" if "list_all (\<lambda>e. \<forall>pvc r. e \<noteq> WroteClaim pvc r) es" for es
    using that by (induction es rule: rev_induct) (auto simp: assms(2) forcedSafely_snoc simp flip: append_assoc)
  with wp_emits [OF assms(1), of h] show ?thesis by (auto elim!: wp_mono)
qed

lemma mountPods_iff: "pod \<in> set (mountPods name pods) \<longleftrightarrow> pod \<in> set pods \<and> Some name \<in> snd ` set (piClaims pod)"
  by (force simp: mountPods_def GetPVCsFromPod_def)

lemma mountPods_complete:
  "\<forall>p\<in>set (mountPods name pods). P p \<Longrightarrow> pod \<in> set pods \<Longrightarrow> (v, Some name) \<in> set (piClaims pod) \<Longrightarrow> P pod"
  by (force simp: mountPods_iff)

lemma wp_shouldRemove:
  "wp (ShouldRemoveProtectionFinalizer w name ns)
     (\<lambda>r h'. r = Ret (True, None) \<longrightarrow> unusedClaim name ns h') h"
  unfolding ShouldRemoveProtectionFinalizer_def GetPvcMountPods_def read_defs now_def
  apply (simp add: wp_rules Let_def split: sum.splits option.splits)
  apply (intro allI impI conjI)
  unfolding unusedClaim_def find_None_set
  apply (rule exI, rule exI, rule exI, rule exI)
  apply (auto dest: mountPods_complete)
  done

lemma noClaimWrite:
  "emits (\<lambda>e. \<forall>pvc r. e \<noteq> WroteClaim pvc r) (ShouldRemoveProtectionFinalizer w name ns)"
  "emits (\<lambda>e. \<forall>pvc r. e \<noteq> WroteClaim pvc r) (IsPersistentVolumeClaimExist w name ns an)"
  "emits (\<lambda>e. \<forall>pvc r. e \<noteq> WroteClaim pvc r) (DeletePersistentVolumeClaim w name ns)"
  unfolding ShouldRemoveProtectionFinalizer_def GetPvcMountPods_def read_defs now_def
    IsPersistentVolumeClaimExist_def DeletePersistentVolumeClaim_def
  by (auto intro!: emits_rules)

lemma wp_removeProtection:
  assumes "unusedClaim name ns h" and "forcedSafely name ns h"
  shows "wp (RemoveProtectionFinalizer w name ns) (\<lambda>r h'. forcedSafely name ns h') h"
  using assms
  by (auto simp: RemoveProtectionFinalizer_def read_defs wp_rules Let_def forcedSafely_snoc unusedClaim_mono
      simp flip: append_assoc split: sum.splits)

lemma wp_claimGone_safe:
  assumes "forcedSafely name ns h"
  shows "wp (claimGone w name ns) (\<lambda>r h'. forcedSafely name ns h') h"
proof -
  have shouldRemove: "wp (ShouldRemoveProtectionFinalizer w name ns)
      (\<lambda>r h'. forcedSafely name ns h' \<and> (r = Ret (True, None) \<longrightarrow> unusedClaim name ns h')) h'"
    if "forcedSafely name ns h'" for h'
    unfolding wp_conj using forcedSafely_emits [OF noClaimWrite(1) that] wp_shouldRemove by blast
  show ?thesis
    unfolding claimGone_def wp_andThen
    by (rule wp_mono [OF forcedSafely_emits [OF noClaimWrite(2) assms]])
      (auto simp: wp_rules split: out.splits prod.splits
        intro!: wp_mono [OF shouldRemove] wp_mono [OF wp_removeProtection])
qed

text \<open>
  C33. The protection of a claim is removed by force only if nobody uses the claim: before every such write the run has
  read the claim as terminating for at least thirty seconds, and has listed the pods of the namespace and found every
  pod that mounts the claim finished or terminating.
\<close>

theorem protection_forced_safely:
  assumes "DeleteFusePersistentVolumeClaim w runtime h = (r, h')" and "forcedSafely (riName runtime) (riNamespace runtime) h"
  shows "forcedSafely (riName runtime) (riNamespace runtime) h'"
proof -
  let ?I = "forcedSafely (riName runtime) (riNamespace runtime)"
  have poll: "wp (Poll w (claimGone w (riName runtime) (riNamespace runtime))) (\<lambda>r h'. ?I h') h" if "?I h" for h
    unfolding wp_Poll by (rule wp_pollLoop [where I = ?I]) (use that in \<open>auto intro!: wp_mono [OF wp_claimGone_safe]\<close>)
  have "wp (DeleteFusePersistentVolumeClaim w runtime) (\<lambda>r h'. ?I h') h"
    unfolding DeleteFusePersistentVolumeClaim_def wp_andThen
    by (rule wp_mono [OF forcedSafely_emits [OF noClaimWrite(2) assms(2)]])
      (auto simp: wp_rules split: out.splits prod.splits option.splits
        intro!: wp_pollFailure wp_mono [OF poll] wp_mono [OF forcedSafely_emits [OF noClaimWrite(3)]])
  with assms(1) show ?thesis by (simp add: wp_def)
qed

lemma withMetadata_labels:
  "dom (map_of (omLabels meta)) \<subseteq> dom (map_of (omLabels (withMetadata ms meta)))"
proof (induction ms arbitrary: meta)
  case Nil
  then show ?case by (simp add: withMetadata_def)
next
  case (Cons m ms)
  let ?meta = "meta\<lparr>omLabels := UnionMapsWithOverride (omLabels meta) (mdLabels m),
      omAnnotations := UnionMapsWithOverride (omAnnotations meta) (mdAnnotations m)\<rparr>"
  have "dom (map_of (omLabels meta)) \<subseteq> dom (map_of (omLabels ?meta))"
    by (simp add: UnionMapsWithOverride_def dom_assignAll) (simp add: dom_map_of_conv_image_fst)
  also have "\<dots> \<subseteq> dom (map_of (omLabels (withMetadata ms ?meta)))" by (rule Cons.IH)
  finally show ?case by (simp add: withMetadata_def)
qed

lemma HasPrefix_commonLabel: "HasPrefix (commonLabel runtime) ''fluid.io/s-''"
  by (simp add: commonLabel_def GetCommonLabelName_def GetNamespacedNameValueWithPrefix_def Let_def
      HasPrefix_iff)

lemma claimFor_isDataset: "CheckIfPVCIsDataset (Some (claimFor runtime modes cap ds))"
proof -
  have "commonLabel runtime \<in> dom (map_of (datasetLabels runtime))"
    by (simp add: datasetLabels_def dom_assignAll del: dom_fun_upd)
  then have "commonLabel runtime \<in> dom (map_of (omLabels (pvcMeta (claimFor runtime modes cap ds))))"
    unfolding claimFor_def
    by (simp, intro subsetD [OF withMetadata_labels])
       (auto simp: newMeta_def update_conv' split: option.splits)
  then have "\<exists>v. (commonLabel runtime, v) \<in> set (omLabels (pvcMeta (claimFor runtime modes cap ds)))"
    by (auto dest: map_of_SomeD)
  then show ?thesis
    using HasPrefix_commonLabel [of runtime]
    by (auto simp: CheckIfPVCIsDataset_def list_ex_iff)
qed

text \<open>
  The volume and the claim that Fluid creates for a dataset lead back to the dataset: from the handle of the volume,
  the CSI plugin finds the namespace and the name of the runtime, whatever labels the user adds.
\<close>

theorem volume_roundtrip:
  assumes "kwGetVolume w h (GetPersistentVolumeName runtime) = Inr (volumeFor runtime path type modes cap)"
    and "\<And>h. kwGetClaim w h (riName runtime) (riNamespace runtime) = Inr (claimFor runtime modes cap ds)"
  shows "\<exists>h'. GetNamespacedNameByVolumeId w (pvVolumeHandle (volumeFor runtime path type modes cap)) h =
    (Ret (Inr (riNamespace runtime, riName runtime)), h')"
proof -
  have "wp (GetNamespacedNameByVolumeId w (GetPersistentVolumeName runtime))
      (\<lambda>r h'. r = Ret (Inr (riNamespace runtime, riName runtime))) h"
    unfolding GetNamespacedNameByVolumeId_def read_defs
    using assms claimFor_isDataset by (simp add: wp_rules) (simp add: volumeFor_def wp_rules)
  then show ?thesis
    by (cases "GetNamespacedNameByVolumeId w (GetPersistentVolumeName runtime) h")
       (simp add: wp_def volumeFor_def)
qed

text \<open>
  Deleting the volume of dataset \<open>b-c\<close> in namespace \<open>a\<close> deletes the volume that dataset \<open>c\<close> in namespace \<open>a-b\<close> uses,
  and reports success.
\<close>

theorem foreign_volume_deleted:
  assumes "riNamespace runtime = ''a''" and "riName runtime = ''b-c''"
    and "\<And>h. DeletedVolume ''a-b-c'' None \<notin> set h \<Longrightarrow> kwGetVolume w h ''a-b-c'' = Inr pv"
    and "\<And>h. DeletedVolume ''a-b-c'' None \<in> set h \<Longrightarrow> kwGetVolume w h ''a-b-c'' = Inl (NotFound '''')"
    and "\<And>h. kwDeleteVolume w h ''a-b-c'' = None"
    and "pvClaimRef pv = Some (''a-b'', ''c'')" and "annotated GetExpectedFluidAnnotations (pvMeta pv)"
  shows "\<exists>h'. DeleteFusePersistentVolume w runtime [] = (Ret None, h') \<and> DeletedVolume ''a-b-c'' None \<in> set h'"
proof -
  have "wp (DeleteFusePersistentVolume w runtime)
      (\<lambda>r h'. r = Ret None \<and> DeletedVolume ''a-b-c'' None \<in> set h') []"
    unfolding DeleteFusePersistentVolume_def deleteFusePersistentVolumeIfExists_def IsPersistentVolumeExist_def
      DeletePersistentVolume_def read_defs wp_Poll
    using assms by (simp add: GetPersistentVolumeName_def wp_rules wp_Poll)
  then show ?thesis
    by (cases "DeleteFusePersistentVolume w runtime []") (simp add: wp_def)
qed

section \<open>Witnesses\<close>

definition terminatingClaim :: Claim where
  "terminatingClaim =
     (let c = claimFor exampleInfo [''ReadOnlyMany''] ''100Pi'' None in
      c\<lparr>pvcMeta := (pvcMeta c)\<lparr>omDeletionTimestamp := Some 0, omFinalizers := [protectionFinalizer]\<rparr>\<rparr>)"

text \<open>A claim that has been terminating for forty seconds and goes away when its protection is removed.\<close>

definition stuckWorld :: world where
  "stuckWorld = downWorld
     \<lparr>kwGetClaim := \<lambda>h _ _. if \<exists>e\<in>set h. case e of WroteClaim _ _ \<Rightarrow> True | _ \<Rightarrow> False
                             then Inl (NotFound ''gone'') else Inr terminatingClaim,
      kwCluster := \<lambda>_. downCluster\<lparr>clNow := \<lambda>_. 40 * second\<rparr>,
      kwListPods := \<lambda>_ _ _. Inr [], kwUpdateClaim := \<lambda>_ _. None\<rparr>"

lemma terminatingClaim_simps:
  "annotated GetExpectedFluidAnnotations (pvcMeta terminatingClaim)"
  "omDeletionTimestamp (pvcMeta terminatingClaim) = Some 0"
  "omFinalizers (pvcMeta terminatingClaim) = [protectionFinalizer]"
  by (simp_all add: terminatingClaim_def claimFor_def exampleInfo_def withMetadata_def metadataFor_def newMeta_def
      annotated_def GetExpectedFluidAnnotations_def lookupStr_def Let_def)

lemma stuckWorld_run:
  "\<exists>h'. DeleteFusePersistentVolumeClaim stuckWorld exampleInfo [] = (Ret None, h') \<and>
     (\<exists>pvc r. WroteClaim pvc r \<in> set h')"
proof -
  have "wp (DeleteFusePersistentVolumeClaim stuckWorld exampleInfo)
      (\<lambda>r h'. r = Ret None \<and> (\<exists>pvc r. WroteClaim pvc r \<in> set h')) []"
    unfolding DeleteFusePersistentVolumeClaim_def claimGone_def IsPersistentVolumeClaimExist_def
      DeletePersistentVolumeClaim_def ShouldRemoveProtectionFinalizer_def GetPvcMountPods_def
      RemoveProtectionFinalizer_def read_defs now_def
    by (simp add: wp_rules wp_Poll stuckWorld_def downWorld_def terminatingClaim_simps ContainsString_def IgnoreNotFound_def
        mountPods_def)
  then show ?thesis by (cases "DeleteFusePersistentVolumeClaim stuckWorld exampleInfo []") (simp add: wp_def)
qed

theorem claim_deletion_confirmed_witness:
  "\<exists>h'. DeleteFusePersistentVolumeClaim stuckWorld exampleInfo [] = (Ret None, h') \<and>
     seenGone (riName exampleInfo) (riNamespace exampleInfo) h'"
  using stuckWorld_run claim_deletion_confirmed [of stuckWorld exampleInfo "[]"] by blast

theorem protection_forced_safely_witness:
  "\<exists>r h'. DeleteFusePersistentVolumeClaim stuckWorld exampleInfo [] = (r, h') \<and>
     (\<exists>pvc r. WroteClaim pvc r \<in> set h') \<and>
     forcedSafely (riName exampleInfo) (riNamespace exampleInfo) h'"
proof -
  have "forcedSafely n ns []" for n ns by (simp add: forcedSafely_def)
  then show ?thesis
    using stuckWorld_run protection_forced_safely [of stuckWorld exampleInfo "[]"] by metis
qed

definition servingWorld :: world where
  "servingWorld = downWorld
     \<lparr>kwGetVolume := \<lambda>_ _. Inr (volumeFor exampleInfo ''/runtime-mnt'' ''fuse.alluxio-fuse'' [''ReadOnlyMany''] ''100Pi''),
      kwGetClaim := \<lambda>_ _ _. Inr (claimFor exampleInfo [''ReadOnlyMany''] ''100Pi'' None)\<rparr>"

theorem volume_roundtrip_witness:
  "\<exists>h'. GetNamespacedNameByVolumeId servingWorld
      (pvVolumeHandle (volumeFor exampleInfo ''/runtime-mnt'' ''fuse.alluxio-fuse'' [''ReadOnlyMany''] ''100Pi'')) [] =
    (Ret (Inr (riNamespace exampleInfo, riName exampleInfo)), h')"
  by (rule volume_roundtrip [where ds = None]) (simp_all add: servingWorld_def)

definition foreignVolume :: PersistentVolume where
  "foreignVolume =
     volumeFor (exampleInfo\<lparr>riNamespace := ''a-b'', riName := ''c''\<rparr>) ''/runtime-mnt'' ''fuse.alluxio-fuse''
       [''ReadOnlyMany''] ''100Pi''"

definition foreignWorld :: world where
  "foreignWorld = downWorld
     \<lparr>kwGetVolume := \<lambda>h _. if DeletedVolume ''a-b-c'' None \<in> set h then Inl (NotFound '''') else Inr foreignVolume,
      kwDeleteVolume := \<lambda>_ _. None\<rparr>"

theorem foreign_volume_deleted_witness:
  "\<exists>h'. DeleteFusePersistentVolume foreignWorld (exampleInfo\<lparr>riNamespace := ''a'', riName := ''b-c''\<rparr>) [] =
      (Ret None, h') \<and> DeletedVolume ''a-b-c'' None \<in> set h'"
  by (rule foreign_volume_deleted [where pv = foreignVolume])
    (simp_all add: foreignWorld_def foreignVolume_def volumeFor_def exampleInfo_def withMetadata_def
      metadataFor_def newMeta_def annotated_def GetExpectedFluidAnnotations_def lookupStr_def)

end
