(* ===== verification/Node_Placement.thy ===== *)
theory Node_Placement
  imports Dataset_Volume
begin

text \<open>
  The labels by which Fluid marks the nodes that cache a dataset: the list of changes to labels
  (\<open>LabelsToModify\<close> of \<open>pkg/common/label.go\<close>), applying it in update mode and in patch mode (\<open>pkg/utils/label.go\<close>),
  and placing a dataset on nodes and removing it (\<open>pkg/utils/dataset/lifecycle/node.go\<close>). \<open>bytesSize\<close> is
  \<open>units.BytesSize\<close>, which prints a number of bytes.
\<close>

section \<open>label.go of pkg/common\<close>

datatype OperationType = AddLabel | DeleteLabel | UpdateLabel

record LabelToModify =
  ltKey :: string
  ltValue :: string
  ltOperation :: OperationType

type_synonym LabelsToModify = "LabelToModify list"

definition labelsOperator :: "LabelsToModify \<Rightarrow> string \<Rightarrow> string \<Rightarrow> OperationType \<Rightarrow> LabelsToModify" where
  "labelsOperator labels labelKey labelValue operationType =
     labels @ [\<lparr>ltKey = labelKey, ltValue = (if operationType \<noteq> DeleteLabel then labelValue else ''''),
                ltOperation = operationType\<rparr>]"

definition labelsAdd :: "string \<Rightarrow> string \<Rightarrow> LabelsToModify \<Rightarrow> LabelsToModify" where
  "labelsAdd labelKey labelValue labels = labelsOperator labels labelKey labelValue AddLabel"

definition labelsUpdate :: "string \<Rightarrow> string \<Rightarrow> LabelsToModify \<Rightarrow> LabelsToModify" where
  "labelsUpdate labelKey labelValue labels = labelsOperator labels labelKey labelValue UpdateLabel"

definition labelsDelete :: "string \<Rightarrow> LabelsToModify \<Rightarrow> LabelsToModify" where
  "labelsDelete labelKey labels = labelsOperator labels labelKey '''' DeleteLabel"

section \<open>label.go of pkg/utils\<close>

fun updateLabels ::
  "LabelsToModify \<Rightarrow> (string \<times> string) list \<Rightarrow> string list \<Rightarrow> goerr + (string \<times> string) list \<times> string list" where
  "updateLabels [] labels modified = Inr (labels, modified)"
| "updateLabels (l # ls) labels modified =
     (case ltOperation l of
        AddLabel \<Rightarrow>
          if map_of labels (ltKey l) \<noteq> None
          then Inl (Err (''fail to add the label due to the label '' @ ltKey l @ '' already exist''))
          else updateLabels ls (AList.update (ltKey l) (ltValue l) labels) (modified @ [ltKey l])
      | UpdateLabel \<Rightarrow>
          if map_of labels (ltKey l) = None
          then Inl (Err (''fail to update the label due to the label '' @ ltKey l @ '' does not exist''))
          else updateLabels ls (AList.update (ltKey l) (ltValue l) labels) (modified @ [ltKey l])
      | DeleteLabel \<Rightarrow>
          if map_of labels (ltKey l) = None
          then Inl (Err (''fail to delete the label due to the label '' @ ltKey l @ '' does not exist''))
          else updateLabels ls (AList.delete (ltKey l) labels) (modified @ [ltKey l]))"

text \<open>
  The labels of a node without labels are a nil map: adding one to it panics, and the other changes fail before they write.
\<close>

definition ChangeNodeLabelWithUpdateMode ::
  "world \<Rightarrow> Node \<Rightarrow> LabelsToModify \<Rightarrow> (goerr + string list) kgo" where
  "ChangeNodeLabelWithUpdateMode w node labelsToModify =
     (if nodeLabels node = [] \<and> labelsToModify \<noteq> [] \<and> ltOperation (hd labelsToModify) = AddLabel
      then panic ''assignment to entry in nil map''
      else case updateLabels labelsToModify (nodeLabels node) [] of
        Inl e \<Rightarrow> ret (Inl e)
      | Inr (labels, modifiedLabels) \<Rightarrow>
          let node' = node\<lparr>nodeLabels := labels\<rparr> in
          andThen (call (\<lambda>h. kwUpdateNode w h node') (WroteNode node')) (\<lambda>err.
          case err of
            Some e \<Rightarrow> ret (Inl (Wrapped (''update node labels failed, node name: '' @ nodeName node) e))
          | None \<Rightarrow> ret (Inr modifiedLabels)))"

text \<open>The map that becomes the patch: a deleted label is null in it.\<close>

definition labelValuePair :: "LabelsToModify \<Rightarrow> (string \<times> string option) list" where
  "labelValuePair labels =
     assignAll (map (\<lambda>l. (ltKey l, if ltOperation l = DeleteLabel then None else Some (ltValue l))) labels) []"

definition PatchLabels :: "world \<Rightarrow> Node \<Rightarrow> LabelsToModify \<Rightarrow> (goerr + string list) kgo" where
  "PatchLabels w node labelsToModify =
     andThen (call (\<lambda>h. kwPatchNode w h (nodeName node) (labelValuePair labelsToModify))
                (PatchedNode (nodeName node) (labelValuePair labelsToModify))) (\<lambda>err.
     case err of
       Some e \<Rightarrow> ret (Inl (Wrapped (''patch node labels failed, node name: '' @ nodeName node) e))
     | None \<Rightarrow> ret (Inr (map ltKey labelsToModify)))"

definition ChangeNodeLabelWithPatchMode :: "world \<Rightarrow> Node \<Rightarrow> LabelsToModify \<Rightarrow> (goerr + string list) kgo" where
  "ChangeNodeLabelWithPatchMode w node labelsToModify = PatchLabels w node labelsToModify"

section \<open>node.go of lifecycle\<close>

definition DecreaseDatasetNum :: "Node \<Rightarrow> LabelsToModify \<Rightarrow> goerr option \<times> LabelsToModify" where
  "DecreaseDatasetNum toUpdate labelsToModify =
     (case map_of (nodeLabels toUpdate) GetDatasetNumLabelName of
        None \<Rightarrow> (None, labelsToModify)
      | Some val \<Rightarrow>
          (case Atoi val of
             None \<Rightarrow> (Some (Err (''strconv.Atoi: parsing '' @ val)), labelsToModify)
           | Some currentDataset \<Rightarrow>
               if currentDataset < 2 then (None, labelsDelete GetDatasetNumLabelName labelsToModify)
               else (None, labelsUpdate GetDatasetNumLabelName (Itoa (currentDataset - 1)) labelsToModify)))"

text \<open>The counter is a Go \<open>int\<close>. It is not wrapped here: \<open>Atoi\<close> reads 64 bits, and only a label of the largest of them would overflow.\<close>

definition increaseDatasetNum :: "Node \<Rightarrow> LabelsToModify \<Rightarrow> goerr option \<times> LabelsToModify" where
  "increaseDatasetNum toUpdate labelsToModify =
     (case map_of (nodeLabels toUpdate) GetDatasetNumLabelName of
        Some currentDatasetNum \<Rightarrow>
          (case Atoi currentDatasetNum of
             None \<Rightarrow> (Some (Err (''strconv.Atoi: parsing '' @ currentDatasetNum)), labelsToModify)
           | Some currentData \<Rightarrow>
               (None, labelsUpdate GetDatasetNumLabelName (Itoa (currentData + 1)) labelsToModify))
      | None \<Rightarrow> (None, labelsAdd GetDatasetNumLabelName ''1'' labelsToModify))"

definition labelNodeWithCapacityInfo :: "(int \<Rightarrow> string) \<Rightarrow> RuntimeInfo \<Rightarrow> LabelsToModify \<Rightarrow> LabelsToModify" where
  "labelNodeWithCapacityInfo bytesSize runtimeInfo labelsToModify =
     (let storageMap = GetLevelStorageMap runtimeInfo;
          perLevel = fold (\<lambda>(key, requirement).
            labelsAdd (if key = ''Memory'' then memoryLabel runtimeInfo else diskLabel runtimeInfo)
              (bytesSize requirement)) storageMap labelsToModify in
      labelsAdd (totalLabel runtimeInfo) (bytesSize (sum_list (map snd storageMap))) perLevel)"

text \<open>The changes that one attempt adds to the list, from the node it has read.\<close>

definition placeLabels ::
  "(int \<Rightarrow> string) \<Rightarrow> RuntimeInfo \<Rightarrow> Node \<Rightarrow> LabelsToModify \<Rightarrow> goerr option \<times> LabelsToModify" where
  "placeLabels bytesSize runtimeInfo node labelsToModify =
     (let marked = labelsAdd (commonLabel runtimeInfo) ''true''
                     (labelsAdd (runtimeLabel runtimeInfo) ''true'' labelsToModify);
          owned = (if GetPlacementModeWithDefault runtimeInfo ''Exclusive'' = ''Exclusive''
                   then labelsAdd GetExclusiveKey (GetExclusiveLabelValue runtimeInfo) marked else marked) in
      case increaseDatasetNum node owned of
        (Some e, labels) \<Rightarrow> (Some e, labels)
      | (None, labels) \<Rightarrow> (None, labelNodeWithCapacityInfo bytesSize runtimeInfo labels))"

definition labelOnce ::
  "world \<Rightarrow> (int \<Rightarrow> string) \<Rightarrow> RuntimeInfo \<Rightarrow> string \<Rightarrow> LabelsToModify \<times> string list \<Rightarrow>
   (goerr option \<times> LabelsToModify \<times> string list) kgo" where
  "labelOnce w bytesSize runtimeInfo name state =
     (case state of (labelsToModify, modifiedLabels) \<Rightarrow>
       andThen (GetNode w name) (\<lambda>r.
       case r of
         Inl e \<Rightarrow> ret (Some e, labelsToModify, modifiedLabels)
       | Inr node \<Rightarrow>
           (case placeLabels bytesSize runtimeInfo node labelsToModify of
              (Some e, labels) \<Rightarrow> ret (Some e, labels, modifiedLabels)
            | (None, labels) \<Rightarrow>
                andThen (ChangeNodeLabelWithPatchMode w node labels) (\<lambda>r.
                case r of
                  Inl e \<Rightarrow> ret (Some e, labels, [])
                | Inr modified \<Rightarrow> ret (None, labels, modified)))))"

text \<open>
  After the patch the function polls until the cache shows the labels. The error of the poll is scoped to the
  condition of the \<open>if\<close>, so the tests behind it read the error of the patch, which is nil: the function returns nil
  after the first poll, whatever it saw.
\<close>

definition labelCacheNode :: "world \<Rightarrow> (int \<Rightarrow> string) \<Rightarrow> RuntimeInfo \<Rightarrow> Node \<Rightarrow> (goerr option) kgo" where
  "labelCacheNode w bytesSize runtimeInfo nodeToLabel =
     andThen (RetryOnConflictS (labelOnce w bytesSize runtimeInfo (nodeName nodeToLabel)) ([], []))
       (\<lambda>(err, _, modifiedLabels).
     if err \<noteq> None then ret err
     else
       andThen (Poll w (andThen (GetNode w (nodeName nodeToLabel)) (\<lambda>r.
                  case r of
                    Inl e \<Rightarrow> ret (False, Some (Wrapped ''failed to get node'' e))
                  | Inr node \<Rightarrow> ret (ContainsAll (nodeLabels node) modifiedLabels, None)))) (\<lambda>pollErr.
       ret err))"

definition removeLabels :: "RuntimeInfo \<Rightarrow> Node \<Rightarrow> LabelsToModify \<Rightarrow> goerr option \<times> LabelsToModify" where
  "removeLabels runtimeInfo node labelsToModify =
     (let labelNames = [runtimeLabel runtimeInfo, totalLabel runtimeInfo, diskLabel runtimeInfo,
                        memoryLabel runtimeInfo, commonLabel runtimeInfo];
          unmarked = fold labelsDelete labelNames labelsToModify;
          disowned = (if map_of (nodeLabels node) GetExclusiveKey = Some (GetExclusiveLabelValue runtimeInfo)
                      then labelsDelete GetExclusiveKey unmarked else unmarked) in
      DecreaseDatasetNum node disowned)"

definition unlabelOnce ::
  "world \<Rightarrow> RuntimeInfo \<Rightarrow> string \<Rightarrow> LabelsToModify \<Rightarrow> (goerr option \<times> LabelsToModify) kgo" where
  "unlabelOnce w runtimeInfo name labelsToModify =
     andThen (GetNode w name) (\<lambda>r.
     case r of
       Inl e \<Rightarrow> ret (Some e, labelsToModify)
     | Inr node \<Rightarrow>
         (case removeLabels runtimeInfo node labelsToModify of
            (Some e, labels) \<Rightarrow> ret (Some e, labels)
          | (None, labels) \<Rightarrow>
              andThen (ChangeNodeLabelWithPatchMode w node labels) (\<lambda>r.
              ret (case r of Inl e \<Rightarrow> Some e | Inr _ \<Rightarrow> None, labels))))"

definition unlabelCacheNode :: "world \<Rightarrow> RuntimeInfo \<Rightarrow> Node \<Rightarrow> (goerr option) kgo" where
  "unlabelCacheNode w runtimeInfo node =
     andThen (RetryOnConflictS (unlabelOnce w runtimeInfo (nodeName node)) []) (\<lambda>(err, _). ret err)"

definition hasRuntimeLabel :: "Node \<Rightarrow> RuntimeInfo \<Rightarrow> bool" where
  "hasRuntimeLabel node runtimeInfo = (map_of (nodeLabels node) (runtimeLabel runtimeInfo) \<noteq> None)"

definition addScheduleInfoToNode :: "world \<Rightarrow> (int \<Rightarrow> string) \<Rightarrow> RuntimeInfo \<Rightarrow> string \<Rightarrow> (goerr option) kgo" where
  "addScheduleInfoToNode w bytesSize runtimeInfo name =
     andThen (GetNode w name) (\<lambda>r.
     case r of
       Inl e \<Rightarrow> ret (Some e)
     | Inr node \<Rightarrow>
         if kwNodeExcluded w (nodeLabels node) then ret None
         else if hasRuntimeLabel node runtimeInfo then ret None
         else labelCacheNode w bytesSize runtimeInfo node)"

definition removeScheduleInfoFromNode :: "world \<Rightarrow> RuntimeInfo \<Rightarrow> string \<Rightarrow> (goerr option) kgo" where
  "removeScheduleInfoFromNode w runtimeInfo name =
     andThen (GetNode w name) (\<lambda>r.
     case r of
       Inl e \<Rightarrow> ret (Some e)
     | Inr node \<Rightarrow>
         if \<not> hasRuntimeLabel node runtimeInfo then ret None
         else unlabelCacheNode w runtimeInfo node)"

definition calculateNodeDifferences :: "string list \<Rightarrow> string list \<Rightarrow> string list \<times> string list" where
  "calculateNodeDifferences currentNodes previousNodes =
     (SubtractString currentNodes previousNodes, SubtractString previousNodes currentNodes)"

definition applyNodeChanges ::
  "world \<Rightarrow> (int \<Rightarrow> string) \<Rightarrow> RuntimeInfo \<Rightarrow> string list \<Rightarrow> string list \<Rightarrow> unit kgo" where
  "applyNodeChanges w bytesSize runtimeInfo toAdd toRemove =
     andThen (forEach toAdd (\<lambda>n. andThen (addScheduleInfoToNode w bytesSize runtimeInfo n) (\<lambda>_. ret ()))) (\<lambda>_.
     forEach toRemove (\<lambda>n. andThen (removeScheduleInfoFromNode w runtimeInfo n) (\<lambda>_. ret ())))"

definition getDesiredNodesWithScheduleInfo :: "world \<Rightarrow> RuntimeInfo \<Rightarrow> (goerr + string list) kgo" where
  "getDesiredNodesWithScheduleInfo w runtimeInfo =
     andThen (viaOp w (\<lambda>cl. GetStatefulSet cl (GetWorkerStatefulsetName runtimeInfo) (riNamespace runtimeInfo))) (\<lambda>r.
     case r of
       Inl e \<Rightarrow> ret (Inl e)
     | Inr workers \<Rightarrow>
         (case kwBadSelector w (stsSelector workers) of
            Some e \<Rightarrow> ret (Inl e)
          | None \<Rightarrow>
              andThen (GetPodsForStatefulSet w workers (stsSelector workers)) (\<lambda>(workerPods, err).
              case err of
                Some e \<Rightarrow> ret (Inl e)
              | None \<Rightarrow> ret (Inr (RemoveDuplicateStr (filter (\<lambda>n. n \<noteq> '''') (map piNodeName workerPods)))))))"

definition getActualNodesWithScheduleInfo :: "world \<Rightarrow> RuntimeInfo \<Rightarrow> (goerr + string list) kgo" where
  "getActualNodesWithScheduleInfo w runtimeInfo =
     (case kwBadSelector w (runtimeLabel runtimeInfo @ ''=true'') of
        Some e \<Rightarrow> ret (Inl e)
      | None \<Rightarrow>
          andThen (call (\<lambda>h. kwListNodes w h (runtimeLabel runtimeInfo) ''true'')
                     (ListedNodes (runtimeLabel runtimeInfo) ''true'')) (\<lambda>r.
          case r of
            Inl e \<Rightarrow> ret (Inl e)
          | Inr nodes \<Rightarrow> ret (Inr (RemoveDuplicateStr (map nodeName nodes)))))"

definition SyncScheduleInfoToCacheNodes ::
  "world \<Rightarrow> (int \<Rightarrow> string) \<Rightarrow> RuntimeInfo \<Rightarrow> (goerr option) kgo" where
  "SyncScheduleInfoToCacheNodes w bytesSize runtimeInfo =
     andThen (getDesiredNodesWithScheduleInfo w runtimeInfo) (\<lambda>r.
     case r of
       Inl e \<Rightarrow> ret (Some e)
     | Inr desired \<Rightarrow>
         andThen (getActualNodesWithScheduleInfo w runtimeInfo) (\<lambda>r.
         case r of
           Inl e \<Rightarrow> ret (Some e)
         | Inr actual \<Rightarrow>
             (case calculateNodeDifferences desired actual of
                (toAdd, toRemove) \<Rightarrow>
                  andThen (applyNodeChanges w bytesSize runtimeInfo toAdd toRemove) (\<lambda>_. ret None))))"

section \<open>What a patch does\<close>

text \<open>
  A strategic merge patch of a map, as the API server applies it: a key with a value is set, a key with null is
  removed, and every other key stays.
\<close>

definition applyPatch :: "(string \<times> string option) list \<Rightarrow> (string \<times> string) list \<Rightarrow> (string \<times> string) list" where
  "applyPatch patch labels =
     fold (\<lambda>(k, v) labels. case v of Some x \<Rightarrow> AList.update k x labels | None \<Rightarrow> AList.delete k labels) patch labels"

abbreviation wanted :: "LabelToModify \<Rightarrow> string option" where
  "wanted l \<equiv> (if ltOperation l = DeleteLabel then None else Some (ltValue l))"

lemma applyPatch_distinct:
  "distinct (map fst patch) \<Longrightarrow>
   map_of (applyPatch patch labels) k = (case map_of patch k of None \<Rightarrow> map_of labels k | Some v \<Rightarrow> v)"
proof (induction patch arbitrary: labels)
  case Nil
  then show ?case by (simp add: applyPatch_def)
next
  case (Cons kv patch)
  obtain k0 v0 where kv: "kv = (k0, v0)" by (cases kv)
  let ?labels = "case v0 of Some x \<Rightarrow> AList.update k0 x labels | None \<Rightarrow> AList.delete k0 labels"
  have "map_of patch k0 = None" using Cons.prems kv by (simp add: map_of_eq_None_iff)
  moreover have "map_of ?labels k = (if k = k0 then v0 else map_of labels k)"
    by (simp add: update_conv' delete_conv' split: option.splits)
  moreover have "applyPatch (kv # patch) labels = applyPatch patch ?labels"
    by (simp add: applyPatch_def kv)
  ultimately show ?case using Cons kv by (auto split: option.splits)
qed

lemma labelValuePair_lookup:
  "map_of (labelValuePair ls) k = map_option wanted (List.find (\<lambda>l. ltKey l = k) (rev ls))"
proof -
  have "map_of (map (\<lambda>l. (ltKey l, wanted l)) xs) k = map_option wanted (List.find (\<lambda>l. ltKey l = k) xs)" for xs
    by (induction xs) auto
  then show ?thesis by (simp add: labelValuePair_def map_of_assignAll rev_map)
qed

definition labelled :: "LabelsToModify \<Rightarrow> (string \<times> string) list \<Rightarrow> (string \<times> string) list" where
  "labelled ls labels = applyPatch (labelValuePair ls) labels"

lemma labelled_lookup:
  "map_of (labelled ls labels) k =
     (case List.find (\<lambda>l. ltKey l = k) (rev ls) of None \<Rightarrow> map_of labels k | Some l \<Rightarrow> wanted l)"
proof -
  have "distinct (map fst (labelValuePair ls))" by (simp add: labelValuePair_def distinct_assignAll)
  then show ?thesis
    by (simp add: labelled_def applyPatch_distinct labelValuePair_lookup split: option.splits)
qed

lemma labelled_Nil [simp]: "map_of (labelled [] labels) = map_of labels"
  by (rule ext) (simp add: labelled_lookup)

lemma labelled_snoc [simp]:
  "map_of (labelled (ls @ [l]) labels) = (map_of (labelled ls labels))(ltKey l := wanted l)"
  by (rule ext) (simp add: labelled_lookup)

lemma labelled_ops [simp]:
  "map_of (labelled (labelsAdd k v ls) labels) = (map_of (labelled ls labels))(k \<mapsto> v)"
  "map_of (labelled (labelsUpdate k v ls) labels) = (map_of (labelled ls labels))(k \<mapsto> v)"
  "map_of (labelled (labelsDelete k ls) labels) = (map_of (labelled ls labels))(k := None)"
  by (simp_all add: labelsAdd_def labelsUpdate_def labelsDelete_def labelsOperator_def)

lemma find_append:
  "List.find P (xs @ ys) = (case List.find P xs of Some x \<Rightarrow> Some x | None \<Rightarrow> List.find P ys)"
  by (induction xs) auto

lemma labelled_Cons:
  assumes "map_of labels1 = (map_of labels)(ltKey l := wanted l)"
  shows "map_of (labelled (l # ls) labels) = map_of (labelled ls labels1)"
proof
  fix k
  show "map_of (labelled (l # ls) labels) k = map_of (labelled ls labels1) k"
    using assms by (cases "List.find (\<lambda>l. ltKey l = k) (rev ls)") (simp_all add: labelled_lookup find_append)
qed

lemma updateLabels_is_patch:
  assumes "updateLabels ls labels modified = Inr (labels', modified')"
  shows "map_of labels' = map_of (applyPatch (labelValuePair ls) labels) \<and> modified' = modified @ map ltKey ls"
  using assms
proof (induction ls labels modified rule: updateLabels.induct)
  case (1 labels modified)
  then show ?case using labelled_Nil [of labels] by (auto simp: labelled_def)
next
  case (2 l ls labels modified)
  define labels1 where "labels1 = (case wanted l of Some v \<Rightarrow> AList.update (ltKey l) v labels | None \<Rightarrow> AList.delete (ltKey l) labels)"
  have "updateLabels ls labels1 (modified @ [ltKey l]) = Inr (labels', modified')"
    using 2(4) by (auto simp: labels1_def split: OperationType.splits if_splits)
  then have "map_of labels' = map_of (labelled ls labels1) \<and> modified' = modified @ map ltKey (l # ls)"
    using 2(1-3) 2(4) by (auto simp: labels1_def labelled_def split: OperationType.splits if_splits)
  moreover have "map_of (labelled (l # ls) labels) = map_of (labelled ls labels1)"
    by (rule labelled_Cons) (simp add: labels1_def update_conv' delete_conv')
  ultimately show ?case by (simp add: labelled_def)
qed

text \<open>
  C32. Changing the labels of a node in update mode and in patch mode is the same. Whenever the update mode succeeds, it has written
  the node once, changed in its labels only; then the patch mode, for the same node and changes and at any time, sends one patch of
  that node, which makes of the labels of the node exactly the labels that the update mode wrote, and it reports the
  same changed keys, or the wrapped error of the patch.
\<close>

theorem update_mode_is_patch_mode:
  assumes "ChangeNodeLabelWithUpdateMode w node ls h = (Ret (Inr modified), h')"
  shows "\<exists>labels patch a. h' = h @ [WroteNode (node\<lparr>nodeLabels := labels\<rparr>) None] \<and>
    ChangeNodeLabelWithPatchMode w node ls g =
      (Ret (case a of None \<Rightarrow> Inr modified | Some e \<Rightarrow> Inl (Wrapped (''patch node labels failed, node name: '' @ nodeName node) e)),
       g @ [PatchedNode (nodeName node) patch a]) \<and>
    map_of labels = map_of (applyPatch patch (nodeLabels node))"
proof -
  obtain labels where labels: "updateLabels ls (nodeLabels node) [] = Inr (labels, modified)"
    "h' = h @ [WroteNode (node\<lparr>nodeLabels := labels\<rparr>) None]"
    using assms by (auto simp: ChangeNodeLabelWithUpdateMode_def Let_def andThen_def call_def ret_def panic_def
        split: if_splits sum.splits option.splits)
  have "map_of labels = map_of (applyPatch (labelValuePair ls) (nodeLabels node))" "modified = map ltKey ls"
    using updateLabels_is_patch [OF labels(1)] by simp_all
  then show ?thesis using labels(2)
    by (auto simp: ChangeNodeLabelWithPatchMode_def PatchLabels_def andThen_def call_def ret_def split: option.splits)
qed

text \<open>On a node without labels the update mode panics where the patch mode adds a label.\<close>

lemma update_mode_nil_labels_panics:
  "nodeLabels node = [] \<Longrightarrow>
   ChangeNodeLabelWithUpdateMode w node (labelsAdd key val []) h = (Panic ''assignment to entry in nil map'', h)"
  by (simp add: ChangeNodeLabelWithUpdateMode_def labelsAdd_def labelsOperator_def panic_def)

section \<open>The datasets on a node\<close>

text \<open>The labels of a node after the patches of a history, and an API server that answers with them.\<close>

definition nodeState :: "string \<Rightarrow> (string \<times> string) list \<Rightarrow> kevent list \<Rightarrow> (string \<times> string) list" where
  "nodeState name labels h =
     fold (\<lambda>e labels. case e of PatchedNode n p None \<Rightarrow> if n = name then applyPatch p labels else labels
                      | _ \<Rightarrow> labels) h labels"

definition servesNode :: "world \<Rightarrow> string \<Rightarrow> (string \<times> string) list \<Rightarrow> bool" where
  "servesNode w name labels \<longleftrightarrow>
     (\<forall>h. kwGetNode w h name = Inr \<lparr>nodeName = name, nodeLabels = nodeState name labels h\<rparr>) \<and>
     (\<forall>h p. kwPatchNode w h name p = None) \<and> (\<forall>l. \<not> kwNodeExcluded w l)"

text \<open>What a request to place (\<open>True\<close>) or to remove (\<open>False\<close>) a dataset makes of the labels.\<close>

definition served :: "(int \<Rightarrow> string) \<Rightarrow> bool \<times> RuntimeInfo \<Rightarrow> (string \<times> string) list \<Rightarrow> (string \<times> string) list" where
  "served bytesSize req labels =
     (let node = \<lparr>nodeName = '''', nodeLabels = labels\<rparr> in
      if fst req = hasRuntimeLabel node (snd req) then labels
      else case (if fst req then placeLabels bytesSize (snd req) node [] else removeLabels (snd req) node []) of
             (None, ls) \<Rightarrow> labelled ls labels
           | (Some _, ls) \<Rightarrow> labels)"

definition request :: "world \<Rightarrow> (int \<Rightarrow> string) \<Rightarrow> string \<Rightarrow> bool \<times> RuntimeInfo \<Rightarrow> unit kgo" where
  "request w bytesSize name req =
     andThen (if fst req then addScheduleInfoToNode w bytesSize (snd req) name
              else removeScheduleInfoFromNode w (snd req) name) (\<lambda>_. ret ())"

lemma nodeState_simps [simp]:
  "nodeState name labels [] = labels"
  "nodeState name labels (ReadNode n r # h) = nodeState name labels h"
  "nodeState name labels (PatchedNode name p None # h) = nodeState name (applyPatch p labels) h"
  "nodeState name labels (h @ h') = nodeState name (nodeState name labels h) h'"
  by (simp_all add: nodeState_def)

lemma label_name_irrelevant:
  "placeLabels bs info \<lparr>nodeName = n, nodeLabels = l\<rparr> ls = placeLabels bs info \<lparr>nodeName = '''', nodeLabels = l\<rparr> ls"
  "removeLabels info \<lparr>nodeName = n, nodeLabels = l\<rparr> ls = removeLabels info \<lparr>nodeName = '''', nodeLabels = l\<rparr> ls"
  "hasRuntimeLabel \<lparr>nodeName = n, nodeLabels = l\<rparr> info = hasRuntimeLabel \<lparr>nodeName = '''', nodeLabels = l\<rparr> info"
  by (simp_all add: placeLabels_def removeLabels_def increaseDatasetNum_def DecreaseDatasetNum_def hasRuntimeLabel_def)

lemma label_errors:
  "placeLabels bs info node ls = (Some e, ls') \<Longrightarrow> \<not> IsConflict e"
  "removeLabels info node ls = (Some e, ls') \<Longrightarrow> \<not> IsConflict e"
  by (auto simp: placeLabels_def removeLabels_def increaseDatasetNum_def DecreaseDatasetNum_def Let_def
      split: option.splits if_splits prod.splits)

lemma wp_pollNode:
  assumes "\<And>err h'. nodeState name labels h' = nodeState name labels h \<Longrightarrow> Q (Ret err) h'"
  shows "wp (Poll w (andThen (GetNode w n) (\<lambda>r. case r of Inl e \<Rightarrow> ret (F e) | Inr node \<Rightarrow> ret (G node)))) Q h"
  unfolding wp_Poll
  by (rule wp_pollLoop [where I = "\<lambda>h'. nodeState name labels h' = nodeState name labels h"])
    (auto simp: GetNode_def wp_rules assms split: sum.splits)

lemma wp_labelRetry:
  assumes "servesNode w name labels"
  shows "wp (RetryOnConflictS (labelOnce w bs info name) ([], []))
     (\<lambda>r h'. \<exists>err s. r = Ret (err, s) \<and>
        (case placeLabels bs info \<lparr>nodeName = '''', nodeLabels = nodeState name labels h\<rparr> [] of
           (None, ls) \<Rightarrow> err = None \<and> nodeState name labels h' = labelled ls (nodeState name labels h)
         | (Some e, ls) \<Rightarrow> err = Some e \<and> nodeState name labels h' = nodeState name labels h)) h"
  by (rule RetryOnConflictS_induct [where I = "\<lambda>s h'. s = ([], []) \<and> nodeState name labels h' = nodeState name labels h"])
    (use assms label_errors(1) in
      \<open>auto simp: labelOnce_def ChangeNodeLabelWithPatchMode_def PatchLabels_def GetNode_def wp_rules servesNode_def
         label_name_irrelevant [where n = name] labelled_def split: option.splits prod.splits\<close>)

lemma wp_unlabelRetry:
  assumes "servesNode w name labels"
  shows "wp (RetryOnConflictS (unlabelOnce w info name) [])
     (\<lambda>r h'. \<exists>err s. r = Ret (err, s) \<and>
        (case removeLabels info \<lparr>nodeName = '''', nodeLabels = nodeState name labels h\<rparr> [] of
           (None, ls) \<Rightarrow> err = None \<and> nodeState name labels h' = labelled ls (nodeState name labels h)
         | (Some e, ls) \<Rightarrow> err = Some e \<and> nodeState name labels h' = nodeState name labels h)) h"
  by (rule RetryOnConflictS_induct [where I = "\<lambda>s h'. s = [] \<and> nodeState name labels h' = nodeState name labels h"])
    (use assms label_errors(2) in
      \<open>auto simp: unlabelOnce_def ChangeNodeLabelWithPatchMode_def PatchLabels_def GetNode_def wp_rules servesNode_def
         label_name_irrelevant [where n = name] labelled_def split: option.splits prod.splits\<close>)

lemma wp_request:
  assumes "servesNode w name labels"
  shows "wp (request w bs name req)
     (\<lambda>r h'. r = Ret () \<and> nodeState name labels h' = served bs req (nodeState name labels h)) h"
proof (cases "fst req")
  case True
  then show ?thesis
    using assms
    unfolding request_def addScheduleInfoToNode_def GetNode_def
    by (auto simp: wp_rules servesNode_def served_def Let_def label_name_irrelevant [where n = name]
          labelCacheNode_def
        split: option.splits prod.splits out.splits
        intro!: wp_mono [OF wp_labelRetry [OF assms]] wp_pollNode [where labels = labels and name = name])
next
  case False
  then show ?thesis
    using assms
    unfolding request_def removeScheduleInfoFromNode_def GetNode_def
    by (auto simp: wp_rules servesNode_def served_def Let_def label_name_irrelevant [where n = name]
          unlabelCacheNode_def
        split: option.splits prod.splits
        intro!: wp_mono [OF wp_unlabelRetry [OF assms]])
qed

definition labelsOf :: "RuntimeInfo \<Rightarrow> string set" where
  "labelsOf info = {runtimeLabel info, commonLabel info, memoryLabel info, diskLabel info, totalLabel info}"

definition clashFree :: "RuntimeInfo set \<Rightarrow> bool" where
  "clashFree F \<longleftrightarrow> (\<forall>i\<in>F. \<forall>j\<in>F. i \<noteq> j \<longrightarrow> labelsOf i \<inter> labelsOf j = {})"

text \<open>The labels of a node represent the set \<open>S\<close> of datasets.\<close>

definition represents :: "RuntimeInfo set \<Rightarrow> RuntimeInfo set \<Rightarrow> (string \<times> string) list \<Rightarrow> bool" where
  "represents F S labels \<longleftrightarrow>
     (\<forall>i\<in>F. map_of labels (runtimeLabel i) \<noteq> None \<longleftrightarrow> i \<in> S) \<and>
     map_of labels GetDatasetNumLabelName = (if S = {} then None else Some (Itoa (int (card S))))"

definition placed :: "bool \<times> RuntimeInfo \<Rightarrow> RuntimeInfo set \<Rightarrow> RuntimeInfo set" where
  "placed req S = (if fst req then insert (snd req) S else S - {snd req})"

lemma labelsOf_prefix: "k \<in> labelsOf info \<Longrightarrow> HasPrefix k ''fluid.io/s-''"
  by (auto simp: labelsOf_def runtimeLabel_def commonLabel_def memoryLabel_def diskLabel_def totalLabel_def
      GetRuntimeLabelName_def GetCommonLabelName_def GetLabelNameForMemory_def GetLabelNameForDisk_def
      GetLabelNameForTotal_def GetStorageLabelName_def GetNamespacedNameValueWithPrefix_def Let_def HasPrefix_iff)

lemma labelsOf_reserved: "GetDatasetNumLabelName \<notin> labelsOf info" "GetExclusiveKey \<notin> labelsOf info"
  using labelsOf_prefix [of GetDatasetNumLabelName info] labelsOf_prefix [of GetExclusiveKey info]
  by (auto simp: GetDatasetNumLabelName_def GetExclusiveKey_def HasPrefix_def)

lemma Itoa_one: "Itoa 1 = ''1''"
  by code_simp

lemma reserved_neq: "GetDatasetNumLabelName \<noteq> GetExclusiveKey"
  by (simp add: GetDatasetNumLabelName_def GetExclusiveKey_def)

lemma capacity_labels:
  "k \<notin> labelsOf info \<Longrightarrow>
     map_of (labelled (labelNodeWithCapacityInfo bs info ls) labels) k = map_of (labelled ls labels) k"
  "map_of (labelled ls labels) k \<noteq> None \<Longrightarrow>
     map_of (labelled (labelNodeWithCapacityInfo bs info ls) labels) k \<noteq> None"
proof -
  let ?add = "\<lambda>(key, requirement). labelsAdd (if key = ''Memory'' then memoryLabel info else diskLabel info) (bs requirement)"
  have "k \<notin> labelsOf info \<Longrightarrow> map_of (labelled (fold ?add m ls) labels) k = map_of (labelled ls labels) k"
    and "map_of (labelled ls labels) k \<noteq> None \<Longrightarrow> map_of (labelled (fold ?add m ls) labels) k \<noteq> None" for m
    by (induction m arbitrary: ls) (auto simp: labelsOf_def split: if_splits)
  then show "k \<notin> labelsOf info \<Longrightarrow>
       map_of (labelled (labelNodeWithCapacityInfo bs info ls) labels) k = map_of (labelled ls labels) k"
    and "map_of (labelled ls labels) k \<noteq> None \<Longrightarrow>
       map_of (labelled (labelNodeWithCapacityInfo bs info ls) labels) k \<noteq> None"
    by (auto simp: labelNodeWithCapacityInfo_def labelsOf_def Let_def)
qed

lemma removed_labels:
  "map_of (labelled (fold labelsDelete ks ls) labels) = (\<lambda>k. if k \<in> set ks then None else map_of (labelled ls labels) k)"
  by (induction ks arbitrary: ls) (auto simp: fun_eq_iff)

lemma served_place:
  assumes "represents F S labels" and "finite S" and "S \<subseteq> F" and "i \<in> F" and "i \<notin> S" and "clashFree F"
    and "int (card S) < 2 ^ 62"
  shows "represents F (insert i S) (served bs (True, i) labels)"
proof -
  let ?node = "\<lparr>nodeName = '''', nodeLabels = labels\<rparr>"
  define marked where "marked = labelsAdd (commonLabel i) ''true'' (labelsAdd (runtimeLabel i) ''true'' [])"
  define owned where "owned = (if GetPlacementModeWithDefault i ''Exclusive'' = ''Exclusive''
      then labelsAdd GetExclusiveKey (GetExclusiveLabelValue i) marked else marked)"
  define num where "num = Itoa (int (card S) + 1)"
  have fresh: "\<not> hasRuntimeLabel ?node i" using assms by (simp add: represents_def hasRuntimeLabel_def)
  have "\<exists>op. increaseDatasetNum ?node owned = (None, labelsOperator owned GetDatasetNumLabelName num op) \<and> op \<noteq> DeleteLabel"
  proof (cases "S = {}")
    case True
    then have "num = ''1''" by (simp add: num_def Itoa_one)
    then show ?thesis using assms(1) True
      by (intro exI [of _ AddLabel]) (simp add: increaseDatasetNum_def represents_def labelsAdd_def)
  next
    case False
    have "Atoi (Itoa (int (card S))) = Some (int (card S))" using assms(7) by (intro Atoi_Itoa) simp_all
    then show ?thesis using assms(1) False
      by (intro exI [of _ UpdateLabel]) (simp add: increaseDatasetNum_def represents_def labelsUpdate_def num_def)
  qed
  then obtain op where op: "increaseDatasetNum ?node owned = (None, labelsOperator owned GetDatasetNumLabelName num op)"
    "op \<noteq> DeleteLabel" by blast
  define base where "base = labelsOperator owned GetDatasetNumLabelName num op"
  have place: "placeLabels bs i ?node [] = (None, labelNodeWithCapacityInfo bs i base)"
    unfolding placeLabels_def Let_def marked_def [symmetric] owned_def [symmetric] op(1) base_def by simp
  have base: "map_of (labelled base labels) k =
      (if k = GetDatasetNumLabelName then Some num
       else if k = GetExclusiveKey \<and> GetPlacementModeWithDefault i ''Exclusive'' = ''Exclusive''
         then Some (GetExclusiveLabelValue i)
       else if k = commonLabel i \<or> k = runtimeLabel i then Some ''true'' else map_of labels k)" for k
    using op(2) by (simp add: base_def labelsOperator_def owned_def marked_def)
  have result: "served bs (True, i) labels = labelled (labelNodeWithCapacityInfo bs i base) labels"
    using fresh place by (simp add: served_def Let_def)
  have "map_of (served bs (True, i) labels) (runtimeLabel j) \<noteq> None \<longleftrightarrow> j \<in> insert i S" if "j \<in> F" for j
  proof (cases "j = i")
    case True
    have "map_of (labelled base labels) (runtimeLabel i) \<noteq> None" by (auto simp: base)
    with True capacity_labels(2) show ?thesis unfolding result by blast
  next
    case False
    then have "runtimeLabel j \<notin> labelsOf i" using assms(4,6) that by (auto simp: clashFree_def labelsOf_def)
    moreover have "runtimeLabel j \<noteq> GetDatasetNumLabelName" "runtimeLabel j \<noteq> GetExclusiveKey"
      using labelsOf_reserved [of j] by (auto simp: labelsOf_def)
    ultimately show ?thesis
      using False assms(1) that unfolding result
      by (simp add: capacity_labels(1) base represents_def labelsOf_def)
  qed
  moreover have "map_of (served bs (True, i) labels) GetDatasetNumLabelName = Some (Itoa (int (card (insert i S))))"
    using labelsOf_reserved(1) [of i] assms(2,5) unfolding result
    by (simp add: capacity_labels(1) base num_def add.commute)
  ultimately show ?thesis by (auto simp: represents_def)
qed

lemma served_remove:
  assumes "represents F S labels" and "finite S" and "S \<subseteq> F" and "i \<in> S" and "clashFree F"
    and "int (card S) < 2 ^ 62"
  shows "represents F (S - {i}) (served bs (False, i) labels)"
proof -
  let ?node = "\<lparr>nodeName = '''', nodeLabels = labels\<rparr>"
  define unmarked where "unmarked = fold labelsDelete
      [runtimeLabel i, totalLabel i, diskLabel i, memoryLabel i, commonLabel i] []"
  define disowned where "disowned = (if map_of labels GetExclusiveKey = Some (GetExclusiveLabelValue i)
      then labelsDelete GetExclusiveKey unmarked else unmarked)"
  have here: "hasRuntimeLabel ?node i" using assms by (auto simp: represents_def hasRuntimeLabel_def)
  have num: "map_of labels GetDatasetNumLabelName = Some (Itoa (int (card S)))"
    using assms(1,4) by (auto simp: represents_def)
  have atoi: "Atoi (Itoa (int (card S))) = Some (int (card S))" using assms(6) by (intro Atoi_Itoa) simp_all
  define base where "base = (if card S < 2 then labelsDelete GetDatasetNumLabelName disowned
      else labelsUpdate GetDatasetNumLabelName (Itoa (int (card S) - 1)) disowned)"
  have "removeLabels i ?node [] = DecreaseDatasetNum ?node disowned"
    by (simp only: removeLabels_def Let_def unmarked_def disowned_def Node.simps)
  then have "removeLabels i ?node [] = (None, base)"
    using num atoi by (simp add: DecreaseDatasetNum_def base_def)
  then have result: "served bs (False, i) labels = labelled base labels"
    using here by (simp add: served_def Let_def)
  have "map_of (labelled unmarked labels) k = (if k \<in> labelsOf i then None else map_of labels k)" for k
    unfolding unmarked_def removed_labels by (simp add: labelsOf_def)
  then have other: "map_of (labelled base labels) k = (if k \<in> labelsOf i then None else map_of labels k)"
    if "k \<noteq> GetDatasetNumLabelName" "k \<noteq> GetExclusiveKey" for k
    using that by (simp add: base_def disowned_def)
  have "map_of (served bs (False, i) labels) (runtimeLabel j) \<noteq> None \<longleftrightarrow> j \<in> S - {i}" if "j \<in> F" for j
  proof -
    have "runtimeLabel j \<noteq> GetDatasetNumLabelName" "runtimeLabel j \<noteq> GetExclusiveKey"
      using labelsOf_reserved [of j] by (auto simp: labelsOf_def)
    moreover have "runtimeLabel j \<in> labelsOf i \<longleftrightarrow> j = i"
      using assms(3,4,5) that by (auto simp: clashFree_def labelsOf_def)
    ultimately show ?thesis using assms(1) that unfolding result by (simp add: other represents_def)
  qed
  moreover have "map_of (served bs (False, i) labels) GetDatasetNumLabelName =
      (if S - {i} = {} then None else Some (Itoa (int (card (S - {i})))))"
  proof -
    obtain n where n: "card (S - {i}) = n" "card S = Suc n" using assms(2,4) by (metis card.remove)
    then have "S - {i} = {} \<longleftrightarrow> n = 0" using assms(2) by auto
    with n show ?thesis unfolding result by (simp only: n) (simp add: base_def n(2))
  qed
  ultimately show ?thesis by (auto simp: represents_def)
qed

lemma served_step:
  assumes "represents F S labels" and "S \<subseteq> F" and "snd req \<in> F" and "clashFree F" and "finite F"
    and "int (card F) < 2 ^ 62"
  shows "represents F (placed req S) (served bs req labels)"
proof -
  have fin: "finite S" "card S \<le> card F" using assms(2,5) by (auto intro: finite_subset card_mono)
  obtain b i where req: "req = (b, i)" by (cases req)
  have present: "hasRuntimeLabel \<lparr>nodeName = '''', nodeLabels = labels\<rparr> i \<longleftrightarrow> i \<in> S"
    using assms(1,3) by (simp add: represents_def hasRuntimeLabel_def req)
  show ?thesis
  proof (cases "b = (i \<in> S)")
    case True
    then have "served bs req labels = labels" "placed req S = S"
      using present by (auto simp: served_def Let_def placed_def req)
    with assms(1) show ?thesis by simp
  next
    case False
    then show ?thesis
      using assms fin served_place [of F S labels i bs] served_remove [of F S labels i bs]
      by (cases b) (auto simp: req placed_def)
  qed
qed

text \<open>
  C6. Placing datasets on a node and removing them implements a set: for every sequence of requests, against an API
  server that answers with what was written, the labels of the node afterwards mark exactly the datasets that the
  sequence leaves on it, and the counter of datasets is their number, absent when there is none. Datasets whose labels
  do not clash, a node with none of them at the start, no node excluded from caching and patches that the API server
  accepts are presumed.
\<close>

theorem placement_refines_set:
  assumes "servesNode w name labels" and "represents F {} labels" and "clashFree F" and "finite F"
    and "int (card F) < 2 ^ 62" and "\<forall>req\<in>set reqs. snd req \<in> F"
  shows "\<exists>h'. forEach reqs (request w bytesSize name) [] = (Ret (), h') \<and>
    represents F (fold placed reqs {}) (nodeState name labels h')"
proof -
  have "wp (forEach reqs (request w bytesSize name))
      (\<lambda>r h'. r = Ret () \<and> represents F (fold placed reqs S) (nodeState name labels h')) h"
    if "represents F S (nodeState name labels h)" "S \<subseteq> F" for h S
    using assms(6) that
  proof (induction reqs arbitrary: h S)
    case Nil
    then show ?case by (simp add: wp_rules)
  next
    case (Cons req reqs)
    have "represents F (placed req S) (served bytesSize req (nodeState name labels h))"
      using Cons.prems assms by (intro served_step) auto
    moreover have "placed req S \<subseteq> F" using Cons.prems by (auto simp: placed_def)
    ultimately show ?case
      using Cons.IH [of "placed req S"] Cons.prems(1)
      by (auto simp: wp_andThen intro!: wp_mono [OF wp_request [OF assms(1)]])
  qed
  from this [of "{}" "[]"] assms(2) have
    "wp (forEach reqs (request w bytesSize name))
      (\<lambda>r h'. r = Ret () \<and> represents F (fold placed reqs {}) (nodeState name labels h')) []" by simp
  then show ?thesis by (cases "forEach reqs (request w bytesSize name) []") (simp add: wp_def)
qed

text \<open>Only nodes outside the intersection are touched.\<close>

definition patchesOnly :: "string set \<Rightarrow> kevent \<Rightarrow> bool" where
  "patchesOnly N e \<longleftrightarrow> (\<forall>n p r. e = PatchedNode n p r \<longrightarrow> n \<in> N) \<and> (\<forall>n r. e \<noteq> WroteNode n r)"

definition namesNode :: "world \<Rightarrow> bool" where
  "namesNode w \<longleftrightarrow> (\<forall>h n node. kwGetNode w h n = Inr node \<longrightarrow> nodeName node = n)"

lemma yields_GetNode: "namesNode w \<Longrightarrow> yields (\<lambda>r. \<forall>node. r = Inr node \<longrightarrow> nodeName node = n) (GetNode w n)"
  by (auto simp: yields_def GetNode_def call_def namesNode_def)

lemma emits_GetNode [emits_rules]: "(\<And>r. P (ReadNode n r)) \<Longrightarrow> emits P (GetNode w n)"
  by (simp add: GetNode_def emits_call)

lemma emits_patch [emits_rules]:
  "nodeName node \<in> N \<Longrightarrow> emits (patchesOnly N) (ChangeNodeLabelWithPatchMode w node ls)"
  unfolding ChangeNodeLabelWithPatchMode_def PatchLabels_def
  by (auto simp: patchesOnly_def intro!: emits_rules)

lemma patchesOnly_read [simp]: "patchesOnly N (ReadNode n r)" by (simp add: patchesOnly_def)

lemma emits_once:
  assumes "namesNode w" and "n \<in> N"
  shows "emits (patchesOnly N) (labelOnce w bs info n s)" "emits (patchesOnly N) (unlabelOnce w info n ls)"
proof -
  show "emits (patchesOnly N) (labelOnce w bs info n s)"
    unfolding labelOnce_def
    by (cases s; simp; rule emits_andThen_yields [OF _ yields_GetNode [OF assms(1)]];
        auto intro!: emits_rules simp: assms split: prod.splits sum.splits option.splits)
  show "emits (patchesOnly N) (unlabelOnce w info n ls)"
    unfolding unlabelOnce_def
    by (rule emits_andThen_yields [OF _ yields_GetNode [OF assms(1)]];
        auto intro!: emits_rules simp: assms split: prod.splits sum.splits option.splits)
qed

lemma emits_schedule:
  assumes "namesNode w" and "n \<in> N"
  shows "emits (patchesOnly N) (addScheduleInfoToNode w bs info n)"
    "emits (patchesOnly N) (removeScheduleInfoFromNode w info n)"
  unfolding addScheduleInfoToNode_def removeScheduleInfoFromNode_def labelCacheNode_def unlabelCacheNode_def
  by (rule emits_andThen_yields [OF _ yields_GetNode [OF assms(1)]];
      auto intro!: emits_rules emits_once simp: assms split: prod.splits)+

lemma emits_forEach_set: "(\<And>x. x \<in> set xs \<Longrightarrow> emits P (f x)) \<Longrightarrow> emits P (forEach xs f)"
  by (induction xs) (auto intro!: emits_rules)

text \<open>
  Synchronising the placement of a runtime touches only what has to change: a node is patched only if the workers
  run on it and it is not marked, or it is marked and no worker runs on it.
\<close>

theorem sync_touches_differences:
  assumes "namesNode w" and "getDesiredNodesWithScheduleInfo w info h = (Ret (Inr desired), h1)"
    and "getActualNodesWithScheduleInfo w info h1 = (Ret (Inr actual), h2)"
    and "SyncScheduleInfoToCacheNodes w bytesSize info h = (r, h')"
  shows "\<exists>es. h' = h2 @ es \<and> (\<forall>n node. WroteNode node n \<notin> set es) \<and>
    (\<forall>n p r. PatchedNode n p r \<in> set es \<longrightarrow> (n \<in> set desired) \<noteq> (n \<in> set actual))"
proof -
  let ?N = "(set desired - set actual) \<union> (set actual - set desired)"
  have "emits (patchesOnly ?N) (andThen (applyNodeChanges w bytesSize info (SubtractString desired actual)
      (SubtractString actual desired)) (\<lambda>_. ret (None :: goerr option)))"
    unfolding applyNodeChanges_def
    by (auto intro!: emits_andThen emits_ret emits_forEach_set emits_schedule [OF assms(1)] simp: set_SubtractString)
  moreover have "andThen (applyNodeChanges w bytesSize info (SubtractString desired actual)
      (SubtractString actual desired)) (\<lambda>_. ret None) h2 = (r, h')"
    using assms(2-4)
    by (simp add: SyncScheduleInfoToCacheNodes_def andThen_def calculateNodeDifferences_def)
  ultimately obtain es where "h' = h2 @ es" "list_all (patchesOnly ?N) es" by (rule emits_run)
  then show ?thesis by (auto simp: list_all_iff patchesOnly_def)
qed

text \<open>
  Placing a dataset on a node succeeds even if the node is never seen with its labels, although the code means to
  wait until the cache has caught up.
\<close>

theorem placement_unconfirmed:
  assumes "\<And>h. kwGetNode w h (nodeName node) = Inr node" and "\<And>h p. kwPatchNode w h (nodeName node) p = None"
    and "map_of (nodeLabels node) GetDatasetNumLabelName = None"
  shows "\<exists>h' ls. labelCacheNode w bytesSize info node [] = (Ret None, h') \<and>
    PatchedNode (nodeName node) (labelValuePair ls) None \<in> set h' \<and>
    (\<forall>r. ReadNode (nodeName node) r \<in> set h' \<longrightarrow> r = Inr node)"
proof -
  obtain ls where ls: "placeLabels bytesSize info node [] = (None, ls)"
    using assms(3) by (simp add: placeLabels_def increaseDatasetNum_def Let_def)
  have get: "GetNode w (nodeName node) = call (\<lambda>h. Inr node) (ReadNode (nodeName node))"
    by (simp add: GetNode_def assms(1))
  let ?P = "\<lambda>h. PatchedNode (nodeName node) (labelValuePair ls) None \<in> set h \<and>
    (\<forall>r. ReadNode (nodeName node) r \<in> set h \<longrightarrow> r = Inr node)"
  have poll: "wp (Poll w (andThen (GetNode w (nodeName node)) (\<lambda>r. case r of Inl e \<Rightarrow> ret (False, Some (Wrapped m e))
      | Inr node \<Rightarrow> ret (G node, None)))) (\<lambda>r h. (\<exists>e. r = Ret e) \<and> ?P h) h" if "?P h" for h m G
    unfolding wp_Poll
    by (rule wp_pollLoop [where I = ?P]) (use that assms(1) in \<open>auto simp: GetNode_def wp_rules\<close>)
  have "wp (labelCacheNode w bytesSize info node) (\<lambda>r h'. r = Ret None \<and> ?P h') []"
    unfolding labelCacheNode_def RetryOnConflictS_def DefaultBackoff_Steps_def
    using assms(1,2) ls
    by (auto simp: numeral_eq_Suc labelOnce_def ChangeNodeLabelWithPatchMode_def PatchLabels_def get wp_rules
        split: out.splits intro!: wp_mono [OF poll [unfolded get]])
  then show ?thesis by (cases "labelCacheNode w bytesSize info node []") (auto simp: wp_def)
qed

lemma removeLabels_exclusive:
  assumes "removeLabels info node ls = (err, ls')"
  shows "map_of (labelled ls' labels) GetExclusiveKey =
      (if map_of (nodeLabels node) GetExclusiveKey = Some (GetExclusiveLabelValue info) then None
       else map_of (labelled ls labels) GetExclusiveKey)"
proof -
  define unmarked where "unmarked = fold labelsDelete
      [runtimeLabel info, totalLabel info, diskLabel info, memoryLabel info, commonLabel info] ls"
  have "map_of (labelled unmarked labels) GetExclusiveKey = map_of (labelled ls labels) GetExclusiveKey"
    using labelsOf_reserved(2) [of info] unfolding unmarked_def removed_labels by (simp add: labelsOf_def)
  moreover have "map_of (labelled ls' labels) GetExclusiveKey =
      map_of (labelled (if map_of (nodeLabels node) GetExclusiveKey = Some (GetExclusiveLabelValue info)
         then labelsDelete GetExclusiveKey unmarked else unmarked) labels) GetExclusiveKey"
    using assms reserved_neq unfolding removeLabels_def Let_def unmarked_def [symmetric] DecreaseDatasetNum_def
    by (auto split: option.splits if_splits)
  ultimately show ?thesis by simp
qed

text \<open>
  Removing a dataset from a node can take away another dataset's exclusive ownership: if the first attempt meets
  a conflict and the node has another owner when it is read again, the second patch still deletes the owner.
\<close>

theorem stale_owner_removed:
  assumes get: "\<And>h. kwGetNode w h n = Inr (if \<exists>p e. PatchedNode n p (Some e) \<in> set h then later else sooner)"
    and patch: "\<And>h p. kwPatchNode w h n p =
      (if \<exists>p e. PatchedNode n p (Some e) \<in> set h then None else Some (Conflict ''''))"
    and names: "nodeName sooner = n" "nodeName later = n"
    and nums: "map_of (nodeLabels sooner) GetDatasetNumLabelName = None"
      "map_of (nodeLabels later) GetDatasetNumLabelName = None"
    and own: "map_of (nodeLabels sooner) GetExclusiveKey = Some (GetExclusiveLabelValue info)"
    and other: "map_of (nodeLabels later) GetExclusiveKey = Some owner"
  shows "\<exists>h' patch. unlabelCacheNode w info sooner [] = (Ret None, h') \<and> PatchedNode n patch None \<in> set h' \<and>
    map_of (applyPatch patch (nodeLabels later)) GetExclusiveKey = None"
proof -
  obtain ls1 where ls1: "removeLabels info sooner [] = (None, ls1)"
    using nums(1) by (simp add: removeLabels_def DecreaseDatasetNum_def Let_def)
  obtain ls2 where ls2: "removeLabels info later ls1 = (None, ls2)"
    using nums(2) by (simp add: removeLabels_def DecreaseDatasetNum_def Let_def)
  have "map_of (labelled ls1 labels) GetExclusiveKey = None" for labels
    using removeLabels_exclusive [OF ls1] own by simp
  then have gone: "map_of (labelled ls2 (nodeLabels later)) GetExclusiveKey = None"
    using removeLabels_exclusive [OF ls2, of "nodeLabels later"] by simp
  have "wp (unlabelCacheNode w info sooner) (\<lambda>r h'. r = Ret None \<and> PatchedNode n (labelValuePair ls2) None \<in> set h') []"
    unfolding unlabelCacheNode_def RetryOnConflictS_def DefaultBackoff_Steps_def
    using get patch names ls1 ls2
    by (simp add: numeral_eq_Suc unlabelOnce_def ChangeNodeLabelWithPatchMode_def PatchLabels_def GetNode_def wp_rules)
  then show ?thesis
    using gone by (cases "unlabelCacheNode w info sooner []") (auto simp: wp_def labelled_def)
qed

definition nodeNamed :: "(string \<times> string) list \<Rightarrow> Node" where
  "nodeNamed labels = \<lparr>nodeName = ''node-1'', nodeLabels = labels\<rparr>"

definition quietWorld :: "(string \<times> string) list \<Rightarrow> world" where
  "quietWorld labels = downWorld
     \<lparr>kwGetNode := \<lambda>h n. Inr \<lparr>nodeName = n, nodeLabels = nodeState n labels h\<rparr>, kwPatchNode := \<lambda>_ _ _. None\<rparr>"

definition otherInfo :: RuntimeInfo where
  "otherInfo = exampleInfo\<lparr>riName := ''spark''\<rparr>"

lemma clashFree_example: "clashFree {exampleInfo, otherInfo}"
  by (simp add: clashFree_def labelsOf_def otherInfo_def exampleInfo_def runtimeLabel_def commonLabel_def
      memoryLabel_def diskLabel_def totalLabel_def
      GetRuntimeLabelName_def GetCommonLabelName_def GetLabelNameForMemory_def GetLabelNameForDisk_def
      GetLabelNameForTotal_def GetStorageLabelName_def GetNamespacedNameValueWithPrefix_def)

theorem update_mode_is_patch_mode_witness:
  "\<exists>labels patch a. [WroteNode (nodeNamed [(''a'', ''1'')]) None] = [] @ [WroteNode (nodeNamed labels) None] \<and>
    ChangeNodeLabelWithPatchMode (downWorld\<lparr>kwUpdateNode := \<lambda>_ _. None\<rparr>) (nodeNamed [(''b'', ''2'')])
      (labelsAdd ''a'' ''1'' (labelsDelete ''b'' [])) [] =
      (Ret (case a of None \<Rightarrow> Inr [''b'', ''a'']
            | Some e \<Rightarrow> Inl (Wrapped (''patch node labels failed, node name: '' @ nodeName (nodeNamed [(''b'', ''2'')])) e)),
       [] @ [PatchedNode (nodeName (nodeNamed [(''b'', ''2'')])) patch a]) \<and>
    map_of labels = map_of (applyPatch patch (nodeLabels (nodeNamed [(''b'', ''2'')])))"
  using update_mode_is_patch_mode [of "downWorld\<lparr>kwUpdateNode := \<lambda>_ _. None\<rparr>" "nodeNamed [(''b'', ''2'')]"
      "labelsAdd ''a'' ''1'' (labelsDelete ''b'' [])" "[]" "[''b'', ''a'']" "[WroteNode (nodeNamed [(''a'', ''1'')]) None]" "[]"]
  by (simp add: ChangeNodeLabelWithUpdateMode_def labelsAdd_def labelsDelete_def labelsOperator_def nodeNamed_def andThen_def
      call_def ret_def)

theorem placement_refines_set_witness:
  "\<exists>h'. forEach [(True, exampleInfo), (True, otherInfo), (False, exampleInfo)]
      (request (quietWorld []) (\<lambda>_. ''2GiB'') ''node-1'') [] = (Ret (), h') \<and>
    represents {exampleInfo, otherInfo}
      (fold placed [(True, exampleInfo), (True, otherInfo), (False, exampleInfo)] {}) (nodeState ''node-1'' [] h')"
  by (rule placement_refines_set)
    (simp_all add: servesNode_def quietWorld_def downWorld_def represents_def clashFree_example card_insert_if)

theorem placement_unconfirmed_witness:
  "\<exists>h' ls. labelCacheNode (downWorld\<lparr>kwGetNode := \<lambda>_ _. Inr (nodeNamed []), kwPatchNode := \<lambda>_ _ _. None\<rparr>)
      (\<lambda>_. ''2GiB'') exampleInfo (nodeNamed []) [] = (Ret None, h') \<and>
    PatchedNode (nodeName (nodeNamed [])) (labelValuePair ls) None \<in> set h' \<and>
    (\<forall>r. ReadNode (nodeName (nodeNamed [])) r \<in> set h' \<longrightarrow> r = Inr (nodeNamed []))"
  by (rule placement_unconfirmed) (simp_all add: nodeNamed_def)

definition takenWorld :: world where
  "takenWorld = downWorld
     \<lparr>kwGetNode := \<lambda>h n. Inr (if \<exists>p e. PatchedNode ''node-1'' p (Some e) \<in> set h
                               then nodeNamed [(GetExclusiveKey, ''default_spark'')]
                               else nodeNamed [(GetExclusiveKey, GetExclusiveLabelValue exampleInfo)]),
      kwPatchNode := \<lambda>h n p. if \<exists>p e. PatchedNode ''node-1'' p (Some e) \<in> set h then None else Some (Conflict '''')\<rparr>"

theorem stale_owner_removed_witness:
  "\<exists>h' patch. unlabelCacheNode takenWorld exampleInfo
      (nodeNamed [(GetExclusiveKey, GetExclusiveLabelValue exampleInfo)]) [] = (Ret None, h') \<and>
    PatchedNode ''node-1'' patch None \<in> set h' \<and>
    map_of (applyPatch patch (nodeLabels (nodeNamed [(GetExclusiveKey, ''default_spark'')]))) GetExclusiveKey = None"
  by (rule stale_owner_removed [where owner = "''default_spark''"])
    (simp_all add: takenWorld_def nodeNamed_def reserved_neq)

definition idleWorkers :: StatefulSet where
  "idleWorkers =
     \<lparr>stsName = ''demo-worker'', stsNamespace = ''default'', stsUID = ''s1'', stsSelector = ''app=alluxio'',
      stsReplicas = Some 0, stsNodeSelector = [], stsAffinity = None, stsStatusReplicas = 0, stsReadyReplicas = 0,
      stsAvailableReplicas = 0\<rparr>"

definition drainedWorld :: world where
  "drainedWorld = downWorld
     \<lparr>kwCluster := \<lambda>_. downCluster\<lparr>clGetStatefulSet := \<lambda>_ _ _. Inr idleWorkers\<rparr>,
      kwListPods := \<lambda>_ _ _. Inr [], kwListNodes := \<lambda>_ _ _. Inr [nodeNamed []],
      kwGetNode := \<lambda>h n. Inr \<lparr>nodeName = n, nodeLabels = [(runtimeLabel exampleInfo, ''true'')]\<rparr>,
      kwPatchNode := \<lambda>_ _ _. None\<rparr>"

theorem sync_touches_differences_witness:
  "\<exists>r h' h2 es. SyncScheduleInfoToCacheNodes drainedWorld (\<lambda>_. ''2GiB'') exampleInfo [] = (r, h') \<and> h' = h2 @ es \<and>
    (\<forall>n node. WroteNode node n \<notin> set es) \<and>
    (\<forall>n p r. PatchedNode n p r \<in> set es \<longrightarrow> (n \<in> set []) \<noteq> (n \<in> set [''node-1'']))"
proof -
  obtain h1 where h1: "getDesiredNodesWithScheduleInfo drainedWorld exampleInfo [] = (Ret (Inr []), h1)"
    by (simp add: getDesiredNodesWithScheduleInfo_def viaOp_def GetStatefulSet_def GetPodsForStatefulSet_def call_def
        andThen_def ret_def drainedWorld_def downWorld_def RemoveDuplicateStr_def)
  obtain h2 where h2: "getActualNodesWithScheduleInfo drainedWorld exampleInfo h1 = (Ret (Inr [''node-1'']), h2)"
    by (simp add: getActualNodesWithScheduleInfo_def call_def andThen_def ret_def drainedWorld_def downWorld_def
        RemoveDuplicateStr_def nodeNamed_def)
  obtain r h' where run: "SyncScheduleInfoToCacheNodes drainedWorld (\<lambda>_. ''2GiB'') exampleInfo [] = (r, h')"
    by fastforce
  have "namesNode drainedWorld" by (auto simp: namesNode_def drainedWorld_def)
  from sync_touches_differences [OF this h1 h2 run] run show ?thesis by blast
qed

end
