(* ===== verification/Dataset_Controller.thy ===== *)
theory Dataset_Controller
  imports Dataset_Volume
begin

text \<open>
  The controller of the \<open>Dataset\<close> resource (\<open>pkg/controllers/v1alpha1/dataset\<close>), the on-demand start of runtime
  controllers (\<open>pkg/controllers/deploy\<close>), and what both rely on: reference datasets (\<open>pkg/ddc/base/dataset.go\<close>,
  \<open>pkg/utils/dataset_reference.go\<close>, \<open>dataset_runtime.go\<close>) and the status of mounts (\<open>pkg/utils/dataset.go\<close>).
  \<open>dnsErrors\<close> is \<open>validation.IsDNS1035Label\<close>: the complaints about a name.
\<close>

section \<open>dataset.go of ddc/base\<close>

abbreviation RefSchema :: string where
  "RefSchema \<equiv> ''dataset://''"

definition IsFluidRefSchema :: "string \<Rightarrow> bool" where
  "IsFluidRefSchema s = HasPrefix s RefSchema"

definition GetDatasetRefName :: "string \<Rightarrow> string \<Rightarrow> string" where
  "GetDatasetRefName name namespace = namespace @ ''/'' @ name"

text \<open>Pairs of namespace and name.\<close>

definition physicalDataset :: "DatasetMount \<Rightarrow> (string \<times> string) option" where
  "physicalDataset mount =
     (if IsFluidRefSchema (dmMountPoint mount) then
        (case Split CHR ''/'' (TrimPrefix (dmMountPoint mount) RefSchema) of
           namespace # name # _ \<Rightarrow> Some (namespace, name)
         | _ \<Rightarrow> None)
      else None)"

definition GetPhysicalDatasetFromMounts :: "DatasetMount list \<Rightarrow> (string \<times> string) list" where
  "GetPhysicalDatasetFromMounts mounts = List.map_filter physicalDataset mounts"

text \<open>\<open>strings.SplitAfterN(s, "/", 3)\<close> has three parts if there are two slashes; the third is the rest.\<close>

definition GetPhysicalDatasetSubPath :: "Dataset \<Rightarrow> string list" where
  "GetPhysicalDatasetSubPath virtualDataset =
     List.map_filter (\<lambda>mount.
       if IsFluidRefSchema (dmMountPoint mount) then
         (case Split CHR ''/'' (TrimPrefix (dmMountPoint mount) RefSchema) of
            _ # _ # x # xs \<Rightarrow> Some (Join CHR ''/'' (x # xs))
          | _ \<Rightarrow> None)
       else None) (dsMounts (dSpec virtualDataset))"

definition CheckReferenceDataset :: "Dataset \<Rightarrow> bool \<times> goerr option" where
  "CheckReferenceDataset dataset =
     (let mounts = length (GetPhysicalDatasetFromMounts (dsMounts (dSpec dataset)));
          totalMounts = length (dsMounts (dSpec dataset)) in
      if mounts = 1 then
        if totalMounts = mounts then (True, None)
        else (False, Some (Err (''the dataset is not validated, since it has 1 dataset mounts but also contains '' @
                                ''other types of mounts'')))
      else if mounts > 1 then
        (False, Some (Err (''the dataset is not validated, since it has '' @ Itoa (int mounts) @
                           '' dataset mounts which only expects 1'')))
      else (False, None))"

definition FilterOwnerByKind :: "OwnerReference list \<Rightarrow> string \<Rightarrow> OwnerReference list" where
  "FilterOwnerByKind ownerReferences ownerKind = filter (\<lambda>owner. orKind owner = ownerKind) ownerReferences"

definition GetOwnerDatasetUIDFromRuntimeMeta :: "ObjectMeta \<Rightarrow> goerr + string" where
  "GetOwnerDatasetUIDFromRuntimeMeta metaObj =
     (case FilterOwnerByKind (omOwnerReferences metaObj) ''Dataset'' of
        [] \<Rightarrow> Inr ''''
      | [owner] \<Rightarrow>
          if orName owner \<noteq> omName metaObj
          then Inl (Err (''owner Dataset of the runtime in metadata.ownerReferences has different name with '' @
                         ''runtime, expected to be same''))
          else Inr (orUID owner)
      | _ \<Rightarrow> Inl (Err ''found multiple Dataset owners in metadata.ownerReferences, something went wrong''))"

section \<open>dataset_reference.go and dataset_runtime.go\<close>

text \<open>
  The variable \<open>dataset\<close> inside the loop hides the parameter, and it is nil if the dataset could not be read: the
  error path dereferences nil.
\<close>

fun existingRefs :: "world \<Rightarrow> string list \<Rightarrow> string list \<Rightarrow> (goerr + string list) kgo" where
  "existingRefs w [] acc = ret (Inr acc)"
| "existingRefs w (datasetRefName # refs) acc =
     (case Split CHR ''/'' datasetRefName of
        namespace # name # _ \<Rightarrow>
          andThen (viaOp w (\<lambda>cl. GetDataset cl name namespace)) (\<lambda>r.
          case r of
            Inl e \<Rightarrow>
              if IsNotFound e then existingRefs w refs acc
              else panic ''invalid memory address or nil pointer dereference''
          | Inr _ \<Rightarrow> existingRefs w refs (acc @ [datasetRefName]))
      | _ \<Rightarrow> existingRefs w refs acc)"

definition RemoveNotFoundDatasetRef :: "world \<Rightarrow> Dataset \<Rightarrow> (goerr + string list) kgo" where
  "RemoveNotFoundDatasetRef w dataset = existingRefs w (dstDatasetRef (dStatus dataset)) []"

definition ownerOf :: "Dataset \<Rightarrow> OwnerReference" where
  "ownerOf dataset =
     \<lparr>orAPIVersion = dAPIVersion dataset, orKind = dKind dataset, orName = omName (dMeta dataset),
      orUID = omUID (dMeta dataset), orController = Some True\<rparr>"

definition createRuntimeOnce :: "world \<Rightarrow> Dataset \<Rightarrow> (goerr option) kgo" where
  "createRuntimeOnce w dataset =
     (let name = omName (dMeta dataset); namespace = omNamespace (dMeta dataset) in
      andThen (getRuntimeObject w ''ThinRuntime'' name namespace) (\<lambda>r.
      case r of
        Inr runtime \<Rightarrow>
          let runtimeToUpdate = runtime\<lparr>roMeta := (roMeta runtime)\<lparr>omOwnerReferences := [ownerOf dataset]\<rparr>\<rparr> in
          if runtimeToUpdate \<noteq> runtime then
            andThen (call (\<lambda>h. kwUpdateRuntime w h runtimeToUpdate) (WroteRuntime runtimeToUpdate)) (\<lambda>r.
            ret (case r of Inl e \<Rightarrow> Some e | Inr _ \<Rightarrow> None))
          else ret None
      | Inl e \<Rightarrow>
          if IsNotFound e then
            call (\<lambda>h. kwCreateRuntime w h name namespace)
              (CreatedRuntime name namespace [ownerOf dataset]
                 [(''fluid.io/dataset-id'', GetDatasetId namespace name (omUID (dMeta dataset)))])
          else ret (Some e)))"

definition CreateRuntimeForReferenceDatasetIfNotExist :: "world \<Rightarrow> Dataset \<Rightarrow> (goerr option) kgo" where
  "CreateRuntimeForReferenceDatasetIfNotExist w dataset = RetryOnConflict (createRuntimeOnce w dataset)"

section \<open>UpdateMountStatus of dataset.go\<close>

definition mountStatusOnce :: "world \<Rightarrow> string \<Rightarrow> string \<Rightarrow> string \<Rightarrow> (goerr option) kgo" where
  "mountStatusOnce w name namespace phase =
     andThen (viaOp w (\<lambda>cl. GetDataset cl name namespace)) (\<lambda>r.
     case r of
       Inl e \<Rightarrow> ret (Some e)
     | Inr dataset \<Rightarrow>
         if phase \<noteq> ''Updating'' \<and> phase \<noteq> ''Bound''
         then ret (Some (Err (''cannot change dataset phase to '' @ phase)))
         else
           andThen (viaOp w now) (\<lambda>t.
           let cond = (if phase = ''Updating''
                       then NewDatasetCondition ''Updating'' ''DatasetUpdating'' ''The ddc runtime is updating.''
                              ''True'' t
                       else NewDatasetCondition ''Ready'' ''DatasetReady'' ''The ddc runtime has updated completely.''
                              ''False'' t);
               datasetToUpdate = setStatus (\<lambda>s. s\<lparr>dstMounts := (if phase = ''Bound'' then dsMounts (dSpec dataset)
                                                                else dstMounts s),
                                               dstPhase := phase,
                                               dstConditions := UpdateDatasetCondition (dstConditions s) cond\<rparr>)
                                   dataset in
           if dStatus dataset \<noteq> dStatus datasetToUpdate
           then viaOp w (\<lambda>cl. updateDatasetStatus cl datasetToUpdate)
           else ret None))"

definition UpdateMountStatus :: "world \<Rightarrow> string \<Rightarrow> string \<Rightarrow> string \<Rightarrow> (goerr option) kgo" where
  "UpdateMountStatus w name namespace phase = RetryOnConflict (mountStatusOnce w name namespace phase)"

section \<open>runtime_controllers.go of deploy\<close>

text \<open>A controller and the kind of runtime it serves.\<close>

definition defaultPrecheckFuncs :: "(string \<times> string) list" where
  "defaultPrecheckFuncs =
     [(''alluxioruntime-controller'', ''AlluxioRuntime''), (''jindoruntime-controller'', ''JindoRuntime''),
      (''juicefsruntime-controller'', ''JuiceFSRuntime''), (''goosefsruntime-controller'', ''GooseFSRuntime''),
      (''thinruntime-controller'', ''ThinRuntime''), (''efcruntime-controller'', ''EFCRuntime''),
      (''vineyardruntime-controller'', ''VineyardRuntime''), (''cacheruntime-controller'', ''CacheRuntime'')]"

definition TrimSuffix :: "string \<Rightarrow> string \<Rightarrow> string" where
  "TrimSuffix s suffix = (if HasSuffix s suffix then take (length s - length suffix) s else s)"

definition filterOutDisabledRuntimes ::
  "(string \<Rightarrow> bool) \<Rightarrow> (string \<times> string) list \<Rightarrow> (string \<times> string) list" where
  "filterOutDisabledRuntimes resourceEnabled checks =
     filter (\<lambda>(controllerName, _). resourceEnabled (TrimSuffix controllerName ''-controller'')) checks"

text \<open>\<open>Precheck\<close> of the engines: \<open>utils.CheckObject\<close> on the runtime of that kind.\<close>

definition CheckObject :: "world \<Rightarrow> string \<Rightarrow> string \<Rightarrow> string \<Rightarrow> (bool \<times> goerr option) kgo" where
  "CheckObject w kind name namespace =
     andThen (getRuntimeObject w kind name namespace) (\<lambda>r.
     case r of
       Inl e \<Rightarrow> ret (False, if IsNoMatchError e \<or> IsNotFound e then None else Some e)
     | Inr _ \<Rightarrow> ret (True, None))"

text \<open>
  The number that \<open>strconv.ParseInt\<close> into 32 bits returns beside its error: the nearest bound of the range on overflow, which is
  found before a wrong character that follows, and 0 on a syntax error.
\<close>

fun parseUint32 :: "int \<Rightarrow> string \<Rightarrow> int option" where
  "parseUint32 n [] = Some n"
| "parseUint32 n (c # cs) =
     (let d = of_char c - 48; n1 = n * 10 + d in
      if d < 0 \<or> 9 < d then None else if 2 ^ 32 \<le> n1 then Some (2 ^ 32 - 1) else parseUint32 n1 cs)"

definition parseReplicas :: "string \<Rightarrow> int" where
  "parseReplicas s =
     (let neg = (s \<noteq> [] \<and> hd s = CHR ''-'');
          ds = (if s \<noteq> [] \<and> (hd s = CHR ''-'' \<or> hd s = CHR ''+'') then tl s else s) in
      if ds = [] then 0
      else case parseUint32 0 ds of
             None \<Rightarrow> 0
           | Some u \<Rightarrow> if \<not> neg \<and> 2 ^ 31 \<le> u then 2 ^ 31 - 1
                       else if neg \<and> 2 ^ 31 < u then - (2 ^ 31)
                       else if neg then - u else u)"

definition scaleoutOnce :: "world \<Rightarrow> string \<Rightarrow> string \<Rightarrow> bool \<Rightarrow> (goerr option \<times> bool) kgo" where
  "scaleoutOnce w name namespace scale =
     andThen (call (\<lambda>h. kwGetDeployment w h name namespace) (ReadDeployment name namespace)) (\<lambda>r.
     case r of
       Inl e \<Rightarrow> ret (Some e, scale)
     | Inr deploy \<Rightarrow>
         (case dpReplicas deploy of
            None \<Rightarrow> panic ''invalid memory address or nil pointer dereference''
          | Some current \<Rightarrow>
              if current \<noteq> 0 then ret (None, scale)
              else
                let wanted = (case map_of (dpAnnotations deploy) ''controller.runtime.fluid.io/replicas'' of
                                None \<Rightarrow> 0 | Some s \<Rightarrow> parseReplicas s);
                    deployToUpdate = deploy\<lparr>dpReplicas := Some (if wanted \<le> 1 then 1 else wanted)\<rparr> in
                andThen (call (\<lambda>h. kwUpdateDeployment w h deployToUpdate) (WroteDeployment deployToUpdate)) (\<lambda>err.
                ret (err, True))))"

definition scaleoutDeploymentIfNeeded :: "world \<Rightarrow> string \<Rightarrow> string \<Rightarrow> (bool \<times> goerr option) kgo" where
  "scaleoutDeploymentIfNeeded w name namespace =
     andThen (RetryOnConflictS (scaleoutOnce w name namespace) False) (\<lambda>(err, scale). ret (scale, err))"

text \<open>The checks are enumerated in the order of the list; Go enumerates its map in any order.\<close>

fun ScaleoutRuntimeControllerOnDemand ::
  "world \<Rightarrow> (string \<times> string) list \<Rightarrow> string \<Rightarrow> string \<Rightarrow> (string \<times> bool \<times> goerr option) kgo" where
  "ScaleoutRuntimeControllerOnDemand w [] name namespace =
     ret ('''', False, Some (Err (''no matched controller for dataset '' @ namespace @ ''/'' @ name)))"
| "ScaleoutRuntimeControllerOnDemand w ((myControllerName, kind) # checks) name namespace =
     andThen (CheckObject w kind name namespace) (\<lambda>(match, err).
     if err \<noteq> None then ret ('''', False, err)
     else if match then
       (case kwLookupEnv w ''MY_POD_NAMESPACE'' of
          None \<Rightarrow> ret ('''', False, Some (Wrapped ''get namespace from env failed, env key:MY_POD_NAMESPACE''
                                       (Err ''can not find the env value, key:MY_POD_NAMESPACE'')))
        | Some ns \<Rightarrow>
            andThen (scaleoutDeploymentIfNeeded w myControllerName (if ns = '''' then ''fluid-system'' else ns))
              (\<lambda>(scaleout, err).
            if err \<noteq> None then ret ('''', scaleout, err) else ret (myControllerName, scaleout, None)))
     else ScaleoutRuntimeControllerOnDemand w checks name namespace)"

section \<open>dataset_controller.go\<close>

abbreviation datasetFinalizer :: string where
  "datasetFinalizer \<equiv> ''fluid-dataset-controller-finalizer''"

definition recordDataset :: "Dataset \<Rightarrow> string \<Rightarrow> string \<Rightarrow> unit kgo" where
  "recordDataset dataset reason message =
     emit (Op (Recorded (omNamespace (dMeta dataset)) (omName (dMeta dataset)) ''Warning'' reason message))"

definition setFinalizers :: "(string list \<Rightarrow> string list) \<Rightarrow> Dataset \<Rightarrow> Dataset" where
  "setFinalizers f dataset =
     dataset\<lparr>dMeta := (dMeta dataset)\<lparr>omFinalizers := f (omFinalizers (dMeta dataset))\<rparr>\<rparr>"

definition updateDataset :: "world \<Rightarrow> Dataset \<Rightarrow> (goerr + int) kgo" where
  "updateDataset w dataset = call (\<lambda>h. kwUpdateDataset w h dataset) (WroteDataset dataset)"

definition addFinalizerAndRequeue :: "world \<Rightarrow> Dataset \<Rightarrow> reconcileResult kgo" where
  "addFinalizerAndRequeue w dataset =
     andThen (updateDataset w (setFinalizers (\<lambda>fs. fs @ [datasetFinalizer]) dataset)) (\<lambda>r.
     case r of
       Inl e \<Rightarrow> ret (RequeueIfError (Some e))
     | Inr generation \<Rightarrow>
         ret (RequeueImmediatelyUnlessGenerationChanged (omGeneration (dMeta dataset)) generation))"

definition removeFinalizer :: "world \<Rightarrow> Dataset \<Rightarrow> reconcileResult kgo" where
  "removeFinalizer w dataset =
     (if omDeletionTimestamp (dMeta dataset) \<noteq> None then
        andThen (updateDataset w (setFinalizers (\<lambda>fs. RemoveString fs datasetFinalizer) dataset)) (\<lambda>r.
        case r of
          Inl e \<Rightarrow> ret (\<lparr>requeue = False, requeueAfter = 0\<rparr>, Some e)
        | Inr _ \<Rightarrow> ret NoRequeue)
      else ret NoRequeue)"

definition reconcileDatasetDeletion :: "world \<Rightarrow> string \<Rightarrow> string \<Rightarrow> Dataset \<Rightarrow> reconcileResult kgo" where
  "reconcileDatasetDeletion w name namespace dataset =
     andThen (ShouldDeleteDataset w name namespace) (\<lambda>err.
     case err of
       Some e \<Rightarrow>
         andThen (recordDataset dataset ''ErrorDeleteDataset''
                    (''Failed to delete dataset because err: '' @ errText e)) (\<lambda>_.
         ret (RequeueAfterInterval (10 * second)))
     | None \<Rightarrow>
         if dstDatasetRef (dStatus dataset) = [] then removeFinalizer w dataset
         else
           andThen (RemoveNotFoundDatasetRef w dataset) (\<lambda>r.
           case r of
             Inl e \<Rightarrow> ret (RequeueAfterInterval (10 * second))
           | Inr datasetRefToUpdate \<Rightarrow>
               if datasetRefToUpdate \<noteq> dstDatasetRef (dStatus dataset) then
                 andThen (viaOp w (\<lambda>cl. updateDatasetStatus cl
                            (setStatus (\<lambda>s. s\<lparr>dstDatasetRef := datasetRefToUpdate\<rparr>) dataset))) (\<lambda>err.
                 if err \<noteq> None then ret (RequeueAfterInterval (10 * second))
                 else ret (RequeueAfterInterval second))
               else if datasetRefToUpdate \<noteq> [] then
                 andThen (recordDataset dataset ''ErrorDeleteDataset''
                            (''Failed to delete dataset because there are datasets '' @
                             Join CHR '' '' (dstDatasetRef (dStatus dataset)) @ '' mounted to it'')) (\<lambda>_.
                 ret (RequeueAfterInterval (10 * second)))
               else removeFinalizer w dataset))"

definition markNotBound :: "world \<Rightarrow> int \<Rightarrow> bool \<Rightarrow> Dataset \<Rightarrow> reconcileResult kgo" where
  "markNotBound w resyncPeriod needRequeue dataset =
     andThen (if dstPhase (dStatus dataset) = ''''
              then viaOp w (\<lambda>cl. updateDatasetStatus cl (setStatus (\<lambda>s. s\<lparr>dstPhase := ''NotBound''\<rparr>) dataset))
              else ret None) (\<lambda>err.
     if err \<noteq> None then ret (RequeueIfError err)
     else if needRequeue then ret (RequeueAfterInterval resyncPeriod)
     else ret NoRequeue)"

definition reconcileDataset ::
  "world \<Rightarrow> (string \<Rightarrow> string list) \<Rightarrow> int \<Rightarrow> string \<Rightarrow> string \<Rightarrow> Dataset \<Rightarrow> bool \<Rightarrow> reconcileResult kgo" where
  "reconcileDataset w dnsErrors resyncPeriod name namespace dataset needRequeue =
     (let dsName = omName (dMeta dataset) in
      if dsName \<noteq> '''' \<and> dnsErrors dsName \<noteq> [] then
        (let err = Err (''metadata.name: Invalid value: '' @ dsName @ '': '' @ Join CHR '','' (dnsErrors dsName)) in
         andThen (recordDataset dataset ''ErrorCreateDataset''
                    (''Failed to create dataset because err: '' @ errText err)) (\<lambda>_.
         ret (RequeueIfError (Some err))))
      else if HasDeletionTimestamp (dMeta dataset) then reconcileDatasetDeletion w name namespace dataset
      else if \<not> ContainsString (omFinalizers (dMeta dataset)) datasetFinalizer then addFinalizerAndRequeue w dataset
      else
        (case CheckReferenceDataset dataset of
           (_, Some err) \<Rightarrow>
             andThen (recordDataset dataset ''ErrorCreateDataset''
                        (''Failed to validate dataset because err: '' @ errText err)) (\<lambda>_.
             ret (RequeueIfError (Some err)))
         | (checkReferenceDataset, None) \<Rightarrow>
             andThen (if checkReferenceDataset then CreateRuntimeForReferenceDatasetIfNotExist w dataset
                      else ret None) (\<lambda>err.
             if err \<noteq> None then ret (RequeueIfError err)
             else markNotBound w resyncPeriod needRequeue dataset)))"

definition ReconcileDatasetRequest ::
  "world \<Rightarrow> (string \<times> string) list \<Rightarrow> (string \<Rightarrow> string list) \<Rightarrow> int \<Rightarrow> string \<Rightarrow> string \<Rightarrow> reconcileResult kgo" where
  "ReconcileDatasetRequest w checks dnsErrors resyncPeriod name namespace =
     andThen (ScaleoutRuntimeControllerOnDemand w checks name namespace) (\<lambda>(_, _, err).
     andThen (viaOp w (\<lambda>cl. GetDataset cl name namespace)) (\<lambda>r.
     case r of
       Inl e \<Rightarrow> if IsNotFound e then ret NoRequeue else ret (RequeueIfError (Some e))
     | Inr dataset \<Rightarrow> reconcileDataset w dnsErrors resyncPeriod name namespace dataset (err \<noteq> None)))"

section \<open>Reference datasets\<close>

text \<open>
  The name of a referring dataset and the mount point of a reference are read back as they were written: a mount of
  \<open>dataset://namespace/name/path\<close> denotes the dataset of that namespace and name, and its sub path is \<open>path\<close>.
\<close>

theorem reference_roundtrip:
  assumes "CHR ''/'' \<notin> set namespace" and "CHR ''/'' \<notin> set name"
    and "dsMounts (dSpec dataset) = [mount]"
    and "dmMountPoint mount = RefSchema @ GetDatasetRefName name namespace @ ''/'' @ subPath"
  shows "GetPhysicalDatasetFromMounts (dsMounts (dSpec dataset)) = [(namespace, name)] \<and>
    GetPhysicalDatasetSubPath dataset = [subPath]"
proof -
  have "IsFluidRefSchema (dmMountPoint mount)"
    by (simp add: assms(4) IsFluidRefSchema_def HasPrefix_iff)
  moreover have "Split CHR ''/'' (TrimPrefix (dmMountPoint mount) RefSchema) =
      namespace # name # Split CHR ''/'' subPath"
    using assms(1,2) by (simp add: assms(4) TrimPrefix_def HasPrefix_iff GetDatasetRefName_def Split_append_sep)
  ultimately show ?thesis
    unfolding GetPhysicalDatasetFromMounts_def GetPhysicalDatasetSubPath_def assms(3)
    using Join_Split [of "CHR ''/''" subPath]
    by (auto simp: List.map_filter_def physicalDataset_def simp del: Join_Split split: list.splits)
qed

lemma map_filter_bounds:
  "length (List.map_filter f xs) \<le> length xs"
  "length (List.map_filter f xs) = length xs \<longleftrightarrow> list_all (\<lambda>x. f x \<noteq> None) xs"
  "List.map_filter f xs = [] \<longleftrightarrow> list_all (\<lambda>x. f x = None) xs"
proof -
  show "length (List.map_filter f xs) \<le> length xs" for xs
    by (induction xs) (simp_all add: map_filter_simps split: option.splits)
  then show "length (List.map_filter f xs) = length xs \<longleftrightarrow> list_all (\<lambda>x. f x \<noteq> None) xs"
    by (induction xs) (auto simp: map_filter_simps dest: le_imp_less_Suc [THEN less_imp_neq] split: option.splits)
  show "List.map_filter f xs = [] \<longleftrightarrow> list_all (\<lambda>x. f x = None) xs"
    by (induction xs) (auto simp: map_filter_simps split: option.splits)
qed

text \<open>
  The check of reference datasets is exact: it says yes if and only if the dataset has one single mount and that
  mount denotes a dataset, it fails if and only if a mount denotes a dataset and the dataset does not have exactly one
  mount, and it says no without an error if and only if no mount denotes a dataset.
\<close>

theorem reference_check_exact:
  "(CheckReferenceDataset dataset = (True, None) \<longleftrightarrow>
     (\<exists>m. dsMounts (dSpec dataset) = [m] \<and> physicalDataset m \<noteq> None)) \<and>
   (snd (CheckReferenceDataset dataset) \<noteq> None \<longleftrightarrow>
     list_ex (\<lambda>m. physicalDataset m \<noteq> None) (dsMounts (dSpec dataset)) \<and> length (dsMounts (dSpec dataset)) \<noteq> 1) \<and>
   (CheckReferenceDataset dataset = (False, None) \<longleftrightarrow>
     list_all (\<lambda>m. physicalDataset m = None) (dsMounts (dSpec dataset)))"
proof -
  let ?ms = "dsMounts (dSpec dataset)"
  let ?n = "length (GetPhysicalDatasetFromMounts ?ms)"
  have none: "?n = 0 \<longleftrightarrow> list_all (\<lambda>m. physicalDataset m = None) ?ms"
    using map_filter_bounds(3) [of physicalDataset ?ms] by (simp add: GetPhysicalDatasetFromMounts_def)
  have all: "?n = length ?ms \<longleftrightarrow> list_all (\<lambda>m. physicalDataset m \<noteq> None) ?ms"
    using map_filter_bounds(2) [of physicalDataset ?ms] by (simp add: GetPhysicalDatasetFromMounts_def)
  have le: "?n \<le> length ?ms"
    using map_filter_bounds(1) [of physicalDataset ?ms] by (simp add: GetPhysicalDatasetFromMounts_def)
  have one: "?n = 1 \<and> length ?ms = ?n \<longleftrightarrow> (\<exists>m. ?ms = [m] \<and> physicalDataset m \<noteq> None)"
    using all by (cases ?ms; cases "tl ?ms") auto
  have some: "?n \<noteq> 0 \<longleftrightarrow> list_ex (\<lambda>m. physicalDataset m \<noteq> None) ?ms"
    using none by (auto simp: list_all_iff list_ex_iff)
  define n where "n = ?n"
  have check: "CheckReferenceDataset dataset = (True, None) \<longleftrightarrow> n = 1 \<and> length ?ms = n"
    "snd (CheckReferenceDataset dataset) \<noteq> None \<longleftrightarrow> n \<noteq> 0 \<and> (n = 1 \<longrightarrow> length ?ms \<noteq> n)"
    "CheckReferenceDataset dataset = (False, None) \<longleftrightarrow> n = 0"
    unfolding CheckReferenceDataset_def Let_def n_def [symmetric] by (auto split: if_splits)
  have "n \<noteq> 0 \<and> (n = 1 \<longrightarrow> length ?ms \<noteq> n) \<longleftrightarrow> n \<noteq> 0 \<and> length ?ms \<noteq> 1"
    using le unfolding n_def [symmetric] by auto
  then show ?thesis
    using none one some unfolding check n_def [symmetric] by blast
qed

section \<open>Deletion\<close>

text \<open>The run has seen that no unfinished pod of the namespace mounts the claim, or that there is no such claim.\<close>

definition claimUnmounted :: "string \<Rightarrow> string \<Rightarrow> kevent list \<Rightarrow> bool" where
  "claimUnmounted name namespace h \<longleftrightarrow>
     (\<exists>e. ReadClaim name namespace (Inl e) \<in> set h \<and> IsNotFound e) \<or>
     (\<exists>pvc. ReadClaim name namespace (Inr pvc) \<in> set h \<and> \<not> annotated GetExpectedFluidAnnotations (pvcMeta pvc)) \<or>
     (\<exists>pods. ListedPods namespace '''' (Inr pods) \<in> set h \<and>
        (\<forall>pod\<in>set pods. name \<in> set (GetPVCNamesFromPod pod) \<longrightarrow> IsCompletePod pod))"

lemma claimUnmounted_append: "claimUnmounted name namespace es \<Longrightarrow> claimUnmounted name namespace (es @ es')"
  by (auto simp: claimUnmounted_def)

lemma mountPods_set: "pod \<in> set (mountPods name pods) \<longleftrightarrow> pod \<in> set pods \<and> name \<in> set (GetPVCNamesFromPod pod)"
  by (auto simp: mountPods_def GetPVCsFromPod_def GetPVCNamesFromPod_def List.map_filter_def image_iff) force+

text \<open>An event that is not a write of a dataset.\<close>

definition quietDataset :: "kevent \<Rightarrow> bool" where
  "quietDataset e \<longleftrightarrow> (\<forall>d a. e \<noteq> WroteDataset d a)"

lemma wp_ShouldDeleteDataset:
  "wp (ShouldDeleteDataset w name namespace)
     (\<lambda>r h'. \<exists>es. h' = h @ es \<and> list_all quietDataset es \<and>
        (r = Ret None \<longrightarrow> claimUnmounted name namespace es)) h"
  unfolding ShouldDeleteDataset_def IsPersistentVolumeClaimExist_def GetPvcMountPods_def read_defs
  by (auto simp: wp_rules quietDataset_def claimUnmounted_def mountPods_set find_None_set split: sum.splits option.splits)

lemma quiet_refs: "emits quietDataset (existingRefs w refs acc)"
  by (induction w refs acc rule: existingRefs.induct)
     (auto simp: GetDataset_def quietDataset_def intro!: emits_rules split: list.splits)

text \<open>Every write of the dataset in \<open>es\<close> only takes the finalizer away.\<close>

definition onlyReleased :: "Dataset \<Rightarrow> kevent list \<Rightarrow> bool" where
  "onlyReleased dataset es \<longleftrightarrow>
     (\<forall>d a. WroteDataset d a \<in> set es \<longrightarrow> d = setFinalizers (\<lambda>fs. RemoveString fs datasetFinalizer) dataset)"

lemma quiet_released: "list_all quietDataset es \<Longrightarrow> onlyReleased dataset es"
  by (auto simp: onlyReleased_def quietDataset_def list_all_iff)

text \<open>What the deletion may do between two histories.\<close>

definition releasedSafely :: "string \<Rightarrow> string \<Rightarrow> Dataset \<Rightarrow> kevent list \<Rightarrow> kevent list \<Rightarrow> bool" where
  "releasedSafely name namespace dataset h h' \<longleftrightarrow>
     (\<exists>es. h' = h @ es \<and> (list_all quietDataset es \<or>
        claimUnmounted name namespace es \<and> dstDatasetRef (dStatus dataset) = [] \<and> onlyReleased dataset es))"

lemma releasedSafely_quiet:
  assumes "emits quietDataset m"
  shows "wp m (\<lambda>_ h'. releasedSafely name namespace dataset h h') h"
  using wp_emits [OF assms, of h] by (rule wp_mono) (auto simp: releasedSafely_def)

lemma wp_removeFinalizer:
  assumes "list_all quietDataset es" "claimUnmounted name namespace es" "dstDatasetRef (dStatus dataset) = []"
  shows "wp (removeFinalizer w dataset) (\<lambda>_ h'. releasedSafely name namespace dataset h h') (h @ es)"
  unfolding removeFinalizer_def updateDataset_def
  using assms
  by (auto simp: wp_rules releasedSafely_def NoRequeue_def claimUnmounted_append split: sum.splits)
     (auto simp: onlyReleased_def quietDataset_def list_all_iff)

lemma wp_deletion:
  "wp (reconcileDatasetDeletion w name namespace dataset)
     (\<lambda>_ h'. releasedSafely name namespace dataset h h') h"
proof -
  have rest: "wp m (\<lambda>_ h'. releasedSafely name namespace dataset h h') (h @ es)"
    if "emits quietDataset m" "list_all quietDataset es" for m :: "reconcileResult kgo" and es
    using wp_emits [OF that(1), of "h @ es"] by (rule wp_mono) (use that(2) in \<open>auto simp: releasedSafely_def\<close>)
  have quiet: "releasedSafely name namespace dataset h (h @ es)" if "list_all quietDataset es" for es
    using that by (simp add: releasedSafely_def)
  show ?thesis
    unfolding reconcileDatasetDeletion_def wp_andThen [of "ShouldDeleteDataset w name namespace"]
    by (rule wp_mono [OF wp_ShouldDeleteDataset], elim exE conjE, hypsubst, cases "dstDatasetRef (dStatus dataset) = []")
       (auto simp: recordDataset_def RemoveNotFoundDatasetRef_def updateDatasetStatus_def quietDataset_def RequeueAfterInterval_def
          split: out.splits option.splits
          simp: wp_removeFinalizer intro!: quiet rest emits_rules quiet_refs)
qed

text \<open>
  C7. While a dataset is being deleted, the controller writes it only to take its own finalizer away, and only if the
  dataset is not recorded as mounted by another dataset and the same run has seen that no unfinished pod of the
  namespace mounts its claim, or that there is no claim of Fluid of its name.
\<close>

theorem finalizer_removed_safely:
  assumes "reconcileDataset w dnsErrors resyncPeriod name namespace dataset needRequeue h = (r, h')"
    and "HasDeletionTimestamp (dMeta dataset)" and "WroteDataset d a \<in> set (drop (length h) h')"
  shows "d = setFinalizers (\<lambda>fs. RemoveString fs datasetFinalizer) dataset \<and>
    dstDatasetRef (dStatus dataset) = [] \<and> claimUnmounted name namespace (drop (length h) h')"
proof -
  have "wp (reconcileDataset w dnsErrors resyncPeriod name namespace dataset needRequeue)
      (\<lambda>_ h'. releasedSafely name namespace dataset h h') h"
    unfolding reconcileDataset_def Let_def
    using assms(2)
    by (auto simp: wp_rules recordDataset_def RequeueIfError_def releasedSafely_def quietDataset_def
        intro!: wp_mono [OF wp_deletion])
  then obtain es where "h' = h @ es" "list_all quietDataset es \<or>
      claimUnmounted name namespace es \<and> dstDatasetRef (dStatus dataset) = [] \<and> onlyReleased dataset es"
    using assms(1) by (auto simp: wp_def releasedSafely_def)
  with assms(3) show ?thesis by (auto simp: onlyReleased_def quietDataset_def list_all_iff)
qed

section \<open>Creation\<close>

text \<open>What a write for a live dataset may do.\<close>

definition phaseGuarded :: "Dataset \<Rightarrow> kevent \<Rightarrow> bool" where
  "phaseGuarded dataset e \<longleftrightarrow>
     (case e of
        Op (UpdatedDatasetStatus d _) \<Rightarrow>
          dstPhase (dStatus dataset) = '''' \<and> ContainsString (omFinalizers (dMeta dataset)) datasetFinalizer \<and>
          d = setStatus (\<lambda>s. s\<lparr>dstPhase := ''NotBound''\<rparr>) dataset
      | WroteDataset d _ \<Rightarrow>
          \<not> ContainsString (omFinalizers (dMeta dataset)) datasetFinalizer \<and>
          d = setFinalizers (\<lambda>fs. fs @ [datasetFinalizer]) dataset
      | _ \<Rightarrow> True)"

lemma phaseGuarded_runtime:
  "emits (phaseGuarded dataset) (CreateRuntimeForReferenceDatasetIfNotExist w dataset)"
  unfolding CreateRuntimeForReferenceDatasetIfNotExist_def createRuntimeOnce_def getRuntimeObject_def Let_def
  by (auto simp: phaseGuarded_def intro!: emits_rules)

lemma phaseGuarded_steps:
  "\<not> ContainsString (omFinalizers (dMeta dataset)) datasetFinalizer \<Longrightarrow>
     emits (phaseGuarded dataset) (addFinalizerAndRequeue w dataset)"
  "ContainsString (omFinalizers (dMeta dataset)) datasetFinalizer \<Longrightarrow>
     emits (phaseGuarded dataset) (markNotBound w resyncPeriod needRequeue dataset)"
  "emits (phaseGuarded dataset) (recordDataset dataset reason message)"
  unfolding addFinalizerAndRequeue_def updateDataset_def markNotBound_def updateDatasetStatus_def recordDataset_def
  by (auto intro!: emits_rules simp: phaseGuarded_def)

text \<open>
  A live dataset leaves the empty phase only after it carries the finalizer of the controller: every write of its
  status sets the phase \<open>NotBound\<close> of a dataset with an empty phase that carries the finalizer, and every write of the
  dataset itself adds the finalizer to one that lacks it.
\<close>

theorem finalizer_before_phase:
  assumes "reconcileDataset w dnsErrors resyncPeriod name namespace dataset needRequeue h = (r, h')"
    and "\<not> HasDeletionTimestamp (dMeta dataset)"
  shows "list_all (phaseGuarded dataset) (drop (length h) h')"
proof -
  have "emits (phaseGuarded dataset) (reconcileDataset w dnsErrors resyncPeriod name namespace dataset needRequeue)"
    unfolding reconcileDataset_def Let_def
    using assms(2)
    by (auto intro!: emits_rules phaseGuarded_runtime phaseGuarded_steps split: prod.splits option.splits)
  then obtain es where "h' = h @ es" "list_all (phaseGuarded dataset) es"
    using assms(1) by (rule emits_run)
  then show ?thesis by simp
qed

section \<open>Scaling out a runtime controller\<close>

lemma parseUint32_nonneg: "0 \<le> n \<Longrightarrow> parseUint32 n s = Some u \<Longrightarrow> 0 \<le> u"
  by (induction n s rule: parseUint32.induct) (auto simp: Let_def split: if_splits)

lemma parseReplicas_bound: "parseReplicas s < 2 ^ 31"
  using parseUint32_nonneg [of 0] by (auto simp: parseReplicas_def Let_def split: option.splits) fastforce+

lemma parseReplicas_examples:
  "parseReplicas ''3'' = 3" "parseReplicas ''3x'' = 0" "parseReplicas ''2147483648'' = 2 ^ 31 - 1" "parseReplicas ''99999999999x'' = 2 ^ 31 - 1"
  by (simp_all add: parseReplicas_def Let_def)

text \<open>Every write of a deployment follows a read of it with no replicas.\<close>

definition scaledOut :: "string \<Rightarrow> string \<Rightarrow> kevent list \<Rightarrow> bool" where
  "scaledOut name namespace es \<longleftrightarrow>
     (\<forall>d err. WroteDeployment d err \<in> set es \<longrightarrow>
        (\<exists>n d'. dpReplicas d = Some n \<and> 1 \<le> n \<and> n < 2 ^ 31 \<and> dpReplicas d' = Some 0 \<and>
           ReadDeployment name namespace (Inr d') \<in> set es \<and> d = d'\<lparr>dpReplicas := Some n\<rparr>))"

lemma scaledOut_append:
  "scaledOut name namespace es \<Longrightarrow> scaledOut name namespace es' \<Longrightarrow> scaledOut name namespace (es @ es')"
  unfolding scaledOut_def by (simp, blast)

text \<open>
  C36. A runtime controller is started on demand within bounds: its deployment is written only if it was read with zero
  replicas, nothing but the replicas is changed, they are at least one and fit 32 bits, and the caller is told that
  nothing was scaled only if nothing was written.
\<close>

theorem scaleout_bounded:
  assumes "scaleoutDeploymentIfNeeded w name namespace h = (r, h')"
  shows "scaledOut name namespace (drop (length h) h') \<and>
    (\<forall>err. r = Ret (False, err) \<longrightarrow> (\<forall>d e. WroteDeployment d e \<notin> set (drop (length h) h')))"
proof -
  let ?I = "\<lambda>scale h'. \<exists>es. h' = h @ es \<and> scaledOut name namespace es \<and>
      (\<not> scale \<longrightarrow> (\<forall>d e. WroteDeployment d e \<notin> set es))"
  have once: "wp (scaleoutOnce w name namespace scale)
      (\<lambda>r h'. (\<forall>e s'. r = Ret (e, s') \<longrightarrow> ?I s' h') \<and> (\<exists>es. h' = h @ es \<and> scaledOut name namespace es)) h''"
    if "?I scale h''" for scale h''
  proof -
    from that obtain es where es: "h'' = h @ es" "scaledOut name namespace es"
      "\<not> scale \<Longrightarrow> \<forall>d e. WroteDeployment d e \<notin> set es" by auto
    have read: "scaledOut name namespace (es @ [ReadDeployment name namespace a])" for a
      using es(2) by (rule scaledOut_append) (simp add: scaledOut_def)
    have written: "scaledOut name namespace
        (es @ [ReadDeployment name namespace (Inr d), WroteDeployment (d\<lparr>dpReplicas := Some n\<rparr>) err])"
      if "dpReplicas d = Some 0" "1 \<le> n" "n < 2 ^ 31" for d n err
      using es(2) by (rule scaledOut_append) (use that in \<open>auto simp: scaledOut_def\<close>)
    show ?thesis
      unfolding scaleoutOnce_def es(1)
      using es(3) read written parseReplicas_bound
      by (auto simp: wp_rules Let_def split: sum.splits option.splits)
  qed
  have "wp (RetryOnConflictS (scaleoutOnce w name namespace) False)
      (\<lambda>r h'. (\<forall>e s'. r = Ret (e, s') \<longrightarrow> ?I s' h') \<and> (\<exists>es. h' = h @ es \<and> scaledOut name namespace es)) h"
    by (rule RetryOnConflictS_induct [where I = ?I]) (auto simp: scaledOut_def intro!: wp_mono [OF once])
  then show ?thesis
    using assms unfolding scaleoutDeploymentIfNeeded_def
    by (auto simp: wp_def andThen_def ret_def split: prod.splits out.splits)
qed

section \<open>Errors\<close>

lemma UpdateDatasetCondition_present:
  "dcType c = t \<Longrightarrow> dcStatus c = s \<Longrightarrow> \<exists>c'\<in>set (UpdateDatasetCondition cs c). dcType c' = t \<and> dcStatus c' = s"
  by (cases rule: findCondition_cases [of "dcType c" dcType cs])
     (auto simp: UpdateDatasetCondition_def GetDatasetCondition_def set_update_memI
       intro!: bexI [OF _ set_update_memI])

text \<open>
  If the lookup of a referring dataset fails with anything but a not-found error, the function that drops the
  references to vanished datasets panics instead of returning the error.
\<close>

theorem reference_lookup_failure_panics:
  assumes "Split CHR ''/'' ref = namespace # name # rest" and "clGetDataset (kwCluster w h) (opHistory h) name namespace = Inl e"
    and "\<not> IsNotFound e"
  shows "fst (existingRefs w (ref # refs) acc h) = Panic ''invalid memory address or nil pointer dereference''"
proof -
  have "wp (existingRefs w (ref # refs) acc)
      (\<lambda>r _. r = Panic ''invalid memory address or nil pointer dereference'') h"
    using assms by (simp add: GetDataset_def wp_rules)
  then show ?thesis by (simp add: wp_def split: prod.splits)
qed

text \<open>
  Every status that \<open>UpdateMountStatus\<close> writes for the phase \<open>Bound\<close> takes the mounts over from the spec, and reports
  the condition \<open>Ready\<close> as \<open>False\<close>.
\<close>

theorem bound_mounts_not_ready:
  assumes "UpdateMountStatus w name namespace ''Bound'' h = (r, h')"
    and "Op (UpdatedDatasetStatus d a) \<in> set (drop (length h) h')"
  shows "dstPhase (dStatus d) = ''Bound'' \<and> dstMounts (dStatus d) = dsMounts (dSpec d) \<and>
    (\<exists>c\<in>set (dstConditions (dStatus d)). dcType c = ''Ready'' \<and> dcStatus c = ''False'')"
proof -
  let ?P = "\<lambda>e. \<forall>d a. e = Op (UpdatedDatasetStatus d a) \<longrightarrow>
      dstPhase (dStatus d) = ''Bound'' \<and> dstMounts (dStatus d) = dsMounts (dSpec d) \<and>
      (\<exists>c\<in>set (dstConditions (dStatus d)). dcType c = ''Ready'' \<and> dcStatus c = ''False'')"
  have "emits ?P (UpdateMountStatus w name namespace ''Bound'')"
    unfolding UpdateMountStatus_def mountStatusOnce_def GetDataset_def now_def updateDatasetStatus_def Let_def
    by (auto intro!: emits_rules UpdateDatasetCondition_present simp: NewDatasetCondition_def)
  then obtain es where "h' = h @ es" "list_all ?P es" using assms(1) by (rule emits_run)
  with assms(2) show ?thesis by (auto simp: list_all_iff)
qed

section \<open>Examples\<close>

definition referenceDataset :: Dataset where
  "referenceDataset = exampleDataset
     \<lparr>dSpec := (dSpec exampleDataset)
        \<lparr>dsMounts := [\<lparr>dmMountPoint = ''dataset://ns/base/sub/dir'', dmOptions = [], dmEncryptOptions = [], dmName = ''base'', dmPath = '''',
                       dmReadOnly = False, dmShared = False\<rparr>]\<rparr>\<rparr>"

theorem reference_roundtrip_witness:
  "GetPhysicalDatasetFromMounts (dsMounts (dSpec referenceDataset)) = [(''ns'', ''base'')] \<and>
    GetPhysicalDatasetSubPath referenceDataset = [''sub/dir'']"
  by (rule reference_roundtrip [where mount = "hd (dsMounts (dSpec referenceDataset))"])
     (simp_all add: referenceDataset_def GetDatasetRefName_def)

definition deletedDataset :: Dataset where
  "deletedDataset = exampleDataset
     \<lparr>dMeta := (dMeta exampleDataset)\<lparr>omDeletionTimestamp := Some 1, omFinalizers := [datasetFinalizer]\<rparr>\<rparr>"

definition emptyWorld :: world where
  "emptyWorld = downWorld\<lparr>kwGetClaim := \<lambda>_ _ _. Inl (NotFound ''gone''), kwUpdateDataset := \<lambda>_ _. Inr 2\<rparr>"

theorem finalizer_removed_safely_witness:
  "\<exists>r h' d a. reconcileDataset emptyWorld (\<lambda>_. []) 0 ''demo'' ''default'' deletedDataset False [] = (r, h') \<and>
     WroteDataset d a \<in> set h' \<and> claimUnmounted ''demo'' ''default'' h'"
proof -
  have "wp (reconcileDataset emptyWorld (\<lambda>_. []) 0 ''demo'' ''default'' deletedDataset False)
      (\<lambda>_ h'. \<exists>d a. WroteDataset d a \<in> set h') []"
    unfolding reconcileDataset_def reconcileDatasetDeletion_def ShouldDeleteDataset_def
      IsPersistentVolumeClaimExist_def removeFinalizer_def updateDataset_def read_defs Let_def
    by (simp add: wp_rules emptyWorld_def downWorld_def deletedDataset_def exampleDataset_def HasDeletionTimestamp_def)
  then show ?thesis
    using finalizer_removed_safely
      [of emptyWorld "\<lambda>_. []" 0 "''demo''" "''default''" deletedDataset False "[]"]
    by (cases "reconcileDataset emptyWorld (\<lambda>_. []) 0 ''demo'' ''default'' deletedDataset False []")
       (auto simp: wp_def deletedDataset_def exampleDataset_def HasDeletionTimestamp_def)
qed

theorem finalizer_before_phase_witness:
  "\<exists>r h'. reconcileDataset emptyWorld (\<lambda>_. []) 0 ''demo'' ''default'' exampleDataset False [] = (r, h') \<and>
     (\<exists>d a. WroteDataset d a \<in> set h') \<and> list_all (phaseGuarded exampleDataset) h'"
proof -
  have "wp (reconcileDataset emptyWorld (\<lambda>_. []) 0 ''demo'' ''default'' exampleDataset False)
      (\<lambda>_ h'. \<exists>d a. WroteDataset d a \<in> set h') []"
    unfolding reconcileDataset_def addFinalizerAndRequeue_def updateDataset_def Let_def
    by (simp add: wp_rules emptyWorld_def downWorld_def exampleDataset_def HasDeletionTimestamp_def ContainsString_def)
  then show ?thesis
    using finalizer_before_phase
      [of emptyWorld "\<lambda>_. []" 0 "''demo''" "''default''" exampleDataset False "[]"]
    by (cases "reconcileDataset emptyWorld (\<lambda>_. []) 0 ''demo'' ''default'' exampleDataset False []")
       (auto simp: wp_def exampleDataset_def HasDeletionTimestamp_def)
qed

definition idleWorld :: world where
  "idleWorld = downWorld
     \<lparr>kwGetDeployment := \<lambda>_ name ns. Inr \<lparr>dpName = name, dpNamespace = ns,
        dpAnnotations = [(''controller.runtime.fluid.io/replicas'', ''3'')], dpReplicas = Some 0\<rparr>,
      kwUpdateDeployment := \<lambda>_ _. None\<rparr>"

theorem scaleout_bounded_witness:
  "\<exists>h'. scaleoutDeploymentIfNeeded idleWorld ''alluxioruntime-controller'' ''fluid-system'' [] = (Ret (True, None), h') \<and>
     scaledOut ''alluxioruntime-controller'' ''fluid-system'' h'"
proof -
  have "wp (scaleoutDeploymentIfNeeded idleWorld ''alluxioruntime-controller'' ''fluid-system'')
      (\<lambda>r h'. r = Ret (True, None)) []"
    by (simp add: scaleoutDeploymentIfNeeded_def RetryOnConflictS_def DefaultBackoff_Steps_def numeral_eq_Suc
        scaleoutOnce_def wp_rules idleWorld_def downWorld_def Let_def)
  then show ?thesis
    using scaleout_bounded [of idleWorld "''alluxioruntime-controller''" "''fluid-system''" "[]"]
    by (cases "scaleoutDeploymentIfNeeded idleWorld ''alluxioruntime-controller'' ''fluid-system'' []")
       (auto simp: wp_def)
qed

theorem reference_lookup_failure_panics_witness:
  "fst (RemoveNotFoundDatasetRef downWorld
      (setStatus (\<lambda>s. s\<lparr>dstDatasetRef := [''ns/user'']\<rparr>) exampleDataset) []) =
    Panic ''invalid memory address or nil pointer dereference''"
  unfolding RemoveNotFoundDatasetRef_def
  using reference_lookup_failure_panics [where ref = "''ns/user''" and namespace = "''ns''" and name = "''user''" and rest = "[]" and w = downWorld
      and h = "[]" and e = "Err ''down''" and refs = "[]" and acc = "[]"]
  by (simp add: downWorld_def downCluster_def)

definition mountedWorld :: world where
  "mountedWorld = downWorld
     \<lparr>kwCluster := \<lambda>_. downCluster\<lparr>clGetDataset := \<lambda>_ _ _. Inr exampleDataset, clUpdateDatasetStatus := \<lambda>_ _. None\<rparr>\<rparr>"

theorem bound_mounts_not_ready_witness:
  "\<exists>r h' d a. UpdateMountStatus mountedWorld ''demo'' ''default'' ''Bound'' [] = (r, h') \<and>
     Op (UpdatedDatasetStatus d a) \<in> set h' \<and>
     (\<exists>c\<in>set (dstConditions (dStatus d)). dcType c = ''Ready'' \<and> dcStatus c = ''False'')"
proof -
  have "wp (UpdateMountStatus mountedWorld ''demo'' ''default'' ''Bound'')
      (\<lambda>r h'. \<exists>d a. Op (UpdatedDatasetStatus d a) \<in> set h') []"
    unfolding UpdateMountStatus_def mountStatusOnce_def GetDataset_def now_def updateDatasetStatus_def
    by (simp add: RetryOnConflict_def DefaultBackoff_Steps_def numeral_eq_Suc
        wp_rules mountedWorld_def downWorld_def Let_def downCluster_def exampleDataset_def UpdateDatasetCondition_def GetDatasetCondition_def NewDatasetCondition_def)
  then show ?thesis
    using bound_mounts_not_ready [of mountedWorld "''demo''" "''default''" "[]"]
    by (cases "UpdateMountStatus mountedWorld ''demo'' ''default'' ''Bound'' []") (fastforce simp: wp_def)
qed

end
