(* ===== verification/Ctrl_Helper.thy ===== *)
theory Ctrl_Helper
  imports Node_Placement
begin

text \<open>
  The helper that all cache engines share (\<open>pkg/ctrl\<close>): it copies the state of the master, the workers and the fuses into
  the status of the runtime, scales the workers, gives them their affinity, and takes the labels of the runtime off the
  nodes. A \<open>getRuntimeFn\<close> of the source reads the runtime of a kind and name; times come from the clock.
  Replica counts are never negative in the API, so their differences fit 32 bits.
\<close>

section \<open>master.go\<close>

definition setRuntimeStatus :: "(RuntimeStatus \<Rightarrow> RuntimeStatus) \<Rightarrow> RuntimeObject \<Rightarrow> RuntimeObject" where
  "setRuntimeStatus f runtime = runtime\<lparr>roStatus := f (roStatus runtime)\<rparr>"

definition addCondition :: "RuntimeCondition \<Rightarrow> RuntimeStatus \<Rightarrow> RuntimeStatus" where
  "addCondition cond status = status\<lparr>rsConditions := UpdateRuntimeCondition (rsConditions status) cond\<rparr>"

definition expectReplicas :: "StatefulSet \<Rightarrow> int" where
  "expectReplicas sts = (case stsReplicas sts of Some n \<Rightarrow> n | None \<Rightarrow> 0)"

definition stsPhase :: "StatefulSet \<Rightarrow> string" where
  "stsPhase sts = GetPhaseFromStatefulset (expectReplicas sts) (stsReadyReplicas sts)"

definition phaseReady :: "string \<Rightarrow> bool" where
  "phaseReady phase = (phase = ''Ready'' \<or> phase = ''PartialReady'')"

definition masterReadyCondition :: "string \<Rightarrow> int \<Rightarrow> RuntimeCondition" where
  "masterReadyCondition phase t =
     (if phase = ''Ready'' then
        NewRuntimeCondition ''MasterReady'' ''Master is ready'' ''The master is ready.'' ''True'' t
      else if phase = ''PartialReady'' then
        NewRuntimeCondition ''MasterReady'' ''Master is ready'' ''The master is partially ready.'' ''True'' t
      else NewRuntimeCondition ''MasterReady'' ''Master is ready'' ''The master is not ready.'' ''False'' t)"

definition masterStatus :: "StatefulSet \<Rightarrow> int \<Rightarrow> int \<Rightarrow> RuntimeStatus \<Rightarrow> RuntimeStatus" where
  "masterStatus sts t1 t2 status =
     addCondition (masterReadyCondition (stsPhase sts) t2)
       (addCondition (NewRuntimeCondition ''MasterInitialized'' ''Master is initialized''
                        ''The master is initialized.'' ''True'' t1)
          (status\<lparr>rsDesiredMaster := expectReplicas sts, rsCurrentMaster := stsStatusReplicas sts,
                  rsMasterReady := stsReadyReplicas sts, rsMasterPhase := stsPhase sts\<rparr>))"

text \<open>One attempt: read the runtime, compute its status, write it if it differs.\<close>

definition writeIfChanged :: "world \<Rightarrow> RuntimeObject \<Rightarrow> RuntimeStatus \<Rightarrow> (goerr option) kgo" where
  "writeIfChanged w runtime status =
     (if roStatus runtime \<noteq> status then updateRuntimeStatus w (runtime\<lparr>roStatus := status\<rparr>) else ret None)"

definition masterOnce ::
  "world \<Rightarrow> string \<Rightarrow> string \<Rightarrow> string \<Rightarrow> StatefulSet \<Rightarrow> bool \<Rightarrow> (goerr option \<times> bool) kgo" where
  "masterOnce w kind name namespace masterSts ready =
     andThen (getRuntimeObject w kind name namespace) (\<lambda>r.
     case r of
       Inl e \<Rightarrow> ret (Some e, ready)
     | Inr runtime \<Rightarrow>
         andThen (viaOp w now) (\<lambda>t1.
         andThen (viaOp w now) (\<lambda>t2.
         andThen (writeIfChanged w runtime (masterStatus masterSts t1 t2 (roStatus runtime))) (\<lambda>err.
         ret (err, phaseReady (stsPhase masterSts))))))"

definition CheckAndSyncMasterStatus ::
  "world \<Rightarrow> string \<Rightarrow> string \<Rightarrow> string \<Rightarrow> string \<Rightarrow> (bool \<times> goerr option) kgo" where
  "CheckAndSyncMasterStatus w kind name namespace masterName =
     andThen (viaOp w (\<lambda>cl. GetStatefulSet cl masterName namespace)) (\<lambda>r.
     case r of
       Inl e \<Rightarrow> ret (False, Some e)
     | Inr masterSts \<Rightarrow>
         andThen (RetryOnConflictS (masterOnce w kind name namespace masterSts) False) (\<lambda>(err, ready).
         case err of
           Some e \<Rightarrow> ret (False, Some (Wrapped ''failed to update master ready status in runtime status'' e))
         | None \<Rightarrow> ret (ready, None)))"

section \<open>affinity.go\<close>

definition checkWorkerAffinity :: "RuntimeInfo \<Rightarrow> StatefulSet \<Rightarrow> bool" where
  "checkWorkerAffinity info workers =
     (case stsAffinity workers of
        None \<Rightarrow> False
      | Some a \<Rightarrow>
          (case afNodeAffinity a of
             None \<Rightarrow> False
           | Some na \<Rightarrow>
               list_ex (\<lambda>(_, preference). list_ex (\<lambda>term1. nrKey term1 = fuseLabel info) preference) (naPreferred na)))"

abbreviation hostnameKey :: string where
  "hostnameKey \<equiv> ''kubernetes.io/hostname''"

definition hasDatasetTerm :: PodAffinityTerm where
  "hasDatasetTerm =
     \<lparr>ptMatchExpressions = [\<lparr>nrKey = ''fluid.io/dataset'', nrOperator = ''Exists'', nrValues = []\<rparr>],
      ptTopologyKey = hostnameKey\<rparr>"

definition exclusiveTerm :: PodAffinityTerm where
  "exclusiveTerm =
     \<lparr>ptMatchExpressions =
        [\<lparr>nrKey = ''fluid.io/dataset-placement'', nrOperator = ''In'', nrValues = [''Exclusive'']\<rparr>],
      ptTopologyKey = hostnameKey\<rparr>"

definition workersAntiAffinity :: "bool \<Rightarrow> string \<Rightarrow> PodAntiAffinity" where
  "workersAntiAffinity exclusive runtimeType =
     (if exclusive then \<lparr>paRequired = [hasDatasetTerm], paPreferred = []\<rparr>
      else \<lparr>paRequired = [exclusiveTerm],
            paPreferred = (if runtimeType = ''efc'' then [] else [(50, hasDatasetTerm)])\<rparr>)"

definition workersNodeAffinity :: "RuntimeInfo \<Rightarrow> Dataset \<Rightarrow> NodeAffinity" where
  "workersNodeAffinity info dataset =
     \<lparr>naRequired = (case dsNodeAffinity (dSpec dataset) of Some (Some ts) \<Rightarrow> Some (Some ts) | _ \<Rightarrow> None),
      naPreferred = [(100, [requirementIn (fuseLabel info) ''true''])]\<rparr>"

definition BuildWorkersAffinity :: "world \<Rightarrow> RuntimeInfo \<Rightarrow> StatefulSet \<Rightarrow> (goerr + StatefulSet) kgo" where
  "BuildWorkersAffinity w info workers =
     (if checkWorkerAffinity info workers then ret (Inr workers)
      else if stsAffinity workers \<noteq> None then ret (Inr workers)
      else
        andThen (viaOp w (\<lambda>cl. GetDataset cl (riName info) (riNamespace info))) (\<lambda>r.
        case r of
          Inl e \<Rightarrow> ret (Inl e)
        | Inr dataset \<Rightarrow>
            ret (Inr (workers\<lparr>stsAffinity := Some
              \<lparr>afNodeAffinity = Some (workersNodeAffinity info dataset),
               afPodAntiAffinity = Some (workersAntiAffinity (IsExclusiveMode dataset) (riRuntimeType info))\<rparr>\<rparr>))))"

section \<open>worker.go\<close>

definition updateStatefulSet :: "cluster \<Rightarrow> StatefulSet \<Rightarrow> (goerr option) cgo" where
  "updateStatefulSet cl sts = call (\<lambda>h. clUpdateStatefulSet cl h sts) (UpdatedStatefulSet sts)"

text \<open>
  The second half dereferences \<open>Spec.Replicas\<close>, which may still be nil if the desired number of replicas is 0.
\<close>

definition initWorkersStatus :: "world \<Rightarrow> RuntimeObject \<Rightarrow> RuntimeStatus \<Rightarrow> StatefulSet \<Rightarrow> (goerr option) kgo" where
  "initWorkersStatus w runtime currentStatus workers =
     (case stsReplicas workers of
        None \<Rightarrow> panic ''invalid memory address or nil pointer dereference''
      | Some replicas \<Rightarrow>
          if replicas \<noteq> rsDesiredWorker (roStatus runtime) then
            andThen (viaOp w now) (\<lambda>t.
            let status = addCondition (NewRuntimeCondition ''WorkersInitialized'' ''Workers are initialized''
                           ''The workers are initialized.'' ''True'' t) (roStatus runtime) in
            if status \<noteq> currentStatus then updateRuntimeStatus w (runtime\<lparr>roStatus := status\<rparr>) else ret None)
          else ret None)"

definition SetupWorkers ::
  "world \<Rightarrow> RuntimeInfo \<Rightarrow> RuntimeObject \<Rightarrow> RuntimeStatus \<Rightarrow> StatefulSet \<Rightarrow> (goerr option) kgo" where
  "SetupWorkers w info runtime currentStatus workers =
     (if expectReplicas workers \<noteq> roReplicas runtime then
        andThen (BuildWorkersAffinity w info workers) (\<lambda>r.
        case r of
          Inl e \<Rightarrow> ret (Some e)
        | Inr workers' \<Rightarrow>
            let workerToUpdate = workers'\<lparr>stsReplicas := Some (roReplicas runtime)\<rparr> in
            andThen (viaOp w (\<lambda>cl. updateStatefulSet cl workerToUpdate)) (\<lambda>err.
            if err \<noteq> None then ret err
            else initWorkersStatus w runtime currentStatus workerToUpdate))
      else initWorkersStatus w runtime currentStatus workers)"

definition workersReadyCondition :: "string \<Rightarrow> int \<Rightarrow> RuntimeCondition" where
  "workersReadyCondition phase t =
     (if phase = ''Ready'' then
        NewRuntimeCondition ''WorkersReady'' ''Workers are ready'' ''The workers are ready.'' ''True'' t
      else if phase = ''PartialReady'' then
        NewRuntimeCondition ''WorkersReady'' ''Workers are ready'' ''The workers are partially ready.'' ''True'' t
      else NewRuntimeCondition ''WorkersReady'' ''Workers are ready'' ''The workers are not ready.'' ''False'' t)"

definition workerStatus :: "StatefulSet \<Rightarrow> int \<Rightarrow> RuntimeStatus \<Rightarrow> RuntimeStatus" where
  "workerStatus sts t status =
     addCondition (workersReadyCondition (stsPhase sts) t)
       (status\<lparr>rsDesiredWorker := expectReplicas sts, rsCurrentWorker := stsStatusReplicas sts,
               rsWorkerReady := stsReadyReplicas sts, rsWorkerAvailable := stsAvailableReplicas sts,
               rsWorkerUnavailable := (if stsStatusReplicas sts - stsAvailableReplicas sts < 0 then 0
                                       else stsStatusReplicas sts - stsAvailableReplicas sts),
               rsWorkerPhase := stsPhase sts\<rparr>)"

definition workerOnce ::
  "world \<Rightarrow> string \<Rightarrow> string \<Rightarrow> string \<Rightarrow> StatefulSet \<Rightarrow> bool \<Rightarrow> (goerr option \<times> bool) kgo" where
  "workerOnce w kind name namespace workers ready =
     andThen (getRuntimeObject w kind name namespace) (\<lambda>r.
     case r of
       Inl e \<Rightarrow> ret (Some e, ready)
     | Inr runtime \<Rightarrow>
         andThen (viaOp w now) (\<lambda>t.
         andThen (writeIfChanged w runtime (workerStatus workers t (roStatus runtime))) (\<lambda>err.
         ret (err, ready \<or> phaseReady (stsPhase workers)))))"

definition CheckAndSyncWorkerStatus ::
  "world \<Rightarrow> string \<Rightarrow> string \<Rightarrow> string \<Rightarrow> string \<Rightarrow> (bool \<times> goerr option) kgo" where
  "CheckAndSyncWorkerStatus w kind name namespace workerName =
     andThen (viaOp w (\<lambda>cl. GetStatefulSet cl workerName namespace)) (\<lambda>r.
     case r of
       Inl e \<Rightarrow> ret (False, Some e)
     | Inr workers \<Rightarrow>
         andThen (RetryOnConflictS (workerOnce w kind name namespace workers) False) (\<lambda>(err, ready).
         case err of
           Some e \<Rightarrow> ret (False, Some (Wrapped ''failed to update worker ready status in runtime status'' e))
         | None \<Rightarrow> ret (ready, None)))"

definition tearDownLabels :: "RuntimeInfo \<Rightarrow> Node \<Rightarrow> goerr option \<times> LabelsToModify" where
  "tearDownLabels info node =
     (let labels = foldl (\<lambda>labels label. labelsDelete label labels) []
            [runtimeLabel info, totalLabel info, diskLabel info, memoryLabel info, commonLabel info];
          labels' = (if map_of (nodeLabels node) GetExclusiveKey = Some (GetExclusiveLabelValue info)
                     then labelsDelete GetExclusiveKey labels else labels) in
      DecreaseDatasetNum node labels')"

definition tearDownOnce :: "world \<Rightarrow> RuntimeInfo \<Rightarrow> string \<Rightarrow> (goerr option) kgo" where
  "tearDownOnce w info nodeName1 =
     andThen (GetNode w nodeName1) (\<lambda>r.
     case r of
       Inl e \<Rightarrow> ret (Some e)
     | Inr node \<Rightarrow>
         (case tearDownLabels info node of
            (Some e, _) \<Rightarrow> ret (Some e)
          | (None, labels) \<Rightarrow>
              andThen (ChangeNodeLabelWithPatchMode w node labels) (\<lambda>r.
              ret (case r of Inl e \<Rightarrow> Some e | Inr _ \<Rightarrow> None))))"

fun tearDownNodes :: "world \<Rightarrow> RuntimeInfo \<Rightarrow> Node list \<Rightarrow> (goerr option) kgo" where
  "tearDownNodes w info [] = ret None"
| "tearDownNodes w info (node # nodes) =
     (if nodeLabels node = [] then tearDownNodes w info nodes
      else
        andThen (RetryOnConflict (tearDownOnce w info (nodeName node))) (\<lambda>err.
        if err \<noteq> None then ret err else tearDownNodes w info nodes))"

definition TearDownWorkers :: "world \<Rightarrow> RuntimeInfo \<Rightarrow> (goerr option) kgo" where
  "TearDownWorkers w info =
     (case kwBadSelector w (commonLabel info @ ''=true'') of
        Some e \<Rightarrow> ret (Some e)
      | None \<Rightarrow>
          andThen (call (\<lambda>h. kwListNodes w h (commonLabel info) ''true'') (ListedNodes (commonLabel info) ''true'')) (\<lambda>r.
          case r of
            Inl e \<Rightarrow> ret (Some e)
          | Inr nodes \<Rightarrow> tearDownNodes w info nodes))"

section \<open>replicas.go\<close>

definition recordRuntime :: "RuntimeObject \<Rightarrow> string \<Rightarrow> string \<Rightarrow> string \<Rightarrow> unit kgo" where
  "recordRuntime runtime ty reason message =
     emit (Op (Recorded (omNamespace (roMeta runtime)) (omName (roMeta runtime)) ty reason message))"

definition SyncReplicas ::
  "world \<Rightarrow> RuntimeInfo \<Rightarrow> RuntimeObject \<Rightarrow> RuntimeStatus \<Rightarrow> StatefulSet \<Rightarrow> (goerr option) kgo" where
  "SyncReplicas w info runtime currentStatus workers =
     (let current = expectReplicas workers; wanted = roReplicas runtime;
          counts = Itoa current @ '' replicas to '' @ Itoa wanted @ '' replicas.'' in
      if wanted \<noteq> current then
        andThen (viaOp w now) (\<lambda>t.
        let cond = (if wanted < current
                    then NewRuntimeCondition ''WorkersScaledIn'' ''Workers scaled in''
                           (''Workers scaled in from '' @ counts) ''True'' t
                    else NewRuntimeCondition ''WorkersScaledOut'' ''Workers scaled out''
                           (''Workers scaled out from '' @ counts) ''True'' t) in
        andThen (recordRuntime runtime ''Normal'' ''Succeed''
                   (if wanted < current then ''Runtime scaled in'' else ''Runtime scaled out'')) (\<lambda>_.
        SetupWorkers w info (setRuntimeStatus (addCondition cond) runtime) currentStatus workers))
      else ret None)"

section \<open>fuse.go\<close>

definition fuseStatus :: "DaemonSet \<Rightarrow> int \<Rightarrow> RuntimeStatus \<Rightarrow> RuntimeStatus" where
  "fuseStatus ds t status =
     addCondition (NewRuntimeCondition ''FusesReady'' ''Fuses are ready'' ''The fuses are ready.'' ''True'' t)
       (status\<lparr>rsDesiredFuse := dsmDesired ds, rsCurrentFuse := dsmCurrent ds, rsFuseReady := dsmReady ds,
               rsFuseAvailable := dsmAvailable ds, rsFuseUnavailable := dsmUnavailable ds,
               rsFusePhase := ''Ready'', rsFuseReason := ''Fuses are ready''\<rparr>)"

definition fuseOnce ::
  "world \<Rightarrow> string \<Rightarrow> string \<Rightarrow> string \<Rightarrow> DaemonSet \<Rightarrow> bool \<Rightarrow> (goerr option \<times> bool) kgo" where
  "fuseOnce w kind name namespace fuseDs ready =
     andThen (getRuntimeObject w kind name namespace) (\<lambda>r.
     case r of
       Inl e \<Rightarrow> ret (Some e, ready)
     | Inr runtime \<Rightarrow>
         andThen (viaOp w now) (\<lambda>t.
         andThen (writeIfChanged w runtime (fuseStatus fuseDs t (roStatus runtime))) (\<lambda>err.
         ret (err, True))))"

definition CheckAndSyncFuseStatus ::
  "world \<Rightarrow> string \<Rightarrow> string \<Rightarrow> string \<Rightarrow> string \<Rightarrow> (bool \<times> goerr option) kgo" where
  "CheckAndSyncFuseStatus w kind name namespace fuseName =
     andThen (GetDaemonset w fuseName namespace) (\<lambda>r.
     case r of
       Inl e \<Rightarrow> ret (False, Some e)
     | Inr fuseDs \<Rightarrow>
         andThen (RetryOnConflictS (fuseOnce w kind name namespace fuseDs) False) (\<lambda>(err, ready).
         case err of
           Some e \<Rightarrow> ret (False, Some (Wrapped ''failed to update fuse ready status in runtime status'' e))
         | None \<Rightarrow> ret (ready, None)))"

fun cleanFuseLabels :: "world \<Rightarrow> LabelsToModify \<Rightarrow> Node list \<Rightarrow> int \<Rightarrow> (int \<times> goerr option) kgo" where
  "cleanFuseLabels w labels [] count = ret (count, None)"
| "cleanFuseLabels w labels (node # nodes) count =
     andThen (ChangeNodeLabelWithPatchMode w node labels) (\<lambda>r.
     case r of
       Inl e \<Rightarrow> ret (count, Some (Wrapped (''error when patching labels on node '' @ nodeName node) e))
     | Inr _ \<Rightarrow> cleanFuseLabels w labels nodes (count + 1))"

definition CleanUpFuse :: "world \<Rightarrow> RuntimeInfo \<Rightarrow> (int \<times> goerr option) kgo" where
  "CleanUpFuse w info =
     (let fuseLabelKey = GetFuseLabelName (riNamespace info) (riName info) (riOwnerDatasetUID info) in
      case kwBadSelector w (fuseLabelKey @ ''=true'') of
        Some e \<Rightarrow> ret (0, Some e)
      | None \<Rightarrow>
          andThen (call (\<lambda>h. kwListNodes w h fuseLabelKey ''true'') (ListedNodes fuseLabelKey ''true'')) (\<lambda>r.
          case r of
            Inl e \<Rightarrow> ret (0, Some e)
          | Inr nodes \<Rightarrow> cleanFuseLabels w (labelsDelete fuseLabelKey []) nodes 0))"

section \<open>Copying the state of a component into the status\<close>

text \<open>The status of the runtime as the run last read or successfully wrote it.\<close>

fun statusEvent :: "kevent \<Rightarrow> RuntimeStatus option" where
  "statusEvent (ReadRuntime _ _ _ (Inr rt)) = Some (roStatus rt)"
| "statusEvent (WroteRuntimeStatus rt None) = Some (roStatus rt)"
| "statusEvent _ = None"

abbreviation knownStatus :: "kevent list \<Rightarrow> RuntimeStatus option" where
  "knownStatus \<equiv> lastAnswer statusEvent"

lemma knownStatus_append:
  "lastAnswer f (h @ es) = (case lastAnswer f es of None \<Rightarrow> lastAnswer f h | Some a \<Rightarrow> Some a)"
  "lastAnswer f (e # es) = (case lastAnswer f es of None \<Rightarrow> f e | Some a \<Rightarrow> Some a)"
  by (auto simp: lastAnswer_def List.map_filter_def split: list.splits option.splits)

lemma wp_clock: "(\<And>t. Q (Ret t) (h @ [Op (ReadClock t)])) \<Longrightarrow> wp (viaOp w now) Q h"
  unfolding now_def by (simp add: wp_rules Let_def)

lemma wp_readRuntime:
  "(\<And>a. Q (Ret a) (h @ [ReadRuntime kind name namespace a])) \<Longrightarrow> wp (getRuntimeObject w kind name namespace) Q h"
  by (simp add: getRuntimeObject_def wp_rules)

lemma wp_writeIfChanged:
  "wp (writeIfChanged w runtime status) Q h =
     (if roStatus runtime = status then Q (Ret None) h
      else let a = kwUpdateRuntimeStatus w h (runtime\<lparr>roStatus := status\<rparr>) in
           Q (Ret a) (h @ [WroteRuntimeStatus (runtime\<lparr>roStatus := status\<rparr>) a]))"
  by (simp add: writeIfChanged_def updateRuntimeStatus_def wp_rules Let_def)

text \<open>
  The contract of an attempt to copy the state of a component: if it succeeds, the status is the copy, and the variable
  it assigns tells whether the component is ready.
\<close>

locale status_sync =
  fixes attempt :: "bool \<Rightarrow> (goerr option \<times> bool) kgo"
    and copied :: "RuntimeStatus \<Rightarrow> bool"
    and isReady :: bool
  assumes attempt_copies:
    "b \<longrightarrow> isReady \<Longrightarrow>
       wp (attempt b) (\<lambda>r h'. \<forall>err b'. r = Ret (err, b') \<longrightarrow>
          (b' \<longrightarrow> isReady) \<and> (err = None \<longrightarrow> b' = isReady \<and> (\<exists>s. knownStatus h' = Some s \<and> copied s))) h"
begin

lemma retry_copies:
  "wp (RetryOnConflictS attempt False)
     (\<lambda>r h'. \<forall>b'. r = Ret (None, b') \<longrightarrow> b' = isReady \<and> (\<exists>s. knownStatus h' = Some s \<and> copied s)) h"
  by (rule RetryOnConflictS_induct [where I = "\<lambda>b _. b \<longrightarrow> isReady"])
     (auto intro!: wp_mono [OF attempt_copies])

end

definition masterCopied :: "StatefulSet \<Rightarrow> RuntimeStatus \<Rightarrow> bool" where
  "masterCopied sts s \<longleftrightarrow>
     rsMasterPhase s = stsPhase sts \<and> rsDesiredMaster s = expectReplicas sts \<and>
     rsCurrentMaster s = stsStatusReplicas sts \<and> rsMasterReady s = stsReadyReplicas sts"

definition workersCopied :: "StatefulSet \<Rightarrow> RuntimeStatus \<Rightarrow> bool" where
  "workersCopied sts s \<longleftrightarrow>
     rsWorkerPhase s = stsPhase sts \<and> rsDesiredWorker s = expectReplicas sts \<and>
     rsCurrentWorker s = stsStatusReplicas sts \<and> rsWorkerReady s = stsReadyReplicas sts \<and>
     rsWorkerAvailable s = stsAvailableReplicas sts \<and>
     rsWorkerUnavailable s = max 0 (stsStatusReplicas sts - stsAvailableReplicas sts)"

definition fuseCopied :: "DaemonSet \<Rightarrow> RuntimeStatus \<Rightarrow> bool" where
  "fuseCopied ds s \<longleftrightarrow>
     rsFusePhase s = ''Ready'' \<and> rsDesiredFuse s = dsmDesired ds \<and> rsCurrentFuse s = dsmCurrent ds \<and>
     rsFuseReady s = dsmReady ds \<and> rsFuseAvailable s = dsmAvailable ds \<and> rsFuseUnavailable s = dsmUnavailable ds"

lemma status_copies:
  "masterCopied sts (masterStatus sts t1 t2 s)" "workersCopied sts (workerStatus sts t s)"
  "fuseCopied ds (fuseStatus ds t s)"
  by (simp_all add: masterCopied_def masterStatus_def workersCopied_def workerStatus_def fuseCopied_def fuseStatus_def
      addCondition_def max_def)


lemma unchanged_copies:
  "s = masterStatus sts t1 t2 s \<Longrightarrow> masterCopied sts s" "s = workerStatus sts t s \<Longrightarrow> workersCopied sts s"
  "s = fuseStatus ds t s \<Longrightarrow> fuseCopied ds s"
  by (metis status_copies)+

lemmas copy_rules = wp_rules wp_writeIfChanged Let_def knownStatus_append status_copies unchanged_copies

interpretation master_sync: status_sync "masterOnce w kind name namespace sts" "masterCopied sts"
    "phaseReady (stsPhase sts)" for w kind name namespace sts
  by unfold_locales (auto simp: masterOnce_def copy_rules intro!: wp_readRuntime wp_clock split: sum.splits)

interpretation worker_sync: status_sync "workerOnce w kind name namespace sts" "workersCopied sts"
    "phaseReady (stsPhase sts)" for w kind name namespace sts
  by unfold_locales (auto simp: workerOnce_def copy_rules intro!: wp_readRuntime wp_clock split: sum.splits)

interpretation fuse_sync: status_sync "fuseOnce w kind name namespace ds" "fuseCopied ds" True
    for w kind name namespace ds
  by unfold_locales (auto simp: fuseOnce_def copy_rules intro!: wp_readRuntime wp_clock split: sum.splits)

text \<open>
  If the check of the master succeeds, the status of the runtime, as it was last read or written, holds the phase and
  the replica counts of the stateful set of the master, and the master counts as ready if and only if no replica of it is
  wanted or at least one is ready.
\<close>

theorem master_status_copied:
  assumes "CheckAndSyncMasterStatus w kind name namespace masterName h = (Ret (ready, None), h')"
  shows "\<exists>sts s. clGetStatefulSet (kwCluster w h) (opHistory h) masterName namespace = Inr sts \<and>
    knownStatus h' = Some s \<and> masterCopied sts s \<and> (ready \<longleftrightarrow> expectReplicas sts = 0 \<or> stsReadyReplicas sts > 0)"
proof -
  have "wp (CheckAndSyncMasterStatus w kind name namespace masterName)
      (\<lambda>r h'. \<forall>ready. r = Ret (ready, None) \<longrightarrow>
         (\<exists>sts s. clGetStatefulSet (kwCluster w h) (opHistory h) masterName namespace = Inr sts \<and>
            knownStatus h' = Some s \<and> masterCopied sts s \<and> ready = phaseReady (stsPhase sts))) h"
    unfolding CheckAndSyncMasterStatus_def GetStatefulSet_def
    by (auto simp: wp_rules Let_def split: sum.splits out.splits prod.splits option.splits
        intro!: wp_mono [OF master_sync.retry_copies])
  with assms show ?thesis
    by (auto simp: wp_def phaseReady_def stsPhase_def GetPhaseFromStatefulset_def split: if_splits)
qed

text \<open>
  If the check of the workers succeeds, the status of the runtime, as it was last read or written, holds the phase and
  the replica counts of the stateful set of the workers, and the workers count as ready if and only if none is wanted or
  at least one is ready.
\<close>

theorem worker_status_copied:
  assumes "CheckAndSyncWorkerStatus w kind name namespace workerName h = (Ret (ready, None), h')"
  shows "\<exists>sts s. clGetStatefulSet (kwCluster w h) (opHistory h) workerName namespace = Inr sts \<and>
    knownStatus h' = Some s \<and> workersCopied sts s \<and> (ready \<longleftrightarrow> expectReplicas sts = 0 \<or> stsReadyReplicas sts > 0)"
proof -
  have "wp (CheckAndSyncWorkerStatus w kind name namespace workerName)
      (\<lambda>r h'. \<forall>ready. r = Ret (ready, None) \<longrightarrow>
         (\<exists>sts s. clGetStatefulSet (kwCluster w h) (opHistory h) workerName namespace = Inr sts \<and>
            knownStatus h' = Some s \<and> workersCopied sts s \<and> ready = phaseReady (stsPhase sts))) h"
    unfolding CheckAndSyncWorkerStatus_def GetStatefulSet_def
    by (auto simp: wp_rules Let_def split: sum.splits out.splits prod.splits option.splits
        intro!: wp_mono [OF worker_sync.retry_copies])
  with assms show ?thesis
    by (auto simp: wp_def phaseReady_def stsPhase_def GetPhaseFromStatefulset_def split: if_splits)
qed

section \<open>A status that is up to date is not written\<close>


lemma once_settled:
  "isOnceActionTypeCondition c \<Longrightarrow> rcType c \<in> rcType ` set cs \<Longrightarrow> UpdateRuntimeCondition cs c = cs"
  by (cases rule: findCondition_cases [of "rcType c" rcType cs])
     (auto simp: UpdateRuntimeCondition_def GetRuntimeCondition_def)

lemma findCondition_snoc: "t \<notin> ty ` set cs \<Longrightarrow> findCondition ty (cs @ [c]) t i = findCondition ty [c] t (i + length cs)"
  by (induction cs arbitrary: i) auto

lemma ready_settled:
  assumes "isReadyTypeCondition (c t)"
    and c: "\<And>t. c t = \<lparr>rcType = ty, rcStatus = st, rcReason = re, rcMessage = me, rcLastProbeTime = t, rcLastTransitionTime = t\<rparr>"
  shows "UpdateRuntimeCondition (UpdateRuntimeCondition cs (c t)) (c t') = UpdateRuntimeCondition cs (c t)"
proof -
  have kind: "isReadyTypeCondition (c t')" "\<not> isOnceActionTypeCondition (c t)" "\<not> isOnceActionTypeCondition (c t')" for t
    using assms(1) by (auto simp: c isReadyTypeCondition_def isOnceActionTypeCondition_def)
  obtain k old where found: "findCondition rcType (UpdateRuntimeCondition cs (c t)) ty 0 = (int k, Some old)"
    "UpdateRuntimeCondition cs (c t) ! k = old"
    "old = (c t')\<lparr>rcLastTransitionTime := rcLastTransitionTime old, rcLastProbeTime := rcLastProbeTime old\<rparr>"
  proof (cases rule: findCondition_cases [of ty rcType cs])
    case absent
    then have "UpdateRuntimeCondition cs (c t) = cs @ [c t]"
      by (simp add: UpdateRuntimeCondition_def GetRuntimeCondition_def c)
    with absent show ?thesis
      by (intro that [of "length cs" "c t"]) (simp_all add: findCondition_snoc c)
  next
    case (present k)
    let ?new = "if rcStatus (c t) = rcStatus (cs ! k)
      then (c t)\<lparr>rcLastTransitionTime := rcLastTransitionTime (cs ! k), rcLastProbeTime := rcLastProbeTime (cs ! k)\<rparr> else c t"
    have upd: "UpdateRuntimeCondition cs (c t) = cs[k := ?new]"
      using present assms(1) kind by (simp add: UpdateRuntimeCondition_def GetRuntimeCondition_def c)
    have "findCondition rcType (cs[k := ?new]) ty 0 = (int k, Some ?new)"
      using findCondition_update [OF present(4), of ?new] by (simp add: c)
    with upd present(1) show ?thesis
      by (intro that [of k ?new]) (auto simp: c)
  qed
  have "rcStatus (c t') = rcStatus old" "rcType (c t') = ty" by (subst found(3), simp) (simp add: c)
  then have "UpdateRuntimeCondition (UpdateRuntimeCondition cs (c t)) (c t') = (UpdateRuntimeCondition cs (c t))[k := old]"
    unfolding UpdateRuntimeCondition_def [of "UpdateRuntimeCondition cs (c t)"] GetRuntimeCondition_def
    using kind found(1) found(3) [symmetric] by simp
  with found(2) show ?thesis by auto
qed

lemma ready_condition_settled:
  assumes "ty \<in> {''MasterReady'', ''WorkersReady'', ''FusesReady''}"
  shows "UpdateRuntimeCondition (UpdateRuntimeCondition cs (NewRuntimeCondition ty re me st t))
      (NewRuntimeCondition ty re me st t') =
    UpdateRuntimeCondition cs (NewRuntimeCondition ty re me st t)"
  by (rule ready_settled [where c = "NewRuntimeCondition ty re me st"])
     (use assms in \<open>auto simp: isReadyTypeCondition_def NewRuntimeCondition_def\<close>)

lemma once_kept:
  assumes "isOnceActionTypeCondition c" and "rcType c' = rcType c"
  shows "UpdateRuntimeCondition (UpdateRuntimeCondition (UpdateRuntimeCondition cs c) d) c' =
    UpdateRuntimeCondition (UpdateRuntimeCondition cs c) d"
proof -
  have types: "rcType ` set (UpdateRuntimeCondition cs c) = insert (rcType c) (rcType ` set cs)" for cs c
    using arg_cong [OF UpdateRuntimeCondition_laws(1) [of cs c], of set] by auto
  show ?thesis
    by (rule once_settled) (use assms in \<open>simp_all add: types isOnceActionTypeCondition_def\<close>)
qed

lemma master_status_idem: "masterStatus sts t1' t2' (masterStatus sts t1 t2 s) = masterStatus sts t1 t2 s"
proof -
  have once: "isOnceActionTypeCondition (NewRuntimeCondition ''MasterInitialized'' re me st t)" for re me st t
    by (simp add: isOnceActionTypeCondition_def NewRuntimeCondition_def)
  have type: "rcType (NewRuntimeCondition ty re me st t) = ty" for ty re me st t
    by (simp add: NewRuntimeCondition_def)
  have ready: "UpdateRuntimeCondition (UpdateRuntimeCondition cs (masterReadyCondition p t)) (masterReadyCondition p t') =
      UpdateRuntimeCondition cs (masterReadyCondition p t)" for cs p t t'
    by (simp add: masterReadyCondition_def ready_condition_settled)
  show ?thesis
    by (simp add: masterStatus_def addCondition_def once_kept [OF once] type ready)
qed

lemma worker_status_idem: "workerStatus sts t' (workerStatus sts t s) = workerStatus sts t s"
  by (simp add: workerStatus_def addCondition_def workersReadyCondition_def ready_condition_settled)

lemma fuse_status_idem: "fuseStatus ds t' (fuseStatus ds t s) = fuseStatus ds t s"
  by (simp add: fuseStatus_def addCondition_def ready_condition_settled)

definition writesNoStatus :: "kevent list \<Rightarrow> bool" where
  "writesNoStatus es \<longleftrightarrow> (\<forall>rt err. WroteRuntimeStatus rt err \<notin> set es)"

lemma RetryOnConflictS_success:
  assumes "wp (fn s) (\<lambda>r h'. \<exists>s'. r = Ret (None, s') \<and> Q (Ret (None, s')) h') h"
  shows "wp (RetryOnConflictS fn s) Q h"
  unfolding RetryOnConflictS_def DefaultBackoff_Steps_def numeral_eq_Suc pred_numeral_simps OnErrorS.simps(2) wp_andThen
  by (rule wp_mono [OF assms]) (auto simp: wp_rules)

text \<open>
  The status settles: if the runtime already carries the status that an earlier check wrote for the same stateful set,
  at whatever times, a check of the master or of the workers succeeds and writes nothing.
\<close>

theorem synced_status_not_written:
  assumes "\<And>h. kwGetRuntime w h kind name namespace = Inr rt"
    and "clGetStatefulSet (kwCluster w h) (opHistory h) stsName1 namespace = Inr sts"
  shows "(roStatus rt = masterStatus sts t1 t2 s \<longrightarrow>
      (\<exists>es. CheckAndSyncMasterStatus w kind name namespace stsName1 h = (Ret (phaseReady (stsPhase sts), None), h @ es) \<and>
         writesNoStatus es)) \<and>
    (roStatus rt = workerStatus sts t s \<longrightarrow>
      (\<exists>es. CheckAndSyncWorkerStatus w kind name namespace stsName1 h = (Ret (phaseReady (stsPhase sts), None), h @ es) \<and>
         writesNoStatus es))"
proof (intro conjI impI)
  assume st: "roStatus rt = masterStatus sts t1 t2 s"
  have "wp (CheckAndSyncMasterStatus w kind name namespace stsName1)
      (\<lambda>r h'. r = Ret (phaseReady (stsPhase sts), None) \<and> (\<exists>es. h' = h @ es \<and> writesNoStatus es)) h"
    unfolding CheckAndSyncMasterStatus_def GetStatefulSet_def masterOnce_def getRuntimeObject_def
    using assms by (auto simp: wp_rules Let_def st wp_writeIfChanged master_status_idem writesNoStatus_def
        intro!: RetryOnConflictS_success wp_clock)
  then show "\<exists>es. CheckAndSyncMasterStatus w kind name namespace stsName1 h =
      (Ret (phaseReady (stsPhase sts), None), h @ es) \<and> writesNoStatus es"
    by (auto simp: wp_def split: prod.splits)
next
  assume st: "roStatus rt = workerStatus sts t s"
  have "wp (CheckAndSyncWorkerStatus w kind name namespace stsName1)
      (\<lambda>r h'. r = Ret (phaseReady (stsPhase sts), None) \<and> (\<exists>es. h' = h @ es \<and> writesNoStatus es)) h"
    unfolding CheckAndSyncWorkerStatus_def GetStatefulSet_def workerOnce_def getRuntimeObject_def
    using assms by (auto simp: wp_rules Let_def st wp_writeIfChanged worker_status_idem writesNoStatus_def
        intro!: RetryOnConflictS_success wp_clock)
  then show "\<exists>es. CheckAndSyncWorkerStatus w kind name namespace stsName1 h =
      (Ret (phaseReady (stsPhase sts), None), h @ es) \<and> writesNoStatus es"
    by (auto simp: wp_def split: prod.splits)
qed

section \<open>Scaling the workers\<close>

fun quietSts :: "kevent \<Rightarrow> bool" where
  "quietSts (Op (UpdatedStatefulSet _ _)) = False"
| "quietSts _ = True"

lemma quietSts_notin: "list_all quietSts es \<Longrightarrow> Op (UpdatedStatefulSet s a) \<notin> set es"
  by (auto simp: list_all_iff)

lemma wp_BuildWorkersAffinity:
  "wp (BuildWorkersAffinity w info workers)
     (\<lambda>r h'. \<exists>a. r = Ret a \<and> (\<exists>es. h' = h @ es \<and> list_all quietSts es) \<and>
        (\<forall>workers'. a = Inr workers' \<longrightarrow> workers' = workers \<and> stsAffinity workers \<noteq> None \<or>
           stsAffinity workers = None \<and> checkWorkerAffinity info workers' \<and>
           workers' = workers\<lparr>stsAffinity := stsAffinity workers'\<rparr>)) h"
  unfolding BuildWorkersAffinity_def GetDataset_def
  by (auto simp: wp_rules Let_def checkWorkerAffinity_def workersNodeAffinity_def requirementIn_def
      split: sum.splits option.splits)

definition scaledTo :: "RuntimeInfo \<Rightarrow> int \<Rightarrow> StatefulSet \<Rightarrow> StatefulSet \<Rightarrow> bool" where
  "scaledTo info n workers workers' \<longleftrightarrow>
     stsReplicas workers' = Some n \<and> workers' = workers\<lparr>stsReplicas := Some n, stsAffinity := stsAffinity workers'\<rparr> \<and>
     (if stsAffinity workers = None then checkWorkerAffinity info workers' else stsAffinity workers' = stsAffinity workers)"

definition scaleTrace :: "RuntimeInfo \<Rightarrow> int \<Rightarrow> StatefulSet \<Rightarrow> kevent list \<Rightarrow> kevent list \<Rightarrow> bool" where
  "scaleTrace info n workers h h' \<longleftrightarrow>
     (\<exists>workers' es es'. scaledTo info n workers workers' \<and>
        h' = h @ es @ Op (UpdatedStatefulSet workers' None) # es' \<and> list_all quietSts es \<and> list_all quietSts es')"

lemma emits_initWorkers:
  "emits quietSts (initWorkersStatus w runtime currentStatus workers)"
  unfolding initWorkersStatus_def now_def updateRuntimeStatus_def Let_def by (auto intro!: emits_rules)

lemma wp_initWorkers:
  "wp (initWorkersStatus w runtime currentStatus workers) (\<lambda>_ h'. \<exists>es. h' = h @ es \<and> list_all quietSts es) h"
  by (rule wp_emits [OF emits_initWorkers])

lemma wp_initWorkers_trace:
  assumes "scaledTo info n workers workers'" and "list_all quietSts es"
  shows "wp (initWorkersStatus w runtime currentStatus workers') (\<lambda>r h'. r = Ret None \<longrightarrow> scaleTrace info n workers h h')
    (h @ es @ [Op (UpdatedStatefulSet workers' None)])"
  using assms by (intro wp_mono [OF wp_initWorkers]) (fastforce simp: scaleTrace_def)

lemma scaledTo_built:
  "workers' = workers \<and> stsAffinity workers \<noteq> None \<or>
   stsAffinity workers = None \<and> checkWorkerAffinity info workers' \<and> workers' = workers\<lparr>stsAffinity := stsAffinity workers'\<rparr> \<Longrightarrow>
     scaledTo info n workers (workers'\<lparr>stsReplicas := Some n\<rparr>)"
  by (cases workers; cases workers') (auto simp: scaledTo_def checkWorkerAffinity_def)

lemma wp_SetupWorkers:
  assumes "expectReplicas workers \<noteq> roReplicas runtime"
  shows "wp (SetupWorkers w info runtime currentStatus workers)
    (\<lambda>r h'. r = Ret None \<longrightarrow> scaleTrace info (roReplicas runtime) workers h h') h"
  using assms unfolding SetupWorkers_def updateStatefulSet_def
  by (simp add: wp_andThen [of "BuildWorkersAffinity w info workers"], intro wp_mono [OF wp_BuildWorkersAffinity])
     (auto simp: wp_rules Let_def split: sum.splits intro!: wp_initWorkers_trace scaledTo_built)

text \<open>
  If the workers are set up without an error, either they already had the wanted number of replicas and their stateful
  set is not written, or it is written with the wanted number and with nothing else changed but the affinity, which is
  added only if there was none and then prefers the nodes that run the fuse of the dataset.
\<close>

theorem workers_scaled:
  assumes "SetupWorkers w info runtime currentStatus workers h = (Ret None, h')"
  shows "if expectReplicas workers = roReplicas runtime
    then \<forall>s a. Op (UpdatedStatefulSet s a) \<notin> set (drop (length h) h')
    else \<exists>workers'. scaledTo info (roReplicas runtime) workers workers' \<and>
      Op (UpdatedStatefulSet workers' None) \<in> set (drop (length h) h') \<and>
      (\<forall>s a. Op (UpdatedStatefulSet s a) \<in> set (drop (length h) h') \<longrightarrow> s = workers')"
proof (cases "expectReplicas workers = roReplicas runtime")
  case True
  with assms have "initWorkersStatus w runtime currentStatus workers h = (Ret None, h')" by (simp add: SetupWorkers_def)
  with wp_initWorkers [of w runtime currentStatus workers h] True show ?thesis by (auto simp: wp_def quietSts_notin)
next
  case False
  from wp_SetupWorkers [OF False, of w info currentStatus h] obtain workers' es es'
    where "scaledTo info (roReplicas runtime) workers workers'"
      "h' = h @ es @ Op (UpdatedStatefulSet workers' None) # es'" "list_all quietSts es" "list_all quietSts es'"
    using assms by (auto simp: wp_def scaleTrace_def)
  with False show ?thesis by (auto simp: quietSts_notin)
qed

text \<open>
  If the stateful set of the workers has no replica count and no worker is wanted, the setup of the workers
  dereferences nil.
\<close>

theorem setup_nil_replicas_panics:
  assumes "stsReplicas workers = None" and "roReplicas runtime = 0"
  shows "SetupWorkers w info runtime currentStatus workers h =
    (Panic ''invalid memory address or nil pointer dereference'', h)"
  using assms by (simp add: SetupWorkers_def expectReplicas_def initWorkersStatus_def panic_def)

section \<open>Taking labels off the nodes\<close>

lemma tearDown_removes: "tearDownLabels info node = removeLabels info node []"
  by (simp add: tearDownLabels_def removeLabels_def)

fun unlabelEvent :: "string \<Rightarrow> kevent \<Rightarrow> string option" where
  "unlabelEvent key (PatchedNode n patch None) = (if patch = [(key, None)] then Some n else None)"
| "unlabelEvent key _ = None"

abbreviation unlabelled :: "string \<Rightarrow> kevent list \<Rightarrow> string list" where
  "unlabelled key \<equiv> List.map_filter (unlabelEvent key)"

lemma labelValuePair_delete: "labelValuePair (labelsDelete key []) = [(key, None)]"
  by (simp add: labelValuePair_def labelsDelete_def labelsOperator_def assignAll_def)

lemma wp_cleanFuseLabels:
  "wp (cleanFuseLabels w (labelsDelete key []) nodes count)
     (\<lambda>r h'. \<exists>es n err. h' = h @ es \<and> r = Ret (n, err) \<and> n = count + int (length (unlabelled key es)) \<and>
        (err = None \<longrightarrow> unlabelled key es = map nodeName nodes)) h"
proof (induction nodes arbitrary: count h)
  case Nil
  then show ?case by (simp add: wp_rules map_filter_simps)
next
  case (Cons node nodes)
  have "wp (cleanFuseLabels w (labelsDelete key []) nodes (count + 1))
     (\<lambda>r h'. \<exists>es n err. h' = h @ es \<and> r = Ret (n, err) \<and> n = count + int (length (unlabelled key es)) \<and>
        (err = None \<longrightarrow> unlabelled key es = map nodeName (node # nodes)))
     (h @ [PatchedNode (nodeName node) [(key, None)] None])"
    by (rule wp_mono [OF Cons.IH]) (fastforce simp: map_filter_simps)
  then show ?case
    by (auto simp: ChangeNodeLabelWithPatchMode_def PatchLabels_def wp_rules labelValuePair_delete map_filter_simps
        split: option.splits sum.splits)
qed

text \<open>
  The cleanup of the fuses reports exactly the number of nodes whose fuse label it took off, and without an error these
  are all the nodes that were listed with the label.
\<close>

theorem fuse_labels_counted:
  assumes "CleanUpFuse w info h = (Ret (count, err), h')"
  shows "count = int (length (unlabelled (fuseLabel info) (drop (length h) h'))) \<and>
    (err = None \<longrightarrow> (\<exists>nodes. ListedNodes (fuseLabel info) ''true'' (Inr nodes) \<in> set (drop (length h) h') \<and>
       unlabelled (fuseLabel info) (drop (length h) h') = map nodeName nodes))"
proof -
  have "wp (CleanUpFuse w info)
      (\<lambda>r h'. \<exists>es n err. h' = h @ es \<and> r = Ret (n, err) \<and> n = int (length (unlabelled (fuseLabel info) es)) \<and>
        (err = None \<longrightarrow> (\<exists>nodes. ListedNodes (fuseLabel info) ''true'' (Inr nodes) \<in> set es \<and>
           unlabelled (fuseLabel info) es = map nodeName nodes))) h"
    unfolding CleanUpFuse_def Let_def fuseLabel_def [symmetric]
    by (auto simp: wp_rules map_filter_simps split: option.splits sum.splits intro!: wp_mono [OF wp_cleanFuseLabels])
  with assms show ?thesis by (auto simp: wp_def)
qed

section \<open>Examples\<close>

definition runningSet :: "string \<Rightarrow> StatefulSet" where
  "runningSet name =
     \<lparr>stsName = name, stsNamespace = ''default'', stsUID = ''s1'', stsSelector = '''', stsReplicas = Some 2,
      stsNodeSelector = [], stsAffinity = None, stsStatusReplicas = 2, stsReadyReplicas = 1, stsAvailableReplicas = 1\<rparr>"

definition emptyStatus :: RuntimeStatus where
  "emptyStatus =
     \<lparr>rsValueFileConfigmap = '''', rsMasterPhase = '''', rsWorkerPhase = '''', rsFusePhase = '''', rsFuseReason = '''',
      rsDesiredMaster = 0, rsCurrentMaster = 0, rsMasterReady = 0, rsDesiredWorker = 0, rsCurrentWorker = 0,
      rsWorkerReady = 0, rsWorkerAvailable = 0, rsWorkerUnavailable = 0, rsDesiredFuse = 0, rsCurrentFuse = 0,
      rsFuseReady = 0, rsFuseAvailable = 0, rsFuseUnavailable = 0, rsSetupDuration = '''', rsConditions = [],
      rsCacheStates = [], rsSelector = '''', rsAPIGatewayStatus = None, rsMountTime = None, rsMounts = [], rsCacheAffinity = None\<rparr>"

definition exampleRuntime :: RuntimeObject where
  "exampleRuntime =
     \<lparr>roKind = ''AlluxioRuntime'', roMeta = dMeta exampleDataset, roReplicas = 3, roMasterReplicas = 1,
      roHostNetwork = False, roTieredStore = [], roFuseNodeSelector = [], roFuseCleanPolicy = '''', roFuseScrapeTarget = '''',
      roAPIGateway = False, roGracefulShutdown = None, roCleanGracePeriod = None, roAutoSync = None,
      roStatus = emptyStatus\<rparr>"

definition runningWorld :: "RuntimeObject \<Rightarrow> world" where
  "runningWorld rt = downWorld
     \<lparr>kwCluster := \<lambda>_. downCluster\<lparr>clGetStatefulSet := \<lambda>_ n _. Inr (runningSet n), clUpdateStatefulSet := \<lambda>_ _. None,
                                    clGetDataset := \<lambda>_ _ _. Inr exampleDataset\<rparr>,
      kwGetRuntime := \<lambda>_ _ _ _. Inr rt, kwUpdateRuntimeStatus := \<lambda>_ _. None,
      kwListNodes := \<lambda>_ _ _. Inr [nodeNamed [], nodeNamed []], kwPatchNode := \<lambda>_ _ _. None\<rparr>"

lemma runningWorld_simps [simp]:
  "kwCluster (runningWorld rt) h = downCluster\<lparr>clGetStatefulSet := \<lambda>_ n _. Inr (runningSet n), clUpdateStatefulSet := \<lambda>_ _. None,
                                    clGetDataset := \<lambda>_ _ _. Inr exampleDataset\<rparr>"
  "kwGetRuntime (runningWorld rt) h a b c = Inr rt" "kwUpdateRuntimeStatus (runningWorld rt) h rt' = None"
  "kwListNodes (runningWorld rt) h a b = Inr [nodeNamed [], nodeNamed []]" "kwPatchNode (runningWorld rt) h a p = None"
  "kwBadSelector (runningWorld rt) s = None"
  by (simp_all add: runningWorld_def downWorld_def)

lemma running_ready: "stsPhase (runningSet n) = ''PartialReady''"
  by (simp add: stsPhase_def runningSet_def expectReplicas_def GetPhaseFromStatefulset_def)

lemma running_syncs:
  "\<exists>h'. CheckAndSyncMasterStatus (runningWorld exampleRuntime) k n ns m [] = (Ret (True, None), h')"
  "\<exists>h'. CheckAndSyncWorkerStatus (runningWorld exampleRuntime) k n ns m [] = (Ret (True, None), h')"
proof -
  have "wp (CheckAndSyncMasterStatus (runningWorld exampleRuntime) k n ns m) (\<lambda>r _. r = Ret (True, None)) []"
    "wp (CheckAndSyncWorkerStatus (runningWorld exampleRuntime) k n ns m) (\<lambda>r _. r = Ret (True, None)) []"
    unfolding CheckAndSyncMasterStatus_def CheckAndSyncWorkerStatus_def GetStatefulSet_def masterOnce_def workerOnce_def
      getRuntimeObject_def
    by (auto simp: wp_rules Let_def wp_writeIfChanged running_ready phaseReady_def
        intro!: RetryOnConflictS_success wp_clock exI [of _ True])
  then show "\<exists>h'. CheckAndSyncMasterStatus (runningWorld exampleRuntime) k n ns m [] = (Ret (True, None), h')"
    "\<exists>h'. CheckAndSyncWorkerStatus (runningWorld exampleRuntime) k n ns m [] = (Ret (True, None), h')"
    by (auto simp: wp_def split: prod.splits)
qed

theorem master_status_copied_witness:
  "\<exists>h' s. CheckAndSyncMasterStatus (runningWorld exampleRuntime) ''AlluxioRuntime'' ''demo'' ''default'' ''demo-master'' [] =
     (Ret (True, None), h') \<and> knownStatus h' = Some s \<and> masterCopied (runningSet ''demo-master'') s"
  using running_syncs(1) [of "''AlluxioRuntime''" "''demo''" "''default''" "''demo-master''"]
    master_status_copied [of "runningWorld exampleRuntime" "''AlluxioRuntime''" "''demo''" "''default''" "''demo-master''" "[]"]
  by fastforce

theorem worker_status_copied_witness:
  "\<exists>h' s. CheckAndSyncWorkerStatus (runningWorld exampleRuntime) ''AlluxioRuntime'' ''demo'' ''default'' ''demo-worker'' [] =
     (Ret (True, None), h') \<and> knownStatus h' = Some s \<and> workersCopied (runningSet ''demo-worker'') s"
  using running_syncs(2) [of "''AlluxioRuntime''" "''demo''" "''default''" "''demo-worker''"]
    worker_status_copied [of "runningWorld exampleRuntime" "''AlluxioRuntime''" "''demo''" "''default''" "''demo-worker''" "[]"]
  by fastforce

theorem synced_status_not_written_witness:
  "\<exists>es. CheckAndSyncWorkerStatus
      (runningWorld (exampleRuntime\<lparr>roStatus := workerStatus (runningSet ''demo-worker'') 7 emptyStatus\<rparr>))
      ''AlluxioRuntime'' ''demo'' ''default'' ''demo-worker'' [] =
    (Ret (phaseReady (stsPhase (runningSet ''demo-worker'')), None), [] @ es) \<and> writesNoStatus es"
  by (rule synced_status_not_written [THEN conjunct2, rule_format,
        where rt = "exampleRuntime\<lparr>roStatus := workerStatus (runningSet ''demo-worker'') 7 emptyStatus\<rparr>" and t = 7
          and s = emptyStatus]) simp_all

theorem workers_scaled_witness:
  "\<exists>h' workers'. SetupWorkers (runningWorld exampleRuntime) exampleInfo exampleRuntime emptyStatus (runningSet ''demo-worker'') [] =
      (Ret None, h') \<and> scaledTo exampleInfo 3 (runningSet ''demo-worker'') workers' \<and>
      Op (UpdatedStatefulSet workers' None) \<in> set h'"
proof -
  have "wp (SetupWorkers (runningWorld exampleRuntime) exampleInfo exampleRuntime emptyStatus (runningSet ''demo-worker''))
      (\<lambda>r _. r = Ret None) []"
    unfolding SetupWorkers_def BuildWorkersAffinity_def GetDataset_def updateStatefulSet_def initWorkersStatus_def
      updateRuntimeStatus_def
    by (auto simp: wp_rules Let_def exampleRuntime_def runningSet_def expectReplicas_def checkWorkerAffinity_def
        intro!: wp_clock)
  then obtain h' where run: "SetupWorkers (runningWorld exampleRuntime) exampleInfo exampleRuntime emptyStatus
      (runningSet ''demo-worker'') [] = (Ret None, h')"
    by (auto simp: wp_def split: prod.splits)
  have "expectReplicas (runningSet ''demo-worker'') \<noteq> roReplicas exampleRuntime" "roReplicas exampleRuntime = 3"
    by (simp_all add: exampleRuntime_def runningSet_def expectReplicas_def)
  with workers_scaled [OF run] run show ?thesis by auto
qed

theorem setup_nil_replicas_panics_witness:
  "SetupWorkers downWorld exampleInfo (exampleRuntime\<lparr>roReplicas := 0\<rparr>) emptyStatus
      ((runningSet ''demo-worker'')\<lparr>stsReplicas := None\<rparr>) [] =
    (Panic ''invalid memory address or nil pointer dereference'', [])"
  by (rule setup_nil_replicas_panics) simp_all

theorem fuse_labels_counted_witness:
  "\<exists>h'. CleanUpFuse (runningWorld exampleRuntime) exampleInfo [] = (Ret (2, None), h') \<and>
     length (unlabelled (fuseLabel exampleInfo) h') = 2"
proof -
  have "wp (CleanUpFuse (runningWorld exampleRuntime) exampleInfo) (\<lambda>r _. r = Ret (2, None)) []"
    by (simp add: CleanUpFuse_def Let_def wp_rules ChangeNodeLabelWithPatchMode_def PatchLabels_def)
  then obtain h' where run: "CleanUpFuse (runningWorld exampleRuntime) exampleInfo [] = (Ret (2, None), h')"
    by (auto simp: wp_def split: prod.splits)
  from fuse_labels_counted [OF this] show ?thesis by (auto simp: run)
qed

end
