(* ===== verification/Alluxio_Operations.thy ===== *)
theory Alluxio_Operations
  imports Ctrl_Helper Cmd_Guard
begin

text \<open>
  The commands that Fluid runs in the master pod of Alluxio (\<open>pkg/ddc/alluxio/operations\<close>) on top of the execution in a
  container (\<open>pkg/utils/kubeclient/exec.go\<close>), which passes every command through the command guard of \<open>Cmd_Guard\<close>.
  What a command prints is the answer of the environment; connecting to the pod and timeouts are part of that answer.
  The options of a mount are a list in the order in which Go enumerates its map.
\<close>

section \<open>exec.go\<close>

definition guardRejected :: goerr where
  "guardRejected = Err ''the command is rejected by the command guard''"

definition ExecWithOptions ::
  "world \<Rightarrow> string \<Rightarrow> string \<Rightarrow> string \<Rightarrow> string list \<Rightarrow> (goerr + string) kgo" where
  "ExecWithOptions w pod container namespace command h =
     (case ValidateCommandSlice (clLookPath (kwCluster w h)) command of
        Some _ \<Rightarrow> ret (Inl guardRejected) h
      | None \<Rightarrow>
          call (\<lambda>h. case kwExec w h pod container namespace command of
                       Inl e \<Rightarrow> Inl e | Inr stdout \<Rightarrow> Inr (TrimSpace stdout))
            (Executed pod container namespace command) h)"

section \<open>base.go\<close>

record AlluxioFileUtils =
  afPodName :: string
  afContainer :: string
  afNamespace :: string

definition NewAlluxioFileUtils :: "string \<Rightarrow> string \<Rightarrow> string \<Rightarrow> AlluxioFileUtils" where
  "NewAlluxioFileUtils podName containerName namespace =
     \<lparr>afPodName = podName, afContainer = containerName, afNamespace = namespace\<rparr>"

definition exec :: "world \<Rightarrow> AlluxioFileUtils \<Rightarrow> string list \<Rightarrow> (goerr + string) kgo" where
  "exec w a command =
     andThen (ExecWithOptions w (afPodName a) (afContainer a) (afNamespace a) command) (\<lambda>r.
     ret (case r of Inl e \<Rightarrow> Inl (Wrapped ''error when executing command'' e) | Inr stdout \<Rightarrow> Inr stdout))"

definition runs :: "world \<Rightarrow> AlluxioFileUtils \<Rightarrow> string list \<Rightarrow> (goerr option) kgo" where
  "runs w a command =
     andThen (exec w a command) (\<lambda>r. ret (case r of Inl e \<Rightarrow> Some e | Inr _ \<Rightarrow> None))"

definition Ready :: "world \<Rightarrow> AlluxioFileUtils \<Rightarrow> bool kgo" where
  "Ready w a = andThen (runs w a [''alluxio'', ''fsadmin'', ''report'']) (\<lambda>err. ret (err = None))"

definition ReportSummary :: "world \<Rightarrow> AlluxioFileUtils \<Rightarrow> (goerr + string) kgo" where
  "ReportSummary w a = exec w a [''alluxio'', ''fsadmin'', ''report'', ''summary'']"

definition ReportMetrics :: "world \<Rightarrow> AlluxioFileUtils \<Rightarrow> (goerr + string) kgo" where
  "ReportMetrics w a = exec w a [''alluxio'', ''fsadmin'', ''report'', ''metrics'']"

definition ReportCapacity :: "world \<Rightarrow> AlluxioFileUtils \<Rightarrow> (goerr + string) kgo" where
  "ReportCapacity w a = exec w a [''alluxio'', ''fsadmin'', ''report'', ''capacity'']"

definition LoadMetadataWithoutTimeout :: "world \<Rightarrow> AlluxioFileUtils \<Rightarrow> string \<Rightarrow> (goerr option) kgo" where
  "LoadMetadataWithoutTimeout w a alluxioPath =
     runs w a [''alluxio'', ''fs'', ''loadMetadata'', ''-R'', alluxioPath]"

text \<open>The script quotes the line number with the character 0x27.\<close>

definition metadataQuery :: "string \<Rightarrow> string \<Rightarrow> string list" where
  "metadataQuery key filename =
     (let line = (if key = ''dataset'' then ''1p'' else if key = ''namespace'' then ''2p''
                  else if key = ''ufstotal'' then ''3p'' else if key = ''filenum'' then ''4p'' else '''') in
      [''bash'', ''-c'', ''sed -n '' @ [CHR 0x27] @ line @ [CHR 0x27] @ '' '' @ filename])"

definition QueryMetaDataInfoIntoFile :: "world \<Rightarrow> AlluxioFileUtils \<Rightarrow> string \<Rightarrow> string \<Rightarrow> (goerr + string) kgo" where
  "QueryMetaDataInfoIntoFile w a key filename =
     andThen (exec w a (metadataQuery key filename)) (\<lambda>r.
     ret (case r of Inl e \<Rightarrow> Inl e | Inr stdout \<Rightarrow> Inr (TrimPrefix stdout (key @ '': ''))))"

definition ExecMountScripts :: "world \<Rightarrow> AlluxioFileUtils \<Rightarrow> (goerr option) kgo" where
  "ExecMountScripts w a = runs w a [''/etc/fluid/scripts/mount.sh'']"

definition mountCommand :: "string \<Rightarrow> string \<Rightarrow> (string \<times> string) list \<Rightarrow> bool \<Rightarrow> bool \<Rightarrow> string list" where
  "mountCommand alluxioPath ufsPath options readOnly shared =
     [''alluxio'', ''fs'', ''mount''] @ (if readOnly then [''--readonly''] else []) @
     (if shared then [''--shared''] else []) @
     concat (map (\<lambda>(key, value). [''--option'', key @ ''='' @ value]) options) @ [alluxioPath, ufsPath]"

definition Mount ::
  "world \<Rightarrow> AlluxioFileUtils \<Rightarrow> string \<Rightarrow> string \<Rightarrow> (string \<times> string) list \<Rightarrow> bool \<Rightarrow> bool \<Rightarrow> (goerr option) kgo" where
  "Mount w a alluxioPath ufsPath options readOnly shared =
     runs w a (mountCommand alluxioPath ufsPath options readOnly shared)"

definition UnMount :: "world \<Rightarrow> AlluxioFileUtils \<Rightarrow> string \<Rightarrow> (goerr option) kgo" where
  "UnMount w a alluxioPath = runs w a [''alluxio'', ''fs'', ''unmount'', alluxioPath]"

abbreviation indexPanic :: string where
  "indexPanic \<equiv> ''index out of range''"

abbreviation newline :: char where
  "newline \<equiv> CHR 0x0A"

text \<open>The lines are read until one names the path; a line with fewer than three fields panics.\<close>

fun mountedIn :: "string \<Rightarrow> string list \<Rightarrow> (goerr + bool) kgo" where
  "mountedIn alluxioPath [] = ret (Inr False)"
| "mountedIn alluxioPath (line # lines) =
     (case Fields line of
        _ # _ # path # _ \<Rightarrow> if path = alluxioPath then ret (Inr True) else mountedIn alluxioPath lines
      | _ \<Rightarrow> panic indexPanic)"

definition IsMounted :: "world \<Rightarrow> AlluxioFileUtils \<Rightarrow> string \<Rightarrow> (goerr + bool) kgo" where
  "IsMounted w a alluxioPath =
     andThen (exec w a [''alluxio'', ''fs'', ''mount'']) (\<lambda>r.
     case r of
       Inl e \<Rightarrow> ret (Inl e)
     | Inr stdout \<Rightarrow> mountedIn alluxioPath (Split newline stdout))"

fun mountTable :: "string list \<Rightarrow> string list \<Rightarrow> (string list) kgo" where
  "mountTable [] acc = ret acc"
| "mountTable (line # lines) acc =
     (case Fields line of
        _ # _ # path # _ \<Rightarrow> mountTable lines (acc @ [path])
      | _ \<Rightarrow> panic indexPanic)"

definition GetMountedAlluxioPaths :: "world \<Rightarrow> AlluxioFileUtils \<Rightarrow> (string list \<times> goerr option) kgo" where
  "GetMountedAlluxioPaths w a =
     andThen (exec w a [''alluxio'', ''fs'', ''mount'']) (\<lambda>r.
     case r of
       Inl e \<Rightarrow> ret ([], Some e)
     | Inr stdout \<Rightarrow> andThen (mountTable (Split newline stdout) []) (\<lambda>paths. ret (paths, None)))"

definition FindUnmountedAlluxioPaths ::
  "world \<Rightarrow> AlluxioFileUtils \<Rightarrow> string list \<Rightarrow> (string list \<times> goerr option) kgo" where
  "FindUnmountedAlluxioPaths w a alluxioPaths =
     andThen (GetMountedAlluxioPaths w a) (\<lambda>(mountedPaths, err).
     if err \<noteq> None then ret ([], err) else ret (SubtractString alluxioPaths mountedPaths, err))"

definition parseCount :: "string \<Rightarrow> goerr + (int \<times> int \<times> int)" where
  "parseCount stdout =
     (case Split newline stdout of
        [_, counts] \<Rightarrow>
          (case Fields counts of
             [fileStr, folderStr, totalStr] \<Rightarrow>
               (case (ParseInt fileStr 10 64, ParseInt folderStr 10 64, ParseInt totalStr 10 64) of
                  (Some n, Some m, Some t) \<Rightarrow>
                    if n < 0 \<or> m < 0 \<or> t < 0 then Inl (Err ''the return value of Count method is negative'')
                    else Inr (n, m, t)
                | _ \<Rightarrow> Inl (Err ''strconv.ParseInt: invalid syntax''))
           | _ \<Rightarrow> Inl (Err (''failed to parse '' @ counts @ '' in Count method'')))
      | _ \<Rightarrow> Inl (Err (''failed to parse '' @ stdout @ '' in Count method'')))"

definition Count :: "world \<Rightarrow> AlluxioFileUtils \<Rightarrow> string \<Rightarrow> (goerr + (int \<times> int \<times> int)) kgo" where
  "Count w a alluxioPath =
     andThen (exec w a [''alluxio'', ''fs'', ''count'', alluxioPath]) (\<lambda>r.
     ret (case r of Inl e \<Rightarrow> Inl e | Inr stdout \<Rightarrow> parseCount stdout))"

text \<open>The first digits of the output once its commas are removed.\<close>

definition parseFileCount :: "string \<Rightarrow> goerr + int" where
  "parseFileCount stdout =
     (let fileCountStr = takeWhile isDigit (dropWhile (\<lambda>c. \<not> isDigit c) (filter (\<lambda>c. c \<noteq> CHR '','') stdout)) in
      case ParseInt fileCountStr 10 64 of
        None \<Rightarrow> Inl (Err (''strconv.ParseInt: parsing '' @ fileCountStr))
      | Some n \<Rightarrow> Inr n)"

definition GetFileCount :: "world \<Rightarrow> AlluxioFileUtils \<Rightarrow> (goerr + int) kgo" where
  "GetFileCount w a =
     andThen (exec w a [''bash'', ''-c'', ''alluxio fsadmin report metrics | grep Master.FilesCompleted'']) (\<lambda>r.
     ret (case r of Inl e \<Rightarrow> Inl e | Inr stdout \<Rightarrow> parseFileCount stdout))"

text \<open>The second line is read without a check that there is one, and the third field with a check for two.\<close>

definition MasterPodName :: "world \<Rightarrow> AlluxioFileUtils \<Rightarrow> (string \<times> goerr option) kgo" where
  "MasterPodName w a =
     andThen (exec w a [''alluxio'', ''fsadmin'', ''report'']) (\<lambda>r.
     case r of
       Inl e \<Rightarrow> ret (afPodName a, Some e)
     | Inr stdout \<Rightarrow>
         (case Split newline stdout of
            _ # line # _ \<Rightarrow>
              if length (Fields line) < 2 then ret (afPodName a, Some (Err ''get wrong result when using command''))
              else (case Fields line of
                      _ # _ # address # _ \<Rightarrow> ret (hd (Split CHR '':'' address), None)
                    | _ \<Rightarrow> panic indexPanic)
          | _ \<Rightarrow> panic indexPanic))"

section \<open>cached.go, conf.go and local.go\<close>

definition CleanCache :: "world \<Rightarrow> AlluxioFileUtils \<Rightarrow> string \<Rightarrow> int \<Rightarrow> (goerr option) kgo" where
  "CleanCache w a path timeout =
     andThen (exec w a [''timeout'', Itoa timeout, ''alluxio'', ''fs'', ''free'', ''-f'', path]) (\<lambda>r.
     ret (case r of
            Inl e \<Rightarrow> Some (Err (''execute command with expectedErr: '' @ errText e))
          | Inr _ \<Rightarrow> None))"

definition GetConf :: "world \<Rightarrow> AlluxioFileUtils \<Rightarrow> string \<Rightarrow> (goerr + string) kgo" where
  "GetConf w a key =
     andThen (exec w a [''alluxio'', ''getConf'', key]) (\<lambda>r.
     ret (case r of
            Inl e \<Rightarrow> Inl (Err (''execute command with expectedErr: '' @ errText e))
          | Inr stdout \<Rightarrow> Inr stdout))"

definition SyncLocalDir :: "world \<Rightarrow> AlluxioFileUtils \<Rightarrow> string \<Rightarrow> (goerr option) kgo" where
  "SyncLocalDir w a path = runs w a [''du'', ''-sh'', path]"

section \<open>port_parser.go\<close>

definition propertiesToCheck :: "string list" where
  "propertiesToCheck =
     [''alluxio.master.rpc.port'', ''alluxio.master.web.port'', ''alluxio.worker.rpc.port'',
      ''alluxio.worker.web.port'', ''alluxio.job.master.rpc.port'', ''alluxio.job.master.web.port'',
      ''alluxio.job.worker.rpc.port'', ''alluxio.job.worker.web.port'', ''alluxio.job.worker.data.port'',
      ''alluxio.proxy.web.port'', ''alluxio.master.embedded.journal.port'',
      ''alluxio.job.master.embedded.journal.port'']"

fun portsOf :: "(string \<times> string) list \<Rightarrow> string list \<Rightarrow> goerr + int list" where
  "portsOf properties [] = Inr []"
| "portsOf properties (property # rest) =
     (case map_of properties property of
        None \<Rightarrow> portsOf properties rest
      | Some portStr \<Rightarrow>
          (case Atoi portStr of
             None \<Rightarrow> Inl (Err (''strconv.Atoi: parsing '' @ portStr))
           | Some port \<Rightarrow> (case portsOf properties rest of Inl e \<Rightarrow> Inl e | Inr ports \<Rightarrow> Inr (port # ports))))"

text \<open>\<open>unmarshal\<close> is \<open>yaml.Unmarshal\<close> into the values of the chart, of which the properties are read.\<close>

definition parsePortsFromConfigMap ::
  "(string \<Rightarrow> goerr + (string \<times> string) list) \<Rightarrow> ConfigMap \<Rightarrow> goerr + int list" where
  "parsePortsFromConfigMap unmarshal configMap =
     (case map_of (cmData configMap) ''data'' of
        None \<Rightarrow> Inr []
      | Some v \<Rightarrow> (case unmarshal v of Inl e \<Rightarrow> Inl e | Inr properties \<Rightarrow> portsOf properties propertiesToCheck))"

section \<open>The guard in front of the commands\<close>

lemma wp_ExecWithOptions [wp_rules]:
  "wp (ExecWithOptions w pod container namespace command) Q h =
     (if ValidateCommandSlice (clLookPath (kwCluster w h)) command = None
      then let a = (case kwExec w h pod container namespace command of
                      Inl e \<Rightarrow> Inl e | Inr stdout \<Rightarrow> Inr (TrimSpace stdout)) in
           Q (Ret a) (h @ [Executed pod container namespace command a])
      else Q (Ret (Inl guardRejected)) h)"
  by (auto simp: wp_def ExecWithOptions_def call_def ret_def Let_def split: option.splits)

lemma emits_ExecWithOptions [emits_rules]:
  "(\<And>a. P (Executed pod container namespace command a)) \<Longrightarrow>
     emits P (ExecWithOptions w pod container namespace command)"
  by (auto simp: emits_def ExecWithOptions_def call_def ret_def split: option.splits)

lemma emits_exec [emits_rules]: "(\<And>p c n cmd a. P (Executed p c n cmd a)) \<Longrightarrow> emits P (exec w a command)"
  unfolding exec_def by (auto intro!: emits_rules)

lemma emits_runs [emits_rules]: "(\<And>p c n cmd a. P (Executed p c n cmd a)) \<Longrightarrow> emits P (runs w a command)"
  unfolding runs_def by (auto intro!: emits_rules)

text \<open>A command that is neither helm nor a shell passes if and only if its arguments are clean.\<close>

lemma plain_command_accepted:
  assumes "cmd \<notin> {''ddc-helm'', ''bash'', ''sh''}"
    and "LookPath ''ddc-helm'' \<noteq> Some cmd" "LookPath ''bash'' \<noteq> Some cmd" "LookPath ''sh'' \<noteq> Some cmd"
  shows "ValidateCommandSlice LookPath (cmd # args) = None \<longleftrightarrow> (\<forall>a\<in>set args. \<forall>c\<in>set illegalChars. c \<notin> set a)"
  using assms
  by (simp add: ValidateCommandSlice_def enabledIn_allowedPathList enabledIn_shellCommandList checkCommandArgs_iff)

text \<open>
  The two values that a restore needs are never read: the script that reads them quotes its argument, the command
  guard rejects every script with a quote, so the query fails without running anything.
\<close>

theorem restore_query_rejected:
  assumes "clLookPath (kwCluster w h) ''ddc-helm'' \<noteq> Some ''bash''"
  shows "QueryMetaDataInfoIntoFile w a key filename h =
    (Ret (Inl (Wrapped ''error when executing command'' guardRejected)), h)"
proof -
  let ?cmd = "metadataQuery key filename"
  have quoted: "CHR 0x27 \<in> set (?cmd ! 2)" "?cmd = [''bash'', ''-c'', ?cmd ! 2]"
    by (simp_all add: metadataQuery_def Let_def)
  have "ValidateCommandSlice (clLookPath (kwCluster w h)) ?cmd \<noteq> None"
  proof
    assume "ValidateCommandSlice (clLookPath (kwCluster w h)) ?cmd = None"
    then have "CHR 0x27 \<notin> set (?cmd ! 2)"
      by (subst (asm) quoted(2), elim guard_clean) (use assms in \<open>simp_all add: injectionChars_def\<close>)
    with quoted(1) show False by simp
  qed
  then have "wp (QueryMetaDataInfoIntoFile w a key filename)
      (\<lambda>r h'. r = Ret (Inl (Wrapped ''error when executing command'' guardRejected)) \<and> h' = h) h"
    by (simp add: QueryMetaDataInfoIntoFile_def exec_def wp_rules del: One_nat_def)
  then show ?thesis by (simp add: wp_def split: prod.splits)
qed

text \<open>The tool \<open>alluxio\<close> is not where the guard looks up a shell or helm.\<close>

definition shellFree :: "world \<Rightarrow> kevent list \<Rightarrow> bool" where
  "shellFree w h \<longleftrightarrow> (\<forall>tool\<in>{''ddc-helm'', ''bash'', ''sh''}. clLookPath (kwCluster w h) tool \<noteq> Some ''alluxio'')"

lemma option_arguments:
  assumes "c \<notin> set option1" and "c \<noteq> e"
  shows "(\<forall>x\<in>set (concat (map (\<lambda>(k, v). [option1, k @ [e] @ v]) options)). c \<notin> set x) \<longleftrightarrow>
    c \<notin> (\<Union>(k, v)\<in>set options. set k \<union> set v)"
proof -
  have "list_all (\<lambda>x. c \<notin> set x) (concat (map (\<lambda>(k, v). [option1, k @ [e] @ v]) options)) =
      list_all (\<lambda>(k, v). c \<notin> set k \<and> c \<notin> set v) options"
    using assms by (induction options) (simp_all split: prod.splits)
  then show ?thesis by (auto simp: list_all_iff)
qed

lemma mount_argument:
  assumes "c \<in> set illegalChars"
  shows "(\<forall>x\<in>set (tl (mountCommand alluxioPath ufsPath options readOnly shared)). c \<notin> set x) \<longleftrightarrow>
      c \<notin> set alluxioPath \<union> set ufsPath \<union> (\<Union>(k, v)\<in>set options. set k \<union> set v)"
proof -
  have c: "c \<notin> set ''fs''" "c \<notin> set ''mount''" "c \<notin> set ''--readonly''" "c \<notin> set ''--shared''"
    "c \<notin> set ''--option''" "c \<noteq> CHR ''=''"
    using assms by (auto simp: illegalChars_def)
  define flags where "flags = [''fs'', ''mount''] @ (if readOnly then [''--readonly''] else []) @ (if shared then [''--shared''] else [])"
  have flags: "\<forall>x\<in>set flags. c \<notin> set x"
    unfolding flags_def using c(1-4) by (simp only: set_append ball_Un list.set ball_simps split: if_splits) simp
  have "tl (mountCommand alluxioPath ufsPath options readOnly shared) =
      flags @ concat (map (\<lambda>(k, v). [''--option'', k @ [CHR ''=''] @ v]) options) @ [alluxioPath, ufsPath]"
    by (simp add: mountCommand_def flags_def)
  then show ?thesis
    using flags option_arguments [OF c(5,6), of options] by (simp only: set_append ball_Un) auto
qed

lemma mount_arguments:
  "(\<forall>x\<in>set (tl (mountCommand alluxioPath ufsPath options readOnly shared)). \<forall>c\<in>set illegalChars. c \<notin> set x) \<longleftrightarrow>
     \<not> (\<exists>c\<in>set illegalChars. c \<in> set alluxioPath \<union> set ufsPath \<union> (\<Union>(k, v)\<in>set options. set k \<union> set v))"
proof -
  have "(\<forall>x\<in>X. \<forall>c\<in>I. c \<notin> set x) \<longleftrightarrow> (\<forall>c\<in>I. \<forall>x\<in>X. c \<notin> set x)" for X :: "string set" and I by blast
  then show ?thesis by (simp only: mount_argument bex_simps cong: ball_cong)
qed

text \<open>
  A mount is run if and only if neither its paths nor the names and values of its options contain a character that
  the command guard forbids, whatever secret the values come from; otherwise it fails without running anything.
\<close>

theorem mount_command_guarded:
  assumes "shellFree w h" and "Mount w a alluxioPath ufsPath options readOnly shared h = (r, h')"
  shows "if \<exists>c\<in>set illegalChars. c \<in> set alluxioPath \<union> set ufsPath \<union> (\<Union>(k, v)\<in>set options. set k \<union> set v)
    then r = Ret (Some (Wrapped ''error when executing command'' guardRejected)) \<and> h' = h
    else \<exists>stdout. h' = h @ [Executed (afPodName a) (afContainer a) (afNamespace a)
           (mountCommand alluxioPath ufsPath options readOnly shared) stdout] \<and>
         (r = Ret None \<longleftrightarrow> \<not> isl stdout)"
proof -
  let ?cmd = "mountCommand alluxioPath ufsPath options readOnly shared"
  let ?bad = "\<exists>c\<in>set illegalChars. c \<in> set alluxioPath \<union> set ufsPath \<union> (\<Union>(k, v)\<in>set options. set k \<union> set v)"
  have cmd: "?cmd = ''alluxio'' # tl ?cmd" by (simp add: mountCommand_def)
  have "ValidateCommandSlice (clLookPath (kwCluster w h)) (''alluxio'' # tl ?cmd) = None \<longleftrightarrow>
      (\<forall>x\<in>set (tl ?cmd). \<forall>c\<in>set illegalChars. c \<notin> set x)"
    by (rule plain_command_accepted) (use assms(1) in \<open>auto simp: shellFree_def\<close>)
  also have "\<dots> \<longleftrightarrow> \<not> ?bad"
    by (rule mount_arguments)
  finally have "ValidateCommandSlice (clLookPath (kwCluster w h)) ?cmd = None \<longleftrightarrow> \<not> ?bad" using cmd by simp
  then have "wp (Mount w a alluxioPath ufsPath options readOnly shared)
      (\<lambda>r h'. if ?bad then r = Ret (Some (Wrapped ''error when executing command'' guardRejected)) \<and> h' = h
        else \<exists>stdout. h' = h @ [Executed (afPodName a) (afContainer a) (afNamespace a) ?cmd stdout] \<and>
          (r = Ret None \<longleftrightarrow> \<not> isl stdout)) h"
    by (auto simp: Mount_def runs_def exec_def wp_rules Let_def split: sum.splits)
  with assms(2) show ?thesis by (simp only: wp_def prod.case)
qed

section \<open>Reading the output of Alluxio\<close>

text \<open>A line of \<open>alluxio fs mount\<close>: what is mounted, where, and its properties in parentheses.\<close>

definition mountLine :: "string \<times> string \<times> string \<Rightarrow> string" where
  "mountLine m = (case m of (ufs, path, properties) \<Rightarrow> ufs @ '' on '' @ path @ '' ('' @ properties @ '')'')"

definition mountLineOk :: "string \<times> string \<times> string \<Rightarrow> bool" where
  "mountLineOk m = (case m of (ufs, path, properties) \<Rightarrow>
     ufs \<noteq> [] \<and> list_all plain ufs \<and> path \<noteq> [] \<and> list_all plain path \<and> newline \<notin> set properties)"

lemma Fields_mountLine:
  assumes "mountLineOk m"
  shows "\<exists>rest. Fields (mountLine m) = fst m # ''on'' # fst (snd m) # rest"
proof -
  obtain ufs path properties where m: "m = (ufs, path, properties)" by (cases m)
  have on: "list_all plain ''on''" "''on'' \<noteq> []" by (simp_all add: plain_def)
  have "Fields (ufs @ CHR '' '' # ''on'' @ CHR '' '' # path @ CHR '' '' # (''('' @ properties @ '')'')) =
      ufs # ''on'' # path # Fields (''('' @ properties @ '')'')"
    using assms Fields_word(1) [OF on] unfolding m mountLineOk_def by (simp add: Fields_word(1))
  then show ?thesis by (simp add: m mountLine_def)
qed

lemma newline_plain: "list_all plain s \<Longrightarrow> newline \<notin> set s"
  by (auto simp: list_all_iff plain_def)

lemma mountLine_shape:
  assumes "mountLineOk m"
  shows "newline \<notin> set (mountLine m)" "mountLine m \<noteq> []" "plain (hd (mountLine m))" "plain (last (mountLine m))"
  using assms newline_plain
  by (auto simp: mountLine_def mountLineOk_def plain_def list_all_iff hd_append split: prod.splits)

definition mountOutput :: "(string \<times> string \<times> string) list \<Rightarrow> string" where
  "mountOutput ms = Join newline (map mountLine ms)"

lemma mountOutput_lines:
  assumes "ms \<noteq> []" and "list_all mountLineOk ms"
  shows "Split newline (TrimSpace (mountOutput ms)) = map mountLine ms"
proof -
  have split: "Split newline (mountOutput ms) = map mountLine ms"
    unfolding mountOutput_def using assms mountLine_shape(1)
    by (intro Split_Join) (auto simp: list_all_iff)
  have "mountOutput ms \<noteq> [] \<and> plain (hd (mountOutput ms)) \<and> plain (last (mountOutput ms))"
    using assms
  proof (induction ms rule: list_nonempty_induct)
    case (single m)
    with mountLine_shape show ?case by (simp add: mountOutput_def)
  next
    case (cons m ms)
    then show ?case
      using mountLine_shape [of m] by (cases ms) (simp_all add: mountOutput_def)
  qed
  with split show ?thesis by (simp add: TrimSpace_plain)
qed

lemma mountTable_lines:
  "list_all mountLineOk ms \<Longrightarrow> mountTable (map mountLine ms) acc = ret (acc @ map (fst \<circ> snd) ms)"
proof (induction ms arbitrary: acc)
  case (Cons m ms)
  then obtain rest where "Fields (mountLine m) = fst m # ''on'' # fst (snd m) # rest"
    using Fields_mountLine [of m] by auto
  with Cons show ?case by simp
qed simp

lemma mountedIn_lines:
  "list_all mountLineOk ms \<Longrightarrow> mountedIn p (map mountLine ms) = ret (Inr (p \<in> (fst \<circ> snd) ` set ms))"
proof (induction ms)
  case (Cons m ms)
  then obtain rest where "Fields (mountLine m) = fst m # ''on'' # fst (snd m) # rest"
    using Fields_mountLine [of m] by auto
  with Cons show ?case by auto
qed simp

lemma mount_accepted: "shellFree w h \<Longrightarrow> ValidateCommandSlice (clLookPath (kwCluster w h)) [''alluxio'', ''fs'', ''mount''] = None"
  by (subst plain_command_accepted) (auto simp: shellFree_def illegalChars_def)

text \<open>
  What \<open>alluxio fs mount\<close> prints is read back: from the lines of a mount table, the list of mounted paths is exactly
  the paths of the table in order, and a path counts as mounted if and only if it is one of them.
\<close>

theorem mount_table_read:
  assumes "shellFree w h" and "ms \<noteq> []" and "list_all mountLineOk ms"
    and "kwExec w h (afPodName a) (afContainer a) (afNamespace a) [''alluxio'', ''fs'', ''mount''] = Inr (mountOutput ms)"
  shows "fst (GetMountedAlluxioPaths w a h) = Ret (map (fst \<circ> snd) ms, None) \<and>
    fst (IsMounted w a path h) = Ret (Inr (path \<in> (fst \<circ> snd) ` set ms))"
proof -
  have "wp (GetMountedAlluxioPaths w a) (\<lambda>r _. r = Ret (map (fst \<circ> snd) ms, None)) h"
    "wp (IsMounted w a path) (\<lambda>r _. r = Ret (Inr (path \<in> (fst \<circ> snd) ` set ms))) h"
    unfolding GetMountedAlluxioPaths_def IsMounted_def exec_def
    using assms mount_accepted [OF assms(1)]
    by (simp_all add: wp_rules mountOutput_lines mountTable_lines mountedIn_lines del: image_comp)
  then show ?thesis by (simp add: wp_def split: prod.splits)
qed

section \<open>Examples\<close>

theorem restore_query_rejected_witness:
  "QueryMetaDataInfoIntoFile downWorld (NewAlluxioFileUtils ''demo-master-0'' ''alluxio-master'' ''default'') ''ufstotal''
      ''/pvc/demo-default.yaml'' [] =
    (Ret (Inl (Wrapped ''error when executing command'' guardRejected)), [])"
  by (rule restore_query_rejected) (simp add: downWorld_def downCluster_def)

definition mountWorld :: world where
  "mountWorld = downWorld
     \<lparr>kwExec := \<lambda>_ _ _ _ _. Inr (mountOutput [(''/underFSStorage'', ''/'', ''local''), (''s3://b'', ''/b'', ''s3, shared'')])\<rparr>"

lemma shellFree_mountWorld: "shellFree mountWorld h"
  by (simp add: shellFree_def mountWorld_def downWorld_def downCluster_def)

theorem mount_table_read_witness:
  "fst (GetMountedAlluxioPaths mountWorld (NewAlluxioFileUtils ''demo-master-0'' ''alluxio-master'' ''default'') []) =
      Ret ([''/'', ''/b''], None)"
  using conjunct1 [OF mount_table_read [of mountWorld "[]" "[(''/underFSStorage'', ''/'', ''local''), (''s3://b'', ''/b'', ''s3, shared'')]"
      "NewAlluxioFileUtils ''demo-master-0'' ''alluxio-master'' ''default''"]]
  by (simp add: shellFree_mountWorld mountLineOk_def plain_def) (simp add: mountWorld_def)

theorem mount_command_guarded_witness:
  "Mount mountWorld (NewAlluxioFileUtils ''demo-master-0'' ''alluxio-master'' ''default'') ''/b'' ''s3://b''
      [(''aws.secretKey'', ''a$b'')] False False [] =
    (Ret (Some (Wrapped ''error when executing command'' guardRejected)), [])"
  using mount_command_guarded [OF shellFree_mountWorld, of "NewAlluxioFileUtils ''demo-master-0'' ''alluxio-master'' ''default''" "''/b''"
      "''s3://b''" "[(''aws.secretKey'', ''a$b'')]" False False "[]"]
  by (cases "Mount mountWorld (NewAlluxioFileUtils ''demo-master-0'' ''alluxio-master'' ''default'') ''/b'' ''s3://b''
      [(''aws.secretKey'', ''a$b'')] False False []") (simp add: illegalChars_def)

end
