(* ===== verification/Template_Engine.thy ===== *)
theory Template_Engine
  imports Dataset_Controller
begin

text \<open>
  The template that every cache engine follows (\<open>pkg/ddc/base/template_engine.go\<close>, \<open>setup.go\<close>, \<open>syncs.go\<close>), over the
  interface \<open>Implement\<close> (\<open>interface.go\<close>): a record with one field for each method. A method takes the state of the engine
  and returns its results with the new state. The counters of the metrics are not modelled.
\<close>

section \<open>interface.go\<close>

type_synonym ('s, 'a) engineMethod = "'s \<Rightarrow> ('a \<times> 's) kgo"

type_synonym decision = "bool \<times> goerr option"

record 's Implement =
  imShouldSetupMaster :: "('s, decision) engineMethod"
  imSetupMaster :: "('s, goerr option) engineMethod"
  imCheckMasterReady :: "('s, decision) engineMethod"
  imShouldCheckUFS :: "('s, decision) engineMethod"
  imPrepareUFS :: "('s, goerr option) engineMethod"
  imShouldSetupWorkers :: "('s, decision) engineMethod"
  imSetupWorkers :: "('s, goerr option) engineMethod"
  imCheckWorkersReady :: "('s, decision) engineMethod"
  imCheckAndUpdateRuntimeStatus :: "('s, decision) engineMethod"
  imBindToDataset :: "('s, goerr option) engineMethod"
  imSyncMetadata :: "('s, goerr option) engineMethod"
  imSyncReplicas :: "('s, goerr option) engineMethod"
  imSyncRuntime :: "('s, decision) engineMethod"
  imCheckRuntimeHealthy :: "('s, goerr option) engineMethod"
  imUpdateCacheOfDataset :: "('s, goerr option) engineMethod"
  imShouldSyncDatasetMounts :: "('s, decision) engineMethod"
  imSyncDatasetMounts :: "('s, goerr option) engineMethod"
  imShouldUpdateUFS :: "('s, UFSToUpdate option) engineMethod"
  imUpdateOnUFSChange :: "UFSToUpdate \<Rightarrow> ('s, decision) engineMethod"
  imSyncScheduleInfoToCacheNodes :: "('s, goerr option) engineMethod"
  imValidate :: "('s, goerr option) engineMethod"
  imShutdown :: "('s, goerr option) engineMethod"
  imCreateVolume :: "('s, goerr option) engineMethod"
  imDeleteVolume :: "('s, goerr option) engineMethod"

section \<open>template_engine.go\<close>

record TemplateEngine =
  teId :: string
  teName :: string
  teNamespace :: string
  teSyncRetryDuration :: int
  teTimeOfLastSync :: int

abbreviation defaultSyncRetryDuration :: int where
  "defaultSyncRetryDuration \<equiv> 5 * second"

text \<open>\<open>parseDuration\<close> is \<open>time.ParseDuration\<close>.\<close>

definition getSyncRetryDuration :: "world \<Rightarrow> (string \<Rightarrow> int option) \<Rightarrow> int option" where
  "getSyncRetryDuration w parseDuration =
     (case kwLookupEnv w ''FLUID_SYNC_RETRY_DURATION'' of
        None \<Rightarrow> None
      | Some value \<Rightarrow> parseDuration value)"

definition NewTemplateEngine ::
  "world \<Rightarrow> (string \<Rightarrow> int option) \<Rightarrow> string \<Rightarrow> string \<Rightarrow> string \<Rightarrow> TemplateEngine kgo" where
  "NewTemplateEngine w parseDuration id1 name namespace =
     (let duration = (case getSyncRetryDuration w parseDuration of Some d \<Rightarrow> d | None \<Rightarrow> defaultSyncRetryDuration) in
      andThen (viaOp w now) (\<lambda>t.
      ret \<lparr>teId = id1, teName = name, teNamespace = namespace, teSyncRetryDuration = duration,
           teTimeOfLastSync = t - duration\<rparr>))"

definition permitSync :: "TemplateEngine \<Rightarrow> int \<Rightarrow> bool" where
  "permitSync t current = (\<not> current - teTimeOfLastSync t < teSyncRetryDuration t)"

section \<open>setup.go\<close>

definition setupMaster :: "'s Implement \<Rightarrow> ('s, goerr option) engineMethod" where
  "setupMaster im s =
     andThen (imShouldSetupMaster im s) (\<lambda>((should, err), s).
     if err \<noteq> None then ret (err, s) else if should then imSetupMaster im s else ret (None, s))"

definition prepareUFS :: "'s Implement \<Rightarrow> ('s, goerr option) engineMethod" where
  "prepareUFS im s =
     andThen (imShouldCheckUFS im s) (\<lambda>((should, err), s).
     if err \<noteq> None then ret (err, s) else if should then imPrepareUFS im s else ret (None, s))"

definition setupWorkers :: "'s Implement \<Rightarrow> ('s, goerr option) engineMethod" where
  "setupWorkers im s =
     andThen (imShouldSetupWorkers im s) (\<lambda>((should, err), s).
     if err \<noteq> None then ret (err, s) else if should then imSetupWorkers im s else ret (None, s))"

text \<open>The last three steps; if the binding fails, the function returns that the workers are ready next to the error.\<close>

definition checkAndBind :: "'s Implement \<Rightarrow> ('s, decision) engineMethod" where
  "checkAndBind im s =
     andThen (imCheckWorkersReady im s) (\<lambda>((workersReady, err), s).
     if err \<noteq> None \<or> \<not> workersReady then ret ((workersReady, err), s)
     else
       andThen (imCheckAndUpdateRuntimeStatus im s) (\<lambda>((runtimeReady, err), s).
       if err \<noteq> None \<or> \<not> runtimeReady then ret ((runtimeReady, err), s)
       else
         andThen (imBindToDataset im s) (\<lambda>(err, s).
         if err \<noteq> None then ret ((workersReady, err), s) else ret ((True, None), s))))"

definition Setup :: "'s Implement \<Rightarrow> ('s, decision) engineMethod" where
  "Setup im s =
     andThen (setupMaster im s) (\<lambda>(err, s).
     if err \<noteq> None then ret ((False, err), s)
     else
       andThen (imCheckMasterReady im s) (\<lambda>((masterReady, err), s).
       if err \<noteq> None then ret ((False, err), s)
       else if \<not> masterReady then ret ((masterReady, err), s)
       else
         andThen (prepareUFS im s) (\<lambda>(err, s).
         if err \<noteq> None then ret ((False, err), s)
         else
           andThen (setupWorkers im s) (\<lambda>(err, s).
           if err \<noteq> None then ret ((False, err), s) else checkAndBind im s))))"

section \<open>syncs.go\<close>

definition syncUFS :: "world \<Rightarrow> TemplateEngine \<Rightarrow> 's Implement \<Rightarrow> ('s, goerr option) engineMethod" where
  "syncUFS w t im s =
     andThen (imShouldUpdateUFS im s) (\<lambda>(ufsToUpdate, s).
     case ufsToUpdate of
       None \<Rightarrow> ret (None, s)
     | Some u \<Rightarrow>
         if \<not> ShouldUpdate u then ret (None, s)
         else
           andThen (imUpdateOnUFSChange im u s) (\<lambda>((updateReady, err), s).
           if err \<noteq> None then ret (err, s)
           else if updateReady then
             andThen (UpdateMountStatus w (teName t) (teNamespace t) ''Bound'') (\<lambda>err. ret (err, s))
           else ret (None, s)))"

definition syncMounts :: "'s Implement \<Rightarrow> ('s, goerr option) engineMethod" where
  "syncMounts im s =
     andThen (imShouldSyncDatasetMounts im s) (\<lambda>((should, err), s).
     if err \<noteq> None then ret (err, s) else if should then imSyncDatasetMounts im s else ret (None, s))"

text \<open>The rest of a synchronisation after the replicas and the runtime spec.\<close>

definition syncState :: "world \<Rightarrow> TemplateEngine \<Rightarrow> 's Implement \<Rightarrow> bool \<Rightarrow> ('s, goerr option) engineMethod" where
  "syncState w t im permit s =
     andThen (imCheckRuntimeHealthy im s) (\<lambda>(err, s).
     if err \<noteq> None then ret (err, s)
     else
       andThen (if permit then imCheckAndUpdateRuntimeStatus im s else ret ((False, None), s)) (\<lambda>((_, err), s).
       if err \<noteq> None then ret (err, s)
       else
         andThen (imUpdateCacheOfDataset im s) (\<lambda>(err, s).
         if err \<noteq> None then ret (err, s)
         else
           andThen (syncMounts im s) (\<lambda>(err, s).
           if err \<noteq> None then ret (err, s)
           else
             andThen (if permit then syncUFS w t im s else ret (None, s)) (\<lambda>(err, s).
             if err \<noteq> None then ret (err, s) else imSyncScheduleInfoToCacheNodes im s)))))"

definition syncBody :: "world \<Rightarrow> TemplateEngine \<Rightarrow> 's Implement \<Rightarrow> bool \<Rightarrow> ('s, goerr option) engineMethod" where
  "syncBody w t im permit s =
     andThen (if permit then imSyncMetadata im s else ret (None, s)) (\<lambda>(err, s).
     if err \<noteq> None then ret (err, s)
     else
       andThen (imSyncReplicas im s) (\<lambda>(err, s).
       if err \<noteq> None then ret (err, s)
       else
         andThen (imSyncRuntime im s) (\<lambda>((updated, err), s).
         if err \<noteq> None \<or> updated then ret (err, s) else syncState w t im permit s)))"

text \<open>The time of the last synchronisation is set when the function returns, whether it failed or not.\<close>

definition Sync :: "world \<Rightarrow> 's Implement \<Rightarrow> TemplateEngine \<times> 's \<Rightarrow> (goerr option \<times> TemplateEngine \<times> 's) kgo" where
  "Sync w im e =
     (case e of (t, s) \<Rightarrow>
        andThen (viaOp w now) (\<lambda>start.
        if permitSync t start then
          andThen (syncBody w t im True s) (\<lambda>(err, s).
          andThen (viaOp w now) (\<lambda>finish. ret (err, t\<lparr>teTimeOfLastSync := finish\<rparr>, s)))
        else andThen (syncBody w t im False s) (\<lambda>(err, s). ret (err, t, s))))"

section \<open>When a dataset is bound\<close>

text \<open>
  A dataset becomes bound by a write of its status with the phase \<open>Bound\<close>, unless it was already bound when the run last
  read it. \<open>bindingGuarded R h\<close>: whenever that happened in the history \<open>h\<close>, what happened before satisfies \<open>R\<close>.
\<close>

fun phaseEvent :: "kevent \<Rightarrow> string option" where
  "phaseEvent (Op (GotDataset _ _ (Inr d))) = Some (dstPhase (dStatus d))"
| "phaseEvent _ = None"

abbreviation seenPhase :: "kevent list \<Rightarrow> string option" where
  "seenPhase \<equiv> lastAnswer phaseEvent"

definition bindingGuarded :: "(kevent list \<Rightarrow> bool) \<Rightarrow> kevent list \<Rightarrow> bool" where
  "bindingGuarded R h \<longleftrightarrow>
     (\<forall>h1 d a h2. h = h1 @ Op (UpdatedDatasetStatus d a) # h2 \<longrightarrow> dstPhase (dStatus d) = ''Bound'' \<longrightarrow>
        seenPhase h1 = Some ''Bound'' \<or> R h1)"

definition extending :: "(kevent list \<Rightarrow> bool) \<Rightarrow> bool" where
  "extending R \<longleftrightarrow> (\<forall>h es. R h \<longrightarrow> R (h @ es))"

lemma bindingGuarded_Nil [simp]: "bindingGuarded R []"
  by (simp add: bindingGuarded_def)

lemma bindingGuarded_snoc:
  "bindingGuarded R (h @ [e]) \<longleftrightarrow>
     bindingGuarded R h \<and>
     (\<forall>d a. e = Op (UpdatedDatasetStatus d a) \<longrightarrow> dstPhase (dStatus d) = ''Bound'' \<longrightarrow>
        seenPhase h = Some ''Bound'' \<or> R h)" (is "?l = ?r")
proof
  assume ?l
  then have "\<And>h1 d a h2. h = h1 @ Op (UpdatedDatasetStatus d a) # h2 \<Longrightarrow> dstPhase (dStatus d) = ''Bound'' \<Longrightarrow>
      seenPhase h1 = Some ''Bound'' \<or> R h1"
    unfolding bindingGuarded_def by (metis append_Cons append_assoc)
  moreover have "\<And>d a. e = Op (UpdatedDatasetStatus d a) \<Longrightarrow> dstPhase (dStatus d) = ''Bound'' \<Longrightarrow>
      seenPhase h = Some ''Bound'' \<or> R h"
    using \<open>?l\<close> unfolding bindingGuarded_def by blast
  ultimately show ?r unfolding bindingGuarded_def by blast
next
  assume ?r
  then show ?l
    unfolding bindingGuarded_def by (auto simp: append_eq_append_conv2 append_eq_Cons_conv Cons_eq_append_conv)
qed

fun writesDataset :: "kevent \<Rightarrow> bool" where
  "writesDataset (Op (UpdatedDatasetStatus _ _)) = True"
| "writesDataset _ = False"

lemma bindingGuarded_append:
  "bindingGuarded R h \<Longrightarrow> list_all (\<lambda>e. \<not> writesDataset e) es \<Longrightarrow> bindingGuarded R (h @ es)"
proof (induction es rule: rev_induct)
  case (snoc e es)
  then show ?case by (simp add: bindingGuarded_snoc flip: append_assoc) auto
qed simp

text \<open>A method keeps bindings guarded: it only adds events, and keeps the invariant of the engine.\<close>

definition keepsBinding :: "(kevent list \<Rightarrow> bool) \<Rightarrow> ('s \<Rightarrow> bool) \<Rightarrow> ('s, 'a) engineMethod \<Rightarrow> bool" where
  "keepsBinding R good m \<longleftrightarrow>
     (\<forall>s h. good s \<longrightarrow> bindingGuarded R h \<longrightarrow>
        wp (m s) (\<lambda>r h'. bindingGuarded R h' \<and> (\<exists>es. h' = h @ es) \<and> (\<forall>a s'. r = Ret (a, s') \<longrightarrow> good s')) h)"

lemma keepsBinding_wp:
  "keepsBinding R good m \<Longrightarrow> good s \<Longrightarrow> bindingGuarded R h \<Longrightarrow>
     wp (m s) (\<lambda>r h'. bindingGuarded R h' \<and> (\<exists>es. h' = h @ es) \<and> (\<forall>a s'. r = Ret (a, s') \<longrightarrow> good s')) h"
  by (simp add: keepsBinding_def)

lemma keepsBinding_ret: "keepsBinding R good (\<lambda>s. ret (a, s))"
  by (simp add: keepsBinding_def wp_rules)

lemma keepsBinding_then:
  assumes "keepsBinding R good m" and "\<And>a. keepsBinding R good (f a)"
  shows "keepsBinding R good (\<lambda>s. andThen (m s) (\<lambda>(a, s). f a s))"
  unfolding keepsBinding_def
proof (intro allI impI)
  fix s h assume good: "good s" and guarded: "bindingGuarded R h"
  show "wp (andThen (m s) (\<lambda>(a, s). f a s))
      (\<lambda>r h'. bindingGuarded R h' \<and> (\<exists>es. h' = h @ es) \<and> (\<forall>a s'. r = Ret (a, s') \<longrightarrow> good s')) h"
    unfolding wp_andThen
    by (rule wp_mono [OF keepsBinding_wp [OF assms(1) good guarded]])
       (fastforce split: out.splits prod.splits intro!: wp_mono [OF keepsBinding_wp [OF assms(2)]])
qed

text \<open>One step of a program, with what else is known of it.\<close>

lemma keeps_step:
  assumes "keepsBinding R good m" and "good s" and "bindingGuarded R h" and "wp (m s) E h"
    and "\<And>a s' es. bindingGuarded R (h @ es) \<Longrightarrow> good s' \<Longrightarrow> E (Ret (a, s')) (h @ es) \<Longrightarrow> wp (f a s') Q (h @ es)"
    and "\<And>msg es. bindingGuarded R (h @ es) \<Longrightarrow> Q (Panic msg) (h @ es)"
  shows "wp (andThen (m s) (\<lambda>(a, s). f a s)) Q h"
  unfolding wp_andThen
  using keepsBinding_wp [OF assms(1,2,3)] assms(4)
  by (auto simp: wp_def split: out.splits prod.splits intro!: assms(6) dest: assms(5) [unfolded wp_def])

lemma wp_True: "wp m (\<lambda>_ _. True) h"
  by (simp add: wp_def split: prod.split)

lemma keepsBinding_if:
  "keepsBinding R good m \<Longrightarrow> keepsBinding R good n \<Longrightarrow> keepsBinding R good (\<lambda>s. if b then m s else n s)"
  by (cases b) simp_all

lemma keepsBinding_prod:
  "(\<And>a b. keepsBinding R good (f a b)) \<Longrightarrow> keepsBinding R good (case x of (a, b) \<Rightarrow> f a b)"
  by (cases x) simp

lemmas keepsBinding_rules = keepsBinding_ret keepsBinding_then keepsBinding_if keepsBinding_prod

text \<open>
  What the template relies on: the methods before the binding do not bind the dataset, the three checks say yes only if
  they have seen the component ready, and the binding leaves a bound dataset.
\<close>

locale cache_engine =
  fixes im :: "'s Implement"
    and good :: "'s \<Rightarrow> bool"
    and masterSeen workersSeen runtimeSeen boundSeen :: "kevent list \<Rightarrow> bool"
  assumes extends: "extending masterSeen" "extending workersSeen" "extending runtimeSeen"
    and keeps:
      "extending R \<Longrightarrow> keepsBinding R good (imShouldSetupMaster im)" "extending R \<Longrightarrow> keepsBinding R good (imSetupMaster im)"
      "extending R \<Longrightarrow> keepsBinding R good (imCheckMasterReady im)" "extending R \<Longrightarrow> keepsBinding R good (imShouldCheckUFS im)"
      "extending R \<Longrightarrow> keepsBinding R good (imPrepareUFS im)" "extending R \<Longrightarrow> keepsBinding R good (imShouldSetupWorkers im)"
      "extending R \<Longrightarrow> keepsBinding R good (imSetupWorkers im)" "extending R \<Longrightarrow> keepsBinding R good (imCheckWorkersReady im)"
      "extending R \<Longrightarrow> keepsBinding R good (imCheckAndUpdateRuntimeStatus im)"
    and master: "good s \<Longrightarrow> wp (imCheckMasterReady im s) (\<lambda>r h'. \<forall>s'. r = Ret ((True, None), s') \<longrightarrow> masterSeen h') h"
    and workers: "good s \<Longrightarrow> wp (imCheckWorkersReady im s) (\<lambda>r h'. \<forall>s'. r = Ret ((True, None), s') \<longrightarrow> workersSeen h') h"
    and runtime: "good s \<Longrightarrow> wp (imCheckAndUpdateRuntimeStatus im s) (\<lambda>r h'. \<forall>s'. r = Ret ((True, None), s') \<longrightarrow> runtimeSeen h') h"
    and bind: "extending R \<Longrightarrow> good s \<Longrightarrow> R h \<Longrightarrow> bindingGuarded R h \<Longrightarrow>
        wp (imBindToDataset im s) (\<lambda>r h'. bindingGuarded R h' \<and> (\<exists>es. h' = h @ es) \<and>
          (\<forall>s'. r = Ret (None, s') \<longrightarrow> boundSeen h')) h"
begin

definition readySeen :: "kevent list \<Rightarrow> bool" where
  "readySeen h \<longleftrightarrow> masterSeen h \<and> workersSeen h \<and> runtimeSeen h"

lemma extending_ready: "extending readySeen"
  using extends by (simp add: extending_def readySeen_def)

lemma setup_steps:
  "keepsBinding readySeen good (setupMaster im)" "keepsBinding readySeen good (prepareUFS im)"
  "keepsBinding readySeen good (setupWorkers im)"
  unfolding setupMaster_def [abs_def] prepareUFS_def [abs_def] setupWorkers_def [abs_def]
  by (intro keepsBinding_rules keeps extending_ready)+

definition boundAfter :: "(decision \<times> 's) out \<Rightarrow> kevent list \<Rightarrow> bool" where
  "boundAfter r h \<longleftrightarrow> bindingGuarded readySeen h \<and> (\<forall>s. r = Ret ((True, None), s) \<longrightarrow> readySeen h \<and> boundSeen h)"

lemma boundAfter_not [simp]:
  "boundAfter (Panic msg) h = bindingGuarded readySeen h"
  "b = False \<or> e \<noteq> None \<Longrightarrow> boundAfter (Ret ((b, e), s)) h = bindingGuarded readySeen h"
  by (auto simp: boundAfter_def)

lemma bind_step:
  assumes "good s" and "bindingGuarded readySeen h" and "readySeen h"
  shows "wp (andThen (imBindToDataset im s) (\<lambda>(err, s).
      if err \<noteq> None then ret ((ready, err), s) else ret ((True, None), s))) boundAfter h"
  unfolding wp_andThen
  by (rule wp_mono [OF bind [OF extending_ready assms(1,3,2)]])
     (use assms(3) extending_ready in \<open>auto simp: wp_rules boundAfter_def extending_def split: out.splits prod.splits\<close>)

lemma runtime_step:
  assumes "good s" and "bindingGuarded readySeen h" and "masterSeen h" and "workersSeen h"
  shows "wp (andThen (imCheckAndUpdateRuntimeStatus im s) (\<lambda>((runtimeReady, err), s).
      if err \<noteq> None \<or> \<not> runtimeReady then ret ((runtimeReady, err), s)
      else
        andThen (imBindToDataset im s) (\<lambda>(err, s).
        if err \<noteq> None then ret ((ready, err), s) else ret ((True, None), s)))) boundAfter h"
proof (rule keeps_step [OF keeps(9) [OF extending_ready] assms(1,2) runtime [OF assms(1)]], goal_cases)
  case (1 a s es)
  moreover from this have "a = (True, None) \<Longrightarrow> readySeen (h @ es)"
    using assms(3,4) extends by (simp add: readySeen_def extending_def)
  ultimately show ?case by (cases a) (auto simp: wp_ret simp del: not_None_eq intro!: bind_step)
qed simp

lemma bind_after_ready:
  assumes "good s" and "bindingGuarded readySeen h" and "masterSeen h"
  shows "wp (checkAndBind im s) boundAfter h"
  unfolding checkAndBind_def
proof (rule keeps_step [OF keeps(8) [OF extending_ready] assms(1,2) workers [OF assms(1)]], goal_cases)
  case (1 a s es)
  moreover have "masterSeen (h @ es)"
    using assms(3) extends by (simp add: extending_def)
  ultimately show ?case by (cases a) (auto simp: wp_ret simp del: not_None_eq disj_not1 intro!: runtime_step)
qed simp

lemma prepared_step:
  assumes "good s" and "bindingGuarded readySeen h" and "masterSeen h"
  shows "wp (andThen (prepareUFS im s) (\<lambda>(err, s).
      if err \<noteq> None then ret ((False, err), s)
      else
        andThen (setupWorkers im s) (\<lambda>(err, s).
        if err \<noteq> None then ret ((False, err), s) else checkAndBind im s))) boundAfter h"
proof (rule keeps_step [OF setup_steps(2) assms(1,2) wp_True], goal_cases)
  case (1 err s es)
  have "masterSeen (h @ es)"
    using assms(3) extends by (simp add: extending_def)
  then have "wp (andThen (setupWorkers im s) (\<lambda>(err, s).
      if err \<noteq> None then ret ((False, err), s) else checkAndBind im s)) boundAfter (h @ es)"
    using 1 extends(1)
    by (intro keeps_step [OF setup_steps(3) _ _ wp_True])
       (auto simp: wp_ret extending_def simp flip: append_assoc intro!: bind_after_ready)
  then show ?case using 1 by (auto simp: wp_ret)
qed simp

lemma setup_binds_when_ready:
  assumes "good s" and "bindingGuarded readySeen h"
  shows "wp (Setup im s) boundAfter h"
  unfolding Setup_def
proof (rule keeps_step [OF setup_steps(1) assms wp_True], goal_cases)
  case (1 err s es)
  note good = \<open>good s\<close> and guarded = \<open>bindingGuarded readySeen (h @ es)\<close>
  have checked: "wp (andThen (imCheckMasterReady im s) (\<lambda>((masterReady, err), s).
      if err \<noteq> None then ret ((False, err), s)
      else if \<not> masterReady then ret ((masterReady, err), s)
      else
        andThen (prepareUFS im s) (\<lambda>(err, s).
        if err \<noteq> None then ret ((False, err), s)
        else
          andThen (setupWorkers im s) (\<lambda>(err, s).
          if err \<noteq> None then ret ((False, err), s) else checkAndBind im s)))) boundAfter (h @ es)"
  proof (rule keeps_step [OF keeps(3) [OF extending_ready] good guarded master [OF good]], goal_cases)
    case (1 a s es1)
    then show ?case
      by (cases a) (auto simp: wp_ret simp del: not_None_eq intro!: prepared_step)
  qed simp
  then show ?case by (auto simp: wp_ret guarded)
qed simp

end

section \<open>Rate limit\<close>

lemma permit_independent:
  "syncBody w t im False = syncBody w t (im\<lparr>imSyncMetadata := m, imCheckAndUpdateRuntimeStatus := c,
     imShouldUpdateUFS := u, imUpdateOnUFSChange := v\<rparr>) False"
  unfolding syncBody_def [abs_def] syncState_def [abs_def] syncMounts_def [abs_def] if_False by (simp cong: if_cong)

lemma now_run: "viaOp w now h = (Ret start, h0) \<Longrightarrow> h0 = h @ [Op (ReadClock start)]"
  unfolding now_def by (auto simp: viaOp_def call_def)

lemma now_returns: "\<exists>start. viaOp w now h = (Ret start, h @ [Op (ReadClock start)])"
  unfolding now_def by (auto simp: viaOp_def call_def)

text \<open>
  A synchronisation that starts less than the retry duration after the end of the last one that was permitted does not use the methods that talk to the cache engine (any implementation of them gives the same run) and leaves the time of the last synchronisation; any other sets that time to the time it ends, from which the next one is permitted exactly when the retry duration has passed.
\<close>

theorem sync_rate_limited:
  assumes "viaOp w now h = (Ret start, h0)" and "Sync w im (t, s) h = (Ret (err, t', s'), h')"
  shows "if start - teTimeOfLastSync t < teSyncRetryDuration t
    then t' = t \<and>
      (\<forall>m c u v. Sync w (im\<lparr>imSyncMetadata := m, imCheckAndUpdateRuntimeStatus := c, imShouldUpdateUFS := u,
         imUpdateOnUFSChange := v\<rparr>) (t, s) h = (Ret (err, t', s'), h'))
    else \<exists>finish h1. h' = h1 @ [Op (ReadClock finish)] \<and> t' = t\<lparr>teTimeOfLastSync := finish\<rparr> \<and>
      (\<forall>current. permitSync t' current \<longleftrightarrow> finish + teSyncRetryDuration t \<le> current)"
proof (cases "start - teTimeOfLastSync t < teSyncRetryDuration t")
  case True
  with assms show ?thesis
    using permit_independent [of w t im]
    by (auto simp: Sync_def permitSync_def andThen_def ret_def split: prod.splits out.splits)
next
  case False
  with assms obtain h1 where "viaOp w now h1 = (Ret (teTimeOfLastSync t'), h')"
    and "t' = t\<lparr>teTimeOfLastSync := teTimeOfLastSync t'\<rparr>"
    by (auto simp: Sync_def permitSync_def andThen_def ret_def split: prod.splits out.splits)
  with now_run [OF this(1)] False show ?thesis
    by (cases t, cases t') (auto simp: permitSync_def)
qed

text \<open>An engine in which every method succeeds at once.\<close>

definition idleEngine :: "unit Implement" where
  "idleEngine =
     (let yes = (\<lambda>s. ret ((True, None), s)); ok = (\<lambda>s. ret (None, s)); no = (\<lambda>s. ret ((False, None), s)) in
      \<lparr>imShouldSetupMaster = no, imSetupMaster = ok, imCheckMasterReady = yes, imShouldCheckUFS = no, imPrepareUFS = ok,
       imShouldSetupWorkers = no, imSetupWorkers = ok, imCheckWorkersReady = yes, imCheckAndUpdateRuntimeStatus = yes,
       imBindToDataset = ok, imSyncMetadata = ok, imSyncReplicas = ok, imSyncRuntime = no, imCheckRuntimeHealthy = ok,
       imUpdateCacheOfDataset = ok, imShouldSyncDatasetMounts = no, imSyncDatasetMounts = ok,
       imShouldUpdateUFS = (\<lambda>s. ret (None, s)), imUpdateOnUFSChange = (\<lambda>_. no), imSyncScheduleInfoToCacheNodes = ok,
       imValidate = ok, imShutdown = ok, imCreateVolume = ok, imDeleteVolume = ok\<rparr>)"

theorem sync_rate_limited_witness:
  "let t = \<lparr>teId = ''default-d'', teName = ''d'', teNamespace = ''default'', teSyncRetryDuration = 5,
            teTimeOfLastSync = 0\<rparr>;
       w = downWorld\<lparr>kwCluster := \<lambda>_. downCluster\<lparr>clNow := \<lambda>_. 7\<rparr>\<rparr>;
       r = Sync w idleEngine (t, ()) [];
       t' = t\<lparr>teTimeOfLastSync := 7\<rparr> in
     r = (Ret (None, t', ()), [Op (ReadClock 7), Op (ReadClock 7)]) \<and> \<not> permitSync t' 11 \<and> permitSync t' 12"
  using sync_rate_limited [of "downWorld\<lparr>kwCluster := \<lambda>_. downCluster\<lparr>clNow := \<lambda>_. 7\<rparr>\<rparr>" "[]" 7 "[Op (ReadClock 7)]"
      idleEngine "\<lparr>teId = ''default-d'', teName = ''d'', teNamespace = ''default'', teSyncRetryDuration = 5,
            teTimeOfLastSync = 0\<rparr>" "()" None "\<lparr>teId = ''default-d'', teName = ''d'', teNamespace = ''default'',
            teSyncRetryDuration = 5, teTimeOfLastSync = 7\<rparr>" "()" "[Op (ReadClock 7), Op (ReadClock 7)]"]
  by (simp add: Sync_def syncBody_def syncState_def syncMounts_def syncUFS_def permitSync_def idleEngine_def now_def
      andThen_def ret_def call_def viaOp_def Let_def)

end
