(* ===== verification/Alluxio_State.thy ===== *)
theory Alluxio_State
  imports Template_Engine Alluxio_Operations Byte_Size Mount_Info
begin

text \<open>
  The state of an Alluxio engine (\<open>pkg/ddc/alluxio/engine.go\<close>), the names it derives (\<open>utils.go\<close>), what it knows of its
  runtime (\<open>runtime_info.go\<close>, \<open>validate.go\<close>), and what it asks the master: the cache report (\<open>report.go\<close>,
  \<open>cache.go\<close>), the endpoints (\<open>hcfs.go\<close>, \<open>api_gateway.go\<close>). The helper of \<open>pkg/ctrl\<close> holds the same \<open>RuntimeInfo\<close> object as
  the engine. The channel of the metadata synchronisation is only ever compared with nil and received from.
\<close>

section \<open>Environment\<close>

text \<open>
  Beside the world: \<open>resource.ParseQuantity\<close>, the metadata list that an annotation holds as JSON, the conversion of a
  float that does not fit, \<open>strconv.ParseFloat\<close>, \<open>IsDNS1123Label\<close>, \<open>yaml.Unmarshal\<close> of the values of the chart, the
  folder of the charts, the error of \<open>GetRuntimePortAllocator\<close>, \<open>units.BytesSize\<close> and \<open>LabelSelectorAsSelector\<close> of the selector of the workers.
\<close>

record engineEnv =
  eeWorld :: world
  eeParseQuantity :: "string \<Rightarrow> int option"
  eeMetadataList :: "RuntimeObject \<Rightarrow> Metadata list"
  eeOutOfRange :: "rat \<Rightarrow> int"
  eeParseFloat :: "string \<Rightarrow> rat option"
  eeIsDNSLabel :: "string \<Rightarrow> bool"
  eeUnmarshal :: "string \<Rightarrow> goerr + (string \<times> string) list"
  eeChartsDirectory :: string
  eePortAllocator :: "goerr option"
  eeUnitsBytesSize :: "int \<Rightarrow> string"
  eeSelector :: "(string \<times> string) list \<Rightarrow> goerr + string"

section \<open>engine.go and types.go\<close>

record cacheHitStates =
  chCacheHitRatio :: string
  chLocalHitRatio :: string
  chRemoteHitRatio :: string
  chLocalThroughputRatio :: string
  chRemoteThroughputRatio :: string
  chCacheThroughputRatio :: string
  chBytesReadLocal :: int
  chBytesReadRemote :: int
  chBytesReadUfsAll :: int
  chTimestamp :: int

record cacheStates =
  csCapacity :: string
  csCached :: string
  csCachedPercentage :: string
  csHits :: cacheHitStates

record AlluxioEngine =
  aeName :: string
  aeNamespace :: string
  aeRuntimeType :: string
  aeEngineImpl :: string
  aeRuntime :: "RuntimeObject option"
  aeRetryShutdown :: int
  aeSyncing :: bool
  aeRuntimeInfo :: "RuntimeInfo option"
  aeLastHits :: "cacheHitStates option"

abbreviation nilPanic :: string where
  "nilPanic \<equiv> ''invalid memory address or nil pointer dereference''"

section \<open>utils.go\<close>

definition getRuntime :: "engineEnv \<Rightarrow> AlluxioEngine \<Rightarrow> (goerr + RuntimeObject) kgo" where
  "getRuntime v e = getRuntimeObject (eeWorld v) ''AlluxioRuntime'' (aeName e) (aeNamespace e)"

definition getMasterPodInfo :: "AlluxioEngine \<Rightarrow> string \<times> string" where
  "getMasterPodInfo e = (aeName e @ ''-master-0'', ''alluxio-master'')"

definition fileUtils :: "AlluxioEngine \<Rightarrow> AlluxioFileUtils" where
  "fileUtils e = NewAlluxioFileUtils (fst (getMasterPodInfo e)) (snd (getMasterPodInfo e)) (aeNamespace e)"

definition getMasterName :: "AlluxioEngine \<Rightarrow> string" where
  "getMasterName e = aeName e @ ''-master''"

definition getWorkerName :: "AlluxioEngine \<Rightarrow> string" where
  "getWorkerName e = aeName e @ ''-worker''"

definition getFuseName :: "AlluxioEngine \<Rightarrow> string" where
  "getFuseName e = aeName e @ ''-fuse''"

definition getHelmValuesConfigMapName :: "AlluxioEngine \<Rightarrow> string" where
  "getHelmValuesConfigMapName e = aeName e @ ''-'' @ aeEngineImpl e @ ''-values''"

definition getMountConfigmapName :: "AlluxioEngine \<Rightarrow> string" where
  "getMountConfigmapName e = aeName e @ ''-mount-config''"

definition GetMetadataInfoFileName :: "AlluxioEngine \<Rightarrow> string" where
  "GetMetadataInfoFileName e = aeName e @ ''-'' @ aeNamespace e @ ''.yaml''"

definition GetMetadataFileName :: "AlluxioEngine \<Rightarrow> string" where
  "GetMetadataFileName e = ''metadata-backup-'' @ aeName e @ ''-'' @ aeNamespace e @ ''.gz''"

text \<open>\<open>IsValidMountRoot\<close> of \<open>pkg/utils/validation\<close>.\<close>

definition IsValidMountRoot :: "(string \<Rightarrow> bool) \<Rightarrow> string \<Rightarrow> bool" where
  "IsValidMountRoot isDNSLabel path =
     (path \<noteq> '''' \<and> IsAbs path \<and>
      list_all (\<lambda>part. isDNSLabel (map (\<lambda>c. if c = CHR ''_'' then CHR ''-'' else c) (map ToLower part)))
        (Split CHR ''/'' (tl (path_Clean path))))"

definition getMountRoot :: "engineEnv \<Rightarrow> string" where
  "getMountRoot v =
     (let mountRoot = (case kwLookupEnv (eeWorld v) ''MOUNT_ROOT'' of None \<Rightarrow> '''' | Some r \<Rightarrow> r) in
      if IsValidMountRoot (eeIsDNSLabel v) mountRoot then mountRoot @ ''/alluxio'' else ''/alluxio'')"

definition getMountPoint :: "engineEnv \<Rightarrow> AlluxioEngine \<Rightarrow> string" where
  "getMountPoint v e = getMountRoot v @ ''/'' @ aeNamespace e @ ''/'' @ aeName e @ ''/alluxio-fuse''"

definition GenLocalStoragePath :: "DatasetMount \<Rightarrow> string" where
  "GenLocalStoragePath mount =
     path_Join [''/underFSStorage'', if IsAbs (dmPath mount) then dmPath mount else dmName mount]"

section \<open>runtime_info.go and validate.go\<close>

text \<open>The first half: the information is built once, from the spec of the runtime.\<close>

definition buildInfo :: "engineEnv \<Rightarrow> AlluxioEngine \<Rightarrow> ((goerr + RuntimeInfo) \<times> AlluxioEngine) kgo" where
  "buildInfo v e =
     (case aeRuntimeInfo e of
        Some info \<Rightarrow> ret (Inr info, e)
      | None \<Rightarrow>
          andThen (getRuntime v e) (\<lambda>r.
          case r of
            Inl err \<Rightarrow> ret (Inl err, e)
          | Inr runtime \<Rightarrow>
              (case BuildRuntimeInfo (eeParseQuantity v) (aeName e) (aeNamespace e) (aeRuntimeType e)
                      (roTieredStore runtime) (eeMetadataList v runtime) (omAnnotations (roMeta runtime)) of
                 Inl err \<Rightarrow> ret (Inl err, e)
               | Inr info \<Rightarrow>
                   let info' = SetFuseNodeSelector (roFuseNodeSelector runtime) info in
                   ret (Inr info', e\<lparr>aeRuntimeInfo := Some info'\<rparr>))))"

definition ownerInfo :: "engineEnv \<Rightarrow> AlluxioEngine \<Rightarrow> RuntimeInfo \<Rightarrow> ((goerr + RuntimeInfo) \<times> AlluxioEngine) kgo" where
  "ownerInfo v e info =
     (if riOwnerDatasetUID info \<noteq> '''' then ret (Inr info, e)
      else
        andThen (getRuntime v e) (\<lambda>r.
        case r of
          Inl err \<Rightarrow> ret (Inl err, e)
        | Inr runtime \<Rightarrow>
            (case GetOwnerDatasetUIDFromRuntimeMeta (roMeta runtime) of
               Inl err \<Rightarrow> ret (Inl err, e)
             | Inr uid \<Rightarrow>
                 let info' = SetOwnerDatasetUID uid info in ret (Inr info', e\<lparr>aeRuntimeInfo := Some info'\<rparr>))))"

definition placementInfo :: "engineEnv \<Rightarrow> AlluxioEngine \<Rightarrow> RuntimeInfo \<Rightarrow> ((goerr + RuntimeInfo) \<times> AlluxioEngine) kgo" where
  "placementInfo v e info =
     (if IsPlacementModeSet info then ret (Inr info, e)
      else
        andThen (viaOp (eeWorld v) (\<lambda>cl. GetDataset cl (aeName e) (aeNamespace e))) (\<lambda>r.
        case r of
          Inl err \<Rightarrow> ret (if IsNotFound err then Inr info else Inl err, e)
        | Inr dataset \<Rightarrow>
            let info' = SetupWithDataset dataset info in ret (Inr info', e\<lparr>aeRuntimeInfo := Some info'\<rparr>)))"

definition getRuntimeInfo :: "engineEnv \<Rightarrow> (AlluxioEngine, goerr + RuntimeInfo) engineMethod" where
  "getRuntimeInfo v e =
     andThen (buildInfo v e) (\<lambda>(r, e).
     case r of
       Inl err \<Rightarrow> ret (Inl err, e)
     | Inr info \<Rightarrow>
         if kwLookupEnv (eeWorld v) ''FLUID_UNIT_TEST'' \<noteq> None then ret (Inr info, e)
         else
           andThen (ownerInfo v e info) (\<lambda>(r, e).
           case r of
             Inl err \<Rightarrow> ret (Inl err, e)
           | Inr info \<Rightarrow> placementInfo v e info))"

text \<open>\<open>ValidateRuntimeInfo\<close> of \<open>pkg/ddc/base/validate.go\<close>.\<close>

definition ValidateRuntimeInfo :: "RuntimeInfo \<Rightarrow> goerr option" where
  "ValidateRuntimeInfo info =
     (if riOwnerDatasetUID info = ''''
      then Some (TemporaryValidationFailed (''OwnerDatasetUID is not set in runtime info, this is usually a temporary '' @
                                            ''state, retrying''))
      else if \<not> IsPlacementModeSet info
      then Some (TemporaryValidationFailed (''exclusive mode is not set in runtime info, this is usually a temporary '' @
                                            ''state, retrying''))
      else None)"

definition Validate :: "engineEnv \<Rightarrow> (AlluxioEngine, goerr option) engineMethod" where
  "Validate v e =
     andThen (getRuntimeInfo v e) (\<lambda>(r, e).
     case r of Inl err \<Rightarrow> ret (Some err, e) | Inr info \<Rightarrow> ret (ValidateRuntimeInfo info, e))"

section \<open>report.go\<close>

definition totalPrefix :: string where
  "totalPrefix = ''Total Capacity: ''"

definition usedPrefix :: string where
  "usedPrefix = ''Used Capacity: ''"

definition noHits :: cacheHitStates where
  "noHits =
     \<lparr>chCacheHitRatio = '''', chLocalHitRatio = '''', chRemoteHitRatio = '''', chLocalThroughputRatio = '''',
      chRemoteThroughputRatio = '''', chCacheThroughputRatio = '''', chBytesReadLocal = 0, chBytesReadRemote = 0,
      chBytesReadUfsAll = 0, chTimestamp = 0\<rparr>"

definition noStates :: cacheStates where
  "noStates = \<lparr>csCapacity = '''', csCached = '''', csCachedPercentage = '''', csHits = noHits\<rparr>"

text \<open>A size in another notation: an error of the parser is ignored, its value is \<open>-1\<close>.\<close>

definition convertSize :: "(rat \<Rightarrow> int) \<Rightarrow> string \<Rightarrow> string" where
  "convertSize outOfRange s = BytesSize (roundFloat (of_int (fst (FromHumanSize outOfRange s))))"

fun reportLines :: "(rat \<Rightarrow> int) \<Rightarrow> string list \<Rightarrow> cacheStates \<Rightarrow> cacheStates" where
  "reportLines outOfRange [] states = states"
| "reportLines outOfRange (line # rest) states =
     (let str = TrimSpace line;
          states1 = (if HasPrefix str totalPrefix
                     then states\<lparr>csCapacity := convertSize outOfRange (TrimPrefix str totalPrefix)\<rparr> else states);
          states2 = (if HasPrefix str usedPrefix
                     then states1\<lparr>csCached := convertSize outOfRange (TrimPrefix str usedPrefix)\<rparr> else states1) in
      reportLines outOfRange rest states2)"

definition parseReportSummary :: "(rat \<Rightarrow> int) \<Rightarrow> string \<Rightarrow> cacheStates" where
  "parseReportSummary outOfRange s = reportLines outOfRange (Split newline s) noStates"

text \<open>
  The two regular expressions \<open>\(Type:\sCOUNTER,\sValue:\s(.*)\)\<close> and \<open>\(Type:\sGAUGE,\sValue:\s(.*)/MIN\)\<close>: the first
  occurrence of the part before the group, and the last of the part after it.
\<close>

definition reSpace :: "char \<Rightarrow> bool" where
  "reSpace c = ((of_char c :: nat) \<in> {9, 10, 12, 13, 32})"

fun matchHead :: "string \<Rightarrow> string \<Rightarrow> string option" where
  "matchHead [] s = Some s"
| "matchHead (p # ps) [] = None"
| "matchHead (p # ps) (c # s) =
     (if c = p \<or> p = CHR '' '' \<and> reSpace c then matchHead ps s else None)"

fun findHead :: "string \<Rightarrow> string \<Rightarrow> string option" where
  "findHead p [] = matchHead p []"
| "findHead p (c # s) = (case matchHead p (c # s) of Some rest \<Rightarrow> Some rest | None \<Rightarrow> findHead p s)"

text \<open>What precedes the last occurrence of a text.\<close>

fun beforeLast :: "string \<Rightarrow> string \<Rightarrow> string option" where
  "beforeLast p [] = (if p = [] then Some [] else None)"
| "beforeLast p (c # s) =
     (case beforeLast p s of
        Some x \<Rightarrow> Some (c # x)
      | None \<Rightarrow> if HasPrefix (c # s) p then Some [] else None)"

definition submatch :: "string \<Rightarrow> string \<Rightarrow> string \<Rightarrow> string option" where
  "submatch front back s = Option.bind (findHead front s) (beforeLast back)"

abbreviation counterHead :: string where
  "counterHead \<equiv> ''(Type: COUNTER, Value: ''"

abbreviation gaugeHead :: string where
  "gaugeHead \<equiv> ''(Type: GAUGE, Value: ''"

record throughput =
  tpLocal :: int
  tpRemote :: int
  tpUfs :: int

text \<open>A metric: the prefix of its line, the pattern of its value and where it is stored.\<close>

definition metricTable ::
  "(string \<times> string \<times> string \<times> (int \<Rightarrow> cacheHitStates \<times> throughput \<Rightarrow> cacheHitStates \<times> throughput)) list" where
  "metricTable =
     [(''Cluster.BytesReadLocal '', counterHead, '')'', \<lambda>i. apfst (chBytesReadLocal_update (\<lambda>_. i))),
      (''Cluster.BytesReadRemote '', counterHead, '')'', \<lambda>i. apfst (chBytesReadRemote_update (\<lambda>_. i))),
      (''Cluster.BytesReadUfsAll '', counterHead, '')'', \<lambda>i. apfst (chBytesReadUfsAll_update (\<lambda>_. i))),
      (''Cluster.BytesReadLocalThroughput '', gaugeHead, ''/MIN)'', \<lambda>i. apsnd (tpLocal_update (\<lambda>_. i))),
      (''Cluster.BytesReadRemoteThroughput '', gaugeHead, ''/MIN)'', \<lambda>i. apsnd (tpRemote_update (\<lambda>_. i))),
      (''Cluster.BytesReadUfsThroughput '', gaugeHead, ''/MIN)'', \<lambda>i. apsnd (tpUfs_update (\<lambda>_. i)))]"

text \<open>The group is read without a check that the pattern matches.\<close>

fun metricLines :: "(rat \<Rightarrow> int) \<Rightarrow> string list \<Rightarrow> cacheHitStates \<times> throughput \<Rightarrow> (cacheHitStates \<times> throughput) kgo" where
  "metricLines outOfRange [] acc = ret acc"
| "metricLines outOfRange (line # rest) acc =
     (let str = TrimSpace line in
      case List.find (\<lambda>(prefix, _). HasPrefix str prefix) metricTable of
        None \<Rightarrow> metricLines outOfRange rest acc
      | Some (_, before, after, store) \<Rightarrow>
          (case submatch before after str of
             None \<Rightarrow> panic indexPanic
           | Some size1 \<Rightarrow> metricLines outOfRange rest (store (fst (FromHumanSize outOfRange size1)) acc)))"

definition wrap64 :: "int \<Rightarrow> int" where
  "wrap64 i = (i + 2 ^ 63) mod 2 ^ 64 - 2 ^ 63"

definition hitRatios :: "cacheHitStates \<Rightarrow> cacheHitStates \<Rightarrow> cacheHitStates" where
  "hitRatios last1 states =
     (let local1 = wrap64 (chBytesReadLocal states - chBytesReadLocal last1);
          remote = wrap64 (chBytesReadRemote states - chBytesReadRemote last1);
          ufs = wrap64 (chBytesReadUfsAll states - chBytesReadUfsAll last1);
          all1 = wrap64 (local1 + remote + ufs) in
      if all1 \<noteq> 0 then
        states\<lparr>chLocalHitRatio := ratioPercent local1 all1, chRemoteHitRatio := ratioPercent remote all1,
               chCacheHitRatio := ratioPercent (wrap64 (local1 + remote)) all1\<rparr>
      else states\<lparr>chLocalHitRatio := ''0.0%'', chRemoteHitRatio := ''0.0%'', chCacheHitRatio := ''0.0%''\<rparr>)"

definition throughputRatios :: "throughput \<Rightarrow> cacheHitStates \<Rightarrow> cacheHitStates" where
  "throughputRatios tp states =
     (let all1 = wrap64 (tpLocal tp + tpRemote tp + tpUfs tp) in
      if all1 \<noteq> 0 then
        states\<lparr>chLocalThroughputRatio := ratioPercent (tpLocal tp) all1,
               chRemoteThroughputRatio := ratioPercent (tpRemote tp) all1,
               chCacheThroughputRatio := ratioPercent (wrap64 (tpLocal tp + tpRemote tp)) all1\<rparr>
      else states\<lparr>chLocalThroughputRatio := ''0.0%'', chRemoteThroughputRatio := ''0.0%'',
                  chCacheThroughputRatio := ''0.0%''\<rparr>)"

definition ParseReportMetric ::
  "(rat \<Rightarrow> int) \<Rightarrow> string \<Rightarrow> cacheHitStates \<Rightarrow> cacheHitStates option \<Rightarrow> cacheHitStates kgo" where
  "ParseReportMetric outOfRange metrics states last1 =
     andThen (metricLines outOfRange (Split newline metrics) (states, \<lparr>tpLocal = 0, tpRemote = 0, tpUfs = 0\<rparr>))
       (\<lambda>(states, tp).
       case last1 of None \<Rightarrow> ret states | Some l \<Rightarrow> ret (throughputRatios tp (hitRatios l states)))"

section \<open>cache.go\<close>

abbreviation minute :: int where
  "minute \<equiv> 60 * second"

definition GetCacheHitStates :: "engineEnv \<Rightarrow> (AlluxioEngine, cacheHitStates) engineMethod" where
  "GetCacheHitStates v e =
     andThen (viaOp (eeWorld v) now) (\<lambda>t.
     case aeLastHits e of
       Some last1 \<Rightarrow>
         if t - chTimestamp last1 < minute then ret (last1, e)
         else
           andThen (ReportMetrics (eeWorld v) (fileUtils e)) (\<lambda>r.
           case r of
             Inl _ \<Rightarrow> ret (last1, e)
           | Inr metrics \<Rightarrow>
               andThen (ParseReportMetric (eeOutOfRange v) metrics (noHits\<lparr>chTimestamp := t\<rparr>) (Some last1)) (\<lambda>states.
               ret (states, e\<lparr>aeLastHits := Some states\<rparr>)))
     | None \<Rightarrow>
         andThen (ReportMetrics (eeWorld v) (fileUtils e)) (\<lambda>r.
         case r of
           Inl _ \<Rightarrow> ret (noHits\<lparr>chTimestamp := t\<rparr>, e)
         | Inr metrics \<Rightarrow>
             andThen (ParseReportMetric (eeOutOfRange v) metrics (noHits\<lparr>chTimestamp := t\<rparr>) None) (\<lambda>states.
             ret (states, e\<lparr>aeLastHits := Some states\<rparr>))))"

abbreviation metadataSyncNotDoneMsg :: string where
  "metadataSyncNotDoneMsg \<equiv> ''[Calculating]''"

definition patchDatasetStatus :: "(rat \<Rightarrow> int) \<Rightarrow> Dataset \<Rightarrow> cacheStates \<Rightarrow> cacheStates" where
  "patchDatasetStatus outOfRange dataset states =
     (let ufsTotal = dstUfsTotal (dStatus dataset) in
      if ufsTotal = '''' \<or> ufsTotal = metadataSyncNotDoneMsg then states
      else
        states\<lparr>csCachedPercentage :=
          sharePercent (fst (FromHumanSize outOfRange (csCached states))) (fst (FromHumanSize outOfRange ufsTotal))\<rparr>)"

text \<open>The states are returned next to the error if the dataset cannot be read.\<close>

definition queryCacheStatus :: "engineEnv \<Rightarrow> (AlluxioEngine, cacheStates \<times> goerr option) engineMethod" where
  "queryCacheStatus v e =
     andThen (ReportSummary (eeWorld v) (fileUtils e)) (\<lambda>r.
     case r of
       Inl err \<Rightarrow> ret ((noStates, Some err), e)
     | Inr summary \<Rightarrow>
         if summary = '''' then ret ((noStates, Some (Err ''Alluxio summary is empty'')), e)
         else
           let states = parseReportSummary (eeOutOfRange v) summary in
           andThen (viaOp (eeWorld v) (\<lambda>cl. GetDataset cl (aeName e) (aeNamespace e))) (\<lambda>r.
           case r of
             Inl err \<Rightarrow> ret ((states, Some err), e)
           | Inr dataset \<Rightarrow>
               andThen (GetCacheHitStates v e) (\<lambda>(hits, e).
               ret (((patchDatasetStatus (eeOutOfRange v) dataset states)\<lparr>csHits := hits\<rparr>, None), e))))"

definition getGracefulShutdownLimits :: "engineEnv \<Rightarrow> AlluxioEngine \<Rightarrow> (goerr + int) kgo" where
  "getGracefulShutdownLimits v e =
     andThen (getRuntime v e) (\<lambda>r.
     ret (case r of
            Inl err \<Rightarrow> Inl err
          | Inr runtime \<Rightarrow> Inr (case roGracefulShutdown runtime of Some n \<Rightarrow> n | None \<Rightarrow> 3)))"

definition getCleanCacheGracePeriodSeconds :: "engineEnv \<Rightarrow> AlluxioEngine \<Rightarrow> (goerr + int) kgo" where
  "getCleanCacheGracePeriodSeconds v e =
     andThen (getRuntime v e) (\<lambda>r.
     ret (case r of
            Inl err \<Rightarrow> Inl err
          | Inr runtime \<Rightarrow> Inr (case roCleanGracePeriod runtime of Some n \<Rightarrow> n | None \<Rightarrow> 60)))"

definition invokeCleanCache :: "engineEnv \<Rightarrow> AlluxioEngine \<Rightarrow> string \<Rightarrow> (goerr option) kgo" where
  "invokeCleanCache v e path =
     andThen (viaOp (eeWorld v) (\<lambda>cl. GetStatefulSet cl (getMasterName e) (aeNamespace e))) (\<lambda>r.
     case r of
       Inl err \<Rightarrow> ret (if IsNotFound err then None else Some err)
     | Inr master \<Rightarrow>
         if stsReadyReplicas master = 0 then ret None
         else
           andThen (getCleanCacheGracePeriodSeconds v e) (\<lambda>r.
           case r of
             Inl err \<Rightarrow> ret (Some err)
           | Inr seconds \<Rightarrow> CleanCache (eeWorld v) (fileUtils e) path seconds))"

section \<open>hcfs.go and api_gateway.go\<close>

text \<open>The endpoint of the service of the master for the port of a name; a service that is not found has none.\<close>

definition serviceEndpoint :: "engineEnv \<Rightarrow> AlluxioEngine \<Rightarrow> string \<Rightarrow> string \<Rightarrow> (goerr + string) kgo" where
  "serviceEndpoint v e scheme portName =
     (let serviceName = aeName e @ ''-master-0'' in
      andThen (call (\<lambda>h. kwGetService (eeWorld v) h serviceName (aeNamespace e)) (ReadService serviceName (aeNamespace e)))
        (\<lambda>r.
        ret (case r of
               Inl err \<Rightarrow> if IsNotFound err then Inr '''' else Inl err
             | Inr ports \<Rightarrow>
                 (case List.find (\<lambda>(n, _). n = portName) ports of
                    None \<Rightarrow> Inr ''''
                  | Some (_, port) \<Rightarrow> Inr (scheme @ serviceName @ ''.'' @ aeNamespace e @ '':'' @ Itoa port)))))"

definition queryHCFSEndpoint :: "engineEnv \<Rightarrow> AlluxioEngine \<Rightarrow> (goerr + string) kgo" where
  "queryHCFSEndpoint v e = serviceEndpoint v e ''alluxio://'' ''rpc''"

definition queryCompatibleUFSVersion :: "engineEnv \<Rightarrow> AlluxioEngine \<Rightarrow> (goerr + string) kgo" where
  "queryCompatibleUFSVersion v e = GetConf (eeWorld v) (fileUtils e) ''alluxio.underfs.version''"

definition GetHCFSStatus :: "engineEnv \<Rightarrow> AlluxioEngine \<Rightarrow> (goerr + string \<times> string) kgo" where
  "GetHCFSStatus v e =
     andThen (queryHCFSEndpoint v e) (\<lambda>r.
     case r of
       Inl err \<Rightarrow> ret (Inl err)
     | Inr endpoint \<Rightarrow>
         andThen (queryCompatibleUFSVersion v e) (\<lambda>r.
         ret (case r of Inl err \<Rightarrow> Inl err | Inr version \<Rightarrow> Inr (endpoint, version))))"

definition GetAPIGatewayStatus :: "engineEnv \<Rightarrow> AlluxioEngine \<Rightarrow> (goerr + string) kgo" where
  "GetAPIGatewayStatus v e = serviceEndpoint v e '''' ''rest''"

end
