(* ===== verification/Alluxio_Ufs.thy ===== *)
theory Alluxio_Ufs
  imports Alluxio_State
begin

text \<open>
  The under file systems of an Alluxio engine (\<open>pkg/ddc/alluxio/ufs.go\<close>, \<open>ufs_internal.go\<close>, \<open>metadata.go\<close>, and
  \<open>generateNonNativeMountsInfo\<close> of \<open>transform.go\<close>): mounting what the dataset names, the options of a mount with the secrets
  they refer to, following changes of the mounts, and the synchronisation of the metadata. That synchronisation runs in
  a goroutine of its own (\<open>metadataTask\<close>); its result arrives over a channel.
\<close>

section \<open>Options\<close>

fun genEncryptOptions ::
  "engineEnv \<Rightarrow> AlluxioEngine \<Rightarrow> EncryptOption list \<Rightarrow> (string \<times> string) list \<Rightarrow> (goerr + (string \<times> string) list) kgo" where
  "genEncryptOptions v e [] mOptions = ret (Inr mOptions)"
| "genEncryptOptions v e (item # items) mOptions =
     (if map_of mOptions (eoName item) \<noteq> None then
        ret (Inl (Err (''the option '' @ eoName item @ '' is set more than one times, please double check the '' @
                       ''dataset's option and encryptOptions'')))
      else
        andThen (call (\<lambda>h. kwGetSecret (eeWorld v) h (eoSecretName item) (aeNamespace e))
                   (ReadSecret (eoSecretName item) (aeNamespace e))) (\<lambda>r.
        case r of
          Inl err \<Rightarrow> ret (Inl err)
        | Inr secret \<Rightarrow>
            genEncryptOptions v e items (AList.update (eoName item) (lookupStr secret (eoSecretKey item)) mOptions)))"

definition plainOptions :: "(string \<times> string) list \<Rightarrow> DatasetMount \<Rightarrow> (string \<times> string) list" where
  "plainOptions sharedOptions m = assignAll (dmOptions m) (assignAll sharedOptions [])"

definition secretFile :: "EncryptOption \<Rightarrow> string" where
  "secretFile o1 = path_Join [''/etc/fluid/secrets/'' @ eoSecretName o1, eoSecretKey o1]"

definition genUFSMountOptions ::
  "engineEnv \<Rightarrow> AlluxioEngine \<Rightarrow> DatasetMount \<Rightarrow> (string \<times> string) list \<Rightarrow> EncryptOption list \<Rightarrow> bool \<Rightarrow>
   (goerr + (string \<times> string) list) kgo" where
  "genUFSMountOptions v e m sharedOptions sharedEncryptOptions extractEncryptOptions =
     (let mOptions = plainOptions sharedOptions m in
      if extractEncryptOptions then
        andThen (genEncryptOptions v e sharedEncryptOptions mOptions) (\<lambda>r.
        case r of
          Inl err \<Rightarrow> ret (Inl err)
        | Inr mOptions \<Rightarrow> genEncryptOptions v e (dmEncryptOptions m) mOptions)
      else
        ret (Inr (assignAll (map (\<lambda>o1. (eoName o1, secretFile o1)) (sharedEncryptOptions @ dmEncryptOptions m))
                    mOptions)))"

text \<open>One line of the mount configuration; the options are in the order in which Go enumerates the map.\<close>

definition mountArgs :: "DatasetMount \<Rightarrow> (string \<times> string) list \<Rightarrow> string list" where
  "mountArgs m mOptions =
     [GenUFSPathInUnifiedNamespace m, dmMountPoint m] @
     (if dmReadOnly m then [''--readonly''] else []) @ (if dmShared m then [''--shared''] else []) @
     concat (map (\<lambda>(key, val). [''--option'', key @ ''='' @ val]) mOptions)"

fun nonNativeMounts ::
  "engineEnv \<Rightarrow> AlluxioEngine \<Rightarrow> Dataset \<Rightarrow> DatasetMount list \<Rightarrow> (goerr + string list) kgo" where
  "nonNativeMounts v e dataset [] = ret (Inr [])"
| "nonNativeMounts v e dataset (m # ms) =
     (if IsFluidNativeScheme (dmMountPoint m) then nonNativeMounts v e dataset ms
      else
        andThen (genUFSMountOptions v e m (dsSharedOptions (dSpec dataset)) (dsSharedEncryptOptions (dSpec dataset)) False)
          (\<lambda>r.
          case r of
            Inl err \<Rightarrow> ret (Inl err)
          | Inr mOptions \<Rightarrow>
              andThen (nonNativeMounts v e dataset ms) (\<lambda>r.
              ret (case r of
                     Inl err \<Rightarrow> Inl err
                   | Inr lines \<Rightarrow> Inr (Join CHR '' '' (mountArgs m mOptions) # lines)))))"

definition generateNonNativeMountsInfo :: "engineEnv \<Rightarrow> AlluxioEngine \<Rightarrow> Dataset \<Rightarrow> (goerr + string list) kgo" where
  "generateNonNativeMountsInfo v e dataset = nonNativeMounts v e dataset (dsMounts (dSpec dataset))"

section \<open>ufs_internal.go\<close>

definition readDataset :: "engineEnv \<Rightarrow> AlluxioEngine \<Rightarrow> (goerr + Dataset) kgo" where
  "readDataset v e = viaOp (eeWorld v) (\<lambda>cl. GetDataset cl (aeName e) (aeNamespace e))"

definition writeDatasetStatus :: "engineEnv \<Rightarrow> Dataset \<Rightarrow> (goerr option) kgo" where
  "writeDatasetStatus v d = viaOp (eeWorld v) (\<lambda>cl. updateDatasetStatus cl d)"

definition totalStorageBytesInternal :: "engineEnv \<Rightarrow> AlluxioEngine \<Rightarrow> (goerr + int) kgo" where
  "totalStorageBytesInternal v e =
     andThen (Alluxio_Operations.Count (eeWorld v) (fileUtils e) ''/'') (\<lambda>r.
     ret (case r of Inl err \<Rightarrow> Inl err | Inr (_, _, sum1) \<Rightarrow> Inr sum1))"

definition totalFileNumsInternal :: "engineEnv \<Rightarrow> AlluxioEngine \<Rightarrow> (goerr + int) kgo" where
  "totalFileNumsInternal v e = GetFileCount (eeWorld v) (fileUtils e)"

definition getDataSetFileNum :: "engineEnv \<Rightarrow> AlluxioEngine \<Rightarrow> (goerr + string) kgo" where
  "getDataSetFileNum v e =
     andThen (totalFileNumsInternal v e) (\<lambda>r. ret (case r of Inl err \<Rightarrow> Inl err | Inr n \<Rightarrow> Inr (Itoa n)))"

fun anyUnmounted :: "engineEnv \<Rightarrow> AlluxioEngine \<Rightarrow> DatasetMount list \<Rightarrow> decision kgo" where
  "anyUnmounted v e [] = ret (False, None)"
| "anyUnmounted v e (m # ms) =
     (if IsFluidNativeScheme (dmMountPoint m) then anyUnmounted v e ms
      else
        andThen (IsMounted (eeWorld v) (fileUtils e) (GenUFSPathInUnifiedNamespace m)) (\<lambda>r.
        case r of
          Inl err \<Rightarrow> ret (False, Some err)
        | Inr mounted \<Rightarrow> if \<not> mounted then ret (True, None) else anyUnmounted v e ms))"

abbreviation ufsNotReady :: goerr where
  "ufsNotReady \<equiv> Err ''the UFS is not ready''"

definition shouldMountUFS :: "engineEnv \<Rightarrow> AlluxioEngine \<Rightarrow> decision kgo" where
  "shouldMountUFS v e =
     andThen (readDataset v e) (\<lambda>r.
     case r of
       Inl err \<Rightarrow> ret (False, Some err)
     | Inr dataset \<Rightarrow>
         andThen (Ready (eeWorld v) (fileUtils e)) (\<lambda>ready.
         if \<not> ready then ret (False, Some ufsNotReady) else anyUnmounted v e (dsMounts (dSpec dataset))))"

definition FindUnmountedUFS :: "engineEnv \<Rightarrow> AlluxioEngine \<Rightarrow> (string list \<times> goerr option) kgo" where
  "FindUnmountedUFS v e =
     andThen (readDataset v e) (\<lambda>r.
     case r of
       Inl err \<Rightarrow> ret ([], Some err)
     | Inr dataset \<Rightarrow>
         andThen (Ready (eeWorld v) (fileUtils e)) (\<lambda>ready.
         if \<not> ready then ret ([], Some ufsNotReady)
         else
           let alluxioPaths = mountPaths (dsMounts (dSpec dataset)) in
           if alluxioPaths = [] then ret ([], None)
           else FindUnmountedAlluxioPaths (eeWorld v) (fileUtils e) alluxioPaths))"

definition mountTimeOnce :: "engineEnv \<Rightarrow> AlluxioEngine \<Rightarrow> (goerr option) kgo" where
  "mountTimeOnce v e =
     andThen (getRuntime v e) (\<lambda>r.
     case r of
       Inl err \<Rightarrow> ret (Some err)
     | Inr runtime \<Rightarrow>
         andThen (viaOp (eeWorld v) now) (\<lambda>t.
         writeIfChanged (eeWorld v) runtime ((roStatus runtime)\<lparr>rsMountTime := Some t\<rparr>)))"

definition updateMountTime :: "engineEnv \<Rightarrow> AlluxioEngine \<Rightarrow> unit kgo" where
  "updateMountTime v e = andThen (RetryOnConflict (mountTimeOnce v e)) (\<lambda>_. ret ())"

text \<open>The boolean is \<open>everMounted\<close>.\<close>

fun mountAll :: "engineEnv \<Rightarrow> AlluxioEngine \<Rightarrow> Dataset \<Rightarrow> DatasetMount list \<Rightarrow> bool \<Rightarrow> (goerr option \<times> bool) kgo" where
  "mountAll v e dataset [] everMounted = ret (None, everMounted)"
| "mountAll v e dataset (m # ms) everMounted =
     (if IsFluidNativeScheme (dmMountPoint m) then mountAll v e dataset ms everMounted
      else
        let alluxioPath = GenUFSPathInUnifiedNamespace m in
        andThen (IsMounted (eeWorld v) (fileUtils e) alluxioPath) (\<lambda>r.
        case r of
          Inl err \<Rightarrow> ret (Some err, everMounted)
        | Inr mounted \<Rightarrow>
            andThen (genUFSMountOptions v e m (dsSharedOptions (dSpec dataset)) (dsSharedEncryptOptions (dSpec dataset)) True)
              (\<lambda>r.
              case r of
                Inl err \<Rightarrow>
                  ret (Some (Wrapped (''gen ufs mount options by spec mount item failure,mount name:'' @ dmName m) err),
                       everMounted)
              | Inr mOptions \<Rightarrow>
                  if mounted then mountAll v e dataset ms everMounted
                  else
                    andThen (Mount (eeWorld v) (fileUtils e) alluxioPath (dmMountPoint m) mOptions (dmReadOnly m) (dmShared m))
                      (\<lambda>err.
                      if err \<noteq> None then ret (err, everMounted) else mountAll v e dataset ms True))))"

definition mountUFS :: "engineEnv \<Rightarrow> AlluxioEngine \<Rightarrow> (goerr option) kgo" where
  "mountUFS v e =
     andThen (readDataset v e) (\<lambda>r.
     case r of
       Inl err \<Rightarrow> ret (Some err)
     | Inr dataset \<Rightarrow>
         andThen (Ready (eeWorld v) (fileUtils e)) (\<lambda>ready.
         if \<not> ready then ret (Some ufsNotReady)
         else
           andThen (mountAll v e dataset (dsMounts (dSpec dataset)) False) (\<lambda>(err, everMounted).
           if err \<noteq> None then ret err
           else if everMounted then andThen (updateMountTime v e) (\<lambda>_. ret None)
           else ret None)))"

fun mountAdded :: "engineEnv \<Rightarrow> AlluxioEngine \<Rightarrow> Dataset \<Rightarrow> string list \<Rightarrow> DatasetMount list \<Rightarrow> (goerr option) kgo" where
  "mountAdded v e dataset added [] = ret None"
| "mountAdded v e dataset added (m # ms) =
     (let alluxioPath = GenUFSPathInUnifiedNamespace m in
      if IsFluidNativeScheme (dmMountPoint m) \<or> \<not> ContainsString added alluxioPath
      then mountAdded v e dataset added ms
      else
        andThen (genUFSMountOptions v e m (dsSharedOptions (dSpec dataset)) (dsSharedEncryptOptions (dSpec dataset)) True)
          (\<lambda>r.
          case r of
            Inl err \<Rightarrow> ret (Some err)
          | Inr mOptions \<Rightarrow>
              andThen (Mount (eeWorld v) (fileUtils e) alluxioPath (dmMountPoint m) mOptions (dmReadOnly m) (dmShared m))
                (\<lambda>err. if err \<noteq> None then ret err else mountAdded v e dataset added ms)))"

fun unmountAll :: "engineEnv \<Rightarrow> AlluxioEngine \<Rightarrow> string list \<Rightarrow> (goerr option) kgo" where
  "unmountAll v e [] = ret None"
| "unmountAll v e (p # ps) =
     andThen (UnMount (eeWorld v) (fileUtils e) p) (\<lambda>err. if err \<noteq> None then ret err else unmountAll v e ps)"

definition updatingUFSWithMountCommand :: "engineEnv \<Rightarrow> AlluxioEngine \<Rightarrow> Dataset \<Rightarrow> UFSToUpdate \<Rightarrow> decision kgo" where
  "updatingUFSWithMountCommand v e dataset u =
     andThen (Ready (eeWorld v) (fileUtils e)) (\<lambda>ready.
     if \<not> ready then
       ret (False, Some (Err (''the UFS is not ready, namespace:'' @ aeNamespace e @ '',name:'' @ aeName e)))
     else
       andThen (mountAdded v e dataset (utToAdd u) (dsMounts (dSpec dataset))) (\<lambda>err.
       if err \<noteq> None then ret (False, err)
       else
         andThen (unmountAll v e (utToRemove u)) (\<lambda>err.
         if err \<noteq> None then ret (False, err) else ret (True, None))))"

abbreviation mountInfoKey :: string where
  "mountInfoKey \<equiv> ''mount.info''"

text \<open>The paths that are mounted against those that the dataset wants, both without the root.\<close>

definition mountsReady :: "Dataset \<Rightarrow> string list \<Rightarrow> bool" where
  "mountsReady dataset mounted =
     (let mountedPaths = RemoveString mounted ''/'';
          wanted = filter (\<lambda>p. p \<noteq> ''/'') (mountPaths (dsMounts (dSpec dataset))) in
      length mountedPaths = length wanted \<and> SubtractString wanted mountedPaths = [])"

text \<open>
  A config map that cannot be read for another reason than not being found is an empty object next to the error. The data
  of a config map without entries is a nil map. The mounted paths are compared even if they could not be read.
\<close>

definition updateUFSWithMountConfigMapScript :: "engineEnv \<Rightarrow> AlluxioEngine \<Rightarrow> Dataset \<Rightarrow> decision kgo" where
  "updateUFSWithMountConfigMapScript v e dataset =
     andThen (call (\<lambda>h. kwGetConfigMap (eeWorld v) h (getMountConfigmapName e) (aeNamespace e))
                (ReadConfigMap (getMountConfigmapName e) (aeNamespace e))) (\<lambda>r.
     case r of
       Inl err \<Rightarrow>
         if IsNotFound err then
           andThen (emit (Op (Recorded (omNamespace (dMeta dataset)) (omName (dMeta dataset)) ''Warning''
                      ''RuntimeWithSecretNotSupported''
                      ''dataset created by runtime without using configmap as mount storage is not support dynamic updates'')))
             (\<lambda>_. ret (False, Some (Wrapped (''dataset '' @ omName (dMeta dataset) @
                '' may be created by runtime without using configmap as mount storage'')
                (Err (''mount configmap '' @ getMountConfigmapName e @ '' is not found'')))))
         else ret (False, Some err)
     | Inr cm \<Rightarrow>
         andThen (generateNonNativeMountsInfo v e dataset) (\<lambda>r.
         case r of
           Inl err \<Rightarrow> ret (False, Some err)
         | Inr lines \<Rightarrow>
             let info = Join newline lines @ [newline];
                 cm' = cm\<lparr>cmData := AList.update mountInfoKey info (cmData cm)\<rparr>;
                 changed = (map_of (cmData cm) mountInfoKey \<noteq> Some info) in
             if cmData cm = [] then panic ''assignment to entry in nil map''
             else
             andThen (if changed then call (\<lambda>h. kwUpdateConfigMap (eeWorld v) h cm') (WroteConfigMap cm') else ret None)
               (\<lambda>err.
               if err \<noteq> None then ret (False, err)
               else
                 andThen (ExecMountScripts (eeWorld v) (fileUtils e)) (\<lambda>err.
                 case err of
                   Some err \<Rightarrow> ret (False, Some (Wrapped ''execute mount.sh occurs error'' err))
                 | None \<Rightarrow>
                     andThen (GetMountedAlluxioPaths (eeWorld v) (fileUtils e)) (\<lambda>(mounted, err).
                     ret (mountsReady dataset mounted, err))))))"

section \<open>metadata.go\<close>

text \<open>
  A master that cannot be read for another reason than not being found has no replicas: dereferencing them panics, and so
  does a master without a replica count.
\<close>

definition checkExistenceOfMaster :: "engineEnv \<Rightarrow> AlluxioEngine \<Rightarrow> (goerr option) kgo" where
  "checkExistenceOfMaster v e =
     andThen (viaOp (eeWorld v) (\<lambda>cl. GetStatefulSet cl (getMasterName e) (aeNamespace e))) (\<lambda>r.
     case r of
       Inl err \<Rightarrow>
         if IsNotFound err then ret (Some (Err (''the master engine does not exist: '' @ errText err)))
         else panic nilPanic
     | Inr master \<Rightarrow>
         (case stsReplicas master of
            None \<Rightarrow> panic nilPanic
          | Some n \<Rightarrow>
              if n \<le> 0 then ret (Some (Err ''the master engine does not exist: <nil>'')) else ret None))"

definition AutoSyncEnabled :: "RuntimeObject \<Rightarrow> bool" where
  "AutoSyncEnabled runtime = (case roAutoSync runtime of None \<Rightarrow> True | Some b \<Rightarrow> b)"

definition shouldSyncMetadata :: "engineEnv \<Rightarrow> AlluxioEngine \<Rightarrow> decision kgo" where
  "shouldSyncMetadata v e =
     andThen (readDataset v e) (\<lambda>r.
     case r of
       Inl err \<Rightarrow> ret (False, Some err)
     | Inr dataset \<Rightarrow>
         andThen (getRuntime v e) (\<lambda>r.
         case r of
           Inl err \<Rightarrow> ret (False, Some err)
         | Inr runtime \<Rightarrow>
             if \<not> AutoSyncEnabled runtime then ret (False, None)
             else if dstUfsTotal (dStatus dataset) \<noteq> '''' \<and> dstUfsTotal (dStatus dataset) \<noteq> metadataSyncNotDoneMsg
             then ret (False, None)
             else ret (True, None)))"

definition shouldRestoreMetadata :: "engineEnv \<Rightarrow> AlluxioEngine \<Rightarrow> decision kgo" where
  "shouldRestoreMetadata v e =
     andThen (readDataset v e) (\<lambda>r.
     ret (case r of Inl err \<Rightarrow> (False, Some err) | Inr dataset \<Rightarrow> (dsRestorePath (dSpec dataset) \<noteq> None, None)))"

definition setUfsTotals :: "string \<Rightarrow> string \<Rightarrow> Dataset \<Rightarrow> Dataset" where
  "setUfsTotals ufsTotal fileNum dataset = setStatus (\<lambda>s. s\<lparr>dstUfsTotal := ufsTotal, dstFileNum := fileNum\<rparr>) dataset"

definition writeTotals :: "engineEnv \<Rightarrow> string \<Rightarrow> string \<Rightarrow> Dataset \<Rightarrow> (goerr option) kgo" where
  "writeTotals v ufsTotal fileNum dataset =
     (let datasetToUpdate = setUfsTotals ufsTotal fileNum dataset in
      if datasetToUpdate \<noteq> dataset then writeDatasetStatus v datasetToUpdate else ret None)"

text \<open>The dataset is read once, before the retries.\<close>

definition restoreTotals :: "engineEnv \<Rightarrow> AlluxioEngine \<Rightarrow> Dataset \<Rightarrow> string \<Rightarrow> (goerr option) kgo" where
  "restoreTotals v e dataset file =
     andThen (QueryMetaDataInfoIntoFile (eeWorld v) (fileUtils e) ''ufstotal'' file) (\<lambda>r.
     case r of
       Inl err \<Rightarrow> ret (Some err)
     | Inr ufsTotal \<Rightarrow>
         (case eeParseFloat v ufsTotal of
            None \<Rightarrow> ret (Some (Err (''strconv.ParseFloat: parsing '' @ ufsTotal)))
          | Some ufsTotalFloat \<Rightarrow>
              andThen (QueryMetaDataInfoIntoFile (eeWorld v) (fileUtils e) ''filenum'' file) (\<lambda>r.
              case r of
                Inl err \<Rightarrow> ret (Some err)
              | Inr fileNum \<Rightarrow> RetryOnConflict (writeTotals v (BytesSize ufsTotalFloat) fileNum dataset))))"

definition RestoreMetadataInternal :: "engineEnv \<Rightarrow> AlluxioEngine \<Rightarrow> (goerr option) kgo" where
  "RestoreMetadataInternal v e =
     andThen (readDataset v e) (\<lambda>r.
     case r of
       Inl err \<Rightarrow> ret (Some err)
     | Inr dataset \<Rightarrow>
         (case dsRestorePath (dSpec dataset) of
            None \<Rightarrow> panic nilPanic
          | Some location \<Rightarrow>
              (case ParseBackupRestorePath location of
                 Inl err \<Rightarrow> ret (Some err)
               | Inr (pvcName, path) \<Rightarrow>
                   restoreTotals v e dataset
                     (if pvcName \<noteq> '''' then ''/pvc'' @ path @ GetMetadataInfoFileName e
                      else ''/host/'' @ GetMetadataInfoFileName e))))"

definition totalsOnce :: "engineEnv \<Rightarrow> AlluxioEngine \<Rightarrow> string \<Rightarrow> string \<Rightarrow> (goerr option) kgo" where
  "totalsOnce v e ufsTotal fileNum =
     andThen (readDataset v e) (\<lambda>r.
     case r of Inl err \<Rightarrow> ret (Some err) | Inr dataset \<Rightarrow> writeTotals v ufsTotal fileNum dataset)"

text \<open>
  A running synchronisation is asked for its result; otherwise the totals are set to the message that they are being
  computed, whether that succeeds or not, and a synchronisation is started. The function returns the error of that write.
\<close>

definition syncMetadataInternal :: "engineEnv \<Rightarrow> (AlluxioEngine, goerr option) engineMethod" where
  "syncMetadataInternal v e =
     (if aeSyncing e then
        andThen (call (kwReceive (eeWorld v)) ReceivedSync) (\<lambda>message.
        case message of
          SyncRunning \<Rightarrow> ret (None, e)
        | SyncClosed \<Rightarrow> ret (None, e\<lparr>aeSyncing := False\<rparr>)
        | SyncFinished done ufsTotal fileNum err \<Rightarrow>
            if done then
              andThen (RetryOnConflict (totalsOnce v e ufsTotal fileNum)) (\<lambda>err. ret (err, e\<lparr>aeSyncing := False\<rparr>))
            else ret (err, e\<lparr>aeSyncing := False\<rparr>))
      else
        andThen (RetryOnConflict (totalsOnce v e metadataSyncNotDoneMsg metadataSyncNotDoneMsg)) (\<lambda>err.
        andThen (emit StartedSync) (\<lambda>_. ret (err, e\<lparr>aeSyncing := True\<rparr>))))"

fun syncLocalDirs :: "engineEnv \<Rightarrow> AlluxioEngine \<Rightarrow> DatasetMount list \<Rightarrow> (goerr option) kgo" where
  "syncLocalDirs v e [] = ret None"
| "syncLocalDirs v e (m # ms) =
     (if IsFluidNativeScheme (dmMountPoint m) then
        andThen (SyncLocalDir (eeWorld v) (fileUtils e) (GenLocalStoragePath m)) (\<lambda>err.
        if err \<noteq> None then ret err else syncLocalDirs v e ms)
      else syncLocalDirs v e ms)"

text \<open>The goroutine: it ends with the message that it sends.\<close>

definition metadataTask :: "engineEnv \<Rightarrow> AlluxioEngine \<Rightarrow> syncMessage kgo" where
  "metadataTask v e =
     andThen (readDataset v e) (\<lambda>r.
     case r of
       Inl err \<Rightarrow> ret (SyncFinished False '''' '''' (Some err))
     | Inr dataset \<Rightarrow>
         andThen (syncLocalDirs v e (dsMounts (dSpec dataset))) (\<lambda>err.
         if err \<noteq> None then ret (SyncFinished False '''' '''' err)
         else
           andThen (LoadMetadataWithoutTimeout (eeWorld v) (fileUtils e) ''/'') (\<lambda>err.
           if err \<noteq> None then ret (SyncFinished False '''' '''' err)
           else
             andThen (totalStorageBytesInternal v e) (\<lambda>storage.
             andThen (getDataSetFileNum v e) (\<lambda>files.
             let ufsTotal = (case storage of Inl _ \<Rightarrow> '''' | Inr n \<Rightarrow> BytesSize (roundFloat (of_int n)));
                 fileNum = (case files of Inl _ \<Rightarrow> '''' | Inr n \<Rightarrow> n) in
             ret (if isl storage \<or> isl files
                  then SyncFinished False ufsTotal fileNum (Some (Err ''GetMetadataInfoFailed''))
                  else SyncFinished True ufsTotal fileNum None))))))"

definition SyncMetadata :: "engineEnv \<Rightarrow> (AlluxioEngine, goerr option) engineMethod" where
  "SyncMetadata v e =
     andThen (checkExistenceOfMaster v e) (\<lambda>err.
     if err \<noteq> None then ret (err, e)
     else
       andThen (shouldSyncMetadata v e) (\<lambda>(should, err).
       if err \<noteq> None then ret (err, e)
       else if should then
         andThen (shouldRestoreMetadata v e) (\<lambda>(restore, err).
         if err = None \<and> restore then
           andThen (RestoreMetadataInternal v e) (\<lambda>err.
           if err = None then ret (None, e) else syncMetadataInternal v e)
         else syncMetadataInternal v e)
       else ret (None, e)))"

section \<open>ufs.go\<close>

definition IsMountWithConfigMap :: "engineEnv \<Rightarrow> bool" where
  "IsMountWithConfigMap v =
     (case kwLookupEnv (eeWorld v) ''ALLUXIO_MOUNT_CONFIG_STORAGE'' of
        Some envVal \<Rightarrow> envVal = ''configmap''
      | None \<Rightarrow> True)"

definition ShouldCheckUFS :: "engineEnv \<Rightarrow> (AlluxioEngine, decision) engineMethod" where
  "ShouldCheckUFS v e = ret ((True, None), e)"

definition mountForSetup :: "engineEnv \<Rightarrow> AlluxioEngine \<Rightarrow> (goerr option) kgo" where
  "mountForSetup v e =
     (if \<not> IsMountWithConfigMap v then
        andThen (shouldMountUFS v e) (\<lambda>(should, err).
        if err \<noteq> None then ret err else if should then mountUFS v e else ret None)
      else
        andThen (getRuntime v e) (\<lambda>r.
        case r of
          Inl err \<Rightarrow> ret (Some err)
        | Inr runtime \<Rightarrow>
            if roMasterReplicas runtime > 1 then ExecMountScripts (eeWorld v) (fileUtils e) else ret None))"

text \<open>An error of the metadata synchronisation is ignored.\<close>

definition PrepareUFS :: "engineEnv \<Rightarrow> (AlluxioEngine, goerr option) engineMethod" where
  "PrepareUFS v e =
     andThen (mountForSetup v e) (\<lambda>err.
     if err \<noteq> None then ret (err, e)
     else andThen (SyncMetadata v e) (\<lambda>(_, e). ret (None, e)))"

definition containerStarted :: "string \<Rightarrow> (string \<times> int option) list \<Rightarrow> int option" where
  "containerStarted name containers = Option.bind (List.find (\<lambda>(n, _). n = name) containers) snd"

definition checkIfRemountRequired :: "engineEnv \<Rightarrow> AlluxioEngine \<Rightarrow> UFSToUpdate \<Rightarrow> UFSToUpdate kgo" where
  "checkIfRemountRequired v e u =
     andThen (getRuntime v e) (\<lambda>r.
     case r of
       Inl _ \<Rightarrow> ret u
     | Inr runtime \<Rightarrow>
         let pod = fst (getMasterPodInfo e) in
         andThen (call (\<lambda>h. kwGetContainers (eeWorld v) h pod (aeNamespace e)) (ReadContainers pod (aeNamespace e))) (\<lambda>r.
         case r of
           Inl _ \<Rightarrow> ret u
         | Inr containers \<Rightarrow>
             (case (containerStarted (snd (getMasterPodInfo e)) containers, rsMountTime (roStatus runtime)) of
                (Some startedAt, Some mountTime) \<Rightarrow>
                  if mountTime < startedAt then
                    andThen (FindUnmountedUFS v e) (\<lambda>(unmountedPaths, err).
                    if err \<noteq> None then ret u
                    else if unmountedPaths \<noteq> [] then ret (AddMountPaths unmountedPaths u)
                    else andThen (updateMountTime v e) (\<lambda>_. ret u))
                  else ret u
              | _ \<Rightarrow> ret u)))"

definition ShouldUpdateUFS :: "engineEnv \<Rightarrow> (AlluxioEngine, UFSToUpdate option) engineMethod" where
  "ShouldUpdateUFS v e =
     andThen (readDataset v e) (\<lambda>r.
     case r of
       Inl _ \<Rightarrow> ret (None, e)
     | Inr dataset \<Rightarrow>
         andThen (checkIfRemountRequired v e (snd (AnalyzePathsDelta (NewUFSToUpdate dataset)))) (\<lambda>u.
         ret (Some u, e)))"

text \<open>The error of writing the status is overwritten by the result of the metadata synchronisation.\<close>

definition processUpdatingUFS :: "engineEnv \<Rightarrow> UFSToUpdate \<Rightarrow> (AlluxioEngine, decision) engineMethod" where
  "processUpdatingUFS v u e =
     andThen (readDataset v e) (\<lambda>r.
     case r of
       Inl err \<Rightarrow> ret ((False, Some err), e)
     | Inr dataset \<Rightarrow>
         andThen (if IsMountWithConfigMap v then updateUFSWithMountConfigMapScript v e dataset
                  else updatingUFSWithMountCommand v e dataset u) (\<lambda>(updateReady, err).
         if err \<noteq> None \<or> \<not> updateReady then ret ((updateReady, err), e)
         else
           let datasetToUpdate = setStatus (\<lambda>s. s\<lparr>dstUfsTotal := metadataSyncNotDoneMsg\<rparr>) dataset in
           andThen (if dStatus dataset \<noteq> dStatus datasetToUpdate then writeDatasetStatus v datasetToUpdate else ret None)
             (\<lambda>_.
             andThen (SyncMetadata v e) (\<lambda>(err, e).
             if err \<noteq> None then ret ((True, None), e)
             else if utToAdd u \<noteq> [] then andThen (updateMountTime v e) (\<lambda>_. ret ((True, None), e))
             else ret ((True, None), e)))))"

definition UpdateOnUFSChange :: "engineEnv \<Rightarrow> UFSToUpdate \<Rightarrow> (AlluxioEngine, decision) engineMethod" where
  "UpdateOnUFSChange v u e =
     (if \<not> ShouldUpdate u then ret ((False, None), e)
      else
        andThen (UpdateMountStatus (eeWorld v) (aeName e) (aeNamespace e) ''Updating'') (\<lambda>err.
        if err \<noteq> None then ret ((False, err), e) else processUpdatingUFS v u e))"

definition ShouldSyncDatasetMounts :: "engineEnv \<Rightarrow> (AlluxioEngine, decision) engineMethod" where
  "ShouldSyncDatasetMounts v e = ret ((False, None), e)"

definition SyncDatasetMounts :: "engineEnv \<Rightarrow> (AlluxioEngine, goerr option) engineMethod" where
  "SyncDatasetMounts v e = ret (None, e)"

end
