(* ===== verification/Alluxio_Engine.thy ===== *)
theory Alluxio_Engine
  imports Alluxio_Ufs
begin

text \<open>
  The Alluxio engine (\<open>pkg/ddc/alluxio\<close>): how it sets up, checks, scales and shuts down the master, the workers and the
  fuses of a cache, binds it to its dataset, and creates the volume. It implements the interface of \<open>Template_Engine\<close>.
  The values of the chart that \<open>transform\<close> computes, the temporary file and the mutex of the scheduler belong to the
  environment.
\<close>

section \<open>dataset.go\<close>

definition readRuntimeAndDataset :: "engineEnv \<Rightarrow> AlluxioEngine \<Rightarrow> RuntimeObject \<Rightarrow> (goerr option) kgo" where
  "readRuntimeAndDataset v e runtime =
     andThen (readDataset v e) (\<lambda>r.
     case r of
       Inl err \<Rightarrow> ret (Some err)
     | Inr dataset \<Rightarrow>
         let datasetToUpdate = setStatus (\<lambda>s. s\<lparr>dstCacheStates := rsCacheStates (roStatus runtime)\<rparr>) dataset in
         if dStatus dataset \<noteq> dStatus datasetToUpdate then writeDatasetStatus v datasetToUpdate else ret None)"

definition UpdateCacheOfDataset :: "engineEnv \<Rightarrow> (AlluxioEngine, goerr option) engineMethod" where
  "UpdateCacheOfDataset v e =
     andThen (getRuntime v e) (\<lambda>r.
     case r of
       Inl err \<Rightarrow> ret (Some err, e)
     | Inr runtime \<Rightarrow> andThen (RetryOnConflict (readRuntimeAndDataset v e runtime)) (\<lambda>err. ret (err, e)))"

definition AddRuntimesIfNotExist :: "Runtime list \<Rightarrow> Runtime \<Rightarrow> Runtime list" where
  "AddRuntimesIfNotExist runtimes newRuntime =
     (if rtCategory newRuntime \<in> set (map rtCategory runtimes) then runtimes else runtimes @ [newRuntime])"

definition boundStatus :: "AlluxioEngine \<Rightarrow> int \<Rightarrow> Dataset \<Rightarrow> DatasetStatus" where
  "boundStatus e replicas dataset =
     (let s = dStatus dataset in
      s\<lparr>dstMounts := (if dstMounts s = [] then dsMounts (dSpec dataset) else dstMounts s),
        dstRuntimes := AddRuntimesIfNotExist (dstRuntimes s)
          \<lparr>rtName = aeName e, rtNamespace = aeNamespace e, rtCategory = ''Accelerate'', rtType = ''alluxio'',
           rtMasterReplicas = replicas\<rparr>\<rparr>)"

definition phaseCondition :: "string \<Rightarrow> int \<Rightarrow> DatasetCondition" where
  "phaseCondition phase t =
     (if phase = ''Bound''
      then NewDatasetCondition ''Ready'' ''DatasetReady'' ''The ddc runtime is ready.'' ''True'' t
      else if phase = ''Failed''
      then NewDatasetCondition ''Ready'' ''DatasetReady'' ''The ddc runtime is not ready.'' ''False'' t
      else NewDatasetCondition ''Ready'' ''DatasetReady'' ''The ddc runtime is unknown.'' ''False'' t)"

text \<open>The status that the dataset gets with a new phase. Binding reads the spec of the runtime that the engine holds.\<close>

definition phaseStatus :: "engineEnv \<Rightarrow> AlluxioEngine \<Rightarrow> string \<Rightarrow> Dataset \<Rightarrow> DatasetStatus kgo" where
  "phaseStatus v e phase dataset =
     (if phase = dstPhase (dStatus dataset) then ret (dStatus dataset)
      else
        andThen (if phase = ''Bound'' then
                   (case aeRuntime e of
                      None \<Rightarrow> panic nilPanic
                    | Some runtime \<Rightarrow> ret (boundStatus e (roMasterReplicas runtime) dataset))
                 else ret (dStatus dataset)) (\<lambda>s.
        andThen (viaOp (eeWorld v) now) (\<lambda>t.
        ret (s\<lparr>dstPhase := phase, dstConditions := UpdateDatasetCondition (dstConditions s) (phaseCondition phase t)\<rparr>))))"

definition hcfsStatus :: "engineEnv \<Rightarrow> AlluxioEngine \<Rightarrow> DatasetStatus \<Rightarrow> (goerr + DatasetStatus) kgo" where
  "hcfsStatus v e s =
     (if dstHCFSStatus s = None then
        andThen (GetHCFSStatus v e) (\<lambda>r.
        ret (case r of Inl err \<Rightarrow> Inl err | Inr hcfs \<Rightarrow> Inr (s\<lparr>dstHCFSStatus := Some hcfs\<rparr>)))
      else ret (Inr s))"

definition datasetStatusOnce :: "engineEnv \<Rightarrow> AlluxioEngine \<Rightarrow> string \<Rightarrow> (goerr option) kgo" where
  "datasetStatusOnce v e phase =
     andThen (readDataset v e) (\<lambda>r.
     case r of
       Inl err \<Rightarrow> ret (Some err)
     | Inr dataset \<Rightarrow>
         andThen (phaseStatus v e phase dataset) (\<lambda>s.
         andThen (hcfsStatus v e s) (\<lambda>r.
         case r of
           Inl err \<Rightarrow> ret (Some err)
         | Inr s \<Rightarrow> if dStatus dataset \<noteq> s then writeDatasetStatus v (dataset\<lparr>dStatus := s\<rparr>) else ret None)))"

definition UpdateDatasetStatus :: "engineEnv \<Rightarrow> string \<Rightarrow> (AlluxioEngine, goerr option) engineMethod" where
  "UpdateDatasetStatus v phase e = andThen (RetryOnConflict (datasetStatusOnce v e phase)) (\<lambda>err. ret (err, e))"

definition BindToDataset :: "engineEnv \<Rightarrow> (AlluxioEngine, goerr option) engineMethod" where
  "BindToDataset v e = UpdateDatasetStatus v ''Bound'' e"

section \<open>master.go and master_internal.go\<close>

definition CheckMasterReady :: "engineEnv \<Rightarrow> (AlluxioEngine, decision) engineMethod" where
  "CheckMasterReady v e =
     andThen (CheckAndSyncMasterStatus (eeWorld v) ''AlluxioRuntime'' (aeName e) (aeNamespace e) (getMasterName e))
       (\<lambda>r. ret (r, e))"

definition ShouldSetupMaster :: "engineEnv \<Rightarrow> (AlluxioEngine, decision) engineMethod" where
  "ShouldSetupMaster v e =
     andThen (getRuntime v e) (\<lambda>r.
     case r of
       Inl err \<Rightarrow> ret ((False, Some err), e)
     | Inr runtime \<Rightarrow> ret ((rsMasterPhase (roStatus runtime) = '''', None), e))"

definition getWorkerSelectors :: "engineEnv \<Rightarrow> AlluxioEngine \<Rightarrow> string" where
  "getWorkerSelectors v e =
     (case eeSelector v [(''release'', aeName e), (''role'', ''alluxio-worker''), (''app'', ''alluxio'')] of
        Inl _ \<Rightarrow> ''''
      | Inr selector \<Rightarrow> selector)"

definition DeleteConfigMap :: "world \<Rightarrow> string \<Rightarrow> string \<Rightarrow> (goerr option) kgo" where
  "DeleteConfigMap w name namespace =
     andThen (call (\<lambda>h. kwGetConfigMap w h name namespace) (ReadConfigMap name namespace)) (\<lambda>r.
     case r of
       Inl err \<Rightarrow> if IsNotFound err then ret None else ret (Some err)
     | Inr _ \<Rightarrow> call (\<lambda>h. kwDeleteConfigMap w h name namespace) (DeletedConfigMap name namespace))"

definition CreateConfigMap :: "world \<Rightarrow> string \<Rightarrow> string \<Rightarrow> string \<Rightarrow> string \<Rightarrow> string \<Rightarrow> (goerr option) kgo" where
  "CreateConfigMap w name namespace key content ownerDatasetId =
     (let cm = \<lparr>cmName = name, cmNamespace = namespace, cmOwners = [], cmLabels = [(''fluid.io/dataset-id'', ownerDatasetId)],
                cmAnnotations = [], cmData = [(key, content)]\<rparr> in
      call (\<lambda>h. kwCreateConfigMap w h cm) (CreatedConfigMap cm))"

text \<open>The name of the file is logged if the file cannot be created, although it is nil then.\<close>

definition generateAlluxioValueFile :: "engineEnv \<Rightarrow> AlluxioEngine \<Rightarrow> RuntimeObject \<Rightarrow> (goerr + string) kgo" where
  "generateAlluxioValueFile v e runtime =
     andThen (DeleteConfigMap (eeWorld v) (getHelmValuesConfigMapName e) (aeNamespace e)) (\<lambda>err.
     case err of
       Some err \<Rightarrow> ret (Inl err)
     | None \<Rightarrow>
         andThen (call (\<lambda>h. kwMakeValues (eeWorld v) h runtime) (MadeValues (aeNamespace e) (aeName e))) (\<lambda>r.
         case r of
           Inl err \<Rightarrow> ret (Inl err)
         | Inr content \<Rightarrow>
             let pattern1 = aeName e @ ''-'' @ aeEngineImpl e @ ''-values.yaml'' in
             andThen (call (\<lambda>h. kwCreateTemp (eeWorld v) h pattern1) (CreatedTemp pattern1)) (\<lambda>r.
             case r of
               Inl _ \<Rightarrow> panic nilPanic
             | Inr valueFileName \<Rightarrow>
                 andThen (call (\<lambda>h. kwWriteFile (eeWorld v) h valueFileName content) (WroteFile valueFileName content))
                   (\<lambda>err.
                   case err of
                     Some err \<Rightarrow> ret (Inl err)
                   | None \<Rightarrow>
                       (case aeRuntimeInfo e of
                          None \<Rightarrow> panic nilPanic
                        | Some info \<Rightarrow>
                            andThen (CreateConfigMap (eeWorld v) (getHelmValuesConfigMapName e) (aeNamespace e) ''data''
                                       content (GetDatasetId (riNamespace info) (riName info) (riOwnerDatasetUID info)))
                              (\<lambda>err. ret (case err of Some err \<Rightarrow> Inl err | None \<Rightarrow> Inr valueFileName)))))))"

definition setupMasterInternal :: "engineEnv \<Rightarrow> AlluxioEngine \<Rightarrow> (goerr option) kgo" where
  "setupMasterInternal v e =
     andThen (getRuntime v e) (\<lambda>r.
     case r of
       Inl err \<Rightarrow> ret (Some err)
     | Inr runtime \<Rightarrow>
         andThen (generateAlluxioValueFile v e runtime) (\<lambda>r.
         case r of
           Inl err \<Rightarrow> ret (Some err)
         | Inr valueFileName \<Rightarrow>
             andThen (viaOp (eeWorld v) (\<lambda>cl. CheckRelease cl (aeName e) (aeNamespace e))) (\<lambda>(found, err).
             if err \<noteq> None then ret err
             else if found then ret None
             else viaOp (eeWorld v) (\<lambda>cl. InstallRelease cl (aeName e) (aeNamespace e) valueFileName
                    (eeChartsDirectory v @ ''/alluxio'')))))"

definition masterSetOnce :: "engineEnv \<Rightarrow> AlluxioEngine \<Rightarrow> (goerr option) kgo" where
  "masterSetOnce v e =
     andThen (getRuntime v e) (\<lambda>r.
     case r of
       Inl err \<Rightarrow> ret (Some err)
     | Inr runtime \<Rightarrow>
         andThen (viaOp (eeWorld v) now) (\<lambda>t.
         writeIfChanged (eeWorld v) runtime
           (addCondition (NewRuntimeCondition ''MasterInitialized'' ''Master is initialized'' ''The master is initialized.''
                            ''True'' t)
              ((roStatus runtime)\<lparr>rsMasterPhase := ''NotReady'', rsSelector := getWorkerSelectors v e,
                                  rsValueFileConfigmap := getHelmValuesConfigMapName e\<rparr>))))"

definition SetupMaster :: "engineEnv \<Rightarrow> (AlluxioEngine, goerr option) engineMethod" where
  "SetupMaster v e =
     andThen (viaOp (eeWorld v) (\<lambda>cl. GetStatefulSet cl (getMasterName e) (aeNamespace e))) (\<lambda>r.
     andThen (case r of
                Inl err \<Rightarrow> if IsNotFound err then setupMasterInternal v e else ret (Some err)
              | Inr _ \<Rightarrow> RetryOnConflict (masterSetOnce v e)) (\<lambda>err.
     ret (err, e)))"

section \<open>worker.go\<close>

definition ShouldSetupWorkers :: "engineEnv \<Rightarrow> (AlluxioEngine, decision) engineMethod" where
  "ShouldSetupWorkers v e =
     andThen (getRuntime v e) (\<lambda>r.
     case r of
       Inl err \<Rightarrow> ret ((False, Some err), e)
     | Inr runtime \<Rightarrow> ret ((rsWorkerPhase (roStatus runtime) = '''', None), e))"

definition withWorkers ::
  "engineEnv \<Rightarrow> AlluxioEngine \<Rightarrow> (goerr \<Rightarrow> (goerr option) kgo) \<Rightarrow>
   (RuntimeInfo \<Rightarrow> RuntimeObject \<Rightarrow> StatefulSet \<Rightarrow> (goerr option) kgo) \<Rightarrow> (goerr option) kgo" where
  "withWorkers v e failed act =
     andThen (viaOp (eeWorld v) (\<lambda>cl. GetStatefulSet cl (getWorkerName e) (aeNamespace e))) (\<lambda>r.
     case r of
       Inl err \<Rightarrow> failed err
     | Inr workers \<Rightarrow>
         andThen (getRuntime v e) (\<lambda>r.
         case r of
           Inl err \<Rightarrow> ret (Some err)
         | Inr runtime \<Rightarrow>
             (case aeRuntimeInfo e of
                None \<Rightarrow> panic nilPanic
              | Some info \<Rightarrow> act info runtime workers)))"

definition SetupWorkers :: "engineEnv \<Rightarrow> (AlluxioEngine, goerr option) engineMethod" where
  "SetupWorkers v e =
     andThen (RetryOnConflict (withWorkers v e (\<lambda>err. ret (Some err))
                (\<lambda>info runtime workers. Ctrl_Helper.SetupWorkers (eeWorld v) info runtime (roStatus runtime) workers)))
       (\<lambda>err. ret (err, e))"

definition CheckWorkersReady :: "engineEnv \<Rightarrow> (AlluxioEngine, decision) engineMethod" where
  "CheckWorkersReady v e =
     andThen (CheckAndSyncWorkerStatus (eeWorld v) ''AlluxioRuntime'' (aeName e) (aeNamespace e) (getWorkerName e))
       (\<lambda>r. ret (r, e))"

section \<open>status.go\<close>

definition cacheStatesOf :: "(string \<times> string) list \<Rightarrow> cacheStates \<Rightarrow> (string \<times> string) list" where
  "cacheStatesOf old states =
     (let hits = csHits states in
      assignAll
        [(''cacheCapacity'', csCapacity states), (''cachedPercentage'', csCachedPercentage states),
         (''cached'', csCached states), (''cacheHitRatio'', chCacheHitRatio hits), (''localHitRatio'', chLocalHitRatio hits),
         (''remoteHitRatio'', chRemoteHitRatio hits), (''localThroughputRatio'', chLocalThroughputRatio hits),
         (''remoteThroughputRatio'', chRemoteThroughputRatio hits),
         (''cacheThroughputRatio'', chCacheThroughputRatio hits)] old)"

text \<open>
  The variables that the attempts assign: the readiness of the master and of the workers, and of both. They are never
  reset, so an attempt that fails with a conflict leaves them for the next.
\<close>

record readiness =
  rdMaster :: bool
  rdWorker :: bool
  rdReady :: bool

definition gatewayStatus :: "engineEnv \<Rightarrow> AlluxioEngine \<Rightarrow> RuntimeObject \<Rightarrow> RuntimeStatus \<Rightarrow> (goerr + RuntimeStatus) kgo" where
  "gatewayStatus v e runtime s =
     (if roAPIGateway runtime \<and> rsAPIGatewayStatus s = None then
        andThen (GetAPIGatewayStatus v e) (\<lambda>r.
        ret (case r of Inl err \<Rightarrow> Inl err | Inr endpoint \<Rightarrow> Inr (s\<lparr>rsAPIGatewayStatus := Some endpoint\<rparr>)))
      else ret (Inr s))"

definition statusFrom ::
  "engineEnv \<Rightarrow> StatefulSet \<Rightarrow> StatefulSet \<Rightarrow> RuntimeObject \<Rightarrow> readiness \<Rightarrow> AlluxioEngine \<Rightarrow>
   (goerr option \<times> readiness \<times> AlluxioEngine) kgo" where
  "statusFrom v master workers runtime rd e =
     andThen (queryCacheStatus v e) (\<lambda>((states, err), e).
     if err \<noteq> None then ret (err, rd, e)
     else
       (case stsReplicas master of
          None \<Rightarrow> panic nilPanic
        | Some replicas \<Rightarrow>
            let m = (rdMaster rd \<or> replicas = stsReadyReplicas master);
                wr = (rdWorker rd \<or> roReplicas runtime = 0 \<or> stsReadyReplicas workers > 0);
                rd' = \<lparr>rdMaster = m, rdWorker = wr, rdReady = (rdReady rd \<or> m \<and> wr)\<rparr>;
                s = (roStatus runtime)\<lparr>rsCacheAffinity := Some (MergeNodeSelectorAndNodeAffinity
                                         (stsNodeSelector workers) (stsAffinity workers)),
                                       rsCacheStates := cacheStatesOf (rsCacheStates (roStatus runtime)) states\<rparr> in
            andThen (if rdReady rd' \<and> rsSetupDuration s = '''' then
                       andThen (viaOp (eeWorld v) now) (\<lambda>t.
                       ret (s\<lparr>rsSetupDuration := CalculateDuration t (omCreationTimestamp (roMeta runtime)) t\<rparr>))
                     else ret s) (\<lambda>s.
            andThen (gatewayStatus v e runtime s) (\<lambda>r.
            case r of
              Inl err \<Rightarrow> ret (Some err, rd', e)
            | Inr s \<Rightarrow> andThen (writeIfChanged (eeWorld v) runtime s) (\<lambda>err. ret (err, rd', e))))))"

definition runtimeStatusOnce ::
  "engineEnv \<Rightarrow> StatefulSet \<Rightarrow> StatefulSet \<Rightarrow> readiness \<times> AlluxioEngine \<Rightarrow>
   (goerr option \<times> readiness \<times> AlluxioEngine) kgo" where
  "runtimeStatusOnce v master workers rde =
     (case rde of (rd, e) \<Rightarrow>
        andThen (getRuntime v e) (\<lambda>r.
        case r of Inl err \<Rightarrow> ret (Some err, rd, e) | Inr runtime \<Rightarrow> statusFrom v master workers runtime rd e))"

text \<open>The error of the attempts is returned next to what they found of the readiness.\<close>

definition CheckAndUpdateRuntimeStatus :: "engineEnv \<Rightarrow> (AlluxioEngine, decision) engineMethod" where
  "CheckAndUpdateRuntimeStatus v e =
     andThen (viaOp (eeWorld v) (\<lambda>cl. GetStatefulSet cl (getMasterName e) (aeNamespace e))) (\<lambda>r.
     case r of
       Inl err \<Rightarrow> ret ((False, Some err), e)
     | Inr master \<Rightarrow>
         andThen (viaOp (eeWorld v) (\<lambda>cl. GetStatefulSet cl (getWorkerName e) (aeNamespace e))) (\<lambda>r.
         case r of
           Inl err \<Rightarrow> ret ((False, Some err), e)
         | Inr workers \<Rightarrow>
             andThen (RetryOnConflictS (runtimeStatusOnce v master workers)
                        (\<lparr>rdMaster = False, rdWorker = False, rdReady = False\<rparr>, e)) (\<lambda>(err, rd, e).
             ret ((rdReady rd, err), e))))"

section \<open>replicas.go\<close>

text \<open>
  The stateful set of the workers is missing. A condition of the type that the runtime already has is left as it is. The
  dataset is only told if the status of the runtime changed.
\<close>

definition workersMissingOnce :: "engineEnv \<Rightarrow> AlluxioEngine \<Rightarrow> RuntimeCondition \<Rightarrow> (goerr option) kgo" where
  "workersMissingOnce v e cond =
     andThen (getRuntime v e) (\<lambda>r.
     case r of
       Inl err \<Rightarrow> ret (Some err)
     | Inr runtime \<Rightarrow>
         let old = snd (GetRuntimeCondition (rsConditions (roStatus runtime)) (rcType cond));
             s1 = (case old of
                     Some c \<Rightarrow> if rcType c \<noteq> rcType cond then addCondition cond (roStatus runtime) else roStatus runtime
                   | None \<Rightarrow> addCondition cond (roStatus runtime));
             s = s1\<lparr>rsWorkerPhase := ''NotReady''\<rparr> in
         if roStatus runtime \<noteq> s then
           andThen (updateRuntimeStatus (eeWorld v) (runtime\<lparr>roStatus := s\<rparr>)) (\<lambda>err.
           if err \<noteq> None then ret err
           else andThen (UpdateDatasetStatus v ''Failed'' e) (\<lambda>(err, _). ret err))
         else ret None)"

definition errorText :: "goerr option \<Rightarrow> string" where
  "errorText err = (case err of None \<Rightarrow> ''<nil>'' | Some e \<Rightarrow> errText e)"

definition workersMissing :: "engineEnv \<Rightarrow> AlluxioEngine \<Rightarrow> (goerr option) kgo" where
  "workersMissing v e =
     andThen (viaOp (eeWorld v) now) (\<lambda>t.
     andThen (RetryOnConflict (workersMissingOnce v e
                (NewRuntimeCondition ''WorkersReady'' ''The workers are not ready.''
                   (''The statefulset '' @ getWorkerName e @ '' in '' @ aeNamespace e @ '' is not found, please fix it.'')
                   ''False'' t))) (\<lambda>updateErr.
     ret (Some (Err (''the master engine does not exist: '' @ errorText updateErr)))))"

definition SyncReplicas :: "engineEnv \<Rightarrow> (AlluxioEngine, goerr option) engineMethod" where
  "SyncReplicas v e =
     andThen (RetryOnConflict (withWorkers v e
                (\<lambda>err. if IsNotFound err then workersMissing v e else ret (Some err))
                (\<lambda>info runtime workers. Ctrl_Helper.SyncReplicas (eeWorld v) info runtime (roStatus runtime) workers)))
       (\<lambda>err. ret (err, e))"

section \<open>health_check.go\<close>

definition checkFuseHealthy :: "engineEnv \<Rightarrow> (AlluxioEngine, decision) engineMethod" where
  "checkFuseHealthy v e =
     andThen (CheckAndSyncFuseStatus (eeWorld v) ''AlluxioRuntime'' (aeName e) (aeNamespace e) (getFuseName e))
       (\<lambda>r. ret (r, e))"

text \<open>One check of the three: an error makes the dataset \<open>Failed\<close>, as far as that can be written.\<close>

definition checkPart ::
  "engineEnv \<Rightarrow> (AlluxioEngine, decision) engineMethod \<Rightarrow> string \<Rightarrow> (AlluxioEngine, goerr option) engineMethod" where
  "checkPart v check message e =
     andThen (check e) (\<lambda>((ready, err), e).
     if err \<noteq> None then andThen (UpdateDatasetStatus v ''Failed'' e) (\<lambda>(_, e). ret (err, e))
     else if \<not> ready then ret (Some (Err message), e)
     else ret (None, e))"

definition CheckRuntimeHealthy :: "engineEnv \<Rightarrow> (AlluxioEngine, goerr option) engineMethod" where
  "CheckRuntimeHealthy v e =
     andThen (checkPart v (CheckMasterReady v)
                (''the master '' @ getMasterName e @ '' is not healthy, expect at least one replica is ready'') e) (\<lambda>(err, e).
     if err \<noteq> None then ret (err, e)
     else
       andThen (checkPart v (CheckWorkersReady v)
                  (''the worker '' @ getWorkerName e @ '' is not healthy, expect at least one replica is ready'') e)
         (\<lambda>(err, e).
         if err \<noteq> None then ret (err, e)
         else
           andThen (checkPart v (checkFuseHealthy v) (''the fuse '' @ getFuseName e @ '' is not healthy'') e) (\<lambda>(err, e).
           if err \<noteq> None then ret (err, e) else UpdateDatasetStatus v ''Bound'' e)))"

section \<open>shutdown.go\<close>

text \<open>The error of a dataset or master that is not found is returned if the report names no used capacity.\<close>

definition cleanupCache :: "engineEnv \<Rightarrow> (AlluxioEngine, goerr option) engineMethod" where
  "cleanupCache v e =
     andThen (queryCacheStatus v e) (\<lambda>((states, err), e).
     if IgnoreNotFound err \<noteq> None then ret (err, e)
     else if csCached states = '''' then ret (err, e)
     else
       (case FromHumanSize (eeOutOfRange v) (csCached states) of
          (cached, ok) \<Rightarrow>
            if \<not> ok then ret (Some (Err (''invalid size: '' @ csCached states)), e)
            else if cached = 0 then ret (None, e)
            else
              andThen (invokeCleanCache v e ''/'') (\<lambda>err.
              case err of
                Some err \<Rightarrow>
                  if Contains (errText err) ''not found'' \<or> Contains (errText err) ''does not have a host assigned''
                  then ret (None, e) else ret (Some err, e)
              | None \<Rightarrow>
                  ret (Some (Err ''to make sure if the remaining cache is cleaned up, check again''), e))))"

definition destroyWorkers :: "engineEnv \<Rightarrow> (AlluxioEngine, goerr option) engineMethod" where
  "destroyWorkers v e =
     andThen (getRuntimeInfo v e) (\<lambda>(r, e).
     case r of
       Inl err \<Rightarrow> ret (Some err, e)
     | Inr info \<Rightarrow> andThen (TearDownWorkers (eeWorld v) info) (\<lambda>err. ret (err, e)))"

definition destroyMaster :: "engineEnv \<Rightarrow> AlluxioEngine \<Rightarrow> (goerr option) kgo" where
  "destroyMaster v e =
     andThen (viaOp (eeWorld v) (\<lambda>cl. CheckRelease cl (aeName e) (aeNamespace e))) (\<lambda>(found, err).
     if err \<noteq> None then ret err
     else if found then viaOp (eeWorld v) (\<lambda>cl. DeleteRelease cl (aeName e) (aeNamespace e))
     else ret None)"

definition releasePorts :: "engineEnv \<Rightarrow> AlluxioEngine \<Rightarrow> (goerr option) kgo" where
  "releasePorts v e =
     (case eePortAllocator v of
        Some err \<Rightarrow> ret (Some (Wrapped ''GetRuntimePortAllocator when releasePorts'' err))
      | None \<Rightarrow>
          andThen (call (\<lambda>h. kwGetConfigMap (eeWorld v) h (getHelmValuesConfigMapName e) (aeNamespace e))
                     (ReadConfigMap (getHelmValuesConfigMapName e) (aeNamespace e))) (\<lambda>r.
          case r of
            Inl err \<Rightarrow>
              if IsNotFound err then ret None else ret (Some (Wrapped ''GetConfigmapByName when releasePorts'' err))
          | Inr cm \<Rightarrow>
              (case parsePortsFromConfigMap (eeUnmarshal v) cm of
                 Inl err \<Rightarrow> ret (Some (Wrapped ''parsePortsFromConfigMap when releasePorts'' err))
               | Inr ports \<Rightarrow> andThen (emit (ReleasedPorts ports)) (\<lambda>_. ret None))))"

fun deleteConfigMaps :: "world \<Rightarrow> string \<Rightarrow> string list \<Rightarrow> (goerr option) kgo" where
  "deleteConfigMaps w namespace [] = ret None"
| "deleteConfigMaps w namespace (cm # cms) =
     andThen (DeleteConfigMap w cm namespace) (\<lambda>err.
     if err \<noteq> None then ret err else deleteConfigMaps w namespace cms)"

definition cleanAll :: "engineEnv \<Rightarrow> AlluxioEngine \<Rightarrow> (goerr option) kgo" where
  "cleanAll v e =
     (case aeRuntimeInfo e of
        None \<Rightarrow> panic nilPanic
      | Some info \<Rightarrow>
          andThen (CleanUpFuse (eeWorld v) info) (\<lambda>(_, err).
          if err \<noteq> None then ret err
          else deleteConfigMaps (eeWorld v) (aeNamespace e) [getHelmValuesConfigMapName e, aeName e @ ''-config'']))"

definition destroyAll :: "engineEnv \<Rightarrow> (AlluxioEngine, goerr option) engineMethod" where
  "destroyAll v e =
     andThen (destroyWorkers v e) (\<lambda>(err, e).
     if err \<noteq> None then ret (err, e)
     else
       andThen (destroyMaster v e) (\<lambda>err.
       if err \<noteq> None then ret (err, e)
       else
         andThen (getRuntime v e) (\<lambda>r.
         case r of
           Inl err \<Rightarrow> ret (Some err, e)
         | Inr runtime \<Rightarrow>
             andThen (if roHostNetwork runtime then releasePorts v e else ret None) (\<lambda>err.
             if err \<noteq> None then ret (err, e) else andThen (cleanAll v e) (\<lambda>err. ret (err, e))))))"

text \<open>
  The first part of the function: the cache is cleaned up unless that failed too often. An error ends the shutdown. A
  closed channel is still not nil.
\<close>

definition cleanupLimited :: "engineEnv \<Rightarrow> (AlluxioEngine, goerr option) engineMethod" where
  "cleanupLimited v e =
     andThen (getGracefulShutdownLimits v e) (\<lambda>r.
     case r of
       Inl err \<Rightarrow> ret (Some err, e)
     | Inr limit \<Rightarrow>
         if aeRetryShutdown e < limit then
           andThen (cleanupCache v e) (\<lambda>(err, e).
           if err \<noteq> None then ret (err, e\<lparr>aeRetryShutdown := aeRetryShutdown e + 1\<rparr>) else ret (None, e))
         else ret (None, e))"

definition Shutdown :: "engineEnv \<Rightarrow> (AlluxioEngine, goerr option) engineMethod" where
  "Shutdown v e =
     andThen (cleanupLimited v e) (\<lambda>(err, e). if err \<noteq> None then ret (err, e) else destroyAll v e)"

section \<open>create_volume.go and delete_volume.go\<close>

definition withRuntime :: "engineEnv \<Rightarrow> (AlluxioEngine, goerr option) engineMethod \<Rightarrow> (AlluxioEngine, goerr option) engineMethod" where
  "withRuntime v act e =
     (case aeRuntime e of
        Some _ \<Rightarrow> act e
      | None \<Rightarrow>
          andThen (getRuntime v e) (\<lambda>r.
          case r of Inl err \<Rightarrow> ret (Some err, e) | Inr runtime \<Rightarrow> act (e\<lparr>aeRuntime := Some runtime\<rparr>)))"

definition withInfo :: "engineEnv \<Rightarrow> (RuntimeInfo \<Rightarrow> (goerr option) kgo) \<Rightarrow> (AlluxioEngine, goerr option) engineMethod" where
  "withInfo v act e =
     andThen (getRuntimeInfo v e) (\<lambda>(r, e).
     case r of Inl err \<Rightarrow> ret (Some err, e) | Inr info \<Rightarrow> andThen (act info) (\<lambda>err. ret (err, e)))"

definition quantityOk :: "engineEnv \<Rightarrow> string \<Rightarrow> bool" where
  "quantityOk v s = (eeParseQuantity v s \<noteq> None)"

definition createFusePersistentVolume :: "engineEnv \<Rightarrow> (AlluxioEngine, goerr option) engineMethod" where
  "createFusePersistentVolume v e =
     withInfo v (\<lambda>info.
       CreatePersistentVolumeForRuntime (eeWorld v) (quantityOk v) info (getMountPoint v e) ''fuse.alluxio-fuse'') e"

definition createFusePersistentVolumeClaim :: "engineEnv \<Rightarrow> (AlluxioEngine, goerr option) engineMethod" where
  "createFusePersistentVolumeClaim v e = withInfo v (CreatePersistentVolumeClaimForRuntime (eeWorld v) (quantityOk v)) e"

definition CreateVolume :: "engineEnv \<Rightarrow> (AlluxioEngine, goerr option) engineMethod" where
  "CreateVolume v e =
     withRuntime v (\<lambda>e.
       andThen (createFusePersistentVolume v e) (\<lambda>(err, e).
       if err \<noteq> None then ret (err, e) else createFusePersistentVolumeClaim v e)) e"

definition deleteFusePersistentVolumeClaim :: "engineEnv \<Rightarrow> (AlluxioEngine, goerr option) engineMethod" where
  "deleteFusePersistentVolumeClaim v e = withInfo v (DeleteFusePersistentVolumeClaim (eeWorld v)) e"

definition deleteFusePersistentVolume :: "engineEnv \<Rightarrow> (AlluxioEngine, goerr option) engineMethod" where
  "deleteFusePersistentVolume v e = withInfo v (DeleteFusePersistentVolume (eeWorld v)) e"

definition DeleteVolume :: "engineEnv \<Rightarrow> (AlluxioEngine, goerr option) engineMethod" where
  "DeleteVolume v e =
     withRuntime v (\<lambda>e.
       andThen (deleteFusePersistentVolumeClaim v e) (\<lambda>(err, e).
       if err \<noteq> None then ret (err, e) else deleteFusePersistentVolume v e)) e"

section \<open>The engine behind the template\<close>

text \<open>\<open>sync_runtime.go\<close> and \<open>node.go\<close>, and the interface as the engine implements it.\<close>

definition SyncScheduleInfo :: "engineEnv \<Rightarrow> (AlluxioEngine, goerr option) engineMethod" where
  "SyncScheduleInfo v e =
     (case aeRuntimeInfo e of
        None \<Rightarrow> panic nilPanic
      | Some info \<Rightarrow> andThen (SyncScheduleInfoToCacheNodes (eeWorld v) (eeUnitsBytesSize v) info) (\<lambda>err. ret (err, e)))"

definition alluxioImplement :: "engineEnv \<Rightarrow> AlluxioEngine Implement" where
  "alluxioImplement v =
     \<lparr>imShouldSetupMaster = ShouldSetupMaster v, imSetupMaster = SetupMaster v, imCheckMasterReady = CheckMasterReady v,
      imShouldCheckUFS = ShouldCheckUFS v, imPrepareUFS = PrepareUFS v, imShouldSetupWorkers = ShouldSetupWorkers v,
      imSetupWorkers = SetupWorkers v, imCheckWorkersReady = CheckWorkersReady v,
      imCheckAndUpdateRuntimeStatus = CheckAndUpdateRuntimeStatus v, imBindToDataset = BindToDataset v,
      imSyncMetadata = SyncMetadata v, imSyncReplicas = SyncReplicas v, imSyncRuntime = (\<lambda>e. ret ((False, None), e)),
      imCheckRuntimeHealthy = CheckRuntimeHealthy v, imUpdateCacheOfDataset = UpdateCacheOfDataset v,
      imShouldSyncDatasetMounts = ShouldSyncDatasetMounts v, imSyncDatasetMounts = SyncDatasetMounts v,
      imShouldUpdateUFS = ShouldUpdateUFS v, imUpdateOnUFSChange = UpdateOnUFSChange v,
      imSyncScheduleInfoToCacheNodes = SyncScheduleInfo v, imValidate = Validate v, imShutdown = Shutdown v,
      imCreateVolume = CreateVolume v, imDeleteVolume = DeleteVolume v\<rparr>"

text \<open>\<open>Build\<close>: the runtime of the request is an Alluxio runtime if its kind says so.\<close>

definition Build ::
  "engineEnv \<Rightarrow> (string \<Rightarrow> int option) \<Rightarrow> string \<Rightarrow> string \<Rightarrow> string \<Rightarrow> string \<Rightarrow> string \<Rightarrow> RuntimeObject option \<Rightarrow>
   (goerr + TemplateEngine \<times> AlluxioEngine) kgo" where
  "Build v parseDuration id1 name namespace runtimeType engineImpl runtime =
     (let parseErr = Err (''engine '' @ name @ '' is failed to parse'') in
      case runtime of
        None \<Rightarrow> ret (Inl parseErr)
      | Some rt \<Rightarrow>
          if roKind rt \<noteq> ''AlluxioRuntime'' then ret (Inl parseErr)
          else
            andThen (getRuntimeInfo v \<lparr>aeName = name, aeNamespace = namespace, aeRuntimeType = runtimeType,
                       aeEngineImpl = engineImpl, aeRuntime = Some rt, aeRetryShutdown = 0, aeSyncing = False,
                       aeRuntimeInfo = None, aeLastHits = None\<rparr>) (\<lambda>(r, e).
            case r of
              Inl err \<Rightarrow>
                ret (Inl (Err (''engine '' @ name @ '' failed to get runtime info, error '' @ errText err)))
            | Inr _ \<Rightarrow>
                andThen (NewTemplateEngine (eeWorld v) parseDuration id1 name namespace) (\<lambda>t. ret (Inr (t, e)))))"

end
