(* ===== verification/Alluxio_Binding.thy ===== *)
theory Alluxio_Binding
  imports Alluxio_Engine
begin

text \<open>
  The Alluxio engine satisfies the laws of \<open>cache_engine\<close>, so its dataset is bound only when the cache is ready; and a
  shutdown whose cleanup keeps failing goes on to destroy the cache after a bounded number of attempts.
\<close>

section \<open>Methods and bindings\<close>

lemma keepsBindingI:
  assumes "\<And>s. good s \<Longrightarrow> keeps (bindingGuarded R) (m s)" and "\<And>s. good s \<Longrightarrow> emits (\<lambda>_. True) (m s)"
    and "\<And>s. good s \<Longrightarrow> yields (\<lambda>(_, s'). good s') (m s)"
  shows "keepsBinding R good m"
  unfolding keepsBinding_def
proof (intro allI impI wp_intro)
  fix s h r h' assume s: "good s" "bindingGuarded R h" and run: "m s h = (r, h')"
  from assms(1) [OF s(1)] s(2) run have "bindingGuarded R h'" unfolding keeps_def by (metis snd_conv)
  moreover from assms(2) [OF s(1)] run have "\<exists>es. h' = h @ es" by (metis emits_def snd_conv)
  moreover from assms(3) [OF s(1)] run have "\<forall>a s'. r = Ret (a, s') \<longrightarrow> good s'"
    unfolding yields_def by (metis fst_conv case_prod_conv)
  ultimately show "bindingGuarded R h' \<and> (\<exists>es. h' = h @ es) \<and> (\<forall>a s'. r = Ret (a, s') \<longrightarrow> good s')" by blast
qed

lemma keeps_quiet: "emits (\<lambda>e. \<not> writesDataset e) m \<Longrightarrow> keeps (bindingGuarded R) m"
  by (erule keeps_emits) (rule bindingGuarded_append)

lemma keepsBinding_quiet:
  assumes "\<And>s. emits (\<lambda>e. \<not> writesDataset e) (m s)" and "\<And>s. good s \<Longrightarrow> yields (\<lambda>(_, s'). good s') (m s)"
  shows "keepsBinding R good m"
  using assms by (intro keepsBindingI keeps_quiet) (auto intro: emits_mono)

definition named :: "string \<Rightarrow> string \<Rightarrow> AlluxioEngine \<Rightarrow> bool" where
  "named name namespace e \<longleftrightarrow> aeName e = name \<and> aeNamespace e = namespace"

section \<open>Methods that do not write the dataset\<close>

lemma quiet_exec:
  "emits (\<lambda>e. \<not> writesDataset e) (exec w a command)" "emits (\<lambda>e. \<not> writesDataset e) (runs w a command)"
  unfolding exec_def runs_def by (auto intro!: emits_rules)

lemma quiet_runtime: "emits (\<lambda>e. \<not> writesDataset e) (getRuntime v e)"
  unfolding getRuntime_def getRuntimeObject_def by (auto intro!: emits_rules)

lemma quiet_dataset: "emits (\<lambda>e. \<not> writesDataset e) (readDataset v e)"
  "emits (\<lambda>e. \<not> writesDataset e) (viaOp w (\<lambda>cl. GetDataset cl n ns))"
  unfolding readDataset_def GetDataset_def by (auto intro!: emits_rules)

lemma quiet_set: "emits (\<lambda>e. \<not> writesDataset e) (viaOp w (\<lambda>cl. GetStatefulSet cl n ns))"
  unfolding GetStatefulSet_def by (auto intro!: emits_rules)

lemma quiet_clock: "emits (\<lambda>e. \<not> writesDataset e) (viaOp w now)"
  unfolding now_def by (auto intro!: emits_rules)

lemma quiet_status: "emits (\<lambda>e. \<not> writesDataset e) (writeIfChanged w runtime s)"
  unfolding writeIfChanged_def updateRuntimeStatus_def by (auto intro!: emits_rules)

lemmas quiet = quiet_exec quiet_runtime quiet_dataset quiet_set quiet_clock quiet_status

lemma quiet_checks:
  "emits (\<lambda>e. \<not> writesDataset e) (CheckAndSyncMasterStatus w kind name namespace sts)"
  "emits (\<lambda>e. \<not> writesDataset e) (CheckAndSyncWorkerStatus w kind name namespace sts)"
  unfolding CheckAndSyncMasterStatus_def CheckAndSyncWorkerStatus_def masterOnce_def workerOnce_def getRuntimeObject_def
  by (auto intro!: emits_rules quiet)


lemma quiet_helm:
  "emits (\<lambda>e. \<not> writesDataset e) (viaOp w (\<lambda>cl. CheckRelease cl name namespace))"
  "emits (\<lambda>e. \<not> writesDataset e) (viaOp w (\<lambda>cl. InstallRelease cl name namespace file chart))"
  by (auto intro!: emits_rules emits_CheckRelease emits_InstallRelease)

lemma quiet_install: "emits (\<lambda>e. \<not> writesDataset e) (setupMasterInternal v e)"
  unfolding setupMasterInternal_def generateAlluxioValueFile_def DeleteConfigMap_def CreateConfigMap_def Let_def
  by (auto intro!: emits_rules quiet quiet_helm)

lemma quiet_hits: "emits (\<lambda>e. \<not> writesDataset e) (metricLines f ls acc)"
  by (induction ls arbitrary: acc) (auto simp: Let_def intro!: emits_rules split: option.split)

lemma quiet_cache: "emits (\<lambda>e. \<not> writesDataset e) (queryCacheStatus v e)"
  unfolding queryCacheStatus_def GetCacheHitStates_def ReportSummary_def ReportMetrics_def ParseReportMetric_def Let_def
  by (auto intro!: emits_rules quiet quiet_hits)

lemma quiet_gateway: "emits (\<lambda>e. \<not> writesDataset e) (serviceEndpoint v e scheme port)"
  unfolding serviceEndpoint_def Let_def by (auto intro!: emits_rules)

lemma quiet_methods:
  "emits (\<lambda>e. \<not> writesDataset e) (ShouldSetupMaster v e)" "emits (\<lambda>e. \<not> writesDataset e) (SetupMaster v e)"
  "emits (\<lambda>e. \<not> writesDataset e) (CheckMasterReady v e)" "emits (\<lambda>e. \<not> writesDataset e) (ShouldSetupWorkers v e)"
  "emits (\<lambda>e. \<not> writesDataset e) (CheckWorkersReady v e)" "emits (\<lambda>e. \<not> writesDataset e) (ShouldCheckUFS v e)"
  unfolding ShouldSetupMaster_def SetupMaster_def CheckMasterReady_def ShouldSetupWorkers_def CheckWorkersReady_def
    masterSetOnce_def ShouldCheckUFS_def
  by (auto intro!: emits_rules quiet quiet_checks quiet_install)

lemma quiet_SetupWorkers: "emits (\<lambda>e. \<not> writesDataset e) (SetupWorkers v e)"
  unfolding SetupWorkers_def withWorkers_def Ctrl_Helper.SetupWorkers_def initWorkersStatus_def BuildWorkersAffinity_def
    updateStatefulSet_def updateRuntimeStatus_def Let_def
  by (auto intro!: emits_rules quiet)

lemma quiet_CheckRuntime: "emits (\<lambda>e. \<not> writesDataset e) (CheckAndUpdateRuntimeStatus v e)"
  unfolding CheckAndUpdateRuntimeStatus_def runtimeStatusOnce_def statusFrom_def gatewayStatus_def GetAPIGatewayStatus_def Let_def
  by (auto intro!: emits_rules quiet quiet_cache quiet_gateway)

section \<open>The metadata synchronisation\<close>

lemma keeps_iff_wp: "keeps I m \<longleftrightarrow> (\<forall>h. I h \<longrightarrow> wp m (\<lambda>_ h'. I h') h)"
  by (simp add: keeps_def wp_def split: prod.split) (metis prod.collapse snd_conv)

definition guardedFor :: "(kevent list \<Rightarrow> bool) \<Rightarrow> Dataset \<Rightarrow> kevent list \<Rightarrow> bool" where
  "guardedFor R d h \<longleftrightarrow> bindingGuarded R h \<and> seenPhase h = Some (dstPhase (dStatus d))"

lemma guardedFor_guarded: "guardedFor R d h \<Longrightarrow> bindingGuarded R h"
  by (simp add: guardedFor_def)

lemma wp_readDataset:
  "(\<And>a. Q (Ret a) (h @ [Op (GotDataset (aeName e) (aeNamespace e) a)])) \<Longrightarrow> wp (readDataset v e) Q h"
  unfolding readDataset_def GetDataset_def by (simp add: wp_rules Let_def)

lemma guardedFor_read: "bindingGuarded R h \<Longrightarrow> guardedFor R d (h @ [Op (GotDataset n ns (Inr d))])"
  by (simp add: guardedFor_def bindingGuarded_snoc)

lemma keeps_writeTotals: "keeps (guardedFor R d) (writeTotals v a b d)"
  unfolding keeps_iff_wp writeTotals_def writeDatasetStatus_def updateDatasetStatus_def
  by (auto simp: wp_rules Let_def guardedFor_def bindingGuarded_snoc setUfsTotals_def)

lemma guardedFor_quiet:
  assumes "guardedFor R d h" and "list_all (\<lambda>e. \<not> writesDataset e \<and> phaseEvent e = None) es"
  shows "guardedFor R d (h @ es)"
proof -
  have "list_all (\<lambda>e. \<not> writesDataset e) es" "list_all (\<lambda>e. phaseEvent e = None) es"
    using assms(2) by (simp_all add: list_all_iff)
  moreover have "seenPhase (h @ es) = seenPhase h"
    using \<open>list_all (\<lambda>e. phaseEvent e = None) es\<close>
    by (induction es rule: rev_induct) (simp_all flip: append_assoc)
  ultimately show ?thesis
    using assms(1) by (simp add: guardedFor_def bindingGuarded_append)
qed

lemma keeps_query: "keeps (guardedFor R d) (QueryMetaDataInfoIntoFile w a key file)"
  unfolding QueryMetaDataInfoIntoFile_def
  by (rule keeps_emits [where P = "\<lambda>e. \<not> writesDataset e \<and> phaseEvent e = None"])
     (auto intro!: emits_rules intro: guardedFor_quiet)

lemma keeps_restoreTotals: "keeps (guardedFor R d) (restoreTotals v e d file)"
  unfolding restoreTotals_def by (auto intro!: keeps_rules keeps_query keeps_writeTotals)

lemma keeps_totals: "keeps (bindingGuarded R) (totalsOnce v e a b)"
  unfolding keeps_iff_wp totalsOnce_def
  by (auto simp: wp_rules bindingGuarded_snoc split: sum.split
      intro!: wp_readDataset wp_mono [OF keeps_writeTotals [unfolded keeps_iff_wp, rule_format] guardedFor_guarded]
        guardedFor_read)

lemma keeps_restore: "keeps (bindingGuarded R) (RestoreMetadataInternal v e)"
  unfolding keeps_iff_wp RestoreMetadataInternal_def
  by (auto simp: wp_rules bindingGuarded_snoc split: sum.split option.split prod.split
      intro!: wp_readDataset wp_mono [OF keeps_restoreTotals [unfolded keeps_iff_wp, rule_format] guardedFor_guarded] guardedFor_read)


lemma emits_any: "emits (\<lambda>e. \<not> writesDataset e) m \<Longrightarrow> emits (\<lambda>_. True) m"
  by (erule emits_mono) simp

lemma extends_writes: "emits (\<lambda>_. True) (writeTotals v a b d)" "emits (\<lambda>_. True) (totalsOnce v e a b)"
  unfolding totalsOnce_def writeTotals_def writeDatasetStatus_def updateDatasetStatus_def Let_def
  by (auto intro!: emits_rules quiet [THEN emits_any])

lemma quiet_master: "emits (\<lambda>e. \<not> writesDataset e) (checkExistenceOfMaster v e)"
  "emits (\<lambda>e. \<not> writesDataset e) (shouldSyncMetadata v e)" "emits (\<lambda>e. \<not> writesDataset e) (shouldRestoreMetadata v e)"
  unfolding checkExistenceOfMaster_def shouldSyncMetadata_def shouldRestoreMetadata_def by (auto intro!: emits_rules quiet)

lemma keeps_message [keeps_rules]:
  "(m = SyncRunning \<Longrightarrow> keeps I a) \<Longrightarrow> (m = SyncClosed \<Longrightarrow> keeps I b) \<Longrightarrow>
   (\<And>d u n e. m = SyncFinished d u n e \<Longrightarrow> keeps I (f d u n e)) \<Longrightarrow>
   keeps I (case m of SyncRunning \<Rightarrow> a | SyncClosed \<Rightarrow> b | SyncFinished d u n e \<Rightarrow> f d u n e)"
  "(m = SyncRunning \<Longrightarrow> emits P a) \<Longrightarrow> (m = SyncClosed \<Longrightarrow> emits P b) \<Longrightarrow>
   (\<And>d u n e. m = SyncFinished d u n e \<Longrightarrow> emits P (f d u n e)) \<Longrightarrow>
   emits P (case m of SyncRunning \<Rightarrow> a | SyncClosed \<Rightarrow> b | SyncFinished d u n e \<Rightarrow> f d u n e)"
  "(m = SyncRunning \<Longrightarrow> yields Q a) \<Longrightarrow> (m = SyncClosed \<Longrightarrow> yields Q b) \<Longrightarrow>
   (\<And>d u n e. m = SyncFinished d u n e \<Longrightarrow> yields Q (f d u n e)) \<Longrightarrow>
   yields Q (case m of SyncRunning \<Rightarrow> a | SyncClosed \<Rightarrow> b | SyncFinished d u n e \<Rightarrow> f d u n e)"
  by (cases m; simp)+

lemma keeps_sync: "keeps (bindingGuarded R) (syncMetadataInternal v e)" "emits (\<lambda>_. True) (syncMetadataInternal v e)"
  unfolding syncMetadataInternal_def
  by (auto intro!: keeps_rules keeps_totals keeps_quiet [OF emits_call] keeps_quiet [OF emits_emit])
     (auto intro!: emits_rules keeps_message extends_writes)

lemma keeps_SyncMetadata: "keeps (bindingGuarded R) (SyncMetadata v e)"
  unfolding SyncMetadata_def
  by (auto intro!: keeps_rules keeps_sync keeps_restore quiet_master [THEN keeps_quiet])

lemma extends_SyncMetadata: "emits (\<lambda>_. True) (SyncMetadata v e)"
  unfolding SyncMetadata_def RestoreMetadataInternal_def restoreTotals_def QueryMetaDataInfoIntoFile_def
  by (auto intro!: emits_rules keeps_sync extends_writes quiet_master [THEN emits_any] quiet [THEN emits_any])

lemma named_SyncMetadata: "named n ns e \<Longrightarrow> yields (\<lambda>(_, e'). named n ns e') (SyncMetadata v e)"
  unfolding SyncMetadata_def syncMetadataInternal_def by (auto simp: named_def intro!: yields_rules keeps_message)

section \<open>Mounting for the setup\<close>

lemma quiet_encrypt: "emits (\<lambda>e. \<not> writesDataset e) (genEncryptOptions v e items mOptions)"
  by (induction items arbitrary: mOptions) (auto intro!: emits_rules)

lemma quiet_options: "emits (\<lambda>e. \<not> writesDataset e) (genUFSMountOptions v e m sharedOptions sharedEncrypt extract)"
  unfolding genUFSMountOptions_def Let_def by (auto intro!: emits_rules quiet_encrypt)

lemma quiet_mountedIn: "emits (\<lambda>e. \<not> writesDataset e) (mountedIn path ls)"
  by (induction ls) (auto intro!: emits_rules split: list.split)

lemma quiet_IsMounted: "emits (\<lambda>e. \<not> writesDataset e) (IsMounted w a path)"
  unfolding IsMounted_def by (auto intro!: emits_rules quiet quiet_mountedIn)

lemma quiet_Mount: "emits (\<lambda>e. \<not> writesDataset e) (Mount w a path ufs mOptions readOnly shared)"
  unfolding Mount_def by (auto intro!: emits_rules quiet)

lemma quiet_mountTime: "emits (\<lambda>e. \<not> writesDataset e) (updateMountTime v e)"
  unfolding updateMountTime_def mountTimeOnce_def by (auto intro!: emits_rules quiet)

lemma quiet_mountAll: "emits (\<lambda>e. \<not> writesDataset e) (mountAll v e dataset ms ever)"
  by (induction ms arbitrary: ever) (auto simp: Let_def intro!: emits_rules quiet_IsMounted quiet_options quiet_Mount)

lemma quiet_anyUnmounted: "emits (\<lambda>e. \<not> writesDataset e) (anyUnmounted v e ms)"
  by (induction ms) (auto intro!: emits_rules quiet_IsMounted)

lemma quiet_mountForSetup: "emits (\<lambda>e. \<not> writesDataset e) (mountForSetup v e)"
  unfolding mountForSetup_def shouldMountUFS_def mountUFS_def Ready_def ExecMountScripts_def
  by (auto intro!: emits_rules quiet quiet_anyUnmounted quiet_mountAll quiet_mountTime)

lemma keepsBinding_PrepareUFS: "keepsBinding R (named n ns) (PrepareUFS v)"
proof (rule keepsBindingI)
  fix e assume named: "named n ns e"
  show "keeps (bindingGuarded R) (PrepareUFS v e)"
    unfolding PrepareUFS_def by (auto intro!: keeps_rules keeps_SyncMetadata keeps_quiet [OF quiet_mountForSetup])
  show "emits (\<lambda>_. True) (PrepareUFS v e)"
    unfolding PrepareUFS_def by (auto intro!: emits_rules extends_SyncMetadata emits_any [OF quiet_mountForSetup])
  show "yields (\<lambda>(_, e'). named n ns e') (PrepareUFS v e)"
    unfolding PrepareUFS_def
    by (intro yields_then yields_if yields_andThen [OF named_SyncMetadata [OF named]]) (auto intro!: yields_ret simp: named)
qed

section \<open>Laws of the interface\<close>

definition setSeen :: "string \<Rightarrow> string \<Rightarrow> (StatefulSet \<Rightarrow> bool) \<Rightarrow> kevent list \<Rightarrow> bool" where
  "setSeen name namespace ok h \<longleftrightarrow> (\<exists>sts. Op (GotStatefulSet name namespace (Inr sts)) \<in> set h \<and> ok sts)"

definition masterSeen :: "string \<Rightarrow> string \<Rightarrow> kevent list \<Rightarrow> bool" where
  "masterSeen name namespace = setSeen (name @ ''-master'') namespace (\<lambda>sts. phaseReady (stsPhase sts))"

definition workersSeen :: "string \<Rightarrow> string \<Rightarrow> kevent list \<Rightarrow> bool" where
  "workersSeen name namespace = setSeen (name @ ''-worker'') namespace (\<lambda>sts. phaseReady (stsPhase sts))"

definition runtimeSeen :: "string \<Rightarrow> string \<Rightarrow> kevent list \<Rightarrow> bool" where
  "runtimeSeen name namespace h \<longleftrightarrow>
     setSeen (name @ ''-master'') namespace (\<lambda>sts. stsReplicas sts = Some (stsReadyReplicas sts)) h \<and>
     (setSeen (name @ ''-worker'') namespace (\<lambda>sts. 0 < stsReadyReplicas sts) h \<or>
      (\<exists>rt. ReadRuntime ''AlluxioRuntime'' name namespace (Inr rt) \<in> set h \<and> roReplicas rt = 0))"

lemma extending_seen:
  "extending (setSeen name namespace ok)" "extending (masterSeen name namespace)" "extending (workersSeen name namespace)"
  "extending (runtimeSeen name namespace)"
  by (auto simp: extending_def setSeen_def masterSeen_def workersSeen_def runtimeSeen_def)

lemma yields_RetryOnConflictS:
  assumes "\<And>s. I s \<Longrightarrow> yields (\<lambda>(_, s'). I s') (fn s)" and "I s"
  shows "yields (\<lambda>(_, s'). I s') (RetryOnConflictS fn s)"
proof -
  have "yields (\<lambda>(_, s'). I s') (OnErrorS n IsConflict fn s)" if "I s" for n s
    using that
  proof (induction n arbitrary: s)
    case (Suc n)
    then show ?case
      unfolding OnErrorS.simps
      by (intro yields_andThen [OF assms(1)]) (auto intro!: yields_ret split: option.split)
  qed (simp add: yields_ret)
  with assms(2) show ?thesis by (simp add: RetryOnConflictS_def)
qed

lemma wp_readSet:
  "(\<And>a. Q (Ret a) (h @ [Op (GotStatefulSet name namespace a)])) \<Longrightarrow> wp (viaOp w (\<lambda>cl. GetStatefulSet cl name namespace)) Q h"
  unfolding GetStatefulSet_def by (simp add: wp_rules Let_def)

text \<open>Both checks: ready only if the stateful set that was read first is.\<close>

lemma wp_yields_emits:
  assumes "yields S m" and "emits P m"
    and "\<And>a es. S a \<Longrightarrow> Q (Ret a) (h @ es)" and "\<And>msg es. Q (Panic msg) (h @ es)"
  shows "wp m Q h"
proof (rule wp_intro)
  fix r h' assume run: "m h = (r, h')"
  with assms(2) obtain es where "h' = h @ es" by (metis emits_run)
  with run assms(1) show "Q r h'"
    by (cases r) (auto simp: yields_def intro!: assms(3,4) dest: spec [where x = h])
qed

lemma check_seen:
  assumes "\<And>ready. (ready \<longrightarrow> phaseReady (stsPhase sts)) \<Longrightarrow>
      yields (\<lambda>(_, ready'). ready' \<longrightarrow> phaseReady (stsPhase sts)) (fn ready)"
    and "emits P (RetryOnConflictS fn False)" and "Op (GotStatefulSet name namespace (Inr sts)) \<in> set h"
  shows "wp (andThen (RetryOnConflictS fn False) (\<lambda>(err, ready).
      case err of Some e \<Rightarrow> ret (False, Some (Wrapped msg e)) | None \<Rightarrow> ret (ready, None)))
    (\<lambda>r h'. r = Ret (True, None) \<longrightarrow> setSeen name namespace (\<lambda>sts. phaseReady (stsPhase sts)) h') h"
  unfolding wp_andThen
  using assms(3)
  by (intro wp_yields_emits [OF yields_RetryOnConflictS [where I = "\<lambda>ready. ready \<longrightarrow> phaseReady (stsPhase sts)", OF assms(1)]
        assms(2)])
     (auto simp: wp_rules setSeen_def split: option.splits)

lemma master_seen:
  "wp (CheckAndSyncMasterStatus w kind name namespace sts)
     (\<lambda>r h'. r = Ret (True, None) \<longrightarrow> setSeen sts namespace (\<lambda>sts. phaseReady (stsPhase sts)) h') h"
  unfolding CheckAndSyncMasterStatus_def wp_andThen [of "viaOp _ _"]
  by (intro wp_readSet)
     (auto simp: wp_ret intro!: check_seen [where P = "\<lambda>e. \<not> writesDataset e"] emits_rules split: sum.split,
      auto simp: masterOnce_def getRuntimeObject_def intro!: yields_rules emits_rules quiet)

lemma workers_seen:
  "wp (CheckAndSyncWorkerStatus w kind name namespace sts)
     (\<lambda>r h'. r = Ret (True, None) \<longrightarrow> setSeen sts namespace (\<lambda>sts. phaseReady (stsPhase sts)) h') h"
  unfolding CheckAndSyncWorkerStatus_def wp_andThen [of "viaOp _ _"]
  by (intro wp_readSet)
     (auto simp: wp_ret intro!: check_seen [where P = "\<lambda>e. \<not> writesDataset e"] emits_rules split: sum.split,
      auto simp: workerOnce_def getRuntimeObject_def intro!: yields_rules emits_rules quiet)

definition readinessSeen :: "string \<Rightarrow> string \<Rightarrow> StatefulSet \<Rightarrow> readiness \<times> AlluxioEngine \<Rightarrow> kevent list \<Rightarrow> bool" where
  "readinessSeen n ns master rde h \<longleftrightarrow>
     (case rde of (rd, e) \<Rightarrow>
        named n ns e \<and>
        (rdMaster rd \<longrightarrow> stsReplicas master = Some (stsReadyReplicas master)) \<and>
        (rdWorker rd \<longrightarrow>
           setSeen (n @ ''-worker'') ns (\<lambda>sts. 0 < stsReadyReplicas sts) h \<or>
           (\<exists>rt. ReadRuntime ''AlluxioRuntime'' n ns (Inr rt) \<in> set h \<and> roReplicas rt = 0)) \<and>
        (rdReady rd \<longrightarrow> rdMaster rd \<and> rdWorker rd))"

lemma readinessSeen_append: "readinessSeen n ns master rde h \<Longrightarrow> readinessSeen n ns master rde (h @ es)"
  by (auto simp: readinessSeen_def setSeen_def)

lemma named_hits: "named n ns e \<Longrightarrow> yields (\<lambda>(_, e'). named n ns e') (GetCacheHitStates v e)"
  unfolding GetCacheHitStates_def by (auto simp: named_def intro!: yields_rules split: option.split)

lemma named_query: "named n ns e \<Longrightarrow> yields (\<lambda>(_, e'). named n ns e') (queryCacheStatus v e)"
  unfolding queryCacheStatus_def Let_def
  by (intro yields_then yields_sum yields_if yields_andThen [OF named_hits]) (auto intro!: yields_ret)

lemma quiet_statusFrom: "emits (\<lambda>e. \<not> writesDataset e) (statusFrom v master workers runtime rd e)"
  unfolding statusFrom_def gatewayStatus_def GetAPIGatewayStatus_def Let_def
  by (auto intro!: emits_rules quiet quiet_cache quiet_gateway)

lemma readinessSeen_found:
  assumes "readinessSeen n ns master (rd, e) h" and "Op (GotStatefulSet (n @ ''-worker'') ns (Inr workers)) \<in> set h"
    and "ReadRuntime ''AlluxioRuntime'' n ns (Inr runtime) \<in> set h"
  shows "yields (\<lambda>(_, rde). readinessSeen n ns master rde h) (statusFrom v master workers runtime rd e)"
  unfolding statusFrom_def
proof (rule yields_andThen [OF named_query [of n ns]], goal_cases)
  case 1
  show ?case using assms(1) by (simp add: readinessSeen_def)
next
  case (2 a)
  have "setSeen (n @ ''-worker'') ns (\<lambda>sts. 0 < stsReadyReplicas sts) h" if "0 < stsReadyReplicas workers"
    using that assms(2) by (auto simp: setSeen_def)
  moreover have "\<exists>rt. ReadRuntime ''AlluxioRuntime'' n ns (Inr rt) \<in> set h \<and> roReplicas rt = 0"
    if "roReplicas runtime = 0"
    using that assms(3) by blast
  ultimately show ?case
    using 2 assms(1) by (auto simp: Let_def readinessSeen_def intro!: yields_rules split: prod.splits)
qed

lemma status_once:
  assumes "readinessSeen n ns master rde h" and "Op (GotStatefulSet (n @ ''-worker'') ns (Inr workers)) \<in> set h"
  shows "wp (runtimeStatusOnce v master workers rde)
    (\<lambda>r h'. (\<exists>es. h' = h @ es) \<and> (\<forall>err rde'. r = Ret (err, rde') \<longrightarrow> readinessSeen n ns master rde' h')) h"
proof -
  obtain rd e where rde: "rde = (rd, e)" by (cases rde)
  with assms(1) have e: "aeName e = n" "aeNamespace e = ns" by (simp_all add: readinessSeen_def named_def)
  show ?thesis
    unfolding runtimeStatusOnce_def rde prod.case getRuntime_def wp_andThen
  proof (rule wp_readRuntime, goal_cases)
    case (1 a)
    show ?case
    proof (cases a)
      case (Inr runtime)
      then show ?thesis
        using assms rde e
        by (auto intro!: wp_yields_emits [OF readinessSeen_found [of n ns _ _ _
              "h @ [ReadRuntime ''AlluxioRuntime'' n ns (Inr runtime)]"] quiet_statusFrom] intro: readinessSeen_append)
    qed (use assms(1) rde in \<open>auto simp: wp_rules intro: readinessSeen_append\<close>)
  qed
qed

lemma status_retry:
  assumes "readinessSeen n ns master rde h" and "Op (GotStatefulSet (n @ ''-worker'') ns (Inr workers)) \<in> set h"
  shows "wp (RetryOnConflictS (runtimeStatusOnce v master workers) rde)
    (\<lambda>r h'. (\<exists>es. h' = h @ es) \<and> (\<forall>err rde'. r = Ret (err, rde') \<longrightarrow> readinessSeen n ns master rde' h')) h"
  by (rule RetryOnConflictS_induct [where I = "\<lambda>rde h'. readinessSeen n ns master rde h' \<and> (\<exists>es. h' = h @ es)"])
     (use assms in \<open>auto intro!: wp_mono [OF status_once]\<close>)

lemma master_known:
  assumes "readinessSeen n ns master (rd, e) h" and "Op (GotStatefulSet (n @ ''-master'') ns (Inr master)) \<in> set h"
  shows "named n ns e \<and> (rdReady rd \<longrightarrow> runtimeSeen n ns h)"
  using assms by (auto simp: readinessSeen_def runtimeSeen_def setSeen_def)

lemma runtime_seen:
  assumes "named n ns e"
  shows "wp (CheckAndUpdateRuntimeStatus v e)
    (\<lambda>r h'. \<forall>d e'. r = Ret (d, e') \<longrightarrow> named n ns e' \<and> (fst d \<longrightarrow> runtimeSeen n ns h')) h"
  unfolding CheckAndUpdateRuntimeStatus_def wp_andThen [of "viaOp _ _"]
proof (rule wp_readSet, goal_cases)
  case (1 a)
  show ?case
  proof (cases a)
    case (Inr master)
    have "wp (viaOp (eeWorld v) (\<lambda>cl. GetStatefulSet cl (getWorkerName e) (aeNamespace e)))
        (\<lambda>r h'. \<forall>workers. r = Ret (Inr workers) \<longrightarrow>
          wp (RetryOnConflictS (runtimeStatusOnce v master workers)
                (\<lparr>rdMaster = False, rdWorker = False, rdReady = False\<rparr>, e))
            (\<lambda>r h'. \<forall>err rd e'. r = Ret (err, rd, e') \<longrightarrow> named n ns e' \<and> (rdReady rd \<longrightarrow> runtimeSeen n ns h')) h')
        (h @ [Op (GotStatefulSet (getMasterName e) (aeNamespace e) a)])"
    proof (rule wp_readSet, intro allI impI, goal_cases)
      case (1 b workers)
      have e: "getMasterName e = n @ ''-master''" "getWorkerName e = n @ ''-worker''" "aeNamespace e = ns"
        using assms by (simp_all add: named_def getMasterName_def getWorkerName_def)
      have start: "readinessSeen n ns master (\<lparr>rdMaster = False, rdWorker = False, rdReady = False\<rparr>, e) h'" for h'
        using assms by (simp add: readinessSeen_def)
      show ?case
        by (rule wp_mono [OF status_retry [OF start]])
           (use 1 Inr e in \<open>auto simp: master_known\<close>)
    qed
    then show ?thesis
      unfolding Inr sum.case out.case wp_andThen [of "viaOp _ _"]
      by (rule wp_mono) (use assms in \<open>auto simp: wp_rules elim!: wp_mono split: out.splits sum.splits\<close>)
  qed (use assms in \<open>simp add: wp_rules\<close>)
qed

section \<open>Binding\<close>

fun boundEvent :: "kevent \<Rightarrow> string option" where
  "boundEvent (Op (GotDataset _ _ (Inr d))) = Some (dstPhase (dStatus d))"
| "boundEvent (Op (UpdatedDatasetStatus d None)) = Some (dstPhase (dStatus d))"
| "boundEvent _ = None"

abbreviation knownPhase :: "kevent list \<Rightarrow> string option" where
  "knownPhase \<equiv> lastAnswer boundEvent"

lemma knownPhase_quiet: "list_all (\<lambda>e. boundEvent e = None) es \<Longrightarrow> knownPhase (h @ es) = knownPhase h"
  by (induction es rule: rev_induct) (simp_all flip: append_assoc)

lemma quiet_hcfs: "emits (\<lambda>e. boundEvent e = None) (GetHCFSStatus v e)"
  unfolding GetHCFSStatus_def queryHCFSEndpoint_def serviceEndpoint_def queryCompatibleUFSVersion_def GetConf_def Let_def
  by (auto intro!: emits_rules)

lemma phase_status:
  "yields (\<lambda>s. dstPhase s = phase) (phaseStatus v e phase dataset)"
  "emits (\<lambda>e. boundEvent e = None) (phaseStatus v e phase dataset)"
  unfolding phaseStatus_def now_def by (auto intro!: yields_rules emits_rules)

lemma hcfs_status:
  "dstPhase s = phase \<Longrightarrow> yields (\<lambda>r. \<forall>s'. r = Inr s' \<longrightarrow> dstPhase s' = phase) (hcfsStatus v e s)"
  "emits (\<lambda>e. boundEvent e = None) (hcfsStatus v e s)"
  unfolding hcfsStatus_def by (auto intro!: yields_rules emits_rules quiet_hcfs split: sum.splits)

lemma wp_frame:
  assumes "yields S m" and "emits (\<lambda>e. boundEvent e = None) m"
    and "\<And>a h'. S a \<Longrightarrow> knownPhase h' = knownPhase h \<Longrightarrow> Q (Ret a) h'" and "\<And>msg h'. Q (Panic msg) h'"
  shows "wp m Q h"
proof (rule wp_intro)
  fix r h' assume run: "m h = (r, h')"
  with assms(2) obtain es where "h' = h @ es" "list_all (\<lambda>e. boundEvent e = None) es" by (metis emits_run)
  then have "knownPhase h' = knownPhase h" by (simp add: knownPhase_quiet)
  with run assms(1) show "Q r h'"
    by (cases r) (auto simp: yields_def intro!: assms(3,4) dest: spec [where x = h])
qed

lemma bound_once: "wp (datasetStatusOnce v e phase) (\<lambda>r h'. r = Ret None \<longrightarrow> knownPhase h' = Some phase) h"
  unfolding datasetStatusOnce_def wp_andThen [of "readDataset _ _"]
proof (rule wp_readDataset, goal_cases)
  case (1 a)
  show ?case
  proof (cases a)
    case (Inr dataset)
    have known: "knownPhase (h @ [Op (GotDataset (aeName e) (aeNamespace e) a)]) = Some (dstPhase (dStatus dataset))"
      by (simp add: Inr)
    show ?thesis
      unfolding Inr sum.case out.case wp_andThen
    proof (rule wp_frame [OF phase_status], goal_cases)
      case (1 s h1)
      then have "dstPhase s = phase" by simp
      with 1 show ?case
        unfolding out.case
        by (intro wp_frame [OF hcfs_status]) (auto simp: wp_ret known [unfolded Inr] writeDatasetStatus_def updateDatasetStatus_def wp_viaOp_call Let_def
              split: sum.split)
    qed simp
  qed (simp add: wp_rules)
qed

lemma bind_bound: "wp (BindToDataset v e) (\<lambda>r h'. \<forall>e'. r = Ret (None, e') \<longrightarrow> knownPhase h' = Some ''Bound'') h"
proof -
  have "wp (RetryOnConflict (datasetStatusOnce v e ''Bound'')) (\<lambda>r h'. r = Ret None \<longrightarrow> knownPhase h' = Some ''Bound'') h"
    by (rule RetryOnConflict_induct [where I = "\<lambda>_. True"]) (auto intro!: wp_mono [OF bound_once])
  then show ?thesis
    unfolding BindToDataset_def UpdateDatasetStatus_def by (auto simp: wp_rules elim!: wp_mono split: out.splits)
qed

lemma extends_bind: "emits (\<lambda>_. True) (BindToDataset v e)"
  unfolding BindToDataset_def UpdateDatasetStatus_def datasetStatusOnce_def phaseStatus_def hcfsStatus_def writeDatasetStatus_def
    updateDatasetStatus_def now_def
  by (auto intro!: emits_rules quiet [THEN emits_any] emits_mono [OF quiet_hcfs])

lemma keeps_ready:
  assumes "extending R" and "emits (\<lambda>_. True) m" and "R h" and "bindingGuarded R h"
  shows "wp m (\<lambda>_ h'. bindingGuarded R h' \<and> (\<exists>es. h' = h @ es)) h"
proof (rule wp_intro)
  fix r h' assume "m h = (r, h')"
  with assms(2) obtain es where "h' = h @ es" by (metis emits_run)
  moreover have "bindingGuarded R (h @ es)"
    using assms by (induction es rule: rev_induct) (auto simp: bindingGuarded_snoc extending_def simp flip: append_assoc)
  ultimately show "bindingGuarded R h' \<and> (\<exists>es. h' = h @ es)" by blast
qed


lemma named_methods:
  assumes "named n ns e"
  shows "yields (\<lambda>(_, e'). named n ns e') (ShouldSetupMaster v e)" "yields (\<lambda>(_, e'). named n ns e') (SetupMaster v e)"
    "yields (\<lambda>(_, e'). named n ns e') (CheckMasterReady v e)" "yields (\<lambda>(_, e'). named n ns e') (ShouldSetupWorkers v e)"
    "yields (\<lambda>(_, e'). named n ns e') (CheckWorkersReady v e)" "yields (\<lambda>(_, e'). named n ns e') (ShouldCheckUFS v e)"
    "yields (\<lambda>(_, e'). named n ns e') (SetupWorkers v e)"
  using assms
  unfolding ShouldSetupMaster_def SetupMaster_def CheckMasterReady_def ShouldSetupWorkers_def CheckWorkersReady_def
      ShouldCheckUFS_def SetupWorkers_def
  by (auto intro!: yields_rules)

lemma named_status: "named n ns e \<Longrightarrow> yields (\<lambda>(_, e'). named n ns e') (CheckAndUpdateRuntimeStatus v e)"
  unfolding yields_def
proof (intro allI impI)
  fix h a assume "named n ns e" and "fst (CheckAndUpdateRuntimeStatus v e h) = Ret a"
  with runtime_seen [of n ns e v h] show "case a of (_, e') \<Rightarrow> named n ns e'"
    by (cases "CheckAndUpdateRuntimeStatus v e h") (auto simp: wp_def)
qed

section \<open>The engine as a cache engine\<close>

interpretation alluxio: cache_engine "alluxioImplement v" "named n ns" "masterSeen n ns" "workersSeen n ns"
  "runtimeSeen n ns" "\<lambda>h. knownPhase h = Some ''Bound''" for v n ns
proof (unfold_locales, goal_cases)
  case (13 s h)
  then show ?case
    by (auto simp: alluxioImplement_def CheckMasterReady_def masterSeen_def named_def getMasterName_def wp_rules
        intro!: wp_mono [OF master_seen] split: out.splits)
next
  case (14 s h)
  then show ?case
    by (auto simp: alluxioImplement_def CheckWorkersReady_def workersSeen_def named_def getWorkerName_def wp_rules
        intro!: wp_mono [OF workers_seen] split: out.splits)
next
  case (15 s h)
  then show ?case by (auto simp: alluxioImplement_def intro!: wp_mono [OF runtime_seen])
next
  case (16 R s h)
  then have "wp (BindToDataset v s) (\<lambda>_ h'. bindingGuarded R h' \<and> (\<exists>es. h' = h @ es)) h"
    by (intro keeps_ready extends_bind)
  with bind_bound [of v s h] show ?case
    by (auto simp: alluxioImplement_def wp_def split: prod.splits)
qed (auto simp: extending_seen alluxioImplement_def intro!: keepsBinding_quiet keepsBinding_PrepareUFS quiet_methods
       quiet_SetupWorkers quiet_CheckRuntime named_methods named_status)

section \<open>When the dataset is bound\<close>

definition cacheReady :: "AlluxioEngine \<Rightarrow> kevent list \<Rightarrow> bool" where
  "cacheReady e h \<longleftrightarrow>
     masterSeen (aeName e) (aeNamespace e) h \<and> workersSeen (aeName e) (aeNamespace e) h \<and>
     runtimeSeen (aeName e) (aeNamespace e) h"

text \<open>
  C2. A setup by the Alluxio engine writes the phase \<open>Bound\<close> into the dataset only if it last read the dataset as bound, or after it has read the master and the workers in a ready phase, all replicas of the master ready, and either a ready worker or a runtime that asks for none. If the setup reports success, all of this has been read and the dataset is known to be bound: the last that was read or written of it has the phase \<open>Bound\<close>.
\<close>

theorem bound_only_when_ready:
  assumes "Setup (alluxioImplement v) e [] = (r, h)"
  shows "(\<forall>h1 d a h2. h = h1 @ Op (UpdatedDatasetStatus d a) # h2 \<longrightarrow> dstPhase (dStatus d) = ''Bound'' \<longrightarrow>
            seenPhase h1 = Some ''Bound'' \<or> cacheReady e h1) \<and>
    (\<forall>e'. r = Ret ((True, None), e') \<longrightarrow> cacheReady e h \<and> knownPhase h = Some ''Bound'')"
proof -
  have "wp (Setup (alluxioImplement v) e) (alluxio.boundAfter (aeName e) (aeNamespace e)) []"
    by (rule alluxio.setup_binds_when_ready) (simp_all add: named_def)
  with assms show ?thesis
    by (auto simp: wp_def alluxio.boundAfter_def bindingGuarded_def alluxio.readySeen_def cacheReady_def)
qed

section \<open>Examples\<close>

definition readyRuntime :: RuntimeObject where
  "readyRuntime =
     exampleRuntime\<lparr>roAutoSync := Some False,
       roStatus := emptyStatus\<lparr>rsMasterPhase := ''Ready'', rsWorkerPhase := ''Ready''\<rparr>\<rparr>"

definition readySet :: "string \<Rightarrow> StatefulSet" where
  "readySet n = (runningSet n)\<lparr>stsReadyReplicas := 2\<rparr>"

definition unboundDataset :: Dataset where
  "unboundDataset = exampleDataset\<lparr>dStatus := (dStatus exampleDataset)
     \<lparr>dstPhase := ''NotBound'', dstHCFSStatus := Some (''alluxio://demo'', ''3.3'')\<rparr>\<rparr>"

definition readyWorld :: world where
  "readyWorld = downWorld
     \<lparr>kwCluster := \<lambda>_. downCluster\<lparr>clGetStatefulSet := \<lambda>_ n _. Inr (readySet n),
        clGetDataset := \<lambda>_ _ _. Inr unboundDataset, clUpdateDatasetStatus := \<lambda>_ _. None\<rparr>,
      kwGetRuntime := \<lambda>_ _ _ _. Inr readyRuntime, kwUpdateRuntimeStatus := \<lambda>_ _. None,
      kwExec := \<lambda>_ _ _ _ command. if command = [''alluxio'', ''fsadmin'', ''report'', ''summary''] then Inr ''ok''
                                   else Inl (Err ''no metrics'')\<rparr>"

definition readyEnv :: engineEnv where
  "readyEnv =
     \<lparr>eeWorld = readyWorld, eeParseQuantity = \<lambda>_. None, eeMetadataList = \<lambda>_. [], eeOutOfRange = \<lambda>_. 0, eeParseFloat = \<lambda>_. None,
      eeIsDNSLabel = \<lambda>_. True, eeUnmarshal = \<lambda>_. Inr [], eeChartsDirectory = ''charts'', eePortAllocator = None,
      eeUnitsBytesSize = \<lambda>_. '''', eeSelector = \<lambda>_. Inr ''''\<rparr>"

definition readyEngine :: AlluxioEngine where
  "readyEngine =
     \<lparr>aeName = ''demo'', aeNamespace = ''default'', aeRuntimeType = ''alluxio'', aeEngineImpl = ''alluxio'',
      aeRuntime = Some readyRuntime, aeRetryShutdown = 0, aeSyncing = False, aeRuntimeInfo = None, aeLastHits = None\<rparr>"

lemma readyWorld_simps [simp]:
  "eeWorld readyEnv = readyWorld" "eeOutOfRange readyEnv = (\<lambda>_. 0)"
  "kwCluster readyWorld h = downCluster\<lparr>clGetStatefulSet := \<lambda>_ n _. Inr (readySet n),
     clGetDataset := \<lambda>_ _ _. Inr unboundDataset, clUpdateDatasetStatus := \<lambda>_ _. None\<rparr>"
  "kwGetRuntime readyWorld h a b c = Inr readyRuntime" "kwUpdateRuntimeStatus readyWorld h rt = None"
  "kwLookupEnv readyWorld x = None"
  "kwExec readyWorld h a b c command =
     (if command = [''alluxio'', ''fsadmin'', ''report'', ''summary''] then Inr ''ok'' else Inl (Err ''no metrics''))"
  by (simp_all add: readyEnv_def readyWorld_def downWorld_def)

lemma readyEngine_simps [simp]:
  "aeName readyEngine = ''demo''" "aeNamespace readyEngine = ''default''" "aeRuntime readyEngine = Some readyRuntime"
  "aeLastHits readyEngine = None"
  by (simp_all add: readyEngine_def)

lemma wp_RetryOnConflictS_ok:
  "wp (fn s) (\<lambda>r h'. (\<exists>s'. r = Ret (None, s')) \<and> Q r h') h \<Longrightarrow> wp (RetryOnConflictS fn s) Q h"
  by (rule RetryOnConflictS_induct [where I = "\<lambda>s' h'. s' = s \<and> h' = h"]) (auto elim: wp_mono)

lemma wp_RetryOnConflict_ok:
  "wp fn (\<lambda>r h'. r = Ret None \<and> Q r h') h \<Longrightarrow> wp (RetryOnConflict fn) Q h"
  by (rule RetryOnConflict_induct [where I = "\<lambda>h'. h' = h"]) (auto elim: wp_mono)

lemma ready_phase: "phaseReady (stsPhase (readySet n))"
  by (simp add: readySet_def stsPhase_def runningSet_def expectReplicas_def GetPhaseFromStatefulset_def phaseReady_def)

lemma wp_writeIfChanged_ready: "Q (Ret None) h \<Longrightarrow> (\<And>es. Q (Ret None) (h @ es)) \<Longrightarrow> wp (writeIfChanged readyWorld rt s) Q h"
  by (simp add: writeIfChanged_def updateRuntimeStatus_def wp_rules Let_def)

lemma ready_master: "wp (CheckMasterReady readyEnv readyEngine) (\<lambda>r h'. r = Ret ((True, None), readyEngine)) h"
  unfolding CheckMasterReady_def CheckAndSyncMasterStatus_def masterOnce_def getRuntimeObject_def GetStatefulSet_def now_def
  by (auto simp: wp_rules Let_def ready_phase ex_bool_eq intro!: wp_RetryOnConflictS_ok wp_writeIfChanged_ready)

lemma ready_workers: "wp (CheckWorkersReady readyEnv readyEngine) (\<lambda>r h'. r = Ret ((True, None), readyEngine)) h"
  unfolding CheckWorkersReady_def CheckAndSyncWorkerStatus_def workerOnce_def getRuntimeObject_def GetStatefulSet_def now_def
  by (auto simp: wp_rules Let_def ready_phase ex_bool_eq intro!: wp_RetryOnConflictS_ok wp_writeIfChanged_ready)


lemma ready_ufs: "wp (PrepareUFS readyEnv readyEngine) (\<lambda>r h'. r = Ret (None, readyEngine)) h"
  unfolding PrepareUFS_def mountForSetup_def IsMountWithConfigMap_def getRuntime_def getRuntimeObject_def SyncMetadata_def
    checkExistenceOfMaster_def shouldSyncMetadata_def readDataset_def GetStatefulSet_def GetDataset_def
  by (simp add: wp_rules Let_def readySet_def runningSet_def readyRuntime_def exampleRuntime_def AutoSyncEnabled_def)

lemma ready_report:
  assumes "what \<in> {''summary'', ''metrics''}"
  shows "ValidateCommandSlice (clLookPath downCluster) [''alluxio'', ''fsadmin'', ''report'', what] = None"
proof -
  have "shellFree readyWorld []" by (simp add: shellFree_def downCluster_def)
  with assms show ?thesis
    by (subst plain_command_accepted) (auto simp: shellFree_def illegalChars_def)
qed

lemma trim_ok: "TrimSpace ''ok'' = ''ok''"
  by code_simp

lemma ready_summary: "(\<And>es. Q (Ret (Inr ''ok'')) (h @ es)) \<Longrightarrow> wp (ReportSummary readyWorld a) Q h"
  unfolding ReportSummary_def exec_def ExecWithOptions_def
  by (simp add: wp_def ready_report call_def ret_def andThen_def trim_ok)

lemma ready_metrics: "(\<And>err es. Q (Ret (Inl err)) (h @ es)) \<Longrightarrow> wp (ReportMetrics readyWorld a) Q h"
  unfolding ReportMetrics_def exec_def ExecWithOptions_def
  by (simp add: wp_def ready_report call_def ret_def andThen_def)

lemma ready_query:
  "wp (queryCacheStatus readyEnv readyEngine) (\<lambda>r h'. \<exists>states. r = Ret ((states, None), readyEngine)) h"
  unfolding queryCacheStatus_def GetCacheHitStates_def now_def GetDataset_def
  by (auto simp: wp_rules Let_def intro!: ready_summary ready_metrics)

lemma ready_runtime:
  "wp (CheckAndUpdateRuntimeStatus readyEnv readyEngine) (\<lambda>r h'. r = Ret ((True, None), readyEngine)) h"
  unfolding CheckAndUpdateRuntimeStatus_def runtimeStatusOnce_def statusFrom_def getRuntime_def getRuntimeObject_def
    GetStatefulSet_def gatewayStatus_def now_def
  by (auto simp: wp_rules Let_def readySet_def runningSet_def readyRuntime_def exampleRuntime_def
      intro!: wp_RetryOnConflictS_ok wp_mono [OF ready_query] wp_writeIfChanged_ready)

lemma ready_bind: "wp (BindToDataset readyEnv readyEngine) (\<lambda>r h'. r = Ret (None, readyEngine)) h"
  unfolding BindToDataset_def UpdateDatasetStatus_def datasetStatusOnce_def phaseStatus_def hcfsStatus_def
     readDataset_def GetDataset_def writeDatasetStatus_def updateDatasetStatus_def now_def
  by (auto simp: wp_rules Let_def unboundDataset_def boundStatus_def intro!: wp_RetryOnConflict_ok)

theorem bound_only_when_ready_witness:
  "case Setup (alluxioImplement readyEnv) readyEngine [] of (r, h) \<Rightarrow>
     r = Ret ((True, None), readyEngine) \<and> cacheReady readyEngine h \<and> knownPhase h = Some ''Bound''"
proof -
  have "wp (Setup (alluxioImplement readyEnv) readyEngine) (\<lambda>r _. r = Ret ((True, None), readyEngine)) []"
    unfolding Setup_def setupMaster_def prepareUFS_def setupWorkers_def checkAndBind_def ShouldSetupMaster_def
      getRuntime_def getRuntimeObject_def
    by (auto simp: wp_rules alluxioImplement_def ShouldCheckUFS_def ShouldSetupWorkers_def ShouldSetupMaster_def
      getRuntime_def getRuntimeObject_def readyRuntime_def
      intro!: wp_mono [OF ready_master] wp_mono [OF ready_ufs] wp_mono [OF ready_workers] wp_mono [OF ready_runtime]
        wp_mono [OF ready_bind])
  then show ?thesis
    using bound_only_when_ready [of readyEnv readyEngine]
    by (auto simp: wp_def split: prod.splits)
qed

section \<open>Shutting down\<close>

lemma hits_keep_retry: "yields (\<lambda>(_, e'). aeRetryShutdown e' = aeRetryShutdown e) (GetCacheHitStates v e)"
  unfolding GetCacheHitStates_def by (auto intro!: yields_rules)

lemma query_keeps_retry: "yields (\<lambda>(_, e'). aeRetryShutdown e' = aeRetryShutdown e) (queryCacheStatus v e)"
  unfolding queryCacheStatus_def Let_def
  by (intro yields_then yields_sum yields_if yields_ret yields_andThen [OF hits_keep_retry]) (auto intro!: yields_rules)

lemma cleanup_keeps_retry: "yields (\<lambda>(_, e'). aeRetryShutdown e' = aeRetryShutdown e) (cleanupCache v e)"
  unfolding cleanupCache_def
  by (rule yields_andThen [OF query_keeps_retry]) (auto intro!: yields_rules)

text \<open>The limit of the runtime as the call at the history would read it.\<close>

definition limitAt :: "engineEnv \<Rightarrow> AlluxioEngine \<Rightarrow> kevent list \<Rightarrow> int option" where
  "limitAt v e h =
     (case kwGetRuntime (eeWorld v) h ''AlluxioRuntime'' (aeName e) (aeNamespace e) of
        Inl _ \<Rightarrow> None
      | Inr rt \<Rightarrow> Some (case roGracefulShutdown rt of Some n \<Rightarrow> n | None \<Rightarrow> 3))"

text \<open>Shutdowns of an engine in a row, each of which fails in the cleanup with the limit it reads.\<close>

inductive failedShutdowns :: "engineEnv \<Rightarrow> int \<Rightarrow> nat \<Rightarrow> AlluxioEngine \<Rightarrow> AlluxioEngine \<Rightarrow> bool" for v limit where
  none: "failedShutdowns v limit 0 e e"
| more: "failedShutdowns v limit n e e1 \<Longrightarrow> limitAt v e1 h = Some limit \<Longrightarrow>
    cleanupLimited v e1 h = (Ret (Some err, e2), h') \<Longrightarrow> Shutdown v e1 h = (Ret (Some err, e2), h') \<Longrightarrow>
    failedShutdowns v limit (Suc n) e e2"

lemma limits_run:
  "limitAt v e h = Some limit \<Longrightarrow> \<exists>ev. getGracefulShutdownLimits v e h = (Ret (Inr limit), h @ [ev])"
  by (auto simp: limitAt_def getGracefulShutdownLimits_def getRuntime_def getRuntimeObject_def andThen_def ret_def call_def
      split: sum.splits)

lemma failed_cleanup:
  assumes "limitAt v e h = Some limit" and "cleanupLimited v e h = (Ret (Some err, e'), h')"
  shows "aeRetryShutdown e < limit \<and> aeRetryShutdown e' = aeRetryShutdown e + 1"
proof -
  obtain ev where limits: "getGracefulShutdownLimits v e h = (Ret (Inr limit), h @ [ev])"
    using limits_run [OF assms(1)] by blast
  with assms(2) have lt: "aeRetryShutdown e < limit"
    by (auto simp: cleanupLimited_def andThen_def ret_def split: if_splits)
  obtain e1 where "fst (cleanupCache v e (h @ [ev])) = Ret (Some err, e1)" "e' = e1\<lparr>aeRetryShutdown := aeRetryShutdown e1 + 1\<rparr>"
    using assms(2) limits lt
    by (auto simp: cleanupLimited_def andThen_def ret_def split: if_splits prod.splits out.splits)
  with cleanup_keeps_retry [of e v] lt show ?thesis by (auto simp: yields_def)
qed

text \<open>
  Shutdowns that fail one after another because the cache cannot be cleaned up, while the runtime asks for at most \<open>limit\<close> graceful attempts, are at most as many as the engine has attempts left; when these are used up the next shutdown does not try to clean up and destroys the workers, the master and the configuration.
\<close>

theorem cleanup_gives_up:
  assumes "failedShutdowns v limit n e e'" and "aeRetryShutdown e \<le> limit"
  shows "int n \<le> limit - aeRetryShutdown e \<and>
    (int n = limit - aeRetryShutdown e \<longrightarrow> limitAt v e' h = Some limit \<longrightarrow>
       (\<exists>ev. Shutdown v e' h = destroyAll v e' (h @ [ev])))"
proof -
  have "aeRetryShutdown e' = aeRetryShutdown e + int n \<and> aeRetryShutdown e' \<le> limit"
    using assms by (induction rule: failedShutdowns.induct) (auto dest: failed_cleanup)
  moreover have "limit \<le> aeRetryShutdown e' \<Longrightarrow> limitAt v e' h = Some limit \<Longrightarrow>
      \<exists>ev. Shutdown v e' h = destroyAll v e' (h @ [ev])"
    using limits_run [of v e' h limit] by (auto simp: Shutdown_def cleanupLimited_def andThen_def ret_def)
  ultimately show ?thesis by auto
qed

definition stuckEnv :: engineEnv where
  "stuckEnv = readyEnv\<lparr>eeWorld := readyWorld\<lparr>kwExec := \<lambda>_ _ _ _ _. Inl (Err ''timed out'')\<rparr>\<rparr>"


lemma stuck_summary: "\<exists>err h'. ReportSummary (eeWorld stuckEnv) a h = (Ret (Inl (Wrapped ''error when executing command'' err)), h')"
  unfolding ReportSummary_def exec_def ExecWithOptions_def
  by (simp add: stuckEnv_def ready_report call_def ret_def andThen_def)

lemma stuck_limit: "limitAt stuckEnv e h = Some 3"
  by (simp add: limitAt_def stuckEnv_def readyRuntime_def exampleRuntime_def)

lemma stuck_cleanup:
  assumes "aeRetryShutdown e < 3"
  shows "\<exists>err h'. cleanupLimited stuckEnv e h = (Ret (Some err, e\<lparr>aeRetryShutdown := aeRetryShutdown e + 1\<rparr>), h')"
proof -
  obtain ev where limits: "getGracefulShutdownLimits stuckEnv e h = (Ret (Inr 3), h @ [ev])"
    using limits_run [OF stuck_limit] by blast
  obtain err h' where "ReportSummary (eeWorld stuckEnv) (fileUtils e) (h @ [ev]) =
      (Ret (Inl (Wrapped ''error when executing command'' err)), h')"
    using stuck_summary by blast
  with limits assms show ?thesis
    by (simp add: cleanupLimited_def cleanupCache_def queryCacheStatus_def andThen_def ret_def IgnoreNotFound_def noStates_def)
qed

lemma stuck_step:
  assumes "failedShutdowns stuckEnv 3 n readyEngine e" and "aeRetryShutdown e < 3"
  shows "failedShutdowns stuckEnv 3 (Suc n) readyEngine (e\<lparr>aeRetryShutdown := aeRetryShutdown e + 1\<rparr>)"
proof -
  obtain err h' where run: "cleanupLimited stuckEnv e [] = (Ret (Some err, e\<lparr>aeRetryShutdown := aeRetryShutdown e + 1\<rparr>), h')"
    using stuck_cleanup [OF assms(2)] by blast
  then have "Shutdown stuckEnv e [] = (Ret (Some err, e\<lparr>aeRetryShutdown := aeRetryShutdown e + 1\<rparr>), h')"
    by (simp add: Shutdown_def andThen_def ret_def)
  with assms(1) stuck_limit run show ?thesis by (rule failedShutdowns.more)
qed

theorem cleanup_gives_up_witness:
  "failedShutdowns stuckEnv 3 3 readyEngine (readyEngine\<lparr>aeRetryShutdown := 3\<rparr>) \<and>
    (\<exists>ev. Shutdown stuckEnv (readyEngine\<lparr>aeRetryShutdown := 3\<rparr>) [] =
       destroyAll stuckEnv (readyEngine\<lparr>aeRetryShutdown := 3\<rparr>) [ev])"
proof -
  have retry: "aeRetryShutdown readyEngine = 0" by (simp add: readyEngine_def)
  have "failedShutdowns stuckEnv 3 1 readyEngine (readyEngine\<lparr>aeRetryShutdown := 1\<rparr>)"
    using stuck_step [OF failedShutdowns.none] by (simp add: retry)
  from stuck_step [OF this] have "failedShutdowns stuckEnv 3 2 readyEngine (readyEngine\<lparr>aeRetryShutdown := 2\<rparr>)"
    by (simp add: numeral_2_eq_2)
  from stuck_step [OF this] have "failedShutdowns stuckEnv 3 3 readyEngine (readyEngine\<lparr>aeRetryShutdown := 3\<rparr>)"
    by (simp add: numeral_3_eq_3)
  with cleanup_gives_up [OF this, of "[]"] show ?thesis by (simp add: retry stuck_limit)
qed

end
