(* ===== verification/Runtime_Controller.thy ===== *)
theory Runtime_Controller
  imports Template_Engine Operation_Controller
begin

text \<open>
  The reconciliation of runtimes (\<open>pkg/controllers/runtime_controller.go\<close>) over the template engine, for any engine that
  implements it, with the cache of engines that each kind of runtime keeps (\<open>implement.go\<close> and \<open>*_runtime_controller.go\<close>
  of \<open>pkg/controllers/v1alpha1\<close>). An engine is an object that its methods change, so its state is put back into the
  cache after each call. The mutex that guards the cache and the counters of the metrics are not modelled: a
  reconciliation is the only one for its runtime at a time.
\<close>

section \<open>State and parameters\<close>

type_synonym 's cachedEngine = "TemplateEngine \<times> 's"

type_synonym 's engineCache = "(string \<times> 's cachedEngine) list"

text \<open>
  What differs between the kinds of runtimes: the kind, type, category, finalizer and the implementation that is used, and the
  engine: its methods and how it is built for an identifier, a name, a namespace, an implementation and the runtime.
  \<open>rkDnsErrors\<close> is \<open>validation.IsDNS1035Label\<close>.
\<close>

record 's runtimeKind =
  rkWorld :: world
  rkKind :: string
  rkRuntimeType :: string
  rkCategory :: string
  rkFinalizer :: string
  rkEngineImpl :: "RuntimeStatus \<Rightarrow> string"
  rkDnsErrors :: "string \<Rightarrow> string list"
  rkImplement :: "'s Implement"
  rkBuild :: "string \<Rightarrow> string \<Rightarrow> string \<Rightarrow> string \<Rightarrow> RuntimeObject \<Rightarrow> (goerr + 's cachedEngine) kgo"

record runtimeRequest =
  rrName :: string
  rrNamespace :: string
  rrRuntime :: RuntimeObject
  rrEngineImpl :: string
  rrDataset :: "Dataset option"

abbreviation requestId :: "runtimeRequest \<Rightarrow> string" where
  "requestId ctx \<equiv> GenerateEngineID (rrNamespace ctx) (rrName ctx)"

abbreviation warnRuntime :: "runtimeRequest \<Rightarrow> string \<Rightarrow> string \<Rightarrow> unit kgo" where
  "warnRuntime ctx reason message \<equiv>
     emit (Op (Recorded (omNamespace (roMeta (rrRuntime ctx))) (omName (roMeta (rrRuntime ctx))) ''Warning'' reason message))"

section \<open>implement.go of the kinds\<close>

definition getOrCreateEngine ::
  "'s runtimeKind \<Rightarrow> runtimeRequest \<Rightarrow> 's engineCache \<Rightarrow> ((goerr + 's cachedEngine) \<times> 's engineCache) kgo" where
  "getOrCreateEngine k ctx engines =
     (case map_of engines (requestId ctx) of
        Some engine \<Rightarrow> ret (Inr engine, engines)
      | None \<Rightarrow>
          if rrEngineImpl ctx \<in> set buildFuncMap then
            andThen (rkBuild k (requestId ctx) (rrName ctx) (rrNamespace ctx) (rrEngineImpl ctx) (rrRuntime ctx)) (\<lambda>r.
            case r of
              Inl err \<Rightarrow> ret (Inl err, engines)
            | Inr engine \<Rightarrow> ret (Inr engine, AList.update (requestId ctx) engine engines))
          else
            ret (Inl (Err (''failed to build the engine due to the engineImpl '' @ rrEngineImpl ctx @ '' is not found'')),
                 engines))"

definition removeEngine :: "runtimeRequest \<Rightarrow> 's engineCache \<Rightarrow> 's engineCache" where
  "removeEngine ctx engines = AList.delete (requestId ctx) engines"

text \<open>The engine in the cache is the object that the methods change, as long as it is there.\<close>

definition putEngine :: "runtimeRequest \<Rightarrow> 's cachedEngine \<Rightarrow> 's engineCache \<Rightarrow> 's engineCache" where
  "putEngine ctx engine engines = AList.update (requestId ctx) engine engines"

section \<open>crtl\_utils.go and label.go\<close>

text \<open>\<open>Intn\<close> of a number draws one below it.\<close>

definition GenerateRandomRequeueDurationFromEnv :: "world \<Rightarrow> kevent list \<Rightarrow> bool \<times> int" where
  "GenerateRandomRequeueDurationFromEnv w h =
     (let env = (\<lambda>key. case kwLookupEnv w key of Some value \<Rightarrow> value | None \<Rightarrow> '''') in
      case Atoi (env ''FLUID_RUNTIME_RECONCILE_DURATION'') of
        None \<Rightarrow> (True, 90 * second)
      | Some duration \<Rightarrow>
          if duration = -1 then (False, 90 * second)
          else
            (case Atoi (env ''FLUID_RUNTIME_RECONCILE_DURATION_OFFSET'') of
               None \<Rightarrow> (True, duration * second)
             | Some offset \<Rightarrow>
                 if offset < 0 \<or> offset > duration then (True, duration * second)
                 else (True, (kwRandom w h (2 * offset + 1) + duration - offset) * second)))"

text \<open>
  The label of the dataset's identifier on the dataset and on the runtime. A patch that succeeds refreshes the object. The
  result is whether there was an error.
\<close>

definition PatchLabelToObjects ::
  "world \<Rightarrow> string \<Rightarrow> string \<Rightarrow> Dataset \<Rightarrow> RuntimeObject \<Rightarrow> (bool \<times> Dataset \<times> RuntimeObject) kgo" where
  "PatchLabelToObjects w key value dataset runtime =
     andThen (if ContainsLabel (omLabels (dMeta dataset)) key value then ret (False, dataset)
              else
                andThen (call (\<lambda>h. kwPatchDataset w h dataset key value) (PatchedDataset dataset key value)) (\<lambda>r.
                ret (case r of Inl _ \<Rightarrow> (True, dataset) | Inr dataset' \<Rightarrow> (False, dataset')))) (\<lambda>(failed1, dataset).
     andThen (if ContainsLabel (omLabels (roMeta runtime)) key value then ret (False, runtime)
              else
                andThen (call (\<lambda>h. kwPatchRuntime w h runtime key value) (PatchedRuntime runtime key value)) (\<lambda>r.
                ret (case r of Inl _ \<Rightarrow> (True, runtime) | Inr runtime' \<Rightarrow> (False, runtime')))) (\<lambda>(failed2, runtime).
     ret (failed1 \<or> failed2, dataset, runtime)))"

section \<open>runtime\_controller.go\<close>

definition updateRuntime :: "world \<Rightarrow> RuntimeObject \<Rightarrow> (goerr + int) kgo" where
  "updateRuntime w runtime = call (\<lambda>h. kwUpdateRuntime w h runtime) (WroteRuntime runtime)"

definition setRuntimeMeta :: "(ObjectMeta \<Rightarrow> ObjectMeta) \<Rightarrow> RuntimeObject \<Rightarrow> RuntimeObject" where
  "setRuntimeMeta f runtime = runtime\<lparr>roMeta := f (roMeta runtime)\<rparr>"

definition unboundStatus :: "DatasetStatus \<Rightarrow> DatasetStatus" where
  "unboundStatus s =
     s\<lparr>dstPhase := ''NotBound'', dstUfsTotal := '''', dstConditions := [], dstCacheStates := [], dstRuntimes := [],
       dstHCFSStatus := None, dstFileNum := ''''\<rparr>"

definition dropFinalizer :: "'s runtimeKind \<Rightarrow> runtimeRequest \<Rightarrow> reconcileResult kgo" where
  "dropFinalizer k ctx =
     (if omDeletionTimestamp (roMeta (rrRuntime ctx)) = None then ret NoRequeue
      else
        andThen (updateRuntime (rkWorld k)
                   (setRuntimeMeta (\<lambda>m. m\<lparr>omFinalizers := RemoveString (omFinalizers m) (rkFinalizer k)\<rparr>) (rrRuntime ctx)))
          (\<lambda>r. ret (case r of Inl err \<Rightarrow> RequeueIfError (Some err) | Inr _ \<Rightarrow> NoRequeue)))"

definition unbindDataset :: "'s runtimeKind \<Rightarrow> runtimeRequest \<Rightarrow> (goerr option) kgo" where
  "unbindDataset k ctx =
     (case rrDataset ctx of
        None \<Rightarrow> ret None
      | Some dataset \<Rightarrow> viaOp (rkWorld k) (\<lambda>cl. updateDatasetStatus cl (setStatus unboundStatus dataset)))"

definition ReconcileRuntimeDeletion ::
  "'s runtimeKind \<Rightarrow> runtimeRequest \<Rightarrow> 's cachedEngine \<Rightarrow> 's engineCache \<Rightarrow> (reconcileResult \<times> 's engineCache) kgo" where
  "ReconcileRuntimeDeletion k ctx engine engines =
     (case engine of (t, s) \<Rightarrow>
        andThen (imDeleteVolume (rkImplement k) s) (\<lambda>(err, s).
        case err of
          Some e \<Rightarrow>
            andThen (warnRuntime ctx ''ErrorProcessRuntime'' (''Failed to delete volume '' @ errText e)) (\<lambda>_.
            ret (RequeueAfterInterval (20 * second), putEngine ctx (t, s) engines))
        | None \<Rightarrow>
            andThen (imShutdown (rkImplement k) s) (\<lambda>(err, s).
            case err of
              Some e \<Rightarrow>
                andThen (warnRuntime ctx ''ErrorProcessRuntime'' (''Failed to shutdown engine '' @ errText e)) (\<lambda>_.
                ret (RequeueAfterInterval (20 * second), putEngine ctx (t, s) engines))
            | None \<Rightarrow>
                andThen (emit (ForgotMetrics (rrNamespace ctx) (rrName ctx))) (\<lambda>_.
                andThen (unbindDataset k ctx) (\<lambda>err.
                andThen (if err \<noteq> None then ret (RequeueIfError err) else dropFinalizer k ctx) (\<lambda>result.
                ret (result, removeEngine ctx engines)))))))"

text \<open>The condition that reports why the setup failed.\<close>

definition reportOnce :: "world \<Rightarrow> string \<Rightarrow> string \<Rightarrow> goerr \<Rightarrow> (goerr option) kgo" where
  "reportOnce w name namespace reason =
     andThen (viaOp w (\<lambda>cl. GetDataset cl name namespace)) (\<lambda>r.
     case r of
       Inl err \<Rightarrow> ret (Some err)
     | Inr dataset \<Rightarrow>
         andThen (viaOp w now) (\<lambda>t.
         let cond = NewDatasetCondition ''NotReady'' ''DatasetFailedToSetup'' (errText reason) ''True'' t;
             toUpdate = setStatus (\<lambda>s. s\<lparr>dstConditions := UpdateDatasetCondition (dstConditions s) cond\<rparr>) dataset in
         if dStatus dataset \<noteq> dStatus toUpdate then viaOp w (\<lambda>cl. updateDatasetStatus cl toUpdate) else ret None))"

definition ReportDatasetNotReadyCondition :: "world \<Rightarrow> Dataset \<Rightarrow> goerr \<Rightarrow> (goerr option) kgo" where
  "ReportDatasetNotReadyCondition w dataset reason =
     RetryOnConflict (reportOnce w (omName (dMeta dataset)) (omNamespace (dMeta dataset)) reason)"

text \<open>The engine is set up if the dataset says it is not. A setup can report that it is ready next to an error.\<close>

definition setupEngine :: "'s runtimeKind \<Rightarrow> runtimeRequest \<Rightarrow> Dataset \<Rightarrow> 's \<Rightarrow> (bool \<times> 's) kgo" where
  "setupEngine k ctx dataset s =
     (if IsSetupDone dataset then ret (True, s)
      else
        andThen (Setup (rkImplement k) s) (\<lambda>((ready, err), s).
        andThen (case err of
                   None \<Rightarrow> ret ()
                 | Some e \<Rightarrow>
                     andThen (warnRuntime ctx ''ErrorProcessRuntime'' (''Failed to setup ddc engine due to error '' @ errText e)) (\<lambda>_.
                     andThen (ReportDatasetNotReadyCondition (rkWorld k) dataset e) (\<lambda>_. ret ()))) (\<lambda>_.
        ret (ready, s))))"

definition requeueByEnv :: "world \<Rightarrow> reconcileResult kgo" where
  "requeueByEnv w h =
     ret (case GenerateRandomRequeueDurationFromEnv w h of
            (needRequeue, interval) \<Rightarrow> if needRequeue then RequeueAfterInterval interval else NoRequeue) h"

definition serveDataset :: "'s runtimeKind \<Rightarrow> runtimeRequest \<Rightarrow> 's cachedEngine \<Rightarrow> (reconcileResult \<times> 's cachedEngine) kgo" where
  "serveDataset k ctx engine =
     (case engine of (t, s) \<Rightarrow>
        andThen (imCreateVolume (rkImplement k) s) (\<lambda>(err, s).
        andThen (case IgnoreAlreadyExists err of
                   None \<Rightarrow> ret ()
                 | Some e \<Rightarrow> warnRuntime ctx ''ErrorProcessRuntime'' (''Failed to setup volume due to error '' @ errText e)) (\<lambda>_.
        andThen (Sync (rkWorld k) (rkImplement k) (t, s)) (\<lambda>(err, engine).
        case err of
          Some e \<Rightarrow>
            andThen (warnRuntime ctx ''ErrorProcessRuntime'' (''Failed to sync the ddc due to '' @ errText e)) (\<lambda>_.
            ret (RequeueAfterInterval (20 * second), engine))
        | None \<Rightarrow> andThen (requeueByEnv (rkWorld k)) (\<lambda>result. ret (result, engine))))))"

definition ReconcileRuntime ::
  "'s runtimeKind \<Rightarrow> runtimeRequest \<Rightarrow> Dataset \<Rightarrow> 's cachedEngine \<Rightarrow> (reconcileResult \<times> 's cachedEngine) kgo" where
  "ReconcileRuntime k ctx dataset engine =
     (case engine of (t, s) \<Rightarrow>
        andThen (OnErrorS DefaultRetry_Steps IsTemporaryValidationFailed (imValidate (rkImplement k)) s) (\<lambda>(err, s).
        case err of
          Some e \<Rightarrow>
            andThen (warnRuntime ctx ''ErrorValidateSpecFields''
                       (''Validation failed for spec fields of Dataset and Runtime: '' @ errText e)) (\<lambda>_.
            ret (RequeueAfterInterval (20 * second), (t, s)))
        | None \<Rightarrow>
            andThen (setupEngine k ctx dataset s) (\<lambda>(ready, s).
            if \<not> ready then ret (RequeueAfterInterval (20 * second), (t, s)) else serveDataset k ctx (t, s))))"

definition AddFinalizerAndRequeue :: "'s runtimeKind \<Rightarrow> RuntimeObject \<Rightarrow> reconcileResult kgo" where
  "AddFinalizerAndRequeue k runtime =
     andThen (updateRuntime (rkWorld k)
                (setRuntimeMeta (\<lambda>m. m\<lparr>omFinalizers := omFinalizers m @ [rkFinalizer k]\<rparr>) runtime)) (\<lambda>r.
     ret (case r of
            Inl err \<Rightarrow> RequeueIfError (Some err)
          | Inr generation \<Rightarrow> RequeueImmediatelyUnlessGenerationChanged (omGeneration (roMeta runtime)) generation))"

definition AddOwnerAndRequeue :: "'s runtimeKind \<Rightarrow> RuntimeObject \<Rightarrow> Dataset \<Rightarrow> reconcileResult kgo" where
  "AddOwnerAndRequeue k runtime dataset =
     (let owner = \<lparr>orAPIVersion = dAPIVersion dataset, orKind = dKind dataset, orName = omName (dMeta dataset),
                   orUID = omUID (dMeta dataset), orController = None\<rparr> in
      andThen (updateRuntime (rkWorld k)
                 (setRuntimeMeta (\<lambda>m. m\<lparr>omOwnerReferences := omOwnerReferences m @ [owner]\<rparr>) runtime)) (\<lambda>r.
      ret (case r of Inl err \<Rightarrow> RequeueIfError (Some err) | Inr _ \<Rightarrow> RequeueImmediately)))"

definition CheckIfReferenceDatasetIsSupported :: "'s runtimeKind \<Rightarrow> Dataset \<Rightarrow> bool \<times> string" where
  "CheckIfReferenceDatasetIsSupported k dataset =
     (if GetPhysicalDatasetFromMounts (dsMounts (dSpec dataset)) \<noteq> [] \<and> rkRuntimeType k \<noteq> ''thin''
      then (False, ''dataset mounting another dataset can only use thin runtime'') else (True, ''''))"

text \<open>
  The part of \<open>ReconcileInternal\<close> for a runtime that is not being deleted and has a dataset. The patches refresh the
  dataset and the runtime that the rest works on.
\<close>

definition reconcileBound ::
  "'s runtimeKind \<Rightarrow> runtimeRequest \<Rightarrow> Dataset \<Rightarrow> 's cachedEngine \<Rightarrow> (reconcileResult \<times> 's cachedEngine) kgo" where
  "reconcileBound k ctx dataset engine =
     (if \<not> ContainsOwners (omOwnerReferences (roMeta (rrRuntime ctx))) dataset
      then andThen (AddOwnerAndRequeue k (rrRuntime ctx) dataset) (\<lambda>result. ret (result, engine))
      else
        andThen (PatchLabelToObjects (rkWorld k) ''fluid.io/dataset-id''
                   (GetDatasetId (omNamespace (dMeta dataset)) (omName (dMeta dataset)) (omUID (dMeta dataset)))
                   dataset (rrRuntime ctx)) (\<lambda>(failed, dataset, runtime).
        let ctx = ctx\<lparr>rrRuntime := runtime, rrDataset := Some dataset\<rparr> in
        if failed then ret (RequeueAfterInterval (5 * second), engine)
        else if \<not> CanbeBound dataset (rrName ctx) (rrNamespace ctx) (rkCategory k) then
          andThen (warnRuntime ctx ''ErrorProcessRuntime''
                     (''the dataset can'' @ CHR 0x27 # ''t be bound to the runtime, because it'' @
                      CHR 0x27 # ''s already bound to another runtime '' @
                      omName (dMeta dataset))) (\<lambda>_.
          ret (RequeueAfterInterval (20 * second), engine))
        else
          (case CheckIfReferenceDatasetIsSupported k dataset of
             (False, reason) \<Rightarrow>
               andThen (warnRuntime ctx ''ErrorProcessRuntime'' reason) (\<lambda>_.
               ret (RequeueAfterInterval (20 * second), engine))
           | (True, _) \<Rightarrow>
               if \<not> ContainsString (omFinalizers (roMeta runtime)) (rkFinalizer k)
               then andThen (AddFinalizerAndRequeue k runtime) (\<lambda>result. ret (result, engine))
               else ReconcileRuntime k ctx dataset engine)))"

definition reconcileWithEngine ::
  "'s runtimeKind \<Rightarrow> runtimeRequest \<Rightarrow> 's cachedEngine \<Rightarrow> 's engineCache \<Rightarrow> (reconcileResult \<times> 's engineCache) kgo" where
  "reconcileWithEngine k ctx engine engines =
     (if omDeletionTimestamp (roMeta (rrRuntime ctx)) \<noteq> None then
        andThen (ReconcileRuntimeDeletion k ctx engine engines) (\<lambda>(result, engines).
        ret (result, if snd result \<noteq> None then removeEngine ctx engines else engines))
      else
        (case rrDataset ctx of
           Some dataset \<Rightarrow>
             andThen (reconcileBound k ctx dataset engine) (\<lambda>(result, engine). ret (result, putEngine ctx engine engines))
         | None \<Rightarrow>
             andThen (warnRuntime ctx ''ErrorProcessRuntime'' ''No dataset can be bound to the runtime, waiting.'') (\<lambda>_.
             ret (RequeueAfterInterval (5 * second), engines))))"

definition ReconcileRuntimeInternal ::
  "'s runtimeKind \<Rightarrow> runtimeRequest \<Rightarrow> 's engineCache \<Rightarrow> (reconcileResult \<times> 's engineCache) kgo" where
  "ReconcileRuntimeInternal k ctx engines =
     (let name = omName (roMeta (rrRuntime ctx)) in
      if name \<noteq> '''' \<and> rkDnsErrors k name \<noteq> [] then
        (let err = Err (''metadata.name: Invalid value: '' @ name @ '': '' @ Join CHR '','' (rkDnsErrors k name)) in
         andThen (warnRuntime ctx ''ErrorProcessRuntime'' (''Failed to create ddc engine due to error '' @ errText err)) (\<lambda>_.
         ret (RequeueIfError (Some (Wrapped ''Failed to create'' err)), engines)))
      else
        andThen (getOrCreateEngine k ctx engines) (\<lambda>(r, engines).
        case r of
          Inl err \<Rightarrow>
            andThen (warnRuntime ctx ''ErrorProcessRuntime'' (''Process Runtime error '' @ errText err)) (\<lambda>_.
            ret (RequeueIfError (Some (Wrapped ''Failed to create'' err)), engines))
        | Inr engine \<Rightarrow>
            andThen (viaOp (rkWorld k) (\<lambda>cl. GetDataset cl (rrName ctx) (rrNamespace ctx))) (\<lambda>r.
            case r of
              Inl err \<Rightarrow>
                if IsNotFound err then reconcileWithEngine k (ctx\<lparr>rrDataset := None\<rparr>) engine engines
                else ret (RequeueIfError (Some (Wrapped ''Unable to get dataset'' err)), engines)
            | Inr dataset \<Rightarrow> reconcileWithEngine k (ctx\<lparr>rrDataset := Some dataset\<rparr>) engine engines)))"

section \<open>Reconcile of the kinds\<close>

definition ReconcileRuntimeRequest ::
  "'s runtimeKind \<Rightarrow> string \<Rightarrow> string \<Rightarrow> 's engineCache \<Rightarrow> (reconcileResult \<times> 's engineCache) kgo" where
  "ReconcileRuntimeRequest k name namespace engines =
     andThen (getRuntimeObject (rkWorld k) (rkKind k) name namespace) (\<lambda>r.
     case r of
       Inl err \<Rightarrow>
         if IsNotFound err then ret (NoRequeue, engines)
         else ret (RequeueIfError (Some (Wrapped ''Unable to get ddc runtime'' err)), engines)
     | Inr runtime \<Rightarrow>
         ReconcileRuntimeInternal k
           \<lparr>rrName = name, rrNamespace = namespace, rrRuntime = runtime,
            rrEngineImpl = rkEngineImpl k (roStatus runtime),
            rrDataset = None\<rparr> engines)"

text \<open>The eight kinds. The rest of \<open>k\<close> is the environment and the engine.\<close>

definition ofKind :: "string \<Rightarrow> string \<Rightarrow> (RuntimeStatus \<Rightarrow> string) \<Rightarrow> 's runtimeKind \<Rightarrow> 's runtimeKind" where
  "ofKind kind runtimeType impl k =
     k\<lparr>rkKind := kind, rkRuntimeType := runtimeType, rkCategory := ''Accelerate'',
       rkFinalizer := runtimeType @ ''-runtime-controller-finalizer'', rkEngineImpl := impl\<rparr>"

definition inferred :: "string \<Rightarrow> RuntimeStatus \<Rightarrow> string" where
  "inferred defaultImpl status = InferEngineImpl (rsValueFileConfigmap status) defaultImpl"

type_synonym 's runtimeReconcile =
  "'s runtimeKind \<Rightarrow> string \<Rightarrow> string \<Rightarrow> 's engineCache \<Rightarrow> (reconcileResult \<times> 's engineCache) kgo"

definition AlluxioReconcile :: "'s runtimeReconcile" where
  "AlluxioReconcile k = ReconcileRuntimeRequest (ofKind ''AlluxioRuntime'' ''alluxio'' (inferred ''alluxio'') k)"

definition JuiceFSReconcile :: "'s runtimeReconcile" where
  "JuiceFSReconcile k = ReconcileRuntimeRequest (ofKind ''JuiceFSRuntime'' ''juicefs'' (inferred ''juicefs'') k)"

definition GooseFSReconcile :: "'s runtimeReconcile" where
  "GooseFSReconcile k = ReconcileRuntimeRequest (ofKind ''GooseFSRuntime'' ''goosefs'' (inferred ''goosefs'') k)"

definition EFCReconcile :: "'s runtimeReconcile" where
  "EFCReconcile k = ReconcileRuntimeRequest (ofKind ''EFCRuntime'' ''efc'' (inferred ''efc'') k)"

definition VineyardReconcile :: "'s runtimeReconcile" where
  "VineyardReconcile k = ReconcileRuntimeRequest (ofKind ''VineyardRuntime'' ''vineyard'' (inferred ''vineyard'') k)"

definition ThinReconcile :: "'s runtimeReconcile" where
  "ThinReconcile k = ReconcileRuntimeRequest (ofKind ''ThinRuntime'' ''thin'' (\<lambda>_. ''thin'') k)"

definition CacheReconcile :: "'s runtimeReconcile" where
  "CacheReconcile k = ReconcileRuntimeRequest (ofKind ''CacheRuntime'' ''cache'' (\<lambda>_. ''cache'') k)"

definition JindoReconcile :: "'s runtimeReconcile" where
  "JindoReconcile k name namespace engines h =
     ReconcileRuntimeRequest
       (ofKind ''JindoRuntime'' ''jindo'' (inferred (GetDefaultEngineImpl (kwCluster (rkWorld k) h))) k) name namespace engines h"

section \<open>Deletion\<close>

definition leavesRuntime :: "kevent \<Rightarrow> bool" where
  "leavesRuntime e \<longleftrightarrow> (\<forall>rt a. e \<noteq> WroteRuntime rt a)"

text \<open>
  The engine was shut down in the history \<open>h\<close>: its volume was deleted, then it shut down, and then the dataset of that name, as it was
  read before, was unbound unless it was not found.
\<close>

definition datasetReleased :: "string \<Rightarrow> string \<Rightarrow> kevent list \<Rightarrow> kevent list \<Rightarrow> bool" where
  "datasetReleased name namespace h es \<longleftrightarrow>
     (\<exists>err. Op (GotDataset name namespace (Inl err)) \<in> set h \<and> IsNotFound err) \<or>
     (\<exists>d. Op (GotDataset name namespace (Inr d)) \<in> set h \<and> Op (UpdatedDatasetStatus (setStatus unboundStatus d) None) \<in> set es)"

definition datasetRead :: "string \<Rightarrow> string \<Rightarrow> Dataset option \<Rightarrow> kevent list \<Rightarrow> bool" where
  "datasetRead name namespace d h \<longleftrightarrow>
     (case d of
        None \<Rightarrow> \<exists>err. Op (GotDataset name namespace (Inl err)) \<in> set h \<and> IsNotFound err
      | Some dataset \<Rightarrow> Op (GotDataset name namespace (Inr dataset)) \<in> set h)"

definition shutDown :: "'s Implement \<Rightarrow> string \<Rightarrow> string \<Rightarrow> kevent list \<Rightarrow> bool" where
  "shutDown im name namespace h \<longleftrightarrow>
     (\<exists>s s1 s2 h1 h2 h3 es. imDeleteVolume im s h1 = (Ret (None, s1), h2) \<and> imShutdown im s1 h2 = (Ret (None, s2), h3) \<and>
        h = h3 @ es \<and> datasetReleased name namespace h1 es)"

definition released :: "string \<Rightarrow> RuntimeObject \<Rightarrow> RuntimeObject" where
  "released finalizer runtime = setRuntimeMeta (\<lambda>m. m\<lparr>omFinalizers := RemoveString (omFinalizers m) finalizer\<rparr>) runtime"

definition releasedLast :: "'s runtimeKind \<Rightarrow> runtimeRequest \<Rightarrow> kevent list \<Rightarrow> kevent list \<Rightarrow> bool" where
  "releasedLast k ctx h h' \<longleftrightarrow>
     (\<exists>es. h' = h @ es \<and> (list_all leavesRuntime es \<or>
        (\<exists>es1 a. es = es1 @ [WroteRuntime (released (rkFinalizer k) (rrRuntime ctx)) a] \<and> list_all leavesRuntime es1 \<and>
           shutDown (rkImplement k) (rrName ctx) (rrNamespace ctx) (h @ es1))))"

lemma releasedLast_refl [simp]: "releasedLast k ctx h h"
  by (simp add: releasedLast_def)

lemma releasedLast_trans:
  "list_all leavesRuntime es \<Longrightarrow> releasedLast k ctx (h @ es) h' \<Longrightarrow> releasedLast k ctx h h'"
  unfolding releasedLast_def by (fastforce simp: list_all_append)

lemma releasedLast_quiet: "list_all leavesRuntime es \<Longrightarrow> releasedLast k ctx h (h @ es)"
  by (auto simp: releasedLast_def)

lemma wp_emits_run: "emits P m \<Longrightarrow> wp m (\<lambda>r h'. m h = (r, h') \<and> (\<exists>es. h' = h @ es \<and> list_all P es)) h"
  by (rule wp_intro) (blast dest: emits_run)

lemma leaves_simps [simp]:
  "leavesRuntime (Op e)" "leavesRuntime (ForgotMetrics a b)" "\<not> leavesRuntime (WroteRuntime rt r)"
  by (auto simp: leavesRuntime_def)

lemma datasetRead_end:
  "Op (GotDataset name namespace (Inr d)) \<in> set h \<Longrightarrow> datasetRead name namespace (Some d) h"
  "Op (GotDataset name namespace (Inl err)) \<in> set h \<Longrightarrow> IsNotFound err \<Longrightarrow> datasetRead name namespace None h"
  by (auto simp: datasetRead_def)

text \<open>What the reconciliation of a deletion relies on: only the controller writes the runtime object.\<close>

locale deletable_engine =
  fixes k :: "'s runtimeKind"
  assumes quiet_build: "emits leavesRuntime (rkBuild k eid name namespace impl runtime)"
    and quiet_delete: "emits leavesRuntime (imDeleteVolume (rkImplement k) s)"
    and quiet_shutdown: "emits leavesRuntime (imShutdown (rkImplement k) s)"
begin

lemma drop_last:
  assumes "shutDown (rkImplement k) (rrName ctx) (rrNamespace ctx) h"
  shows "wp (dropFinalizer k ctx) (\<lambda>_ h'. releasedLast k ctx h h') h"
  using assms unfolding dropFinalizer_def updateRuntime_def released_def [symmetric]
  by (auto simp: wp_rules releasedLast_def)

lemma unbind_drop:
  assumes "imDeleteVolume (rkImplement k) s h1 = (Ret (None, s1), h2)"
    and "imShutdown (rkImplement k) s1 h2 = (Ret (None, s2), h3)"
    and "datasetRead (rrName ctx) (rrNamespace ctx) (rrDataset ctx) h1"
  shows "wp (andThen (unbindDataset k ctx) (\<lambda>err.
      andThen (if err \<noteq> None then ret (RequeueIfError err) else dropFinalizer k ctx) (\<lambda>result.
      ret (result, removeEngine ctx engines)))) (\<lambda>_ h'. releasedLast k ctx h3 h') (h3 @ [ForgotMetrics a b])"
proof (cases "rrDataset ctx")
  case None
  with assms have "shutDown (rkImplement k) (rrName ctx) (rrNamespace ctx) (h3 @ [ForgotMetrics a b])"
    by (fastforce simp: shutDown_def datasetReleased_def datasetRead_def)
  from drop_last [OF this] show ?thesis
    by (auto simp: unbindDataset_def None wp_rules elim!: wp_mono
        intro: releasedLast_trans [where es = "[ForgotMetrics a b]"] split: out.splits)
next
  case (Some dataset)
  let ?d = "setStatus unboundStatus dataset"
  have "shutDown (rkImplement k) (rrName ctx) (rrNamespace ctx) (h3 @ [ForgotMetrics a b, Op (UpdatedDatasetStatus ?d None)])"
    using assms Some by (fastforce simp: shutDown_def datasetReleased_def datasetRead_def)
  from drop_last [OF this] show ?thesis
    unfolding unbindDataset_def Some option.case updateDatasetStatus_def
    by (auto simp: wp_rules Let_def RequeueIfError_def elim!: wp_mono
        intro: releasedLast_trans [where es = "[ForgotMetrics a b, Op (UpdatedDatasetStatus ?d None)]"]
          releasedLast_quiet split: out.splits)
qed

lemma deletion_last:
  assumes "datasetRead (rrName ctx) (rrNamespace ctx) (rrDataset ctx) h"
  shows "wp (ReconcileRuntimeDeletion k ctx engine engines) (\<lambda>_ h'. releasedLast k ctx h h') h"
proof -
  obtain t s where engine: "engine = (t, s)" by (cases engine)
  have shut: "wp (andThen (imShutdown (rkImplement k) s1) (\<lambda>(err, s).
      case err of
        Some e \<Rightarrow>
          andThen (warnRuntime ctx ''ErrorProcessRuntime'' (''Failed to shutdown engine '' @ errText e)) (\<lambda>_.
          ret (RequeueAfterInterval (20 * second), putEngine ctx (t, s) engines))
      | None \<Rightarrow>
          andThen (emit (ForgotMetrics (rrNamespace ctx) (rrName ctx))) (\<lambda>_.
          andThen (unbindDataset k ctx) (\<lambda>err.
          andThen (if err \<noteq> None then ret (RequeueIfError err) else dropFinalizer k ctx) (\<lambda>result.
          ret (result, removeEngine ctx engines)))))) (\<lambda>_ h'. releasedLast k ctx h h') h2"
    if run: "imDeleteVolume (rkImplement k) s h = (Ret (None, s1), h2)" and h2: "h2 = h @ es" "list_all leavesRuntime es"
    for s1 h2 es
    unfolding wp_andThen [of "imShutdown _ _"]
  proof (rule wp_mono [OF wp_emits_run [OF quiet_shutdown]], elim conjE exE, goal_cases)
    case (1 r h3 es3)
    have trans: "releasedLast k ctx h3 h' \<Longrightarrow> releasedLast k ctx h h'" for h'
      using 1 h2 by (auto intro: releasedLast_trans [where es = "es @ es3"])
    show ?case
    proof (cases r)
      case (Ret a)
      then obtain err s2 where a: "a = (err, s2)" by (cases a)
      show ?thesis
      proof (cases err)
        case None
        with 1 Ret a have "imShutdown (rkImplement k) s1 h2 = (Ret (None, s2), h3)" by simp
        from wp_mono [OF unbind_drop [OF run this assms] trans] show ?thesis
          by (simp add: Ret a None wp_emit wp_andThen [of "emit _"] del: not_None_eq)
      next
        case (Some e)
        with 1 h2 show ?thesis
          by (auto simp: Ret a wp_rules RequeueAfterInterval_def intro!: trans releasedLast_quiet)
      qed
    next
      case (Panic msg)
      with 1 h2 show ?thesis by (auto intro!: trans)
    qed
  qed
  show ?thesis
    unfolding ReconcileRuntimeDeletion_def engine prod.case wp_andThen [of "imDeleteVolume _ _"]
    by (rule wp_mono [OF wp_emits_run [OF quiet_delete]])
       (auto simp: wp_andThen [of "emit _"] wp_emit wp_ret RequeueAfterInterval_def split: out.splits option.splits
          intro!: releasedLast_quiet shut)
qed

lemma reconcile_last:
  assumes "omDeletionTimestamp (roMeta (rrRuntime ctx)) \<noteq> None"
  shows "wp (ReconcileRuntimeInternal k ctx engines) (\<lambda>_ h'. releasedLast k ctx h h') h"
proof -
  have engine: "wp (reconcileWithEngine k (ctx\<lparr>rrDataset := d\<rparr>) engine engines) (\<lambda>_ h'. releasedLast k ctx h h') (h @ es)"
    if "list_all leavesRuntime es" "datasetRead (rrName ctx) (rrNamespace ctx) d (h @ es)"
    for d engine engines es
  proof -
    have "wp (ReconcileRuntimeDeletion k (ctx\<lparr>rrDataset := d\<rparr>) engine engines)
        (\<lambda>_ h'. releasedLast k (ctx\<lparr>rrDataset := d\<rparr>) (h @ es) h') (h @ es)"
      using that(2) by (intro deletion_last) simp
    then have "wp (ReconcileRuntimeDeletion k (ctx\<lparr>rrDataset := d\<rparr>) engine engines) (\<lambda>_ h'. releasedLast k ctx h h') (h @ es)"
      by (rule wp_mono) (use that(1) in \<open>auto simp: releasedLast_def [of k "ctx\<lparr>rrDataset := d\<rparr>"] releasedLast_def [of k ctx "h @ es"]
        intro: releasedLast_trans\<close>)
    with assms show ?thesis
      unfolding reconcileWithEngine_def by (auto simp: wp_rules elim!: wp_mono split: out.splits)
  qed
  have found: "wp (getOrCreateEngine k ctx engines) (\<lambda>r h'. \<exists>es. h' = h @ es \<and> list_all leavesRuntime es) h"
    unfolding getOrCreateEngine_def by (rule wp_emits) (auto intro!: emits_rules quiet_build)
  show ?thesis
  proof (cases "omName (roMeta (rrRuntime ctx)) \<noteq> '''' \<and> rkDnsErrors k (omName (roMeta (rrRuntime ctx))) \<noteq> []")
    case True
    then show ?thesis
      unfolding ReconcileRuntimeInternal_def Let_def by (auto simp: wp_rules RequeueIfError_def intro!: releasedLast_quiet)
  next
    case False
    then show ?thesis
      unfolding ReconcileRuntimeInternal_def Let_def if_not_P [OF False] wp_andThen [of "getOrCreateEngine _ _ _"] GetDataset_def
      by (intro wp_mono [OF found])
         (auto simp: wp_rules Let_def RequeueIfError_def split: out.splits sum.splits
            intro!: releasedLast_quiet engine datasetRead_end)
  qed
qed

end

section \<open>The interval between reconciliations\<close>

text \<open>What an environment variable sets, and how far the interval may be off the duration.\<close>

definition envNumber :: "world \<Rightarrow> string \<Rightarrow> int option" where
  "envNumber w key = Atoi (case kwLookupEnv w key of Some value \<Rightarrow> value | None \<Rightarrow> '''')"

definition requeueSpread :: "world \<Rightarrow> int \<Rightarrow> int" where
  "requeueSpread w duration =
     (case envNumber w ''FLUID_RUNTIME_RECONCILE_DURATION_OFFSET'' of
        Some offset \<Rightarrow> if 0 \<le> offset \<and> offset \<le> duration then offset else 0
      | None \<Rightarrow> 0)"

text \<open>
  A runtime is reconciled again after 90 seconds if the environment does not set a duration, never on its own if it sets -1, and otherwise after an interval that differs from the duration by at most the offset that the environment sets (when the offset is between zero and the duration; exactly the duration otherwise), which is not negative for a duration that is not negative, for every random source that draws below its bound.
\<close>

theorem requeue_interval_bounds:
  assumes "\<And>n. 0 < n \<Longrightarrow> 0 \<le> kwRandom w h n \<and> kwRandom w h n < n"
    and "GenerateRandomRequeueDurationFromEnv w h = (needed, interval)"
  shows "case envNumber w ''FLUID_RUNTIME_RECONCILE_DURATION'' of
      None \<Rightarrow> needed \<and> interval = 90 * second
    | Some duration \<Rightarrow>
        needed = (duration \<noteq> -1) \<and>
        (needed \<longrightarrow> \<bar>interval - duration * second\<bar> \<le> requeueSpread w duration * second \<and> (0 \<le> duration \<longrightarrow> 0 \<le> interval))"
proof (cases "envNumber w ''FLUID_RUNTIME_RECONCILE_DURATION''")
  case None
  with assms(2) show ?thesis
    by (simp add: GenerateRandomRequeueDurationFromEnv_def envNumber_def)
next
  case (Some duration)
  show ?thesis
  proof (cases "envNumber w ''FLUID_RUNTIME_RECONCILE_DURATION_OFFSET''")
    case None
    with Some assms(2) show ?thesis
      by (auto simp: GenerateRandomRequeueDurationFromEnv_def envNumber_def requeueSpread_def split: if_splits)
  next
    case offset: (Some offset)
    then show ?thesis
      using Some assms(2) assms(1) [of "2 * offset + 1"]
      by (auto simp: GenerateRandomRequeueDurationFromEnv_def envNumber_def requeueSpread_def abs_le_iff algebra_simps
        split: if_splits)
  qed
qed

definition clockWorld :: world where
  "clockWorld = downWorld
     \<lparr>kwLookupEnv := \<lambda>key. if key = ''FLUID_RUNTIME_RECONCILE_DURATION'' then Some ''60''
        else if key = ''FLUID_RUNTIME_RECONCILE_DURATION_OFFSET'' then Some ''10'' else None,
      kwRandom := \<lambda>_ n. n - 1\<rparr>"

theorem requeue_interval_bounds_witness:
  "GenerateRandomRequeueDurationFromEnv clockWorld [] = (True, 70 * second) \<and> requeueSpread clockWorld 60 = 10 \<and>
   \<bar>70 * second - 60 * second\<bar> \<le> requeueSpread clockWorld 60 * second"
proof -
  have env: "envNumber clockWorld ''FLUID_RUNTIME_RECONCILE_DURATION'' = Some 60"
    "envNumber clockWorld ''FLUID_RUNTIME_RECONCILE_DURATION_OFFSET'' = Some 10"
    unfolding envNumber_def clockWorld_def by (simp_all, code_simp+)
  then have run: "GenerateRandomRequeueDurationFromEnv clockWorld [] = (True, 70 * second)"
    by (simp add: GenerateRandomRequeueDurationFromEnv_def envNumber_def clockWorld_def)
  have "\<And>n. 0 < n \<Longrightarrow> 0 \<le> kwRandom clockWorld [] n \<and> kwRandom clockWorld [] n < n"
    by (simp add: clockWorld_def)
  from requeue_interval_bounds [OF this run] env run show ?thesis
    by (simp add: requeueSpread_def)
qed

end
