(* ===== verification/Alluxio_Runtime.thy ===== *)
theory Alluxio_Runtime
  imports Alluxio_Binding Runtime_Controller
begin

text \<open>
  The runtime controller over the Alluxio engine: the interpretation of \<open>deletable_engine\<close> and what the reconciliation of
  a deleted runtime guarantees.
\<close>

section \<open>The kind of runtime\<close>

text \<open>
  \<open>CreateEngine\<close> looks the implementation up by its name. The other implementations refuse a runtime of another kind.
  \<open>parseDuration\<close> is \<open>time.ParseDuration\<close> and \<open>dnsErrors\<close> is \<open>validation.IsDNS1035Label\<close>.
\<close>

definition alluxioBuild ::
  "engineEnv \<Rightarrow> (string \<Rightarrow> int option) \<Rightarrow> string \<Rightarrow> string \<Rightarrow> string \<Rightarrow> string \<Rightarrow> RuntimeObject \<Rightarrow>
   (goerr + TemplateEngine \<times> AlluxioEngine) kgo" where
  "alluxioBuild v parseDuration eid name namespace impl runtime =
     (if impl = ''alluxio'' then Alluxio_Engine.Build v parseDuration eid name namespace ''alluxio'' impl (Some runtime)
      else ret (Inl (Err (''engine '' @ name @ '' is failed to parse''))))"

definition alluxioKind ::
  "engineEnv \<Rightarrow> (string \<Rightarrow> int option) \<Rightarrow> (string \<Rightarrow> string list) \<Rightarrow> AlluxioEngine runtimeKind" where
  "alluxioKind v parseDuration dnsErrors =
     ofKind ''AlluxioRuntime'' ''alluxio'' (inferred ''alluxio'')
       \<lparr>rkWorld = eeWorld v, rkKind = '''', rkRuntimeType = '''', rkCategory = '''', rkFinalizer = '''',
        rkEngineImpl = (\<lambda>_. ''''), rkDnsErrors = dnsErrors, rkImplement = alluxioImplement v,
        rkBuild = alluxioBuild v parseDuration\<rparr>"

lemma alluxioKind_simps [simp]:
  "rkWorld (alluxioKind v p d) = eeWorld v" "rkImplement (alluxioKind v p d) = alluxioImplement v"
  "rkBuild (alluxioKind v p d) = alluxioBuild v p" "rkFinalizer (alluxioKind v p d) = ''alluxio-runtime-controller-finalizer''"
  "rkDnsErrors (alluxioKind v p d) = d"
  by (simp_all add: alluxioKind_def ofKind_def)

lemma alluxioImplement_simps [simp]:
  "imDeleteVolume (alluxioImplement v) = DeleteVolume v" "imShutdown (alluxioImplement v) = Shutdown v"
  by (simp_all add: alluxioImplement_def)

section \<open>Only the controller writes the runtime\<close>

lemma leaves_events [simp]:
  "leavesRuntime (ReadRuntime a b c r)" "leavesRuntime (ReadClaim a b r1)" "leavesRuntime (WroteClaim c1 r2)"
  "leavesRuntime (DeletedClaim a b r2)" "leavesRuntime (ReadVolume a r3)" "leavesRuntime (DeletedVolume a r2)"
  "leavesRuntime (ListedPods a b r4)" "leavesRuntime (Executed a b c cs r5)" "leavesRuntime (ListedNodes a b r6)"
  "leavesRuntime (ReadNode a r7)" "leavesRuntime (PatchedNode a ls r2)" "leavesRuntime (ReadConfigMap a b r8)"
  "leavesRuntime (DeletedConfigMap a b r2)" "leavesRuntime (ReleasedPorts ps)"
  by (auto simp: leavesRuntime_def)

lemma leaves_viaOp [emits_rules]: "(\<And>cl. emits (\<lambda>_. True) (m cl)) \<Longrightarrow> emits leavesRuntime (viaOp w m)"
  by (rule emits_viaOp) simp

lemma leaves_info: "emits leavesRuntime (getRuntimeInfo v e)"
  unfolding getRuntimeInfo_def buildInfo_def ownerInfo_def placementInfo_def getRuntime_def getRuntimeObject_def GetDataset_def
    Let_def
  by (auto intro!: emits_rules)

lemma leaves_build: "emits leavesRuntime (alluxioBuild v p eid name namespace impl runtime)"
  unfolding alluxioBuild_def Alluxio_Engine.Build_def Let_def NewTemplateEngine_def now_def
  by (auto intro!: emits_rules leaves_info)

lemma leaves_exec: "emits leavesRuntime (exec w a command)"
  unfolding exec_def by (auto intro!: emits_rules)

lemma leaves_metrics: "emits leavesRuntime (metricLines f ls acc)"
  by (induction ls arbitrary: acc) (auto simp: Let_def intro!: emits_rules split: option.split)

lemma leaves_query: "emits leavesRuntime (queryCacheStatus v e)"
  unfolding queryCacheStatus_def ReportSummary_def GetCacheHitStates_def ReportMetrics_def ParseReportMetric_def Let_def
    GetDataset_def now_def
  by (auto intro!: emits_rules leaves_exec leaves_metrics)

lemma leaves_clean: "emits leavesRuntime (cleanupCache v e)"
  unfolding cleanupCache_def invokeCleanCache_def getCleanCacheGracePeriodSeconds_def CleanCache_def runs_def GetStatefulSet_def
    getRuntime_def getRuntimeObject_def
  by (auto intro!: emits_rules leaves_exec leaves_query)

lemma leaves_nodes:
  "emits leavesRuntime (tearDownNodes w info nodes)" "emits leavesRuntime (cleanFuseLabels w labels nodes n)"
proof -
  have patch: "emits leavesRuntime (ChangeNodeLabelWithPatchMode w node labels)" for node labels
    unfolding ChangeNodeLabelWithPatchMode_def PatchLabels_def by (auto intro!: emits_rules)
  then show "emits leavesRuntime (tearDownNodes w info nodes)"
    by (induction nodes) (auto simp: tearDownOnce_def GetNode_def intro!: emits_rules)
  from patch show "emits leavesRuntime (cleanFuseLabels w labels nodes n)"
    by (induction nodes arbitrary: n) (auto intro!: emits_rules)
qed

lemma leaves_claims:
  "emits leavesRuntime (IsPersistentVolumeClaimExist w n ns as)" "emits leavesRuntime (IsPersistentVolumeExist w n as)"
  "emits leavesRuntime (DeletePersistentVolumeClaim w n ns)" "emits leavesRuntime (DeletePersistentVolume w n)"
  "emits leavesRuntime (GetPvcMountPods w n ns)"
  unfolding IsPersistentVolumeClaimExist_def IsPersistentVolumeExist_def DeletePersistentVolumeClaim_def DeletePersistentVolume_def
    GetPvcMountPods_def GetPersistentVolumeClaim_def GetPersistentVolume_def
  by (auto intro!: emits_rules)

lemma leaves_pollFailure: "emits leavesRuntime (pollFailure w msg err)"
  by (simp add: emits_def pollFailure_def ret_def)

lemma leaves_claimGone: "emits leavesRuntime (claimGone w n ns)"
  unfolding claimGone_def ShouldRemoveProtectionFinalizer_def RemoveProtectionFinalizer_def now_def
    GetPersistentVolumeClaim_def Let_def
  by (auto intro!: emits_rules leaves_claims)

lemma leaves_volume: "emits leavesRuntime (deleteFusePersistentVolumeIfExists w n)"
  unfolding deleteFusePersistentVolumeIfExists_def
  by (auto intro!: emits_rules leaves_claims leaves_pollFailure)

lemma leaves_helm:
  "emits leavesRuntime (viaOp w (\<lambda>cl. CheckRelease cl n ns))" "emits leavesRuntime (viaOp w (\<lambda>cl. DeleteRelease cl n ns))"
  by (auto intro!: emits_rules emits_helm)

lemma leaves_destroy: "emits leavesRuntime (destroyAll v e)"
  unfolding destroyAll_def destroyWorkers_def TearDownWorkers_def destroyMaster_def getRuntime_def getRuntimeObject_def releasePorts_def
    cleanAll_def CleanUpFuse_def Let_def
  by (auto simp: DeleteConfigMap_def intro!: emits_rules leaves_info leaves_nodes leaves_helm)

lemma leaves_shutdown: "emits leavesRuntime (Shutdown v e)"
  unfolding Shutdown_def cleanupLimited_def getGracefulShutdownLimits_def getRuntime_def getRuntimeObject_def
  by (auto intro!: emits_rules leaves_clean leaves_destroy)

lemma leaves_delete: "emits leavesRuntime (DeleteVolume v e)"
  unfolding DeleteVolume_def withRuntime_def getRuntime_def getRuntimeObject_def deleteFusePersistentVolumeClaim_def
    deleteFusePersistentVolume_def withInfo_def DeleteFusePersistentVolumeClaim_def DeleteFusePersistentVolume_def
  by (auto intro!: emits_rules leaves_info leaves_claims leaves_pollFailure leaves_claimGone leaves_volume)


interpretation alluxio_runtime: deletable_engine "alluxioKind v p d" for v p d
  by unfold_locales (simp_all add: leaves_build leaves_delete leaves_shutdown)

text \<open>
  C3. A reconciliation of an Alluxio runtime that is being deleted writes the runtime object at most once and as its last action, to remove the finalizer; before that, in this order, the volume was deleted without error, the engine was shut down without error, and the dataset with the name and namespace of the request, as it was read before, was set to unbound, unless it was not found.
\<close>

theorem runtime_released_last:
  assumes "ReconcileRuntimeInternal (alluxioKind v p d) ctx engines h = (r, h')"
    and "omDeletionTimestamp (roMeta (rrRuntime ctx)) \<noteq> None" and "h' = h @ es1 @ WroteRuntime rt a # es2"
  shows "rt = released ''alluxio-runtime-controller-finalizer'' (rrRuntime ctx) \<and> es2 = [] \<and>
    (\<exists>e e1 e2 h1 h2 h3 es. DeleteVolume v e h1 = (Ret (None, e1), h2) \<and> Shutdown v e1 h2 = (Ret (None, e2), h3) \<and>
       h @ es1 = h3 @ es \<and> datasetReleased (rrName ctx) (rrNamespace ctx) h1 es)"
proof -
  have "wp (ReconcileRuntimeInternal (alluxioKind v p d) ctx engines) (\<lambda>_ h'. releasedLast (alluxioKind v p d) ctx h h') h"
    by (rule alluxio_runtime.reconcile_last [OF assms(2)])
  with assms(1) have "releasedLast (alluxioKind v p d) ctx h h'" by (simp add: wp_def)
  with assms(3) show ?thesis
    unfolding releasedLast_def shutDown_def alluxioKind_simps alluxioImplement_simps
    by (fastforce simp: append_eq_append_conv2 Cons_eq_append_conv append_eq_Cons_conv list_all_append)
qed

definition endCluster :: cluster where
  "endCluster = downCluster\<lparr>clGetDataset := \<lambda>_ _ _. Inl (NotFound ''dataset''), clLookPath := \<lambda>_. Some ''/bin/ddc-helm'',
     clRunHelm := \<lambda>_ _. ProcExit 1 ''not found''\<rparr>"

definition endWorld :: world where
  "endWorld = downWorld
     \<lparr>kwCluster := \<lambda>_. endCluster, kwGetRuntime := \<lambda>_ _ _ _. Inr exampleRuntime, kwUpdateRuntime := \<lambda>_ _. Inr 2,
      kwGetClaim := \<lambda>_ _ _. Inl (NotFound ''claim''), kwGetVolume := \<lambda>_ _. Inl (NotFound ''volume''),
      kwGetConfigMap := \<lambda>_ _ _. Inl (NotFound ''map''), kwListNodes := \<lambda>_ _ _. Inr []\<rparr>"

definition endEnv :: engineEnv where
  "endEnv = readyEnv\<lparr>eeWorld := endWorld\<rparr>"

definition endEngine :: AlluxioEngine where
  "endEngine = readyEngine\<lparr>aeRetryShutdown := 3, aeRuntimeInfo := Some exampleInfo\<rparr>"

definition endRequest :: runtimeRequest where
  "endRequest =
     \<lparr>rrName = ''demo'', rrNamespace = ''default'',
      rrRuntime = exampleRuntime\<lparr>roMeta := (roMeta exampleRuntime)\<lparr>omDeletionTimestamp := Some 5,
        omFinalizers := [''alluxio-runtime-controller-finalizer'']\<rparr>\<rparr>,
      rrEngineImpl = ''alluxio'', rrDataset = None\<rparr>"

definition endTemplate :: TemplateEngine where
  "endTemplate = \<lparr>teId = ''default-demo'', teName = ''demo'', teNamespace = ''default'', teSyncRetryDuration = 5, teTimeOfLastSync = 0\<rparr>"

lemma end_simps [simp]:
  "eeWorld endEnv = endWorld" "kwCluster endWorld h = endCluster" "kwGetRuntime endWorld h a b c = Inr exampleRuntime"
  "kwUpdateRuntime endWorld h rt = Inr 2" "kwGetClaim endWorld h a b = Inl (NotFound ''claim'')"
  "kwGetVolume endWorld h a = Inl (NotFound ''volume'')" "kwGetConfigMap endWorld h a b = Inl (NotFound ''map'')"
  "kwListNodes endWorld h a b = Inr []" "kwLookupEnv endWorld x = None" "kwBadSelector endWorld x = None"
  "clGetDataset endCluster oh a b = Inl (NotFound ''dataset'')" "clLookPath endCluster = (\<lambda>_. Some ''/bin/ddc-helm'')"
  "clRunHelm endCluster oh cmd = ProcExit 1 ''not found''"
  by (simp_all add: endEnv_def endWorld_def endCluster_def downWorld_def)

lemma endEngine_simps [simp]:
  "aeName endEngine = ''demo''" "aeNamespace endEngine = ''default''" "aeRuntime endEngine = Some readyRuntime"
  "aeRetryShutdown endEngine = 3" "aeRuntimeInfo endEngine = Some exampleInfo"
  by (simp_all add: endEngine_def)

lemma end_info: "wp (getRuntimeInfo endEnv endEngine) Q h = Q (Ret (Inr exampleInfo, endEngine)) (h @ [Op (GotDataset ''demo'' ''default'' (Inl (NotFound ''dataset'')))])"
  unfolding getRuntimeInfo_def buildInfo_def ownerInfo_def placementInfo_def GetDataset_def
  by (simp add: wp_rules Let_def exampleInfo_def IsPlacementModeSet_def)

lemma end_delete: "wp (DeleteVolume endEnv endEngine) (\<lambda>r h'. r = Ret (None, endEngine) \<and> (\<exists>es. h' = h @ es)) h"
  unfolding DeleteVolume_def withRuntime_def deleteFusePersistentVolumeClaim_def deleteFusePersistentVolume_def withInfo_def
    DeleteFusePersistentVolumeClaim_def DeleteFusePersistentVolume_def deleteFusePersistentVolumeIfExists_def
    IsPersistentVolumeClaimExist_def IsPersistentVolumeExist_def GetPersistentVolumeClaim_def GetPersistentVolume_def
  by (simp add: wp_rules end_info Let_def)

lemma end_guard:
  "ValidateCommandSlice (\<lambda>_. Some ''/bin/ddc-helm'') [''ddc-helm'', ''status'', ''demo'', ''-n'', ''default'', ''--revision'', ''1''] = None"
  by code_simp

lemma end_shutdown: "wp (Shutdown endEnv endEngine) (\<lambda>r h'. r = Ret (None, endEngine) \<and> (\<exists>es. h' = h @ es)) h"
  unfolding Shutdown_def cleanupLimited_def getGracefulShutdownLimits_def getRuntime_def getRuntimeObject_def destroyAll_def
    destroyWorkers_def destroyMaster_def TearDownWorkers_def CheckRelease_def runCommand_def cleanAll_def CleanUpFuse_def
  by (simp add: wp_rules wp_viaOp end_info end_guard Let_def exampleRuntime_def DeleteConfigMap_def)

theorem runtime_released_last_witness:
  "\<exists>es1 a e e1 e2 h1 h2 h3 es. snd (ReconcileRuntimeInternal (alluxioKind endEnv (\<lambda>_. None) (\<lambda>_. [])) endRequest
        [(''default-demo'', endTemplate, endEngine)] []) =
      es1 @ [WroteRuntime (released ''alluxio-runtime-controller-finalizer'' (rrRuntime endRequest)) a] \<and>
    DeleteVolume endEnv e h1 = (Ret (None, e1), h2) \<and> Shutdown endEnv e1 h2 = (Ret (None, e2), h3) \<and> es1 = h3 @ es \<and>
    datasetReleased ''demo'' ''default'' h1 es"
proof -
  let ?m = "ReconcileRuntimeInternal (alluxioKind endEnv (\<lambda>_. None) (\<lambda>_. [])) endRequest [(''default-demo'', endTemplate, endEngine)]"
  have "wp ?m (\<lambda>r h'. \<exists>es1 rt a. h' = es1 @ [WroteRuntime rt a]) []"
    unfolding ReconcileRuntimeInternal_def getOrCreateEngine_def reconcileWithEngine_def ReconcileRuntimeDeletion_def
      unbindDataset_def dropFinalizer_def updateRuntime_def GetDataset_def endRequest_def GenerateEngineID_def
    by (auto simp: wp_rules Let_def intro!: wp_mono [OF end_delete] wp_mono [OF end_shutdown])
  then obtain es1 rt a where run: "snd (?m []) = es1 @ [WroteRuntime rt a]"
    by (auto simp: wp_def split: prod.splits)
  from runtime_released_last [of endEnv _ _ endRequest _ "[]" "fst (?m [])" "snd (?m [])" es1 rt a "[]"] run
  show ?thesis
    by (auto simp: endRequest_def)
qed

section \<open>A deletion gives up cleaning\<close>

abbreviation retryIs :: "int \<Rightarrow> 'a \<times> AlluxioEngine \<Rightarrow> bool" where
  "retryIs n r \<equiv> aeRetryShutdown (snd r) = n"

lemma parts_keep_retry:
  "aeRetryShutdown e = n \<Longrightarrow> yields (retryIs n) (buildInfo v e)"
  "aeRetryShutdown e = n \<Longrightarrow> yields (retryIs n) (ownerInfo v e info)"
  "aeRetryShutdown e = n \<Longrightarrow> yields (retryIs n) (placementInfo v e info)"
  unfolding buildInfo_def ownerInfo_def placementInfo_def Let_def by (auto intro!: yields_rules)

lemma info_keeps_retry: "aeRetryShutdown e = n \<Longrightarrow> yields (retryIs n) (getRuntimeInfo v e)"
  unfolding getRuntimeInfo_def
  by (rule yields_andThen [OF parts_keep_retry(1)])
     (auto intro!: yields_if yields_sum yields_ret yields_andThen [OF parts_keep_retry(2)] parts_keep_retry(3) split: prod.splits)

lemma withInfo_keeps_retry: "aeRetryShutdown e = n \<Longrightarrow> yields (retryIs n) (withInfo v act e)"
  unfolding withInfo_def by (rule yields_andThen [OF info_keeps_retry]) (auto intro!: yields_rules)

lemma volume_keeps_retry:
  "aeRetryShutdown e = n \<Longrightarrow> yields (retryIs n)
     (andThen (deleteFusePersistentVolumeClaim v e) (\<lambda>(err, e).
        if err \<noteq> None then ret (err, e) else deleteFusePersistentVolume v e))"
  unfolding deleteFusePersistentVolumeClaim_def deleteFusePersistentVolume_def
  by (rule yields_andThen [OF withInfo_keeps_retry])
     (auto simp del: not_None_eq intro!: yields_if yields_ret withInfo_keeps_retry split: prod.splits)

lemma delete_keeps_retry: "yields (retryIs (aeRetryShutdown e)) (DeleteVolume v e)"
  unfolding DeleteVolume_def withRuntime_def
  by (auto simp del: not_None_eq intro!: yields_option yields_sum yields_ret volume_keeps_retry
      yields_then [of _ _ "getRuntime _ _"])

text \<open>
  One reconciliation of a deleted runtime in which the volume is deleted and the cleanup of the shutdown fails, with the
  limit that it reads.
\<close>

definition cleanupFails ::
  "engineEnv \<Rightarrow> int \<Rightarrow> runtimeRequest \<Rightarrow> AlluxioEngine engineCache \<Rightarrow> kevent list \<Rightarrow> bool" where
  "cleanupFails v limit ctx engines h \<longleftrightarrow>
     (\<exists>t e answer e1 h1 err e2 h2. map_of engines (requestId ctx) = Some (t, e) \<and>
        (case answer of Inl err \<Rightarrow> IsNotFound err | Inr _ \<Rightarrow> True) \<and>
        viaOp (eeWorld v) (\<lambda>cl. GetDataset cl (rrName ctx) (rrNamespace ctx)) h =
          (Ret answer, h @ [Op (GotDataset (rrName ctx) (rrNamespace ctx) answer)]) \<and>
        DeleteVolume v e (h @ [Op (GotDataset (rrName ctx) (rrNamespace ctx) answer)]) = (Ret (None, e1), h1) \<and>
        limitAt v e1 h1 = Some limit \<and> cleanupLimited v e1 h1 = (Ret (Some err, e2), h2))"

inductive failedDeletions ::
  "engineEnv \<Rightarrow> AlluxioEngine runtimeKind \<Rightarrow> runtimeRequest \<Rightarrow> int \<Rightarrow> nat \<Rightarrow> AlluxioEngine engineCache \<Rightarrow> AlluxioEngine engineCache \<Rightarrow> bool"
  for v k ctx limit where
  none: "failedDeletions v k ctx limit 0 engines engines"
| more: "failedDeletions v k ctx limit n engines engines1 \<Longrightarrow> cleanupFails v limit ctx engines1 h \<Longrightarrow>
    ReconcileRuntimeInternal k ctx engines1 h = (Ret (result, engines2), h') \<Longrightarrow>
    failedDeletions v k ctx limit (Suc n) engines engines2"

definition retries :: "runtimeRequest \<Rightarrow> AlluxioEngine engineCache \<Rightarrow> int option" where
  "retries ctx engines = map_option (\<lambda>(t, e). aeRetryShutdown e) (map_of engines (requestId ctx))"

lemma shutdown_fails:
  "cleanupLimited v e h = (Ret (Some err, e1), h1) \<Longrightarrow> Shutdown v e h = (Ret (Some err, e1), h1)"
  by (simp add: Shutdown_def andThen_def ret_def)

lemma failing_reconcile:
  assumes "cleanupFails v limit ctx engines h" and "omDeletionTimestamp (roMeta (rrRuntime ctx)) \<noteq> None"
    and "d (omName (roMeta (rrRuntime ctx))) = []"
  shows "\<exists>n engines' h'. ReconcileRuntimeInternal (alluxioKind v p d) ctx engines h = (Ret (RequeueAfterInterval (20 * second), engines'), h') \<and>
    retries ctx engines = Some n \<and> retries ctx engines' = Some (n + 1) \<and> n < limit"
proof -
  obtain t e answer e1 h1 err e2 h2 where cached: "map_of engines (requestId ctx) = Some (t, e)"
    and answer: "case answer of Inl err \<Rightarrow> IsNotFound err | Inr _ \<Rightarrow> True"
    and dataset: "viaOp (eeWorld v) (\<lambda>cl. GetDataset cl (rrName ctx) (rrNamespace ctx)) h =
          (Ret answer, h @ [Op (GotDataset (rrName ctx) (rrNamespace ctx) answer)])"
    and volume: "DeleteVolume v e (h @ [Op (GotDataset (rrName ctx) (rrNamespace ctx) answer)]) = (Ret (None, e1), h1)"
    and limit: "limitAt v e1 h1 = Some limit" and cleanup: "cleanupLimited v e1 h1 = (Ret (Some err, e2), h2)"
    using assms(1) unfolding cleanupFails_def by blast
  have "aeRetryShutdown e1 = aeRetryShutdown e"
    using delete_keeps_retry [of e v] volume unfolding yields_def by (metis fst_conv snd_conv)
  with failed_cleanup [OF limit cleanup] have n: "aeRetryShutdown e < limit" "aeRetryShutdown e2 = aeRetryShutdown e + 1" by auto
  have engine: "\<exists>h'. reconcileWithEngine (alluxioKind v p d) (ctx\<lparr>rrDataset := x\<rparr>) (t, e) engines
      (h @ [Op (GotDataset (rrName ctx) (rrNamespace ctx) answer)]) =
      (Ret (RequeueAfterInterval (20 * second), putEngine ctx (t, e2) engines), h')" for x
    using assms(2) volume shutdown_fails [OF cleanup]
    by (simp add: reconcileWithEngine_def ReconcileRuntimeDeletion_def andThen_def ret_def emit_def RequeueAfterInterval_def putEngine_def)
  have "\<exists>h'. ReconcileRuntimeInternal (alluxioKind v p d) ctx engines h =
      (Ret (RequeueAfterInterval (20 * second), putEngine ctx (t, e2) engines), h')"
    using answer dataset engine cached assms(3)
    by (auto simp: ReconcileRuntimeInternal_def Let_def getOrCreateEngine_def andThen_def ret_def split: sum.splits)
  moreover have "retries ctx (putEngine ctx (t, e2) engines) = Some (aeRetryShutdown e + 1)"
    using n by (simp add: retries_def putEngine_def update_conv')
  moreover have "retries ctx engines = Some (aeRetryShutdown e)" using cached by (simp add: retries_def)
  ultimately show ?thesis using n by blast
qed

text \<open>
  C18. Reconciliations of a deleted Alluxio runtime that fail one after another because the cache cannot be cleaned up leave the engine in the controller's cache with its counter raised by one each; so there are at most as many as the counter is below the limit of the runtime, and when the limit is reached no further reconciliation fails in the cleanup.
\<close>

theorem deletion_gives_up:
  assumes "failedDeletions v (alluxioKind v p d) ctx limit n engines engines'" and "retries ctx engines = Some m" and "m \<le> limit"
    and "omDeletionTimestamp (roMeta (rrRuntime ctx)) \<noteq> None" and "d (omName (roMeta (rrRuntime ctx))) = []"
  shows "int n \<le> limit - m \<and> retries ctx engines' = Some (m + int n) \<and>
    (int n = limit - m \<longrightarrow> \<not> cleanupFails v limit ctx engines' h)"
proof -
  have "retries ctx engines' = Some (m + int n) \<and> m + int n \<le> limit"
    using assms(1-3)
  proof (induction rule: failedDeletions.induct)
    case (more n engines engines1 h result engines2 h')
    from failing_reconcile [where p = p, OF more(2) assms(4), of d] assms(5) more show ?case by auto
  qed simp
  with failing_reconcile [OF _ assms(4), of v limit engines' h d p] assms(5) show ?thesis by auto
qed

lemma end_delete_any:
  assumes "e = endEngine\<lparr>aeRetryShutdown := n\<rparr>"
  shows "wp (DeleteVolume endEnv e) (\<lambda>r h'. r = Ret (None, e)) h"
proof -
  have info: "wp (getRuntimeInfo endEnv e) Q h =
      Q (Ret (Inr exampleInfo, e)) (h @ [Op (GotDataset ''demo'' ''default'' (Inl (NotFound ''dataset'')))])" for Q h
    unfolding getRuntimeInfo_def buildInfo_def ownerInfo_def placementInfo_def GetDataset_def assms
    by (simp add: wp_rules Let_def exampleInfo_def IsPlacementModeSet_def)
  have runtime: "aeRuntime e = Some readyRuntime" using assms by simp
  show ?thesis
    unfolding DeleteVolume_def withRuntime_def deleteFusePersistentVolumeClaim_def deleteFusePersistentVolume_def withInfo_def
      DeleteFusePersistentVolumeClaim_def DeleteFusePersistentVolume_def deleteFusePersistentVolumeIfExists_def
      IsPersistentVolumeClaimExist_def IsPersistentVolumeExist_def GetPersistentVolumeClaim_def GetPersistentVolume_def
    by (simp add: wp_rules info Let_def runtime)
qed

lemma end_summary: "\<exists>err h'. ReportSummary endWorld a h = (Ret (Inl (Wrapped ''error when executing command'' err)), h')"
  unfolding ReportSummary_def exec_def ExecWithOptions_def
  by (simp add: call_def ret_def andThen_def endWorld_def downWorld_def split: option.split)

definition lateEngine :: AlluxioEngine where
  "lateEngine = endEngine\<lparr>aeRetryShutdown := 2\<rparr>"

lemma late_limit: "limitAt endEnv e h = Some 3"
  by (simp add: limitAt_def exampleRuntime_def)

lemma late_cleanup: "\<exists>err e h'. cleanupLimited endEnv lateEngine h = (Ret (Some err, e), h')"
proof -
  obtain ev where limits: "getGracefulShutdownLimits endEnv lateEngine h = (Ret (Inr 3), h @ [ev])"
    using limits_run [OF late_limit] by blast
  obtain err h' where "ReportSummary endWorld (fileUtils lateEngine) (h @ [ev]) =
      (Ret (Inl (Wrapped ''error when executing command'' err)), h')"
    using end_summary by blast
  with limits show ?thesis
    by (simp add: cleanupLimited_def cleanupCache_def queryCacheStatus_def andThen_def ret_def IgnoreNotFound_def noStates_def lateEngine_def)
qed

abbreviation lateCache :: "AlluxioEngine engineCache" where
  "lateCache \<equiv> [(''default-demo'', endTemplate, lateEngine)]"

lemma late_fails: "cleanupFails endEnv 3 endRequest lateCache []"
proof -
  let ?h = "[Op (GotDataset ''demo'' ''default'' (Inl (NotFound ''dataset'')))]"
  obtain h1 where "DeleteVolume endEnv lateEngine ?h = (Ret (None, lateEngine), h1)"
    using end_delete_any [OF lateEngine_def, of ?h] by (auto simp: wp_def split: prod.splits)
  moreover obtain err e2 h2 where "cleanupLimited endEnv lateEngine h1 = (Ret (Some err, e2), h2)"
    using late_cleanup by blast
  ultimately show ?thesis
    unfolding cleanupFails_def
    by (intro exI [of _ endTemplate] exI [of _ lateEngine] exI [of _ "Inl (NotFound ''dataset'')"])
       (auto simp: endRequest_def GenerateEngineID_def viaOp_def GetDataset_def call_def late_limit)
qed

theorem deletion_gives_up_witness:
  "\<exists>engines. failedDeletions endEnv (alluxioKind endEnv (\<lambda>_. None) (\<lambda>_. [])) endRequest 3 1 lateCache engines \<and>
     retries endRequest engines = Some 3 \<and> \<not> cleanupFails endEnv 3 endRequest engines []"
proof -
  have deleted: "omDeletionTimestamp (roMeta (rrRuntime endRequest)) \<noteq> None" by (simp add: endRequest_def)
  have two: "retries endRequest lateCache = Some 2"
    by (simp add: retries_def endRequest_def GenerateEngineID_def lateEngine_def)
  obtain engines h' where "ReconcileRuntimeInternal (alluxioKind endEnv (\<lambda>_. None) (\<lambda>_. [])) endRequest lateCache [] =
      (Ret (RequeueAfterInterval (20 * second), engines), h')"
    using failing_reconcile [OF late_fails deleted, of "\<lambda>_. []" "\<lambda>_. None"] by auto
  from failedDeletions.more [OF failedDeletions.none late_fails this]
  have run: "failedDeletions endEnv (alluxioKind endEnv (\<lambda>_. None) (\<lambda>_. [])) endRequest 3 1 lateCache engines" by simp
  with deletion_gives_up [OF run two _ deleted, of "[]"] show ?thesis by auto
qed

end
