(* ===== verification/Runtime_Lookup.thy ===== *)
theory Runtime_Lookup
  imports Runtime_Info Kube_Client
begin

text \<open>
  \<open>GetRuntimeInfo\<close> and \<open>GetRuntimeStatus\<close> of \<open>pkg/ddc/base/runtime.go\<close>: what a client finds out about the runtime of a
  dataset from the API server. The metadata in an annotation of the runtime is JSON; its parser is a parameter.
\<close>

section \<open>Kinds of runtimes\<close>

definition runtimeKinds :: "(string \<times> string) list" where
  "runtimeKinds =
     [(''alluxio'', ''AlluxioRuntime''), (''jindo'', ''JindoRuntime''), (''goosefs'', ''GooseFSRuntime''),
      (''juicefs'', ''JuiceFSRuntime''), (''thin'', ''ThinRuntime''), (''efc'', ''EFCRuntime''),
      (''vineyard'', ''VineyardRuntime''), (''cache'', ''CacheRuntime'')]"

definition unsupportedRuntime :: "string \<Rightarrow> goerr" where
  "unsupportedRuntime runtimeType = Err (''fail to get runtimeInfo for runtime type: '' @ runtimeType)"

section \<open>runtime.go\<close>

text \<open>
  \<open>roFuseNodeSelector\<close> and \<open>roFuseCleanPolicy\<close> of a cache runtime are those of its client. \<open>VineyardFuseNodeSelector\<close> is empty.
  The tiered store is left empty, so that building the information cannot fail for it; it fails for a scrape target of a
  JindoRuntime that is not a list of mount modes.
\<close>

definition runtimeInfoWith :: "(RuntimeObject \<Rightarrow> Metadata list) \<Rightarrow> string \<Rightarrow> string \<Rightarrow> string \<Rightarrow> RuntimeObject \<Rightarrow> goerr + RuntimeInfo" where
  "runtimeInfoWith metadataList runtimeType name namespace runtime =
     (case BuildRuntimeInfo (\<lambda>_. None) name namespace runtimeType [] (metadataList runtime) (omAnnotations (roMeta runtime)) of
        Inl err \<Rightarrow> Inl err
      | Inr info \<Rightarrow>
          if runtimeType = ''jindo'' then
            (case WithClientMetrics (roFuseScrapeTarget runtime) info of
               Inl err \<Rightarrow> Inl (Wrapped (''fail to build runtime info '' @ namespace @ ''/'' @ name) err)
             | Inr info \<Rightarrow> Inr info)
          else Inr info)"

definition runtimeInfoOf :: "(RuntimeObject \<Rightarrow> Metadata list) \<Rightarrow> Dataset \<Rightarrow> string \<Rightarrow> string \<Rightarrow> string \<Rightarrow> RuntimeObject \<Rightarrow> goerr + RuntimeInfo" where
  "runtimeInfoOf metadataList dataset runtimeType name namespace runtime =
     (case runtimeInfoWith metadataList runtimeType name namespace runtime of
        Inl err \<Rightarrow> Inl err
      | Inr info \<Rightarrow>
          let info = SetFuseNodeSelector (if runtimeType = ''vineyard'' then [] else roFuseNodeSelector runtime) info;
              info = SetupFuseCleanPolicy (roFuseCleanPolicy runtime) info;
              info = (if runtimeType = ''cache'' then SetupWithDataset dataset info else info) in
          Inr (SetOwnerDatasetUID (omUID (dMeta dataset)) info))"

definition GetRuntimeInfo ::
  "world \<Rightarrow> (RuntimeObject \<Rightarrow> Metadata list) \<Rightarrow> string \<Rightarrow> string \<Rightarrow> (goerr + RuntimeInfo) kgo" where
  "GetRuntimeInfo w metadataList name namespace =
     andThen (viaOp w (\<lambda>cl. GetDataset cl name namespace)) (\<lambda>r.
     case r of
       Inl err \<Rightarrow> ret (Inl err)
     | Inr dataset \<Rightarrow>
         let runtimeType = (case dstRuntimes (dStatus dataset) of [] \<Rightarrow> '''' | rt # _ \<Rightarrow> rtType rt) in
         (case map_of runtimeKinds runtimeType of
            None \<Rightarrow> ret (Inl (unsupportedRuntime runtimeType))
          | Some kind \<Rightarrow>
              andThen (getRuntimeObject w kind name namespace) (\<lambda>r.
              ret (case r of
                     Inl err \<Rightarrow> Inl err
                   | Inr runtime \<Rightarrow> runtimeInfoOf metadataList dataset runtimeType name namespace runtime))))"

text \<open>The status of a cache runtime is not supported.\<close>

definition GetRuntimeStatus :: "world \<Rightarrow> string \<Rightarrow> string \<Rightarrow> string \<Rightarrow> (goerr + RuntimeStatus) kgo" where
  "GetRuntimeStatus w runtimeType name namespace =
     (case map_of (filter (\<lambda>(t, _). t \<noteq> ''cache'') runtimeKinds) runtimeType of
        None \<Rightarrow> ret (Inl (unsupportedRuntime runtimeType))
      | Some kind \<Rightarrow>
          andThen (getRuntimeObject w kind name namespace) (\<lambda>r.
          ret (case r of Inl err \<Rightarrow> Inl err | Inr runtime \<Rightarrow> Inr (roStatus runtime))))"

section \<open>Lemmas\<close>

text \<open>What is looked up is about the runtime that was read: its name, type, labels and policy.\<close>

lemma runtimeInfoOf_fields:
  assumes "runtimeInfoOf metadataList dataset runtimeType name namespace runtime = Inr info"
  shows "riName info = name \<and> riNamespace info = namespace \<and> riRuntimeType info = runtimeType \<and> riTieredStore info = [] \<and>
    riFuseCleanPolicy info = (if roFuseCleanPolicy runtime = '''' then ''OnRuntimeDeleted'' else roFuseCleanPolicy runtime) \<and>
    fuseLabel info = GetFuseLabelName namespace name (omUID (dMeta dataset))"
  using assms
  by (auto simp: runtimeInfoOf_def runtimeInfoWith_def WithClientMetrics_def BuildRuntimeInfo_def Let_def
      SetFuseNodeSelector_def SetupFuseCleanPolicy_def SetupWithDataset_def SetOwnerDatasetUID_def fuseLabel_def
      split: if_splits sum.splits)

lemma runtimeInfoOf_ok:
  "runtimeType \<noteq> ''jindo'' \<Longrightarrow> \<exists>info. runtimeInfoOf metadataList dataset runtimeType name namespace runtime = Inr info"
  by (simp add: runtimeInfoOf_def runtimeInfoWith_def BuildRuntimeInfo_def Let_def)

end
