(* ===== verification/Bash_Escape.thy ===== *)
theory Bash_Escape
  imports Go_Strings
begin

text \<open>
  \<open>pkg/utils/security\<close>: quoting of strings for bash and redaction of secrets in what is logged. Lemmas: bash reads an escaped
  string as one word, and as the original when it has no backslash.
\<close>

section \<open>escape.go\<close>

fun containsOne :: "string \<Rightarrow> char list \<Rightarrow> bool" where
  "containsOne [] chars = False"
| "containsOne (s # target) chars = (s \<in> set chars \<or> containsOne target chars)"

definition escapeTriggers :: "char list" where
  "escapeTriggers = [CHR ''$'', CHR 0x60, CHR ''&'', CHR '';'', CHR ''>'', CHR ''|'', CHR ''('', CHR '')'']"

abbreviation backslash :: char where
  "backslash \<equiv> CHR 0x5C"

abbreviation quote :: char where
  "quote \<equiv> CHR 0x27"

text \<open>The replacements for a string in which backslashes were doubled: pairs of what is replaced and by what.\<close>

definition unescapes :: "(string \<times> string) list" where
  "unescapes =
     [([backslash, backslash, backslash, backslash], [backslash, backslash]),
      ([backslash, backslash, backslash, quote], [backslash, quote])] @
     map (\<lambda>c. ([backslash, backslash, c], [backslash, c]))
       [CHR 0x22, CHR ''a'', CHR ''b'', CHR ''e'', CHR ''E'', CHR ''n'', CHR ''r'', CHR ''t'', CHR ''v'', CHR ''?'']"

definition escapeBody :: "string \<Rightarrow> string" where
  "escapeBody s =
     (let s = ReplaceAll s [backslash] [backslash, backslash];
          s = ReplaceAll s [quote] [backslash, quote] in
      if Contains s [backslash, backslash] then fold (\<lambda>(old, new) s. ReplaceAll s old new) unescapes s else s)"

definition EscapeBashStr :: "string \<Rightarrow> string" where
  "EscapeBashStr s = (if \<not> containsOne s escapeTriggers then s else CHR ''$'' # quote # escapeBody s @ [quote])"

section \<open>filter.go\<close>

text \<open>\<open>keys\<close> is the set of sensitive keys in the order in which the loop visits them.\<close>

definition initialSensitiveKeys :: "string list" where
  "initialSensitiveKeys = [''aws.secretKey'', ''aws.accessKeyId'', ''fs.oss.accessKeyId'', ''fs.oss.accessKeySecret'']"

definition FilterString :: "string list \<Rightarrow> string \<Rightarrow> string" where
  "FilterString keys line = fold (\<lambda>s line. if Contains line s then s @ ''=[ redacted ]'' else line) keys line"

definition FilterCommand :: "string list \<Rightarrow> string list \<Rightarrow> string list" where
  "FilterCommand keys command = map (FilterString keys) command"

definition UpdateSensitiveKey :: "string \<Rightarrow> string list \<Rightarrow> string list" where
  "UpdateSensitiveKey key keys = (if key \<notin> set keys then keys @ [key] else keys)"

section \<open>How bash reads a quoted string\<close>

text \<open>
  Between \<open>$'\<close> and the closing quote a backslash protects the next character; \<open>quoted\<close> follows the characters from a state,
  protected or not, and is \<open>None\<close> when a quote closes the string before the end.
\<close>

fun quoted :: "bool \<Rightarrow> string \<Rightarrow> bool option" where
  "quoted protected [] = Some protected"
| "quoted True (c # cs) = quoted False cs"
| "quoted False (c # cs) = (if c = quote then None else quoted (c = backslash) cs)"

lemma quoted_append: "quoted q (s @ t) = (case quoted q s of None \<Rightarrow> None | Some q' \<Rightarrow> quoted q' t)"
  by (induction q s rule: quoted.induct) auto

text \<open>A replacement that bash reads the same way from every state keeps how the whole is read.\<close>

lemma quoted_ReplaceAll:
  assumes same: "\<And>p p'. quoted p old = Some p' \<Longrightarrow> quoted p new = Some p'" and "quoted q s = Some q'"
  shows "quoted q (ReplaceAll s old new) = Some q'"
  using assms(2)
proof (induction s arbitrary: q rule: length_induct)
  case (1 s)
  show ?case
  proof (cases "old \<noteq> [] \<and> HasPrefix s old")
    case True
    then obtain r where s: "s = old @ r" "old \<noteq> []" by (auto simp: HasPrefix_iff)
    with 1(2) obtain p where "quoted q old = Some p" "quoted p r = Some q'"
      by (auto simp: quoted_append split: option.splits)
    moreover have "ReplaceAll s old new = new @ ReplaceAll r old new"
      using s by (cases old) (simp_all add: ReplaceAll.simps [of "_ # _"] HasPrefix_def)
    ultimately show ?thesis using 1(1) s same by (auto simp: quoted_append)
  next
    case False
    show ?thesis
    proof (cases s)
      case Nil
      with 1(2) show ?thesis by (simp add: ReplaceAll.simps)
    next
      case (Cons x xs)
      with False have "ReplaceAll s old new = [x] @ ReplaceAll xs old new" by (subst ReplaceAll.simps) auto
      moreover obtain p where "quoted q [x] = Some p" "quoted p xs = Some q'"
        using 1(2) Cons quoted_append [of q "[x]" xs] by (auto split: option.splits)
      ultimately show ?thesis using 1(1) Cons by (simp only: quoted_append) simp
    qed
  qed
qed

lemma ReplaceAll_char: "ReplaceAll s [c] new = concat (map (\<lambda>x. if x = c then new else [x]) s)"
proof (induction s)
  case Nil
  then show ?case by (simp add: ReplaceAll.simps)
next
  case (Cons x xs)
  then show ?case by (subst ReplaceAll.simps) (auto simp: HasPrefix_def)
qed

lemma doubled: "ReplaceAll (ReplaceAll s [backslash] [backslash, backslash]) [quote] [backslash, quote] =
    concat (map (\<lambda>x. if x = backslash \<or> x = quote then [backslash, x] else [x]) s)"
  unfolding ReplaceAll_char by (induction s) auto

lemma quoted_doubled: "quoted False (concat (map (\<lambda>x. if x = backslash \<or> x = quote then [backslash, x] else [x]) s)) = Some False"
  by (induction s) auto

lemma unescapes_same:
  assumes "(old, new) \<in> set unescapes" and "quoted p old = Some p'"
  shows "quoted p new = Some p'"
  using assms by (cases p) (auto simp: unescapes_def)

lemma quoted_fold:
  assumes "set rs \<subseteq> set unescapes" and "quoted False s = Some False"
  shows "quoted False (fold (\<lambda>(old, new) s. ReplaceAll s old new) rs s) = Some False"
  using assms
proof (induction rs arbitrary: s)
  case (Cons r rs)
  obtain old new where r: "r = (old, new)" by (cases r)
  with Cons.prems have "quoted False (ReplaceAll s old new) = Some False"
    using unescapes_same [of old new] by (intro quoted_ReplaceAll) auto
  with Cons r show ?case by simp
qed simp

text \<open>A replacement that keeps all characters but backslashes keeps them in the whole.\<close>

abbreviation visible :: "string \<Rightarrow> string" where
  "visible s \<equiv> filter (\<lambda>c. c \<noteq> backslash) s"

lemma visible_ReplaceAll:
  assumes "visible new = visible old"
  shows "visible (ReplaceAll s old new) = visible s"
proof (induction s rule: length_induct)
  case (1 s)
  show ?case
  proof (cases "old \<noteq> [] \<and> HasPrefix s old")
    case True
    then obtain r where s: "s = old @ r" "old \<noteq> []" by (auto simp: HasPrefix_iff)
    then have "ReplaceAll s old new = new @ ReplaceAll r old new"
      by (cases old) (simp_all add: ReplaceAll.simps [of "_ # _"] HasPrefix_def)
    with 1 s assms show ?thesis by simp
  next
    case False
    show ?thesis
    proof (cases s)
      case (Cons x xs)
      with False have "ReplaceAll s old new = [x] @ ReplaceAll xs old new" by (subst ReplaceAll.simps) auto
      with 1 Cons show ?thesis by simp
    qed (simp add: ReplaceAll.simps)
  qed
qed

lemma visible_escapeBody: "visible (escapeBody s) = visible s"
proof -
  have "visible (fold (\<lambda>(old, new) s. ReplaceAll s old new) rs t) = visible t" if "set rs \<subseteq> set unescapes" for rs t
    using that
  proof (induction rs arbitrary: t)
    case (Cons r rs)
    obtain old new where r: "r = (old, new)" by (cases r)
    with Cons.prems have "visible new = visible old" by (auto simp: unescapes_def)
    with Cons r show ?case by (simp add: visible_ReplaceAll)
  qed simp
  then show ?thesis by (simp add: escapeBody_def Let_def visible_ReplaceAll)
qed

text \<open>What bash makes of the characters: an escape for a quote or a backslash stands for that character.\<close>

fun ansiC :: "string \<Rightarrow> string" where
  "ansiC (c # d # cs) =
     (if c = backslash \<and> (d = backslash \<or> d = quote) then d # ansiC cs else c # ansiC (d # cs))"
| "ansiC s = s"

lemma ansiC_plain: "c \<noteq> backslash \<Longrightarrow> ansiC (c # s) = c # ansiC s"
  by (cases s) auto

lemma no_double: "backslash \<notin> set s \<Longrightarrow>
    \<not> Contains (concat (map (\<lambda>x. if x = backslash \<or> x = quote then [backslash, x] else [x]) s)) [backslash, backslash]"
  by (induction s) (auto simp: HasPrefix_def)

lemma ansiC_escapeBody: "backslash \<notin> set s \<Longrightarrow> ansiC (escapeBody s) = s"
proof -
  assume s: "backslash \<notin> set s"
  then have "ansiC (concat (map (\<lambda>x. if x = backslash \<or> x = quote then [backslash, x] else [x]) s)) = s"
    by (induction s) (auto simp: ansiC_plain)
  then show ?thesis unfolding escapeBody_def Let_def doubled using no_double [OF s] by simp
qed

text \<open>
  C38. A string that contains one of the characters that trigger escaping becomes a string in ANSI-C quotes that no quote inside
  of it closes and whose closing quote is not protected by a backslash, so bash reads it as one word. Between the quotes are all
  characters of the string in their order, with only backslashes added or removed, and if the string has no backslash, bash reads
  exactly the string. Every other string is returned as it is and contains none of these characters.
\<close>

theorem escaped_is_one_word:
  "if containsOne s escapeTriggers
   then \<exists>body. EscapeBashStr s = ''$'' @ [quote] @ body @ [quote] \<and> quoted False body = Some False \<and> visible body = visible s \<and>
     (backslash \<notin> set s \<longrightarrow> ansiC body = s)
   else EscapeBashStr s = s \<and> set s \<inter> set escapeTriggers = {}"
proof (cases "containsOne s escapeTriggers")
  case True
  have "quoted False (escapeBody s) = Some False"
    unfolding escapeBody_def Let_def doubled
    using quoted_doubled quoted_fold [OF subset_refl] by simp
  with True show ?thesis by (simp add: EscapeBashStr_def visible_escapeBody ansiC_escapeBody)
next
  case False
  moreover have "containsOne s cs \<longleftrightarrow> set s \<inter> set cs \<noteq> {}" for cs by (induction s) auto
  ultimately show ?thesis by (simp add: EscapeBashStr_def)
qed

theorem escaped_is_one_word_witness:
  "(\<exists>body. EscapeBashStr (''$'' @ [quote]) = ''$'' @ [quote] @ body @ [quote] \<and> ansiC body = ''$'' @ [quote]) \<and> EscapeBashStr ''a b'' = ''a b''"
  using escaped_is_one_word [of "''$'' @ [quote]"] escaped_is_one_word [of "''a b''"] by (auto simp: escapeTriggers_def)

text \<open>
  The example in the comment of the function is not what it returns: it gives a quote that closes the string and a protected quote
  at the end.
\<close>

lemma escape_comment_example:
  "EscapeBashStr (''$'' @ [quote] @ ''a'' @ [quote]) = ''$'' @ [quote] @ ''$'' @ [backslash, quote] @ ''a'' @ [backslash, quote, quote]"
  "quoted False (''$'' @ [backslash, quote] @ ''$a'' @ [quote, backslash]) = None"
  by code_simp+

text \<open>
  A line break separates commands like the other characters but does not lead to quoting, and a backslash in front of a letter is
  not kept: bash reads a line break where the string has a backslash and an n.
\<close>

lemma escape_lets_newline_through: "EscapeBashStr (''a'' @ [CHR 0x0A] @ ''reboot'') = ''a'' @ [CHR 0x0A] @ ''reboot''"
  by code_simp

lemma escape_changes_backslash: "EscapeBashStr (''$'' @ [backslash] @ ''n'') = ''$'' @ [quote] @ ''$'' @ [backslash] @ ''n'' @ [quote]"
  by code_simp

lemma FilterString_cases:
  "(FilterString keys line = line \<and> (\<forall>k \<in> set keys. \<not> Contains line k)) \<or>
   (\<exists>k \<in> set keys. FilterString keys line = k @ ''=[ redacted ]'')"
  unfolding FilterString_def
proof (induction keys arbitrary: line)
  case (Cons k keys)
  show ?case
  proof (cases "Contains line k")
    case True
    then show ?thesis using Cons [of "k @ ''=[ redacted ]''"] by auto
  qed (use Cons [of line] in auto)
qed simp

end
