(* ===== verification/Node_Server.thy ===== *)
theory Node_Server
  imports Runtime_Lookup Bash_Escape Dataset_Volume Node_Placement Cmd_Guard Ctrl_Helper
begin

text \<open>
  The CSI plugin on a node (\<open>pkg/csi/plugins/nodeserver.go\<close> and \<open>controller.go\<close>) with the helpers it uses (\<open>mount.go\<close>,
  \<open>symlink.go\<close>, \<open>metadata.go\<close> of \<open>pkg/utils\<close>). The host (paths, mounts, commands, the table of
  locks) and the API server are the environment \<open>nodeEnv\<close>; each call of it is an event. Logging is left out.
\<close>

section \<open>The host\<close>

text \<open>Errors of calls that take a path, as the code tells them apart, with their texts.\<close>

datatype pathErr = ENOENT | ENOTCONN | ESTALE | EIO | EACCES | OtherErr string

definition IsNotExist :: "pathErr \<Rightarrow> bool" where
  "IsNotExist e \<longleftrightarrow> e = ENOENT"

definition IsCorruptedMnt :: "pathErr \<Rightarrow> bool" where
  "IsCorruptedMnt e \<longleftrightarrow> e \<in> {ENOTCONN, ESTALE, EIO, EACCES}"

fun errnoText :: "pathErr \<Rightarrow> string" where
  "errnoText ENOENT = ''no such file or directory''"
| "errnoText ENOTCONN = ''transport endpoint is not connected''"
| "errnoText ESTALE = ''stale NFS file handle''"
| "errnoText EIO = ''input/output error''"
| "errnoText EACCES = ''permission denied''"
| "errnoText (OtherErr text) = text"

definition pathText :: "string \<Rightarrow> string \<Rightarrow> pathErr \<Rightarrow> string" where
  "pathText op path e = op @ '' '' @ path @ '': '' @ errnoText e"

text \<open>How a command ends: well, with an exit status, or without having run (for lack of permission or for another reason).\<close>

datatype cmdResult = CmdOk | CmdExit int | CmdFail bool string

fun cmdText :: "cmdResult \<Rightarrow> string" where
  "cmdText CmdOk = ''''"
| "cmdText (CmdExit code) = ''exit status '' @ Itoa code"
| "cmdText (CmdFail _ text) = text"

datatype nevent =
    World kevent
  | TriedLock string bool
  | FreedLock string
  | Statted string "pathErr option"
  | Lstatted string "pathErr + bool"
  | ReadMounts "pathErr + string"
  | MadeDir string "pathErr option"
  | RemovedPath string "pathErr option"
  | Symlinked string string "pathErr option"
  | Ran "string list" cmdResult
  | CheckedMountPoint string "pathErr + bool"
  | Unmounted string "pathErr option"
  | CleanedUp string "pathErr option"
  | OpenedFile string "pathErr + string"

type_synonym 'a ngo = "(nevent, 'a) go"

text \<open>
  What the host answers, as functions of the history: \<open>neTryLock\<close> for the table of locks that other goroutines share, \<open>neLstat\<close>
  whether a path is a symbolic link, \<open>neNotMountPoint\<close> for \<open>IsLikelyNotMountPoint\<close> and \<open>neCleanup\<close> for
  \<open>CleanupMountPoint\<close> of the mount library, \<open>neLookPath\<close> for the guard, \<open>nePolls\<close> for how often a poll evaluates its condition
  after the first time, and \<open>neMetadataList\<close> for the JSON in an annotation of a runtime.
\<close>

record nodeEnv =
  neWorld :: "nevent list \<Rightarrow> world"
  neTryLock :: "nevent list \<Rightarrow> string \<Rightarrow> bool"
  neStat :: "nevent list \<Rightarrow> string \<Rightarrow> pathErr option"
  neLstat :: "nevent list \<Rightarrow> string \<Rightarrow> pathErr + bool"
  neReadMounts :: "nevent list \<Rightarrow> pathErr + string"
  neMkdirAll :: "nevent list \<Rightarrow> string \<Rightarrow> pathErr option"
  neRemove :: "nevent list \<Rightarrow> string \<Rightarrow> pathErr option"
  neSymlink :: "nevent list \<Rightarrow> string \<Rightarrow> string \<Rightarrow> pathErr option"
  neRun :: "nevent list \<Rightarrow> string list \<Rightarrow> cmdResult"
  neNotMountPoint :: "nevent list \<Rightarrow> string \<Rightarrow> pathErr + bool"
  neUnmount :: "nevent list \<Rightarrow> string \<Rightarrow> pathErr option"
  neCleanup :: "nevent list \<Rightarrow> string \<Rightarrow> pathErr option"
  neOpen :: "nevent list \<Rightarrow> string \<Rightarrow> pathErr + string"
  neLookPath :: "string \<Rightarrow> string option"
  neLookupEnv :: "string \<Rightarrow> string option"
  neMountRoot :: "goerr + string"
  nePolls :: "nevent list \<Rightarrow> nat"
  neMetadataList :: "RuntimeObject \<Rightarrow> Metadata list"

definition worldHistory :: "nevent list \<Rightarrow> kevent list" where
  "worldHistory h = List.map_filter (\<lambda>e. case e of World k \<Rightarrow> Some k | _ \<Rightarrow> None) h"

definition viaWorld :: "nodeEnv \<Rightarrow> (world \<Rightarrow> 'a kgo) \<Rightarrow> 'a ngo" where
  "viaWorld v m h =
     (case m (neWorld v h) (worldHistory h) of
        (r, kh) \<Rightarrow> (r, h @ map World (drop (length (worldHistory h)) kh)))"

definition osStat :: "nodeEnv \<Rightarrow> string \<Rightarrow> (pathErr option) ngo" where
  "osStat v path = call (\<lambda>h. neStat v h path) (Statted path)"

section \<open>Errors of calls\<close>

datatype code = InvalidArgument | Aborted | Internal | PermissionDenied | Unimplemented

datatype rpcErr = Status code string | Plain goerr

fun rpcText :: "rpcErr \<Rightarrow> string" where
  "rpcText (Status InvalidArgument desc) = ''rpc error: code = InvalidArgument desc = '' @ desc"
| "rpcText (Status Aborted desc) = ''rpc error: code = Aborted desc = '' @ desc"
| "rpcText (Status Internal desc) = ''rpc error: code = Internal desc = '' @ desc"
| "rpcText (Status PermissionDenied desc) = ''rpc error: code = PermissionDenied desc = '' @ desc"
| "rpcText (Status Unimplemented desc) = ''rpc error: code = Unimplemented desc = '' @ desc"
| "rpcText (Plain err) = errText err"

section \<open>mount.go, symlink.go and metadata.go of pkg/utils\<close>

text \<open>\<open>guarded\<close> is \<open>cmdguard.Command\<close> followed by \<open>CombinedOutput\<close>; the output is only logged.\<close>

definition commandRejected :: goerr where
  "commandRejected = Err ''the command is rejected by the command guard''"

definition guarded :: "nodeEnv \<Rightarrow> string list \<Rightarrow> (goerr + cmdResult) ngo" where
  "guarded v command =
     (case ValidateCommandSlice (neLookPath v) command of
        Some _ \<Rightarrow> ret (Inl commandRejected)
      | None \<Rightarrow> andThen (call (\<lambda>h. neRun v h command) (Ran command)) (\<lambda>r. ret (Inr r)))"

definition CheckMountReadyAndSubPathExist :: "nodeEnv \<Rightarrow> string \<Rightarrow> string \<Rightarrow> string \<Rightarrow> (goerr option) ngo" where
  "CheckMountReadyAndSubPathExist v fluidPath mountType subPath =
     (if fluidPath = '''' then ret (Some (Err ''target is not specified for checking the mount''))
      else
        andThen (guarded v [''/usr/local/bin/check_mount.sh'', fluidPath, mountType, subPath]) (\<lambda>r.
        ret (case r of
               Inl err \<Rightarrow> Some err
             | Inr CmdOk \<Rightarrow> None
             | Inr (CmdExit code) \<Rightarrow>
                 if code = 1 then Some (Err ''timeout waiting for FUSE mount point to be ready'')
                 else if code = 2 then Some (Err (''subPath '' @ [CHR 0x22] @ subPath @ [CHR 0x22] @ '' not exists under FUSE mount''))
                 else Some (Err (cmdText (CmdExit code)))
             | Inr (CmdFail p text) \<Rightarrow> Some (Err text))))"

definition mountListed :: "string \<Rightarrow> string \<Rightarrow> bool" where
  "mountListed absPath file =
     list_ex (\<lambda>line. let tokens = Split CHR '' '' line in 2 \<le> length tokens \<and> tokens ! 1 = absPath) (Split CHR 0x0A file)"

text \<open>An error comes with its text.\<close>

definition IsMounted :: "nodeEnv \<Rightarrow> string \<Rightarrow> (pathErr \<times> string + bool) ngo" where
  "IsMounted v absPath =
     andThen (osStat v absPath) (\<lambda>err.
     case err of
       Some e \<Rightarrow> ret (Inl (e, pathText ''stat'' absPath e))
     | None \<Rightarrow>
         andThen (call (\<lambda>h. neReadMounts v h) ReadMounts) (\<lambda>r.
         ret (case r of Inl e \<Rightarrow> Inl (e, pathText ''open'' ''/proc/mounts'' e) | Inr file \<Rightarrow> Inr (mountListed absPath file))))"

definition MountPathExists :: "nodeEnv \<Rightarrow> string \<Rightarrow> (bool \<times> pathErr option) ngo" where
  "MountPathExists v path =
     andThen (osStat v path) (\<lambda>err.
     ret (case err of
            None \<Rightarrow> (True, None)
          | Some e \<Rightarrow> if IsNotExist e then (False, None) else if IsCorruptedMnt e then (True, Some e) else (False, Some e)))"

definition CreateSymlink :: "nodeEnv \<Rightarrow> string \<Rightarrow> string \<Rightarrow> (rpcErr option) ngo" where
  "CreateSymlink v targetPath mountPath =
     (let link =
        andThen (call (\<lambda>h. neSymlink v h mountPath targetPath) (Symlinked mountPath targetPath)) (\<lambda>err.
        ret (case err of
               None \<Rightarrow> None
             | Some e \<Rightarrow> Some (Status Internal (''Failed to create symlink '' @ targetPath @ '' -> '' @ mountPath @ '', error '' @
                                             pathText ''symlink'' mountPath e)))) in
      andThen (call (\<lambda>h. neLstat v h targetPath) (Lstatted targetPath)) (\<lambda>r.
      case r of
        Inl e \<Rightarrow> if \<not> IsNotExist e then ret (Some (Status Internal (pathText ''lstat'' targetPath e))) else link
      | Inr _ \<Rightarrow>
          andThen (call (\<lambda>h. neRemove v h targetPath) (RemovedPath targetPath)) (\<lambda>err.
          case err of
            Some e \<Rightarrow>
              if \<not> IsNotExist e
              then ret (Some (Status Internal (''Failed to delete the target path '' @ targetPath @ '' before create symlink, error '' @
                                             pathText ''remove'' targetPath e)))
              else link
          | None \<Rightarrow> link)))"

definition RemoveSymlink :: "nodeEnv \<Rightarrow> string \<Rightarrow> (goerr + bool) ngo" where
  "RemoveSymlink v targetPath =
     andThen (call (\<lambda>h. neLstat v h targetPath) (Lstatted targetPath)) (\<lambda>r.
     case r of
       Inl e \<Rightarrow>
         if IsCorruptedMnt e then ret (Inr False)
         else ret (Inl (Err (''lstat targetPath '' @ targetPath @ '' error '' @ pathText ''lstat'' targetPath e)))
     | Inr symlink \<Rightarrow>
         if \<not> symlink then ret (Inr False)
         else
           andThen (call (\<lambda>h. neRemove v h targetPath) (RemovedPath targetPath)) (\<lambda>err.
           case err of
             Some e \<Rightarrow>
               if \<not> IsNotExist e
               then ret (Inl (Err (''failed to remove symlink targetPath '' @ targetPath @ '', error '' @ pathText ''remove'' targetPath e)))
               else ret (Inr True)
           | None \<Rightarrow> ret (Inr True)))"

definition getMetadataRootPath :: "goerr + string \<Rightarrow> string \<Rightarrow> string" where
  "getMetadataRootPath mountRoot runtimeType =
     (case mountRoot of Inl _ \<Rightarrow> ''/'' @ runtimeType | Inr path \<Rightarrow> path @ ''/'' @ runtimeType)"

definition GetRuntimeRootMetadataPath :: "goerr + string \<Rightarrow> string \<Rightarrow> string \<Rightarrow> string \<Rightarrow> string" where
  "GetRuntimeRootMetadataPath mountRoot namespace name runtimeType =
     EscapeBashStr (getMetadataRootPath mountRoot runtimeType @ ''/'' @ namespace @ ''/'' @ name @ ''/.meta'')"

definition GetRuntimeFuseMetadataPath :: "goerr + string \<Rightarrow> string \<Rightarrow> string \<Rightarrow> string \<Rightarrow> string" where
  "GetRuntimeFuseMetadataPath mountRoot namespace name runtimeType =
     EscapeBashStr (GetRuntimeRootMetadataPath mountRoot namespace name runtimeType @ ''/fuse'')"

definition GetMetadataFuseLabelFileInMetadataPath :: "goerr + string \<Rightarrow> string \<Rightarrow> string \<Rightarrow> string \<Rightarrow> string" where
  "GetMetadataFuseLabelFileInMetadataPath mountRoot namespace name runtimeType =
     EscapeBashStr (GetRuntimeFuseMetadataPath mountRoot namespace name runtimeType @ ''/labels'')"

abbreviation fuseGenerationKey :: string where
  "fuseGenerationKey \<equiv> ''fuse.runtime.fluid.io/generation''"

text \<open>\<open>bufio.Scanner\<close> gives the lines without a final carriage return; an empty last line is not a line.\<close>

definition scanLines :: "string \<Rightarrow> string list" where
  "scanLines file =
     map (\<lambda>l. if l \<noteq> [] \<and> last l = CHR 0x0D then butlast l else l)
       (let ls = Split CHR 0x0A file in if last ls = [] then butlast ls else ls)"

definition TrimChar :: "char \<Rightarrow> string \<Rightarrow> string" where
  "TrimChar c s = rev (dropWhile (\<lambda>x. x = c) (rev (dropWhile (\<lambda>x. x = c) s)))"

fun generationLine :: "string list \<Rightarrow> string option" where
  "generationLine [] = None"
| "generationLine (line # lines) =
     (case Split CHR ''='' line of
        [key, value] \<Rightarrow> if TrimSpace key = fuseGenerationKey then Some (TrimChar CHR 0x22 value) else generationLine lines
      | _ \<Rightarrow> generationLine lines)"

definition LoadCurrentFuseGenerationFromMeta :: "nodeEnv \<Rightarrow> string \<Rightarrow> string \<Rightarrow> string \<Rightarrow> (goerr + string) ngo" where
  "LoadCurrentFuseGenerationFromMeta v namespace name runtimeType =
     (let filePath = GetMetadataFuseLabelFileInMetadataPath (neMountRoot v) namespace name runtimeType in
      andThen (call (\<lambda>h. neOpen v h filePath) (OpenedFile filePath)) (\<lambda>r.
      ret (case r of
             Inl e \<Rightarrow> Inl (Wrapped (''failed to open metadata file '' @ filePath) (Err (pathText ''open'' filePath e)))
           | Inr file \<Rightarrow>
               (case generationLine (scanLines file) of
                  Some value \<Rightarrow> Inr value
                | None \<Rightarrow> Inl (Err ''failed to parse pod-template-generation in fuse.labels'')))))"

section \<open>nodeserver.go\<close>

record nodeServer =
  nsNodeId :: string
  nsNode :: "Node option"

type_synonym volumeContext = "(string \<times> string) list"

text \<open>A request to publish: \<open>prMode\<close> is the access mode of the volume capability, if there is one.\<close>

record publishRequest =
  prTargetPath :: string
  prMode :: "string option"
  prContext :: volumeContext

record stageRequest =
  srVolumeId :: string
  srContext :: volumeContext

text \<open>
  \<open>TryAcquire\<close> at the start of a call and the deferred \<open>Release\<close> at its end. \<open>operation\<close> and \<open>what\<close> name them in the error.
\<close>

definition withLock :: "nodeEnv \<Rightarrow> string \<Rightarrow> string \<Rightarrow> string \<Rightarrow> (rpcErr option \<times> 's) ngo \<Rightarrow> 's \<Rightarrow> (rpcErr option \<times> 's) ngo" where
  "withLock v operation what key body s =
     andThen (call (\<lambda>h. neTryLock v h key) (TriedLock key)) (\<lambda>lock.
     if \<not> lock then ret (Some (Status Aborted (operation @ '' operation on '' @ what @ '' '' @ key @ '' already exists'')), s)
     else andThen body (\<lambda>r. andThen (emit (FreedLock key)) (\<lambda>_. ret r)))"

definition useSymlink :: "nodeEnv \<Rightarrow> publishRequest \<Rightarrow> bool" where
  "useSymlink v req \<longleftrightarrow>
     neLookupEnv v ''NODEPUBLISH_METHOD'' = Some ''symlink'' \<or> map_of (prContext req) ''node_publish_method'' = Some ''symlink''"

definition pollHost :: "nodeEnv \<Rightarrow> (bool \<times> goerr option) ngo \<Rightarrow> (goerr option) ngo" where
  "pollHost v cond h = pollLoop (Suc (nePolls v h)) cond h"

definition checkMountPathExists :: "nodeEnv \<Rightarrow> string \<Rightarrow> (rpcErr option) ngo" where
  "checkMountPathExists v mountPath =
     andThen (pollHost v
        (andThen (osStat v mountPath) (\<lambda>err.
         ret (case err of
                None \<Rightarrow> (True, None)
              | Some e \<Rightarrow> if IsNotExist e then (False, None) else (False, Some (Err (pathText ''stat'' mountPath e))))))) (\<lambda>err.
     ret (case err of
            None \<Rightarrow> None
          | Some e \<Rightarrow> Some (Status Internal (''Failed to stat mountPath '' @ mountPath @ '': '' @ errText e))))"

text \<open>\<open>isMount\<close> stays false when the target does not exist and is created.\<close>

definition targetMounted :: "nodeEnv \<Rightarrow> string \<Rightarrow> (rpcErr + bool) ngo" where
  "targetMounted v targetPath =
     andThen (IsMounted v targetPath) (\<lambda>r.
     case r of
       Inr isMount \<Rightarrow> ret (Inr isMount)
     | Inl (e, text) \<Rightarrow>
         if \<not> IsNotExist e then ret (Inl (Status Internal text))
         else
           andThen (call (\<lambda>h. neMkdirAll v h targetPath) (MadeDir targetPath)) (\<lambda>err.
           ret (case err of Some e \<Rightarrow> Inl (Status Internal (pathText ''mkdir'' targetPath e)) | None \<Rightarrow> Inr False)))"

definition sourceReady :: "nodeEnv \<Rightarrow> string list \<Rightarrow> string \<Rightarrow> string \<Rightarrow> string \<Rightarrow> string \<Rightarrow> (rpcErr option) ngo" where
  "sourceReady v skipped fluidPath mountType subPath mountPath =
     (if ''MountPod'' \<in> set skipped then
        andThen (checkMountPathExists v mountPath) (\<lambda>err.
        ret (case err of None \<Rightarrow> None | Some e \<Rightarrow> Some (Status Internal (rpcText e))))
      else
        andThen (CheckMountReadyAndSubPathExist v fluidPath mountType subPath) (\<lambda>err.
        ret (case err of None \<Rightarrow> None | Some e \<Rightarrow> Some (Status Internal (errText e)))))"

definition bindMount :: "nodeEnv \<Rightarrow> bool \<Rightarrow> string \<Rightarrow> string \<Rightarrow> (rpcErr option) ngo" where
  "bindMount v readOnly mountPath targetPath =
     andThen (guarded v ([''mount'', ''--bind''] @ (if readOnly then [''-o'', ''ro''] else []) @ [mountPath, targetPath])) (\<lambda>r.
     ret (case r of
            Inl err \<Rightarrow> Some (Status InvalidArgument (errText err))
          | Inr CmdOk \<Rightarrow> None
          | Inr (CmdExit c) \<Rightarrow> Some (Status Internal (cmdText (CmdExit c)))
          | Inr (CmdFail permission text) \<Rightarrow>
              if permission then Some (Status PermissionDenied text)
              else if Contains text ''invalid argument'' then Some (Status InvalidArgument text)
              else Some (Status Internal text)))"

definition contextValue :: "volumeContext \<Rightarrow> string \<Rightarrow> string" where
  "contextValue volumeContext key = (case map_of volumeContext key of Some value \<Rightarrow> value | None \<Rightarrow> '''')"

definition publishSource :: "nodeEnv \<Rightarrow> publishRequest \<Rightarrow> (rpcErr option) ngo" where
  "publishSource v req =
     (let readOnly = (prMode req = Some ''MULTI_NODE_READER_ONLY'');
          fluidPath = contextValue (prContext req) ''fluid_path'';
          mountType = (let m = contextValue (prContext req) ''mount_type'' in if m = '''' then ''fuse.alluxio-fuse'' else m);
          subPath = contextValue (prContext req) ''fluid_sub_path'';
          mountPath = (if subPath \<noteq> '''' then fluidPath @ ''/'' @ subPath else fluidPath) in
      if fluidPath = '''' then ret (Some (Status InvalidArgument ''fluid_path is not set''))
      else
        (case ParseMountModeSelectorFromStr (contextValue (prContext req) ''fluid.io/skip-check-mount-ready-target'') of
           Inl err \<Rightarrow> ret (Some (Status InvalidArgument (errText err)))
         | Inr skipped \<Rightarrow>
             andThen (sourceReady v skipped fluidPath mountType subPath mountPath) (\<lambda>err.
             if err \<noteq> None then ret err
             else if useSymlink v req then CreateSymlink v (prTargetPath req) mountPath
             else bindMount v readOnly mountPath (prTargetPath req))))"

definition NodePublishVolume :: "nodeEnv \<Rightarrow> publishRequest \<Rightarrow> nodeServer \<Rightarrow> (rpcErr option \<times> nodeServer) ngo" where
  "NodePublishVolume v req ns =
     (if prTargetPath req = ''''
      then ret (Some (Status InvalidArgument ''NodePublishVolume operation requires targetPath but is not provided''), ns)
      else
        withLock v ''NodePublishVolume'' ''targetPath'' (prTargetPath req)
          (andThen (targetMounted v (prTargetPath req)) (\<lambda>r.
           case r of
             Inl err \<Rightarrow> ret (Some err, ns)
           | Inr isMount \<Rightarrow>
               if isMount then ret (None, ns)
               else andThen (publishSource v req) (\<lambda>err. ret (err, ns)))) ns)"

definition isLikelyNeedUnmount :: "nodeEnv \<Rightarrow> string \<Rightarrow> (pathErr + bool) ngo" where
  "isLikelyNeedUnmount v path =
     andThen (call (\<lambda>h. neNotMountPoint v h path) (CheckedMountPoint path)) (\<lambda>r.
     ret (case r of
            Inr notMount \<Rightarrow> Inr (\<not> notMount)
          | Inl e \<Rightarrow> if IsNotExist e then Inr False else if IsCorruptedMnt e then Inr True else Inl e))"

text \<open>
  The loop that unmounts until the path is not mounted. It may run forever, so it has fuel: \<open>None\<close> is a loop that has not ended
  after \<open>fuel\<close> rounds.
\<close>

fun unmountLoop :: "nat \<Rightarrow> nodeEnv \<Rightarrow> string \<Rightarrow> (rpcErr option) option ngo" where
  "unmountLoop 0 v targetPath = ret None"
| "unmountLoop (Suc fuel) v targetPath =
     andThen (isLikelyNeedUnmount v targetPath) (\<lambda>r.
     case r of
       Inl e \<Rightarrow>
         ret (Some (Some (Status Internal (''NodeUnpublishVolume: fail to check if targetPath '' @ targetPath @ '' needs unmount: '' @
                                         pathText ''stat'' targetPath e))))
     | Inr needUnmount \<Rightarrow>
         if \<not> needUnmount then ret (Some None)
         else
           andThen (call (\<lambda>h. neUnmount v h targetPath) (Unmounted targetPath)) (\<lambda>err.
           case err of
             Some e \<Rightarrow>
               if IsNotExist e then ret (Some None)
               else ret (Some (Some (Status Internal (''NodeUnpublishVolume: umount targetPath '' @ targetPath @ '': '' @ errnoText e))))
           | None \<Rightarrow> unmountLoop fuel v targetPath))"

definition unpublish :: "nat \<Rightarrow> nodeEnv \<Rightarrow> string \<Rightarrow> (rpcErr option) option ngo" where
  "unpublish fuel v targetPath =
     andThen (MountPathExists v targetPath) (\<lambda>(exists, err).
     if \<not> exists then
       ret (Some (case err of
                    Some e \<Rightarrow> Some (Status Internal (''NodeUnpublishVolume: failed to check if path '' @ targetPath @ '' exists: '' @
                                                  pathText ''stat'' targetPath e))
                  | None \<Rightarrow> None))
     else
       andThen (RemoveSymlink v targetPath) (\<lambda>r.
       case r of
         Inl err \<Rightarrow> ret (Some (Some (Status Internal (''NodeUnpublishVolume: remove symlink error '' @ errText err))))
       | Inr symlinkRemove \<Rightarrow>
           if symlinkRemove then ret (Some None)
           else
             andThen (unmountLoop fuel v targetPath) (\<lambda>r.
             case r of
               None \<Rightarrow> ret None
             | Some (Some err) \<Rightarrow> ret (Some (Some err))
             | Some None \<Rightarrow>
                 andThen (call (\<lambda>h. neCleanup v h targetPath) (CleanedUp targetPath)) (\<lambda>err.
                 ret (Some (case err of
                              Some e \<Rightarrow> Some (Status Internal (''NodeUnpublishVolume: failed when cleanupMountPoint on path '' @ targetPath @
                                                            '': '' @ errnoText e))
                            | None \<Rightarrow> None))))))"

text \<open>The lock is held as long as the loop runs.\<close>

definition NodeUnpublishVolume :: "nat \<Rightarrow> nodeEnv \<Rightarrow> string \<Rightarrow> (rpcErr option) option ngo" where
  "NodeUnpublishVolume fuel v targetPath =
     (if targetPath = ''''
      then ret (Some (Some (Status InvalidArgument ''NodeUnpublishVolume operation requires targetPath but is not provided'')))
      else
        andThen (call (\<lambda>h. neTryLock v h targetPath) (TriedLock targetPath)) (\<lambda>lock.
        if \<not> lock
        then ret (Some (Some (Status Aborted (''NodeUnpublishVolume operation on targetPath '' @ targetPath @ '' already exists''))))
        else
          andThen (unpublish fuel v targetPath) (\<lambda>r.
          case r of None \<Rightarrow> ret None | Some err \<Rightarrow> andThen (emit (FreedLock targetPath)) (\<lambda>_. ret (Some err)))))"

text \<open>The node is cached unless the environment forbids to patch a stale one. Both clients read and patch the same node.\<close>

definition getNode :: "nodeEnv \<Rightarrow> nodeServer \<Rightarrow> ((goerr + Node) \<times> nodeServer) ngo" where
  "getNode v ns =
     (if neLookupEnv v ''ALLOW_PATCH_STALE_NODE'' \<in> {None, Some ''true''} \<and> nsNode ns \<noteq> None
      then ret (Inr (the (nsNode ns)), ns)
      else
        andThen (viaWorld v (\<lambda>w. GetNode w (nsNodeId ns))) (\<lambda>r.
        ret (case r of Inl e \<Rightarrow> (Inl e, ns) | Inr node \<Rightarrow> (Inr node, ns\<lparr>nsNode := Some node\<rparr>))))"

definition patchNodeWithLabel :: "nodeEnv \<Rightarrow> Node \<Rightarrow> LabelsToModify \<Rightarrow> (goerr option) ngo" where
  "patchNodeWithLabel v node labelsToModify =
     viaWorld v (\<lambda>w. call (\<lambda>h. kwPatchNode w h (nodeName node) (labelValuePair labelsToModify))
                        (PatchedNode (nodeName node) (labelValuePair labelsToModify)))"

definition checkMountInUse :: "nodeEnv \<Rightarrow> string \<Rightarrow> (goerr + bool) ngo" where
  "checkMountInUse v volumeName =
     (if volumeName = '''' then ret (Inl (Err ''volumeName is not specified''))
      else
        andThen (guarded v [''/usr/local/bin/check_bind_mounts.sh'', volumeName]) (\<lambda>r.
        ret (case r of
               Inl err \<Rightarrow> Inl err
             | Inr CmdOk \<Rightarrow> Inr True
             | Inr (CmdExit c) \<Rightarrow> if c = 1 then Inr False else Inl (Err (cmdText (CmdExit c)))
             | Inr (CmdFail p text) \<Rightarrow> Inl (Err text))))"

text \<open>A failed unmount is tried a second time, and the second result counts.\<close>

definition cleanUpBrokenMountPoint :: "nodeEnv \<Rightarrow> string \<Rightarrow> (goerr option) ngo" where
  "cleanUpBrokenMountPoint v mountPoint =
     andThen (osStat v mountPoint) (\<lambda>err.
     case err of
       None \<Rightarrow> ret None
     | Some e \<Rightarrow>
         if IsNotExist e then ret None
         else if e = ENOTCONN then
           andThen (call (\<lambda>h. neUnmount v h mountPoint) (Unmounted mountPoint)) (\<lambda>err.
           case err of
             None \<Rightarrow> ret None
           | Some _ \<Rightarrow>
               andThen (call (\<lambda>h. neUnmount v h mountPoint) (Unmounted mountPoint)) (\<lambda>err.
               ret (case err of
                      None \<Rightarrow> None
                    | Some e \<Rightarrow> Some (Wrapped (''failed to unmount '' @ mountPoint) (Err (errnoText e))))))
         else ret (Some (Wrapped (''failed to os.Stat('' @ mountPoint @ '')'') (Err (pathText ''stat'' mountPoint e)))))"

fun waitForFile :: "nat \<Rightarrow> nodeEnv \<Rightarrow> string \<Rightarrow> bool ngo" where
  "waitForFile 0 v path = ret False"
| "waitForFile (Suc n) v path =
     andThen (osStat v path) (\<lambda>err. if err = None then ret True else waitForFile n v path)"

definition prepareSessMgr :: "nodeEnv \<Rightarrow> string \<Rightarrow> nodeServer \<Rightarrow> (goerr option \<times> nodeServer) ngo" where
  "prepareSessMgr v workDir ns =
     andThen (getNode v ns) (\<lambda>(r, ns).
     case r of
       Inl err \<Rightarrow> ret (Some (Wrapped (''can'' @ CHR 0x27 # ''t get node '' @ nsNodeId ns) err), ns)
     | Inr node \<Rightarrow>
         andThen (patchNodeWithLabel v node (labelsAdd ''fluid.io/efc-sessmgr'' ''true'' [])) (\<lambda>err.
         case err of
           Some e \<Rightarrow> ret (Some (Wrapped (''error when patching labels on node '' @ nsNodeId ns) e), ns)
         | None \<Rightarrow>
             andThen (waitForFile 30 v (JoinPath [workDir, ''sessmgrd.sock''])) (\<lambda>found.
             ret (if found then None else Some (Err ''timeout waiting for SessMgr Pod to be ready''), ns))))"

definition getRuntimeNamespacedName :: "nodeEnv \<Rightarrow> volumeContext \<Rightarrow> string \<Rightarrow> (goerr + string \<times> string) ngo" where
  "getRuntimeNamespacedName v volumeContext volumeId =
     (case (map_of volumeContext ''runtime_name'', map_of volumeContext ''runtime_namespace'') of
        (Some name, Some namespace) \<Rightarrow> ret (Inr (namespace, name))
      | _ \<Rightarrow> viaWorld v (\<lambda>w. GetNamespacedNameByVolumeId w volumeId))"

text \<open>The key of the label that makes the fuse pod run on the node.\<close>

definition stageLabelKey :: "nodeEnv \<Rightarrow> volumeContext \<Rightarrow> string \<Rightarrow> string \<Rightarrow> (goerr + string) ngo" where
  "stageLabelKey v volumeContext name namespace =
     (let fuseLabelKey = contextValue volumeContext ''mount_pod_node_selector_key'' in
      if fuseLabelKey \<noteq> '''' then ret (Inr fuseLabelKey)
      else
        andThen (viaWorld v (\<lambda>w. GetRuntimeInfo w (neMetadataList v) name namespace)) (\<lambda>r.
        ret (case r of
               Inl err \<Rightarrow> Inl (Wrapped (''NodeStageVolume: failed to get runtime info for '' @ namespace @ ''/'' @ name) err)
             | Inr info \<Rightarrow> Inr (fuseLabel info))))"

definition labelNode :: "nodeEnv \<Rightarrow> string \<Rightarrow> LabelsToModify \<Rightarrow> nodeServer \<Rightarrow> (goerr option \<times> nodeServer) ngo" where
  "labelNode v operation labelsToModify ns =
     andThen (getNode v ns) (\<lambda>(r, ns).
     case r of
       Inl err \<Rightarrow> ret (Some (Wrapped (operation @ '': can'' @ CHR 0x27 # ''t get node '' @ nsNodeId ns) err), ns)
     | Inr node \<Rightarrow>
         andThen (patchNodeWithLabel v node labelsToModify) (\<lambda>err.
         ret (case err of
                Some e \<Rightarrow> Some (Wrapped (operation @ '': error when patching labels on node '' @ nsNodeId ns) e)
              | None \<Rightarrow> None, ns)))"

definition stage :: "nodeEnv \<Rightarrow> stageRequest \<Rightarrow> nodeServer \<Rightarrow> (goerr option \<times> nodeServer) ngo" where
  "stage v req ns =
     (let sessMgrWorkDir = contextValue (srContext req) ''efc_sessmgr_workdir'' in
      andThen (if sessMgrWorkDir \<noteq> '''' then prepareSessMgr v sessMgrWorkDir ns else ret (None, ns)) (\<lambda>(err, ns).
      case err of
        Some e \<Rightarrow> ret (Some (Wrapped ''NodeStageVolume: fail to prepare SessMgr'' e), ns)
      | None \<Rightarrow>
          andThen (cleanUpBrokenMountPoint v (contextValue (srContext req) ''fluid_path'')) (\<lambda>_.
          andThen (getRuntimeNamespacedName v (srContext req) (srVolumeId req)) (\<lambda>r.
          case r of
            Inl err \<Rightarrow>
              ret (Some (Wrapped (''NodeStageVolume: can'' @ CHR 0x27 # ''t get namespace and name by volume id '' @ srVolumeId req) err), ns)
          | Inr (namespace, name) \<Rightarrow>
              andThen (stageLabelKey v (srContext req) name namespace) (\<lambda>r.
              case r of
                Inl err \<Rightarrow> ret (Some err, ns)
              | Inr fuseLabelKey \<Rightarrow> labelNode v ''NodeStageVolume'' (labelsAdd fuseLabelKey ''true'' []) ns)))))"

definition NodeStageVolume :: "nodeEnv \<Rightarrow> stageRequest \<Rightarrow> nodeServer \<Rightarrow> (rpcErr option \<times> nodeServer) ngo" where
  "NodeStageVolume v req ns =
     (if srVolumeId req = ''''
      then ret (Some (Status InvalidArgument ''NodeStageVolume operation requires volumeId but is not provided''), ns)
      else
        withLock v ''NodeStageVolume'' ''volumeId'' (srVolumeId req)
          (andThen (stage v req ns) (\<lambda>(err, ns). ret (map_option Plain err, ns))) ns)"

definition checkIfFuseNeedUpdate :: "nodeEnv \<Rightarrow> RuntimeInfo \<Rightarrow> string \<Rightarrow> bool ngo" where
  "checkIfFuseNeedUpdate v runtimeInfo latestFuseImageVersion =
     (if latestFuseImageVersion = '''' then ret False
      else
        andThen (LoadCurrentFuseGenerationFromMeta v (riNamespace runtimeInfo) (riName runtimeInfo) (riRuntimeType runtimeInfo)) (\<lambda>r.
        ret (case r of
               Inl _ \<Rightarrow> False
             | Inr currentImageVersion \<Rightarrow> currentImageVersion \<noteq> '''' \<and> currentImageVersion \<noteq> latestFuseImageVersion)))"

definition shouldCleanFuse :: "nodeEnv \<Rightarrow> RuntimeInfo \<Rightarrow> string \<Rightarrow> (goerr + bool) ngo" where
  "shouldCleanFuse v runtimeInfo latestFuseGeneration =
     (if riFuseCleanPolicy runtimeInfo = ''OnDemand'' then ret (Inr True)
      else if riFuseCleanPolicy runtimeInfo = ''OnRuntimeDeleted'' then ret (Inr False)
      else if riFuseCleanPolicy runtimeInfo = ''OnFuseChanged'' then
        andThen (checkIfFuseNeedUpdate v runtimeInfo latestFuseGeneration) (\<lambda>needUpdate. ret (Inr needUpdate))
      else ret (Inl (Err (''NodeUnstageVolume: unknown Fuse clean policy: '' @ riFuseCleanPolicy runtimeInfo))))"

text \<open>The function that \<open>getCleanFuseFunc\<close> returns is given by the volume and the information that it uses.\<close>

definition getCleanFuseFunc :: "nodeEnv \<Rightarrow> string \<Rightarrow> (goerr + (PersistentVolume \<times> RuntimeInfo) option) ngo" where
  "getCleanFuseFunc v volumeId =
     andThen (viaWorld v (\<lambda>w. GetVolumePairByVolumeId w volumeId)) (\<lambda>r.
     case r of
       Inl err \<Rightarrow>
         if IsNotFound err then ret (Inr None)
         else ret (Inl (Wrapped (''NodeUnstageVolume: can'' @ CHR 0x27 # ''t get namespace and name by volume id '' @ volumeId) err))
     | Inr (pvc, pv) \<Rightarrow>
         let namespace = omNamespace (pvcMeta pvc); name = omName (pvcMeta pvc) in
         andThen (viaWorld v (\<lambda>w. GetRuntimeInfo w (neMetadataList v) name namespace)) (\<lambda>r.
         case r of
           Inl err \<Rightarrow>
             if IsNotFound err then ret (Inr None)
             else ret (Inl (Wrapped (''NodeUnstageVolume: failed to get runtime info for '' @ namespace @ ''/'' @ name) err))
         | Inr runtimeInfo \<Rightarrow>
             andThen (shouldCleanFuse v runtimeInfo (contextValue (omLabels (pvcMeta pvc)) fuseGenerationKey)) (\<lambda>r.
             ret (case r of
                    Inl err \<Rightarrow> Inl err
                  | Inr clean \<Rightarrow> Inr (if clean then Some (pv, runtimeInfo) else None)))))"

definition unstageLabelKey :: "PersistentVolume \<Rightarrow> RuntimeInfo \<Rightarrow> string" where
  "unstageLabelKey pv runtimeInfo =
     (let fuseLabelKey = contextValue (pvAttributes pv) ''mount_pod_node_selector_key'' in
      if fuseLabelKey = '''' then fuseLabel runtimeInfo else fuseLabelKey)"

definition cleanFuse :: "nodeEnv \<Rightarrow> string \<Rightarrow> PersistentVolume \<Rightarrow> RuntimeInfo \<Rightarrow> nodeServer \<Rightarrow> (goerr option \<times> nodeServer) ngo" where
  "cleanFuse v volumeId pv runtimeInfo ns =
     andThen (checkMountInUse v volumeId) (\<lambda>r.
     case r of
       Inl err \<Rightarrow> ret (Some (Wrapped (''NodeUnstageVolume: can'' @ CHR 0x27 # ''t check mount in use'') err), ns)
     | Inr busy \<Rightarrow>
         if busy then
           ret (Some (Err (''NodeUnstageVolume: can'' @ CHR 0x27 # ''t stop fuse cause it'' @ CHR 0x27 # ''s in use'')), ns)
         else labelNode v ''NodeUnstageVolume'' (labelsDelete (unstageLabelKey pv runtimeInfo) []) ns)"

definition unstage :: "nodeEnv \<Rightarrow> string \<Rightarrow> nodeServer \<Rightarrow> (goerr option \<times> nodeServer) ngo" where
  "unstage v volumeId ns =
     andThen (getCleanFuseFunc v volumeId) (\<lambda>r.
     case r of
       Inl err \<Rightarrow> ret (Some err, ns)
     | Inr None \<Rightarrow> ret (None, ns)
     | Inr (Some (pv, runtimeInfo)) \<Rightarrow>
         andThen (cleanFuse v volumeId pv runtimeInfo ns) (\<lambda>(err, ns).
         ret (map_option (Wrapped (''NodeUnstageVolume: failed to clean fuse for volume '' @ volumeId)) err, ns)))"

definition NodeUnstageVolume :: "nodeEnv \<Rightarrow> string \<Rightarrow> nodeServer \<Rightarrow> (rpcErr option \<times> nodeServer) ngo" where
  "NodeUnstageVolume v volumeId ns =
     (if volumeId = ''''
      then ret (Some (Status InvalidArgument ''NodeUnstageVolume operation requires volumeId but is not provided''), ns)
      else
        withLock v ''NodeUnstageVolume'' ''volumeId'' volumeId
          (andThen (unstage v volumeId ns) (\<lambda>(err, ns). ret (map_option Plain err, ns))) ns)"

definition NodeExpandVolume :: "rpcErr option" where
  "NodeExpandVolume = Some (Status Unimplemented '''')"

section \<open>controller.go\<close>

text \<open>
  \<open>sha1Hex\<close> is the SHA-1 digest in hexadecimal and \<open>invalid\<close> what the driver says of the request. A capability is its access
  mode.
\<close>

definition toLowerChar :: "char \<Rightarrow> char" where
  "toLowerChar c = (let n = of_char c in if 65 \<le> n \<and> n \<le> (90 :: nat) then char_of (n + 32) else c)"

definition sanitizeVolumeID :: "(string \<Rightarrow> string) \<Rightarrow> string \<Rightarrow> string" where
  "sanitizeVolumeID sha1Hex volumeID =
     (let volumeID = map toLowerChar volumeID in if 63 < length volumeID then sha1Hex volumeID else volumeID)"

definition ControllerCreateVolume ::
  "(string \<Rightarrow> string) \<Rightarrow> rpcErr option \<Rightarrow> string \<Rightarrow> string list option \<Rightarrow> int \<Rightarrow> volumeContext \<Rightarrow> rpcErr + string \<times> int \<times> volumeContext" where
  "ControllerCreateVolume sha1Hex invalid name capabilities requiredBytes parameters =
     (let volumeID = sanitizeVolumeID sha1Hex name in
      case invalid of
        Some err \<Rightarrow> Inl err
      | None \<Rightarrow>
          if volumeID = '''' then Inl (Status InvalidArgument ''Name missing in request'')
          else if capabilities = None then Inl (Status InvalidArgument ''Volume Capabilities missing in request'')
          else Inr (volumeID, requiredBytes, parameters))"

definition ControllerDeleteVolume :: "rpcErr option \<Rightarrow> string \<Rightarrow> rpcErr option" where
  "ControllerDeleteVolume invalid volumeID =
     (if volumeID = '''' then Some (Status InvalidArgument ''Volume ID missing in request'') else invalid)"

definition ValidateVolumeCapabilities :: "string \<Rightarrow> string list option \<Rightarrow> rpcErr + (string list + string)" where
  "ValidateVolumeCapabilities volumeID capabilities =
     (if volumeID = '''' then Inl (Status InvalidArgument ''Volume ID missing in request'')
      else
        (case capabilities of
           None \<Rightarrow> Inl (Status InvalidArgument ''Volume capabilities missing in request'')
         | Some modes \<Rightarrow>
             if list_ex (\<lambda>mode. mode \<noteq> ''SINGLE_NODE_WRITER'') modes then Inr (Inr ''Only single node writer is supported'')
             else Inr (Inl [''SINGLE_NODE_WRITER''])))"

section \<open>The lock\<close>

lemma completes_viaWorld [completes_rules]:
  assumes "\<And>w. completes (\<lambda>k. P (World k)) (m w)"
  shows "completes P (viaWorld v m)"
  unfolding completes_def
proof
  fix h
  obtain a es where "m (neWorld v h) (worldHistory h) = (Ret a, worldHistory h @ es)" "list_all (\<lambda>k. P (World k)) es"
    using assms unfolding completes_def by blast
  then show "\<exists>a es. viaWorld v m h = (Ret a, h @ es) \<and> list_all P es"
    by (intro exI [of _ a] exI [of _ "map World es"]) (simp add: viaWorld_def list.pred_map comp_def)
qed

definition lockFree :: "nevent \<Rightarrow> bool" where
  "lockFree e \<longleftrightarrow> (\<forall>key ok. e \<noteq> TriedLock key ok \<and> e \<noteq> FreedLock key)"

lemma lockFree_simps [simp]:
  "lockFree (World k)" "lockFree (Statted p e)" "lockFree (Lstatted p r)" "lockFree (ReadMounts r1)" "lockFree (MadeDir p e)"
  "lockFree (RemovedPath p e)" "lockFree (Symlinked p q e)" "lockFree (Ran c r2)" "lockFree (CheckedMountPoint p r)"
  "lockFree (Unmounted p e)" "lockFree (CleanedUp p e)" "lockFree (OpenedFile p r1)"
  by (auto simp: lockFree_def)

text \<open>Nothing happens, or the lock is refused, or it is taken first and freed last.\<close>

definition lockedRun :: "string \<Rightarrow> nevent list \<Rightarrow> nevent list \<Rightarrow> bool" where
  "lockedRun key h h' \<longleftrightarrow>
     (\<exists>es. h' = h @ es \<and> (es = [] \<or> es = [TriedLock key False] \<or>
        (\<exists>mid. es = TriedLock key True # mid @ [FreedLock key] \<and> list_all lockFree mid)))"

lemma withLock_run:
  assumes "completes lockFree body"
  shows "\<exists>a. fst (withLock v operation what key body s h) = Ret a \<and> lockedRun key h (snd (withLock v operation what key body s h))"
proof -
  obtain a es where "body (h @ [TriedLock key True]) = (Ret a, (h @ [TriedLock key True]) @ es)" "list_all lockFree es"
    using assms unfolding completes_def by blast
  then show ?thesis
    by (auto simp: withLock_def andThen_def call_def ret_def emit_def lockedRun_def)
qed

lemma completes_guarded [completes_rules]: "(\<And>r. P (Ran command r)) \<Longrightarrow> completes P (guarded v command)"
  unfolding guarded_def by (auto intro!: completes_rules)

lemma completes_osStat [completes_rules]: "(\<And>e. P (Statted path e)) \<Longrightarrow> completes P (osStat v path)"
  unfolding osStat_def by (auto intro!: completes_rules)

lemma completes_pollHost [completes_rules]: "completes P cond \<Longrightarrow> completes P (pollHost v cond)"
  using completes_pollLoop [of P cond] by (simp add: completes_def pollHost_def del: pollLoop.simps)

lemma completes_publish: "completes lockFree (targetMounted v path)" "completes lockFree (publishSource v req)"
  unfolding targetMounted_def IsMounted_def publishSource_def sourceReady_def checkMountPathExists_def CheckMountReadyAndSubPathExist_def bindMount_def
    CreateSymlink_def Let_def
  by (auto intro!: completes_rules)

lemma completes_info: "completes (\<lambda>k. lockFree (World k)) (GetRuntimeInfo w f name namespace)"
  unfolding GetRuntimeInfo_def GetDataset_def getRuntimeObject_def Let_def
  by (auto intro!: completes_rules)

lemma completes_labelNode: "completes lockFree (labelNode v operation ls ns)"
  unfolding labelNode_def getNode_def patchNodeWithLabel_def GetNode_def
  by (auto intro!: completes_rules split: prod.splits bool.splits)

lemma completes_waitForFile: "completes lockFree (waitForFile n v path)"
  by (induction n) (auto intro!: completes_rules)

lemma completes_stage: "completes lockFree (stage v req ns)"
  unfolding stage_def prepareSessMgr_def cleanUpBrokenMountPoint_def getRuntimeNamespacedName_def stageLabelKey_def Let_def
    GetNamespacedNameByVolumeId_def GetPersistentVolume_def GetPersistentVolumeClaim_def getNode_def patchNodeWithLabel_def GetNode_def
  by (auto intro!: completes_rules completes_labelNode completes_waitForFile completes_info split: option.splits)

lemma completes_unstage: "completes lockFree (unstage v volumeId ns)"
  unfolding unstage_def getCleanFuseFunc_def cleanFuse_def checkMountInUse_def shouldCleanFuse_def checkIfFuseNeedUpdate_def
    LoadCurrentFuseGenerationFromMeta_def Let_def GetVolumePairByVolumeId_def GetPersistentVolume_def GetPersistentVolumeClaim_def
  by (auto intro!: completes_rules completes_labelNode completes_info split: option.splits)

lemma completes_unmountLoop: "completes lockFree (unmountLoop n v path)"
  by (induction n) (auto simp: isLikelyNeedUnmount_def intro!: completes_rules)

lemma completes_unpublish: "completes lockFree (unpublish n v path)"
  unfolding unpublish_def MountPathExists_def RemoveSymlink_def
  by (auto intro!: completes_rules completes_unmountLoop split: option.splits)

lemma lockedRun_refl [simp]: "lockedRun key h h"
  by (simp add: lockedRun_def)

lemma completes_calls:
  "completes lockFree (andThen (targetMounted v path) (\<lambda>r.
     case r of Inl err \<Rightarrow> ret (Some err, ns)
     | Inr isMount \<Rightarrow> if isMount then ret (None, ns) else andThen (publishSource v req) (\<lambda>err. ret (err, ns))))"
  "completes lockFree (andThen (stage v sreq ns) (\<lambda>(err, ns). ret (map_option Plain err, ns)))"
  "completes lockFree (andThen (unstage v volumeId ns) (\<lambda>(err, ns). ret (map_option Plain err, ns)))"
  by (auto intro!: completes_rules completes_publish completes_stage completes_unstage)

text \<open>
  C21. Each of the four calls of the node server returns without a panic, and its events are: none at all (an invalid request), a refused lock and nothing else, or the lock on the target path or the volume first, its release last and no other lock event between them; unpublishing may also not return while the host keeps reporting a mount.
\<close>

theorem node_calls_locked:
  "(\<exists>a. fst (NodePublishVolume v req ns h) = Ret a \<and> lockedRun (prTargetPath req) h (snd (NodePublishVolume v req ns h))) \<and>
   (\<exists>a. fst (NodeStageVolume v sreq ns h) = Ret a \<and> lockedRun (srVolumeId sreq) h (snd (NodeStageVolume v sreq ns h))) \<and>
   (\<exists>a. fst (NodeUnstageVolume v volumeId ns h) = Ret a \<and> lockedRun volumeId h (snd (NodeUnstageVolume v volumeId ns h))) \<and>
   (fst (NodeUnpublishVolume fuel v path h) = Ret None \<or>
    (\<exists>err. fst (NodeUnpublishVolume fuel v path h) = Ret (Some err) \<and> lockedRun path h (snd (NodeUnpublishVolume fuel v path h))))"
proof (intro conjI)
  show "\<exists>a. fst (NodePublishVolume v req ns h) = Ret a \<and> lockedRun (prTargetPath req) h (snd (NodePublishVolume v req ns h))"
    unfolding NodePublishVolume_def
    by (cases "prTargetPath req = ''''"; simp only: if_True if_False simp_thms; (rule withLock_run [OF completes_calls(1)] | simp add: ret_def))
  show "\<exists>a. fst (NodeStageVolume v sreq ns h) = Ret a \<and> lockedRun (srVolumeId sreq) h (snd (NodeStageVolume v sreq ns h))"
    unfolding NodeStageVolume_def
    by (cases "srVolumeId sreq = ''''"; simp only: if_True if_False simp_thms; (rule withLock_run [OF completes_calls(2)] | simp add: ret_def))
  show "\<exists>a. fst (NodeUnstageVolume v volumeId ns h) = Ret a \<and> lockedRun volumeId h (snd (NodeUnstageVolume v volumeId ns h))"
    unfolding NodeUnstageVolume_def
    by (cases "volumeId = ''''"; simp only: if_True if_False simp_thms; (rule withLock_run [OF completes_calls(3)] | simp add: ret_def))
  obtain r es where "unpublish fuel v path (h @ [TriedLock path True]) = (Ret r, (h @ [TriedLock path True]) @ es)" "list_all lockFree es"
    using completes_unpublish unfolding completes_def by blast
  then show "fst (NodeUnpublishVolume fuel v path h) = Ret None \<or>
    (\<exists>err. fst (NodeUnpublishVolume fuel v path h) = Ret (Some err) \<and> lockedRun path h (snd (NodeUnpublishVolume fuel v path h)))"
    by (cases r) (auto simp: NodeUnpublishVolume_def andThen_def call_def ret_def emit_def lockedRun_def)
qed

section \<open>Unmounting\<close>

text \<open>
  The mounts on a path of which there are \<open>n\<close> at the start, if each unmount takes one away. The host answers that the path is a
  mount, or a corrupted one, only if a mount is left. The check of the mount library may miss one; a host on which it misses none is \<open>detectsMounts\<close>.
\<close>

definition mountsLeft :: "nat \<Rightarrow> string \<Rightarrow> nevent list \<Rightarrow> nat" where
  "mountsLeft n path h = n - length (filter (\<lambda>e. e = Unmounted path None) h)"

definition reportsMounts :: "nodeEnv \<Rightarrow> string \<Rightarrow> nat \<Rightarrow> bool" where
  "reportsMounts v path n \<longleftrightarrow>
     (\<forall>h. neNotMountPoint v h path = Inr False \<or> (\<exists>e. neNotMountPoint v h path = Inl e \<and> IsCorruptedMnt e) \<longrightarrow> 0 < mountsLeft n path h)"

definition detectsMounts :: "nodeEnv \<Rightarrow> string \<Rightarrow> nat \<Rightarrow> bool" where
  "detectsMounts v path n \<longleftrightarrow>
     (\<forall>h. neNotMountPoint v h path \<in> {Inr True, Inl ENOENT} \<or> neUnmount v h path = Some ENOENT \<longrightarrow> mountsLeft n path h = 0)"

definition unmounts :: "string \<Rightarrow> nevent list \<Rightarrow> nat" where
  "unmounts path es = length (filter (\<lambda>e. e = Unmounted path None) es)"

text \<open>The answers by which the path is no mount, and the runs that end well.\<close>

definition notMounted :: "string \<Rightarrow> nevent \<Rightarrow> bool" where
  "notMounted path ev \<longleftrightarrow>
     ev \<in> {CheckedMountPoint path (Inr True), CheckedMountPoint path (Inl ENOENT), Unmounted path (Some ENOENT)}"

definition unpublished :: "string \<Rightarrow> nevent list \<Rightarrow> bool" where
  "unpublished path es \<longleftrightarrow>
     es = [TriedLock path True, Statted path (Some ENOENT), FreedLock path] \<or>
     (\<exists>st rm. es = [TriedLock path True, Statted path st, Lstatted path (Inr True), RemovedPath path rm, FreedLock path] \<and>
        rm \<in> {None, Some ENOENT}) \<or>
     (\<exists>es1 gone. es = TriedLock path True # es1 @ [gone, CleanedUp path None, FreedLock path] \<and> notMounted path gone)"

lemma mountsLeft_append: "mountsLeft n path (h @ es) = mountsLeft n path h - unmounts path es"
  by (simp add: mountsLeft_def unmounts_def)

lemma unmounts_simps [simp]:
  "unmounts path [] = 0" "unmounts path (es @ es') = unmounts path es + unmounts path es'"
  "unmounts path (e # es) = (if e = Unmounted path None then 1 else 0) + unmounts path es"
  by (simp_all add: unmounts_def)

definition unmountEnds :: "nodeEnv \<Rightarrow> string \<Rightarrow> nat \<Rightarrow> nevent list \<Rightarrow> rpcErr option \<Rightarrow> nevent list \<Rightarrow> bool" where
  "unmountEnds v path n h err es \<longleftrightarrow> unmounts path es \<le> mountsLeft n path h \<and>
     (err = None \<longrightarrow> (\<exists>es1 gone. es = es1 @ [gone] \<and> notMounted path gone) \<and> (detectsMounts v path n \<longrightarrow> mountsLeft n path (h @ es) = 0))"

lemma unmountEnds_step:
  "0 < mountsLeft n path h \<Longrightarrow> unmountEnds v path n (h @ [CheckedMountPoint path a, Unmounted path None]) r es \<Longrightarrow>
   unmountEnds v path n h r (CheckedMountPoint path a # Unmounted path None # es)"
  by (fastforce simp: unmountEnds_def mountsLeft_append)

lemma unmountEnds_cases:
  assumes "a = neNotMountPoint v h path" and "b = neUnmount v (h @ [CheckedMountPoint path a]) path"
  shows "a \<in> {Inr True, Inl ENOENT} \<Longrightarrow> unmountEnds v path n h None [CheckedMountPoint path a]"
    "unmountEnds v path n h (Some err) [CheckedMountPoint path a]"
    "b = Some ENOENT \<Longrightarrow> unmountEnds v path n h None [CheckedMountPoint path a, Unmounted path b]"
    "b \<noteq> None \<Longrightarrow> unmountEnds v path n h (Some err) [CheckedMountPoint path a, Unmounted path b]"
proof -
  show "unmountEnds v path n h None [CheckedMountPoint path a]" if "a \<in> {Inr True, Inl ENOENT}"
  proof -
    have "detectsMounts v path n \<longrightarrow> mountsLeft n path h = 0" using that unfolding assms(1) detectsMounts_def by blast
    with that show ?thesis by (auto simp: unmountEnds_def notMounted_def mountsLeft_append)
  qed
  show "unmountEnds v path n h None [CheckedMountPoint path a, Unmounted path b]" if "b = Some ENOENT"
  proof -
    have "detectsMounts v path n \<longrightarrow> mountsLeft n path (h @ [CheckedMountPoint path a]) = 0"
      using that assms(2) unfolding detectsMounts_def by metis
    with that show ?thesis by (simp add: unmountEnds_def notMounted_def mountsLeft_append)
  qed
qed (auto simp: unmountEnds_def)

lemma wp_unmountLoop:
  assumes "reportsMounts v path n" and "mountsLeft n path h < fuel"
  shows "wp (unmountLoop fuel v path) (\<lambda>r h'. \<exists>err es. r = Ret (Some err) \<and> h' = h @ es \<and> unmountEnds v path n h err es) h"
  using assms(2)
proof (induction fuel arbitrary: h)
  case (Suc fuel)
  obtain a where a: "a = neNotMountPoint v h path" by simp
  obtain b where b: "b = neUnmount v (h @ [CheckedMountPoint path a]) path" by simp
  let ?h2 = "h @ [CheckedMountPoint path a, Unmounted path None]"
  note ends = unmountEnds_cases [OF a b, of n] and host = a [symmetric] b [symmetric]
  have mounted: "0 < mountsLeft n path h" if "a = Inr False \<or> (\<exists>e. a = Inl e \<and> IsCorruptedMnt e)"
    using assms(1) that unfolding reportsMounts_def a by blast
  consider (free) "a \<in> {Inr True, Inl ENOENT}" | (wrong) e where "a = Inl e" "e \<noteq> ENOENT" "\<not> IsCorruptedMnt e"
    | (mount) "a = Inr False \<or> (\<exists>e. a = Inl e \<and> e \<noteq> ENOENT \<and> IsCorruptedMnt e)"
    by (cases a) auto
  then show ?case
  proof cases
    case mount
    have "mountsLeft n path ?h2 < fuel" using mounted mount Suc.prems by (auto simp: mountsLeft_append)
    from Suc.IH [OF this] have again: "wp (unmountLoop fuel v path)
        (\<lambda>r h'. \<exists>err es. r = Ret (Some err) \<and> h' = h @ es \<and> unmountEnds v path n h err es) ?h2"
      using mounted mount by (elim wp_mono) (auto intro!: unmountEnds_step)
    show ?thesis
    proof (cases b)
      case None
      with host mount again show ?thesis by (auto simp: isLikelyNeedUnmount_def wp_rules IsNotExist_def)
    next
      case (Some e)
      with host mount ends(3,4) show ?thesis by (auto simp: isLikelyNeedUnmount_def wp_rules IsNotExist_def)
    qed
  qed (use host ends(1,2) in \<open>auto simp: isLikelyNeedUnmount_def wp_rules IsNotExist_def\<close>)
qed simp

definition unpublishEnds :: "nodeEnv \<Rightarrow> string \<Rightarrow> nat \<Rightarrow> nevent list \<Rightarrow> rpcErr option \<Rightarrow> nevent list \<Rightarrow> bool" where
  "unpublishEnds v path n h err es \<longleftrightarrow> unmounts path es \<le> mountsLeft n path h \<and>
     (err = None \<longrightarrow> unpublished path es \<and> (detectsMounts v path n \<and> CleanedUp path None \<in> set es \<longrightarrow> mountsLeft n path (h @ es) = 0))"

lemma unpublishEnds_early:
  "unmounts path es = 0 \<Longrightarrow> unpublishEnds v path n h (Some e) es"
  "unpublishEnds v path n h None [TriedLock path True, Statted path (Some ENOENT), FreedLock path]"
  "rm \<in> {None, Some ENOENT} \<Longrightarrow>
   unpublishEnds v path n h None [TriedLock path True, Statted path st, Lstatted path (Inr True), RemovedPath path rm, FreedLock path]"
  by (auto simp: unpublishEnds_def unpublished_def)

lemma unpublishEnds_loop:
  assumes "unmountEnds v path n (h @ [TriedLock path True, Statted path st, Lstatted path ls]) err es"
  shows "unmounts path es' = 0 \<Longrightarrow> unpublishEnds v path n h (Some e) (TriedLock path True # Statted path st # Lstatted path ls # es @ es')"
    "err = None \<Longrightarrow>
     unpublishEnds v path n h None (TriedLock path True # Statted path st # Lstatted path ls # es @ [CleanedUp path None, FreedLock path])"
proof -
  show "unpublishEnds v path n h (Some e) (TriedLock path True # Statted path st # Lstatted path ls # es @ es')" if "unmounts path es' = 0"
    using assms that by (simp add: unmountEnds_def unpublishEnds_def mountsLeft_append)
  assume "err = None"
  with assms obtain es1 gone where es: "es = es1 @ [gone]" "notMounted path gone" by (auto simp: unmountEnds_def)
  then have "unpublished path (TriedLock path True # Statted path st # Lstatted path ls # es @ [CleanedUp path None, FreedLock path])"
    by (auto simp: unpublished_def intro!: exI [of _ "_ # _ # es1"])
  then show "unpublishEnds v path n h None (TriedLock path True # Statted path st # Lstatted path ls # es @ [CleanedUp path None, FreedLock path])"
    using assms \<open>err = None\<close> by (simp add: unmountEnds_def unpublishEnds_def mountsLeft_append)
qed

text \<open>
  C22. Unpublishing ends, and succeeds only once the path is said to be no mount. If the host reports a mount on the target path, or a corrupted
  one, only while one of the \<open>n\<close> mounts is left that were there at the start, where every unmount that succeeds takes one away, then
  the call returns, one round more than the number of mounts being enough, and has not unmounted more often than there were mounts.
  It succeeds only if the path does not exist, if it was a symbolic link and is removed, or if the last answer
  was that the path is not a mount or is gone, and it is then cleaned up without error. The check of the mount library may miss a bind
  mount, as the note at \<open>isLikelyNeedUnmount\<close> says; if it misses none and the path was neither absent nor a link, then no mount is left.
\<close>

theorem unpublish_unmounts_all:
  assumes "reportsMounts v path n" and "path \<noteq> ''''" and "neTryLock v h path" and "mountsLeft n path h < fuel"
  shows "\<exists>err es. NodeUnpublishVolume fuel v path h = (Ret (Some err), h @ es) \<and> unmounts path es \<le> mountsLeft n path h \<and>
    (err = None \<longrightarrow> unpublished path es \<and> (detectsMounts v path n \<and> CleanedUp path None \<in> set es \<longrightarrow> mountsLeft n path (h @ es) = 0))"
proof -
  let ?h = "\<lambda>st ls. h @ [TriedLock path True, Statted path st, Lstatted path ls]"
  have loop: "wp (unmountLoop fuel v path) (\<lambda>r h'. \<exists>err es. r = Ret (Some err) \<and> h' = ?h st ls @ es \<and> unmountEnds v path n (?h st ls) err es) (?h st ls)" for st ls
    by (rule wp_unmountLoop [OF assms(1)]) (use assms(4) in \<open>simp add: mountsLeft_append\<close>)
  have "wp (NodeUnpublishVolume fuel v path) (\<lambda>r h'. \<exists>err es. r = Ret (Some err) \<and> h' = h @ es \<and> unpublishEnds v path n h err es) h"
    unfolding NodeUnpublishVolume_def unpublish_def MountPathExists_def RemoveSymlink_def osStat_def using assms(2,3)
    by (auto simp: wp_rules IsNotExist_def unpublishEnds_early split: option.splits sum.splits if_splits
        intro!: wp_mono [OF loop] unpublishEnds_loop)
  then show ?thesis unfolding wp_def unpublishEnds_def by (auto split: prod.splits)
qed

text \<open>The loop does not end when the host reports a mount after every unmount.\<close>

lemma unmountLoop_stuck:
  assumes "\<And>h. neNotMountPoint v h path = Inr False" and "\<And>h. neUnmount v h path = None"
  shows "fst (unmountLoop fuel v path h) = Ret None"
  using assms by (induction fuel arbitrary: h) (auto simp: isLikelyNeedUnmount_def andThen_def call_def ret_def)

definition idleNode :: nodeEnv where
  "idleNode =
     \<lparr>neWorld = \<lambda>_. downWorld, neTryLock = \<lambda>_ _. True, neStat = \<lambda>_ _. None, neLstat = \<lambda>_ _. Inr False, neReadMounts = \<lambda>_. Inr '''',
      neMkdirAll = \<lambda>_ _. None, neRemove = \<lambda>_ _. None, neSymlink = \<lambda>_ _ _. None, neRun = \<lambda>_ _. CmdOk, neNotMountPoint = \<lambda>_ _. Inr True,
      neUnmount = \<lambda>_ _. None, neCleanup = \<lambda>_ _. None, neOpen = \<lambda>_ _. Inl ENOENT, neLookPath = \<lambda>_. None, neLookupEnv = \<lambda>_. None,
      neMountRoot = Inr ''/runtime-mnt'', nePolls = \<lambda>_. 15, neMetadataList = \<lambda>_. []\<rparr>"

definition twiceMounted :: nodeEnv where
  "twiceMounted = idleNode\<lparr>neNotMountPoint := \<lambda>h path. Inr (mountsLeft 2 path h = 0)\<rparr>"

theorem unpublish_unmounts_all_witness:
  "\<exists>es. NodeUnpublishVolume 3 twiceMounted ''/data'' [] = (Ret (Some None), es) \<and> unpublished ''/data'' es \<and>
     mountsLeft 2 ''/data'' es = 0"
proof -
  have "reportsMounts twiceMounted ''/data'' 2" "detectsMounts twiceMounted ''/data'' 2" "neTryLock twiceMounted [] ''/data''"
    by (simp_all add: reportsMounts_def detectsMounts_def twiceMounted_def idleNode_def)
  moreover have "\<exists>es. NodeUnpublishVolume 3 twiceMounted ''/data'' [] = (Ret (Some None), es) \<and> CleanedUp ''/data'' None \<in> set es"
    by (simp add: numeral_eq_Suc NodeUnpublishVolume_def unpublish_def MountPathExists_def RemoveSymlink_def osStat_def isLikelyNeedUnmount_def
        andThen_def call_def ret_def emit_def twiceMounted_def idleNode_def mountsLeft_def)
  ultimately show ?thesis
    using unpublish_unmounts_all [of twiceMounted "''/data''" 2 "[]" 3] by (auto simp: mountsLeft_def)
qed

section \<open>Publishing\<close>

text \<open>The paths of a request as the handler reads them.\<close>

definition requestPath :: "publishRequest \<Rightarrow> string" where
  "requestPath req = contextValue (prContext req) ''fluid_path''"

definition requestType :: "publishRequest \<Rightarrow> string" where
  "requestType req = (let m = contextValue (prContext req) ''mount_type'' in if m = '''' then ''fuse.alluxio-fuse'' else m)"

definition requestSub :: "publishRequest \<Rightarrow> string" where
  "requestSub req = contextValue (prContext req) ''fluid_sub_path''"

definition requestSource :: "publishRequest \<Rightarrow> string" where
  "requestSource req = (if requestSub req \<noteq> '''' then requestPath req @ ''/'' @ requestSub req else requestPath req)"

definition bindCommand :: "publishRequest \<Rightarrow> string list" where
  "bindCommand req =
     [''mount'', ''--bind''] @ (if prMode req = Some ''MULTI_NODE_READER_ONLY'' then [''-o'', ''ro''] else []) @
     [requestSource req, prTargetPath req]"

text \<open>The source was found ready: by the script that checks the mount, or by its existence when this check is skipped.\<close>

definition sourceSeen :: "publishRequest \<Rightarrow> nevent list \<Rightarrow> bool" where
  "sourceSeen req es \<longleftrightarrow>
     Ran [''/usr/local/bin/check_mount.sh'', requestPath req, requestType req, requestSub req] CmdOk \<in> set es \<or>
     Statted (requestSource req) None \<in> set es"

lemma sourceSeen_append [simp]: "sourceSeen req (es @ es') \<longleftrightarrow> sourceSeen req es \<or> sourceSeen req es'"
  by (auto simp: sourceSeen_def)

definition quiet :: "nevent \<Rightarrow> bool" where
  "quiet e \<longleftrightarrow> (\<forall>args r p q. e \<noteq> Ran (''mount'' # args) r \<and> e \<noteq> Symlinked p q None)"

lemma quiet_simps [simp]:
  "quiet (TriedLock k b)" "quiet (FreedLock k)" "quiet (World k1)" "quiet (Statted p e)" "quiet (Lstatted p r)" "quiet (ReadMounts r1)"
  "quiet (MadeDir p e)" "quiet (RemovedPath p e)" "quiet (Ran (''/usr/local/bin/check_mount.sh'' # c) r2)"
  by (auto simp: quiet_def)

definition added :: "(nevent list \<Rightarrow> bool) \<Rightarrow> nevent list \<Rightarrow> nevent list \<Rightarrow> bool" where
  "added P h h' \<longleftrightarrow> (\<exists>es. h' = h @ es \<and> P es)"

lemma added_trans: "added P h h' \<Longrightarrow> (\<And>es. P es \<Longrightarrow> added (\<lambda>es'. Q (es @ es')) h' h'') \<Longrightarrow> added Q h h''"
  by (force simp: added_def)

lemma added_mono: "added P h h' \<Longrightarrow> (\<And>es. P es \<Longrightarrow> Q es) \<Longrightarrow> added Q h h'"
  by (auto simp: added_def)

lemma added_snoc [simp]: "added P h (h @ es) \<longleftrightarrow> P es" "added P h h \<longleftrightarrow> P []"
  by (auto simp: added_def)

lemma wp_pollHost: "wp (pollHost v cond) Q h = wp (pollLoop (Suc (nePolls v h)) cond) Q h"
  by (simp add: wp_def pollHost_def)

lemma wp_withLock:
  assumes "\<And>h1. wp body (\<lambda>r h'. \<exists>a. r = Ret a \<and> added (P a) h1 h') h1"
  shows "wp (withLock v operation what key body s) (\<lambda>r h'.
      (\<exists>msg. r = Ret (Some (Status Aborted msg), s) \<and> h' = h @ [TriedLock key False]) \<or>
      (\<exists>a es. r = Ret a \<and> h' = h @ TriedLock key True # es @ [FreedLock key] \<and> P a es)) h"
proof (cases "neTryLock v h key")
  case True
  then show ?thesis
    unfolding withLock_def wp_andThen [of "call _ _"] wp_call
    by (simp add: wp_andThen [of body] del: split_paired_Ex)
       (rule wp_mono [OF assms], auto simp: wp_rules added_def simp del: split_paired_Ex)
qed (auto simp: withLock_def wp_rules)

lemma wp_checkPath:
  "wp (checkMountPathExists v path) (\<lambda>r h'. \<exists>err. r = Ret err \<and>
     added (\<lambda>es. list_all quiet es \<and> (err = None \<longrightarrow> Statted path None \<in> set es)) h h') h"
proof -
  have "wp (pollLoop n (andThen (osStat v path) (\<lambda>err.
         ret (case err of
                None \<Rightarrow> (True, None)
              | Some e \<Rightarrow> if IsNotExist e then (False, None) else (False, Some (Err (pathText ''stat'' path e)))))))
     (\<lambda>r h'. \<exists>err. r = Ret err \<and> added (\<lambda>es. list_all quiet es \<and> (err = None \<longrightarrow> Statted path None \<in> set es)) h h') h" for n
    by (rule wp_pollLoop [where I = "added (list_all quiet) h"])
       (auto simp: osStat_def wp_rules added_def list_all_append split: option.splits)
  then show ?thesis
    unfolding checkMountPathExists_def
    unfolding wp_andThen wp_pollHost
    by (rule wp_mono) (auto simp: wp_rules split: option.splits)
qed

lemma wp_sourceReady:
  "wp (sourceReady v skipped (requestPath req) (requestType req) (requestSub req) (requestSource req)) (\<lambda>r h'. \<exists>err. r = Ret err \<and>
     added (\<lambda>es. list_all quiet es \<and> (err = None \<longrightarrow> sourceSeen req es)) h h') h"
proof (cases "''MountPod'' \<in> set skipped")
  case True
  then show ?thesis
    unfolding sourceReady_def
    by (auto simp: wp_rules sourceSeen_def intro!: wp_mono [OF wp_checkPath] elim!: added_mono split: option.splits)
next
  case False
  then show ?thesis
    unfolding sourceReady_def CheckMountReadyAndSubPathExist_def guarded_def
    by (auto simp: wp_rules sourceSeen_def split: option.splits cmdResult.splits)
qed

lemma wp_bindMount:
  "wp (bindMount v (prMode req = Some ''MULTI_NODE_READER_ONLY'') (requestSource req) (prTargetPath req))
     (\<lambda>r h'. \<exists>err. r = Ret err \<and> added (\<lambda>es. es = [] \<and> err \<noteq> None \<or> (\<exists>res. es = [Ran (bindCommand req) res] \<and> (err = None \<longleftrightarrow> res = CmdOk))) h h') h"
  unfolding bindMount_def guarded_def
  by (auto simp: wp_rules bindCommand_def split: option.splits cmdResult.splits)

lemma wp_CreateSymlink:
  "wp (CreateSymlink v target source) (\<lambda>r h'. \<exists>err. r = Ret err \<and>
     added (\<lambda>es. if err = None then \<exists>pre. es = pre @ [Symlinked source target None] \<and> list_all quiet pre else list_all quiet es) h h') h"
  unfolding CreateSymlink_def Let_def
  by (auto simp: wp_rules quiet_def split: option.splits sum.splits)

lemma wp_targetMounted:
  "wp (targetMounted v path) (\<lambda>r h'. \<exists>a. r = Ret a \<and>
     added (\<lambda>es. list_all quiet es \<and> (a = Inr True \<longrightarrow> (\<exists>file. ReadMounts (Inr file) \<in> set es \<and> mountListed path file))) h h') h"
  unfolding targetMounted_def IsMounted_def osStat_def
  by (auto simp: wp_rules split: option.splits sum.splits)

text \<open>How publishing can end, with the events between the lock and its release.\<close>

definition publishedWell :: "publishRequest \<Rightarrow> rpcErr option \<Rightarrow> nevent list \<Rightarrow> bool" where
  "publishedWell req err es \<longleftrightarrow>
     (list_all quiet es \<and> (err = None \<longrightarrow> (\<exists>file. ReadMounts (Inr file) \<in> set es \<and> mountListed (prTargetPath req) file))) \<or>
     (\<exists>pre. list_all quiet pre \<and> sourceSeen req pre \<and>
        (es = pre @ [Symlinked (requestSource req) (prTargetPath req) None] \<and> err = None \<or>
         (\<exists>res. es = pre @ [Ran (bindCommand req) res] \<and> (err = None \<longleftrightarrow> res = CmdOk))))"

lemma publishedWell_quiet: "list_all quiet es \<Longrightarrow> publishedWell req (Some e) es"
  by (simp add: publishedWell_def)

lemma wp_publishSource:
  "wp (publishSource v req) (\<lambda>r h'. \<exists>err. r = Ret err \<and> added (publishedWell req err) h h') h"
proof -
  have eq: "publishSource v req =
     (if requestPath req = '''' then ret (Some (Status InvalidArgument ''fluid_path is not set''))
      else
        (case ParseMountModeSelectorFromStr (contextValue (prContext req) ''fluid.io/skip-check-mount-ready-target'') of
           Inl err \<Rightarrow> ret (Some (Status InvalidArgument (errText err)))
         | Inr skipped \<Rightarrow>
             andThen (sourceReady v skipped (requestPath req) (requestType req) (requestSub req) (requestSource req)) (\<lambda>err.
             if err \<noteq> None then ret err
             else if useSymlink v req then CreateSymlink v (prTargetPath req) (requestSource req)
             else bindMount v (prMode req = Some ''MULTI_NODE_READER_ONLY'') (requestSource req) (prTargetPath req))))"
    unfolding publishSource_def requestPath_def requestType_def requestSub_def requestSource_def Let_def ..
  have link: "wp (CreateSymlink v (prTargetPath req) (requestSource req)) (\<lambda>r h'. \<exists>err. r = Ret err \<and> added (publishedWell req err) h h') h1"
    and mount: "wp (bindMount v (prMode req = Some ''MULTI_NODE_READER_ONLY'') (requestSource req) (prTargetPath req))
      (\<lambda>r h'. \<exists>err. r = Ret err \<and> added (publishedWell req err) h h') h1"
    if "added (\<lambda>es. list_all quiet es \<and> sourceSeen req es) h h1" for h1
    using that
    by (auto simp: added_def publishedWell_def list_all_append split: if_splits
        intro!: wp_mono [OF wp_CreateSymlink] wp_mono [OF wp_bindMount])
  show ?thesis
    unfolding eq
    by (auto simp: wp_rules publishedWell_quiet split: sum.splits intro!: wp_mono [OF wp_sourceReady] link mount
        elim!: added_mono)
qed

text \<open>
  C11. A publish call that succeeds or runs mount found the target in the mount table already, or created the symbolic link or ran exactly the bind mount of the requested source (read-only if the volume is), as its last action under the lock, and only after the source was seen ready; a failed mount is reported.
\<close>

theorem published_from_ready_source:
  assumes "NodePublishVolume v req ns h = (Ret (err, ns'), h')" and "err = None \<or> (\<exists>args r. Ran (''mount'' # args) r \<in> set (drop (length h) h'))"
  shows "\<exists>es. h' = h @ TriedLock (prTargetPath req) True # es @ [FreedLock (prTargetPath req)] \<and>
    ((\<exists>file. ReadMounts (Inr file) \<in> set es \<and> mountListed (prTargetPath req) file \<and> err = None) \<or>
     (\<exists>pre. sourceSeen req pre \<and>
        (es = pre @ [Symlinked (requestSource req) (prTargetPath req) None] \<and> err = None \<or>
         (\<exists>res. es = pre @ [Ran (bindCommand req) res] \<and> (err = None \<longleftrightarrow> res = CmdOk)))))"
proof -
  have locked: "wp (andThen (targetMounted v (prTargetPath req)) (\<lambda>r.
     case r of Inl err \<Rightarrow> ret (Some err, ns)
     | Inr isMount \<Rightarrow> if isMount then ret (None, ns) else andThen (publishSource v req) (\<lambda>err. ret (err, ns))))
     (\<lambda>r h'. \<exists>err. r = Ret (err, ns) \<and> added (publishedWell req err) h1 h') h1" for h1
    by (auto simp: wp_rules intro!: wp_mono [OF wp_targetMounted] wp_mono [OF wp_publishSource] split: sum.splits)
       (auto simp: added_def publishedWell_def list_all_append)
  have "wp (NodePublishVolume v req ns) (\<lambda>r h'. (\<exists>err. r = Ret (err, ns) \<and>
     (h' = h \<and> err \<noteq> None \<or> h' = h @ [TriedLock (prTargetPath req) False] \<and> err \<noteq> None \<or>
      (\<exists>es. h' = h @ TriedLock (prTargetPath req) True # es @ [FreedLock (prTargetPath req)] \<and> publishedWell req err es)))) h"
  proof (cases "prTargetPath req = ''''")
    case False
    have "wp (withLock v ''NodePublishVolume'' ''targetPath'' (prTargetPath req)
          (andThen (targetMounted v (prTargetPath req)) (\<lambda>r.
           case r of
             Inl err \<Rightarrow> ret (Some err, ns)
           | Inr isMount \<Rightarrow> if isMount then ret (None, ns) else andThen (publishSource v req) (\<lambda>err. ret (err, ns)))) ns) (\<lambda>r h'.
      (\<exists>msg. r = Ret (Some (Status Aborted msg), ns) \<and> h' = h @ [TriedLock (prTargetPath req) False]) \<or>
      (\<exists>a es. r = Ret a \<and> h' = h @ TriedLock (prTargetPath req) True # es @ [FreedLock (prTargetPath req)] \<and>
         (\<lambda>(err, ns') es. ns' = ns \<and> publishedWell req err es) a es)) h"
      by (rule wp_withLock) (rule wp_mono [OF locked], auto elim: added_mono)
    then show ?thesis
      unfolding NodePublishVolume_def if_not_P [OF False] by (rule wp_mono) auto
  qed (auto simp: NodePublishVolume_def wp_rules)
  with assms(1) consider "h' = h" "err \<noteq> None" | "h' = h @ [TriedLock (prTargetPath req) False]" "err \<noteq> None"
    | es where "h' = h @ TriedLock (prTargetPath req) True # es @ [FreedLock (prTargetPath req)]" "publishedWell req err es"
    by (auto simp: wp_def)
  then show ?thesis
  proof cases
    case 3
    with assms(2) show ?thesis
      by (auto simp: publishedWell_def list_all_iff quiet_def)
  qed (use assms(2) in auto)
qed

definition readyRequest :: publishRequest where
  "readyRequest = \<lparr>prTargetPath = ''/pod'', prMode = Some ''MULTI_NODE_READER_ONLY'', prContext = [(''fluid_path'', ''/runtime-mnt/demo'')]\<rparr>"

theorem published_from_ready_source_witness:
  "\<exists>ns pre. NodePublishVolume idleNode readyRequest \<lparr>nsNodeId = ''n'', nsNode = None\<rparr> [] =
     (Ret (None, ns), TriedLock ''/pod'' True # pre @
        [Ran [''mount'', ''--bind'', ''-o'', ''ro'', ''/runtime-mnt/demo'', ''/pod''] CmdOk, FreedLock ''/pod'']) \<and> sourceSeen readyRequest pre"
proof -
  have "ValidateCommandSlice (\<lambda>_. None) [''/usr/local/bin/check_mount.sh'', ''/runtime-mnt/demo'', ''fuse.alluxio-fuse'', ''''] = None"
    "ValidateCommandSlice (\<lambda>_. None) [''mount'', ''--bind'', ''-o'', ''ro'', ''/runtime-mnt/demo'', ''/pod''] = None"
    by code_simp+
  then have run: "NodePublishVolume idleNode readyRequest \<lparr>nsNodeId = ''n'', nsNode = None\<rparr> [] =
     (Ret (None, \<lparr>nsNodeId = ''n'', nsNode = None\<rparr>),
      [TriedLock ''/pod'' True, Statted ''/pod'' None, ReadMounts (Inr ''''),
       Ran [''/usr/local/bin/check_mount.sh'', ''/runtime-mnt/demo'', ''fuse.alluxio-fuse'', ''''] CmdOk,
       Ran [''mount'', ''--bind'', ''-o'', ''ro'', ''/runtime-mnt/demo'', ''/pod''] CmdOk, FreedLock ''/pod''])"
    by (simp add: NodePublishVolume_def withLock_def targetMounted_def IsMounted_def osStat_def publishSource_def sourceReady_def
      CheckMountReadyAndSubPathExist_def bindMount_def guarded_def contextValue_def ParseMountModeSelectorFromStr_def useSymlink_def
      mountListed_def Let_def andThen_def call_def ret_def emit_def idleNode_def readyRequest_def)
  with published_from_ready_source [OF this] show ?thesis
    by (auto simp: readyRequest_def mountListed_def bindCommand_def requestSource_def requestSub_def requestPath_def contextValue_def
      append_eq_Cons_conv Cons_eq_append_conv)
qed

lemma does_viaWorld:
  assumes "\<And>w. does (\<lambda>a es. P a (map World es)) (m w)"
  shows "does P (viaWorld v m)"
  unfolding does_def
proof
  fix h
  obtain a es where "m (neWorld v h) (worldHistory h) = (Ret a, worldHistory h @ es)" "P a (map World es)"
    using assms unfolding does_def by blast
  then show "\<exists>a es. viaWorld v m h = (Ret a, h @ es) \<and> P a es"
    by (intro exI [of _ a] exI [of _ "map World es"]) (simp add: viaWorld_def)
qed

lemma does_withLock:
  assumes "does P body"
  shows "does (\<lambda>a es. es = [TriedLock key False] \<and> fst a \<noteq> None \<or>
      (\<exists>mid. es = TriedLock key True # mid @ [FreedLock key] \<and> P a mid)) (withLock v operation what key body s)"
  unfolding withLock_def
  by (rule does_then_call, rule does_cases(1), rule does_ret, simp)
     (rule does_andThen [OF assms], auto simp: does_def andThen_def emit_def ret_def)

section \<open>Staging and unstaging\<close>

definition unpatched :: "nevent \<Rightarrow> bool" where
  "unpatched e \<longleftrightarrow> (\<forall>node ls a. e \<noteq> World (PatchedNode node ls a))"

lemma unpatched_simps [simp]:
  "unpatched (TriedLock k b)" "unpatched (FreedLock k)" "unpatched (Statted p e)" "unpatched (Ran c r2)" "unpatched (OpenedFile p r1)"
  "unpatched (Unmounted p e)" "unpatched (World (ReadVolume p r3))" "unpatched (World (ReadClaim p q r4))" "unpatched (World (Op ev))"
  "unpatched (World (ReadRuntime k n s r5))" "unpatched (World (ReadNode n r6))" "\<not> unpatched (World (PatchedNode n ls e1))"
  by (auto simp: unpatched_def)

text \<open>The runtime was read with a policy that lets its fuse pods be stopped before it is deleted.\<close>

definition policySeen :: "nevent list \<Rightarrow> bool" where
  "policySeen es \<longleftrightarrow>
     (\<exists>kind name namespace rt. World (ReadRuntime kind name namespace (Inr rt)) \<in> set es \<and>
        roFuseCleanPolicy rt \<in> {''OnDemand'', ''OnFuseChanged''})"

lemma policySeen_append [simp]: "policySeen (es @ es') \<longleftrightarrow> policySeen es \<or> policySeen es'"
  by (auto simp: policySeen_def)

definition lazyPolicy :: "RuntimeInfo \<Rightarrow> bool" where
  "lazyPolicy info \<longleftrightarrow> riFuseCleanPolicy info \<in> {''OnDemand'', ''OnFuseChanged''}"

lemma does_info:
  "does (\<lambda>a es. list_all unpatched es \<and> (\<forall>info. a = Inr info \<longrightarrow> lazyPolicy info \<longrightarrow> policySeen es))
     (viaWorld v (\<lambda>w. GetRuntimeInfo w f name namespace))"
proof (rule does_viaWorld)
  fix w
  have "does (\<lambda>a es. \<exists>e. es = [Op e]) (viaOp w (\<lambda>cl. GetDataset cl name namespace))"
    unfolding GetDataset_def by (rule does_viaOp) (auto intro!: does_rules)
  then show "does (\<lambda>a es. list_all unpatched (map World es) \<and> (\<forall>info. a = Inr info \<longrightarrow> lazyPolicy info \<longrightarrow> policySeen (map World es)))
      (GetRuntimeInfo w f name namespace)"
    unfolding GetRuntimeInfo_def getRuntimeObject_def Let_def
    by (rule does_andThen)
       (auto intro!: does_rules simp: policySeen_def lazyPolicy_def split: sum.splits if_splits dest!: runtimeInfoOf_fields)
qed

lemma does_pair: "does (\<lambda>a es. list_all unpatched es) (viaWorld v (\<lambda>w. GetVolumePairByVolumeId w volumeId))"
  unfolding GetVolumePairByVolumeId_def GetPersistentVolume_def GetPersistentVolumeClaim_def
  by (rule does_viaWorld) (auto intro!: does_rules)

lemma does_shouldCleanFuse:
  "does (\<lambda>a es. list_all unpatched es \<and> (a = Inr True \<longrightarrow> lazyPolicy info)) (shouldCleanFuse v info generation)"
  unfolding shouldCleanFuse_def checkIfFuseNeedUpdate_def LoadCurrentFuseGenerationFromMeta_def Let_def
  by (auto simp: lazyPolicy_def does_assoc intro!: does_rules split: sum.splits)

lemma does_getCleanFuseFunc:
  "does (\<lambda>a es. list_all unpatched es \<and> (\<forall>x. a = Inr (Some x) \<longrightarrow> policySeen es)) (getCleanFuseFunc v volumeId)"
  unfolding getCleanFuseFunc_def Let_def
  by (rule does_andThen [OF does_pair])
     (auto simp: list_all_append split: if_splits sum.splits
        intro!: does_cases does_ret does_andThen [OF does_info] does_andThen [OF does_shouldCleanFuse])

text \<open>A call that labels the node does so once and at its end.\<close>

definition labelledLast :: "LabelsToModify \<Rightarrow> goerr option \<Rightarrow> nevent list \<Rightarrow> bool" where
  "labelledLast ls err es \<longleftrightarrow>
     list_all unpatched es \<and> err \<noteq> None \<or>
     (\<exists>pre node a. es = pre @ [World (PatchedNode node (labelValuePair ls) a)] \<and> list_all unpatched pre \<and> (err = None \<longleftrightarrow> a = None))"

lemma labelledLast_append: "list_all unpatched es \<Longrightarrow> labelledLast ls err es' \<Longrightarrow> labelledLast ls err (es @ es')"
  by (fastforce simp: labelledLast_def list_all_append)

lemma does_getNode: "does (\<lambda>a es. list_all unpatched es) (getNode v ns)"
proof -
  have node: "does (\<lambda>a es. list_all unpatched es) (viaWorld v (\<lambda>w. GetNode w name))" for name
    unfolding GetNode_def by (rule does_viaWorld) (auto intro!: does_rules)
  show ?thesis
    unfolding getNode_def by (intro does_cases(1) does_ret does_andThen [OF node]) auto
qed

lemma does_patchNode: "does (\<lambda>a es. \<exists>node. es = [World (PatchedNode node (labelValuePair ls) a)]) (patchNodeWithLabel v node ls)"
  unfolding patchNodeWithLabel_def by (rule does_viaWorld) (auto intro!: does_rules)

lemma does_labelNode: "does (\<lambda>(err, ns) es. labelledLast ls err es) (labelNode v operation ls ns)"
  unfolding labelNode_def
  by (rule does_andThen [OF does_getNode])
     (auto intro!: does_cases does_ret does_andThen [OF does_patchNode] simp: labelledLast_def split: option.splits)

text \<open>The node was patched to stop the fuse pod after the script found no mount of the volume.\<close>

definition stopped :: "string \<Rightarrow> nevent list \<Rightarrow> bool" where
  "stopped volumeId es \<longleftrightarrow>
     (\<exists>key pre node a. es = pre @ [World (PatchedNode node [(key, None)] a)] \<and> list_all unpatched pre \<and>
        Ran [''/usr/local/bin/check_bind_mounts.sh'', volumeId] (CmdExit 1) \<in> set pre)"

lemma stopped_append: "list_all unpatched es \<Longrightarrow> stopped volumeId es' \<Longrightarrow> stopped volumeId (es @ es')"
  by (fastforce simp: stopped_def list_all_append)

lemma does_cleanFuse: "does (\<lambda>a es. list_all unpatched es \<or> stopped volumeId es) (cleanFuse v volumeId pv info ns)"
proof -
  have check: "does (\<lambda>a es. list_all unpatched es \<and>
      (a = Inr False \<longrightarrow> Ran [''/usr/local/bin/check_bind_mounts.sh'', volumeId] (CmdExit 1) \<in> set es)) (checkMountInUse v volumeId)"
    unfolding checkMountInUse_def guarded_def
    by (auto intro!: does_rules simp: does_assoc split: option.splits sum.splits cmdResult.splits)
       (auto intro!: does_rules simp: does_assoc split: cmdResult.splits if_splits)
  have label: "does (\<lambda>a es'. list_all unpatched (es @ es') \<or> stopped volumeId (es @ es'))
      (labelNode v ''NodeUnstageVolume'' (labelsDelete key []) ns)"
    if "list_all unpatched es" "Ran [''/usr/local/bin/check_bind_mounts.sh'', volumeId] (CmdExit 1) \<in> set es" for es key
    by (rule does_mono [OF does_labelNode])
       (use that in \<open>auto simp: stopped_def labelledLast_def labelsDelete_def labelsOperator_def labelValuePair_def assignAll_def
          list_all_append\<close>)
  show ?thesis
    unfolding cleanFuse_def by (rule does_andThen [OF check], intro does_cases does_ret label) auto
qed

lemma does_unstage: "does (\<lambda>a es. list_all unpatched es \<or> stopped volumeId es \<and> policySeen es) (unstage v volumeId ns)"
proof -
  have clean: "does (\<lambda>a es'. list_all unpatched (es @ es') \<or> stopped volumeId (es @ es') \<and> policySeen (es @ es'))
      (andThen (cleanFuse v volumeId pv info ns) (\<lambda>(err, ns).
         ret (map_option (Wrapped (''NodeUnstageVolume: failed to clean fuse for volume '' @ volumeId)) err, ns)))"
    if "list_all unpatched es" "policySeen es" for es pv info
    by (rule does_andThen [OF does_cleanFuse], intro does_cases does_ret) (use that in \<open>auto simp: list_all_append intro: stopped_append\<close>)
  show ?thesis
    unfolding unstage_def by (rule does_andThen [OF does_getCleanFuseFunc], intro does_cases does_ret clean) auto
qed

text \<open>
  C10. Unstaging removes a label from the node, which stops the fuse pod, at most once and as its last action under the lock, and only after the script reported that no mount of the volume is in use and after the runtime was read with a clean policy that allows it.
\<close>

theorem fuse_stopped_only_unused:
  assumes "NodeUnstageVolume v volumeId ns h = (r, h')" and "World (PatchedNode node ls a) \<in> set (drop (length h) h')"
  shows "\<exists>key pre. h' = h @ TriedLock volumeId True # pre @ [World (PatchedNode node ls a), FreedLock volumeId] \<and> ls = [(key, None)] \<and>
    policySeen pre \<and> Ran [''/usr/local/bin/check_bind_mounts.sh'', volumeId] (CmdExit 1) \<in> set pre"
proof (cases "volumeId = ''''")
  case True
  with assms show ?thesis by (auto simp: NodeUnstageVolume_def ret_def)
next
  case False
  have "does (\<lambda>a es. list_all unpatched es \<or> stopped volumeId es \<and> policySeen es)
      (andThen (unstage v volumeId ns) (\<lambda>(err, ns). ret (map_option Plain err, ns)))"
    by (rule does_andThen [OF does_unstage], intro does_cases does_ret) auto
  from does_withLock [OF this] False
  have "does (\<lambda>a es. es = [TriedLock volumeId False] \<and> fst a \<noteq> None \<or>
      (\<exists>mid. es = TriedLock volumeId True # mid @ [FreedLock volumeId] \<and> (list_all unpatched mid \<or> stopped volumeId mid \<and> policySeen mid)))
      (NodeUnstageVolume v volumeId ns)"
    by (simp add: NodeUnstageVolume_def)
  then obtain es where h': "h' = h @ es" and es: "es = [TriedLock volumeId False] \<or>
      (\<exists>mid. es = TriedLock volumeId True # mid @ [FreedLock volumeId] \<and> (list_all unpatched mid \<or> stopped volumeId mid \<and> policySeen mid))"
    using assms(1) unfolding does_def by (metis Pair_inject)
  from assms(2) h' es obtain mid where mid: "es = TriedLock volumeId True # mid @ [FreedLock volumeId]"
    "World (PatchedNode node ls a) \<in> set mid" "stopped volumeId mid" "policySeen mid"
    by (auto simp: list_all_iff dest: bspec [where P = unpatched])
  then obtain key pre node' a' where pre: "mid = pre @ [World (PatchedNode node' [(key, None)] a')]" "list_all unpatched pre"
    "Ran [''/usr/local/bin/check_bind_mounts.sh'', volumeId] (CmdExit 1) \<in> set pre"
    unfolding stopped_def by blast
  with mid have "PatchedNode node ls a = PatchedNode node' [(key, None)] a'" "policySeen pre"
    by (auto simp: list_all_iff policySeen_def)
  with h' mid pre show ?thesis by auto
qed

definition unstagingWorld :: world where
  "unstagingWorld = servingWorld
     \<lparr>kwCluster := \<lambda>_. downCluster\<lparr>clGetDataset := \<lambda>_ _ _. Inr exampleDataset\<rparr>,
      kwGetRuntime := \<lambda>_ _ _ _. Inr (exampleRuntime\<lparr>roFuseCleanPolicy := ''OnDemand''\<rparr>),
      kwGetNode := \<lambda>_ _. Inr (nodeNamed []), kwPatchNode := \<lambda>_ _ _. None\<rparr>"

definition unstagingNode :: nodeEnv where
  "unstagingNode = idleNode\<lparr>neWorld := \<lambda>_. unstagingWorld, neRun := \<lambda>_ _. CmdExit 1\<rparr>"

lemma unstaging_simps [simp]:
  "neWorld unstagingNode h = unstagingWorld" "neStat unstagingNode h p = None" "neTryLock unstagingNode h k = True" "neRun unstagingNode h c = CmdExit 1"
  "neLookPath unstagingNode = (\<lambda>_. None)" "neMetadataList unstagingNode rt = []" "neLookupEnv unstagingNode x = None"
  "clGetDataset (kwCluster unstagingWorld kh) oh n s = Inr exampleDataset"
  "kwGetRuntime unstagingWorld kh k n s = Inr (exampleRuntime\<lparr>roFuseCleanPolicy := ''OnDemand''\<rparr>)"
  "kwGetNode unstagingWorld kh n = Inr (nodeNamed [])" "kwPatchNode unstagingWorld kh n ls = None"
  "kwGetVolume unstagingWorld kh n = Inr (volumeFor exampleInfo ''/runtime-mnt'' ''fuse.alluxio-fuse'' [''ReadOnlyMany''] ''100Pi'')"
  "kwGetClaim unstagingWorld kh n s = Inr (claimFor exampleInfo [''ReadOnlyMany''] ''100Pi'' None)"
  by (simp_all add: unstagingNode_def unstagingWorld_def servingWorld_def idleNode_def)

lemma wp_viaWorld:
  "wp (viaWorld v m) Q h =
     wp (m (neWorld v h)) (\<lambda>r kh. Q r (h @ map World (drop (length (worldHistory h)) kh))) (worldHistory h)"
  by (simp add: wp_def viaWorld_def split: prod.splits)

lemma unstaging_claim: "CheckIfPVCIsDataset (Some (claimFor exampleInfo [''ReadOnlyMany''] ''100Pi'' None))"
  by code_simp

lemma unstaging_guard: "ValidateCommandSlice (\<lambda>_. None) [''/usr/local/bin/check_bind_mounts.sh'', ''default-demo''] = None"
  by code_simp

lemma unstaging_run:
  "wp (NodeUnstageVolume unstagingNode ''default-demo'' \<lparr>nsNodeId = ''n'', nsNode = None\<rparr>)
     (\<lambda>r h'. \<exists>key. World (PatchedNode (nodeName (nodeNamed [])) [(key, None)] None) \<in> set h') []"
  unfolding NodeUnstageVolume_def withLock_def unstage_def getCleanFuseFunc_def GetVolumePairByVolumeId_def GetPersistentVolume_def
    GetPersistentVolumeClaim_def GetRuntimeInfo_def GetDataset_def getRuntimeObject_def cleanFuse_def checkMountInUse_def guarded_def
    labelNode_def getNode_def GetNode_def patchNodeWithLabel_def
  by (simp add: wp_rules wp_viaWorld Let_def volumeFor_def unstaging_claim unstaging_guard exampleDataset_def runtimeKinds_def
    runtimeInfoOf_def runtimeInfoWith_def BuildRuntimeInfo_def SetFuseNodeSelector_def SetupFuseCleanPolicy_def SetOwnerDatasetUID_def shouldCleanFuse_def
    labelsDelete_def labelsOperator_def labelValuePair_def assignAll_def)

theorem fuse_stopped_only_unused_witness:
  "\<exists>key pre node a. snd (NodeUnstageVolume unstagingNode ''default-demo'' \<lparr>nsNodeId = ''n'', nsNode = None\<rparr> []) =
     TriedLock ''default-demo'' True # pre @ [World (PatchedNode node [(key, None)] a), FreedLock ''default-demo''] \<and> policySeen pre \<and>
     Ran [''/usr/local/bin/check_bind_mounts.sh'', ''default-demo''] (CmdExit 1) \<in> set pre"
proof -
  obtain r h' where run: "NodeUnstageVolume unstagingNode ''default-demo'' \<lparr>nsNodeId = ''n'', nsNode = None\<rparr> [] = (r, h')"
    by (cases "NodeUnstageVolume unstagingNode ''default-demo'' \<lparr>nsNodeId = ''n'', nsNode = None\<rparr> []")
  with unstaging_run obtain key where "World (PatchedNode (nodeName (nodeNamed [])) [(key, None)] None) \<in> set h'"
    by (auto simp: wp_def)
  with fuse_stopped_only_unused [OF run] run show ?thesis by fastforce
qed

section \<open>The label of the fuse pod\<close>












end
