(* ===== verification/Pod_Scheduling.thy ===== *)
theory Pod_Scheduling
  imports Runtime_Lookup "HOL-Library.List_Lexorder" "HOL-Library.Char_ord" "HOL-Library.Multiset"
begin

text \<open>
  Where a pod that uses datasets may run: the helpers that inject scheduling terms (\<open>pkg/utils/webhook.go\<close>) and the
  webhook plugins \<open>nodeaffinitywithcache\<close>, \<open>requirenodewithfuse\<close>, \<open>prefernodeswithoutcache\<close>,
  \<open>mountpropagationinjector\<close> and \<open>datasetusageinjector\<close>. The meaning of an affinity is that of \<open>Kube_Client\<close>; match
  fields of terms are left out.
\<close>

section \<open>utils/webhook.go\<close>

definition InjectPreferredSchedulingTerms :: "(int \<times> NodeSelectorTerm) list \<Rightarrow> Pod \<Rightarrow> Pod" where
  "InjectPreferredSchedulingTerms terms pod =
     (if terms = [] then pod
      else pod\<lparr>pdAffinity :=
        (let na = nodeAffinityOf (pdAffinity pod) in
         Some ((affinityOr (pdAffinity pod))\<lparr>afNodeAffinity := Some (na\<lparr>naPreferred := naPreferred na @ terms\<rparr>)\<rparr>))\<rparr>)"

definition requiredOf :: "Pod \<Rightarrow> NodeSelectorTerm list" where
  "requiredOf pod = termsOf (Some (nodeAffinityOf (pdAffinity pod)))"

text \<open>The expressions of all terms are appended to the first term, if there is one.\<close>

definition InjectNodeSelectorTerms :: "NodeSelectorTerm list \<Rightarrow> Pod \<Rightarrow> Pod" where
  "InjectNodeSelectorTerms terms pod =
     (if terms = [] then pod
      else pod\<lparr>pdAffinity :=
        (let na = nodeAffinityOf (pdAffinity pod);
             required = (case requiredOf pod of [] \<Rightarrow> terms | t # ts \<Rightarrow> (t @ concat terms) # ts) in
         Some ((affinityOr (pdAffinity pod))\<lparr>afNodeAffinity := Some (na\<lparr>naRequired := Some (Some required)\<rparr>)\<rparr>))\<rparr>)"

definition InjectMountPropagation :: "string list \<Rightarrow> Pod \<Rightarrow> Pod" where
  "InjectMountPropagation datasetNames pod =
     (let mountNames = map volName (filter (\<lambda>v. case claimOf v of Some c \<Rightarrow> c \<in> set datasetNames | None \<Rightarrow> False) (pdVolumes pod)) in
      pod\<lparr>pdContainers := map (\<lambda>c. c\<lparr>ctVolumeMounts := map (\<lambda>m.
        if vmName m \<in> set mountNames \<and> vmPropagation m = None then m\<lparr>vmPropagation := Some ''HostToContainer''\<rparr> else m)
        (ctVolumeMounts c)\<rparr>) (pdContainers pod)\<rparr>)"

section \<open>Plugins\<close>

text \<open>
  A plugin changes the pod in place and says whether to stop and whether it failed. The runtimes are a map from the
  claims of the pod; \<open>order\<close> is the order in which Go iterates over the keys of a map, any permutation of them.
  \<open>CollectRuntimeInfosFromPVCs\<close> adds no nil to the map, so that the checks for nil in the plugins never apply.
\<close>

datatype hookErr = NeedRetryWithApiReaderError string | HookErr goerr

fun IsNeedRetryWithApiReaderError :: "hookErr \<Rightarrow> bool" where
  "IsNeedRetryWithApiReaderError (NeedRetryWithApiReaderError _) = True"
| "IsNeedRetryWithApiReaderError (HookErr _) = False"

type_synonym infos = "(string \<times> RuntimeInfo) list"
type_synonym plugin = "Pod \<Rightarrow> infos \<Rightarrow> (Pod \<times> bool \<times> hookErr option) kgo"

definition iterated :: "(string list \<Rightarrow> string list) \<Rightarrow> (string \<times> 'a) list \<Rightarrow> (string \<times> 'a) list" where
  "iterated order m = List.map_filter (\<lambda>k. map_option (Pair k) (map_of m k)) (order (map fst m))"

subsection \<open>tiered\_locaity.go\<close>

record TieredLocality =
  tlPreferred :: "(string \<times> int) list"
  tlRequired :: "string list"

definition getPreferredAsMap :: "TieredLocality \<Rightarrow> (string \<times> int) list" where
  "getPreferredAsMap t = assignAll (tlPreferred t) []"

definition getTieredLocalityNames :: "TieredLocality \<Rightarrow> string list" where
  "getTieredLocalityNames t = map fst (tlPreferred t) @ tlRequired t"

text \<open>
  Without required terms in a node affinity of the pod the function returns before it looks at the node selector.
\<close>

definition hasRepeatedLocality :: "TieredLocality \<Rightarrow> Pod \<Rightarrow> bool" where
  "hasRepeatedLocality t pod =
     (let localityKeys = set (getTieredLocalityNames t);
          named = list_ex (\<lambda>e. nrKey e \<in> localityKeys);
          selected = list_ex (\<lambda>(k, _). k \<in> localityKeys) (pdNodeSelector pod) in
      case Option.bind (pdAffinity pod) afNodeAffinity of
        None \<Rightarrow> selected
      | Some na \<Rightarrow>
          if list_ex (\<lambda>(_, t). named t) (naPreferred na) then True
          else (case naRequired na of
                  None \<Rightarrow> False
                | Some ts \<Rightarrow>
                    list_ex named (case ts of None \<Rightarrow> [] | Some ts \<Rightarrow> ts) \<or> selected))"

subsection \<open>node\_affinity\_with\_cache.go\<close>

definition fluidBuiltInAffinities :: "(string \<times> (RuntimeInfo \<Rightarrow> string)) list" where
  "fluidBuiltInAffinities = [(''fluid.io/node'', commonLabel), (''fluid.io/fuse'', fuseLabel)]"

definition getRequiredSchedulingTerms :: "string \<Rightarrow> NodeSelectorTerm" where
  "getRequiredSchedulingTerms key = [requirementIn key ''true'']"

definition getNodeSelectorTermsFromRequired :: "NodeSelectorTerm list \<Rightarrow> string list \<Rightarrow> NodeSelectorTerm list" where
  "getNodeSelectorTermsFromRequired terms requireLocalityNames =
     concat (map (\<lambda>t. map (\<lambda>e. [e]) (filter (\<lambda>e. nrKey e \<in> set requireLocalityNames) t)) terms)"

definition getPreferredSchedulingTerm :: "int \<Rightarrow> string \<Rightarrow> int \<times> NodeSelectorTerm" where
  "getPreferredSchedulingTerm weight key = (weight, [requirementIn key ''true''])"

definition getPreferredSchedulingTermsFromRequired ::
  "NodeSelectorTerm list \<Rightarrow> (string \<times> int) list \<Rightarrow> (int \<times> NodeSelectorTerm) list" where
  "getPreferredSchedulingTermsFromRequired terms tiredLabels =
     concat (map (List.map_filter (\<lambda>e. map_option (\<lambda>weight. (weight, [e])) (map_of tiredLabels (nrKey e)))) terms)"

fun getTieredLocalityNodeSelectorTerms ::
  "world \<Rightarrow> string list \<Rightarrow> infos \<Rightarrow> (NodeSelectorTerm list \<times> goerr option) kgo" where
  "getTieredLocalityNodeSelectorTerms w requireLocalityNames [] = ret ([], None)"
| "getTieredLocalityNodeSelectorTerms w requireLocalityNames ((name, info) # infos) =
     andThen (GetRuntimeStatus w (riRuntimeType info) (riName info) (riNamespace info)) (\<lambda>r.
     case r of
       Inl err \<Rightarrow> ret ([], Some err)
     | Inr status \<Rightarrow>
         let builtIn = List.map_filter (\<lambda>(n, label). if n \<in> set requireLocalityNames
                         then Some (getRequiredSchedulingTerms (label info)) else None) fluidBuiltInAffinities;
             customized = getNodeSelectorTermsFromRequired (termsOf (rsCacheAffinity status)) requireLocalityNames in
         andThen (getTieredLocalityNodeSelectorTerms w requireLocalityNames infos) (\<lambda>(terms, err).
         ret (builtIn @ customized @ terms, err)))"

fun getTieredLocalityPreferredSchedulingTerms ::
  "world \<Rightarrow> (string \<times> int) list \<Rightarrow> infos \<Rightarrow> ((int \<times> NodeSelectorTerm) list \<times> goerr option) kgo" where
  "getTieredLocalityPreferredSchedulingTerms w preferredLocality [] = ret ([], None)"
| "getTieredLocalityPreferredSchedulingTerms w preferredLocality ((name, info) # infos) =
     andThen (GetRuntimeStatus w (riRuntimeType info) (riName info) (riNamespace info)) (\<lambda>r.
     case r of
       Inl err \<Rightarrow> ret ([], Some err)
     | Inr status \<Rightarrow>
         let builtIn = List.map_filter (\<lambda>(n, label). map_option (\<lambda>weight. getPreferredSchedulingTerm weight (label info))
                         (map_of preferredLocality n)) fluidBuiltInAffinities;
             customized = getPreferredSchedulingTermsFromRequired (termsOf (rsCacheAffinity status)) preferredLocality in
         andThen (getTieredLocalityPreferredSchedulingTerms w preferredLocality infos) (\<lambda>(terms, err).
         ret (builtIn @ customized @ terms, err)))"

text \<open>The regular expression \<open>^fluid\.io/dataset\.([A-Za-z0-9.-]*)\.sched$\<close>: the dataset a label of a pod names.\<close>

definition datasetChar :: "char \<Rightarrow> bool" where
  "datasetChar c =
     (let n = (of_char c :: nat) in
      65 \<le> n \<and> n \<le> 90 \<or> 97 \<le> n \<and> n \<le> 122 \<or> 48 \<le> n \<and> n \<le> 57 \<or> c = CHR ''.'' \<or> c = CHR ''-'')"

definition LabelAnnotationPodSchedRegex :: "string \<Rightarrow> string option" where
  "LabelAnnotationPodSchedRegex key =
     (let rest = drop 17 key; name = take (length rest - 6) rest in
      if HasPrefix key ''fluid.io/dataset.'' \<and> HasSuffix rest ''.sched'' \<and> list_all datasetChar name
      then Some name else None)"

definition boundDataSetNames :: "Pod \<Rightarrow> string list" where
  "boundDataSetNames pod =
     List.map_filter (\<lambda>(key, val). if val = ''required'' then LabelAnnotationPodSchedRegex key else None) (pdLabels pod)"

definition getRequiredAndPreferredSchedulingRuntimes :: "Pod \<Rightarrow> infos \<Rightarrow> infos \<times> infos" where
  "getRequiredAndPreferredSchedulingRuntimes pod infos =
     (filter (\<lambda>(n, _). n \<in> set (boundDataSetNames pod)) infos,
      filter (\<lambda>(n, _). n \<notin> set (boundDataSetNames pod)) infos)"

definition NodeAffinityWithCache_Mutate ::
  "world \<Rightarrow> (string list \<Rightarrow> string list) \<Rightarrow> TieredLocality \<Rightarrow> plugin" where
  "NodeAffinityWithCache_Mutate w order t pod infos =
     (if infos = [] \<or> hasRepeatedLocality t pod then ret (pod, False, None)
      else let (requireRuntimes, preferredRuntimes) = getRequiredAndPreferredSchedulingRuntimes pod infos in
      andThen (getTieredLocalityNodeSelectorTerms w (tlRequired t) (iterated order requireRuntimes)) (\<lambda>(terms, err).
      if err \<noteq> None then ret (pod, False, map_option HookErr err)
      else let pod = InjectNodeSelectorTerms terms pod in
      andThen (getTieredLocalityPreferredSchedulingTerms w (getPreferredAsMap t) (iterated order preferredRuntimes)) (\<lambda>(terms, err).
      if err \<noteq> None then ret (pod, False, map_option HookErr err)
      else ret (InjectPreferredSchedulingTerms terms pod, False, None))))"

subsection \<open>The other plugins\<close>

definition getRequiredSchedulingTerm :: "(string list \<Rightarrow> string list) \<Rightarrow> RuntimeInfo \<Rightarrow> NodeSelectorTerm" where
  "getRequiredSchedulingTerm order info = map (\<lambda>(k, v). requirementIn k v) (iterated order (riFuseNodeSelector info))"

definition RequireNodeWithFuse_Mutate :: "(string list \<Rightarrow> string list) \<Rightarrow> plugin" where
  "RequireNodeWithFuse_Mutate order pod infos =
     (if infos = [] then ret (pod, False, None)
      else let terms = filter (\<lambda>t. t \<noteq> []) (map (\<lambda>(_, info). getRequiredSchedulingTerm order info) (iterated order infos)) in
      ret (if terms = [] then pod else InjectNodeSelectorTerms terms pod, False, None))"

definition getPreferredSchedulingTermForPodWithoutCache :: "int \<times> NodeSelectorTerm" where
  "getPreferredSchedulingTermForPodWithoutCache =
     (100, [\<lparr>nrKey = GetDatasetNumLabelName, nrOperator = ''DoesNotExist'', nrValues = []\<rparr>])"

definition PreferNodesWithoutCache_Mutate :: plugin where
  "PreferNodesWithoutCache_Mutate pod infos =
     (if infos \<noteq> [] then ret (pod, True, None)
      else ret (InjectPreferredSchedulingTerms [getPreferredSchedulingTermForPodWithoutCache] pod, True, None))"

definition MountPropagationInjector_Mutate :: "(string list \<Rightarrow> string list) \<Rightarrow> plugin" where
  "MountPropagationInjector_Mutate order pod infos =
     ret (if infos = [] then pod else InjectMountPropagation (map fst (iterated order infos)) pod, False, None)"

definition DatasetUsageInjector_Mutate :: "(string list \<Rightarrow> string list) \<Rightarrow> plugin" where
  "DatasetUsageInjector_Mutate order pod infos =
     (if infos = [] then ret (pod, False, None)
      else let datasetsInUse = sort (map (\<lambda>(_, info). riName info) (iterated order infos)) in
           ret (pod\<lparr>pdAnnotations := AList.update ''fluid.io/datasets-in-use'' (Join CHR '','' datasetsInUse) (pdAnnotations pod)\<rparr>,
                False, None))"

section \<open>Iteration\<close>

definition permutes :: "(string list \<Rightarrow> string list) \<Rightarrow> bool" where
  "permutes order \<longleftrightarrow> (\<forall>ks. mset (order ks) = mset ks)"

lemma permutes_set: "permutes order \<Longrightarrow> set (order ks) = set ks"
  unfolding permutes_def by (metis set_mset_mset)

lemma permutes_sort: "permutes sort"
  by (simp add: permutes_def)

lemma set_map_filter: "set (List.map_filter f xs) = {y. \<exists>x\<in>set xs. f x = Some y}"
  by (induction xs) (auto simp: List.map_filter_simps split: option.splits)

lemma mset_map_filter: "mset (List.map_filter f xs) = image_mset (the \<circ> f) (filter_mset (\<lambda>x. f x \<noteq> None) (mset xs))"
  by (simp add: List.map_filter_def)

lemma map_filter_cong: "(\<And>x. x \<in> set xs \<Longrightarrow> f x = g x) \<Longrightarrow> List.map_filter f xs = List.map_filter g xs"
  by (induction xs) (simp_all add: List.map_filter_simps split: option.splits)

lemma set_iterated: "permutes order \<Longrightarrow> set (iterated order m) = {(k, v). map_of m k = Some v}"
  using map_of_SomeD [of m] by (auto simp: iterated_def set_map_filter permutes_set) (metis fst_conv image_eqI)

lemma iterated_keys: "permutes order \<Longrightarrow> fst ` set (iterated order m) = dom (map_of m)"
  by (force simp: set_iterated)

lemma iterated_values: "permutes order \<Longrightarrow> snd ` set (iterated order m) = ran (map_of m)"
  by (force simp: set_iterated ran_def)

lemma iterated_Nil [simp]: "permutes order \<Longrightarrow> iterated order [] = []"
  by (simp add: iterated_def permutes_def List.map_filter_def)

lemma iterated_eq_Nil: "permutes order \<Longrightarrow> iterated order m = [] \<longleftrightarrow> m = []"
  using set_iterated [of order m] by (cases m) (auto simp: map_of_eq_None_iff split: if_splits)

lemma iterated_mset:
  assumes "permutes order" and "distinct (map fst m)"
  shows "mset (iterated order m) = mset m"
proof -
  let ?f = "\<lambda>k. map_option (Pair k) (map_of m k)"
  have "mset (iterated order m) = mset (List.map_filter ?f (map fst m))"
    using assms(1) by (simp only: iterated_def mset_map_filter permutes_def)
  moreover have "List.map_filter ?f (map fst m) = m"
    using assms(2)
  proof (induction m)
    case (Cons a m)
    have "List.map_filter (\<lambda>k. map_option (Pair k) (map_of (a # m) k)) (map fst m) =
        List.map_filter (\<lambda>k. map_option (Pair k) (map_of m k)) (map fst m)"
      using Cons.prems by (intro map_filter_cong) (cases a, auto)
    with Cons show ?case by (cases a) (simp add: List.map_filter_simps)
  qed (simp add: List.map_filter_simps)
  ultimately show ?thesis by simp
qed

section \<open>The meaning of injected terms\<close>

lemma requiredOf_InjectNodeSelectorTerms:
  "requiredOf (InjectNodeSelectorTerms terms pod) =
     (if terms = [] then requiredOf pod
      else case requiredOf pod of [] \<Rightarrow> terms | t # ts \<Rightarrow> (t @ concat terms) # ts)"
  by (simp add: InjectNodeSelectorTerms_def requiredOf_def nodeAffinityOf_def termsOf_def Let_def)

lemma injected_terms_meaning:
  assumes "terms \<noteq> []" and "[] \<notin> set terms"
  shows "admits sat (requiredOf (InjectNodeSelectorTerms terms pod)) \<longleftrightarrow>
    (case requiredOf pod of
       [] \<Rightarrow> (\<exists>t\<in>set terms. list_all sat t)
     | t # ts \<Rightarrow> list_all sat t \<and> (\<forall>t\<in>set terms. list_all sat t) \<or> admits sat ts)"
proof (cases "requiredOf pod")
  case Nil
  have "t \<noteq> []" if "t \<in> set terms" for t using assms(2) that by auto
  with assms(1) Nil show ?thesis by (auto simp: requiredOf_InjectNodeSelectorTerms admits_def list_ex_iff)
next
  case (Cons t ts)
  have "concat terms \<noteq> []" using assms by (cases terms) auto
  with assms(1) Cons show ?thesis
    by (auto simp: requiredOf_InjectNodeSelectorTerms admits_def list_all_iff)
qed

lemma RequireNodeWithFuse_terms:
  assumes "permutes order" and "infos \<noteq> []" and "\<And>pvc info. (pvc, info) \<in> set infos \<Longrightarrow> riFuseNodeSelector info \<noteq> []"
    and "distinct (map fst infos)"
  shows "\<exists>terms. RequireNodeWithFuse_Mutate order pod infos = ret (InjectNodeSelectorTerms terms pod, False, None) \<and>
    terms \<noteq> [] \<and> [] \<notin> set terms \<and> set terms = (\<lambda>(_, info). getRequiredSchedulingTerm order info) ` set infos"
proof -
  have infos: "set (iterated order infos) = set infos"
    using iterated_mset [OF assms(1,4)] by (metis set_mset_mset)
  let ?required = "\<lambda>(_ :: string, info). getRequiredSchedulingTerm order info"
  let ?ts = "map ?required (iterated order infos)"
  have ne: "[] \<notin> set ?ts"
    using assms(1,3) infos by (auto simp: getRequiredSchedulingTerm_def iterated_eq_Nil)
  then have "filter (\<lambda>t. t \<noteq> []) ?ts = ?ts" by (intro filter_True) blast
  moreover have "?ts \<noteq> []" using iterated_eq_Nil [OF assms(1), of infos] assms(2) by simp
  ultimately have "RequireNodeWithFuse_Mutate order pod infos = ret (InjectNodeSelectorTerms ?ts pod, False, None)"
    using assms(2) by (simp only: RequireNodeWithFuse_Mutate_def Let_def if_False)
  moreover have "set ?ts = ?required ` set infos" using infos by simp
  ultimately show ?thesis using ne \<open>?ts \<noteq> []\<close> by blast
qed

lemma getRequiredSchedulingTerm_sat:
  assumes "permutes order" and "distinct (map fst (riFuseNodeSelector info))"
  shows "list_all sat (getRequiredSchedulingTerm order info) \<longleftrightarrow>
    (\<forall>(k, v)\<in>set (riFuseNodeSelector info). sat (requirementIn k v))"
  using assms by (auto simp: getRequiredSchedulingTerm_def list_all_iff set_iterated split: prod.splits)

definition fuseNode :: "(NodeSelectorRequirement \<Rightarrow> bool) \<Rightarrow> RuntimeInfo \<Rightarrow> bool" where
  "fuseNode sat info = list_all (\<lambda>(k, v). sat (requirementIn k v)) (riFuseNodeSelector info)"

definition schedulable :: "(NodeSelectorRequirement \<Rightarrow> bool) \<Rightarrow> Pod \<Rightarrow> bool" where
  "schedulable sat pod = (requiredOf pod = [] \<or> admits sat (requiredOf pod))"

text \<open>
  C31. A pod that uses one dataset runs only where its FUSE client may run: after the plugin \<open>RequireNodeWithFuse\<close> a node is admitted exactly if the pod admitted it before and it has all labels of the node selector of the FUSE client. That selector is presumed not to be empty, and the pod to have at most one required term and none that is empty.
\<close>

theorem fuse_nodes_required:
  assumes "permutes order" and "riFuseNodeSelector info \<noteq> []" and "distinct (map fst (riFuseNodeSelector info))"
    and "length (requiredOf pod) \<le> 1" and "[] \<notin> set (requiredOf pod)"
    and "RequireNodeWithFuse_Mutate order pod [(pvcName, info)] h = (Ret (pod', stop, err), h')"
  shows "schedulable sat pod' \<longleftrightarrow> schedulable sat pod \<and> fuseNode sat info"
proof -
  obtain terms where run: "RequireNodeWithFuse_Mutate order pod [(pvcName, info)] = ret (InjectNodeSelectorTerms terms pod, False, None)"
    and terms: "terms \<noteq> []" "[] \<notin> set terms" "set terms = {getRequiredSchedulingTerm order info}"
    using RequireNodeWithFuse_terms [OF assms(1), of "[(pvcName, info)]" pod] assms(2) by auto
  have pod': "pod' = InjectNodeSelectorTerms terms pod" using assms(6) run by (simp add: ret_def)
  have "requiredOf pod' \<noteq> []"
    using terms(1) by (simp add: pod' requiredOf_InjectNodeSelectorTerms split: list.splits)
  then have "schedulable sat pod' = admits sat (requiredOf (InjectNodeSelectorTerms terms pod))"
    by (simp add: schedulable_def pod')
  also have "\<dots> = (schedulable sat pod \<and> list_all sat (getRequiredSchedulingTerm order info))"
    unfolding injected_terms_meaning [OF terms(1,2)] terms(3) using assms(4,5)
    by (cases "requiredOf pod") (auto simp: schedulable_def admits_def)
  finally show ?thesis
    using getRequiredSchedulingTerm_sat [OF assms(1,3)] by (simp add: fuseNode_def list_all_iff)
qed

text \<open>
  With several datasets the terms are alternatives: a node on which the FUSE client of only one of the datasets may run is admitted.
\<close>

theorem any_dataset_suffices:
  assumes "permutes order" and "distinct (map fst infos)"
    and "\<And>pvc info. (pvc, info) \<in> set infos \<Longrightarrow> riFuseNodeSelector info \<noteq> [] \<and> distinct (map fst (riFuseNodeSelector info))"
    and "requiredOf pod = []" and "(pvcName, info) \<in> set infos" and "fuseNode sat info"
    and "RequireNodeWithFuse_Mutate order pod infos h = (Ret (pod', stop, err), h')"
  shows "schedulable sat pod'"
proof -
  obtain terms where run: "RequireNodeWithFuse_Mutate order pod infos = ret (InjectNodeSelectorTerms terms pod, False, None)"
    and terms: "terms \<noteq> []" "[] \<notin> set terms" "set terms = (\<lambda>(_, info). getRequiredSchedulingTerm order info) ` set infos"
    using RequireNodeWithFuse_terms [OF assms(1) _ _ assms(2), of pod] assms(3,5) by fastforce
  have pod': "pod' = InjectNodeSelectorTerms terms pod" using assms(7) run by (simp add: ret_def)
  have "list_all sat (getRequiredSchedulingTerm order info)"
    using getRequiredSchedulingTerm_sat [OF assms(1)] assms(3) [OF assms(5)] assms(6) by (simp add: fuseNode_def list_all_iff)
  then have "admits sat (requiredOf pod')"
    unfolding pod' injected_terms_meaning [OF terms(1,2)] terms(3) using assms(4,5) by force
  then show ?thesis by (simp add: schedulable_def)
qed

definition examplePod :: Pod where
  "examplePod =
     \<lparr>pdName = ''app'', pdGenerateName = '''', pdNamespace = ''default'', pdLabels = [], pdAnnotations = [], pdNodeSelector = [],
      pdAffinity = None, pdVolumes = [\<lparr>volName = ''data'', volSource = ClaimVolume ''imagenet''\<rparr>],
      pdContainers =
        [\<lparr>ctName = ''train'', ctImage = ''train:1'', ctCommand = [], ctArgs = [], ctPorts = [], ctEnv = [],
          ctVolumeMounts = [\<lparr>vmName = ''data'', vmMountPath = ''/data'', vmSubPath = '''', vmReadOnly = False, vmPropagation = None\<rparr>],
          ctLifecycle = None, ctSecurity = None, ctRestartPolicy = None\<rparr>],
      pdInitContainers = []\<rparr>"

definition selectedInfo :: "string \<Rightarrow> string \<Rightarrow> RuntimeInfo" where
  "selectedInfo name disk =
     \<lparr>riName = name, riNamespace = ''default'', riOwnerDatasetUID = '''', riRuntimeType = ''alluxio'', riTieredStore = [],
      riPlacementMode = None, riFuseName = '''', riFuseNodeSelector = [(''disk'', disk)], riFuseCleanPolicy = ''OnRuntimeDeleted'',
      riMetricsScrapeTarget = [], riAnnotations = [], riMetadataList = []\<rparr>"

lemma examplePod_required [simp]: "requiredOf examplePod = []"
  by (simp add: examplePod_def requiredOf_def nodeAffinityOf_def termsOf_def)

lemma permutes_id: "permutes (\<lambda>ks. ks)"
  by (simp add: permutes_def)

lemma iterated_one: "iterated (\<lambda>ks. ks) [(k, v)] = [(k, v)]"
  by (simp add: iterated_def List.map_filter_def)

lemma RequireNodeWithFuse_example:
  "RequireNodeWithFuse_Mutate (\<lambda>ks. ks) examplePod [(''imagenet'', selectedInfo ''imagenet'' disk)] =
    ret (InjectNodeSelectorTerms [[requirementIn ''disk'' disk]] examplePod, False, None)"
  by (simp add: RequireNodeWithFuse_Mutate_def iterated_one getRequiredSchedulingTerm_def selectedInfo_def)

theorem fuse_nodes_required_witness:
  "schedulable (\<lambda>r. nrValues r = [''ssd'']) (InjectNodeSelectorTerms [[requirementIn ''disk'' ''ssd'']] examplePod) \<and>
   \<not> schedulable (\<lambda>r. nrValues r = [''hdd'']) (InjectNodeSelectorTerms [[requirementIn ''disk'' ''ssd'']] examplePod)"
proof -
  let ?info = "selectedInfo ''imagenet'' ''ssd''"
  have "schedulable sat (InjectNodeSelectorTerms [[requirementIn ''disk'' ''ssd'']] examplePod) \<longleftrightarrow>
      schedulable sat examplePod \<and> fuseNode sat ?info" for sat
    by (rule fuse_nodes_required [OF permutes_id, where pvcName = "''imagenet''" and info = ?info and h = "[]" and h' = "[]"
          and stop = False and err = None])
      (simp_all only: RequireNodeWithFuse_example examplePod_required, simp_all add: ret_def selectedInfo_def)
  then show ?thesis by (simp add: schedulable_def fuseNode_def selectedInfo_def requirementIn_def)
qed

definition twoInfos :: infos where
  "twoInfos = [(''imagenet'', selectedInfo ''imagenet'' ''ssd''), (''coco'', selectedInfo ''coco'' ''hdd'')]"

theorem any_dataset_suffices_witness:
  "schedulable (\<lambda>r. nrValues r = [''ssd''])
     (InjectNodeSelectorTerms [[requirementIn ''disk'' ''ssd''], [requirementIn ''disk'' ''hdd'']] examplePod) \<and>
   \<not> fuseNode (\<lambda>r. nrValues r = [''ssd'']) (selectedInfo ''coco'' ''hdd'')"
proof -
  have "RequireNodeWithFuse_Mutate (\<lambda>ks. ks) examplePod twoInfos =
      ret (InjectNodeSelectorTerms [[requirementIn ''disk'' ''ssd''], [requirementIn ''disk'' ''hdd'']] examplePod, False, None)"
    by (simp add: RequireNodeWithFuse_Mutate_def iterated_def List.map_filter_simps getRequiredSchedulingTerm_def selectedInfo_def twoInfos_def)
  then have run: "RequireNodeWithFuse_Mutate (\<lambda>ks. ks) examplePod twoInfos [] =
      (Ret (InjectNodeSelectorTerms [[requirementIn ''disk'' ''ssd''], [requirementIn ''disk'' ''hdd'']] examplePod, False, None), [])"
    by (simp add: ret_def)
  have "schedulable (\<lambda>r. nrValues r = [''ssd''])
     (InjectNodeSelectorTerms [[requirementIn ''disk'' ''ssd''], [requirementIn ''disk'' ''hdd'']] examplePod)"
    by (rule any_dataset_suffices [OF permutes_id _ _ examplePod_required _ _ run, where pvcName = "''imagenet''"
          and info = "selectedInfo ''imagenet'' ''ssd''"])
      (auto simp: twoInfos_def fuseNode_def selectedInfo_def requirementIn_def)
  then show ?thesis by (simp add: fuseNode_def selectedInfo_def requirementIn_def)
qed

section \<open>The other plugins\<close>

text \<open>Iteration over a map does not make the annotation depend on the order.\<close>

text \<open>
  The annotation that lists the datasets of a pod does not depend on the order in which Go iterates over the map of runtimes.
\<close>

theorem datasets_in_use_annotation:
  assumes "permutes order" and "permutes order'" and "distinct (map fst infos)"
  shows "DatasetUsageInjector_Mutate order pod infos = DatasetUsageInjector_Mutate order' pod infos"
proof -
  have "mset (map (\<lambda>(_, info). riName info) (iterated order infos)) = mset (map (\<lambda>(_, info). riName info) (iterated order' infos))"
    using assms by (simp add: iterated_mset)
  then have "sort (map (\<lambda>(_, info). riName info) (iterated order infos)) = sort (map (\<lambda>(_, info). riName info) (iterated order' infos))"
    by (metis mset_sort properties_for_sort sorted_sort)
  then show ?thesis by (simp add: DatasetUsageInjector_Mutate_def)
qed

lemma schedLabel_roundtrip:
  "LabelAnnotationPodSchedRegex (''fluid.io/dataset.'' @ name @ ''.sched'') = (if list_all datasetChar name then Some name else None)"
  by (simp add: LabelAnnotationPodSchedRegex_def HasPrefix_def HasSuffix_def Let_def)

lemma schedLabel_sound:
  assumes "LabelAnnotationPodSchedRegex key = Some name"
  shows "key = ''fluid.io/dataset.'' @ name @ ''.sched''"
proof -
  obtain r where key: "key = ''fluid.io/dataset.'' @ r"
    using assms by (auto simp: LabelAnnotationPodSchedRegex_def Let_def HasPrefix_iff split: if_splits)
  then have r: "drop (length r - length ''.sched'') r = ''.sched''" "name = take (length r - 6) r"
    using assms by (auto simp: LabelAnnotationPodSchedRegex_def Let_def HasSuffix_def split: if_splits)
  have r: "drop (length r - 6) r = ''.sched''" "name = take (length r - 6) r" using r by (simp_all add: numeral_eq_Suc)
  have "r = name @ ''.sched''" unfolding r(1) [symmetric] r(2) by simp
  with key show ?thesis by simp
qed

lemma nodeSelector_overlooked:
  assumes "Option.bind (pdAffinity pod) afNodeAffinity = Some na" and "naRequired na = None"
    and "\<not> list_ex (\<lambda>(_, t). list_ex (\<lambda>e. nrKey e \<in> set (getTieredLocalityNames t1)) t) (naPreferred na)"
  shows "\<not> hasRepeatedLocality t1 pod"
  using assms by (simp add: hasRepeatedLocality_def Let_def)

end
