(* ===== verification/Fuse_Template.thy ===== *)
theory Fuse_Template
  imports Pod_Scheduling Byte_Size
begin

text \<open>
  What an injection of FUSE sidecars builds on: the template of the sidecar that is read from the FUSE daemon set and the volume of
  a runtime (\<open>pkg/ddc/base/runtime_helper.go\<close>), new names of volumes (\<open>volume.go\<close> of \<open>pkg/application/inject/fuse\<close>) and the
  scripts that check the mounts after the start of a container, with their config maps (\<open>poststart\<close>). The scripts are text to
  the code: their contents and checksums are parameters. \<open>gives\<close> is the logic of programs that may fail.
\<close>

section \<open>Environment\<close>

text \<open>
  \<open>ivWorld\<close> answers the client of the webhook, \<open>ivOrder\<close> is the order of an iteration over a map, \<open>ivRandom\<close> the random
  string of an attempt to rename a volume, \<open>ivUnique\<close> the time and the random number of a host path (or an error of
  \<open>rand.Read\<close>), \<open>ivNative\<close> whether sidecars are injected as native sidecars, \<open>ivDeprecatedKey\<close> the label of serverless
  platforms, \<open>ivMetadata\<close> the parser of the metadata annotation.
\<close>

record injectEnv =
  ivWorld :: world
  ivOrder :: "string list \<Rightarrow> string list"
  ivRandom :: "string \<Rightarrow> nat \<Rightarrow> string"
  ivUnique :: "string \<Rightarrow> goerr + string"
  ivNative :: bool
  ivDeprecatedKey :: string
  ivMetadata :: "RuntimeObject \<Rightarrow> Metadata list"
  ivAppScript :: string
  ivAppSHA :: string
  ivSidecarScript :: string
  ivSidecarSHA :: string

text \<open>The next step of a program that fails with an error.\<close>

definition orFail :: "('e, goerr + 'a) go \<Rightarrow> ('a \<Rightarrow> ('e, goerr + 'b) go) \<Rightarrow> ('e, goerr + 'b) go" where
  "orFail m f = andThen m (\<lambda>r. case r of Inl err \<Rightarrow> ret (Inl err) | Inr a \<Rightarrow> f a)"

definition wrapErr :: "string \<Rightarrow> ('e, goerr + 'a) go \<Rightarrow> ('e, goerr + 'a) go" where
  "wrapErr msg m = andThen m (\<lambda>r. ret (case r of Inl err \<Rightarrow> Inl (Wrapped msg err) | Inr a \<Rightarrow> Inr a))"

definition runtimeKey :: "RuntimeInfo \<Rightarrow> string" where
  "runtimeKey info = [CHR 0x22] @ riNamespace info @ ''/'' @ riName info @ [CHR 0x22]"

section \<open>runtime\_helper.go\<close>

record FuseTemplate =
  ftContainer :: Container
  ftVolumes :: "Volume list"
  ftFsType :: string
  ftHostMountPath :: string
  ftContainerMountPath :: string
  ftSubPath :: string

definition fuseMountPrefixes :: "(string \<times> string) list" where
  "fuseMountPrefixes =
     [(''fuse.jindofs-fuse'', ''jindofs''), (''jindo'', ''jindofs''), (''fuse.alluxio-fuse'', ''alluxio''),
      (''alluxio'', ''alluxio''), (''fuse.goosefs-fuse'', ''goosefs''), (''JuiceFS'', ''juicefs''), (''juicefs'', ''juicefs'')]"

definition GetFuseMountInContainer :: "string \<Rightarrow> Container \<Rightarrow> goerr + VolumeMount" where
  "GetFuseMountInContainer mountType container =
     (let name = (case map_of fuseMountPrefixes mountType of
                    Some prefix \<Rightarrow> prefix @ ''-fuse-mount''
                  | None \<Rightarrow> if list_ex (\<lambda>vm. vmName vm = ''thin-fuse-mount'') (ctVolumeMounts container)
                           then ''thin-fuse-mount'' else '''') in
      if name = '''' then Inl (Err (''failed to find the prefix by mountType '' @ mountType))
      else case find (\<lambda>vm. vmName vm = name) (ctVolumeMounts container) of
             Some vm \<Rightarrow> Inr vm
           | None \<Rightarrow> Inl (Err (''failed to find the volumeMount by the name '' @ name)))"

definition getFuseDaemonset :: "world \<Rightarrow> RuntimeInfo \<Rightarrow> (goerr + DaemonSet) kgo" where
  "getFuseDaemonset rw info =
     GetDaemonset rw (if riRuntimeType info = ''jindo'' then riName info @ ''-jindofs-fuse'' else riName info @ ''-fuse'')
       (riNamespace info)"

definition getMountInfo :: "world \<Rightarrow> RuntimeInfo \<Rightarrow> (goerr + string \<times> string \<times> string) kgo" where
  "getMountInfo rw info =
     andThen (GetPersistentVolume rw (GetPersistentVolumeName info)) (\<lambda>r.
     ret (case r of
            Inl err \<Rightarrow> Inl (Wrapped (''cannot find pvc '' @ runtimeKey info @ ''s bounded PV'') err)
          | Inr pv \<Rightarrow>
              if pvAttributes pv \<noteq> []
              then Inr (lookupStr (pvAttributes pv) ''fluid_path'', lookupStr (pvAttributes pv) ''mount_type'',
                        lookupStr (pvAttributes pv) ''fluid_sub_path'')
              else Inl (Err (''the pv '' @ omName (pvMeta pv) @ '' is not created by fluid''))))"

definition GetFuseContainerTemplate :: "world \<Rightarrow> RuntimeInfo \<Rightarrow> (goerr + FuseTemplate) kgo" where
  "GetFuseContainerTemplate rw info =
     orFail (getFuseDaemonset rw info) (\<lambda>ds.
     case dsmContainers ds of
       [] \<Rightarrow> ret (Inl (Err ''the length of containers of fuse daemonset should not be 0''))
     | c # _ \<Rightarrow>
         orFail (wrapErr (''failed to get mount info by runtimeInfo '' @ runtimeKey info) (getMountInfo rw info))
           (\<lambda>(hostMountPath, mountType, subPath).
         ret (case GetFuseMountInContainer mountType c of
                Inl err \<Rightarrow> Inl (Wrapped ''failed to get fuse volume mount from container'' err)
              | Inr vm \<Rightarrow>
                  Inr \<lparr>ftContainer = c\<lparr>ctName := ''fluid-fuse''\<rparr>,
                       ftVolumes = FilterVolumesByVolumeMounts (dsmVolumes ds) (ctVolumeMounts c),
                       ftFsType = mountType, ftHostMountPath = hostMountPath,
                       ftContainerMountPath = vmMountPath vm, ftSubPath = subPath\<rparr>)))"

section \<open>Names of volumes\<close>

text \<open>The loop of \<open>randomizeNewVolumeName\<close> after \<open>i\<close> attempts; it gives up after 101 of them.\<close>

function randomizeFrom :: "injectEnv \<Rightarrow> string \<Rightarrow> string list \<Rightarrow> string \<Rightarrow> nat \<Rightarrow> (goerr + string) kgo" where
  "randomizeFrom v origName existingNames newVolumeName i =
     (if newVolumeName \<notin> set existingNames then ret (Inr newVolumeName)
      else if i > 100 then
        ret (Inl (Err (''retry  the volume name '' @ newVolumeName @ '' because duplicate name more than 100 times, then give up'')))
      else andThen (ReplacePrefix origName (''fluid-'' @ ivRandom v origName i)) (\<lambda>name.
           randomizeFrom v origName existingNames name (Suc i)))"
  by pat_completeness auto
termination
  by (relation "measure (\<lambda>(v, origName, existingNames, newVolumeName, i). 101 - i)") auto

declare randomizeFrom.simps [simp del]

definition randomizeNewVolumeName :: "injectEnv \<Rightarrow> string \<Rightarrow> string list \<Rightarrow> (goerr + string) kgo" where
  "randomizeNewVolumeName v origName existingNames =
     andThen (ReplacePrefix origName ''fluid'') (\<lambda>name. randomizeFrom v origName existingNames name 0)"

text \<open>Appends volumes under new names; a renamed one is in the map from old to new names.\<close>

fun appendVolumes ::
  "injectEnv \<Rightarrow> Volume list \<Rightarrow> Volume list \<Rightarrow> string \<Rightarrow> (string \<times> string) list \<Rightarrow>
   (goerr + (string \<times> string) list \<times> Volume list) kgo" where
  "appendVolumes v volumes [] nameSuffix renamed = ret (Inr (renamed, volumes))"
| "appendVolumes v volumes (volumeToAdd # rest) nameSuffix renamed =
     (let newVolumeName = volName volumeToAdd @ nameSuffix;
          volumeNames = map volName volumes in
      orFail (if newVolumeName \<in> set volumeNames then randomizeNewVolumeName v newVolumeName volumeNames
              else ret (Inr newVolumeName)) (\<lambda>name.
      appendVolumes v (volumes @ [volumeToAdd\<lparr>volName := name\<rparr>]) rest nameSuffix
        (if volName volumeToAdd \<noteq> name then AList.update (volName volumeToAdd) name renamed else renamed)))"

section \<open>Post-start scripts\<close>

definition GetConfigmapByName :: "world \<Rightarrow> string \<Rightarrow> string \<Rightarrow> (goerr + ConfigMap option) kgo" where
  "GetConfigmapByName w name namespace =
     andThen (call (\<lambda>h. kwGetConfigMap w h name namespace) (ReadConfigMap name namespace)) (\<lambda>r.
     ret (case r of
            Inl err \<Rightarrow> if IsNotFound err then Inr None else Inl err
          | Inr cm \<Rightarrow> Inr (Some cm)))"

definition createConfigMap :: "world \<Rightarrow> ConfigMap \<Rightarrow> (goerr option) kgo" where
  "createConfigMap w cm = call (\<lambda>h. kwCreateConfigMap w h cm) (CreatedConfigMap cm)"

definition updateConfigMap :: "world \<Rightarrow> ConfigMap \<Rightarrow> (goerr option) kgo" where
  "updateConfigMap w cm = call (\<lambda>h. kwUpdateConfigMap w h cm) (WroteConfigMap cm)"

abbreviation shaKey :: string where
  "shaKey \<equiv> ''fluid.io/check-mount-script-sha256''"

definition isConfigMapUpToDate :: "ConfigMap \<Rightarrow> string \<Rightarrow> bool" where
  "isConfigMapUpToDate cm expectedSHA256 = (map_of (cmAnnotations cm) shaKey = Some expectedSHA256)"

subsection \<open>script\_gen\_helper.go and check\_fuse\_default.go\<close>

definition BuildConfigMap :: "injectEnv \<Rightarrow> Dataset \<Rightarrow> string \<Rightarrow> string \<Rightarrow> ConfigMap" where
  "BuildConfigMap v dataset name namespace =
     \<lparr>cmName = name, cmNamespace = namespace, cmOwners = [],
      cmLabels = [(''fluid.io/dataset-id'', GetDatasetId namespace (omName (dMeta dataset)) (omUID (dMeta dataset)))],
      cmAnnotations = [(shaKey, ivSidecarSHA v)], cmData = [(''check-mount.sh'', ivSidecarScript v)]\<rparr>"

definition RefreshConfigMapContents :: "injectEnv \<Rightarrow> Dataset \<Rightarrow> string \<Rightarrow> string \<Rightarrow> ConfigMap \<Rightarrow> ConfigMap" where
  "RefreshConfigMapContents v dataset name namespace existingCM =
     (let newCM = BuildConfigMap v dataset name namespace in
      existingCM\<lparr>cmData := cmData newCM, cmLabels := assignAll (cmLabels newCM) (cmLabels existingCM),
                 cmAnnotations := assignAll (cmAnnotations newCM) (cmAnnotations existingCM)\<rparr>)"

definition sidecarConfigMapName :: "string \<Rightarrow> string" where
  "sidecarConfigMapName fsType = map ToLower fsType @ ''-default-check-mount''"

definition sidecarScriptVolume :: "string \<Rightarrow> Volume" where
  "sidecarScriptVolume configMapName = \<lparr>volName = ''default-check-mount'', volSource = ConfigMapVolume configMapName 493\<rparr>"

definition sidecarScriptMount :: VolumeMount where
  "sidecarScriptMount =
     \<lparr>vmName = ''default-check-mount'', vmMountPath = ''/check-mount.sh'', vmSubPath = ''check-mount.sh'', vmReadOnly = True,
      vmPropagation = None\<rparr>"

definition sidecarPostStartCommand :: "string \<Rightarrow> string \<Rightarrow> string \<Rightarrow> string list" where
  "sidecarPostStartCommand mountPath mountType subPath =
     [''bash'', ''-c'', ''time /check-mount.sh '' @ mountPath @ '' '' @ mountType @ '' '' @ subPath]"

definition updateConfigMapIfStale :: "injectEnv \<Rightarrow> Dataset \<Rightarrow> string \<Rightarrow> string \<Rightarrow> (goerr option) kgo" where
  "updateConfigMapIfStale v dataset name namespace =
     andThen (GetConfigmapByName (ivWorld v) name namespace) (\<lambda>r.
     case r of
       Inl err \<Rightarrow> ret (Some err)
     | Inr None \<Rightarrow> createConfigMap (ivWorld v) (BuildConfigMap v dataset name namespace)
     | Inr (Some current) \<Rightarrow>
         if isConfigMapUpToDate current (ivSidecarSHA v) then ret None
         else let latest = RefreshConfigMapContents v dataset name namespace current in
              if current = latest then ret None else updateConfigMap (ivWorld v) latest)"

definition ensurePostStartConfigMap :: "injectEnv \<Rightarrow> Dataset \<Rightarrow> string \<Rightarrow> string \<Rightarrow> (goerr option) kgo" where
  "ensurePostStartConfigMap v dataset name namespace =
     andThen (GetConfigmapByName (ivWorld v) name namespace) (\<lambda>r.
     case r of
       Inl err \<Rightarrow> ret (Some err)
     | Inr None \<Rightarrow>
         andThen (createConfigMap (ivWorld v) (BuildConfigMap v dataset name namespace)) (\<lambda>err.
         ret (IgnoreAlreadyExists err))
     | Inr (Some _) \<Rightarrow> RetryOnConflict (updateConfigMapIfStale v dataset name namespace))"

subsection \<open>check\_fuse\_app.go\<close>

definition appConfigMap :: "injectEnv \<Rightarrow> string \<Rightarrow> ConfigMap" where
  "appConfigMap v namespace =
     \<lparr>cmName = ''check-fluid-mount-ready'', cmNamespace = namespace, cmOwners = [], cmLabels = [], cmAnnotations = [(shaKey, ivAppSHA v)],
      cmData = [(''check-fluid-mount-ready.sh'', ivAppScript v)]\<rparr>"

definition appScriptVolume :: Volume where
  "appScriptVolume =
     \<lparr>volName = ''check-fluid-mount-ready'', volSource = ConfigMapVolume ''check-fluid-mount-ready'' 493\<rparr>"

definition appScriptMount :: VolumeMount where
  "appScriptMount =
     \<lparr>vmName = ''check-fluid-mount-ready'', vmMountPath = ''/check-fluid-mount-ready.sh'',
      vmSubPath = ''check-fluid-mount-ready.sh'', vmReadOnly = True, vmPropagation = None\<rparr>"

definition appPostStartCommand :: "string \<Rightarrow> string \<Rightarrow> string list" where
  "appPostStartCommand paths types =
     [''bash'', ''-c'', ''time /check-fluid-mount-ready.sh '' @ paths @ '' '' @ types]"

definition refreshAppConfigMap :: "injectEnv \<Rightarrow> string \<Rightarrow> (goerr option) kgo" where
  "refreshAppConfigMap v namespace =
     (let cm = appConfigMap v namespace in
      andThen (GetConfigmapByName (ivWorld v) (cmName cm) (cmNamespace cm)) (\<lambda>r.
      case r of
        Inl err \<Rightarrow> ret (Some err)
      | Inr None \<Rightarrow> createConfigMap (ivWorld v) cm
      | Inr (Some current) \<Rightarrow>
          if isConfigMapUpToDate current (ivAppSHA v) then ret None
          else updateConfigMap (ivWorld v)
                 (current\<lparr>cmData := cmData cm, cmAnnotations := AList.update shaKey (ivAppSHA v) (cmAnnotations current)\<rparr>)))"

definition ensureScriptConfigMapExists :: "injectEnv \<Rightarrow> string \<Rightarrow> (goerr option) kgo" where
  "ensureScriptConfigMapExists v namespace =
     (let cm = appConfigMap v namespace in
      andThen (GetConfigmapByName (ivWorld v) (cmName cm) (cmNamespace cm)) (\<lambda>r.
      case r of
        Inl err \<Rightarrow> ret (Some err)
      | Inr None \<Rightarrow> andThen (createConfigMap (ivWorld v) cm) (\<lambda>err. ret (IgnoreAlreadyExists err))
      | Inr (Some _) \<Rightarrow> RetryOnConflict (refreshAppConfigMap v namespace)))"

section \<open>Successful results\<close>

named_theorems gives_rules \<open>introduction rules for what a successful result satisfies\<close>

definition gives :: "('a \<Rightarrow> bool) \<Rightarrow> ('e, goerr + 'a) go \<Rightarrow> bool" where
  "gives R m \<longleftrightarrow> yields (\<lambda>r. \<forall>a. r = Inr a \<longrightarrow> R a) m"

lemma gives_ret [gives_rules]: "(\<And>a. r = Inr a \<Longrightarrow> R a) \<Longrightarrow> gives R (ret r)"
  by (simp add: gives_def yields_def ret_def)

lemma gives_orFail:
  assumes "gives R m" and "\<And>a. R a \<Longrightarrow> gives S (f a)"
  shows "gives S (orFail m f)"
  unfolding gives_def orFail_def
  by (rule yields_andThen [OF assms(1) [unfolded gives_def]])
    (use assms(2) in \<open>auto simp: gives_def yields_def ret_def split: sum.splits\<close>)

lemma gives_wrapErr [gives_rules]: "gives R m \<Longrightarrow> gives R (wrapErr msg m)"
  unfolding gives_def wrapErr_def
  by (erule yields_andThen) (auto simp: yields_def ret_def split: sum.splits)

lemma gives_then [gives_rules]: "(\<And>a. gives R (f a)) \<Longrightarrow> gives R (andThen m f)"
  unfolding gives_def by (rule yields_then)

lemma gives_orFail_any: "(\<And>a. gives S (f a)) \<Longrightarrow> gives S (orFail m f)"
  by (rule gives_orFail [where R = "\<lambda>_. True"]) (simp_all add: gives_def yields_def)

lemma gives_mono: "gives R m \<Longrightarrow> (\<And>a. R a \<Longrightarrow> S a) \<Longrightarrow> gives S m"
  by (auto simp: gives_def yields_def)

lemma gives_cases [gives_rules]:
  "(b \<Longrightarrow> gives R m) \<Longrightarrow> (\<not> b \<Longrightarrow> gives R n) \<Longrightarrow> gives R (if b then m else n)"
  "(x = None \<Longrightarrow> gives R m) \<Longrightarrow> (\<And>a. x = Some a \<Longrightarrow> gives R (f a)) \<Longrightarrow> gives R (case x of None \<Rightarrow> m | Some a \<Rightarrow> f a)"
  "(\<And>a. y = Inl a \<Longrightarrow> gives R (g a)) \<Longrightarrow> (\<And>c. y = Inr c \<Longrightarrow> gives R (k c)) \<Longrightarrow> gives R (case y of Inl a \<Rightarrow> g a | Inr c \<Rightarrow> k c)"
  "(\<And>a c. z = (a, c) \<Longrightarrow> gives R (l a c)) \<Longrightarrow> gives R (case z of (a, c) \<Rightarrow> l a c)"
  "(xs = [] \<Longrightarrow> gives R m) \<Longrightarrow> (\<And>a as. xs = a # as \<Longrightarrow> gives R (n' a as)) \<Longrightarrow> gives R (case xs of [] \<Rightarrow> m | a # as \<Rightarrow> n' a as)"
  by (cases b; simp; fail | cases x; simp; fail | cases y; simp; fail | cases z; simp; fail | cases xs; simp; fail)+

lemma gives_run: "gives R m \<Longrightarrow> m h = (Ret (Inr a), h') \<Longrightarrow> R a"
  unfolding gives_def yields_def by (metis fst_conv)

section \<open>Appending volumes\<close>

lemma gives_randomizeFrom: "gives (\<lambda>name. name \<notin> set existing) (randomizeFrom v orig existing name i)"
proof (induction "101 - i" arbitrary: i name rule: less_induct)
  case less
  show ?case
    unfolding randomizeFrom.simps [of v orig existing name i]
    by (intro gives_rules less) auto
qed

lemma gives_randomizeNewVolumeName: "gives (\<lambda>name. name \<notin> set existing) (randomizeNewVolumeName v orig existing)"
  unfolding randomizeNewVolumeName_def by (intro gives_rules gives_randomizeFrom)

abbreviation volNames :: "Volume list \<Rightarrow> string set" where
  "volNames vs \<equiv> volName ` set vs"

definition appended :: "Volume list \<Rightarrow> (string \<times> string) list \<Rightarrow> Volume list \<Rightarrow> (string \<times> string) list \<times> Volume list \<Rightarrow> bool" where
  "appended volumes renamed toAdd r \<longleftrightarrow>
     (\<exists>new. snd r = volumes @ new \<and> map volSource new = map volSource toAdd) \<and>
     (distinct (map volName volumes) \<longrightarrow> distinct (map volName (snd r))) \<and>
     dom (map_of renamed) \<subseteq> dom (map_of (fst r)) \<and>
     ran (map_of (fst r)) \<subseteq> ran (map_of renamed) \<union> volNames (snd r) \<and>
     volNames toAdd \<subseteq> dom (map_of (fst r)) \<union> volNames (snd r)"

lemma gives_appendVolumes: "gives (appended volumes renamed toAdd) (appendVolumes v volumes toAdd suffix renamed)"
proof (induction toAdd arbitrary: volumes renamed)
  case Nil
  then show ?case by (auto simp: appended_def intro!: gives_rules)
next
  case (Cons x toAdd)
  let ?name = "volName x @ suffix"
  have name: "gives (\<lambda>name. name \<notin> volNames volumes)
      (if ?name \<in> set (map volName volumes) then randomizeNewVolumeName v ?name (map volName volumes) else ret (Inr ?name))"
    by (intro gives_rules gives_mono [OF gives_randomizeNewVolumeName]) auto
  show ?case
    unfolding appendVolumes.simps Let_def
  proof (rule gives_orFail [OF name], rule gives_mono [OF Cons.IH])
    fix name r
    assume new: "name \<notin> volNames volumes"
    assume "appended (volumes @ [x\<lparr>volName := name\<rparr>])
      (if volName x \<noteq> name then AList.update (volName x) name renamed else renamed) toAdd r"
    then show "appended volumes renamed (x # toAdd) r"
      using new
      by (auto simp: appended_def update_conv' image_iff ran_def split: if_splits)
  qed
qed

end
