(* ===== verification/Fuse_Injector.thy ===== *)
theory Fuse_Injector
  imports Fuse_Template
begin

text \<open>
  The injection of FUSE sidecars into a pod (\<open>pkg/application/inject/fuse\<close>): the default and the unprivileged mutator and the
  injector.
\<close>

section \<open>Mutators\<close>

text \<open>\<open>helperData\<close> and its \<open>mutatingContext\<close>; the specs are those of the pod.\<close>

record Helper =
  hdPvcName :: string
  hdTemplate :: FuseTemplate
  hdCacheDir :: bool
  hdSkipPostStart :: bool
  hdInfo :: RuntimeInfo
  hdSuffix :: string
  hdPod :: Pod
  hdAppended :: "(string \<times> string) list"
  hdUsed :: "bool option"
  hdUsedInit :: "bool option"
  hdUnique :: string

definition cacheDirNames :: "string list" where
  "cacheDirNames = [''datavolume-'', ''volume-localtime'', ''cache-dir'', ''mem'', ''ssd'', ''hdd'']"

definition hostMountNames :: "string list" where
  "hostMountNames =
     [''alluxio-fuse-mount'', ''jindofs-fuse-mount'', ''goosefs-fuse-mount'', ''juicefs-fuse-mount'', ''thin-fuse-mount'',
      ''efc-fuse-mount'', ''efc-sock'']"

definition hostFuseDeviceNames :: "string list" where
  "hostFuseDeviceNames = [''alluxio-fuse-device'', ''jindofs-fuse-device'', ''goosefs-fuse-device'', ''thin-fuse-device'']"

definition trimTemplate :: "string list \<Rightarrow> FuseTemplate \<Rightarrow> FuseTemplate" where
  "trimTemplate names t =
     t\<lparr>ftContainer := (ftContainer t)\<lparr>ctVolumeMounts := TrimVolumeMounts (ctVolumeMounts (ftContainer t)) names\<rparr>,
       ftVolumes := TrimVolumes (ftVolumes t) names\<rparr>"

definition transformTemplateWithCacheDirDisabled :: "Helper \<Rightarrow> Helper" where
  "transformTemplateWithCacheDirDisabled d = d\<lparr>hdTemplate := trimTemplate cacheDirNames (hdTemplate d)\<rparr>"

definition unprivilegedContext :: "SecurityContext \<Rightarrow> SecurityContext" where
  "unprivilegedContext sc =
     \<lparr>scPrivileged = Some False, scAddCapabilities = map_option (\<lambda>cs. TrimCapabilities cs [''SYS_ADMIN'']) (scAddCapabilities sc)\<rparr>"

definition transformTemplateWithUnprivilegedSidecarEnabled :: "Helper \<Rightarrow> Helper" where
  "transformTemplateWithUnprivilegedSidecarEnabled d =
     (let t = trimTemplate hostFuseDeviceNames (trimTemplate hostMountNames (hdTemplate d)) in
      d\<lparr>hdTemplate := t\<lparr>ftContainer := (ftContainer t)
         \<lparr>ctSecurity := map_option unprivilegedContext (ctSecurity (ftContainer t))\<rparr>\<rparr>\<rparr>)"

definition sidecarSelected :: "RuntimeInfo \<Rightarrow> bool" where
  "sidecarSelected info = (''Sidecar'' \<in> set (riMetricsScrapeTarget info))"

definition removeFuseMetricsContainerPort :: "Helper \<Rightarrow> Helper" where
  "removeFuseMetricsContainerPort d =
     (let t = hdTemplate d; c = ftContainer t in
      d\<lparr>hdTemplate := t\<lparr>ftContainer := c\<lparr>ctPorts := filter (\<lambda>(n, _). \<not> HasSuffix n ''-metrics'') (ctPorts c)\<rparr>\<rparr>\<rparr>)"

definition withPostStart :: "string list \<Rightarrow> Lifecycle option \<Rightarrow> Lifecycle option" where
  "withPostStart command lifecycle =
     Some ((case lifecycle of None \<Rightarrow> \<lparr>lcPostStart = None, lcPreStop = None\<rparr> | Some l \<Rightarrow> l)\<lparr>lcPostStart := Some command\<rparr>)"

definition prepareFuseContainerPostStartScript :: "injectEnv \<Rightarrow> Helper \<Rightarrow> (goerr + Helper) kgo" where
  "prepareFuseContainerPostStartScript v d =
     (let t = hdTemplate d; c = ftContainer t; namespace = riNamespace (hdInfo d); name = sidecarConfigMapName (ftFsType t) in
      orFail (viaOp (ivWorld v) (\<lambda>cl. GetDataset cl (riName (hdInfo d)) namespace)) (\<lambda>dataset.
      andThen (ensurePostStartConfigMap v dataset name namespace) (\<lambda>err.
      case err of
        Some err \<Rightarrow> ret (Inl err)
      | None \<Rightarrow>
          ret (Inr (d\<lparr>hdTemplate := t
            \<lparr>ftContainer := c\<lparr>ctVolumeMounts := ctVolumeMounts c @ [sidecarScriptMount],
                              ctLifecycle := withPostStart (sidecarPostStartCommand (ftContainerMountPath t) (ftFsType t) (ftSubPath t))
                                (ctLifecycle c)\<rparr>,
             ftVolumes := ftVolumes t @ [sidecarScriptVolume name]\<rparr>\<rparr>)))))"

definition finishPreparation :: "injectEnv \<Rightarrow> Helper \<Rightarrow> (goerr + Helper) kgo" where
  "finishPreparation v d =
     orFail (if hdSkipPostStart d then ret (Inr d) else prepareFuseContainerPostStartScript v d) (\<lambda>d.
     ret (Inr (if sidecarSelected (hdInfo d) then d else removeFuseMetricsContainerPort d)))"

definition defaultPrepareMutation :: "injectEnv \<Rightarrow> Helper \<Rightarrow> (goerr + Helper) kgo" where
  "defaultPrepareMutation v d =
     finishPreparation v (if hdCacheDir d then d else transformTemplateWithCacheDirDisabled d)"

definition unprivilegedPrepareMutation :: "injectEnv \<Rightarrow> Helper \<Rightarrow> (goerr + Helper) kgo" where
  "unprivilegedPrepareMutation v d =
     finishPreparation v (transformTemplateWithUnprivilegedSidecarEnabled
       (if hdCacheDir d then d else transformTemplateWithCacheDirDisabled d))"

abbreviation hostPathModeKey :: string where
  "hostPathModeKey \<equiv> ''default.fuse-sidecar.fluid.io/host-mount-path-mode''"

definition randomHostPath :: "Pod \<Rightarrow> bool" where
  "randomHostPath pod = (map_of (pdAnnotations pod) hostPathModeKey = Some ''random-suffix'')"

definition generateUniqueHostPath :: "injectEnv \<Rightarrow> Helper \<Rightarrow> string \<Rightarrow> goerr + string \<times> string" where
  "generateUniqueHostPath v d originalMountPath =
     (case ivUnique v (hdPvcName d) of
        Inl err \<Rightarrow> Inl err
      | Inr micros \<Rightarrow>
          let pod = hdPod d;
              name = (if pdName pod = '''' then pdGenerateName pod @ ''--generate-name'' else pdName pod);
              unique = name @ ''/'' @ micros;
              parts = Split CHR ''/'' originalMountPath in
          if length parts < 2 then Inl (Err (''unsupported host mount path format: '' @ originalMountPath))
          else Inr (unique, ''/'' @ JoinPath (butlast parts @ [unique, last parts])))"

definition propagate :: "string list \<Rightarrow> Container \<Rightarrow> Container" where
  "propagate names c =
     c\<lparr>ctVolumeMounts := map (\<lambda>m. if vmName m \<in> set names then m\<lparr>vmPropagation := Some ''HostToContainer''\<rparr> else m)
        (ctVolumeMounts c)\<rparr>"

definition mountsAny :: "string list \<Rightarrow> Container list \<Rightarrow> bool" where
  "mountsAny names cs = list_ex (\<lambda>c. list_ex (\<lambda>m. vmName m \<in> set names) (ctVolumeMounts c)) cs"

definition replaceClaims :: "string \<Rightarrow> string \<Rightarrow> Volume list \<Rightarrow> Volume list" where
  "replaceClaims pvcName path = map (\<lambda>x. if claimOf x = Some pvcName then x\<lparr>volSource := HostPathVolume path\<rparr> else x)"

definition defaultMutateDatasetVolumes :: "injectEnv \<Rightarrow> Helper \<Rightarrow> goerr + Helper" where
  "defaultMutateDatasetVolumes v d =
     (let pod = hdPod d; t = hdTemplate d in
      case (if randomHostPath pod then generateUniqueHostPath v d (ftHostMountPath t) else Inr (hdUnique d, ftHostMountPath t)) of
        Inl err \<Rightarrow> Inl err
      | Inr (unique, mountPath) \<Rightarrow>
          let path = (if ftSubPath t \<noteq> '''' then mountPath @ ''/'' @ ftSubPath t else mountPath);
              names = map volName (filter (\<lambda>x. claimOf x = Some (hdPvcName d)) (pdVolumes pod)) in
          Inr (d\<lparr>hdUnique := unique, hdUsed := Some (mountsAny names (pdContainers pod)),
                 hdUsedInit := Some (mountsAny names (pdInitContainers pod)),
                 hdPod := pod\<lparr>pdVolumes := replaceClaims (hdPvcName d) path (pdVolumes pod),
                              pdContainers := map (propagate names) (pdContainers pod),
                              pdInitContainers := map (propagate names) (pdInitContainers pod)\<rparr>\<rparr>))"

definition uniqueHostPaths :: "Helper \<Rightarrow> Volume list" where
  "uniqueHostPaths d =
     (if randomHostPath (hdPod d) then
        map (\<lambda>x. if IsVolumeNameHasPrefixes x hostMountNames
                 then (case volSource x of HostPathVolume p \<Rightarrow> x\<lparr>volSource := HostPathVolume (p @ ''/'' @ hdUnique d)\<rparr> | _ \<Rightarrow> x)
                 else x) (ftVolumes (hdTemplate d))
      else ftVolumes (hdTemplate d))"

definition defaultAppendFuseContainerVolumes :: "injectEnv \<Rightarrow> Helper \<Rightarrow> (goerr + Helper) kgo" where
  "defaultAppendFuseContainerVolumes v d =
     orFail (appendVolumes v (pdVolumes (hdPod d)) (uniqueHostPaths d) (hdSuffix d) (hdAppended d)) (\<lambda>(renamed, volumes).
     ret (Inr (d\<lparr>hdAppended := renamed, hdPod := (hdPod d)\<lparr>pdVolumes := volumes\<rparr>,
                 hdTemplate := (hdTemplate d)\<lparr>ftVolumes := uniqueHostPaths d\<rparr>\<rparr>)))"

definition renameMounts :: "(string \<times> string) list \<Rightarrow> VolumeMount list \<Rightarrow> VolumeMount list" where
  "renameMounts renames mounts =
     fold (\<lambda>(old, new) ms. map (\<lambda>m. if vmName m = old then m\<lparr>vmName := new\<rparr> else m) ms) renames mounts"

text \<open>The volume mounts of the container are renamed in the array that it shares with the template.\<close>

definition renamedTemplate :: "injectEnv \<Rightarrow> Helper \<Rightarrow> Helper" where
  "renamedTemplate v d =
     (let t = hdTemplate d; c = ftContainer t in
      d\<lparr>hdTemplate := t\<lparr>ftContainer := c\<lparr>ctVolumeMounts :=
         renameMounts (iterated (ivOrder v) (hdAppended d)) (ctVolumeMounts c)\<rparr>\<rparr>\<rparr>)"

definition labelDataset :: "RuntimeInfo \<Rightarrow> string \<Rightarrow> Pod \<Rightarrow> Pod" where
  "labelDataset info containerName pod =
     pod\<lparr>pdLabels := assignAll [(''dataset-namespace.sidecar.fluid.io/'' @ containerName, riNamespace info),
                               (''dataset-name.sidecar.fluid.io/'' @ containerName, riName info)] (pdLabels pod)\<rparr>"

definition prependFuseContainer :: "injectEnv \<Rightarrow> bool \<Rightarrow> Helper \<Rightarrow> Helper" where
  "prependFuseContainer v asInit d =
     (let d = renamedTemplate v d; pod = hdPod d;
          c = (ftContainer (hdTemplate d))\<lparr>ctName := (if asInit then ''init-fluid-fuse'' else ''fluid-fuse'') @ hdSuffix d\<rparr> in
      d\<lparr>hdPod := labelDataset (hdInfo d) (ctName c)
         (if asInit
          then pod\<lparr>pdInitContainers := c\<lparr>ctLifecycle := None, ctCommand := [''sleep''], ctArgs := [''2s'']\<rparr> # pdInitContainers pod\<rparr>
          else pod\<lparr>pdContainers := c # pdContainers pod\<rparr>)\<rparr>)"

text \<open>
  If the dataset is used in containers and in init containers, the second renaming also changes the mounts of the
  container that has been added first.
\<close>

definition shareMounts :: "Helper \<Rightarrow> Helper" where
  "shareMounts d =
     d\<lparr>hdPod := (hdPod d)\<lparr>pdContainers :=
        (case pdContainers (hdPod d) of
           [] \<Rightarrow> []
         | c # cs \<Rightarrow> c\<lparr>ctVolumeMounts := ctVolumeMounts (ftContainer (hdTemplate d))\<rparr> # cs)\<rparr>\<rparr>"

definition unset :: "string \<Rightarrow> goerr" where
  "unset field = Err (''mutatingContext.'' @ field @ '' is not set'')"

definition defaultInjectFuseContainer :: "injectEnv \<Rightarrow> Helper \<Rightarrow> goerr + Helper" where
  "defaultInjectFuseContainer v d =
     (case (hdUsed d, hdUsedInit d) of
        (None, _) \<Rightarrow> Inl (unset ''datasetUsedInContainers'')
      | (_, None) \<Rightarrow> Inl (unset ''datasetUsedInInitContainers'')
      | (Some used, Some usedInit) \<Rightarrow>
          let d = (if used then prependFuseContainer v False d else d) in
          Inr (if usedInit then (let d = prependFuseContainer v True d in if used then shareMounts d else d) else d))"

definition prependFuseNativeSidecar :: "injectEnv \<Rightarrow> Helper \<Rightarrow> Helper" where
  "prependFuseNativeSidecar v d =
     (let d = renamedTemplate v d; pod = hdPod d;
          c = (ftContainer (hdTemplate d))\<lparr>ctName := ''fluid-fuse'' @ hdSuffix d, ctRestartPolicy := Some ''Always''\<rparr> in
      d\<lparr>hdPod := labelDataset (hdInfo d) (ctName c) (pod\<lparr>pdInitContainers := c # pdInitContainers pod\<rparr>)\<rparr>)"

definition defaultInjectFuseNativeSidecar :: "injectEnv \<Rightarrow> Helper \<Rightarrow> goerr + Helper" where
  "defaultInjectFuseNativeSidecar v d =
     (case (hdUsed d, hdUsedInit d) of
        (None, _) \<Rightarrow> Inl (unset ''datasetUsedInContainers'')
      | (_, None) \<Rightarrow> Inl (unset ''datasetUsedInInitContainers'')
      | (Some used, Some usedInit) \<Rightarrow> Inr (if used \<or> usedInit then prependFuseNativeSidecar v d else d))"

definition doMutate :: "injectEnv \<Rightarrow> (Helper \<Rightarrow> (goerr + Helper) kgo) \<Rightarrow> Helper \<Rightarrow> (goerr + Helper) kgo" where
  "doMutate v prepareMutation d =
     (let failed = (\<lambda>step. ''failed to '' @ step @ '' for runtime '' @ runtimeKey (hdInfo d)) in
      orFail (wrapErr (failed ''prepare mutation'') (prepareMutation d)) (\<lambda>d.
      orFail (wrapErr (failed ''mutate dataset volumes'') (ret (defaultMutateDatasetVolumes v d))) (\<lambda>d.
      orFail (wrapErr (failed ''append fuse container volumes'') (defaultAppendFuseContainerVolumes v d)) (\<lambda>d.
      wrapErr (failed ''inject fuse container'')
        (ret (if ivNative v then defaultInjectFuseNativeSidecar v d else defaultInjectFuseContainer v d))))))"

definition enablePrometheusMetricsScrape :: "Pod \<Rightarrow> Pod" where
  "enablePrometheusMetricsScrape pod =
     pod\<lparr>pdAnnotations := SetValueIfKeyAbsent (pdAnnotations pod) ''prometheus.fuse.fluid.io/scrape'' ''true''\<rparr>"

definition mutatorBuildFn :: "injectEnv \<Rightarrow> (string \<times> (Helper \<Rightarrow> (goerr + Helper) kgo)) list" where
  "mutatorBuildFn v = [(''default'', defaultPrepareMutation v), (''unprivileged'', unprivilegedPrepareMutation v)]"

definition MutateWithRuntimeInfo ::
  "injectEnv \<Rightarrow> world \<Rightarrow> (Helper \<Rightarrow> (goerr + Helper) kgo) \<Rightarrow> (string \<times> string) list \<Rightarrow> string \<Rightarrow> RuntimeInfo \<Rightarrow> string \<Rightarrow> Pod \<Rightarrow>
   (goerr + Pod) kgo" where
  "MutateWithRuntimeInfo v rw prepareMutation labels pvcName info nameSuffix pod =
     orFail (wrapErr (''failed to get fuse container template for runtime '' @ runtimeKey info) (GetFuseContainerTemplate rw info)) (\<lambda>t.
     orFail (wrapErr (''failed to mutate for runtime '' @ runtimeKey info) (doMutate v prepareMutation
        \<lparr>hdPvcName = pvcName, hdTemplate = t, hdCacheDir = InjectCacheDirEnabled labels,
         hdSkipPostStart = SkipSidecarPostStartInject labels, hdInfo = info, hdSuffix = nameSuffix, hdPod = pod, hdAppended = [],
         hdUsed = None, hdUsedInit = None, hdUnique = ''''\<rparr>)) (\<lambda>d.
     ret (Inr (if sidecarSelected info then enablePrometheusMetricsScrape (hdPod d) else hdPod d))))"

section \<open>injector.go and mount\_point\_script.go\<close>

definition collectDatasetVolumeMountInfo :: "VolumeMount list \<Rightarrow> Volume list \<Rightarrow> infos \<Rightarrow> (string \<times> string) list" where
  "collectDatasetVolumeMountInfo mounts volumes infos =
     assignAll (List.map_filter (\<lambda>m.
       case Option.bind (FindVolumeByVolumeMount m volumes) claimOf of
         None \<Rightarrow> None
       | Some claim \<Rightarrow> map_option (\<lambda>info. (vmMountPath m, riRuntimeType info)) (map_of infos claim)) mounts) []"

definition assembleMountInfos :: "(string list \<Rightarrow> string list) \<Rightarrow> (string \<times> string) list \<Rightarrow> string \<times> string" where
  "assembleMountInfos order pathToType =
     (Join CHR '':'' (map fst (iterated order pathToType)), Join CHR '':'' (map snd (iterated order pathToType)))"

definition injectCheckScript ::
  "injectEnv \<Rightarrow> bool \<Rightarrow> string \<Rightarrow> Volume list \<Rightarrow> infos \<Rightarrow> Container \<Rightarrow> Container" where
  "injectCheckScript v postStart volumeName volumes infos c =
     (let pathToType = collectDatasetVolumeMountInfo (ctVolumeMounts c) volumes infos;
          (paths, types) = assembleMountInfos (ivOrder v) pathToType;
          hasPostStart = (Option.bind (ctLifecycle c) lcPostStart \<noteq> None) in
      if pathToType = [] then c
      else c\<lparr>ctVolumeMounts := ctVolumeMounts c @ [appScriptMount\<lparr>vmName := volumeName\<rparr>],
             ctLifecycle := (if postStart \<and> \<not> hasPostStart
                             then withPostStart (appPostStartCommand paths types) (ctLifecycle c) else ctLifecycle c)\<rparr>)"

definition injectCheckMountReadyScript :: "injectEnv \<Rightarrow> infos \<Rightarrow> Pod \<Rightarrow> (goerr + Pod) kgo" where
  "injectCheckMountReadyScript v infos pod =
     (case iterated (ivOrder v) infos of
        [] \<Rightarrow> ret (Inr pod)
      | (_, info) # _ \<Rightarrow>
          andThen (ensureScriptConfigMapExists v (riNamespace info)) (\<lambda>err.
          case err of
            Some err \<Rightarrow> ret (Inl err)
          | None \<Rightarrow>
              orFail (appendVolumes v (pdVolumes pod) [appScriptVolume] '''' []) (\<lambda>(renamed, volumes).
              let name = (case map_of renamed (volName appScriptVolume) of Some n \<Rightarrow> n | None \<Rightarrow> vmName appScriptMount);
                  inject = injectCheckScript v (AppContainerPostStartInjectEnabled (pdLabels pod)) name volumes infos in
              ret (Inr (pod\<lparr>pdVolumes := volumes, pdContainers := map inject (pdContainers pod),
                            pdInitContainers := map inject (pdInitContainers pod)\<rparr>)))))"

definition findInjectedSidecars :: "Pod \<Rightarrow> Container list" where
  "findInjectedSidecars pod = filter (\<lambda>c. HasPrefix (ctName c) ''fluid-fuse'') (pdContainers pod)"

definition shouldInject :: "injectEnv \<Rightarrow> Pod \<Rightarrow> bool" where
  "shouldInject v pod = (ServerlessEnabled (ivDeprecatedKey v) (pdLabels pod) \<and> \<not> InjectSidecarDone (pdLabels pod))"

fun injectEach ::
  "injectEnv \<Rightarrow> world \<Rightarrow> (Helper \<Rightarrow> (goerr + Helper) kgo) \<Rightarrow> (string \<times> string) list \<Rightarrow> nat \<Rightarrow> infos \<Rightarrow> Pod \<Rightarrow> (goerr + Pod) kgo" where
  "injectEach v rw prepareMutation labels idx [] pod = ret (Inr pod)"
| "injectEach v rw prepareMutation labels idx ((pvcName, info) # infos) pod =
     orFail (MutateWithRuntimeInfo v rw prepareMutation labels pvcName info (''-'' @ Itoa (int idx)) pod) (\<lambda>pod.
     injectEach v rw prepareMutation labels (Suc idx) infos pod)"

text \<open>\<open>rw\<close> answers the reader that the runtimes have been looked up with.\<close>

definition InjectPod :: "injectEnv \<Rightarrow> world \<Rightarrow> Pod \<Rightarrow> infos \<Rightarrow> (goerr + Pod) kgo" where
  "InjectPod v rw pod infos =
     (if \<not> shouldInject v pod then ret (Inr pod)
      else case GetServerlessPlatform (ivDeprecatedKey v) (pdLabels pod) (pdAnnotations pod) of
             Inl err \<Rightarrow> ret (Inl (Err (''fail to get serverless platform from pod's meta: '' @ errText err)))
           | Inr platform \<Rightarrow>
               (case map_of (mutatorBuildFn v) platform of
                  None \<Rightarrow> ret (Inl (Err (''fuse sidecar mutator cannot be found for platform '' @ platform)))
                | Some prepareMutation \<Rightarrow>
                    orFail (injectCheckMountReadyScript v infos pod) (\<lambda>pod'.
                    injectEach v rw prepareMutation (pdLabels pod) (length (findInjectedSidecars pod))
                      (iterated sort infos) pod')))"

section \<open>Well-formed pods\<close>

text \<open>
  What the API server demands of a pod: its volumes have distinct names, and the mounts of its containers name volumes
  of the pod.
\<close>

definition mountNames :: "Container \<Rightarrow> string set" where
  "mountNames c = vmName ` set (ctVolumeMounts c)"

definition podWellFormed :: "Pod \<Rightarrow> bool" where
  "podWellFormed pod \<longleftrightarrow> distinct (map volName (pdVolumes pod)) \<and>
     (\<forall>c \<in> set (pdContainers pod) \<union> set (pdInitContainers pod). mountNames c \<subseteq> volNames (pdVolumes pod))"

definition daemonSetWellFormed :: "DaemonSet \<Rightarrow> bool" where
  "daemonSetWellFormed ds \<longleftrightarrow> (\<forall>c \<in> set (dsmContainers ds). mountNames c \<subseteq> volNames (dsmVolumes ds))"

definition templateWellFormed :: "FuseTemplate \<Rightarrow> bool" where
  "templateWellFormed t \<longleftrightarrow> mountNames (ftContainer t) \<subseteq> volNames (ftVolumes t)"

lemma mountNames_update [simp]:
  "mountNames (c\<lparr>ctName := a\<rparr>) = mountNames c" "mountNames (c\<lparr>ctLifecycle := l\<rparr>) = mountNames c"
  "mountNames (c\<lparr>ctCommand := cmd\<rparr>) = mountNames c" "mountNames (c\<lparr>ctArgs := cmd\<rparr>) = mountNames c"
  "mountNames (c\<lparr>ctSecurity := s\<rparr>) = mountNames c" "mountNames (c\<lparr>ctPorts := ps\<rparr>) = mountNames c"
  "mountNames (c\<lparr>ctRestartPolicy := r\<rparr>) = mountNames c" "mountNames (c\<lparr>ctVolumeMounts := ms\<rparr>) = vmName ` set ms"
  by (simp_all add: mountNames_def)

lemma podWellFormed_meta [simp]:
  "podWellFormed (pod\<lparr>pdLabels := ls\<rparr>) = podWellFormed pod" "podWellFormed (pod\<lparr>pdAnnotations := ls\<rparr>) = podWellFormed pod"
  by (simp_all add: podWellFormed_def)

lemma trimTemplate_wellFormed: "templateWellFormed t \<Longrightarrow> templateWellFormed (trimTemplate names t)"
  by (force simp: templateWellFormed_def trimTemplate_def mountNames_def TrimVolumeMounts_def TrimVolumes_def)

definition renamesInto :: "string set \<Rightarrow> (string \<times> string) list \<Rightarrow> Container \<Rightarrow> bool" where
  "renamesInto names renamed c \<longleftrightarrow> ran (map_of renamed) \<subseteq> names \<and> mountNames c \<subseteq> dom (map_of renamed) \<union> names"

lemma renameMounts_into:
  "snd ` set renames \<subseteq> names \<Longrightarrow> vmName ` set mounts \<subseteq> fst ` set renames \<union> names \<Longrightarrow>
   vmName ` set (renameMounts renames mounts) \<subseteq> names"
proof (induction renames arbitrary: mounts)
  case (Cons r renames)
  obtain old new where r: "r = (old, new)" by (cases r)
  let ?ms = "map (\<lambda>m. if vmName m = old then m\<lparr>vmName := new\<rparr> else m) mounts"
  have "vmName ` set ?ms \<subseteq> fst ` set renames \<union> names"
    using Cons.prems by (auto simp: r)
  with Cons.prems(1) have "vmName ` set (renameMounts renames ?ms) \<subseteq> names" by (intro Cons.IH) auto
  then show ?case by (simp add: renameMounts_def r)
qed (simp add: renameMounts_def)

lemma renamedTemplate_into:
  assumes "permutes (ivOrder v)" and "renamesInto names (hdAppended d) (ftContainer (hdTemplate d))"
  shows "mountNames (ftContainer (hdTemplate (renamedTemplate v d))) \<subseteq> names"
    and "renamesInto names (hdAppended (renamedTemplate v d)) (ftContainer (hdTemplate (renamedTemplate v d)))"
proof -
  have "vmName ` set (renameMounts (iterated (ivOrder v) (hdAppended d)) (ctVolumeMounts (ftContainer (hdTemplate d)))) \<subseteq> names"
    by (rule renameMounts_into)
      (use assms(2) in \<open>simp_all add: renamesInto_def mountNames_def iterated_keys iterated_values assms(1)\<close>)
  then show "mountNames (ftContainer (hdTemplate (renamedTemplate v d))) \<subseteq> names"
    by (simp add: renamedTemplate_def Let_def)
  with assms(2) show "renamesInto names (hdAppended (renamedTemplate v d)) (ftContainer (hdTemplate (renamedTemplate v d)))"
    by (auto simp: renamesInto_def renamedTemplate_def Let_def)
qed

definition readyToInject :: "Helper \<Rightarrow> bool" where
  "readyToInject d \<longleftrightarrow> podWellFormed (hdPod d) \<and>
     renamesInto (volNames (pdVolumes (hdPod d))) (hdAppended d) (ftContainer (hdTemplate d))"

lemma renamedTemplate_pod [simp]: "hdPod (renamedTemplate v d) = hdPod d"
  by (simp add: renamedTemplate_def Let_def)

lemma labelDataset_fields [simp]:
  "pdVolumes (labelDataset info n pod) = pdVolumes pod" "pdContainers (labelDataset info n pod) = pdContainers pod"
  "pdInitContainers (labelDataset info n pod) = pdInitContainers pod"
  "podWellFormed (labelDataset info n pod) = podWellFormed pod"
  by (simp_all add: labelDataset_def)

lemma prependFuseContainer_ready:
  assumes "permutes (ivOrder v)" and "readyToInject d"
  shows "readyToInject (prependFuseContainer v asInit d)"
  using renamedTemplate_into [OF assms(1), of "volNames (pdVolumes (hdPod d))" d] assms(2)
  by (auto simp: readyToInject_def prependFuseContainer_def podWellFormed_def Let_def)

lemma prependFuseContainer_mounts:
  assumes "permutes (ivOrder v)" and "readyToInject d"
  shows "mountNames (ftContainer (hdTemplate (prependFuseContainer v asInit d))) \<subseteq> volNames (pdVolumes (hdPod (prependFuseContainer v asInit d)))"
  using renamedTemplate_into(1) [OF assms(1), of "volNames (pdVolumes (hdPod d))" d] assms(2)
  by (auto simp: readyToInject_def prependFuseContainer_def Let_def)

lemma shareMounts_wellFormed:
  assumes "podWellFormed (hdPod d)" and "mountNames (ftContainer (hdTemplate d)) \<subseteq> volNames (pdVolumes (hdPod d))"
  shows "podWellFormed (hdPod (shareMounts d))"
proof (cases "pdContainers (hdPod d)")
  case Nil
  with assms show ?thesis by (simp add: shareMounts_def podWellFormed_def)
next
  case (Cons c cs)
  have "mountNames (c\<lparr>ctVolumeMounts := ctVolumeMounts (ftContainer (hdTemplate d))\<rparr>) = mountNames (ftContainer (hdTemplate d))"
    by (simp add: mountNames_def)
  with assms Cons show ?thesis by (simp add: shareMounts_def podWellFormed_def del: mountNames_update)
qed

lemma prependFuseNativeSidecar_ready:
  assumes "permutes (ivOrder v)" and "readyToInject d"
  shows "readyToInject (prependFuseNativeSidecar v d)"
  using renamedTemplate_into [OF assms(1), of "volNames (pdVolumes (hdPod d))" d] assms(2)
  by (auto simp: readyToInject_def prependFuseNativeSidecar_def podWellFormed_def Let_def)

lemma inject_wellFormed:
  assumes "permutes (ivOrder v)" and "readyToInject d"
    and "(if ivNative v then defaultInjectFuseNativeSidecar v d else defaultInjectFuseContainer v d) = Inr d'"
  shows "podWellFormed (hdPod d')"
proof -
  note ready = prependFuseContainer_ready [OF assms(1)] prependFuseNativeSidecar_ready [OF assms(1)]
  have "podWellFormed (hdPod e)" if "readyToInject e" for e using that by (simp add: readyToInject_def)
  then show ?thesis
    using assms(2,3) ready prependFuseContainer_mounts [OF assms(1)] shareMounts_wellFormed
    by (auto simp: defaultInjectFuseNativeSidecar_def defaultInjectFuseContainer_def Let_def
        split: if_splits option.splits)
qed

lemma FilterVolumes_names [simp]:
  "volNames (FilterVolumesByVolumeMounts vs (ctVolumeMounts c)) = volNames vs \<inter> mountNames c"
  by (force simp: mountNames_def FilterVolumesByVolumeMounts_def list_ex_iff)

lemma template_wellFormed:
  assumes "\<And>h name namespace ds. kwGetDaemonSet rw h name namespace = Inr ds \<Longrightarrow> daemonSetWellFormed ds"
  shows "gives templateWellFormed (GetFuseContainerTemplate rw info)"
proof -
  have ds: "gives daemonSetWellFormed (getFuseDaemonset rw info)"
    using assms by (auto simp: gives_def yields_def getFuseDaemonset_def GetDaemonset_def call_def)
  show ?thesis
    unfolding GetFuseContainerTemplate_def
    by (rule gives_orFail [OF ds], intro gives_rules gives_orFail_any)
      (auto simp: daemonSetWellFormed_def templateWellFormed_def split: sum.splits)
qed

lemma gives_prepare:
  assumes "map_of (mutatorBuildFn v) platform = Some prepareMutation" and "P d"
    and "\<And>e. P e \<Longrightarrow> P (transformTemplateWithCacheDirDisabled e)"
    and "\<And>e. P e \<Longrightarrow> P (transformTemplateWithUnprivilegedSidecarEnabled e)"
    and "\<And>e. P e \<Longrightarrow> P (removeFuseMetricsContainerPort e)"
    and "\<And>e. P e \<Longrightarrow> gives P (prepareFuseContainerPostStartScript v e)"
  shows "gives P (prepareMutation d)"
proof -
  have finish: "gives P (finishPreparation v e)" if "P e" for e
    unfolding finishPreparation_def
    by (intro gives_orFail [where R = P] gives_rules assms(6) that) (use that assms(5) in \<open>auto split: if_splits\<close>)
  have "prepareMutation = defaultPrepareMutation v \<or> prepareMutation = unprivilegedPrepareMutation v"
    using assms(1) by (auto simp: mutatorBuildFn_def split: if_splits)
  then show ?thesis
    by (elim disjE; simp only: defaultPrepareMutation_def unprivilegedPrepareMutation_def; cases "hdCacheDir d";
        simp only: if_True if_False; intro finish assms(2-4))
qed

lemma mountNames_propagate [simp]: "mountNames (propagate names c) = mountNames c"
proof -
  have "map vmName (ctVolumeMounts (propagate names c)) = map vmName (ctVolumeMounts c)" by (simp add: propagate_def)
  then show ?thesis unfolding mountNames_def by (metis set_map)
qed

lemma names_replaceClaims [simp]: "map volName (replaceClaims pvc path vs) = map volName vs"
  by (simp add: replaceClaims_def)

lemma mutateVolumes_wellFormed:
  assumes "podWellFormed (hdPod d)" and "templateWellFormed (hdTemplate d)" and "defaultMutateDatasetVolumes v d = Inr e"
  shows "podWellFormed (hdPod e) \<and> templateWellFormed (hdTemplate e) \<and> hdAppended e = hdAppended d"
proof -
  have "volNames (replaceClaims pvc path vs) = volNames vs" for pvc path vs
    using names_replaceClaims by (metis set_map)
  then show ?thesis
    using assms
    by (clarsimp simp: defaultMutateDatasetVolumes_def podWellFormed_def Let_def ball_Un split: sum.splits)
qed

lemma append_ready:
  assumes "podWellFormed (hdPod d)" and "templateWellFormed (hdTemplate d)" and "hdAppended d = []"
  shows "gives readyToInject (defaultAppendFuseContainerVolumes v d)"
  unfolding defaultAppendFuseContainerVolumes_def
proof (rule gives_orFail [OF gives_appendVolumes])
  fix r
  assume r: "appended (pdVolumes (hdPod d)) (hdAppended d) (uniqueHostPaths d) r"
  have "map volName (uniqueHostPaths d) = map volName (ftVolumes (hdTemplate d))"
    by (auto simp: uniqueHostPaths_def split: VolumeSource.splits)
  then have names: "volNames (uniqueHostPaths d) = volNames (ftVolumes (hdTemplate d))" by (metis set_map)
  have "readyToInject (d\<lparr>hdAppended := fst r, hdPod := (hdPod d)\<lparr>pdVolumes := snd r\<rparr>,
                       hdTemplate := (hdTemplate d)\<lparr>ftVolumes := uniqueHostPaths d\<rparr>\<rparr>)"
    unfolding readyToInject_def renamesInto_def
  proof (intro conjI)
    obtain new where new: "snd r = pdVolumes (hdPod d) @ new" "distinct (map volName (snd r))"
      "ran (map_of (fst r)) \<subseteq> volNames (snd r)" "volNames (ftVolumes (hdTemplate d)) \<subseteq> dom (map_of (fst r)) \<union> volNames (snd r)"
      using r assms(1,3) by (auto simp: appended_def names podWellFormed_def)
    let ?e = "d\<lparr>hdAppended := fst r, hdPod := (hdPod d)\<lparr>pdVolumes := snd r\<rparr>, hdTemplate := (hdTemplate d)\<lparr>ftVolumes := uniqueHostPaths d\<rparr>\<rparr>"
    have "volNames (pdVolumes (hdPod d)) \<subseteq> volNames (snd r)" using new(1) by auto
    then show "podWellFormed (hdPod ?e)" using assms(1) new(2) unfolding podWellFormed_def by (simp add: ball_Un) blast
    show "ran (map_of (hdAppended ?e)) \<subseteq> volNames (pdVolumes (hdPod ?e))" using new(3) by simp
    show "mountNames (ftContainer (hdTemplate ?e)) \<subseteq> dom (map_of (hdAppended ?e)) \<union> volNames (pdVolumes (hdPod ?e))"
      using new(4) assms(2) by (auto simp: templateWellFormed_def)
  qed
  then show "gives readyToInject (case r of (renamed, volumes) \<Rightarrow>
      ret (Inr (d\<lparr>hdAppended := renamed, hdPod := (hdPod d)\<lparr>pdVolumes := volumes\<rparr>,
                  hdTemplate := (hdTemplate d)\<lparr>ftVolumes := uniqueHostPaths d\<rparr>\<rparr>)))"
    by (cases r) (auto intro!: gives_rules)
qed

lemma templateWellFormed_ports [simp]:
  "templateWellFormed (t\<lparr>ftContainer := (ftContainer t)\<lparr>ctSecurity := sc\<rparr>\<rparr>) = templateWellFormed t"
  "templateWellFormed (t\<lparr>ftContainer := (ftContainer t)\<lparr>ctPorts := ps\<rparr>\<rparr>) = templateWellFormed t"
  by (simp_all add: templateWellFormed_def)

definition mutable :: "Helper \<Rightarrow> bool" where
  "mutable d \<longleftrightarrow> podWellFormed (hdPod d) \<and> templateWellFormed (hdTemplate d) \<and> hdAppended d = []"

lemma prepare_mutable:
  assumes "map_of (mutatorBuildFn v) platform = Some prepareMutation" and "mutable d"
  shows "gives mutable (prepareMutation d)"
proof (rule gives_prepare [OF assms(1)])
  show "gives mutable (prepareFuseContainerPostStartScript v e)" if "mutable e" for e
    using that unfolding prepareFuseContainerPostStartScript_def Let_def
    by (intro gives_rules gives_orFail_any)
      (auto simp: mutable_def templateWellFormed_def sidecarScriptMount_def sidecarScriptVolume_def mountNames_def image_subset_iff)
qed (use assms(2) in \<open>simp_all add: mutable_def transformTemplateWithCacheDirDisabled_def trimTemplate_wellFormed Let_def
       transformTemplateWithUnprivilegedSidecarEnabled_def removeFuseMetricsContainerPort_def templateWellFormed_ports\<close>)

lemma gives_doMutate:
  assumes "gives P (prepareMutation d)"
    and "\<And>d e. P d \<Longrightarrow> defaultMutateDatasetVolumes v d = Inr e \<Longrightarrow> Q e"
    and "\<And>d. Q d \<Longrightarrow> gives R (defaultAppendFuseContainerVolumes v d)"
    and "\<And>d e. R d \<Longrightarrow> (if ivNative v then defaultInjectFuseNativeSidecar v d else defaultInjectFuseContainer v d) = Inr e \<Longrightarrow> S e"
  shows "gives S (doMutate v prepareMutation d)"
  unfolding doMutate_def Let_def
  by (rule gives_orFail [OF gives_wrapErr [OF assms(1)]], rule gives_orFail [OF gives_wrapErr [OF gives_ret [where R = Q]]],
      erule (1) assms(2), rule gives_orFail [OF gives_wrapErr [OF assms(3)]], assumption,
      rule gives_wrapErr, rule gives_ret, erule (1) assms(4))

lemma doMutate_wellFormed:
  assumes "permutes (ivOrder v)" and "map_of (mutatorBuildFn v) platform = Some prepareMutation" and "mutable d"
  shows "gives (\<lambda>e. podWellFormed (hdPod e)) (doMutate v prepareMutation d)"
proof (rule gives_doMutate [where P = mutable and Q = mutable and R = readyToInject])
  show "gives mutable (prepareMutation d)" by (rule prepare_mutable [OF assms(2,3)])
  show "mutable e" if "mutable d" "defaultMutateDatasetVolumes v d = Inr e" for d e
    using mutateVolumes_wellFormed [OF _ _ that(2)] that(1) by (simp add: mutable_def)
  show "gives readyToInject (defaultAppendFuseContainerVolumes v d)" if "mutable d" for d
    using that by (simp add: mutable_def append_ready)
qed (rule inject_wellFormed [OF assms(1)])

lemma MutateWithRuntimeInfo_wellFormed:
  assumes "permutes (ivOrder v)" and "map_of (mutatorBuildFn v) platform = Some prepareMutation"
    and "\<And>h name namespace ds. kwGetDaemonSet rw h name namespace = Inr ds \<Longrightarrow> daemonSetWellFormed ds"
    and "podWellFormed pod"
  shows "gives podWellFormed (MutateWithRuntimeInfo v rw prepareMutation labels pvcName info suffix pod)"
  unfolding MutateWithRuntimeInfo_def
  by (rule gives_orFail [OF gives_wrapErr [OF template_wellFormed]], fact assms(3),
      rule gives_orFail [OF gives_wrapErr [OF doMutate_wellFormed [OF assms(1,2)]]])
    (auto simp: mutable_def assms(4) enablePrometheusMetricsScrape_def intro!: gives_rules split: if_splits)

lemma injectEach_wellFormed:
  assumes "permutes (ivOrder v)" and "map_of (mutatorBuildFn v) platform = Some prepareMutation"
    and "\<And>h name namespace ds. kwGetDaemonSet rw h name namespace = Inr ds \<Longrightarrow> daemonSetWellFormed ds"
  shows "podWellFormed pod \<Longrightarrow> gives podWellFormed (injectEach v rw prepareMutation labels idx infos pod)"
proof (induction infos arbitrary: idx pod)
  case (Cons x infos)
  then show ?case
    by (cases x) (simp add: gives_orFail [OF MutateWithRuntimeInfo_wellFormed [OF assms]])
qed (auto intro!: gives_rules)

lemma injectCheckScript_names:
  "mountNames (injectCheckScript v postStart name volumes infos c) \<subseteq> insert name (mountNames c)"
  by (auto simp: injectCheckScript_def Let_def mountNames_def split: prod.splits)

lemma injectCheckMountReadyScript_wellFormed:
  assumes "podWellFormed pod"
  shows "gives podWellFormed (injectCheckMountReadyScript v infos pod)"
proof -
  have injected: "podWellFormed (pod\<lparr>pdVolumes := volumes, pdContainers := map (injectCheckScript v postStart name volumes infos) (pdContainers pod),
      pdInitContainers := map (injectCheckScript v postStart name volumes infos) (pdInitContainers pod)\<rparr>)"
    if "appended (pdVolumes pod) [] [appScriptVolume] (renamed, volumes)"
      and "name = (case map_of renamed (volName appScriptVolume) of Some n \<Rightarrow> n | None \<Rightarrow> vmName appScriptMount)"
    for renamed volumes name postStart
  proof -
    have sub: "volNames (pdVolumes pod) \<subseteq> volNames volumes" using that(1) by (auto simp: appended_def)
    have "name \<in> volNames volumes"
      using that by (auto simp: appended_def appScriptVolume_def appScriptMount_def ran_def split: option.splits)
    with sub have c: "mountNames (injectCheckScript v postStart name volumes infos c) \<subseteq> volNames volumes"
      if "mountNames c \<subseteq> volNames (pdVolumes pod)" for c
      using injectCheckScript_names [of v postStart name volumes infos c] that by blast
    have "distinct (map volName volumes)" using assms that(1) by (simp add: appended_def podWellFormed_def)
    with assms c show ?thesis by (simp add: podWellFormed_def ball_Un)
  qed
  show ?thesis
    unfolding injectCheckMountReadyScript_def
    by (intro gives_rules gives_orFail [OF gives_appendVolumes])
      (auto simp: Let_def assms intro!: gives_ret injected simp del: mountNames_update)
qed

text \<open>
  C12. An injection keeps a pod well formed: if the volumes of the pod have distinct names, all mounts name volumes of the
  pod and the same holds for the mounts in the FUSE daemon sets, the pod that the injector returns has volumes with distinct
  names and mounts that name them, whatever names clash, on every platform and for every order of iteration.
\<close>

theorem injection_keeps_pods_well_formed:
  assumes "permutes (ivOrder v)"
    and "\<And>h name namespace ds. kwGetDaemonSet rw h name namespace = Inr ds \<Longrightarrow> daemonSetWellFormed ds"
    and "podWellFormed pod" and "InjectPod v rw pod infos h = (Ret (Inr pod'), h')"
  shows "podWellFormed pod'"
proof -
  have "gives podWellFormed (InjectPod v rw pod infos)"
    unfolding InjectPod_def
    by (intro gives_rules gives_orFail [OF injectCheckMountReadyScript_wellFormed] injectEach_wellFormed assms)
      (auto simp: assms(3))
  from gives_run [OF this assms(4)] show ?thesis .
qed

section \<open>Claims of datasets are replaced\<close>

definition unclaimed :: "Volume list \<Rightarrow> bool" where
  "unclaimed vs \<longleftrightarrow> list_all (\<lambda>x. claimOf x = None) vs"

lemma claimOf_source [simp]: "claimOf (x\<lparr>volName := n\<rparr>) = claimOf x" "claimOf (x\<lparr>volSource := HostPathVolume p\<rparr>) = None"
  by (simp_all add: claimOf_def)

lemma claims_replaceClaims:
  "List.map_filter claimOf (replaceClaims pvc path vs) = filter (\<lambda>c. c \<noteq> pvc) (List.map_filter claimOf vs)"
  by (induction vs) (auto simp: replaceClaims_def List.map_filter_simps split: option.splits)

lemma claims_unclaimed: "unclaimed vs \<Longrightarrow> List.map_filter claimOf vs = []"
  by (induction vs) (auto simp: unclaimed_def List.map_filter_simps)

lemma unclaimed_sources:
  assumes "map volSource vs = map volSource ws"
  shows "unclaimed vs = unclaimed ws"
proof -
  have "unclaimed us = list_all (\<lambda>src. \<forall>c. src \<noteq> ClaimVolume c) (map volSource us)" for us
    unfolding unclaimed_def list.pred_map comp_def
    by (rule list.pred_cong [OF refl]) (simp add: claimOf_def split: VolumeSource.splits)
  with assms show ?thesis by metis
qed

lemma claims_appended:
  assumes "appended volumes renamed toAdd r" and "unclaimed toAdd"
  shows "List.map_filter claimOf (snd r) = List.map_filter claimOf volumes"
proof -
  obtain new where new: "snd r = volumes @ new" "map volSource new = map volSource toAdd"
    using assms(1) by (auto simp: appended_def)
  have "unclaimed new" using unclaimed_sources [OF new(2)] assms(2) by simp
  then show ?thesis by (simp add: new(1) map_filter_append claims_unclaimed)
qed

lemma unclaimed_uniqueHostPaths: "unclaimed (ftVolumes (hdTemplate d)) \<Longrightarrow> unclaimed (uniqueHostPaths d)"
  by (auto simp: unclaimed_def uniqueHostPaths_def list_all_iff split: VolumeSource.splits)

definition claiming :: "string \<Rightarrow> string list \<Rightarrow> Helper \<Rightarrow> bool" where
  "claiming pvc cs d \<longleftrightarrow> hdPvcName d = pvc \<and> pdClaims (hdPod d) = cs \<and> unclaimed (ftVolumes (hdTemplate d))"

lemma unclaimed_trim: "unclaimed (ftVolumes t) \<Longrightarrow> unclaimed (ftVolumes (trimTemplate names t))"
  by (simp add: unclaimed_def trimTemplate_def TrimVolumes_def list_all_iff)

lemma prepare_claiming:
  assumes "map_of (mutatorBuildFn v) platform = Some prepareMutation" and "claiming pvc cs d"
  shows "gives (claiming pvc cs) (prepareMutation d)"
proof (rule gives_prepare [OF assms(1)])
  show "gives (claiming pvc cs) (prepareFuseContainerPostStartScript v e)" if "claiming pvc cs e" for e
    using that unfolding prepareFuseContainerPostStartScript_def Let_def
    by (intro gives_rules gives_orFail_any) (auto simp: claiming_def unclaimed_def sidecarScriptVolume_def claimOf_def)
qed (use assms(2) in \<open>simp_all add: claiming_def transformTemplateWithCacheDirDisabled_def unclaimed_trim Let_def
       transformTemplateWithUnprivilegedSidecarEnabled_def removeFuseMetricsContainerPort_def\<close>)

lemma inject_volumes:
  "(if ivNative v then defaultInjectFuseNativeSidecar v d else defaultInjectFuseContainer v d) = Inr e \<Longrightarrow>
   pdVolumes (hdPod e) = pdVolumes (hdPod d)"
  by (auto simp: defaultInjectFuseNativeSidecar_def defaultInjectFuseContainer_def prependFuseContainer_def
      prependFuseNativeSidecar_def shareMounts_def Let_def split: if_splits option.splits)

lemma doMutate_claims:
  assumes "map_of (mutatorBuildFn v) platform = Some prepareMutation" and "claiming pvc cs d"
  shows "gives (\<lambda>e. pdClaims (hdPod e) = filter (\<lambda>c. c \<noteq> pvc) cs) (doMutate v prepareMutation d)"
proof (rule gives_doMutate [where P = "claiming pvc cs" and Q = "claiming pvc (filter (\<lambda>c. c \<noteq> pvc) cs)"
      and R = "\<lambda>e. pdClaims (hdPod e) = filter (\<lambda>c. c \<noteq> pvc) cs"])
  show "gives (claiming pvc cs) (prepareMutation d)" by (rule prepare_claiming [OF assms])
  show "claiming pvc (filter (\<lambda>c. c \<noteq> pvc) cs) e" if "claiming pvc cs d" "defaultMutateDatasetVolumes v d = Inr e" for d e
    using that
    by (auto simp: claiming_def defaultMutateDatasetVolumes_def pdClaims_def claims_replaceClaims Let_def split: sum.splits)
  show "gives (\<lambda>e. pdClaims (hdPod e) = filter (\<lambda>c. c \<noteq> pvc) cs) (defaultAppendFuseContainerVolumes v d)"
    if "claiming pvc (filter (\<lambda>c. c \<noteq> pvc) cs) d" for d
    unfolding defaultAppendFuseContainerVolumes_def
    by (rule gives_orFail [OF gives_appendVolumes], rule gives_cases(4), rule gives_ret)
      (use that claims_appended [OF _ unclaimed_uniqueHostPaths] in \<open>fastforce simp: claiming_def pdClaims_def\<close>)
qed (simp add: pdClaims_def inject_volumes)

definition fuseUnclaimed :: "world \<Rightarrow> bool" where
  "fuseUnclaimed rw \<longleftrightarrow> (\<forall>h name namespace ds. kwGetDaemonSet rw h name namespace = Inr ds \<longrightarrow> unclaimed (dsmVolumes ds))"

lemma template_unclaimed:
  assumes "fuseUnclaimed rw"
  shows "gives (\<lambda>t. unclaimed (ftVolumes t)) (GetFuseContainerTemplate rw info)"
proof -
  have ds: "gives (\<lambda>ds. unclaimed (dsmVolumes ds)) (getFuseDaemonset rw info)"
    using assms by (auto simp: gives_def yields_def getFuseDaemonset_def GetDaemonset_def call_def fuseUnclaimed_def)
  show ?thesis
    unfolding GetFuseContainerTemplate_def
    by (rule gives_orFail [OF ds], intro gives_rules gives_orFail_any)
      (auto simp: unclaimed_def FilterVolumesByVolumeMounts_def list_all_iff split: sum.splits)
qed

lemma MutateWithRuntimeInfo_claims:
  assumes "map_of (mutatorBuildFn v) platform = Some prepareMutation" and "fuseUnclaimed rw"
  shows "gives (\<lambda>p. pdClaims p = filter (\<lambda>c. c \<noteq> pvcName) (pdClaims pod))
    (MutateWithRuntimeInfo v rw prepareMutation labels pvcName info suffix pod)"
  unfolding MutateWithRuntimeInfo_def
  by (rule gives_orFail [OF gives_wrapErr [OF template_unclaimed [OF assms(2)]]],
      rule gives_orFail [OF gives_wrapErr [OF doMutate_claims [OF assms(1)]]])
    (auto simp: claiming_def enablePrometheusMetricsScrape_def pdClaims_def intro!: gives_rules split: if_splits)

lemma injectEach_claims:
  assumes "map_of (mutatorBuildFn v) platform = Some prepareMutation" and "fuseUnclaimed rw"
  shows "gives (\<lambda>p. pdClaims p = filter (\<lambda>c. c \<notin> fst ` set infos) (pdClaims pod))
    (injectEach v rw prepareMutation labels idx infos pod)"
proof (induction infos arbitrary: idx pod)
  case (Cons x infos)
  obtain pvcName info where x: "x = (pvcName, info)" by (cases x)
  show ?case
    unfolding x injectEach.simps
    by (rule gives_orFail [OF MutateWithRuntimeInfo_claims [OF assms]], rule gives_mono [OF Cons.IH])
      (auto intro: filter_cong)
qed (auto intro!: gives_rules)

lemma injectCheckMountReadyScript_claims:
  "gives (\<lambda>p. pdClaims p = pdClaims pod) (injectCheckMountReadyScript v infos pod)"
proof -
  have script: "unclaimed [appScriptVolume]" by (simp add: unclaimed_def appScriptVolume_def claimOf_def)
  show ?thesis
    unfolding injectCheckMountReadyScript_def
    by (intro gives_rules gives_orFail [OF gives_appendVolumes])
      (auto simp: Let_def pdClaims_def dest!: claims_appended [OF _ script] intro!: gives_ret)
qed

text \<open>
  Where the FUSE daemon sets use no claims themselves, an injection replaces exactly the claims of datasets: the pod that
  the injector returns claims what the pod claimed before, in the same order, without the claims it has been given runtimes for.
\<close>

lemma InjectPod_claims:
  assumes "fuseUnclaimed rw" and "shouldInject v pod" 
  shows "gives (\<lambda>p. pdClaims p = filter (\<lambda>c. c \<notin> fst ` set infos) (pdClaims pod)) (InjectPod v rw pod infos)"
proof -
  have keys: "fst ` set (iterated sort infos) = fst ` set infos"
    by (simp add: iterated_keys permutes_sort dom_map_of_conv_image_fst)
  show ?thesis
    unfolding InjectPod_def
    by (intro gives_rules gives_orFail [OF injectCheckMountReadyScript_claims])
      (auto simp: assms(2) intro!: gives_mono [OF injectEach_claims [OF _ assms(1)]] simp: keys)
qed

section \<open>Unprivileged sidecars\<close>

definition confined :: "Container \<Rightarrow> bool" where
  "confined c \<longleftrightarrow> (\<forall>sc. ctSecurity c = Some sc \<longrightarrow> scPrivileged sc \<noteq> Some True \<and>
     (\<forall>cs. scAddCapabilities sc = Some cs \<longrightarrow> ''SYS_ADMIN'' \<notin> set cs))"

definition podConfined :: "Pod \<Rightarrow> bool" where
  "podConfined pod \<longleftrightarrow> (\<forall>c \<in> set (pdContainers pod) \<union> set (pdInitContainers pod). confined c)"

definition helperConfined :: "Helper \<Rightarrow> bool" where
  "helperConfined d \<longleftrightarrow> podConfined (hdPod d) \<and> confined (ftContainer (hdTemplate d))"

lemma confined_update [simp]:
  "confined (c\<lparr>ctName := a\<rparr>) = confined c" "confined (c\<lparr>ctLifecycle := l\<rparr>) = confined c"
  "confined (c\<lparr>ctCommand := cmd\<rparr>) = confined c" "confined (c\<lparr>ctArgs := cmd\<rparr>) = confined c"
  "confined (c\<lparr>ctPorts := ps\<rparr>) = confined c" "confined (c\<lparr>ctRestartPolicy := r\<rparr>) = confined c"
  "confined (c\<lparr>ctVolumeMounts := ms\<rparr>) = confined c"
  "confined (c\<lparr>ctSecurity := map_option unprivilegedContext sc\<rparr>)"
  by (auto simp: confined_def unprivilegedContext_def TrimCapabilities_def)

lemma unprivileged_confined:
  assumes "podConfined (hdPod d)"
  shows "gives helperConfined (unprivilegedPrepareMutation v d)"
proof -
  have "helperConfined (transformTemplateWithUnprivilegedSidecarEnabled e)" if "podConfined (hdPod e)" for e
    using that by (simp add: helperConfined_def transformTemplateWithUnprivilegedSidecarEnabled_def Let_def)
  moreover have script: "gives helperConfined (prepareFuseContainerPostStartScript v e)" if "helperConfined e" for e
    using that unfolding prepareFuseContainerPostStartScript_def Let_def
    by (intro gives_rules gives_orFail_any) (auto simp: helperConfined_def)
  moreover have "gives helperConfined (finishPreparation v e)" if "helperConfined e" for e
    unfolding finishPreparation_def
    by (intro gives_orFail [where R = helperConfined] gives_rules script that)
      (use that in \<open>auto simp: helperConfined_def removeFuseMetricsContainerPort_def Let_def split: if_splits\<close>)
  ultimately show ?thesis
    using assms by (simp add: unprivilegedPrepareMutation_def transformTemplateWithCacheDirDisabled_def)
qed

lemma podConfined_update [simp]:
  "podConfined (pod\<lparr>pdLabels := ls\<rparr>) = podConfined pod" "podConfined (pod\<lparr>pdAnnotations := ls\<rparr>) = podConfined pod"
  "podConfined (pod\<lparr>pdVolumes := vs\<rparr>) = podConfined pod" "podConfined (labelDataset info n pod) = podConfined pod"
  by (simp_all add: podConfined_def)

lemma confined_template [simp]:
  "confined (ftContainer (hdTemplate (renamedTemplate v d))) = confined (ftContainer (hdTemplate d))"
  by (simp add: renamedTemplate_def Let_def)

lemma prepend_confined:
  "helperConfined d \<Longrightarrow> helperConfined (prependFuseContainer v asInit d)"
  "helperConfined d \<Longrightarrow> helperConfined (prependFuseNativeSidecar v d)"
  by (auto simp: helperConfined_def podConfined_def prependFuseContainer_def prependFuseNativeSidecar_def Let_def)

lemma shareMounts_confined: "helperConfined d \<Longrightarrow> helperConfined (shareMounts d)"
  by (cases "pdContainers (hdPod d)") (auto simp: shareMounts_def helperConfined_def podConfined_def)

lemma doMutate_confined:
  assumes "podConfined (hdPod d)"
  shows "gives (\<lambda>e. podConfined (hdPod e)) (doMutate v (unprivilegedPrepareMutation v) d)"
proof (rule gives_doMutate [where P = helperConfined and Q = helperConfined and R = helperConfined])
  show "gives helperConfined (unprivilegedPrepareMutation v d)" by (rule unprivileged_confined [OF assms])
  show "helperConfined e" if "helperConfined d" "defaultMutateDatasetVolumes v d = Inr e" for d e
    using that by (auto simp: helperConfined_def podConfined_def defaultMutateDatasetVolumes_def propagate_def Let_def
        split: sum.splits)
  show "gives helperConfined (defaultAppendFuseContainerVolumes v d)" if "helperConfined d" for d
    using that unfolding defaultAppendFuseContainerVolumes_def
    by (intro gives_rules gives_orFail_any) (auto simp: helperConfined_def)
  show "podConfined (hdPod e)"
    if "helperConfined d" "(if ivNative v then defaultInjectFuseNativeSidecar v d else defaultInjectFuseContainer v d) = Inr e" for d e
  proof -
    have "helperConfined e"
      using that prepend_confined shareMounts_confined
      by (auto simp: defaultInjectFuseNativeSidecar_def defaultInjectFuseContainer_def Let_def split: if_splits option.splits)
    then show ?thesis by (simp add: helperConfined_def)
  qed
qed

lemma injectEach_confined:
  "podConfined pod \<Longrightarrow> gives podConfined (injectEach v rw (unprivilegedPrepareMutation v) labels idx infos pod)"
proof (induction infos arbitrary: idx pod)
  case (Cons x infos)
  have step: "gives podConfined (MutateWithRuntimeInfo v rw (unprivilegedPrepareMutation v) labels pvcName info suffix pod)"
    for pvcName info suffix
    unfolding MutateWithRuntimeInfo_def
    by (rule gives_orFail_any, rule gives_orFail [OF gives_wrapErr [OF doMutate_confined]])
      (auto simp: Cons.prems enablePrometheusMetricsScrape_def intro!: gives_rules split: if_splits)
  show ?case
    by (cases x) (simp, rule gives_orFail [OF step], rule Cons.IH)
qed (auto intro!: gives_rules)

lemma injectCheckMountReadyScript_confined:
  "podConfined pod \<Longrightarrow> gives podConfined (injectCheckMountReadyScript v infos pod)"
  unfolding injectCheckMountReadyScript_def
  by (intro gives_rules gives_orFail_any)
    (auto simp: podConfined_def injectCheckScript_def Let_def intro!: gives_ret split: prod.splits)

text \<open>
  C14. On the platform for unprivileged sidecars no injected container is privileged or has the added capability \<open>SYS_ADMIN\<close>, whatever
  the FUSE daemon sets ask for: a pod without such containers stays one. It is that capability by its name which the code takes
  away; one that is added as \<open>ALL\<close> stays.
\<close>

theorem unprivileged_sidecars:
  assumes "GetServerlessPlatform (ivDeprecatedKey v) (pdLabels pod) (pdAnnotations pod) = Inr ''unprivileged''"
    and "podConfined pod" and "InjectPod v rw pod infos h = (Ret (Inr pod'), h')"
  shows "podConfined pod'"
proof -
  have "gives podConfined (InjectPod v rw pod infos)"
    unfolding InjectPod_def using assms(1,2)
    by (intro gives_rules gives_orFail [OF injectCheckMountReadyScript_confined])
      (auto simp: mutatorBuildFn_def intro!: injectEach_confined)
  from gives_run [OF this assms(3)] show ?thesis .
qed

section \<open>Examples\<close>

definition exampleFuse :: DaemonSet where
  "exampleFuse =
     \<lparr>dsmName = ''imagenet-fuse'', dsmNamespace = ''default'', dsmOwners = [], dsmLabels = [], dsmGeneration = 1,
      dsmContainers =
        [\<lparr>ctName = ''alluxio-fuse'', ctImage = ''fuse:1'', ctCommand = [''fuse''], ctArgs = [], ctPorts = [], ctEnv = [],
          ctVolumeMounts =
            [\<lparr>vmName = ''alluxio-fuse-mount'', vmMountPath = ''/runtime-mnt'', vmSubPath = '''', vmReadOnly = False, vmPropagation = None\<rparr>,
             \<lparr>vmName = ''data'', vmMountPath = ''/cache'', vmSubPath = '''', vmReadOnly = False, vmPropagation = None\<rparr>],
          ctLifecycle = None, ctSecurity = Some \<lparr>scPrivileged = Some True, scAddCapabilities = Some [''SYS_ADMIN'']\<rparr>,
          ctRestartPolicy = None\<rparr>],
      dsmVolumes =
        [\<lparr>volName = ''alluxio-fuse-mount'', volSource = HostPathVolume ''/runtime-mnt''\<rparr>,
         \<lparr>volName = ''data'', volSource = EmptyDirVolume\<rparr>],
      dsmNodeSelector = [], dsmDesired = 0, dsmCurrent = 0, dsmReady = 0, dsmAvailable = 0, dsmUnavailable = 0\<rparr>"

definition exampleVolume :: PersistentVolume where
  "exampleVolume =
     \<lparr>pvMeta = dMeta exampleDataset, pvPhase = ''Bound'', pvClaimRef = None, pvAccessModes = [], pvCapacity = '''', pvVolumeHandle = '''',
      pvAttributes = [(''fluid_path'', ''/runtime-mnt/alluxio-fuse''), (''mount_type'', ''fuse.alluxio-fuse'')], pvNodeAffinity = None\<rparr>"

definition injectWorld :: world where
  "injectWorld = downWorld
     \<lparr>kwCluster := \<lambda>_. downCluster\<lparr>clGetDataset := \<lambda>_ _ _. Inr exampleDataset\<rparr>,
      kwGetDaemonSet := \<lambda>_ _ _. Inr exampleFuse, kwGetVolume := \<lambda>_ _. Inr exampleVolume,
      kwGetConfigMap := \<lambda>_ _ _. Inl (NotFound ''configmap''), kwCreateConfigMap := \<lambda>_ _. None\<rparr>"

definition exampleEnv :: injectEnv where
  "exampleEnv =
     \<lparr>ivWorld = injectWorld, ivOrder = \<lambda>ks. ks, ivRandom = \<lambda>_ _. ''abc'', ivUnique = \<lambda>_. Inr ''1-a'', ivNative = False,
      ivDeprecatedKey = '''', ivMetadata = \<lambda>_. [], ivAppScript = '''', ivAppSHA = '''', ivSidecarScript = '''', ivSidecarSHA = ''''\<rparr>"

definition servedPod :: Pod where
  "servedPod = examplePod\<lparr>pdLabels := [(''serverless.fluid.io/inject'', ''true''), (''unprivileged.sidecar.fluid.io/inject'', ''true'')]\<rparr>"

definition injectedPod :: "Pod option" where
  "injectedPod = (case fst (InjectPod exampleEnv injectWorld servedPod [(''imagenet'', selectedInfo ''imagenet'' ''ssd'')] []) of
     Ret (Inr p) \<Rightarrow> Some p | _ \<Rightarrow> None)"

lemma injectedPod_volumes:
  "map_option (map volName \<circ> pdVolumes) injectedPod = Some [''data'', ''check-fluid-mount-ready'', ''data-0'', ''default-check-mount-0'']"
  by code_simp

lemma injectedPod_run:
  obtains p h where "injectedPod = Some p"
    and "InjectPod exampleEnv injectWorld servedPod [(''imagenet'', selectedInfo ''imagenet'' ''ssd'')] [] = (Ret (Inr p), h)"
proof -
  obtain r h where run: "InjectPod exampleEnv injectWorld servedPod [(''imagenet'', selectedInfo ''imagenet'' ''ssd'')] [] = (r, h)"
    by (cases "InjectPod exampleEnv injectWorld servedPod [(''imagenet'', selectedInfo ''imagenet'' ''ssd'')] []")
  have "injectedPod \<noteq> None" using injectedPod_volumes by auto
  with run that show ?thesis by (auto simp: injectedPod_def split: out.splits sum.splits)
qed

theorem injection_keeps_pods_well_formed_witness: "\<exists>p. injectedPod = Some p \<and> podWellFormed p"
proof -
  obtain p h where p: "injectedPod = Some p"
    "InjectPod exampleEnv injectWorld servedPod [(''imagenet'', selectedInfo ''imagenet'' ''ssd'')] [] = (Ret (Inr p), h)"
    by (rule injectedPod_run)
  have "podWellFormed p"
    by (rule injection_keeps_pods_well_formed [OF _ _ _ p(2)])
      (auto simp: exampleEnv_def permutes_id injectWorld_def exampleFuse_def daemonSetWellFormed_def mountNames_def podWellFormed_def
        servedPod_def examplePod_def)
  with p(1) show ?thesis by blast
qed

theorem unprivileged_sidecars_witness: "\<exists>p. injectedPod = Some p \<and> podConfined p"
proof -
  obtain p h where p: "injectedPod = Some p"
    "InjectPod exampleEnv injectWorld servedPod [(''imagenet'', selectedInfo ''imagenet'' ''ssd'')] [] = (Ret (Inr p), h)"
    by (rule injectedPod_run)
  have "podConfined p"
    by (rule unprivileged_sidecars [OF _ _ p(2)])
      (auto simp: exampleEnv_def servedPod_def examplePod_def GetServerlessPlatform_def enabled_def podConfined_def confined_def)
  with p(1) show ?thesis by blast
qed

section \<open>Clashing names\<close>

text \<open>
  A volume of a FUSE daemon set whose new name has five characters and is taken, such as \<open>mem-0\<close>, makes the injection panic:
  \<open>ReplacePrefix\<close> slices the name from its sixth character.
\<close>

theorem short_name_clash_panics:
  assumes "length (volName x) + length suffix = 5" and "volName x @ suffix \<in> volNames volumes"
  shows "fst (appendVolumes v volumes (x # toAdd) suffix renamed h) = Panic ''slice bounds out of range''"
  using assms
  by (simp add: orFail_def randomizeNewVolumeName_def ReplacePrefix_def andThen_def panic_def)

theorem short_name_clash_panics_witness:
  "fst (appendVolumes exampleEnv [\<lparr>volName = ''mem-0'', volSource = EmptyDirVolume\<rparr>]
     [\<lparr>volName = ''mem'', volSource = HostPathVolume ''/dev/shm''\<rparr>] ''-0'' [] []) = Panic ''slice bounds out of range''"
  by (rule short_name_clash_panics) simp_all

text \<open>
  Native sidecars are init containers, which \<open>findInjectedSidecars\<close> does not count: the next round of injections starts
  from the same number again.
\<close>

lemma native_sidecars_not_counted:
  assumes "hdUsed d \<noteq> None" and "hdUsedInit d \<noteq> None" and "defaultInjectFuseNativeSidecar v d = Inr e"
  shows "findInjectedSidecars (hdPod e) = findInjectedSidecars (hdPod d)"
  using assms by (auto simp: defaultInjectFuseNativeSidecar_def prependFuseNativeSidecar_def findInjectedSidecars_def Let_def)

end
