(* ===== verification/File_Prefetcher.thy ===== *)
theory File_Prefetcher
  imports Fuse_Injector
begin

text \<open>
  The webhook plugin \<open>fileprefetcher\<close> (\<open>pkg/webhook/plugins/fileprefetcher\<close>): from annotations of a pod it adds a sidecar that
  reads files of datasets before the application starts. The default image, from the environment of the process, is a parameter.
\<close>

section \<open>Configuration\<close>

definition ParseBool :: "string \<Rightarrow> bool option" where
  "ParseBool s =
     (if s \<in> set [''1'', ''t'', ''T'', ''true'', ''TRUE'', ''True''] then Some True
      else if s \<in> set [''0'', ''f'', ''F'', ''false'', ''FALSE'', ''False''] then Some False
      else None)"

record filePrefetcherConfig =
  fcImage :: string
  fcAsyncPrefetch :: bool
  fcVolumeMountPaths :: "(string \<times> string) list"
  fcGlobPaths :: string
  fcTimeoutSeconds :: int
  fcExtraEnvs :: "(string \<times> string) list"

abbreviation prefetchKey :: "string \<Rightarrow> string" where
  "prefetchKey name \<equiv> ''file-prefetcher.fluid.io/'' @ name"

definition annotationOr :: "Pod \<Rightarrow> string \<Rightarrow> string \<Rightarrow> string" where
  "annotationOr pod key defaultValue = (case map_of (pdAnnotations pod) key of Some val \<Rightarrow> val | None \<Rightarrow> defaultValue)"

fun parseExtraEnvs :: "string list \<Rightarrow> (string \<times> string) list \<Rightarrow> goerr + (string \<times> string) list" where
  "parseExtraEnvs [] envs = Inr envs"
| "parseExtraEnvs (keyValuePair # pairs) envs =
     (case Split CHR ''='' keyValuePair of
        [key, val] \<Rightarrow> parseExtraEnvs pairs (AList.update key val envs)
      | _ \<Rightarrow> Inl (Err (''found unexpected key-value pair: '' @ keyValuePair)))"

text \<open>
  A path \<open>pvc://claim/glob\<close> of the list: the volumes of the pod for the claim, and where the glob is below the mount of each.
\<close>

definition globOf :: "string \<Rightarrow> (string \<times> string) option" where
  "globOf uriPath =
     (if \<not> HasPrefix uriPath ''pvc://'' then None
      else case Split CHR ''/'' (TrimPrefix uriPath ''pvc://'') of
             [] \<Rightarrow> None
           | [pvcName] \<Rightarrow> Some (pvcName, ''**'')
           | pvcName # items \<Rightarrow> Some (pvcName, Clean (''/'' @ JoinPath items)))"

fun addGlobs ::
  "infos \<Rightarrow> Volume list \<Rightarrow> string list \<Rightarrow> (string \<times> string) list \<times> string list \<Rightarrow> (string \<times> string) list \<times> string list" where
  "addGlobs infos volumes [] acc = acc"
| "addGlobs infos volumes (uriPath # uriPaths) (mountPaths1, globPaths) =
     addGlobs infos volumes uriPaths
       (case globOf uriPath of
          None \<Rightarrow> (mountPaths1, globPaths)
        | Some (pvcName, glob) \<Rightarrow>
            if map_of infos pvcName = None then (mountPaths1, globPaths)
            else let names = map volName (filter (\<lambda>x. claimOf x = Some pvcName) volumes) in
                 (assignAll (map (\<lambda>n. (n, JoinPath [''/data'', n])) names) mountPaths1,
                  globPaths @ map (\<lambda>n. JoinPath [JoinPath [''/data'', n], glob]) names))"

definition parseGlobPathsFromFileList :: "string \<Rightarrow> Pod \<Rightarrow> infos \<Rightarrow> (string \<times> string) list \<times> string list" where
  "parseGlobPathsFromFileList fileList pod infos =
     (if fileList = '''' then ([], []) else addGlobs infos (pdVolumes pod) (Split CHR '';'' fileList) ([], []))"

definition buildFilePrefetcherConfig ::
  "string \<Rightarrow> (string list \<Rightarrow> string list) \<Rightarrow> Pod \<Rightarrow> infos \<Rightarrow> goerr + filePrefetcherConfig" where
  "buildFilePrefetcherConfig defaultImage order pod infos =
     (let image = annotationOr pod (prefetchKey ''image'') defaultImage;
          envs = annotationOr pod (prefetchKey ''extra-envs'') '''';
          fileList = annotationOr pod (prefetchKey ''file-list'') ''<ALL>'';
          async = annotationOr pod (prefetchKey ''async-prefetch'') ''false'';
          timeout = annotationOr pod (prefetchKey ''prefetch-timeout-seconds'') ''120'' in
      if image = '''' then Inl (Err ''file prefetcher's image is required'')
      else case (if envs = '''' then Inr [] else parseExtraEnvs (Split CHR '' '' envs) []) of
             Inl err \<Rightarrow> Inl err
           | Inr extraEnvs \<Rightarrow>
               let fileList = (if fileList = ''<ALL>''
                     then Join CHR '';'' (map (\<lambda>(pvcName, _). ''pvc://'' @ pvcName) (iterated order infos)) else fileList);
                   (mountPaths1, globPaths) = parseGlobPathsFromFileList fileList pod infos in
               (case ParseBool async of
                  None \<Rightarrow> Inl (Err (''invalid value for '' @ prefetchKey ''async-prefetch''))
                | Some asyncPrefetch \<Rightarrow>
                    (case ParseInt timeout 10 32 of
                       None \<Rightarrow> Inl (Err (''invalid value for '' @ prefetchKey ''prefetch-timeout-seconds''))
                     | Some seconds \<Rightarrow>
                         Inr \<lparr>fcImage = image, fcAsyncPrefetch = asyncPrefetch, fcVolumeMountPaths = mountPaths1,
                              fcGlobPaths = Join CHR '';'' globPaths, fcTimeoutSeconds = seconds, fcExtraEnvs = extraEnvs\<rparr>)))"

section \<open>The sidecar\<close>

definition plainMount :: "string \<Rightarrow> string \<Rightarrow> VolumeMount" where
  "plainMount name path = \<lparr>vmName = name, vmMountPath = path, vmSubPath = '''', vmReadOnly = False, vmPropagation = None\<rparr>"

definition statusMount :: VolumeMount where
  "statusMount = plainMount ''fluid-file-prefetcher-status-vol'' ''/tmp/fluid-file-prefetcher/status''"

definition statusFileVolume :: Volume where
  "statusFileVolume = \<lparr>volName = ''fluid-file-prefetcher-status-vol'', volSource = EmptyDirVolume\<rparr>"

text \<open>The command that waits for the end of the prefetching is text to the code.\<close>

definition FormatBool :: "bool \<Rightarrow> string" where
  "FormatBool b = (if b then ''true'' else ''false'')"

definition buildFilePrefetcherSidecarContainer ::
  "string list \<Rightarrow> (string list \<Rightarrow> string list) \<Rightarrow> filePrefetcherConfig \<Rightarrow> Container" where
  "buildFilePrefetcherSidecarContainer waitCommand order config =
     \<lparr>ctName = ''fluid-file-prefetcher'', ctImage = fcImage config, ctCommand = [], ctArgs = [], ctPorts = [],
      ctEnv = [(''FILE_PREFETCHER_FILE_LIST'', fcGlobPaths config),
               (''FILE_PREFETCHER_ASYNC_PREFETCH'', FormatBool (fcAsyncPrefetch config)),
               (''FILE_PREFETCHER_TIMEOUT_SECONDS'', Itoa (fcTimeoutSeconds config))] @ iterated order (fcExtraEnvs config),
      ctVolumeMounts = map (\<lambda>(n, p). plainMount n p) (iterated order (fcVolumeMountPaths config)) @ [statusMount],
      ctLifecycle = (if fcAsyncPrefetch config then None else withPostStart waitCommand None),
      ctSecurity = None, ctRestartPolicy = None\<rparr>"

definition isFuseSidecar :: "Container \<Rightarrow> bool" where
  "isFuseSidecar c = HasPrefix (ctName c) ''fluid-fuse''"

definition lastFuseSidecarIndex :: "Container list \<Rightarrow> nat" where
  "lastFuseSidecarIndex cs = length cs - length (takeWhile (\<lambda>c. \<not> isFuseSidecar c) (rev cs))"

text \<open>\<open>lastFuseSidecarIndex\<close> is one more than in the code: the number of containers up to the last sidecar, 0 without one.\<close>

definition injectFilePrefetcherSidecar :: "Container list \<Rightarrow> Container \<Rightarrow> Container list" where
  "injectFilePrefetcherSidecar oldContainers filePrefetcherCtr =
     (let i = lastFuseSidecarIndex oldContainers in take i oldContainers @ [filePrefetcherCtr] @ drop i oldContainers)"

definition FilePrefetcher_Mutate :: "string \<Rightarrow> string list \<Rightarrow> (string list \<Rightarrow> string list) \<Rightarrow> plugin" where
  "FilePrefetcher_Mutate defaultImage waitCommand order pod infos =
     (if \<not> CheckExpectValue (pdAnnotations pod) (prefetchKey ''inject'') ''true'' \<or>
         CheckExpectValue (pdAnnotations pod) (prefetchKey ''inject-done'') ''true''
      then ret (pod, False, None)
      else case buildFilePrefetcherConfig defaultImage order pod infos of
             Inl err \<Rightarrow> ret (pod, True, Some (HookErr (Err (''failed to build file prefetcher config: '' @ errText err))))
           | Inr config \<Rightarrow>
               if fcGlobPaths config = '''' then ret (pod, False, None)
               else
                 let containers = (if fcAsyncPrefetch config
                       then map (\<lambda>c. if isFuseSidecar c then c else c\<lparr>ctVolumeMounts := ctVolumeMounts c @ [statusMount]\<rparr>) (pdContainers pod)
                       else pdContainers pod) in
                 ret (pod\<lparr>pdContainers := injectFilePrefetcherSidecar containers (buildFilePrefetcherSidecarContainer waitCommand order config),
                          pdVolumes := pdVolumes pod @ [statusFileVolume],
                          pdAnnotations := AList.update (prefetchKey ''inject-done'') ''true'' (pdAnnotations pod)\<rparr>, False, None))"

section \<open>Lemmas\<close>

text \<open>The sidecar is added right after the last FUSE sidecar: those before it keep their places and no FUSE sidecar follows it.\<close>

lemma injectFilePrefetcherSidecar_place:
  obtains pre post where "oldContainers = pre @ post" and "injectFilePrefetcherSidecar oldContainers c = pre @ [c] @ post"
    and "pre \<noteq> [] \<Longrightarrow> isFuseSidecar (last pre)" and "\<forall>d\<in>set post. \<not> isFuseSidecar d"
proof -
  define post where "post = rev (takeWhile (\<lambda>c. \<not> isFuseSidecar c) (rev oldContainers))"
  define pre where "pre = rev (dropWhile (\<lambda>c. \<not> isFuseSidecar c) (rev oldContainers))"
  have split: "oldContainers = pre @ post"
    unfolding pre_def post_def by (metis rev_append rev_rev_ident takeWhile_dropWhile_id)
  then have "lastFuseSidecarIndex oldContainers = length pre"
    unfolding lastFuseSidecarIndex_def using post_def by (metis add_diff_cancel_right' length_append length_rev)
  then have "injectFilePrefetcherSidecar oldContainers c = pre @ [c] @ post"
    by (simp add: injectFilePrefetcherSidecar_def split)
  moreover have "isFuseSidecar (last pre)" if "pre \<noteq> []"
    using that hd_dropWhile [of "\<lambda>c. \<not> isFuseSidecar c" "rev oldContainers"] by (simp add: pre_def last_rev)
  moreover have "\<forall>d\<in>set post. \<not> isFuseSidecar d" by (auto simp: post_def dest: set_takeWhileD)
  ultimately show ?thesis using that split by blast
qed

end
