(* ===== verification/Webhook.thy ===== *)
theory Webhook
  imports File_Prefetcher "HOL-Library.Sublist"
begin

text \<open>
  The admission webhook for pods (\<open>pkg/webhook\<close>): the runtimes of the claims of a pod (\<open>utils/runtime_info.go\<close> and
  \<open>cache\<close>), the plugin that injects FUSE sidecars in rounds, the registry of plugins and their profile
  (\<open>plugins/plugins_impl.go\<close>), and the handler (\<open>handler/mutating/mutating_handler.go\<close>). The parser of the arguments of
  a plugin (YAML) and the encoder of the pod (JSON) are parameters.
\<close>

section \<open>Environment\<close>

text \<open>
  \<open>hvInject\<close> is the environment of the plugins with the client of the webhook, \<open>hvReader\<close> answers the direct reader of the
  API server, \<open>hvCacheOn\<close> tells whether the cache of runtimes exists and \<open>hvCached\<close> what it holds (whether the claim belongs
  to a dataset, and its runtime), \<open>hvDisabled\<close> whether injection is disabled for all pods, \<open>hvMarshal\<close> whether encoding
  the pod fails.
\<close>

record hookEnv =
  hvInject :: injectEnv
  hvReader :: world
  hvCacheOn :: bool
  hvCached :: "kevent list \<Rightarrow> string \<Rightarrow> string \<Rightarrow> RuntimeInfo option option"
  hvDisabled :: bool
  hvMarshal :: "Pod \<Rightarrow> goerr option"
  hvImage :: string
  hvWaitCommand :: "string list"
  hvParseLocality :: "string \<Rightarrow> goerr + TieredLocality"

section \<open>Runtimes of claims\<close>

definition GetRuntimeInfoByKey :: "hookEnv \<Rightarrow> string \<Rightarrow> string \<Rightarrow> (RuntimeInfo option option) kgo" where
  "GetRuntimeInfoByKey v name namespace h = ret (if hvCacheOn v then hvCached v h name namespace else None) h"

definition AddRuntimeInfoByKey :: "hookEnv \<Rightarrow> string \<Rightarrow> string \<Rightarrow> RuntimeInfo option \<Rightarrow> unit kgo" where
  "AddRuntimeInfoByKey v name namespace info h =
     (if hvCacheOn v \<and> hvCached v h name namespace = None then emit (CachedClaim name namespace (info \<noteq> None)) h else ret () h)"

definition checkDatasetBound :: "world \<Rightarrow> string \<Rightarrow> string \<Rightarrow> (goerr option) kgo" where
  "checkDatasetBound w name namespace =
     andThen (viaOp w (\<lambda>cl. GetDataset cl name namespace)) (\<lambda>r.
     ret (case r of
            Inl err \<Rightarrow> Some err
          | Inr dataset \<Rightarrow>
              let status = dStatus dataset; key = omNamespace (dMeta dataset) @ ''/'' @ omName (dMeta dataset) in
              if dstPhase status = ''NotBound'' \<or> dstPhase status = '''' then
                (case snd (GetDatasetCondition (dstConditions status) ''NotReady'') of
                   Some cond \<Rightarrow> Some (Err (''dataset '' @ key @ '' not ready because '' @ dcMessage cond))
                 | None \<Rightarrow> Some (Err (''dataset '' @ key @ '' not bound'')))
              else None))"

definition buildRuntimeInfoInternalWithPrecheck :: "hookEnv \<Rightarrow> world \<Rightarrow> Claim \<Rightarrow> bool \<Rightarrow> (goerr + RuntimeInfo) kgo" where
  "buildRuntimeInfoInternalWithPrecheck v w pvc skipPrecheck =
     (let meta = pvcMeta pvc;
          namespace = (if omNamespace meta = '''' then ''default'' else omNamespace meta);
          name = (case GetManagerDatasetFromLabels (omLabels meta) of (datasetName, True) \<Rightarrow> datasetName | _ \<Rightarrow> omName meta) in
      andThen (if skipPrecheck then ret None else checkDatasetBound w name namespace) (\<lambda>err.
      case err of
        Some err \<Rightarrow> ret (Inl err)
      | None \<Rightarrow> GetRuntimeInfo w (ivMetadata (hvInject v)) name namespace))"

text \<open>
  \<open>infos\<close> is the map that is built and \<open>errPVCs\<close> the claims that could not be read; a dataset whose runtime cannot be found
  out ends the loop.
\<close>

fun collectInfos ::
  "hookEnv \<Rightarrow> world \<Rightarrow> string \<Rightarrow> bool \<Rightarrow> string list \<Rightarrow> infos \<Rightarrow> string list \<Rightarrow> (goerr + infos) kgo" where
  "collectInfos v w namespace skipPrecheck [] infos errPVCs =
     ret (if errPVCs \<noteq> [] then Inl (Err (''failed to get the following PVCs ['' @ Join CHR '' '' errPVCs @ '']'')) else Inr infos)"
| "collectInfos v w namespace skipPrecheck (pvcName # pvcNames) infos errPVCs =
     andThen (GetRuntimeInfoByKey v pvcName namespace) (\<lambda>cached.
     case cached of
       Some (Some info) \<Rightarrow> collectInfos v w namespace skipPrecheck pvcNames (AList.update pvcName info infos) errPVCs
     | Some None \<Rightarrow> collectInfos v w namespace skipPrecheck pvcNames infos errPVCs
     | None \<Rightarrow>
         andThen (GetPersistentVolumeClaim w pvcName namespace) (\<lambda>r.
         case r of
           Inl _ \<Rightarrow> collectInfos v w namespace skipPrecheck pvcNames infos (errPVCs @ [pvcName])
         | Inr pvc \<Rightarrow>
             if CheckIfPVCIsDataset (Some pvc) then
               andThen (buildRuntimeInfoInternalWithPrecheck v w pvc skipPrecheck) (\<lambda>r.
               case r of
                 Inl err \<Rightarrow> ret (Inl (Wrapped (''failed to build runtime info for PVC '' @ namespace @ ''/'' @ pvcName) err))
               | Inr info \<Rightarrow>
                   andThen (AddRuntimeInfoByKey v pvcName namespace (Some info)) (\<lambda>_.
                   collectInfos v w namespace skipPrecheck pvcNames (AList.update pvcName info infos) errPVCs))
             else
               andThen (AddRuntimeInfoByKey v pvcName namespace None) (\<lambda>_.
               collectInfos v w namespace skipPrecheck pvcNames infos errPVCs)))"

definition CollectRuntimeInfosFromPVCs ::
  "hookEnv \<Rightarrow> world \<Rightarrow> string list \<Rightarrow> string \<Rightarrow> bool \<Rightarrow> (goerr + infos) kgo" where
  "CollectRuntimeInfosFromPVCs v w pvcNames namespace skipPrecheck = collectInfos v w namespace skipPrecheck pvcNames [] []"

definition collectionFailed :: "goerr \<Rightarrow> hookErr" where
  "collectionFailed err = NeedRetryWithApiReaderError (errText (Wrapped ''failed to collect runtime infos from PVCs'' err))"

section \<open>fuse\_sidecar.go\<close>

definition labelInjectionDone :: "Pod \<Rightarrow> Pod" where
  "labelInjectionDone pod =
     pod\<lparr>pdLabels := assignAll [(''done.sidecar.fluid.io/inject'', ''true''), (''fluid.io/managed-by'', ''fluid'')] (pdLabels pod)\<rparr>"

text \<open>
  The loop of \<open>Mutate\<close>: sidecars may bring claims of datasets of their own, so that the runtimes are collected again after each
  injection. It may run forever, so it has fuel: \<open>None\<close> is a loop that has not ended after \<open>fuel\<close> rounds. \<open>rw\<close> answers the
  reader that the runtimes of the round have been looked up with.
\<close>

fun sidecarRounds :: "nat \<Rightarrow> hookEnv \<Rightarrow> world \<Rightarrow> Pod \<Rightarrow> infos \<Rightarrow> ((Pod \<times> hookErr option) option) kgo" where
  "sidecarRounds fuel v rw pod [] = ret (Some (labelInjectionDone pod, None))"
| "sidecarRounds 0 v rw pod (info # infos) = ret None"
| "sidecarRounds (Suc fuel) v rw pod (info # infos) =
     andThen (InjectPod (hvInject v) rw pod (info # infos)) (\<lambda>r.
     case r of
       Inl err \<Rightarrow> ret (Some (pod, Some (HookErr (Wrapped (''failed to inject pod '' @ pdNamespace pod @ ''/'' @ pdName pod @ '' with runtimeInfos'') err))))
     | Inr out1 \<Rightarrow>
         andThen (CollectRuntimeInfosFromPVCs v (ivWorld (hvInject v)) (pdClaims out1) (pdNamespace out1)
                    (SkipPrecheckEnable (pdAnnotations out1))) (\<lambda>r.
         case r of
           Inl err \<Rightarrow> ret (Some (out1, Some (collectionFailed err)))
         | Inr infos' \<Rightarrow> sidecarRounds fuel v (ivWorld (hvInject v)) out1 infos'))"

section \<open>plugins\_impl.go\<close>

datatype handler =
    PreferNodesWithoutCache
  | MountPropagationInjector
  | RequireNodeWithFuse
  | NodeAffinityWithCache TieredLocality
  | FuseSidecar
  | DatasetUsageInjector
  | FilePrefetcher

text \<open>\<open>None\<close>: the plugin has not ended within the fuel.\<close>

definition Mutate :: "nat \<Rightarrow> hookEnv \<Rightarrow> world \<Rightarrow> handler \<Rightarrow> Pod \<Rightarrow> infos \<Rightarrow> ((Pod \<times> bool \<times> hookErr option) option) kgo" where
  "Mutate fuel v rw plugin pod infos =
     (let iv = hvInject v; order = ivOrder iv; ended = (\<lambda>m. andThen m (\<lambda>r. ret (Some r))) in
      case plugin of
        PreferNodesWithoutCache \<Rightarrow> ended (PreferNodesWithoutCache_Mutate pod infos)
      | MountPropagationInjector \<Rightarrow> ended (MountPropagationInjector_Mutate order pod infos)
      | RequireNodeWithFuse \<Rightarrow> ended (RequireNodeWithFuse_Mutate order pod infos)
      | NodeAffinityWithCache t \<Rightarrow> ended (NodeAffinityWithCache_Mutate (ivWorld iv) order t pod infos)
      | DatasetUsageInjector \<Rightarrow> ended (DatasetUsageInjector_Mutate order pod infos)
      | FilePrefetcher \<Rightarrow> ended (FilePrefetcher_Mutate (hvImage v) (hvWaitCommand v) order pod infos)
      | FuseSidecar \<Rightarrow>
          andThen (sidecarRounds fuel v rw pod infos) (\<lambda>r. ret (map_option (\<lambda>(pod, err). (pod, False, err)) r)))"

record Handlers =
  podWithDatasetHandler :: "handler list"
  podWithoutDatasetHandler :: "handler list"
  serverlessPodWithDatasetHandler :: "handler list"
  serverlessPodWithoutDatasetHandler :: "handler list"

record PluginsProfile =
  ppServerfulWithDataset :: "string list"
  ppServerfulWithoutDataset :: "string list"
  ppServerlessWithDataset :: "string list"
  ppServerlessWithoutDataset :: "string list"
  ppPluginConfig :: "(string \<times> string) list"

definition newPlugin :: "hookEnv \<Rightarrow> string \<Rightarrow> string \<Rightarrow> goerr + handler" where
  "newPlugin v name args =
     (if name = ''PreferNodesWithoutCache'' then Inr PreferNodesWithoutCache
      else if name = ''MountPropagationInjector'' then Inr MountPropagationInjector
      else if name = ''RequireNodeWithFuse'' then Inr RequireNodeWithFuse
      else if name = ''NodeAffinityWithCache'' then
        (case hvParseLocality v args of Inl err \<Rightarrow> Inl err | Inr t \<Rightarrow> Inr (NodeAffinityWithCache t))
      else if name = ''FuseSidecar'' then Inr FuseSidecar
      else if name = ''DatasetUsageInjector'' then Inr DatasetUsageInjector
      else if name = ''FilePrefetcher'' then Inr FilePrefetcher
      else Inl (Err (''unknown plugin name ['' @ name @ '']'')))"

fun newHandlerForType :: "hookEnv \<Rightarrow> string list \<Rightarrow> (string \<times> string) list \<Rightarrow> goerr + handler list" where
  "newHandlerForType v [] pluginConfig = Inr []"
| "newHandlerForType v (name # names) pluginConfig =
     (case newPlugin v name (lookupStr pluginConfig name) of
        Inl err \<Rightarrow> Inl err
      | Inr plugin \<Rightarrow>
          (case newHandlerForType v names pluginConfig of Inl err \<Rightarrow> Inl err | Inr plugins \<Rightarrow> Inr (plugin # plugins)))"

definition newHandler :: "hookEnv \<Rightarrow> PluginsProfile \<Rightarrow> goerr + Handlers" where
  "newHandler v profile =
     (let pluginConfig = assignAll (ppPluginConfig profile) [] in
      case newHandlerForType v (ppServerfulWithDataset profile) pluginConfig of
        Inl err \<Rightarrow> Inl err
      | Inr with1 \<Rightarrow>
      (case newHandlerForType v (ppServerfulWithoutDataset profile) pluginConfig of
        Inl err \<Rightarrow> Inl err
      | Inr without1 \<Rightarrow>
      (case newHandlerForType v (ppServerlessWithDataset profile) pluginConfig of
        Inl err \<Rightarrow> Inl err
      | Inr with2 \<Rightarrow>
      (case newHandlerForType v (ppServerlessWithoutDataset profile) pluginConfig of
        Inl err \<Rightarrow> Inl err
      | Inr without2 \<Rightarrow>
          Inr \<lparr>podWithDatasetHandler = with1, podWithoutDatasetHandler = without1,
               serverlessPodWithDatasetHandler = with2, serverlessPodWithoutDatasetHandler = without2\<rparr>))))"

section \<open>mutating\_handler.go\<close>

definition pluginsFor :: "hookEnv \<Rightarrow> Handlers \<Rightarrow> Pod \<Rightarrow> infos \<Rightarrow> handler list" where
  "pluginsFor v hs pod infos =
     (if ServerlessEnabled (ivDeprecatedKey (hvInject v)) (pdLabels pod) then
        (if infos = [] then serverlessPodWithoutDatasetHandler hs else serverlessPodWithDatasetHandler hs)
      else if ServerfulFuseEnabled (pdLabels pod) then
        (if infos = [] then podWithoutDatasetHandler hs else podWithDatasetHandler hs)
      else [])"

fun runPlugins ::
  "('p \<Rightarrow> Pod \<Rightarrow> infos \<Rightarrow> ((Pod \<times> bool \<times> hookErr option) option) kgo) \<Rightarrow> 'p list \<Rightarrow> Pod \<Rightarrow> infos \<Rightarrow> ((Pod \<times> hookErr option) option) kgo" where
  "runPlugins mutate [] pod infos = ret (Some (pod, None))"
| "runPlugins mutate (plugin # plugins) pod infos =
     andThen (mutate plugin pod infos) (\<lambda>r.
     case r of
       None \<Rightarrow> ret None
     | Some (pod, shouldStop, err) \<Rightarrow>
         if err \<noteq> None then ret (Some (pod, err))
         else if shouldStop then ret (Some (pod, None))
         else runPlugins mutate plugins pod infos)"

definition MutatePod :: "nat \<Rightarrow> hookEnv \<Rightarrow> Handlers \<Rightarrow> Pod \<Rightarrow> bool \<Rightarrow> ((Pod \<times> hookErr option) option) kgo" where
  "MutatePod fuel v hs pod useDirectReader =
     (let handlerClient = (if useDirectReader then hvReader v else ivWorld (hvInject v)) in
      andThen (CollectRuntimeInfosFromPVCs v handlerClient (pdClaims pod) (pdNamespace pod) (SkipPrecheckEnable (pdAnnotations pod)))
        (\<lambda>r.
      case r of
        Inl err \<Rightarrow> ret (Some (pod, Some (collectionFailed err)))
      | Inr infos \<Rightarrow> runPlugins (Mutate fuel v handlerClient) (pluginsFor v hs pod infos) pod infos))"

text \<open>A request has its namespace and the decoded pod; a patch is told by the pod that it leads to.\<close>

datatype response = Allowed string | Denied string | Errored int string | Patched Pod

fun hookText :: "hookErr \<Rightarrow> string" where
  "hookText (NeedRetryWithApiReaderError msg) = msg"
| "hookText (HookErr err) = errText err"

definition patchResponse :: "hookEnv \<Rightarrow> bool \<Rightarrow> Pod \<Rightarrow> response" where
  "patchResponse v undoNamespaceOverride pod =
     (let pod = (if undoNamespaceOverride then pod\<lparr>pdNamespace := ''''\<rparr> else pod) in
      case hvMarshal v pod of Some err \<Rightarrow> Errored 500 (errText err) | None \<Rightarrow> Patched pod)"

definition retryWithReader :: "nat \<Rightarrow> hookEnv \<Rightarrow> Handlers \<Rightarrow> bool \<Rightarrow> Pod \<Rightarrow> (response option) kgo" where
  "retryWithReader fuel v hs undoNamespaceOverride backupPod =
     andThen (MutatePod fuel v hs backupPod True) (\<lambda>r.
     ret (case r of
            None \<Rightarrow> None
          | Some (mutated, None) \<Rightarrow> Some (patchResponse v undoNamespaceOverride mutated)
          | Some (mutated, Some err) \<Rightarrow> Some (Errored 500 (hookText err))))"

definition Handle :: "nat \<Rightarrow> hookEnv \<Rightarrow> Handlers \<Rightarrow> string \<Rightarrow> goerr + Pod \<Rightarrow> (response option) kgo" where
  "Handle fuel v hs reqNamespace decoded =
     (if hvDisabled v then ret (Some (Allowed ''skip mutating the pod because global injection is disabled''))
      else case decoded of
             Inl err \<Rightarrow> ret (Some (Errored 400 (errText err)))
           | Inr pod \<Rightarrow>
               if pdNamespace pod \<noteq> '''' \<and> pdNamespace pod \<noteq> reqNamespace
               then ret (Some (Denied ''found invalid pod.metadata.namespace, it must either be empty or equal to request's namespace''))
               else if pdNamespace pod = '''' \<and> reqNamespace = ''''
               then ret (Some (Errored 500 ''unexepcted error: both pod.metadata.namespace and request's namespace is empty''))
               else
                 let undo = (pdNamespace pod = ''''); pod = (if undo then pod\<lparr>pdNamespace := reqNamespace\<rparr> else pod) in
                 if CheckExpectValue (pdLabels pod) ''fluid.io/enable-injection'' ''false''
                 then ret (Some (Allowed ''skip mutating the pod because injection is disabled''))
                 else if CheckExpectValue (pdLabels pod) ''done.sidecar.fluid.io/inject'' ''true''
                 then ret (Some (Allowed ''skip mutating the pod because injection is done''))
                 else
                   andThen (MutatePod fuel v hs pod False) (\<lambda>r.
                   case r of
                     None \<Rightarrow> ret None
                   | Some (mutated, None) \<Rightarrow> ret (Some (patchResponse v undo mutated))
                   | Some (mutated, Some err) \<Rightarrow>
                       if IsNeedRetryWithApiReaderError err then
                         retryWithReader fuel v hs undo pod
                       else ret (Some (patchResponse v undo mutated))))"

section \<open>The contract of a plugin\<close>

text \<open>
  A set of plugins whose changes of a pod stay within a relation: so does the sequence of them that the handler runs.
\<close>

locale mutating_handlers =
  fixes mutate :: "'p \<Rightarrow> Pod \<Rightarrow> infos \<Rightarrow> ((Pod \<times> bool \<times> hookErr option) option) kgo"
    and kept :: "Pod \<Rightarrow> Pod \<Rightarrow> bool"
  assumes kept_refl: "kept pod pod"
    and kept_trans: "kept a b \<Longrightarrow> kept b c \<Longrightarrow> kept a c"
    and mutate_kept: "yields (\<lambda>r. \<forall>p s e. r = Some (p, s, e) \<longrightarrow> kept pod p) (mutate x pod infos)"
begin

lemma run_kept: "yields (\<lambda>r. \<forall>p e. r = Some (p, e) \<longrightarrow> kept pod p) (runPlugins mutate plugins pod infos)"
proof (induction plugins arbitrary: pod)
  case Nil
  then show ?case by (simp add: yields_def ret_def kept_refl)
next
  case (Cons x plugins)
  show ?case
    unfolding runPlugins.simps
  proof (rule yields_andThen [OF mutate_kept [of pod x infos]])
    fix r :: "(Pod \<times> bool \<times> hookErr option) option"
    assume r: "\<forall>p s e. r = Some (p, s, e) \<longrightarrow> kept pod p"
    have "yields (\<lambda>r. \<forall>q e. r = Some (q, e) \<longrightarrow> kept pod q) (runPlugins mutate plugins p infos)" if "kept pod p" for p
      using Cons.IH [of p] that kept_trans unfolding yields_def by blast
    with r show "yields (\<lambda>r. \<forall>p e. r = Some (p, e) \<longrightarrow> kept pod p)
        (case r of None \<Rightarrow> ret None | Some (pod, shouldStop, err) \<Rightarrow>
           if err \<noteq> None then ret (Some (pod, err)) else if shouldStop then ret (Some (pod, None))
           else runPlugins mutate plugins pod infos)"
      by (auto simp: yields_def ret_def split: option.splits)
  qed
qed

end

section \<open>What the webhook keeps of a pod\<close>

text \<open>
  The identity of a pod, and its containers as far as they decide what runs: their names, images, commands, environment and
  privileges, in their order.
\<close>

definition essence :: "Container \<Rightarrow> string \<times> string \<times> string list \<times> string list \<times> (string \<times> string) list \<times> SecurityContext option" where
  "essence c = (ctName c, ctImage c, ctCommand c, ctArgs c, ctEnv c, ctSecurity c)"

definition appKept :: "Pod \<Rightarrow> Pod \<Rightarrow> bool" where
  "appKept p q \<longleftrightarrow> pdName q = pdName p \<and> pdGenerateName q = pdGenerateName p \<and> pdNamespace q = pdNamespace p \<and>
     subseq (map essence (pdContainers p)) (map essence (pdContainers q)) \<and>
     subseq (map essence (pdInitContainers p)) (map essence (pdInitContainers q))"

lemma appKept_refl [simp]: "appKept pod pod"
  by (simp add: appKept_def)

lemma appKept_trans: "appKept a b \<Longrightarrow> appKept b c \<Longrightarrow> appKept a c"
  by (auto simp: appKept_def intro: subseq_order.trans)

lemma essence_mounts [simp]: "essence (c\<lparr>ctVolumeMounts := ms\<rparr>) = essence c" "essence (c\<lparr>ctLifecycle := l\<rparr>) = essence c"
  by (simp_all add: essence_def)

lemma essence_inject [simp]: "essence (injectCheckScript v b n vs infos c) = essence c" "essence (propagate names c) = essence c"
  by (simp_all add: injectCheckScript_def propagate_def Let_def split: prod.splits)

lemma map_essence_inject [simp]:
  "map (essence \<circ> injectCheckScript v b n vs infos) cs = map essence cs" "map (essence \<circ> propagate names) cs = map essence cs"
  by simp_all

lemma appKept_fields [simp]:
  "appKept pod (pod\<lparr>pdAffinity := a\<rparr>)" "appKept pod (pod\<lparr>pdAnnotations := xs\<rparr>)" "appKept pod (pod\<lparr>pdLabels := xs\<rparr>)"
  by (simp_all add: appKept_def)

text \<open>
  A relation that every single change of the injector stays within: changes of volumes and mounts, of annotations, and a
  labelled sidecar in front.
\<close>

locale injection_relation =
  fixes kept :: "Pod \<Rightarrow> Pod \<Rightarrow> bool"
  assumes kept_refl: "kept pod pod"
    and kept_trans: "kept p q \<Longrightarrow> kept q r \<Longrightarrow> kept p r"
    and kept_mounts: "map essence cs = map essence (pdContainers pod) \<Longrightarrow> map essence is = map essence (pdInitContainers pod) \<Longrightarrow>
      kept pod (pod\<lparr>pdVolumes := vs, pdContainers := cs, pdInitContainers := is\<rparr>)"
    and kept_annotations: "kept pod (pod\<lparr>pdAnnotations := as\<rparr>)"
    and kept_sidecar: "kept pod (labelDataset info n (pod\<lparr>pdContainers := c # pdContainers pod\<rparr>))"
    and kept_init: "kept pod (labelDataset info n (pod\<lparr>pdInitContainers := c # pdInitContainers pod\<rparr>))"
begin

lemma prepend_kept:
  "kept (hdPod d) (hdPod (prependFuseContainer v asInit d))" "kept (hdPod d) (hdPod (prependFuseNativeSidecar v d))"
  by (simp_all add: prependFuseContainer_def prependFuseNativeSidecar_def Let_def kept_sidecar kept_init)

lemma shareMounts_kept: "kept (hdPod d) (hdPod (shareMounts d))"
proof -
  let ?cs = "case pdContainers (hdPod d) of [] \<Rightarrow> []
    | c # cs \<Rightarrow> c\<lparr>ctVolumeMounts := ctVolumeMounts (ftContainer (hdTemplate d))\<rparr> # cs"
  have "kept (hdPod d) ((hdPod d)\<lparr>pdVolumes := pdVolumes (hdPod d), pdContainers := ?cs, pdInitContainers := pdInitContainers (hdPod d)\<rparr>)"
    by (rule kept_mounts) (auto split: list.splits)
  then show ?thesis by (simp add: shareMounts_def)
qed

lemma inject_kept:
  assumes "(if ivNative v then defaultInjectFuseNativeSidecar v d else defaultInjectFuseContainer v d) = Inr e"
  shows "kept (hdPod d) (hdPod e)"
proof -
  have "e \<in> {d, prependFuseNativeSidecar v d, prependFuseContainer v False d, prependFuseContainer v True d,
      prependFuseContainer v True (prependFuseContainer v False d),
      shareMounts (prependFuseContainer v True (prependFuseContainer v False d))}"
    using assms
    by (auto simp: defaultInjectFuseNativeSidecar_def defaultInjectFuseContainer_def Let_def split: if_splits option.splits)
  moreover note twice = kept_trans [OF prepend_kept(1) prepend_kept(1)]
  ultimately show ?thesis
    by (elim insertE emptyE; simp only:)
      (rule kept_refl prepend_kept twice kept_trans [OF twice shareMounts_kept])+
qed

lemma mutate_kept:
  assumes "defaultMutateDatasetVolumes v d = Inr e"
  shows "kept (hdPod d) (hdPod e)"
proof -
  obtain names vs where "hdPod e = (hdPod d)\<lparr>pdVolumes := vs, pdContainers := map (propagate names) (pdContainers (hdPod d)),
      pdInitContainers := map (propagate names) (pdInitContainers (hdPod d))\<rparr>"
    using assms by (auto simp: defaultMutateDatasetVolumes_def Let_def split: sum.splits)
  then show ?thesis using kept_mounts by simp
qed

lemma kept_volumes: "kept pod (pod\<lparr>pdVolumes := vs\<rparr>)"
  using kept_mounts [of "pdContainers pod" pod "pdInitContainers pod" vs] by simp

lemma doMutate_kept:
  assumes "map_of (mutatorBuildFn v) platform = Some prepareMutation" and "kept pod (hdPod d)"
  shows "gives (\<lambda>e. kept pod (hdPod e)) (doMutate v prepareMutation d)"
proof (rule gives_doMutate [where P = "\<lambda>e. kept pod (hdPod e)" and Q = "\<lambda>e. kept pod (hdPod e)" and R = "\<lambda>e. kept pod (hdPod e)"])
  show "gives (\<lambda>e. kept pod (hdPod e)) (prepareMutation d)"
  proof (rule gives_prepare [OF assms(1)])
    show "gives (\<lambda>e. kept pod (hdPod e)) (prepareFuseContainerPostStartScript v e)" if "kept pod (hdPod e)" for e
      using that unfolding prepareFuseContainerPostStartScript_def Let_def
      by (intro gives_rules gives_orFail_any) auto
  qed (use assms(2) in \<open>simp_all add: transformTemplateWithCacheDirDisabled_def Let_def
         transformTemplateWithUnprivilegedSidecarEnabled_def removeFuseMetricsContainerPort_def\<close>)
  show "gives (\<lambda>e. kept pod (hdPod e)) (defaultAppendFuseContainerVolumes v d)" if "kept pod (hdPod d)" for d
    using that unfolding defaultAppendFuseContainerVolumes_def
    by (intro gives_rules gives_orFail_any) (auto intro: kept_trans [OF _ kept_volumes])
qed (blast intro: kept_trans mutate_kept inject_kept)+

lemma injectEach_kept:
  assumes "map_of (mutatorBuildFn v) platform = Some prepareMutation"
  shows "gives (kept pod) (injectEach v rw prepareMutation labels idx infos pod)"
proof (induction infos arbitrary: idx pod)
  case (Cons x infos)
  have step: "gives (kept pod) (MutateWithRuntimeInfo v rw prepareMutation labels pvcName info suffix pod)"
    for pvcName info suffix
    unfolding MutateWithRuntimeInfo_def
    by (rule gives_orFail_any, rule gives_orFail [OF gives_wrapErr [OF doMutate_kept [OF assms, of pod]]])
      (auto simp: enablePrometheusMetricsScrape_def kept_refl intro!: gives_rules intro: kept_trans [OF _ kept_annotations] split: if_splits)
  show ?case
    by (cases x) (simp, rule gives_orFail [OF step], rule gives_mono [OF Cons.IH], erule (1) kept_trans)
qed (auto intro!: gives_rules kept_refl)

lemma InjectPod_kept: "gives (kept pod) (InjectPod v rw pod infos)"
proof -
  have script: "gives (kept pod) (injectCheckMountReadyScript v infos pod)"
    unfolding injectCheckMountReadyScript_def
    by (intro gives_rules gives_orFail_any) (auto simp: kept_refl kept_mounts Let_def intro!: gives_ret)
  show ?thesis
    unfolding InjectPod_def
    by (intro gives_rules gives_orFail [OF script]) (auto intro!: gives_mono [OF injectEach_kept] kept_refl intro: kept_trans)
qed

end

interpretation app: injection_relation appKept
  by unfold_locales
    (auto simp: appKept_refl appKept_fields intro: appKept_trans, auto simp: appKept_def labelDataset_def intro: list_emb_Cons)

lemmas InjectPod_kept = app.InjectPod_kept

lemma sidecarRounds_kept:
  "yields (\<lambda>r. \<forall>p e. r = Some (p, e) \<longrightarrow> appKept pod p) (sidecarRounds fuel v rw pod infos)"
proof (induction fuel v rw pod infos rule: sidecarRounds.induct)
  case (1 fuel v rw pod)
  then show ?case by (simp add: yields_def ret_def labelInjectionDone_def)
next
  case (2 v rw pod info infos)
  then show ?case by (simp add: yields_def ret_def)
next
  case (3 fuel v rw pod info infos)
  show ?case
    unfolding sidecarRounds.simps
  proof (rule yields_andThen [OF InjectPod_kept [unfolded gives_def]])
    fix r :: "goerr + Pod"
    assume r: "\<forall>a. r = Inr a \<longrightarrow> appKept pod a"
    have "yields (\<lambda>r. \<forall>q e. r = Some (q, e) \<longrightarrow> appKept pod q) (sidecarRounds fuel v w out1 infos')"
      if "appKept pod out1" "w = ivWorld (hvInject v)" for out1 infos' w
      using 3 that appKept_trans unfolding yields_def by blast
    with r show "yields (\<lambda>r. \<forall>p e. r = Some (p, e) \<longrightarrow> appKept pod p) (case r of
        Inl err \<Rightarrow> ret (Some (pod, Some (HookErr (Wrapped (''failed to inject pod '' @ pdNamespace pod @ ''/'' @ pdName pod @ '' with runtimeInfos'') err))))
      | Inr out1 \<Rightarrow>
         andThen (CollectRuntimeInfosFromPVCs v (ivWorld (hvInject v)) (pdClaims out1) (pdNamespace out1)
                    (SkipPrecheckEnable (pdAnnotations out1))) (\<lambda>r.
         case r of
           Inl err \<Rightarrow> ret (Some (out1, Some (collectionFailed err)))
         | Inr infos' \<Rightarrow> sidecarRounds fuel v (ivWorld (hvInject v)) out1 infos'))"
      by (intro yields_rules) auto
  qed
qed

lemma subseq_prefetcher: "subseq (map essence cs) (map essence (injectFilePrefetcherSidecar cs c))"
proof -
  obtain pre post where "cs = pre @ post" "injectFilePrefetcherSidecar cs c = pre @ [c] @ post"
    by (rule injectFilePrefetcherSidecar_place)
  then show ?thesis by (simp add: list_emb_append_mono list_emb_Cons)
qed

lemma appKept_containers:
  "subseq (map essence (pdContainers pod)) (map essence cs) \<Longrightarrow> appKept pod (pod\<lparr>pdContainers := cs, pdVolumes := vs, pdAnnotations := as\<rparr>)"
  by (simp add: appKept_def)

lemma FilePrefetcher_kept: "yields (\<lambda>(p, s, e). appKept pod p) (FilePrefetcher_Mutate img command order pod infos)"
proof -
  let ?mounted = "map (\<lambda>c. if isFuseSidecar c then c else c\<lparr>ctVolumeMounts := ctVolumeMounts c @ [statusMount]\<rparr>) (pdContainers pod)"
  have eq: "map essence ?mounted = map essence (pdContainers pod)" by simp
  have mounted: "subseq (map essence (pdContainers pod)) (map essence (injectFilePrefetcherSidecar ?mounted c))" for c
    by (subst eq [symmetric]) (rule subseq_prefetcher)
  have injected: "subseq (map essence (pdContainers pod))
      (map essence (injectFilePrefetcherSidecar (if b then ?mounted else pdContainers pod) c))" for b c
    by (cases b) (simp_all only: if_True if_False mounted subseq_prefetcher)
  show ?thesis
    unfolding FilePrefetcher_Mutate_def Let_def
    by (intro yields_rules; simp only: prod.case; (rule appKept_refl | rule appKept_containers [OF injected]))
qed

lemma scheduling_kept:
  "appKept pod (InjectNodeSelectorTerms terms pod)" "appKept pod (InjectPreferredSchedulingTerms terms' pod)"
  "appKept pod (InjectMountPropagation names pod)"
  by (simp_all add: InjectNodeSelectorTerms_def InjectPreferredSchedulingTerms_def InjectMountPropagation_def Let_def)
    (simp add: appKept_def comp_def)

lemma NodeAffinity_kept: "yields (\<lambda>(p, s, e). appKept pod p) (NodeAffinityWithCache_Mutate w order t pod infos)"
  unfolding NodeAffinityWithCache_Mutate_def
  by (auto simp: yields_def ret_def andThen_def Let_def split_beta scheduling_kept intro: appKept_trans [OF scheduling_kept(1) scheduling_kept(2)]
      split: out.splits if_splits prod.splits)

interpretation webhook: mutating_handlers "Mutate fuel v rw" appKept for fuel v rw
proof unfold_locales
  fix pod x infos
  show "yields (\<lambda>r. \<forall>p s e. r = Some (p, s, e) \<longrightarrow> appKept pod p) (Mutate fuel v rw x pod infos)"
  proof (cases x)
    case FuseSidecar
    then show ?thesis
      unfolding Mutate_def Let_def handler.simps
      by (simp, intro yields_andThen [OF sidecarRounds_kept]) (auto simp: yields_def ret_def)
  next
    case (NodeAffinityWithCache t)
    then show ?thesis
      unfolding Mutate_def Let_def by (simp, intro yields_andThen [OF NodeAffinity_kept]) (auto simp: yields_def ret_def)
  next
    case FilePrefetcher
    then show ?thesis
      unfolding Mutate_def Let_def by (simp, intro yields_andThen [OF FilePrefetcher_kept]) (auto simp: yields_def ret_def)
  qed (simp_all add: Mutate_def yields_def ret_def scheduling_kept PreferNodesWithoutCache_Mutate_def MountPropagationInjector_Mutate_def
      RequireNodeWithFuse_Mutate_def DatasetUsageInjector_Mutate_def Let_def)
qed (auto intro: appKept_trans)

lemma MutatePod_kept:
  "yields (\<lambda>r. \<forall>p e. r = Some (p, e) \<longrightarrow> appKept pod p) (MutatePod fuel v hs pod useDirectReader)"
  unfolding MutatePod_def Let_def
  by (intro yields_rules webhook.run_kept) auto

text \<open>
  C13. The webhook adds to a pod and takes nothing away: in every pod that it answers with, after any faults, retries and a
  failed plugin too, the name and the namespace are those of the request, and the containers and init containers of the
  request are there in their order, with their images, commands, environments and privileges.
\<close>

theorem webhook_keeps_application:
  assumes "Handle fuel v hs reqNamespace (Inr pod) h = (Ret (Some (Patched pod')), h')"
  shows "appKept pod pod'"
proof -
  let ?pod = "if pdNamespace pod = '''' then pod\<lparr>pdNamespace := reqNamespace\<rparr> else pod"
  have patched: "p' = (if pdNamespace pod = '''' then p\<lparr>pdNamespace := ''''\<rparr> else p)"
    if "patchResponse v (pdNamespace pod = '''') p = Patched p'" for p p'
    using that by (auto simp: patchResponse_def Let_def split: option.splits if_splits)
  have undo: "appKept pod (if pdNamespace pod = '''' then p\<lparr>pdNamespace := ''''\<rparr> else p)" if "appKept ?pod p" for p
    using that by (auto simp: appKept_def split: if_splits)
  have retried: "yields (\<lambda>r. \<forall>p'. r = Some (Patched p') \<longrightarrow> appKept pod p') (retryWithReader fuel v hs (pdNamespace pod = '''') ?pod)"
    unfolding retryWithReader_def
    by (rule yields_andThen [OF MutatePod_kept], rule yields_ret) (auto dest!: patched intro!: undo split: option.splits)
  have "yields (\<lambda>r. \<forall>p'. r = Some (Patched p') \<longrightarrow> appKept pod p') (Handle fuel v hs reqNamespace (Inr pod))"
    unfolding Handle_def Let_def sum.case
    by (intro yields_if yields_ret; (simp; fail)?; rule yields_andThen [OF MutatePod_kept];
        intro yields_rules allI impI retried; (simp; fail)?) (auto dest!: patched intro!: undo)
  with assms show ?thesis unfolding yields_def by (metis fst_conv)
qed

section \<open>Rounds of injections end\<close>

lemma gives_collectInfos:
  "gives (\<lambda>r. fst ` set r \<subseteq> fst ` set infos \<union> set pvcNames) (collectInfos v w namespace skip pvcNames infos errPVCs)"
proof (induction pvcNames arbitrary: infos errPVCs)
  case Nil
  then show ?case by (auto intro!: gives_rules split: if_splits)
next
  case (Cons pvcName pvcNames)
  have upd: "fst ` set (AList.update pvcName info infos) = insert pvcName (fst ` set infos)" for info
    by (simp add: dom_update flip: dom_map_of_conv_image_fst)
       (simp add: update_conv' dom_map_of_conv_image_fst)
  have found: "gives (\<lambda>r. fst ` set r \<subseteq> fst ` set infos \<union> set (pvcName # pvcNames))
      (collectInfos v w namespace skip pvcNames (AList.update pvcName info infos) errPVCs)" for info errPVCs
    by (rule gives_mono [OF Cons.IH]) (auto simp: upd)
  have other: "gives (\<lambda>r. fst ` set r \<subseteq> fst ` set infos \<union> set (pvcName # pvcNames))
      (collectInfos v w namespace skip pvcNames infos errPVCs)" for errPVCs
    by (rule gives_mono [OF Cons.IH]) auto
  show ?case
    unfolding collectInfos.simps by (intro gives_rules found other) simp_all
qed

lemma CollectRuntimeInfos_keys:
  "gives (\<lambda>r. fst ` set r \<subseteq> set pvcNames) (CollectRuntimeInfosFromPVCs v w pvcNames namespace skip)"
  unfolding CollectRuntimeInfosFromPVCs_def by (rule gives_mono [OF gives_collectInfos]) simp

definition labelsKept :: "Pod \<Rightarrow> Pod \<Rightarrow> bool" where
  "labelsKept p q \<longleftrightarrow> (\<forall>k. map_of (pdLabels p) k \<noteq> None \<longrightarrow> map_of (pdLabels q) k \<noteq> None) \<and>
     (\<forall>k. \<not> HasPrefix k ''dataset-name'' \<longrightarrow> map_of (pdLabels q) k = map_of (pdLabels p) k)"

lemma labelsKept_dataset: "labelsKept pod (labelDataset info n pod)"
  by (auto simp: labelsKept_def labelDataset_def map_of_assignAll HasPrefix_def map_add_def)

interpretation labels: injection_relation labelsKept
proof unfold_locales
  fix pod info n c
  have same: "labelsKept pod q" if "labelsKept p q" "pdLabels p = pdLabels pod" for p q :: Pod
    using that by (simp add: labelsKept_def)
  show "labelsKept pod (labelDataset info n (pod\<lparr>pdContainers := c # pdContainers pod\<rparr>))"
    "labelsKept pod (labelDataset info n (pod\<lparr>pdInitContainers := c # pdInitContainers pod\<rparr>))"
    by (rule same [OF labelsKept_dataset], simp)+
qed (auto simp: labelsKept_def dest: subset_trans)

lemma shouldInject_kept: "labelsKept p q \<Longrightarrow> shouldInject v p \<Longrightarrow> shouldInject v q"
  by (auto simp: labelsKept_def shouldInject_def ServerlessEnabled_def enabled_def InjectSidecarDone_def
      serverlessPlatformMatched_def HasPrefix_def dom_def)

lemma sidecarRounds_end:
  assumes "fuseUnclaimed rw" and "fuseUnclaimed (ivWorld (hvInject v))" and "shouldInject (hvInject v) pod"
    and "fst ` set infos \<subseteq> set (pdClaims pod)" and "length (pdClaims pod) \<le> fuel"
  shows "yields (\<lambda>r. r \<noteq> None) (sidecarRounds fuel v rw pod infos)"
  using assms(1,3-5)
proof (induction fuel arbitrary: rw pod infos)
  case 0
  then have "infos = []" by auto
  then show ?case by (simp add: yields_def ret_def)
next
  case (Suc fuel)
  show ?case
  proof (cases infos)
    case Nil
    then show ?thesis by (simp add: yields_def ret_def)
  next
    case (Cons info rest)
    let ?ok = "\<lambda>out1. pdClaims out1 = filter (\<lambda>c. c \<notin> fst ` set infos) (pdClaims pod) \<and> shouldInject (hvInject v) out1"
    have inject: "gives ?ok (InjectPod (hvInject v) rw pod infos)"
      using InjectPod_claims [OF Suc.prems(1,2), of infos] labels.InjectPod_kept [of pod "hvInject v" rw infos]
        shouldInject_kept Suc.prems(2)
      unfolding gives_def yields_def by blast
    have next1: "yields (\<lambda>r. r \<noteq> None) (sidecarRounds fuel v (ivWorld (hvInject v)) out1 infos')"
      if "?ok out1" "fst ` set infos' \<subseteq> set (pdClaims out1)" for out1 infos'
    proof (rule Suc.IH [OF assms(2) _ that(2)])
      have "fst info \<in> set (pdClaims pod)" "fst info \<in> fst ` set infos" using Suc.prems(3) Cons by auto
      then have "length (filter (\<lambda>c. c \<notin> fst ` set infos) (pdClaims pod)) < length (pdClaims pod)"
        by (intro length_filter_less) auto
      then show "length (pdClaims out1) \<le> fuel" using that(1) Suc.prems(4) by simp
    qed (use that(1) in simp)
    show ?thesis
      unfolding Cons sidecarRounds.simps
      by (rule yields_andThen [OF inject [unfolded gives_def Cons]])
        (intro yields_rules yields_andThen [OF CollectRuntimeInfos_keys [unfolded gives_def]] next1; simp add: Cons)
  qed
qed

lemma claims_statusVolume: "pdClaims (pod\<lparr>pdVolumes := pdVolumes pod @ [statusFileVolume]\<rparr>) = pdClaims pod"
  by (simp add: pdClaims_def map_filter_append List.map_filter_simps statusFileVolume_def claimOf_def)

definition claimsKept :: "Pod \<Rightarrow> Pod \<Rightarrow> bool" where
  "claimsKept p q \<longleftrightarrow> pdClaims q = pdClaims p \<and> pdLabels q = pdLabels p"

lemma claimsKept_simps [simp]:
  "claimsKept pod pod" "claimsKept pod (pod\<lparr>pdAffinity := a\<rparr>)" "claimsKept pod (pod\<lparr>pdAnnotations := as\<rparr>)"
  "claimsKept pod (pod\<lparr>pdContainers := cs\<rparr>)"
  "claimsKept pod (pod\<lparr>pdContainers := cs, pdVolumes := pdVolumes pod @ [statusFileVolume], pdAnnotations := as\<rparr>)"
  by (simp_all add: claimsKept_def pdClaims_def map_filter_append List.map_filter_simps statusFileVolume_def claimOf_def)

lemma scheduling_claims [simp]:
  "claimsKept pod (InjectNodeSelectorTerms terms pod)" "claimsKept pod (InjectPreferredSchedulingTerms terms' pod)"
  "claimsKept pod (InjectPreferredSchedulingTerms terms' (InjectNodeSelectorTerms terms pod))"
  "claimsKept pod (InjectMountPropagation names pod)"
  by (simp_all add: InjectNodeSelectorTerms_def InjectPreferredSchedulingTerms_def InjectMountPropagation_def Let_def)

lemma other_plugins_end:
  assumes "x \<noteq> FuseSidecar"
  shows "yields (\<lambda>r. \<exists>p s e. r = Some (p, s, e) \<and> claimsKept pod p) (Mutate fuel v rw x pod infos)"
proof -
  have ended: "yields (\<lambda>r. \<exists>p s e. r = Some (p, s, e) \<and> claimsKept pod p) (andThen m (\<lambda>r. ret (Some r)))"
    if "yields (\<lambda>(p, s, e). claimsKept pod p) m" for m :: "(Pod \<times> bool \<times> hookErr option) kgo"
    by (rule yields_andThen [OF that]) (auto simp: yields_def ret_def)
  have nodes: "yields (\<lambda>(p, s, e). claimsKept pod p) (NodeAffinityWithCache_Mutate w order t pod infos)" for w order t
    unfolding NodeAffinityWithCache_Mutate_def Let_def by (intro yields_rules) auto
  have files: "yields (\<lambda>(p, s, e). claimsKept pod p) (FilePrefetcher_Mutate img command order pod infos)" for img command order
    unfolding FilePrefetcher_Mutate_def Let_def by (intro yields_rules; simp only: prod.case claimsKept_simps)
  have avoid: "yields (\<lambda>(p, s, e). claimsKept pod p) (PreferNodesWithoutCache_Mutate pod infos)"
    by (auto simp: PreferNodesWithoutCache_Mutate_def Let_def intro!: yields_ret)
  have mounts: "yields (\<lambda>(p, s, e). claimsKept pod p) (MountPropagationInjector_Mutate order pod infos)" for order
    by (auto simp: MountPropagationInjector_Mutate_def Let_def intro!: yields_ret)
  have require: "yields (\<lambda>(p, s, e). claimsKept pod p) (RequireNodeWithFuse_Mutate order pod infos)" for order
    by (auto simp: RequireNodeWithFuse_Mutate_def Let_def intro!: yields_ret)
  have usage: "yields (\<lambda>(p, s, e). claimsKept pod p) (DatasetUsageInjector_Mutate order pod infos)" for order
    by (auto simp: DatasetUsageInjector_Mutate_def Let_def intro!: yields_ret)
  show ?thesis
    using assms unfolding Mutate_def Let_def
    by (cases x) (simp_all only: handler.simps refl not_True_eq_False False_implies_equals True_implies_equals,
        (rule ended [OF avoid] ended [OF mounts] ended [OF require] ended [OF nodes] ended [OF usage] ended [OF files])+)
qed

lemma plugins_end_without_sidecar:
  "FuseSidecar \<notin> set plugins \<Longrightarrow> yields (\<lambda>r. r \<noteq> None) (runPlugins (Mutate fuel v rw) plugins pod infos)"
proof (induction plugins arbitrary: pod)
  case (Cons x plugins)
  then have x: "x \<noteq> FuseSidecar" by auto
  from Cons show ?case
    unfolding runPlugins.simps
    by (intro yields_andThen [OF other_plugins_end [OF x, of pod]]) (auto simp del: not_None_eq intro!: yields_rules)
qed (simp add: yields_def ret_def)

lemma plugins_end:
  assumes "fuseUnclaimed rw" and "fuseUnclaimed (ivWorld (hvInject v))"
    and "fst ` set infos \<subseteq> set (pdClaims pod)" and "length (pdClaims pod) \<le> fuel"
    and "FuseSidecar \<in> set plugins \<longrightarrow> shouldInject (hvInject v) pod" and "length (filter (\<lambda>x. x = FuseSidecar) plugins) \<le> 1"
  shows "yields (\<lambda>r. r \<noteq> None) (runPlugins (Mutate fuel v rw) plugins pod infos)"
  using assms(3-6)
proof (induction plugins arbitrary: pod)
  case (Cons x plugins)
  show ?case
  proof (cases "x = FuseSidecar")
    case True
    with Cons.prems have "FuseSidecar \<notin> set plugins" by (auto simp: filter_empty_conv)
    note rest = plugins_end_without_sidecar [OF this, of fuel v rw _ infos]
    have "yields (\<lambda>r. r \<noteq> None) (Mutate fuel v rw x pod infos)"
      unfolding True Mutate_def Let_def handler.simps
      by (rule yields_andThen [OF sidecarRounds_end [OF assms(1,2)]]) (use Cons.prems True in \<open>auto simp: yields_def ret_def\<close>)
    then show ?thesis
      unfolding runPlugins.simps by (rule yields_andThen) (auto simp del: not_None_eq intro!: yields_rules rest)
  next
    case False
    have rest: "yields (\<lambda>r. r \<noteq> None) (runPlugins (Mutate fuel v rw) plugins p infos)" if "claimsKept pod p" for p
      by (rule Cons.IH) (use that Cons.prems False in \<open>auto simp: claimsKept_def shouldInject_def\<close>)
    show ?thesis
      unfolding runPlugins.simps
      by (rule yields_andThen [OF other_plugins_end [OF False, of pod]]) (auto simp del: not_None_eq intro!: yields_rules rest)
  qed
qed (simp add: yields_def ret_def)

definition profileSound :: "Handlers \<Rightarrow> bool" where
  "profileSound hs \<longleftrightarrow> FuseSidecar \<notin> set (podWithDatasetHandler hs) \<and>
     length (filter (\<lambda>x. x = FuseSidecar) (serverlessPodWithDatasetHandler hs)) \<le> 1"

lemma Mutate_ends_without_dataset: "yields (\<lambda>r. r \<noteq> None) (Mutate fuel v rw x pod [])"
proof (cases "x = FuseSidecar")
  case True
  then show ?thesis by (simp add: Mutate_def yields_def ret_def andThen_def Let_def del: not_None_eq)
next
  case False
  then show ?thesis using other_plugins_end [OF False, of pod fuel v rw "[]"] unfolding yields_def by blast
qed

lemma plugins_end_without_dataset: "yields (\<lambda>r. r \<noteq> None) (runPlugins (Mutate fuel v rw) plugins pod [])"
proof (induction plugins arbitrary: pod)
  case (Cons x plugins)
  then show ?case
    unfolding runPlugins.simps
    by (intro yields_andThen [OF Mutate_ends_without_dataset]) (auto simp del: not_None_eq intro!: yields_rules)
qed (simp add: yields_def ret_def)

lemma MutatePod_ends:
  assumes "profileSound hs" and "fuseUnclaimed (hvReader v)" and "fuseUnclaimed (ivWorld (hvInject v))"
    and "\<not> InjectSidecarDone (pdLabels pod)" and "length (pdClaims pod) \<le> fuel"
  shows "yields (\<lambda>r. r \<noteq> None) (MutatePod fuel v hs pod useDirectReader)"
proof -
  let ?w = "if useDirectReader then hvReader v else ivWorld (hvInject v)"
  have w: "fuseUnclaimed ?w" using assms(2,3) by simp
  have "yields (\<lambda>r. r \<noteq> None) (runPlugins (Mutate fuel v ?w) (pluginsFor v hs pod infos) pod infos)"
    if "fst ` set infos \<subseteq> set (pdClaims pod)" for infos
  proof (cases "infos = []")
    case True
    then show ?thesis by (simp only: plugins_end_without_dataset)
  next
    case False
    have none: "FuseSidecar \<notin> set xs \<Longrightarrow> filter (\<lambda>x. x = FuseSidecar) xs = []" for xs by (auto simp: filter_empty_conv)
    show ?thesis
      by (rule plugins_end [OF w assms(3) that assms(5)])
        (use assms(1,4) False in \<open>auto simp: pluginsFor_def profileSound_def shouldInject_def none\<close>)
  qed
  then show ?thesis
    unfolding MutatePod_def Let_def
    by (intro yields_andThen [OF CollectRuntimeInfos_keys [unfolded gives_def]])
      (auto simp del: not_None_eq intro!: yields_rules)
qed

text \<open>
  C26. The webhook answers: if no FUSE daemon set mounts a claim and the plugins list the injector of sidecars at most once, and for
  serverless pods only, every request ends, for any faults of the cluster, with at most as many rounds of injections as the
  pod has claims.
\<close>

theorem webhook_answers:
  assumes "profileSound hs" and "fuseUnclaimed (hvReader v)" and "fuseUnclaimed (ivWorld (hvInject v))"
    and "length (pdClaims pod) \<le> fuel"
  shows "fst (Handle fuel v hs reqNamespace (Inr pod) h) \<noteq> Ret None"
proof -
  let ?pod = "if pdNamespace pod = '''' then pod\<lparr>pdNamespace := reqNamespace\<rparr> else pod"
  have same: "pdLabels ?pod = pdLabels pod" "pdClaims ?pod = pdClaims pod" by (simp_all add: pdClaims_def)
  have mutated: "yields (\<lambda>r. r \<noteq> None) (MutatePod fuel v hs ?pod direct)"
    if "\<not> CheckExpectValue (pdLabels ?pod) ''done.sidecar.fluid.io/inject'' ''true''" for direct
    by (rule MutatePod_ends [OF assms(1-3)]) (use that assms(4) in \<open>auto simp: same InjectSidecarDone_def enabled_def CheckExpectValue_def\<close>)
  have retried: "yields (\<lambda>r. r \<noteq> None) (retryWithReader fuel v hs undo ?pod)"
    if "\<not> CheckExpectValue (pdLabels ?pod) ''done.sidecar.fluid.io/inject'' ''true''" for undo
    unfolding retryWithReader_def
    by (rule yields_andThen [OF mutated [OF that]], rule yields_ret) (auto split: option.splits)
  have "yields (\<lambda>r. r \<noteq> None) (Handle fuel v hs reqNamespace (Inr pod))"
    unfolding Handle_def Let_def sum.case
    by (intro yields_if yields_ret; (simp; fail)?; rule yields_andThen [OF mutated], assumption,
        intro yields_rules impI retried; (simp; fail)?)
  then show ?thesis unfolding yields_def by auto
qed

section \<open>A pod is injected once\<close>

text \<open>The profile of \<open>charts/fluid/fluid/values.yaml\<close>.\<close>

definition chartProfile :: PluginsProfile where
  "chartProfile =
     \<lparr>ppServerfulWithDataset = [''FilePrefetcher'', ''RequireNodeWithFuse'', ''NodeAffinityWithCache'', ''MountPropagationInjector'', ''DatasetUsageInjector''],
      ppServerfulWithoutDataset = [''PreferNodesWithoutCache''],
      ppServerlessWithDataset = [''FilePrefetcher'', ''FuseSidecar'', ''DatasetUsageInjector''],
      ppServerlessWithoutDataset = [],
      ppPluginConfig = [(''NodeAffinityWithCache'', '''')]\<rparr>"

lemma chartProfile_handlers:
  assumes "newHandler v chartProfile = Inr hs"
  shows "serverlessPodWithDatasetHandler hs = [FilePrefetcher, FuseSidecar, DatasetUsageInjector]"
    "serverlessPodWithoutDatasetHandler hs = []" "profileSound hs"
  using assms
  by (auto simp: newHandler_def chartProfile_def newPlugin_def profileSound_def Let_def split: sum.splits)

lemma labelInjectionDone_done: "CheckExpectValue (pdLabels (labelInjectionDone pod)) ''done.sidecar.fluid.io/inject'' ''true''"
  by (simp add: labelInjectionDone_def CheckExpectValue_def map_of_assignAll)

definition injectedOnce :: "Pod \<Rightarrow> bool" where
  "injectedOnce pod \<longleftrightarrow> CheckExpectValue (pdLabels pod) ''done.sidecar.fluid.io/inject'' ''true''"

lemma sidecarRounds_done: "yields (\<lambda>r. \<forall>p. r = Some (p, None) \<longrightarrow> injectedOnce p) (sidecarRounds fuel v rw pod infos)"
proof (induction fuel v rw pod infos rule: sidecarRounds.induct)
  case (1 fuel v rw pod)
  then show ?case by (simp add: yields_def ret_def injectedOnce_def labelInjectionDone_done)
next
  case (2 v rw pod info infos)
  then show ?case by (simp add: yields_def ret_def)
next
  case (3 fuel v rw pod info infos)
  then show ?case unfolding sidecarRounds.simps by (intro yields_rules) auto
qed

lemma skipped_afterwards:
  assumes "injectedOnce pod" and "pdNamespace pod \<noteq> ''''"
  shows "\<exists>msg. Handle fuel v hs (pdNamespace pod) (Inr pod) h = (Ret (Some (Allowed msg)), h)"
  using assms by (auto simp: Handle_def ret_def injectedOnce_def Let_def)

lemma yields_runPlugins:
  assumes "yields (\<lambda>r. \<forall>p s e. r = Some (p, s, e) \<longrightarrow> Q p s e) (mutate x pod infos)"
    and "\<And>p s e. Q p s e \<Longrightarrow> e \<noteq> None \<or> s \<Longrightarrow> R (Some (p, e))" and "R None"
    and "\<And>p. Q p False None \<Longrightarrow> yields R (runPlugins mutate plugins p infos)"
  shows "yields R (runPlugins mutate (x # plugins) pod infos)"
  unfolding runPlugins.simps by (rule yields_andThen [OF assms(1)]) (auto intro!: yields_rules assms(2-4))

lemma plugins_done:
  "yields (\<lambda>r. \<forall>p. r = Some (p, None) \<longrightarrow> injectedOnce p)
     (runPlugins (Mutate fuel v rw) [FilePrefetcher, FuseSidecar, DatasetUsageInjector] pod infos)"
proof -
  have prefetch: "yields (\<lambda>r. \<forall>p s e. r = Some (p, s, e) \<longrightarrow> s \<longrightarrow> e \<noteq> None) (Mutate fuel v rw FilePrefetcher pod infos)"
    unfolding Mutate_def Let_def handler.simps FilePrefetcher_Mutate_def by (auto simp: yields_def ret_def andThen_def split: out.splits sum.splits)
  have sidecar: "yields (\<lambda>r. \<forall>p s e. r = Some (p, s, e) \<longrightarrow> \<not> s \<and> (e = None \<longrightarrow> injectedOnce p)) (Mutate fuel v rw FuseSidecar p infos)" for p
    unfolding Mutate_def Let_def handler.simps by (rule yields_andThen [OF sidecarRounds_done]) (auto simp: yields_def ret_def)
  have usage: "yields (\<lambda>r. \<forall>q s e. r = Some (q, s, e) \<longrightarrow> injectedOnce q) (Mutate fuel v rw DatasetUsageInjector p infos)"
    if "injectedOnce p" for p
    using that by (auto simp: Mutate_def DatasetUsageInjector_Mutate_def yields_def ret_def andThen_def Let_def injectedOnce_def)
  show ?thesis
    by (rule yields_runPlugins, rule prefetch, (auto)[2], rule yields_runPlugins, rule sidecar, (auto)[2],
        rule yields_runPlugins, rule usage) (auto simp: yields_def ret_def)
qed

text \<open>
  C27. A serverless pod is injected once: with the profile of the chart, a pod that has been mutated without an error, and was changed,
  is admitted as it is when the webhook sees it again, with no call to the cluster, under any configuration.
\<close>

theorem injected_once:
  assumes "newHandler v chartProfile = Inr hs" and "ServerlessEnabled (ivDeprecatedKey (hvInject v)) (pdLabels pod)"
    and "MutatePod fuel v hs pod useDirectReader h = (Ret (Some (pod', None)), h')" and "pdNamespace pod \<noteq> ''''"
  shows "pod' = pod \<or> (\<exists>msg. Handle fuel' v' hs' (pdNamespace pod') (Inr pod') h1 = (Ret (Some (Allowed msg)), h1))"
proof -
  note plugins = chartProfile_handlers [OF assms(1)]
  have "yields (\<lambda>r. \<forall>p. r = Some (p, None) \<longrightarrow> p = pod \<or> injectedOnce p) (MutatePod fuel v hs pod useDirectReader)"
    unfolding MutatePod_def Let_def pluginsFor_def
    by (intro yields_rules) (use assms(2) plugins_done plugins in \<open>auto simp: yields_def ret_def\<close>)
  then have "pod' = pod \<or> injectedOnce pod'" using assms(3) unfolding yields_def by (metis fst_conv)
  moreover have "pdNamespace pod' = pdNamespace pod"
    using MutatePod_kept [of pod fuel v hs useDirectReader] assms(3) unfolding yields_def appKept_def by (metis fst_conv)
  ultimately show ?thesis using skipped_afterwards assms(4) by metis
qed

text \<open>
  An error that does not ask for a retry is logged, and the pod is admitted as far as it has been mutated.
\<close>

lemma failed_mutation_admitted:
  assumes "\<not> hvDisabled v" and "pdNamespace pod = reqNamespace" and "reqNamespace \<noteq> ''''" and "\<not> injectedOnce pod"
    and "\<not> CheckExpectValue (pdLabels pod) ''fluid.io/enable-injection'' ''false''"
    and "MutatePod fuel v hs pod False h = (Ret (Some (mutated, Some (HookErr err))), h')" and "hvMarshal v mutated = None"
  shows "Handle fuel v hs reqNamespace (Inr pod) h = (Ret (Some (Patched mutated)), h')"
  using assms by (auto simp: Handle_def andThen_def ret_def injectedOnce_def patchResponse_def Let_def)

section \<open>An example\<close>

definition exampleHook :: hookEnv where
  "exampleHook =
     \<lparr>hvInject = exampleEnv, hvReader = injectWorld, hvCacheOn = True,
      hvCached = \<lambda>_ _ _. Some (Some (selectedInfo ''imagenet'' ''ssd'')), hvDisabled = False, hvMarshal = \<lambda>_. None,
      hvImage = ''prefetcher:1'', hvWaitCommand = [''wait''], hvParseLocality = \<lambda>_. Inr \<lparr>tlPreferred = [], tlRequired = []\<rparr>\<rparr>"

definition chartHandlers :: Handlers where
  "chartHandlers =
     \<lparr>podWithDatasetHandler =
        [FilePrefetcher, RequireNodeWithFuse, NodeAffinityWithCache \<lparr>tlPreferred = [], tlRequired = []\<rparr>, MountPropagationInjector,
         DatasetUsageInjector],
      podWithoutDatasetHandler = [PreferNodesWithoutCache],
      serverlessPodWithDatasetHandler = [FilePrefetcher, FuseSidecar, DatasetUsageInjector],
      serverlessPodWithoutDatasetHandler = []\<rparr>"

lemma chartHandlers_new: "newHandler exampleHook chartProfile = Inr chartHandlers"
  by (simp add: newHandler_def chartProfile_def newPlugin_def exampleHook_def chartHandlers_def Let_def)

lemma injectWorld_unclaimed: "fuseUnclaimed injectWorld"
  by (simp add: fuseUnclaimed_def injectWorld_def exampleFuse_def unclaimed_def claimOf_def)

lemma servedPod_labels:
  "pdClaims servedPod = [''imagenet'']" "pdNamespace servedPod = ''default''"
  "ServerlessEnabled (ivDeprecatedKey (hvInject exampleHook)) (pdLabels servedPod)" "shouldInject exampleEnv servedPod"
  "pdAnnotations servedPod = []" "\<not> injectedOnce servedPod" 
  "\<not> CheckExpectValue (pdLabels servedPod) ''fluid.io/enable-injection'' ''false''"
  by (simp_all add: servedPod_def examplePod_def pdClaims_def List.map_filter_simps claimOf_def ServerlessEnabled_def enabled_def
      shouldInject_def InjectSidecarDone_def exampleHook_def exampleEnv_def injectedOnce_def CheckExpectValue_def)

lemma mutated_run:
  obtains p h where "MutatePod 1 exampleHook chartHandlers servedPod False [] = (Ret (Some (p, None)), h)"
    and "map volName (pdVolumes p) = [''data'', ''check-fluid-mount-ready'', ''data-0'', ''default-check-mount-0'']"
proof -
  let ?infos = "[(''imagenet'', selectedInfo ''imagenet'' ''ssd'')]"
  obtain p h where p: "injectedPod = Some p" "InjectPod exampleEnv injectWorld servedPod ?infos [] = (Ret (Inr p), h)"
    by (rule injectedPod_run)
  have claims: "pdClaims p = []"
    using gives_run [OF InjectPod_claims [OF injectWorld_unclaimed servedPod_labels(4)] p(2)] by (simp add: servedPod_labels)
  have infos: "CollectRuntimeInfosFromPVCs exampleHook w (pdClaims servedPod) n b = ret (Inr ?infos)" for w n b
    by (simp add: servedPod_labels CollectRuntimeInfosFromPVCs_def GetRuntimeInfoByKey_def exampleHook_def andThen_def ret_def fun_eq_iff)
  have none: "CollectRuntimeInfosFromPVCs exampleHook w (pdClaims p) n b = ret (Inr [])" for w n b
    by (simp add: claims CollectRuntimeInfosFromPVCs_def)
  have world: "ivWorld exampleEnv = injectWorld" "hvInject exampleHook = exampleEnv"
    by (simp_all add: exampleHook_def exampleEnv_def)
  have plugins: "pluginsFor exampleHook chartHandlers servedPod ?infos = [FilePrefetcher, FuseSidecar, DatasetUsageInjector]"
    by (simp add: pluginsFor_def servedPod_labels chartHandlers_def)
  have prefetch: "Mutate n v w FilePrefetcher servedPod ?infos = ret (Some (servedPod, False, None))" for n v w
    by (simp add: Mutate_def FilePrefetcher_Mutate_def servedPod_labels CheckExpectValue_def andThen_def ret_def Let_def fun_eq_iff)
  have rounds: "sidecarRounds 1 exampleHook injectWorld servedPod ?infos [] = (Ret (Some (labelInjectionDone p, None)), h)"
    by (simp add: world andThen_def p(2) none ret_def)
  have usage: "\<exists>q. Mutate n v w DatasetUsageInjector p' ?infos = ret (Some (q, False, None)) \<and> pdVolumes q = pdVolumes p'" for n v w p'
    by (simp add: Mutate_def DatasetUsageInjector_Mutate_def andThen_def ret_def Let_def fun_eq_iff)
  obtain q where q: "Mutate 1 exampleHook injectWorld DatasetUsageInjector (labelInjectionDone p) ?infos = ret (Some (q, False, None))"
    "pdVolumes q = pdVolumes p"
    using usage [of 1 exampleHook injectWorld "labelInjectionDone p"] by (auto simp: labelInjectionDone_def)
  have sidecar: "Mutate 1 exampleHook injectWorld FuseSidecar servedPod ?infos [] = (Ret (Some (labelInjectionDone p, False, None)), h)"
    using rounds by (simp add: Mutate_def Let_def andThen_def ret_def)
  have "MutatePod 1 exampleHook chartHandlers servedPod False [] = (Ret (Some (q, None)), h)"
    by (simp add: MutatePod_def infos plugins prefetch world andThen_def ret_def sidecar q(1) Let_def del: One_nat_def)
  moreover have "map volName (pdVolumes q) = [''data'', ''check-fluid-mount-ready'', ''data-0'', ''default-check-mount-0'']"
    using injectedPod_volumes by (simp add: p(1) q(2))
  ultimately show ?thesis by (rule that)
qed

lemma handled_run:
  obtains p h where "Handle 1 exampleHook chartHandlers ''default'' (Inr servedPod) [] = (Ret (Some (Patched p)), h)"
proof -
  obtain p h where "MutatePod 1 exampleHook chartHandlers servedPod False [] = (Ret (Some (p, None)), h)" by (rule mutated_run)
  then have "Handle 1 exampleHook chartHandlers ''default'' (Inr servedPod) [] = (Ret (Some (Patched p)), h)"
    using servedPod_labels by (simp add: Handle_def andThen_def ret_def injectedOnce_def patchResponse_def exampleHook_def Let_def)
  then show ?thesis by (rule that)
qed

theorem webhook_keeps_application_witness:
  "\<exists>p h. Handle 1 exampleHook chartHandlers ''default'' (Inr servedPod) [] = (Ret (Some (Patched p)), h) \<and> appKept servedPod p"
proof -
  obtain p h where p: "Handle 1 exampleHook chartHandlers ''default'' (Inr servedPod) [] = (Ret (Some (Patched p)), h)" by (rule handled_run)
  from webhook_keeps_application [OF p] p show ?thesis by blast
qed

theorem webhook_answers_witness: "fst (Handle 1 exampleHook chartHandlers ''default'' (Inr servedPod) []) \<noteq> Ret None"
  by (rule webhook_answers) (use injectWorld_unclaimed chartProfile_handlers(3) [OF chartHandlers_new]
      in \<open>simp_all add: servedPod_labels, simp_all add: exampleHook_def exampleEnv_def\<close>)

theorem injected_once_witness:
  "\<exists>p msg. Handle 0 exampleHook chartHandlers (pdNamespace p) (Inr p) [] = (Ret (Some (Allowed msg)), []) \<and> pdVolumes p \<noteq> pdVolumes servedPod"
proof -
  obtain p h where p: "MutatePod 1 exampleHook chartHandlers servedPod False [] = (Ret (Some (p, None)), h)"
    "map volName (pdVolumes p) = [''data'', ''check-fluid-mount-ready'', ''data-0'', ''default-check-mount-0'']" by (rule mutated_run)
  have "map volName (pdVolumes servedPod) = [''data'']" by (simp add: servedPod_def examplePod_def)
  then have "p \<noteq> servedPod" "pdVolumes p \<noteq> pdVolumes servedPod" using p(2) by auto
  then show ?thesis
    using injected_once [OF chartHandlers_new servedPod_labels(3) p(1), of 0 exampleHook chartHandlers "[]"]
    by (auto simp: servedPod_labels)
qed

end
