(* ===== verification/App_Controller.thy ===== *)
theory App_Controller
  imports Webhook Dataflow_Affinity Cmd_Guard
begin

text \<open>
  The application controller (\<open>pkg/controllers/v1alpha1/fluidapp\<close>), which unmounts the FUSE sidecars of a pod whose application has
  ended, the controller that exposes where a data operation ran (\<open>dataflowaffinity\<close>), and the predicates that decide which events
  reach a controller (\<open>pkg/ctrl/watch\<close>). The API server and the containers are the environment \<open>appEnv\<close>.
\<close>

section \<open>State and environment\<close>

text \<open>
  A pod with what the controller reads of its status: for each container whether it has terminated and whether it runs.
  A job has its labels, and the pods that its selector finds.
\<close>

record ContainerStatus =
  csName :: string
  csTerminated :: bool
  csRunning :: bool

record AppPod =
  apPod :: Pod
  apRestartPolicy :: string
  apPhase :: string
  apStatuses :: "ContainerStatus list"

record OpJob =
  ojJob :: Job
  ojLabels :: "(string \<times> string) list"

record JobPod =
  jpPhase :: string
  jpNodeName :: string
  jpAnnotations :: "(string \<times> string) list"

datatype aevent =
    ReadAppPod string string "goerr + AppPod"
  | ExecInContainer string string string "string list" string "goerr option"
  | ReadOpJob string string "goerr + OpJob"
  | WroteOpJob OpJob "goerr option"
  | ListedJobPods OpJob "goerr + JobPod list"
  | ReadNodeOf string "goerr + Node"

type_synonym 'a ago = "(aevent, 'a) go"

text \<open>\<open>aeExec\<close> answers with what the command wrote to its standard error, and the error.\<close>

record appEnv =
  aeDeprecatedKey :: string
  aeDisableKey :: string
  aeLookPath :: "string \<Rightarrow> string option"
  aeGetPod :: "aevent list \<Rightarrow> string \<Rightarrow> string \<Rightarrow> goerr + AppPod"
  aeExec :: "aevent list \<Rightarrow> string \<Rightarrow> string \<Rightarrow> string \<Rightarrow> string list \<Rightarrow> string \<times> goerr option"
  aeGetJob :: "aevent list \<Rightarrow> string \<Rightarrow> string \<Rightarrow> goerr + OpJob"
  aeUpdateJob :: "aevent list \<Rightarrow> OpJob \<Rightarrow> goerr option"
  aeListPods :: "aevent list \<Rightarrow> OpJob \<Rightarrow> goerr + JobPod list"
  aeGetNode :: "aevent list \<Rightarrow> string \<Rightarrow> goerr + Node"

section \<open>Predicates on events\<close>

definition isFuseName :: "string \<Rightarrow> bool" where
  "isFuseName name = Contains name ''fluid-fuse''"

definition ShouldInQueue :: "appEnv \<Rightarrow> AppPod \<Rightarrow> bool" where
  "ShouldInQueue v p =
     (let pod = apPod p; labels = pdLabels pod in
      FuseSidecarPrivileged (aeDeprecatedKey v) labels (pdAnnotations pod) \<and> InjectSidecarDone labels \<and>
      \<not> AppControllerDisabled (aeDisableKey v) labels \<and> apRestartPolicy p \<noteq> ''Always'' \<and>
      list_ex (\<lambda>c. isFuseName (ctName c)) (pdContainers pod) \<and>
      apPhase p = ''Running'' \<and> \<not> length (apStatuses p) < 2 \<and>
      list_all (\<lambda>s. if isFuseName (csName s) then csRunning s else csTerminated s) (apStatuses p))"

definition JobShouldInQueue :: "OpJob \<Rightarrow> bool" where
  "JobShouldInQueue job =
     (if map_of (ojLabels job) ''cronjob'' \<noteq> None then False
      else case map_of (ojLabels job) ''parallelism'' of
             None \<Rightarrow> True
           | Some val \<Rightarrow> (case Atoi val of None \<Rightarrow> False | Some parallelism \<Rightarrow> \<not> parallelism > 1))"

text \<open>
  An object as a predicate sees it: what it is, its name, its version, whether it is being deleted, and the API version and
  kind of its controller.
\<close>

datatype object =
    PodObject AppPod
  | JobObject OpJob
  | DatasetObject Dataset
  | RuntimeObject1
  | StatefulSetObject
  | DaemonSetObject
  | WebhookConfiguration
  | OtherObject

record watched =
  wObject :: object
  wName :: string
  wVersion :: string
  wDeleting :: bool
  wController :: "(string \<times> string) option"

definition isOwnerMatched :: "string \<times> string \<Rightarrow> string \<times> string \<Rightarrow> bool" where
  "isOwnerMatched controllerRef managed \<longleftrightarrow> snd managed = snd controllerRef \<and> fst managed = fst controllerRef"

definition isObjectInManaged :: "watched \<Rightarrow> string \<times> string \<Rightarrow> bool" where
  "isObjectInManaged obj managed = (case wController obj of None \<Rightarrow> False | Some ref \<Rightarrow> isOwnerMatched ref managed)"

definition podOnCreate :: "appEnv \<Rightarrow> watched \<Rightarrow> bool" where
  "podOnCreate v obj = (case wObject obj of PodObject p \<Rightarrow> ShouldInQueue v p | _ \<Rightarrow> False)"

definition podOnUpdate :: "appEnv \<Rightarrow> watched \<Rightarrow> watched \<Rightarrow> bool" where
  "podOnUpdate v old new =
     (case (wObject new, wObject old) of
        (PodObject p, PodObject _) \<Rightarrow> if wVersion new = wVersion old then False else ShouldInQueue v p
      | _ \<Rightarrow> False)"

definition jobOnCreate :: "watched \<Rightarrow> bool" where
  "jobOnCreate obj = (case wObject obj of JobObject j \<Rightarrow> JobShouldInQueue j | _ \<Rightarrow> False)"

definition jobOnUpdate :: "watched \<Rightarrow> watched \<Rightarrow> bool" where
  "jobOnUpdate old new =
     (case (wObject new, wObject old) of
        (JobObject j, JobObject _) \<Rightarrow> if wVersion new = wVersion old then False else JobShouldInQueue j
      | _ \<Rightarrow> False)"

definition datasetOnUpdate :: "string \<Rightarrow> watched \<Rightarrow> watched \<Rightarrow> bool" where
  "datasetOnUpdate runtimeType old new =
     (case wObject new of
        DatasetObject d \<Rightarrow>
          (if (case dstRuntimes (dStatus d) of [] \<Rightarrow> False | rt # _ \<Rightarrow> rtType rt \<noteq> runtimeType) then False
           else case wObject old of DatasetObject _ \<Rightarrow> wVersion new \<noteq> wVersion old | _ \<Rightarrow> False)
      | _ \<Rightarrow> False)"

definition runtimeOnCreate :: "watched \<Rightarrow> bool" where
  "runtimeOnCreate obj \<longleftrightarrow> wObject obj = RuntimeObject1"

definition runtimeOnUpdate :: "watched \<Rightarrow> watched \<Rightarrow> bool" where
  "runtimeOnUpdate old new \<longleftrightarrow> wObject new = RuntimeObject1 \<and> wObject old = RuntimeObject1 \<and> wVersion new \<noteq> wVersion old"

definition runtimeOnDelete :: "watched \<Rightarrow> bool" where
  "runtimeOnDelete obj \<longleftrightarrow> wObject obj = RuntimeObject1"

definition statefulsetOnCreate :: "string \<times> string \<Rightarrow> watched \<Rightarrow> bool" where
  "statefulsetOnCreate managed obj \<longleftrightarrow> wObject obj = StatefulSetObject \<and> \<not> wDeleting obj \<and> isObjectInManaged obj managed"

definition statefulsetOnUpdate :: "string \<times> string \<Rightarrow> watched \<Rightarrow> watched \<Rightarrow> bool" where
  "statefulsetOnUpdate managed old new \<longleftrightarrow>
     wObject new = StatefulSetObject \<and> isObjectInManaged new managed \<and> wObject old = StatefulSetObject \<and> wVersion new \<noteq> wVersion old"

definition statefulsetOnDelete :: "string \<times> string \<Rightarrow> watched \<Rightarrow> bool" where
  "statefulsetOnDelete managed obj \<longleftrightarrow> wObject obj = StatefulSetObject \<and> isObjectInManaged obj managed"

definition daemonsetOnCreate :: "string \<times> string \<Rightarrow> watched \<Rightarrow> bool" where
  "daemonsetOnCreate managed obj \<longleftrightarrow> wObject obj = DaemonSetObject \<and> isObjectInManaged obj managed"

definition daemonsetOnUpdate :: "string \<times> string \<Rightarrow> watched \<Rightarrow> watched \<Rightarrow> bool" where
  "daemonsetOnUpdate managed old new \<longleftrightarrow>
     wObject new = DaemonSetObject \<and> isObjectInManaged new managed \<and> wObject old = DaemonSetObject \<and> wVersion new \<noteq> wVersion old"

definition daemonsetOnDelete :: "string \<times> string \<Rightarrow> watched \<Rightarrow> bool" where
  "daemonsetOnDelete managed obj \<longleftrightarrow> wObject obj = DaemonSetObject \<and> isObjectInManaged obj managed"

definition webhookOnCreate :: "string \<Rightarrow> watched \<Rightarrow> bool" where
  "webhookOnCreate webhookName obj \<longleftrightarrow> wObject obj = WebhookConfiguration \<and> wName obj = webhookName"

definition webhookOnUpdate :: "string \<Rightarrow> watched \<Rightarrow> watched \<Rightarrow> bool" where
  "webhookOnUpdate webhookName old new \<longleftrightarrow>
     wObject new = WebhookConfiguration \<and> wObject old = WebhookConfiguration \<and> wName old = webhookName \<and> wName new = webhookName"

section \<open>Unmounting sidecars\<close>

definition mountPathSuffixes :: "(string \<times> string) list" where
  "mountPathSuffixes =
     [(''jindofs'', ''jindofs-fuse''), (''alluxio'', ''alluxio-fuse''), (''goosefs'', ''goosefs-fuse''), (''juicefs'', ''juicefs-fuse'')]"

definition GetMountPathInContainer :: "Container \<Rightarrow> goerr + string" where
  "GetMountPathInContainer c =
     (case map_of (ctEnv c) ''FLUID_FUSE_MOUNTPOINT'' of
        Some val \<Rightarrow> Inr val
      | None \<Rightarrow>
          (case find (\<lambda>m. HasSuffix (vmName m) ''-fuse-mount'') (ctVolumeMounts c) of
             Some m \<Rightarrow>
               let mountType = take (length (vmName m) - 11) (vmName m) in
               (case map_of mountPathSuffixes mountType of
                  Some pathSuffix \<Rightarrow> Inr (JoinPath [vmMountPath m, pathSuffix])
                | None \<Rightarrow> Inl (Err (''failed to find the suffix by mountType '' @ mountType)))
           | None \<Rightarrow> Inl (Err ''failed to find fluid fuse mount path in container'')))"

fun guardText :: "guard_error \<Rightarrow> string" where
  "guardText (IllegalChar val c) = ''args '' @ val @ '' has illegal access with illegalChar '' @ [c]"
| "guardText (InvalidSlice n) = ''invalid shell command slice. Expected num of slice is exactly 3, received '' @ Itoa (int n)"
| "guardText (UnknownShell cmd) = ''unknown shell command: '' @ cmd"
| "guardText (UnsupportedPart i cmd whole) =
     ''full pipeline command not supported: part '' @ Itoa (int i) @ '' contains unsupported command '' @ [CHR 0x27] @ cmd @ [CHR 0x27] @
     '', the whole command '' @ whole"
| "guardText (IllegalSequence script illegalSeq) = ''unsafe shell script '' @ script @ '', illegal sequence detected: '' @ illegalSeq"

text \<open>A command is checked by the guard before it is run in the container.\<close>

definition ExecCommandInContainer :: "appEnv \<Rightarrow> string \<Rightarrow> string \<Rightarrow> string \<Rightarrow> string list \<Rightarrow> (string \<times> goerr option) ago" where
  "ExecCommandInContainer v podName containerName namespace cmd =
     (case ValidateCommandSlice (aeLookPath v) cmd of
        Some e \<Rightarrow> ret ('''', Some (Err (guardText e)))
      | None \<Rightarrow>
          call (\<lambda>h. aeExec v h podName containerName namespace cmd)
            (\<lambda>(stderr, err). ExecInContainer podName containerName namespace cmd stderr err))"

definition umountFuseSidecar :: "appEnv \<Rightarrow> Pod \<Rightarrow> Container \<Rightarrow> (goerr option) ago" where
  "umountFuseSidecar v pod c =
     (let run = (\<lambda>cmd. andThen (ExecCommandInContainer v (pdName pod) (ctName c) (pdNamespace pod) cmd) (\<lambda>(stderr, err).
            ret (case err of
                   None \<Rightarrow> None
                 | Some e \<Rightarrow> if Contains stderr ''not mounted'' \<or> Contains (errText e) ''exit code 137'' then None else Some e)));
          preStop = (case ctLifecycle c of None \<Rightarrow> [] | Some l \<Rightarrow> (case lcPreStop l of None \<Rightarrow> [] | Some cmd \<Rightarrow> cmd)) in
      if ctName c = '''' then ret None
      else if preStop \<noteq> [] then run preStop
      else case GetMountPathInContainer c of
             Inl err \<Rightarrow> ret (Some err)
           | Inr mountPath \<Rightarrow> if mountPath = '''' then ret None else run [''umount'', mountPath])"

text \<open>The loop returns its named result, which is nil, when a sidecar could not be unmounted.\<close>

fun umountFuseSidecars :: "appEnv \<Rightarrow> Pod \<Rightarrow> Container list \<Rightarrow> (goerr option) ago" where
  "umountFuseSidecars v pod [] = ret None"
| "umountFuseSidecars v pod (cn # cs) =
     (if isFuseName (ctName cn)
      then andThen (umountFuseSidecar v pod cn) (\<lambda>e. if e \<noteq> None then ret None else umountFuseSidecars v pod cs)
      else umountFuseSidecars v pod cs)"

definition internalReconcile :: "appEnv \<Rightarrow> Pod \<Rightarrow> reconcileResult ago" where
  "internalReconcile v pod =
     andThen (umountFuseSidecars v pod (pdContainers pod)) (\<lambda>err.
     ret (if err \<noteq> None then RequeueIfError err else NoRequeue))"

definition AppReconcile :: "appEnv \<Rightarrow> string \<Rightarrow> string \<Rightarrow> reconcileResult ago" where
  "AppReconcile v name namespace =
     andThen (call (\<lambda>h. aeGetPod v h name namespace) (ReadAppPod name namespace)) (\<lambda>r.
     case r of
       Inl err \<Rightarrow> ret (if IsNotFound err then NoRequeue else RequeueIfError (Some err))
     | Inr p \<Rightarrow> if \<not> ShouldInQueue v p then ret NoRequeue else internalReconcile v (apPod p))"

section \<open>Where a data operation ran\<close>

definition affinityKey :: "string \<Rightarrow> string" where
  "affinityKey name = affinityPrefix @ name"








section \<open>The application has ended before its data is unmounted\<close>

definition appEnded :: "AppPod \<Rightarrow> bool" where
  "appEnded p \<longleftrightarrow> (\<forall>s\<in>set (apStatuses p). \<not> isFuseName (csName s) \<longrightarrow> csTerminated s)"

definition umounts :: "Pod \<Rightarrow> aevent \<Rightarrow> bool" where
  "umounts pod e \<longleftrightarrow> (case e of
     ExecInContainer podName c namespace cmd stderr err \<Rightarrow>
       podName = pdName pod \<and> namespace = pdNamespace pod \<and> isFuseName c \<and> c \<in> ctName ` set (pdContainers pod)
   | _ \<Rightarrow> False)"

lemma emits_umountFuseSidecar:
  assumes "c \<in> set (pdContainers pod)" and "isFuseName (ctName c)"
  shows "emits (umounts pod) (umountFuseSidecar v pod c)"
  using assms unfolding umountFuseSidecar_def ExecCommandInContainer_def Let_def
  by (auto simp: umounts_def intro!: emits_rules split: prod.splits)

lemma emits_umountFuseSidecars:
  "set cs \<subseteq> set (pdContainers pod) \<Longrightarrow> emits (umounts pod) (umountFuseSidecars v pod cs)"
  by (induction cs) (auto intro!: emits_rules emits_umountFuseSidecar)

text \<open>
  C24. The application controller only runs commands in the FUSE sidecars of the pod it has read, and only when every other
  container of that pod has terminated, for any answers of the cluster.
\<close>

theorem umount_after_application:
  assumes "AppReconcile v name namespace h = (result, h')"
  shows "h' = h @ [ReadAppPod name namespace (aeGetPod v h name namespace)] \<or>
    (\<exists>p es. aeGetPod v h name namespace = Inr p \<and> h' = h @ [ReadAppPod name namespace (Inr p)] @ es \<and>
       appEnded p \<and> list_all (umounts (apPod p)) es)"
proof (cases "aeGetPod v h name namespace")
  case (Inl err)
  with assms show ?thesis by (auto simp: AppReconcile_def andThen_def call_def ret_def)
next
  case (Inr p)
  show ?thesis
  proof (cases "ShouldInQueue v p")
    case True
    then have "appEnded p" by (auto simp: appEnded_def ShouldInQueue_def Let_def list_all_iff)
    moreover have "emits (umounts (apPod p)) (internalReconcile v (apPod p))"
      unfolding internalReconcile_def by (intro emits_rules emits_umountFuseSidecars) simp
    then obtain es where "snd (internalReconcile v (apPod p) (h @ [ReadAppPod name namespace (Inr p)])) =
        (h @ [ReadAppPod name namespace (Inr p)]) @ es" "list_all (umounts (apPod p)) es"
      unfolding emits_def by blast
    ultimately show ?thesis using assms Inr True by (auto simp: AppReconcile_def andThen_def call_def)
  next
    case False
    with assms Inr show ?thesis by (auto simp: AppReconcile_def andThen_def call_def ret_def)
  qed
qed

section \<open>Failures are forgotten\<close>

lemma umountFuseSidecars_never_fails: "yields (\<lambda>err. err = None) (umountFuseSidecars v pod cs)"
  by (induction cs) (auto intro!: yields_rules)

text \<open>
  A reconciliation of a pod that can be read never asks to be repeated, whatever the sidecars answer.
\<close>

theorem umount_failure_forgotten:
  assumes "aeGetPod v h name namespace = Inr p" and "AppReconcile v name namespace h = (Ret result, h')"
  shows "result = NoRequeue"
proof -
  have "yields (\<lambda>r. r = NoRequeue) (internalReconcile v (apPod p))"
    unfolding internalReconcile_def
    by (rule yields_andThen [OF umountFuseSidecars_never_fails]) (simp add: yields_def ret_def)
  then have "fst (internalReconcile v (apPod p) (h @ [ReadAppPod name namespace (Inr p)])) = Ret result \<Longrightarrow> result = NoRequeue"
    unfolding yields_def by blast
  with assms show ?thesis by (cases "ShouldInQueue v p") (auto simp: AppReconcile_def andThen_def call_def ret_def)
qed

section \<open>Injected sidecars have no mount path\<close>

definition foreign :: "string set" where
  "foreign = {n. \<not> HasSuffix n ''-fuse-mount''}"

lemma foreign_last:
  assumes "n \<noteq> []" and "last n \<noteq> CHR ''t''"
  shows "n \<in> foreign"
proof (rule ccontr)
  assume "n \<notin> foreign"
  then obtain k where k: "drop k n = ''-fuse-mount''" by (auto simp: foreign_def HasSuffix_def)
  then have "k < length n" by (metis drop_eq_Nil leI list.distinct(1))
  from last_drop [OF this] k assms(2) show False by simp
qed

lemma foreign_short: "length n < 11 \<Longrightarrow> n \<in> foreign"
  by (auto simp: foreign_def HasSuffix_def)

definition shortRandom :: "injectEnv \<Rightarrow> bool" where
  "shortRandom v \<longleftrightarrow> (\<forall>name i. length (ivRandom v name i) = 3)"

lemma ReplacePrefix_foreign:
  assumes "length prefix1 < 11" and "orig \<noteq> []" and "last orig \<noteq> CHR ''t''"
  shows "yields (\<lambda>n. n \<in> foreign) (ReplacePrefix orig prefix1)"
proof -
  have "prefix1 @ ''-'' @ drop (length prefix1 + 1) orig \<in> foreign"
    by (rule foreign_last) (use assms in \<open>auto simp: last_append last_drop\<close>)
  then show ?thesis using foreign_short [OF assms(1)] by (auto simp: ReplacePrefix_def yields_def ret_def panic_def)
qed

lemma gives_randomizeFrom_foreign:
  assumes "shortRandom v" and "orig \<noteq> []" and "last orig \<noteq> CHR ''t''" and "name \<in> foreign"
  shows "gives (\<lambda>n. n \<in> foreign) (randomizeFrom v orig existing name i)"
  using assms(4)
proof (induction "101 - i" arbitrary: i name rule: less_induct)
  case less
  have again: "gives (\<lambda>n. n \<in> foreign)
      (andThen (ReplacePrefix orig (''fluid-'' @ ivRandom v orig i)) (\<lambda>name. randomizeFrom v orig existing name (Suc i)))"
    if "\<not> i > 100"
    unfolding gives_def
    by (rule yields_andThen [OF ReplacePrefix_foreign], use assms in \<open>simp_all add: shortRandom_def\<close>,
        rule less.hyps [unfolded gives_def]) (use that in simp_all)
  show ?case
    unfolding randomizeFrom.simps [of v orig existing name i]
    by (intro gives_cases gives_ret again) (use less.prems in auto)
qed

lemma gives_appendVolumes_foreign:
  assumes "shortRandom v" and "sfx \<noteq> []" and "last sfx \<noteq> CHR ''t''"
  shows "gives (\<lambda>r. dom (map_of renamed) \<subseteq> dom (map_of (fst r)) \<and> ran (map_of (fst r)) \<subseteq> ran (map_of renamed) \<union> foreign \<and>
      volNames toAdd \<subseteq> dom (map_of (fst r)) \<union> foreign) (appendVolumes v volumes toAdd sfx renamed)"
proof (induction toAdd arbitrary: volumes renamed)
  case Nil
  then show ?case by (auto intro!: gives_rules)
next
  case (Cons x toAdd)
  let ?name = "volName x @ sfx"
  have "?name \<in> foreign" by (rule foreign_last) (use assms in simp_all)
  moreover have "gives (\<lambda>n. n \<in> foreign) (randomizeNewVolumeName v ?name names)" for names
    unfolding randomizeNewVolumeName_def gives_def
    by (rule yields_andThen [OF ReplacePrefix_foreign], use assms in simp_all,
        rule gives_randomizeFrom_foreign [unfolded gives_def]) (use assms in simp_all)
  ultimately have name: "gives (\<lambda>n. n \<in> foreign)
      (if ?name \<in> set (map volName volumes) then randomizeNewVolumeName v ?name (map volName volumes) else ret (Inr ?name))"
    by (auto intro!: gives_ret)
  show ?case
    unfolding appendVolumes.simps Let_def
    by (rule gives_orFail [OF name], rule gives_mono [OF Cons.IH])
      (fastforce simp: update_conv' ran_def dom_def subset_iff split: if_splits)
qed

definition opaque :: "Container \<Rightarrow> bool" where
  "opaque c \<longleftrightarrow> mountNames c \<subseteq> foreign \<and> map_of (ctEnv c) ''FLUID_FUSE_MOUNTPOINT'' = None"

definition podOpaque :: "Pod \<Rightarrow> bool" where
  "podOpaque pod \<longleftrightarrow> (\<forall>c\<in>set (pdContainers pod). isFuseName (ctName c) \<longrightarrow> opaque c)"

definition toHide :: "string \<Rightarrow> Helper \<Rightarrow> bool" where
  "toHide sfx d \<longleftrightarrow> podOpaque (hdPod d) \<and> templateWellFormed (hdTemplate d) \<and> hdAppended d = [] \<and> hdSuffix d = sfx \<and>
     map_of (ctEnv (ftContainer (hdTemplate d))) ''FLUID_FUSE_MOUNTPOINT'' = None"

definition hidden :: "Helper \<Rightarrow> bool" where
  "hidden d \<longleftrightarrow> podOpaque (hdPod d) \<and> renamesInto foreign (hdAppended d) (ftContainer (hdTemplate d)) \<and>
     map_of (ctEnv (ftContainer (hdTemplate d))) ''FLUID_FUSE_MOUNTPOINT'' = None"

lemma opaque_update [simp]:
  "opaque (c\<lparr>ctName := a\<rparr>) = opaque c" "opaque (c\<lparr>ctRestartPolicy := r\<rparr>) = opaque c" "opaque (propagate names c) = opaque c"
  "ctEnv (propagate names c) = ctEnv c" "ctName (propagate names c) = ctName c"
  by (simp_all add: opaque_def) (simp_all add: propagate_def)

lemma podOpaque_update [simp]:
  "podOpaque (pod\<lparr>pdVolumes := vs\<rparr>) = podOpaque pod" "podOpaque (pod\<lparr>pdAnnotations := as\<rparr>) = podOpaque pod"
  "podOpaque (labelDataset info n pod) = podOpaque pod" "podOpaque (pod\<lparr>pdInitContainers := cs\<rparr>) = podOpaque pod"
  by (simp_all add: podOpaque_def)

lemma hidden_renamed:
  assumes "permutes (ivOrder v)" and "hidden d"
  shows "opaque (ftContainer (hdTemplate (renamedTemplate v d)))" and "hidden (renamedTemplate v d)"
  using renamedTemplate_into [OF assms(1), of foreign d] assms(2)
  by (auto simp: hidden_def opaque_def) (simp_all add: renamedTemplate_def Let_def)

lemma prepend_hidden:
  assumes "permutes (ivOrder v)" and "hidden d"
  shows "hidden (prependFuseContainer v asInit d) \<and> opaque (ftContainer (hdTemplate (prependFuseContainer v asInit d)))"
    and "hidden (prependFuseNativeSidecar v d)"
  using hidden_renamed [OF assms]
  by (auto simp: hidden_def podOpaque_def prependFuseContainer_def prependFuseNativeSidecar_def Let_def)

lemma shareMounts_hidden:
  assumes "hidden d" and "opaque (ftContainer (hdTemplate d))"
  shows "hidden (shareMounts d)"
  using assms by (cases "pdContainers (hdPod d)") (auto simp: shareMounts_def hidden_def podOpaque_def opaque_def mountNames_def)

lemma doMutate_hidden:
  assumes "permutes (ivOrder v)" and "shortRandom v" and "sfx \<noteq> []" and "last sfx \<noteq> CHR ''t''"
    and "map_of (mutatorBuildFn v) platform = Some prepareMutation" and "toHide sfx d"
  shows "gives (\<lambda>e. podOpaque (hdPod e)) (doMutate v prepareMutation d)"
proof (rule gives_doMutate [where P = "toHide sfx" and Q = "toHide sfx" and R = hidden])
  show "gives (toHide sfx) (prepareMutation d)"
  proof (rule gives_prepare [OF assms(5)])
    show "gives (toHide sfx) (prepareFuseContainerPostStartScript v e)" if "toHide sfx e" for e
      using that unfolding prepareFuseContainerPostStartScript_def Let_def
      by (intro gives_rules gives_orFail_any)
        (auto simp: toHide_def templateWellFormed_def sidecarScriptMount_def sidecarScriptVolume_def mountNames_def image_subset_iff)
  qed (use assms(6) in \<open>simp_all add: toHide_def transformTemplateWithCacheDirDisabled_def trimTemplate_wellFormed Let_def
         transformTemplateWithUnprivilegedSidecarEnabled_def removeFuseMetricsContainerPort_def templateWellFormed_ports\<close>,
       simp_all add: trimTemplate_def)
  show "toHide sfx e" if "toHide sfx d" "defaultMutateDatasetVolumes v d = Inr e" for d e
    using that by (auto simp: toHide_def podOpaque_def defaultMutateDatasetVolumes_def Let_def split: sum.splits)
  show "gives hidden (defaultAppendFuseContainerVolumes v d)" if d: "toHide sfx d" for d
    unfolding defaultAppendFuseContainerVolumes_def
  proof (rule gives_orFail [OF gives_appendVolumes_foreign [OF assms(2)]])
    fix r :: "(string \<times> string) list \<times> Volume list"
    assume r: "dom (map_of (hdAppended d)) \<subseteq> dom (map_of (fst r)) \<and> ran (map_of (fst r)) \<subseteq> ran (map_of (hdAppended d)) \<union> foreign \<and>
      volNames (uniqueHostPaths d) \<subseteq> dom (map_of (fst r)) \<union> foreign"
    have "map volName (uniqueHostPaths d) = map volName (ftVolumes (hdTemplate d))"
      by (auto simp: uniqueHostPaths_def split: VolumeSource.splits)
    then have "volNames (uniqueHostPaths d) = volNames (ftVolumes (hdTemplate d))" by (metis set_map)
    with r d have "hidden (d\<lparr>hdAppended := fst r, hdPod := (hdPod d)\<lparr>pdVolumes := snd r\<rparr>,
        hdTemplate := (hdTemplate d)\<lparr>ftVolumes := uniqueHostPaths d\<rparr>\<rparr>)"
      by (simp add: hidden_def toHide_def renamesInto_def templateWellFormed_def) blast
    then show "gives hidden (case r of (renamed, volumes) \<Rightarrow>
        ret (Inr (d\<lparr>hdAppended := renamed, hdPod := (hdPod d)\<lparr>pdVolumes := volumes\<rparr>,
                    hdTemplate := (hdTemplate d)\<lparr>ftVolumes := uniqueHostPaths d\<rparr>\<rparr>)))"
      by (cases r) (auto intro!: gives_rules)
  qed (use d assms(3,4) in \<open>simp_all add: toHide_def\<close>)
  show "podOpaque (hdPod e)"
    if "hidden d" "(if ivNative v then defaultInjectFuseNativeSidecar v d else defaultInjectFuseContainer v d) = Inr e" for d e
  proof -
    have "hidden e"
      using that prepend_hidden [OF assms(1)] shareMounts_hidden
      by (auto simp: defaultInjectFuseNativeSidecar_def defaultInjectFuseContainer_def Let_def split: if_splits option.splits)
    then show ?thesis by (simp add: hidden_def)
  qed
qed

lemma natDigits_last: "last (natDigits n) \<noteq> CHR ''t''"
proof -
  have "(char_of (48 + n mod 10) :: char) \<noteq> CHR ''t''"
  proof
    assume eq: "(char_of (48 + n mod 10) :: char) = CHR ''t''"
    have "n mod 10 < 10" by simp
    then have "of_char (char_of (48 + n mod 10) :: char) = 48 + n mod 10" by simp
    with eq show False by simp
  qed
  then show ?thesis by (subst natDigits.simps) (simp, metis mod_less)
qed

definition fuseSound :: "DaemonSet \<Rightarrow> bool" where
  "fuseSound ds \<longleftrightarrow> daemonSetWellFormed ds \<and> (\<forall>c\<in>set (dsmContainers ds). map_of (ctEnv c) ''FLUID_FUSE_MOUNTPOINT'' = None)"

lemma template_hidden:
  assumes "\<And>h name namespace ds. kwGetDaemonSet rw h name namespace = Inr ds \<Longrightarrow> fuseSound ds"
  shows "gives (\<lambda>t. templateWellFormed t \<and> map_of (ctEnv (ftContainer t)) ''FLUID_FUSE_MOUNTPOINT'' = None)
    (GetFuseContainerTemplate rw info)"
proof -
  have ds: "gives fuseSound (getFuseDaemonset rw info)"
    using assms by (auto simp: gives_def yields_def getFuseDaemonset_def GetDaemonset_def call_def)
  show ?thesis
    unfolding GetFuseContainerTemplate_def
    by (rule gives_orFail [OF ds], intro gives_rules gives_orFail_any)
      (auto simp: fuseSound_def daemonSetWellFormed_def templateWellFormed_def split: sum.splits)
qed

lemma MutateWithRuntimeInfo_opaque:
  assumes "permutes (ivOrder v)" and "shortRandom v" and "map_of (mutatorBuildFn v) platform = Some prepareMutation"
    and "\<And>h name namespace ds. kwGetDaemonSet rw h name namespace = Inr ds \<Longrightarrow> fuseSound ds" and "podOpaque pod"
  shows "gives podOpaque (MutateWithRuntimeInfo v rw prepareMutation labels pvcName info (''-'' @ Itoa (int idx)) pod)"
proof -
  have sfx: "last (''-'' @ Itoa (int idx)) \<noteq> CHR ''t''" using natDigits_last by (simp add: Itoa_def)
  show ?thesis
    unfolding MutateWithRuntimeInfo_def
    by (rule gives_orFail [OF gives_wrapErr [OF template_hidden]], fact assms(4),
        rule gives_orFail [OF gives_wrapErr [OF doMutate_hidden [OF assms(1,2) _ sfx assms(3)]]])
      (auto simp: toHide_def assms(5) enablePrometheusMetricsScrape_def intro!: gives_rules split: if_splits)
qed

text \<open>
  The two controllers disagree on names: the injector renames the volumes of a sidecar, and the application controller finds the
  path to unmount by the old name of the mount. For a sidecar without a command to stop and without a variable for the path, it
  runs nothing and gets an error.
\<close>

theorem sidecar_mount_path_lost:
  assumes "permutes (ivOrder v)" and "shortRandom v" and "map_of (mutatorBuildFn v) platform = Some prepareMutation"
    and "\<And>h name namespace ds. kwGetDaemonSet rw h name namespace = Inr ds \<Longrightarrow> fuseSound ds" and "podOpaque pod"
    and "MutateWithRuntimeInfo v rw prepareMutation labels pvcName info (''-'' @ Itoa (int idx)) pod h = (Ret (Inr pod'), h')"
    and "c \<in> set (pdContainers pod')" and "isFuseName (ctName c)" and "Option.bind (ctLifecycle c) lcPreStop = None"
  shows "\<exists>err. umountFuseSidecar v1 pod' c h1 = (Ret (Some err), h1)"
proof -
  have "podOpaque pod'" by (rule gives_run [OF MutateWithRuntimeInfo_opaque [OF assms(1-5)] assms(6)])
  then have c: "opaque c" using assms(7,8) by (simp add: podOpaque_def)
  then have "find (\<lambda>m. HasSuffix (vmName m) ''-fuse-mount'') (ctVolumeMounts c) = None"
    by (auto simp: find_None_iff opaque_def mountNames_def foreign_def)
  then have "\<exists>err. GetMountPathInContainer c = Inl err" using c by (simp add: GetMountPathInContainer_def opaque_def)
  moreover have "ctName c \<noteq> ''''" using assms(8) by (auto simp: isFuseName_def)
  ultimately show ?thesis
    using assms(9) by (auto simp: umountFuseSidecar_def ret_def Let_def split: option.splits Option.bind_splits)
qed

section \<open>The next operation runs where the last one did\<close>

lemma affinityKey_eq [simp]: "affinityKey a = affinityKey b \<longleftrightarrow> a = b"
  by (simp add: affinityKey_def)


















section \<open>Examples\<close>

definition endedPod :: AppPod where
  "endedPod =
     \<lparr>apPod = examplePod\<lparr>pdLabels := [(''serverless.fluid.io/inject'', ''true''), (''done.sidecar.fluid.io/inject'', ''true'')],
        pdContainers := (hd (pdContainers examplePod))\<lparr>ctName := ''fluid-fuse-0'', ctEnv := [(''FLUID_FUSE_MOUNTPOINT'', ''/runtime-mnt/fuse'')]\<rparr> #
          pdContainers examplePod\<rparr>,
      apRestartPolicy = ''Never'', apPhase = ''Running'',
      apStatuses = [\<lparr>csName = ''fluid-fuse-0'', csTerminated = False, csRunning = True\<rparr>, \<lparr>csName = ''train'', csTerminated = True, csRunning = False\<rparr>]\<rparr>"

definition completedJob :: OpJob where
  "completedJob =
     \<lparr>ojJob = \<lparr>jobName = ''load'', jobNamespace = ''default'', jobAnnotations = [], jobCreationTimestamp = 0, jobSuspend = None,
        jobConditions = [\<lparr>jcType = ''Complete'', jcStatus = ''True'', jcReason = '''', jcMessage = '''', jcLastProbeTime = 0, jcLastTransitionTime = 0\<rparr>]\<rparr>, ojLabels = []\<rparr>"

definition gpuNode :: Node where
  "gpuNode = \<lparr>nodeName = ''node1'', nodeLabels = [(''kubernetes.io/hostname'', ''node1''), (''disk'', ''ssd'')]\<rparr>"

definition ssdPod :: JobPod where
  "ssdPod = \<lparr>jpPhase = ''Succeeded'', jpNodeName = ''node1'', jpAnnotations = [(labelsKey, ''disk'')]\<rparr>"

definition exampleApp :: appEnv where
  "exampleApp =
     \<lparr>aeDeprecatedKey = '''', aeDisableKey = '''', aeLookPath = \<lambda>_. None, aeGetPod = \<lambda>_ _ _. Inr endedPod, aeExec = \<lambda>_ _ _ _ _. ('''', None),
      aeGetJob = \<lambda>_ _ _. Inr completedJob, aeUpdateJob = \<lambda>_ _. None,
      aeListPods = \<lambda>_ _. Inr [ssdPod],
      aeGetNode = \<lambda>_ _. Inr gpuNode\<rparr>"

lemma exampleApp_run:
  "AppReconcile exampleApp ''app'' ''default'' [] =
     (Ret NoRequeue, [ReadAppPod ''app'' ''default'' (Inr endedPod),
        ExecInContainer ''app'' ''fluid-fuse-0'' ''default'' [''umount'', ''/runtime-mnt/fuse''] '''' None])"
  by code_simp

theorem umount_after_application_witness:
  "snd (AppReconcile exampleApp ''app'' ''default'' []) \<noteq> [ReadAppPod ''app'' ''default'' (Inr endedPod)] \<and> appEnded endedPod"
  using umount_after_application [OF exampleApp_run] by (simp add: exampleApp_run)




text \<open>Each runtime controller sees the events of the stateful sets and daemon sets that it controls, and no other.\<close>

lemma one_controller_per_set:
  assumes "statefulsetOnUpdate managed old new \<or> daemonsetOnUpdate managed old new"
    and "statefulsetOnUpdate managed' old new \<or> daemonsetOnUpdate managed' old new"
  shows "managed = managed'"
  using assms
  by (auto simp: statefulsetOnUpdate_def daemonsetOnUpdate_def isObjectInManaged_def isOwnerMatched_def prod_eq_iff split: option.splits)

text \<open>A resynchronisation, an update event without a change, reaches no controller of runtimes, pods or jobs.\<close>

lemma resync_ignored:
  assumes "wVersion new = wVersion old"
  shows "\<not> podOnUpdate v old new" "\<not> jobOnUpdate old new" "\<not> datasetOnUpdate rt old new" "\<not> runtimeOnUpdate old new"
    "\<not> statefulsetOnUpdate managed old new" "\<not> daemonsetOnUpdate managed old new"
  using assms
  by (auto simp: podOnUpdate_def jobOnUpdate_def datasetOnUpdate_def runtimeOnUpdate_def statefulsetOnUpdate_def daemonsetOnUpdate_def
      split: object.splits)

end
