(* ===== verification/Reference_Dataset.thy ===== *)
theory Reference_Dataset
  imports Fuse_Template Alluxio_Engine
begin

text \<open>
  The engine of a dataset that mounts another dataset (\<open>pkg/ddc/thin/referencedataset\<close>): it registers the dataset with the physical
  dataset, copies what a fuse sidecar needs into its namespace, mirrors the status of the physical dataset, and creates a volume
  that is a view of the physical one. It implements the interface \<open>Engine\<close> itself and does not follow the template. With it,
  \<open>CopyConfigMap\<close> of \<open>pkg/utils/kubeclient/configmap.go\<close>.
\<close>

section \<open>State and environment\<close>

text \<open>
  The engine of a reference dataset. \<open>reRuntimeInfo\<close> and \<open>rePhysicalRuntimeInfo\<close> are filled when they are first needed.
  Beside the world: \<open>resource.ParseQuantity\<close>, the metadata list that an annotation holds as JSON, and \<open>time.ParseDuration\<close>.
\<close>

record ReferenceDatasetEngine =
  reId :: string
  reName :: string
  reNamespace :: string
  reSyncRetryDuration :: int
  reTimeOfLastSync :: int
  reRuntimeType :: string
  reRuntimeInfo :: "RuntimeInfo option"
  rePhysicalRuntimeInfo :: "RuntimeInfo option"

record referenceEnv =
  feWorld :: world
  feParseQuantity :: "string \<Rightarrow> int option"
  feMetadataList :: "RuntimeObject \<Rightarrow> Metadata list"
  feParseDuration :: "string \<Rightarrow> int option"

type_synonym 'a referenceMethod = "(ReferenceDatasetEngine, 'a) engineMethod"

definition readOwnDataset :: "referenceEnv \<Rightarrow> ReferenceDatasetEngine \<Rightarrow> (goerr + Dataset) kgo" where
  "readOwnDataset v e = viaOp (feWorld v) (\<lambda>cl. GetDataset cl (reName e) (reNamespace e))"

section \<open>runtime.go\<close>

definition Reference_getRuntime :: "referenceEnv \<Rightarrow> ReferenceDatasetEngine \<Rightarrow> (goerr + RuntimeObject) kgo" where
  "Reference_getRuntime v e = getRuntimeObject (feWorld v) ''ThinRuntime'' (reName e) (reNamespace e)"

text \<open>The three parts of \<open>getRuntimeInfo\<close>: the information is built once, then its owner and its placement mode are filled in.\<close>

definition buildReferenceInfo :: "referenceEnv \<Rightarrow> (goerr + RuntimeInfo) referenceMethod" where
  "buildReferenceInfo v e =
     (case reRuntimeInfo e of
        Some info \<Rightarrow> ret (Inr info, e)
      | None \<Rightarrow>
          andThen (Reference_getRuntime v e) (\<lambda>r.
          case r of
            Inl err \<Rightarrow> ret (Inl err, e)
          | Inr runtime \<Rightarrow>
              (case BuildRuntimeInfo (feParseQuantity v) (reName e) (reNamespace e) (reRuntimeType e)
                      (roTieredStore runtime) (feMetadataList v runtime) (omAnnotations (roMeta runtime)) of
                 Inl err \<Rightarrow> ret (Inl err, e)
               | Inr info \<Rightarrow>
                   let info' = SetFuseNodeSelector (roFuseNodeSelector runtime) info in
                   ret (Inr info', e\<lparr>reRuntimeInfo := Some info'\<rparr>))))"

definition ownerReferenceInfo :: "referenceEnv \<Rightarrow> RuntimeInfo \<Rightarrow> (goerr + RuntimeInfo) referenceMethod" where
  "ownerReferenceInfo v info e =
     (if riOwnerDatasetUID info \<noteq> '''' then ret (Inr info, e)
      else
        andThen (Reference_getRuntime v e) (\<lambda>r.
        case r of
          Inl err \<Rightarrow> ret (Inl err, e)
        | Inr runtime \<Rightarrow>
            (case GetOwnerDatasetUIDFromRuntimeMeta (roMeta runtime) of
               Inl err \<Rightarrow> ret (Inl err, e)
             | Inr uid \<Rightarrow>
                 let info' = SetOwnerDatasetUID uid info in ret (Inr info', e\<lparr>reRuntimeInfo := Some info'\<rparr>))))"

definition placementReferenceInfo :: "referenceEnv \<Rightarrow> RuntimeInfo \<Rightarrow> (goerr + RuntimeInfo) referenceMethod" where
  "placementReferenceInfo v info e =
     (if IsPlacementModeSet info then ret (Inr info, e)
      else
        andThen (readOwnDataset v e) (\<lambda>r.
        case r of
          Inl err \<Rightarrow> ret (if IsNotFound err then Inr info else Inl err, e)
        | Inr dataset \<Rightarrow>
            let info' = SetupWithDataset dataset info in ret (Inr info', e\<lparr>reRuntimeInfo := Some info'\<rparr>)))"

definition Reference_getRuntimeInfo :: "referenceEnv \<Rightarrow> (goerr + RuntimeInfo) referenceMethod" where
  "Reference_getRuntimeInfo v e =
     andThen (buildReferenceInfo v e) (\<lambda>(r, e).
     case r of
       Inl err \<Rightarrow> ret (Inl err, e)
     | Inr info \<Rightarrow>
         andThen (ownerReferenceInfo v info e) (\<lambda>(r, e).
         case r of
           Inl err \<Rightarrow> ret (Inl err, e)
         | Inr info \<Rightarrow> placementReferenceInfo v info e))"

text \<open>The datasets that the dataset mounts; if it is gone, those in the status of its runtime.\<close>

definition physicalNames :: "referenceEnv \<Rightarrow> ReferenceDatasetEngine \<Rightarrow> (goerr + (string \<times> string) list) kgo" where
  "physicalNames v e =
     andThen (readOwnDataset v e) (\<lambda>r.
     case r of
       Inr dataset \<Rightarrow> ret (Inr (GetPhysicalDatasetFromMounts (dsMounts (dSpec dataset))))
     | Inl err \<Rightarrow>
         if \<not> IsNotFound err then ret (Inl err)
         else
           andThen (Reference_getRuntime v e) (\<lambda>r.
           ret (case r of
                  Inl err \<Rightarrow> Inl err
                | Inr runtime \<Rightarrow> Inr (GetPhysicalDatasetFromMounts (rsMounts (roStatus runtime))))))"

definition onlyPhysical :: "(string \<times> string) list \<Rightarrow> goerr + string \<times> string" where
  "onlyPhysical names =
     (case names of
        [] \<Rightarrow> Inl (NotFound (''can'' @ CHR 0x27 # ''t get physical runtime info from either dataset or runtime''))
      | [name] \<Rightarrow> Inr name
      | _ \<Rightarrow> Inl (Err (''ThinEngine with no profile name can only handle dataset only mounting one dataset but get '' @
                       Itoa (int (length names)))))"

definition getPhysicalRuntimeInfo :: "referenceEnv \<Rightarrow> (goerr + RuntimeInfo) referenceMethod" where
  "getPhysicalRuntimeInfo v e =
     (case rePhysicalRuntimeInfo e of
        Some info \<Rightarrow> ret (Inr info, e)
      | None \<Rightarrow>
          andThen (physicalNames v e) (\<lambda>r.
          case r of
            Inl err \<Rightarrow> ret (Inl err, e)
          | Inr names \<Rightarrow>
              (case onlyPhysical names of
                 Inl err \<Rightarrow> ret (Inl err, e)
               | Inr (namespace, name) \<Rightarrow>
                   andThen (GetRuntimeInfo (feWorld v) (feMetadataList v) name namespace) (\<lambda>r.
                   case r of
                     Inl err \<Rightarrow> ret (Inl err, e)
                   | Inr info \<Rightarrow> ret (Inr info, e\<lparr>rePhysicalRuntimeInfo := Some info\<rparr>)))))"

definition getPhysicalDatasetRuntimeStatus :: "referenceEnv \<Rightarrow> (goerr + RuntimeStatus) referenceMethod" where
  "getPhysicalDatasetRuntimeStatus v e =
     andThen (getPhysicalRuntimeInfo v e) (\<lambda>(r, e).
     case r of
       Inl err \<Rightarrow> ret (Inl err, e)
     | Inr info \<Rightarrow>
         andThen (GetRuntimeStatus (feWorld v) (riRuntimeType info) (riName info) (riNamespace info)) (\<lambda>r. ret (r, e)))"

section \<open>validate.go\<close>

definition Reference_Validate :: "referenceEnv \<Rightarrow> (goerr option) referenceMethod" where
  "Reference_Validate v e =
     andThen (Reference_getRuntimeInfo v e) (\<lambda>(r, e).
     ret (case r of Inl err \<Rightarrow> Some err | Inr info \<Rightarrow> ValidateRuntimeInfo info, e))"

section \<open>cm.go\<close>

definition referenceOwner :: "Dataset \<Rightarrow> OwnerReference" where
  "referenceOwner refDataset =
     \<lparr>orAPIVersion = dAPIVersion refDataset, orKind = dKind refDataset, orName = omName (dMeta refDataset),
      orUID = omUID (dMeta refDataset), orController = None\<rparr>"

definition physicalFuseName :: "RuntimeInfo \<Rightarrow> string" where
  "physicalFuseName info =
     (if riRuntimeType info = ''jindo'' then riName info @ ''-jindofs-fuse'' else riName info @ ''-fuse'')"

text \<open>The copy is a balloon: its node selector keeps it from running anywhere. The status of a new daemon set is empty.\<close>

definition fuseCopy :: "Dataset \<Rightarrow> DaemonSet \<Rightarrow> DaemonSet" where
  "fuseCopy refDataset ds =
     \<lparr>dsmName = omName (dMeta refDataset) @ ''-fuse'', dsmNamespace = omNamespace (dMeta refDataset),
      dsmOwners = [referenceOwner refDataset],
      dsmLabels = [(''fluid.io/dataset-id'',
        GetDatasetId (omNamespace (dMeta refDataset)) (omName (dMeta refDataset)) (omUID (dMeta refDataset)))],
      dsmGeneration = 0, dsmContainers = dsmContainers ds, dsmVolumes = dsmVolumes ds,
      dsmNodeSelector = AList.update ''fluid.io/fuse-balloon'' ''true'' (dsmNodeSelector ds),
      dsmDesired = 0, dsmCurrent = 0, dsmReady = 0, dsmAvailable = 0, dsmUnavailable = 0\<rparr>"

definition copyFuseDaemonSetForRefDataset :: "world \<Rightarrow> Dataset \<Rightarrow> RuntimeInfo \<Rightarrow> (goerr option) kgo" where
  "copyFuseDaemonSetForRefDataset w refDataset info =
     andThen (GetDaemonset w (physicalFuseName info) (riNamespace info)) (\<lambda>r.
     case r of
       Inl err \<Rightarrow> ret (Some err)
     | Inr ds \<Rightarrow>
         let dsToCreate = fuseCopy refDataset ds in
         andThen (call (\<lambda>h. kwCreateDaemonSet w h dsToCreate) (CreatedDaemonSet dsToCreate)) (\<lambda>err.
         ret (IgnoreAlreadyExists err)))"

text \<open>\<open>IsConfigMapExist\<close> and \<open>CopyConfigMap\<close> of \<open>pkg/utils/kubeclient/configmap.go\<close>; pairs of namespace and name.\<close>

definition IsConfigMapExist :: "world \<Rightarrow> string \<Rightarrow> string \<Rightarrow> (bool \<times> goerr option) kgo" where
  "IsConfigMapExist w name namespace =
     andThen (call (\<lambda>h. kwGetConfigMap w h name namespace) (ReadConfigMap name namespace)) (\<lambda>r.
     ret (case r of Inl err \<Rightarrow> (False, if IsNotFound err then None else Some err) | Inr _ \<Rightarrow> (True, None)))"

definition configMapCopy :: "string \<times> string \<Rightarrow> OwnerReference \<Rightarrow> ConfigMap \<Rightarrow> ConfigMap" where
  "configMapCopy dst reference src =
     \<lparr>cmName = snd dst, cmNamespace = fst dst, cmOwners = [reference],
      cmLabels = AList.update ''fluid.io/dataset-id'' (GetDatasetId (fst dst) (snd dst) (orUID reference)) (cmLabels src),
      cmAnnotations = cmAnnotations src, cmData = cmData src\<rparr>"

definition CopyConfigMap ::
  "world \<Rightarrow> string \<times> string \<Rightarrow> string \<times> string \<Rightarrow> OwnerReference \<Rightarrow> (goerr option) kgo" where
  "CopyConfigMap w src dst reference =
     andThen (IsConfigMapExist w (snd dst) (fst dst)) (\<lambda>(found, err).
     if err \<noteq> None then ret err
     else if found then ret None
     else
       andThen (GetConfigmapByName w (snd src) (fst src)) (\<lambda>r.
       case r of
         Inl err \<Rightarrow> ret (Some err)
       | Inr None \<Rightarrow> ret (Some (Err (''runtime configmap '' @ fst src @ ''/'' @ snd src @ '' do not exist'')))
       | Inr (Some cm) \<Rightarrow>
           andThen (createConfigMap w (configMapCopy dst reference cm)) (\<lambda>err.
           ret (IgnoreAlreadyExists err))))"

text \<open>The config maps that the fuse sidecar of a runtime of a type needs.\<close>

definition fuseConfigMaps :: "string \<Rightarrow> string \<Rightarrow> goerr + string list" where
  "fuseConfigMaps runtimeType name =
     (if runtimeType = ''alluxio'' then Inr [name @ ''-config'']
      else if runtimeType = ''juicefs'' then Inr [name @ ''-fuse-script'']
      else if runtimeType = ''goosefs'' then Inr [name @ ''-config'']
      else if runtimeType = ''jindo'' then Inr [name @ ''-jindofs-client-config'', name @ ''-jindofs-config'']
      else if runtimeType = ''efc'' \<or> runtimeType = ''thin'' then Inr []
      else Inl (Err (''fail to get configmap for runtime type: '' @ runtimeType)))"

fun copyConfigMaps ::
  "world \<Rightarrow> string \<Rightarrow> string \<Rightarrow> OwnerReference \<Rightarrow> string list \<Rightarrow> (goerr option) kgo" where
  "copyConfigMaps w srcNamespace dstNamespace reference [] = ret None"
| "copyConfigMaps w srcNamespace dstNamespace reference (name # names) =
     andThen (CopyConfigMap w (srcNamespace, name) (dstNamespace, name) reference) (\<lambda>err.
     if err \<noteq> None then ret err else copyConfigMaps w srcNamespace dstNamespace reference names)"

definition createConfigMapForRefDataset :: "world \<Rightarrow> Dataset \<Rightarrow> RuntimeInfo \<Rightarrow> (goerr option) kgo" where
  "createConfigMapForRefDataset w refDataset info =
     (case fuseConfigMaps (riRuntimeType info) (riName info) of
        Inl err \<Rightarrow> ret (Some err)
      | Inr names \<Rightarrow>
          copyConfigMaps w (riNamespace info) (omNamespace (dMeta refDataset)) (referenceOwner refDataset) names)"

section \<open>engine.go\<close>

definition Reference_Operate :: "world \<Rightarrow> OpObject \<Rightarrow> reconcileResult kgo" where
  "Reference_Operate w object =
     andThen (viaOp w (\<lambda>_. recordEvent object ''Warning'' ''DataOperationNotSupport''
                ''thinEngine for reference dataset does not support data operations'')) (\<lambda>_.
     ret NoRequeue)"

definition checkDatasetMountSupport :: "referenceEnv \<Rightarrow> ReferenceDatasetEngine \<Rightarrow> (goerr option) kgo" where
  "checkDatasetMountSupport v e =
     andThen (readOwnDataset v e) (\<lambda>r.
     case r of
       Inl err \<Rightarrow> ret (if IsNotFound err then None else Some err)
     | Inr dataset \<Rightarrow>
         (case GetPhysicalDatasetFromMounts (dsMounts (dSpec dataset)) of
            [(namespace, name)] \<Rightarrow>
              if length (dsMounts (dSpec dataset)) \<noteq> 1
              then ret (Some (Err (''dataset with '' @ CHR 0x27 # ''dataset://'' @ CHR 0x27 # '' mount point can not has other mount format'')))
              else
                andThen (viaOp (feWorld v) (\<lambda>cl. GetDataset cl name namespace)) (\<lambda>r.
                case r of
                  Inl err \<Rightarrow> ret (Some (Err (''failed to create reference dataset due to '' @ errText err)))
                | Inr physical \<Rightarrow>
                    ret (if GetPhysicalDatasetFromMounts (dsMounts (dSpec physical)) \<noteq> []
                         then Some (Err ''ThinRuntime with no profile name can only handle dataset only mounting one dataset'')
                         else None))
          | _ \<Rightarrow> ret (Some (Err ''ThinRuntime can only handle dataset only mounting one dataset''))))"

text \<open>
  The last part: an error that is not found is meant to be no obstacle for a runtime that is being deleted, yet it is returned
  with the engine.
\<close>

definition withPhysicalInfo ::
  "referenceEnv \<Rightarrow> RuntimeObject \<Rightarrow> ReferenceDatasetEngine \<Rightarrow> (ReferenceDatasetEngine option \<times> goerr option) kgo" where
  "withPhysicalInfo v runtime e =
     andThen (getPhysicalRuntimeInfo v e) (\<lambda>(r, e).
     case r of
       Inr _ \<Rightarrow> ret (Some e, None)
     | Inl err \<Rightarrow>
         if IgnoreNotFound (Some err) \<noteq> None \<or> omDeletionTimestamp (roMeta runtime) = None
         then ret (None, Some (Err (''engine '' @ reName e @ '' failed to get physical dataset'' @ CHR 0x27 # ''s runtime info'')))
         else ret (Some e, Some err))"

definition BuildReferenceDatasetThinEngine ::
  "referenceEnv \<Rightarrow> string \<Rightarrow> string \<Rightarrow> string \<Rightarrow> string \<Rightarrow> RuntimeObject \<Rightarrow>
   (ReferenceDatasetEngine option \<times> goerr option) kgo" where
  "BuildReferenceDatasetThinEngine v eid name namespace runtimeType runtime =
     (let engine = \<lparr>reId = eid, reName = name, reNamespace = namespace, reSyncRetryDuration = 0, reTimeOfLastSync = 0,
                    reRuntimeType = runtimeType, reRuntimeInfo = None, rePhysicalRuntimeInfo = None\<rparr> in
      andThen (checkDatasetMountSupport v engine) (\<lambda>err.
      if err \<noteq> None then ret (None, err)
      else
        andThen (Reference_getRuntimeInfo v engine) (\<lambda>(r, engine).
        case r of
          Inl _ \<Rightarrow> ret (None, Some (Err (''engine '' @ name @ '' failed to get runtime info'')))
        | Inr _ \<Rightarrow>
            let duration = (case getSyncRetryDuration (feWorld v) (feParseDuration v) of
                              Some d \<Rightarrow> d | None \<Rightarrow> defaultSyncRetryDuration) in
            andThen (viaOp (feWorld v) now) (\<lambda>t.
            withPhysicalInfo v runtime (engine\<lparr>reSyncRetryDuration := duration, reTimeOfLastSync := t - duration\<rparr>)))))"

text \<open>One attempt to add the dataset to the references of the physical dataset.\<close>

definition registerOnce :: "referenceEnv \<Rightarrow> Dataset \<Rightarrow> string \<Rightarrow> string \<Rightarrow> (goerr option) kgo" where
  "registerOnce v dataset name namespace =
     andThen (viaOp (feWorld v) (\<lambda>cl. GetDataset cl name namespace)) (\<lambda>r.
     case r of
       Inl err \<Rightarrow> ret (Some err)
     | Inr physical \<Rightarrow>
         if dstRuntimes (dStatus physical) = [] then ret (Some (Err ''mounting dataset is not bound to a runtime yet''))
         else
           let datasetRefName = GetDatasetRefName (omName (dMeta dataset)) (omNamespace (dMeta dataset)) in
           if \<not> ContainsString (dstDatasetRef (dStatus physical)) datasetRefName
           then viaOp (feWorld v) (\<lambda>cl. updateDatasetStatus cl
                  (setStatus (\<lambda>s. s\<lparr>dstDatasetRef := dstDatasetRef s @ [datasetRefName]\<rparr>) physical))
           else ret None)"

text \<open>What Setup does once the dataset is registered.\<close>

definition copyResources :: "referenceEnv \<Rightarrow> Dataset \<Rightarrow> decision referenceMethod" where
  "copyResources v dataset e =
     andThen (getPhysicalRuntimeInfo v e) (\<lambda>(r, e).
     case r of
       Inl err \<Rightarrow> ret ((False, Some err), e)
     | Inr info \<Rightarrow>
         andThen (copyFuseDaemonSetForRefDataset (feWorld v) dataset info) (\<lambda>err.
         if err \<noteq> None then ret ((False, err), e)
         else
           andThen (createConfigMapForRefDataset (feWorld v) dataset info) (\<lambda>err.
           if err \<noteq> None then ret ((False, err), e) else ret ((True, None), e))))"

definition Reference_Setup :: "referenceEnv \<Rightarrow> Dataset \<Rightarrow> decision referenceMethod" where
  "Reference_Setup v dataset e =
     (case GetPhysicalDatasetFromMounts (dsMounts (dSpec dataset)) of
        [(namespace, name)] \<Rightarrow>
          andThen (RetryOnConflict (registerOnce v dataset name namespace)) (\<lambda>err.
          if err \<noteq> None then ret ((False, err), e) else copyResources v dataset e)
      | _ \<Rightarrow> ret ((False, Some (Err ''ThinEngine can only handle dataset only mounting one dataset'')), e))"

text \<open>
  An error that is not found is logged, and still in the named result when the function returns.
\<close>

definition Reference_Shutdown :: "referenceEnv \<Rightarrow> (goerr option) referenceMethod" where
  "Reference_Shutdown v e =
     (let datasetRefName = GetDatasetRefName (reName e) (reNamespace e) in
      andThen (getPhysicalRuntimeInfo v e) (\<lambda>(r, e).
      case r of
        Inl err \<Rightarrow> ret (Some err, e)
      | Inr info \<Rightarrow>
          andThen (viaOp (feWorld v) (\<lambda>cl. GetDataset cl (riName info) (riNamespace info))) (\<lambda>r.
          case r of
            Inl err \<Rightarrow> ret (Some err, e)
          | Inr physical \<Rightarrow>
              if ContainsString (dstDatasetRef (dStatus physical)) datasetRefName
              then andThen (viaOp (feWorld v) (\<lambda>cl. updateDatasetStatus cl
                     (setStatus (\<lambda>s. s\<lparr>dstDatasetRef := RemoveString (dstDatasetRef s) datasetRefName\<rparr>) physical)))
                     (\<lambda>err. ret (err, e))
              else ret (None, e))))"

section \<open>sync.go\<close>

definition Reference_permitSync :: "ReferenceDatasetEngine \<Rightarrow> int \<Rightarrow> bool" where
  "Reference_permitSync e current = (\<not> current - reTimeOfLastSync e < reSyncRetryDuration e)"

text \<open>The status of the physical dataset, except that the dataset has its own runtimes and no dataset refers to it.\<close>

definition mirroredStatus :: "ReferenceDatasetEngine \<Rightarrow> DatasetStatus \<Rightarrow> DatasetStatus \<Rightarrow> DatasetStatus" where
  "mirroredStatus e virtual physical =
     (let newStatusRuntime = AddRuntimesIfNotExist (dstRuntimes virtual)
            \<lparr>rtName = reName e, rtNamespace = reNamespace e, rtCategory = ''Accelerate'', rtType = ''thin'', rtMasterReplicas = 0\<rparr> in
      physical\<lparr>dstDatasetRef := [],
               dstRuntimes := (if length newStatusRuntime \<noteq> length (dstRuntimes virtual) then newStatusRuntime
                               else dstRuntimes virtual)\<rparr>)"

definition syncRuntimeStatus :: "referenceEnv \<Rightarrow> Dataset \<Rightarrow> (goerr option) referenceMethod" where
  "syncRuntimeStatus v dataset e =
     andThen (Reference_getRuntime v e) (\<lambda>r.
     case r of
       Inl err \<Rightarrow> ret (Some err, e)
     | Inr runtime \<Rightarrow>
         andThen (getPhysicalDatasetRuntimeStatus v e) (\<lambda>(r, e).
         case r of
           Inl err \<Rightarrow> ret (Some err, e)
         | Inr status \<Rightarrow>
             let status = status\<lparr>rsMounts := dsMounts (dSpec dataset)\<rparr> in
             if roStatus runtime \<noteq> status
             then andThen (updateRuntimeStatus (feWorld v) (runtime\<lparr>roStatus := status\<rparr>)) (\<lambda>err. ret (err, e))
             else ret (None, e)))"

definition syncReference :: "referenceEnv \<Rightarrow> (goerr option) referenceMethod" where
  "syncReference v e =
     andThen (readOwnDataset v e) (\<lambda>r.
     case r of
       Inl err \<Rightarrow> ret (Some err, e)
     | Inr virtualDataset \<Rightarrow>
         andThen (getPhysicalRuntimeInfo v e) (\<lambda>(r, e).
         case r of
           Inl err \<Rightarrow> ret (Some err, e)
         | Inr info \<Rightarrow>
             andThen (viaOp (feWorld v) (\<lambda>cl. GetDataset cl (riName info) (riNamespace info))) (\<lambda>r.
             case r of
               Inl err \<Rightarrow> ret (Some err, e)
             | Inr physical \<Rightarrow>
                 let toUpdate = virtualDataset\<lparr>dStatus := mirroredStatus e (dStatus virtualDataset) (dStatus physical)\<rparr> in
                 andThen (if dStatus virtualDataset \<noteq> dStatus toUpdate
                          then viaOp (feWorld v) (\<lambda>cl. updateDatasetStatus cl toUpdate) else ret None) (\<lambda>err.
                 if err \<noteq> None then ret (err, e) else syncRuntimeStatus v toUpdate e))))"

text \<open>The time of the last synchronisation is set when the function returns, whether it failed or not.\<close>

definition Reference_Sync :: "referenceEnv \<Rightarrow> (goerr option) referenceMethod" where
  "Reference_Sync v e =
     andThen (viaOp (feWorld v) now) (\<lambda>start.
     if \<not> Reference_permitSync e start then ret (None, e)
     else
       andThen (syncReference v e) (\<lambda>(err, e).
       andThen (viaOp (feWorld v) now) (\<lambda>finish. ret (err, e\<lparr>reTimeOfLastSync := finish\<rparr>))))"

section \<open>volume.go\<close>

definition accessModesForVirtualDataset :: "Dataset \<Rightarrow> string list \<Rightarrow> string list" where
  "accessModesForVirtualDataset virtualDataset modes =
     (if dsAccessModes (dSpec virtualDataset) = [] \<or> ''ReadOnlyMany'' \<in> set modes then [''ReadOnlyMany'']
      else dsAccessModes (dSpec virtualDataset))"

text \<open>The spec of the volume is that of the physical volume, with its own sub path, access modes and claim.\<close>

definition virtualVolume :: "RuntimeInfo \<Rightarrow> Dataset \<Rightarrow> (string \<times> string) list \<Rightarrow> PersistentVolume \<Rightarrow> PersistentVolume" where
  "virtualVolume info virtualDataset attributes physicalPV =
     physicalPV
       \<lparr>pvMeta := newMeta (GetPersistentVolumeName info) ''''
          (assignAll [(commonLabel info, ''true''),
             (''fluid.io/dataset-id'', GetDatasetId (omNamespace (dMeta virtualDataset)) (omName (dMeta virtualDataset))
                (omUID (dMeta virtualDataset)))] [])
          (omAnnotations (pvMeta physicalPV)),
        pvPhase := '''', pvClaimRef := Some (riNamespace info, riName info),
        pvAccessModes := accessModesForVirtualDataset virtualDataset (pvAccessModes physicalPV),
        pvAttributes := attributes\<rparr>"

text \<open>
  The sub path of the mount becomes an attribute of the volume. A volume that was read without attributes has none of them:
  the map is nil, and setting an entry of it panics.
\<close>

definition withSubPath ::
  "string list \<Rightarrow> (string \<times> string) list \<Rightarrow> (goerr + (string \<times> string) list) kgo" where
  "withSubPath subPaths attributes =
     (case subPaths of
        [] \<Rightarrow> ret (Inr attributes)
      | [subPath] \<Rightarrow>
          if subPath = '''' then ret (Inr attributes)
          else if attributes = [] then panic ''assignment to entry in nil map''
          else ret (Inr (AList.update ''fluid_sub_path'' subPath attributes))
      | _ \<Rightarrow> ret (Inl (Err ''the dataset is not validated, only support dataset mounts which expects 1'')))"

definition createVirtualVolume :: "world \<Rightarrow> RuntimeInfo \<Rightarrow> RuntimeInfo \<Rightarrow> (string list \<times> goerr option) kgo" where
  "createVirtualVolume w virtualInfo physicalInfo =
     andThen (IsPersistentVolumeExist w (GetPersistentVolumeName virtualInfo) GetExpectedFluidAnnotations) (\<lambda>(found, err).
     if err \<noteq> None then ret ([], err)
     else if found then ret ([], None)
     else
       andThen (GetPersistentVolume w (GetPersistentVolumeName physicalInfo)) (\<lambda>r.
       case r of
         Inl err \<Rightarrow> ret ([], Some err)
       | Inr physicalPV \<Rightarrow>
           andThen (viaOp w (\<lambda>cl. GetDataset cl (riName virtualInfo) (riNamespace virtualInfo))) (\<lambda>r.
           case r of
             Inl err \<Rightarrow> ret ([], Some err)
           | Inr virtualDataset \<Rightarrow>
               andThen (withSubPath (GetPhysicalDatasetSubPath virtualDataset) (pvAttributes physicalPV)) (\<lambda>r.
               case r of
                 Inl err \<Rightarrow> ret ([], Some err)
               | Inr attributes \<Rightarrow>
                   let pv = virtualVolume virtualInfo virtualDataset attributes physicalPV in
                   andThen (call (\<lambda>h. kwCreateVolume w h pv) (CreatedVolume pv)) (\<lambda>err.
                   ret (pvAccessModes pv, err))))))"

definition virtualClaim :: "RuntimeInfo \<Rightarrow> string list \<Rightarrow> Claim \<Rightarrow> Claim" where
  "virtualClaim info accessModes runtimePVC =
     \<lparr>pvcMeta = newMeta (riName info) (riNamespace info)
        (assignAll
           [(GetNamespacedNameValueWithPrefix storagePrefix (riNamespace info) (riName info) (riOwnerDatasetUID info), ''true''),
            (''fluid.io/dataset.referring-name'', omName (pvcMeta runtimePVC)),
            (''fluid.io/dataset.referring-namespace'', omNamespace (pvcMeta runtimePVC)),
            (''fluid.io/dataset-id'', GetDatasetId (riNamespace info) (riName info) (riOwnerDatasetUID info))] [])
        GetExpectedFluidAnnotations,
      pvcVolumeName = GetPersistentVolumeName info, pvcAccessModes = accessModes, pvcRequest = pvcRequest runtimePVC\<rparr>"

definition createVirtualClaim :: "world \<Rightarrow> RuntimeInfo \<Rightarrow> RuntimeInfo \<Rightarrow> string list \<Rightarrow> (goerr option) kgo" where
  "createVirtualClaim w virtualInfo physicalInfo accessModes =
     andThen (IsPersistentVolumeClaimExist w (riName virtualInfo) (riNamespace virtualInfo) GetExpectedFluidAnnotations)
       (\<lambda>(found, err).
     if err \<noteq> None then ret err
     else if found then ret None
     else
       andThen (GetPersistentVolumeClaim w (riName physicalInfo) (riNamespace physicalInfo)) (\<lambda>r.
       case r of
         Inl err \<Rightarrow> ret (Some err)
       | Inr runtimePVC \<Rightarrow>
           let pvc = virtualClaim virtualInfo accessModes runtimePVC in
           call (\<lambda>h. kwCreateClaim w h pvc) (CreatedClaim pvc)))"

definition Reference_CreateVolume :: "referenceEnv \<Rightarrow> (goerr option) referenceMethod" where
  "Reference_CreateVolume v e =
     andThen (Reference_getRuntimeInfo v e) (\<lambda>(r, e).
     case r of
       Inl err \<Rightarrow> ret (Some err, e)
     | Inr info \<Rightarrow>
         andThen (getPhysicalRuntimeInfo v e) (\<lambda>(r, e).
         case r of
           Inl err \<Rightarrow> ret (Some err, e)
         | Inr physicalInfo \<Rightarrow>
             andThen (createVirtualVolume (feWorld v) info physicalInfo) (\<lambda>(accessModes, err).
             if err \<noteq> None then ret (err, e)
             else
               andThen (createVirtualClaim (feWorld v) info physicalInfo accessModes) (\<lambda>err. ret (err, e)))))"

definition Reference_DeleteVolume :: "referenceEnv \<Rightarrow> (goerr option) referenceMethod" where
  "Reference_DeleteVolume v e =
     andThen (Reference_getRuntimeInfo v e) (\<lambda>(r, e).
     case r of
       Inl err \<Rightarrow> ret (Some err, e)
     | Inr info \<Rightarrow>
         andThen (DeleteFusePersistentVolumeClaim (feWorld v) info) (\<lambda>err.
         if err \<noteq> None then ret (err, e)
         else andThen (DeleteFusePersistentVolume (feWorld v) info) (\<lambda>err. ret (err, e))))"

section \<open>The physical dataset is kept\<close>

text \<open>An event that does not release a dataset with the reference \<open>ref\<close>: no dataset is written, and no status without it.\<close>

definition referenceKept :: "string \<Rightarrow> kevent \<Rightarrow> bool" where
  "referenceKept ref ev \<longleftrightarrow>
     quietDataset ev \<and> (\<forall>d a. ev = Op (UpdatedDatasetStatus d a) \<longrightarrow> ref \<in> set (dstDatasetRef (dStatus d)))"

definition datasetExists :: "world \<Rightarrow> string \<Rightarrow> string \<Rightarrow> bool" where
  "datasetExists w name namespace \<longleftrightarrow> (\<forall>h. \<exists>d. clGetDataset (kwCluster w h) (opHistory h) name namespace = Inr d)"

definition keepsReferenceFrom :: "string \<Rightarrow> kevent list \<Rightarrow> kevent list \<Rightarrow> bool" where
  "keepsReferenceFrom ref h h' \<longleftrightarrow> (\<exists>es. h' = h @ es \<and> list_all (referenceKept ref) es)"

lemma keepsReferenceFrom_refl [simp]: "keepsReferenceFrom ref h h"
  by (simp add: keepsReferenceFrom_def)

lemma keepsReferenceFrom_snoc [simp]:
  "referenceKept ref ev \<Longrightarrow> keepsReferenceFrom ref h (h @ [ev])"
  by (simp add: keepsReferenceFrom_def)

lemma keepsReferenceFrom_trans:
  "keepsReferenceFrom ref h h1 \<Longrightarrow> keepsReferenceFrom ref h1 h2 \<Longrightarrow> keepsReferenceFrom ref h h2"
  by (auto simp: keepsReferenceFrom_def)

lemma keepsReferenceFrom_add:
  "keepsReferenceFrom ref h h1 \<Longrightarrow> referenceKept ref ev \<Longrightarrow> keepsReferenceFrom ref h (h1 @ [ev])"
  by (erule keepsReferenceFrom_trans) simp

lemma referenceKept_simps [simp]:
  "referenceKept ref (Op (GotDataset a b r))" "referenceKept ref (ReadClaim a b r1)" "referenceKept ref (ListedPods a b r2)"
  "referenceKept ref (Op (Recorded a b c d e))"
  by (simp_all add: referenceKept_def quietDataset_def)

lemma refName_split:
  assumes "CHR ''/'' \<notin> set name" and "CHR ''/'' \<notin> set namespace"
  shows "Split CHR ''/'' (GetDatasetRefName name namespace) = [namespace, name]"
  using assms by (simp add: GetDatasetRefName_def Split_append_sep Split_word)

lemma wp_existingRefs:
  assumes "datasetExists w name namespace" and "CHR ''/'' \<notin> set name" and "CHR ''/'' \<notin> set namespace"
    and ref: "ref = GetDatasetRefName name namespace"
  shows "wp (existingRefs w refs acc) (\<lambda>r h'. keepsReferenceFrom ref h h' \<and>
     (\<forall>kept. r = Ret (Inr kept) \<longrightarrow> ref \<in> set refs \<union> set acc \<longrightarrow> ref \<in> set kept)) h"
proof (induction refs arbitrary: acc h)
  case Nil
  then show ?case by (simp add: wp_rules)
next
  case (Cons x refs)
  have step: "wp (existingRefs w refs acc') (\<lambda>r h'. keepsReferenceFrom ref h h' \<and>
      (\<forall>kept. r = Ret (Inr kept) \<longrightarrow> ref \<in> set (x # refs) \<union> set acc \<longrightarrow> ref \<in> set kept)) h1"
    if "keepsReferenceFrom ref h h1" "ref \<in> set (x # refs) \<union> set acc \<Longrightarrow> ref \<in> set refs \<union> set acc'" for acc' h1
    by (rule wp_mono [OF Cons.IH]) (use that keepsReferenceFrom_trans in blast)
  obtain d where d: "clGetDataset (kwCluster w h) (opHistory h) name namespace = Inr d"
    using assms(1) by (auto simp: datasetExists_def)
  show ?case
  proof (cases "x = ref")
    case True
    with d show ?thesis
      by (simp add: refName_split [OF assms(2,3), folded ref] GetDataset_def wp_rules Let_def)
         (rule wp_mono [OF step [of _ "acc @ [ref]"]], auto)
  next
    case False
    then show ?thesis
      by (auto simp: GetDataset_def wp_rules Let_def split: list.splits sum.splits intro!: wp_mono [OF step])
  qed
qed

lemma wp_shouldDelete: "wp (ShouldDeleteDataset w name namespace) (\<lambda>r h'. keepsReferenceFrom ref h h') h"
  unfolding ShouldDeleteDataset_def IsPersistentVolumeClaimExist_def GetPvcMountPods_def read_defs
  by (auto simp: wp_rules keepsReferenceFrom_def split: sum.splits option.splits)

lemma wp_referencedDeletion:
  assumes "datasetExists w name namespace" and "CHR ''/'' \<notin> set name" and "CHR ''/'' \<notin> set namespace"
    and "ref = GetDatasetRefName name namespace" and "ref \<in> set (dstDatasetRef (dStatus dataset))"
  shows "wp (reconcileDatasetDeletion w n ns dataset) (\<lambda>_ h'. keepsReferenceFrom ref h h') h"
proof -
  have refs: "dstDatasetRef (dStatus dataset) \<noteq> []" using assms(5) by auto
  have drop: "wp (RemoveNotFoundDatasetRef w dataset) Q h1"
    if h1: "keepsReferenceFrom ref h h1" and Q: "\<And>r h2. keepsReferenceFrom ref h h2 \<Longrightarrow>
        (\<And>kept. r = Ret (Inr kept) \<Longrightarrow> ref \<in> set kept) \<Longrightarrow> Q r h2" for Q h1
    unfolding RemoveNotFoundDatasetRef_def
    by (rule wp_mono [OF wp_existingRefs [OF assms(1-4)]]) (rule Q, use assms(5) keepsReferenceFrom_trans [OF h1] in auto)
  show ?thesis
    unfolding reconcileDatasetDeletion_def wp_andThen [of "ShouldDeleteDataset w n ns"] if_not_P [OF refs]
    by (rule wp_mono [OF wp_shouldDelete [where ref = ref]])
       (auto simp: wp_rules recordDataset_def updateDatasetStatus_def referenceKept_def quietDataset_def Let_def
          keepsReferenceFrom_add split: out.splits option.splits sum.splits intro!: drop)
qed

definition withReference :: "string \<Rightarrow> Dataset \<Rightarrow> Dataset" where
  "withReference ref physical = setStatus (\<lambda>s. s\<lparr>dstDatasetRef := dstDatasetRef s @ [ref]\<rparr>) physical"

text \<open>
  The run has read the physical dataset, bound to a runtime, and either found the reference there or added it with the very next
  call, which succeeded.
\<close>

definition registeredIn :: "string \<Rightarrow> string \<Rightarrow> string \<Rightarrow> kevent list \<Rightarrow> bool" where
  "registeredIn ref name namespace es \<longleftrightarrow>
     (\<exists>physical es1 es2. es = es1 @ Op (GotDataset name namespace (Inr physical)) # es2 \<and> dstRuntimes (dStatus physical) \<noteq> [] \<and>
        (ref \<in> set (dstDatasetRef (dStatus physical)) \<or>
         (\<exists>es3. es2 = Op (UpdatedDatasetStatus (withReference ref physical) None) # es3)))"

fun copiesResource :: "kevent \<Rightarrow> bool" where
  "copiesResource (CreatedDaemonSet _ _) = True"
| "copiesResource (CreatedConfigMap _ _) = True"
| "copiesResource _ = False"

lemma registeredIn_append: "registeredIn ref name namespace es \<Longrightarrow> registeredIn ref name namespace (es @ es')"
  unfolding registeredIn_def by (metis append.assoc append_Cons)

lemma registeredIn_last:
  "dstRuntimes (dStatus physical) \<noteq> [] \<Longrightarrow> ref \<in> set (dstDatasetRef (dStatus physical)) \<Longrightarrow>
     registeredIn ref name namespace (es @ [Op (GotDataset name namespace (Inr physical))])"
  "dstRuntimes (dStatus physical) \<noteq> [] \<Longrightarrow> registeredIn ref name namespace
     (es @ [Op (GotDataset name namespace (Inr physical)), Op (UpdatedDatasetStatus (withReference ref physical) None)])"
  unfolding registeredIn_def by (intro exI [of _ physical] exI [of _ es] exI, auto)+

lemma wp_register:
  "wp (RetryOnConflict (registerOnce v dataset name namespace)) (\<lambda>r h'. \<exists>es. h' = h @ es \<and> list_all (\<lambda>ev. \<not> copiesResource ev) es \<and>
     (r = Ret None \<longrightarrow> registeredIn (GetDatasetRefName (omName (dMeta dataset)) (omNamespace (dMeta dataset))) name namespace es)) h"
proof (rule RetryOnConflict_induct [where I = "\<lambda>h'. \<exists>es. h' = h @ es \<and> list_all (\<lambda>ev. \<not> copiesResource ev) es"])
  fix h1 assume "\<exists>es. h1 = h @ es \<and> list_all (\<lambda>ev. \<not> copiesResource ev) es"
  then obtain es where es: "h1 = h @ es" "list_all (\<lambda>ev. \<not> copiesResource ev) es" by blast
  show "wp (registerOnce v dataset name namespace) (\<lambda>r h'. (\<forall>err. r = Ret (Some err) \<longrightarrow> IsConflict err \<longrightarrow>
      (\<exists>es. h' = h @ es \<and> list_all (\<lambda>ev. \<not> copiesResource ev) es)) \<and>
      (\<exists>es. h' = h @ es \<and> list_all (\<lambda>ev. \<not> copiesResource ev) es \<and> (r = Ret None \<longrightarrow>
        registeredIn (GetDatasetRefName (omName (dMeta dataset)) (omNamespace (dMeta dataset))) name namespace es))) h1"
    unfolding registerOnce_def withReference_def [symmetric] es(1)
    using es(2) by (auto simp: wp_rules GetDataset_def updateDatasetStatus_def Let_def ContainsString_def list_ex_iff registeredIn_last
        split: sum.splits)
qed auto

lemma emits_physicalInfo:
  assumes "\<And>a b r. P (Op (GotDataset a b r))" and "\<And>k a b r. P (ReadRuntime k a b r)"
  shows "emits P (getPhysicalRuntimeInfo v e)"
  unfolding getPhysicalRuntimeInfo_def physicalNames_def readOwnDataset_def Reference_getRuntime_def getRuntimeObject_def
    GetRuntimeInfo_def GetDataset_def Let_def
  by (auto intro!: emits_rules assms)

lemma emits_copyResources: "emits (\<lambda>_. True) (copyResources v dataset e)"
proof -
  have "emits (\<lambda>_. True) (copyConfigMaps w a b c names)" for w a b c names
    by (induction names) (auto simp: CopyConfigMap_def IsConfigMapExist_def GetConfigmapByName_def createConfigMap_def intro!: emits_rules)
  then show ?thesis
    unfolding copyResources_def copyFuseDaemonSetForRefDataset_def createConfigMapForRefDataset_def GetDaemonset_def Let_def
    by (auto intro!: emits_rules emits_physicalInfo)
qed

lemma wp_Setup:
  "wp (Reference_Setup v dataset e) (\<lambda>r h'. \<exists>es. h' = h @ es \<and>
     ((\<exists>e'. r = Ret ((True, None), e')) \<or> list_ex copiesResource es \<longrightarrow>
      (\<exists>namespace name es1 es2. GetPhysicalDatasetFromMounts (dsMounts (dSpec dataset)) = [(namespace, name)] \<and> es = es1 @ es2 \<and>
         list_all (\<lambda>ev. \<not> copiesResource ev) es1 \<and>
         registeredIn (GetDatasetRefName (omName (dMeta dataset)) (omNamespace (dMeta dataset))) name namespace es1))) h"
proof (cases "\<exists>namespace name. GetPhysicalDatasetFromMounts (dsMounts (dSpec dataset)) = [(namespace, name)]")
  case True
  then obtain namespace name where one: "GetPhysicalDatasetFromMounts (dsMounts (dSpec dataset)) = [(namespace, name)]" by blast
  show ?thesis
    unfolding Reference_Setup_def one list.case prod.case wp_andThen
    by (rule wp_mono [OF wp_register],
        auto simp: wp_rules list_ex_iff list_all_iff split: out.splits intro!: wp_mono [OF wp_emits [OF emits_copyResources]])
       blast+
next
  case False
  then show ?thesis
    unfolding Reference_Setup_def by (auto simp: wp_rules split: list.splits)
qed

text \<open>
  C8. When the setup of a reference dataset reports that it is ready, or has copied the fuse or a config map into its namespace, it
  has registered the dataset with the one dataset it mounts, before it copied anything: it read that dataset, bound to a runtime,
  and found the reference among its references, or added it with the very next call, a write that succeeded. And the
  reference protects: whenever a dataset that has the reference is being deleted, whatever else it has become by then, then as long
  as the reference dataset exists its reconciliation does not take the finalizer away and writes no status without the reference.
\<close>

theorem referenced_dataset_kept:
  assumes "Reference_Setup v dataset e h = (r, h @ es)"
    and "(\<exists>e'. r = Ret ((True, None), e')) \<or> list_ex copiesResource es"
    and "CHR ''/'' \<notin> set (omName (dMeta dataset))" and "CHR ''/'' \<notin> set (omNamespace (dMeta dataset))"
    and "ref = GetDatasetRefName (omName (dMeta dataset)) (omNamespace (dMeta dataset))"
  shows "(\<exists>namespace name es1 es2. GetPhysicalDatasetFromMounts (dsMounts (dSpec dataset)) = [(namespace, name)] \<and>
      es = es1 @ es2 \<and> \<not> list_ex copiesResource es1 \<and> registeredIn ref name namespace es1) \<and>
    (\<forall>w n ns physical h r h'. ref \<in> set (dstDatasetRef (dStatus physical)) \<longrightarrow>
       datasetExists w (omName (dMeta dataset)) (omNamespace (dMeta dataset)) \<longrightarrow>
       reconcileDatasetDeletion w n ns physical h = (r, h') \<longrightarrow> keepsReferenceFrom ref h h')"
proof -
  obtain namespace name es1 es2 where one: "GetPhysicalDatasetFromMounts (dsMounts (dSpec dataset)) = [(namespace, name)]"
    and es: "es = es1 @ es2" "list_all (\<lambda>ev. \<not> copiesResource ev) es1" and reg: "registeredIn ref name namespace es1"
    using wp_run [OF wp_Setup assms(1)] assms(2,5) by auto
  have kept: "keepsReferenceFrom ref h1 h'" if "ref \<in> set (dstDatasetRef (dStatus physical))"
    "datasetExists w (omName (dMeta dataset)) (omNamespace (dMeta dataset))"
    "reconcileDatasetDeletion w n ns physical h1 = (q, h')" for w n ns physical h1 q h'
    by (rule wp_run [OF wp_referencedDeletion [OF that(2) assms(3-5) that(1)] that(3)])
  have "\<not> list_ex copiesResource es1" using es(2) by (simp add: list_all_iff list_ex_iff)
  with one es(1) reg kept show ?thesis by blast
qed

definition baseDataset :: Dataset where
  "baseDataset = setStatus (\<lambda>s. s\<lparr>dstRuntimes := [\<lparr>rtName = ''base'', rtNamespace = ''ns'', rtCategory = ''Accelerate'',
     rtType = ''alluxio'', rtMasterReplicas = 1\<rparr>], dstUfsTotal := ''7GiB'', dstDatasetRef := []\<rparr>) exampleDataset"

definition referenceCluster :: cluster where
  "referenceCluster = downCluster
     \<lparr>clGetDataset := \<lambda>_ name _. Inr (if name = ''base'' then baseDataset else referenceDataset), clUpdateDatasetStatus := \<lambda>_ _. None\<rparr>"

definition baseFuse :: DaemonSet where
  "baseFuse = \<lparr>dsmName = ''base-fuse'', dsmNamespace = ''ns'', dsmOwners = [], dsmLabels = [], dsmGeneration = 1, dsmContainers = [],
     dsmVolumes = [], dsmNodeSelector = [], dsmDesired = 1, dsmCurrent = 1, dsmReady = 1, dsmAvailable = 1, dsmUnavailable = 0\<rparr>"

definition referenceWorld :: world where
  "referenceWorld = downWorld
     \<lparr>kwCluster := \<lambda>_. referenceCluster, kwGetRuntime := \<lambda>_ _ _ _. Inr exampleRuntime, kwGetDaemonSet := \<lambda>_ _ _. Inr baseFuse,
      kwCreateDaemonSet := \<lambda>_ _. None,
      kwGetConfigMap := \<lambda>_ name namespace. Inr \<lparr>cmName = name, cmNamespace = namespace, cmOwners = [], cmLabels = [],
        cmAnnotations = [], cmData = []\<rparr>\<rparr>"

definition exampleReferenceEnv :: referenceEnv where
  "exampleReferenceEnv = \<lparr>feWorld = referenceWorld, feParseQuantity = \<lambda>_. None, feMetadataList = \<lambda>_. [], feParseDuration = \<lambda>_. None\<rparr>"

definition exampleReferenceEngine :: ReferenceDatasetEngine where
  "exampleReferenceEngine = \<lparr>reId = ''default-demo'', reName = ''demo'', reNamespace = ''default'', reSyncRetryDuration = 5,
     reTimeOfLastSync = 0, reRuntimeType = ''thin'', reRuntimeInfo = None, rePhysicalRuntimeInfo = None\<rparr>"

lemma reference_world_simps [simp]:
  "feWorld exampleReferenceEnv = referenceWorld" "kwCluster referenceWorld h = referenceCluster"
  "kwGetRuntime referenceWorld h a b c = Inr exampleRuntime" "kwGetDaemonSet referenceWorld h a b = Inr baseFuse"
  "kwCreateDaemonSet referenceWorld h ds = None"
  "clGetDataset referenceCluster oh name a = Inr (if name = ''base'' then baseDataset else referenceDataset)"
  "clUpdateDatasetStatus referenceCluster oh d = None"
  "kwGetConfigMap referenceWorld h name namespace = Inr \<lparr>cmName = name, cmNamespace = namespace, cmOwners = [], cmLabels = [],
        cmAnnotations = [], cmData = []\<rparr>"
  by (simp_all add: exampleReferenceEnv_def referenceWorld_def referenceCluster_def)

lemma reference_mounts:
  "GetPhysicalDatasetFromMounts (dsMounts (dSpec referenceDataset)) = [(''ns'', ''base'')]"
  "GetPhysicalDatasetSubPath referenceDataset = [''sub/dir'']"
  using reference_roundtrip [where mount = "hd (dsMounts (dSpec referenceDataset))" and name = "''base''" and namespace = "''ns''"
      and subPath = "''sub/dir''" and dataset = referenceDataset]
  by (simp_all add: referenceDataset_def GetDatasetRefName_def)

lemma reference_setup:
  "wp (Reference_Setup exampleReferenceEnv referenceDataset exampleReferenceEngine) (\<lambda>r h'. \<exists>e. r = Ret ((True, None), e)) h"
  unfolding Reference_Setup_def reference_mounts list.case prod.case RetryOnConflict_def DefaultBackoff_Steps_def registerOnce_def
    copyResources_def getPhysicalRuntimeInfo_def physicalNames_def readOwnDataset_def GetDataset_def updateDatasetStatus_def
    GetRuntimeInfo_def getRuntimeObject_def copyFuseDaemonSetForRefDataset_def GetDaemonset_def createConfigMapForRefDataset_def
    IgnoreAlreadyExists_def
  by (simp add: wp_rules numeral_eq_Suc Let_def baseDataset_def exampleReferenceEngine_def reference_mounts onlyPhysical_def runtimeKinds_def
      runtimeInfoOf_def runtimeInfoWith_def BuildRuntimeInfo_def SetFuseNodeSelector_def SetupFuseCleanPolicy_def SetOwnerDatasetUID_def fuseConfigMaps_def
      CopyConfigMap_def IsConfigMapExist_def ContainsString_def)

theorem referenced_dataset_kept_witness:
  "registeredIn ''default/demo'' ''base'' ''ns'' (snd (Reference_Setup exampleReferenceEnv referenceDataset exampleReferenceEngine [])) \<and>
   keepsReferenceFrom ''default/demo'' []
     (snd (reconcileDatasetDeletion referenceWorld ''base'' ''ns'' (withReference ''default/demo'' baseDataset) []))"
proof -
  let ?m = "Reference_Setup exampleReferenceEnv referenceDataset exampleReferenceEngine"
  obtain e where "fst (?m []) = Ret ((True, None), e)"
    using reference_setup [of "[]"] by (auto simp: wp_def split: prod.splits)
  then have run: "?m [] = (Ret ((True, None), e), [] @ snd (?m []))" by (simp add: prod_eq_iff)
  have names: "omName (dMeta referenceDataset) = ''demo''" "omNamespace (dMeta referenceDataset) = ''default''"
    by (simp_all add: referenceDataset_def exampleDataset_def)
  have ready: "datasetExists referenceWorld ''demo'' ''default''" by (simp add: datasetExists_def)
  have listed: "''default/demo'' \<in> set (dstDatasetRef (dStatus (withReference ''default/demo'' baseDataset)))"
    by (simp add: withReference_def)
  have ref: "''default/demo'' = GetDatasetRefName (omName (dMeta referenceDataset)) (omNamespace (dMeta referenceDataset))"
    by (simp add: names GetDatasetRefName_def)
  have kept: "(\<exists>namespace name es1 es2. GetPhysicalDatasetFromMounts (dsMounts (dSpec referenceDataset)) = [(namespace, name)] \<and>
      snd (?m []) = es1 @ es2 \<and> \<not> list_ex copiesResource es1 \<and> registeredIn ''default/demo'' name namespace es1) \<and>
    (\<forall>w n ns physical h r h'. ''default/demo'' \<in> set (dstDatasetRef (dStatus physical)) \<longrightarrow>
       datasetExists w (omName (dMeta referenceDataset)) (omNamespace (dMeta referenceDataset)) \<longrightarrow>
       reconcileDatasetDeletion w n ns physical h = (r, h') \<longrightarrow> keepsReferenceFrom ''default/demo'' h h')"
    by (rule referenced_dataset_kept [OF run _ _ _ ref]) (simp_all add: names)
  from conjunct1 [OF kept] have "registeredIn ''default/demo'' ''base'' ''ns'' (snd (?m []))"
    unfolding reference_mounts by (auto intro: registeredIn_append)
  moreover from conjunct2 [OF kept, rule_format, OF listed, unfolded names, OF ready]
  have "keepsReferenceFrom ''default/demo'' []
     (snd (reconcileDatasetDeletion referenceWorld ''base'' ''ns'' (withReference ''default/demo'' baseDataset) []))"
    by (metis prod.collapse)
  ultimately show ?thesis ..
qed

section \<open>The volume of a reference dataset\<close>

text \<open>A volume shares the storage of the physical volume: handle, capacity, node affinity and all attributes but the sub path.\<close>

definition sharesStorage :: "PersistentVolume \<Rightarrow> PersistentVolume \<Rightarrow> bool" where
  "sharesStorage physicalPV pv \<longleftrightarrow>
     pvVolumeHandle pv = pvVolumeHandle physicalPV \<and> pvCapacity pv = pvCapacity physicalPV \<and>
     pvNodeAffinity pv = pvNodeAffinity physicalPV \<and>
     (\<forall>k. k \<noteq> ''fluid_sub_path'' \<longrightarrow> map_of (pvAttributes pv) k = map_of (pvAttributes physicalPV) k)"

definition readOnlyRespected :: "PersistentVolume \<Rightarrow> PersistentVolume \<Rightarrow> bool" where
  "readOnlyRespected physicalPV pv \<longleftrightarrow>
     pvAccessModes pv \<noteq> [] \<and> (''ReadOnlyMany'' \<in> set (pvAccessModes physicalPV) \<longrightarrow> pvAccessModes pv = [''ReadOnlyMany''])"

lemma virtualVolume_shares:
  assumes "\<And>k. k \<noteq> ''fluid_sub_path'' \<Longrightarrow> map_of attributes k = map_of (pvAttributes physicalPV) k"
  shows "sharesStorage physicalPV (virtualVolume info dataset attributes physicalPV)"
    "readOnlyRespected physicalPV (virtualVolume info dataset attributes physicalPV)"
  using assms by (simp_all add: sharesStorage_def readOnlyRespected_def virtualVolume_def accessModesForVirtualDataset_def)

lemma wp_withSubPath:
  assumes "\<And>err. Q (Ret (Inl err)) h" and "\<And>s. Q (Panic s) h"
    and "\<And>attributes'. (\<And>k. k \<noteq> ''fluid_sub_path'' \<Longrightarrow> map_of attributes' k = map_of attributes k) \<Longrightarrow> Q (Ret (Inr attributes')) h"
  shows "wp (withSubPath subPaths attributes) Q h"
  unfolding withSubPath_def
  by (auto simp: wp_rules update_conv' assms(1,2) split: list.splits intro!: assms(3))

text \<open>What a run for the runtime \<open>info\<close> that mounts the runtime \<open>physicalInfo\<close> may create.\<close>

definition volumesShared :: "RuntimeInfo \<Rightarrow> RuntimeInfo \<Rightarrow> kevent list \<Rightarrow> bool" where
  "volumesShared info physicalInfo es \<longleftrightarrow> (\<forall>pv a. CreatedVolume pv a \<in> set es \<longrightarrow>
     omName (pvMeta pv) = GetPersistentVolumeName info \<and> pvClaimRef pv = Some (riNamespace info, riName info) \<and>
     (\<exists>physicalPV. ReadVolume (GetPersistentVolumeName physicalInfo) (Inr physicalPV) \<in> set es \<and>
        sharesStorage physicalPV pv \<and> readOnlyRespected physicalPV pv))"

definition claimsRefer :: "RuntimeInfo \<Rightarrow> RuntimeInfo \<Rightarrow> kevent list \<Rightarrow> bool" where
  "claimsRefer info physicalInfo es \<longleftrightarrow> (\<forall>pvc a. CreatedClaim pvc a \<in> set es \<longrightarrow> CheckIfPVCIsDataset (Some pvc) \<and>
     omName (pvcMeta pvc) = riName info \<and> omNamespace (pvcMeta pvc) = riNamespace info \<and>
     (\<forall>pv b. CreatedVolume pv b \<in> set es \<longrightarrow> pvcAccessModes pvc = pvAccessModes pv \<and> pvcVolumeName pvc = omName (pvMeta pv)) \<and>
     (\<exists>claim. ReadClaim (riName physicalInfo) (riNamespace physicalInfo) (Inr claim) \<in> set es \<and>
        GetReferringDatasetPVCInfo pvc = (True, omName (pvcMeta claim), omNamespace (pvcMeta claim))))"

text \<open>
  The names of the runtime of the engine, and that \<open>physicalInfo\<close> is about the runtime of the one dataset that it mounts: the engine
  knows it from before, or the mounts of its dataset, or of the status of its runtime, are read in the run and name it.
\<close>

definition ownNames :: "ReferenceDatasetEngine \<Rightarrow> string \<times> string" where
  "ownNames e = (case reRuntimeInfo e of None \<Rightarrow> (reNamespace e, reName e) | Some info \<Rightarrow> (riNamespace info, riName info))"

definition mountedBy :: "ReferenceDatasetEngine \<Rightarrow> RuntimeInfo \<Rightarrow> kevent list \<Rightarrow> bool" where
  "mountedBy e physicalInfo es \<longleftrightarrow>
     rePhysicalRuntimeInfo e = Some physicalInfo \<or>
     (\<exists>dataset. Op (GotDataset (reName e) (reNamespace e) (Inr dataset)) \<in> set es \<and>
        GetPhysicalDatasetFromMounts (dsMounts (dSpec dataset)) = [(riNamespace physicalInfo, riName physicalInfo)]) \<or>
     (\<exists>runtime. ReadRuntime ''ThinRuntime'' (reName e) (reNamespace e) (Inr runtime) \<in> set es \<and>
        GetPhysicalDatasetFromMounts (rsMounts (roStatus runtime)) = [(riNamespace physicalInfo, riName physicalInfo)])"

lemma claim_refers:
  "CheckIfPVCIsDataset (Some (virtualClaim info modes claim))"
  "GetReferringDatasetPVCInfo (virtualClaim info modes claim) = (True, omName (pvcMeta claim), omNamespace (pvcMeta claim))"
proof -
  let ?key = "GetNamespacedNameValueWithPrefix storagePrefix (riNamespace info) (riName info) (riOwnerDatasetUID info)"
  have "?key \<in> dom (map_of (omLabels (pvcMeta (virtualClaim info modes claim))))"
    by (simp add: virtualClaim_def newMeta_def dom_assignAll)
  moreover have "HasPrefix ?key storagePrefix"
    by (simp add: GetNamespacedNameValueWithPrefix_def HasPrefix_iff Let_def)
  ultimately show "CheckIfPVCIsDataset (Some (virtualClaim info modes claim))"
    by (auto simp: CheckIfPVCIsDataset_def list_ex_iff dest!: map_of_SomeD)
  show "GetReferringDatasetPVCInfo (virtualClaim info modes claim) = (True, omName (pvcMeta claim), omNamespace (pvcMeta claim))"
    by (simp add: GetReferringDatasetPVCInfo_def virtualClaim_def newMeta_def assignAll_def update_conv' lookupStr_def)
qed

fun createsObject :: "kevent \<Rightarrow> bool" where
  "createsObject (CreatedVolume _ _) = True"
| "createsObject (CreatedClaim _ _) = True"
| "createsObject _ = False"

lemma virtualVolume_name [simp]:
  "omName (pvMeta (virtualVolume info dataset attributes physicalPV)) = GetPersistentVolumeName info"
  "pvClaimRef (virtualVolume info dataset attributes physicalPV) = Some (riNamespace info, riName info)"
  by (simp_all add: virtualVolume_def newMeta_def)

lemma wp_createVirtualVolume:
  "wp (createVirtualVolume w info physicalInfo) (\<lambda>r h'. \<exists>es. h' = h @ es \<and> volumesShared info physicalInfo es \<and>
     (\<forall>pvc a. CreatedClaim pvc a \<notin> set es) \<and>
     (\<forall>modes. r = Ret (modes, None) \<longrightarrow> (\<forall>pv a. CreatedVolume pv a \<in> set es \<longrightarrow> pvAccessModes pv = modes))) h"
  unfolding createVirtualVolume_def IsPersistentVolumeExist_def GetPersistentVolume_def GetDataset_def
  by (auto simp: wp_rules Let_def volumesShared_def split: sum.splits intro!: wp_withSubPath)
     (auto intro: virtualVolume_shares)

lemma emits_referenceInfo:
  assumes "\<And>a b r. P (Op (GotDataset a b r))" and "\<And>k a b r. P (ReadRuntime k a b r)"
  shows "emits P (Reference_getRuntimeInfo v e)"
  unfolding Reference_getRuntimeInfo_def buildReferenceInfo_def ownerReferenceInfo_def placementReferenceInfo_def
    readOwnDataset_def Reference_getRuntime_def getRuntimeObject_def GetDataset_def Let_def
  by (auto intro!: emits_rules assms)

lemma wp_createVirtualClaim:
  assumes "volumesShared info physicalInfo es" and "\<And>pvc a. CreatedClaim pvc a \<notin> set es"
    and "\<And>pv a. CreatedVolume pv a \<in> set es \<Longrightarrow> pvAccessModes pv = modes"
  shows "wp (createVirtualClaim w info physicalInfo modes)
    (\<lambda>_ h'. \<exists>es'. h' = h @ es' \<and> volumesShared info physicalInfo es' \<and> claimsRefer info physicalInfo es') (h @ es)"
proof -
  have volumes: "volumesShared info physicalInfo (es @ es')" if "\<And>pv a. CreatedVolume pv a \<notin> set es'" for es'
    using assms(1) that unfolding volumesShared_def by (simp, blast)
  have named: "omName (pvMeta pv) = GetPersistentVolumeName info" if "CreatedVolume pv a \<in> set es" for pv a
    using assms(1) that unfolding volumesShared_def by blast
  have claims: "claimsRefer info physicalInfo (es @ [ReadClaim a b r])"
    "claimsRefer info physicalInfo (es @ [ReadClaim a b r, ReadClaim a1 b1 r1])"
    "claimsRefer info physicalInfo (es @ [ReadClaim a b r, ReadClaim (riName physicalInfo) (riNamespace physicalInfo) (Inr claim),
       CreatedClaim (virtualClaim info modes claim) c])"
    for a b r a1 b1 r1 claim c
    using assms(2,3) named unfolding claimsRefer_def by (auto simp: claim_refers) (auto simp: virtualClaim_def newMeta_def)
  show ?thesis
    unfolding createVirtualClaim_def IsPersistentVolumeClaimExist_def GetPersistentVolumeClaim_def
    by (auto simp: wp_rules Let_def volumes claims split: sum.splits)
qed

lemma wp_createBoth:
  "wp (andThen (createVirtualVolume w info physicalInfo) (\<lambda>(modes, err).
         if err \<noteq> None then ret (err, e)
         else andThen (createVirtualClaim w info physicalInfo modes) (\<lambda>err. ret (err, e))))
     (\<lambda>_ h'. \<exists>es. h' = h @ es \<and> volumesShared info physicalInfo es \<and> claimsRefer info physicalInfo es) h"
proof -
  have none: "claimsRefer info physicalInfo es" if "\<forall>pvc a. CreatedClaim pvc a \<notin> set es" for es
    using that by (auto simp: claimsRefer_def)
  show ?thesis
    unfolding wp_andThen
    by (rule wp_mono [OF wp_createVirtualVolume], elim exE conjE)
       (auto simp: wp_rules none split: out.splits intro!: wp_mono [OF wp_createVirtualClaim], blast)
qed

text \<open>What the information about the two runtimes says.\<close>

definition ownInfoOf :: "ReferenceDatasetEngine \<Rightarrow> (goerr + RuntimeInfo) \<times> ReferenceDatasetEngine \<Rightarrow> bool" where
  "ownInfoOf e a \<longleftrightarrow>
     reName (snd a) = reName e \<and> reNamespace (snd a) = reNamespace e \<and> rePhysicalRuntimeInfo (snd a) = rePhysicalRuntimeInfo e \<and>
     (\<forall>info. fst a = Inr info \<longrightarrow> (riNamespace info, riName info) = ownNames e)"

lemma yields_ownInfo: "yields (ownInfoOf e) (Reference_getRuntimeInfo v e)"
proof -
  have build: "yields (ownInfoOf e) (buildReferenceInfo v e)"
    unfolding buildReferenceInfo_def
    by (auto intro!: yields_rules simp: ownInfoOf_def ownNames_def BuildRuntimeInfo_def SetFuseNodeSelector_def Let_def split: sum.splits)
  have own: "yields (ownInfoOf e) (ownerReferenceInfo v info e1)" if "ownInfoOf e (Inr info, e1)" for info e1
    using that unfolding ownerReferenceInfo_def
    by (auto intro!: yields_rules simp: ownInfoOf_def SetOwnerDatasetUID_def Let_def split: sum.splits)
  have place: "yields (ownInfoOf e) (placementReferenceInfo v info e1)" if "ownInfoOf e (Inr info, e1)" for info e1
    using that unfolding placementReferenceInfo_def
    by (auto intro!: yields_rules simp: ownInfoOf_def SetupWithDataset_def Let_def split: sum.splits)
  have stop: "yields (ownInfoOf e) (ret (Inl err, e1))" if "ownInfoOf e (Inl err, e1)" for err e1
    using that by (rule yields_ret)
  show ?thesis
    unfolding Reference_getRuntimeInfo_def
    by (auto intro!: yields_andThen [OF build] yields_andThen [OF own] place stop split: sum.splits)
qed

lemma wp_GetRuntimeInfo_names:
  "wp (GetRuntimeInfo w metadataList name namespace) (\<lambda>r h'. \<exists>es. h' = h @ es \<and> list_all (\<lambda>ev. \<not> createsObject ev) es \<and>
     (\<forall>info. r = Ret (Inr info) \<longrightarrow> riName info = name \<and> riNamespace info = namespace)) h"
  unfolding GetRuntimeInfo_def GetDataset_def getRuntimeObject_def
  by (auto simp: wp_rules Let_def split: sum.splits option.splits dest!: runtimeInfoOf_fields)

lemma wp_physicalInfo:
  "wp (getPhysicalRuntimeInfo v e) (\<lambda>r h'. \<exists>es. h' = h @ es \<and> list_all (\<lambda>ev. \<not> createsObject ev) es \<and>
     (\<forall>physicalInfo e1. r = Ret (Inr physicalInfo, e1) \<longrightarrow> mountedBy e physicalInfo es)) h"
proof -
  have info: "wp (GetRuntimeInfo w metadataList name namespace) Q h1"
    if "\<And>r es. list_all (\<lambda>ev. \<not> createsObject ev) es \<Longrightarrow>
      (\<And>info. r = Ret (Inr info) \<Longrightarrow> riName info = name \<and> riNamespace info = namespace) \<Longrightarrow> Q r (h1 @ es)" for w metadataList name namespace Q h1
    by (rule wp_mono [OF wp_GetRuntimeInfo_names]) (use that in blast)
  have only: "names = [p]" if "onlyPhysical names = Inr p" for names p
    using that by (auto simp: onlyPhysical_def split: list.splits)
  show ?thesis
    unfolding getPhysicalRuntimeInfo_def physicalNames_def readOwnDataset_def Reference_getRuntime_def getRuntimeObject_def GetDataset_def
    by (auto simp: wp_rules mountedBy_def Let_def split: option.splits sum.splits out.splits intro!: info dest!: only)
qed

text \<open>A run that created nothing, or what it may create.\<close>

abbreviation quietRun :: "kevent list \<Rightarrow> bool" where
  "quietRun es \<equiv> list_all (\<lambda>ev. \<not> createsObject ev) es"

definition viewedFrom :: "ReferenceDatasetEngine \<Rightarrow> kevent list \<Rightarrow> kevent list \<Rightarrow> bool" where
  "viewedFrom e h h' \<longleftrightarrow> (\<exists>es. h' = h @ es \<and> (quietRun es \<or> (\<exists>info physicalInfo. (riNamespace info, riName info) = ownNames e \<and>
     mountedBy e physicalInfo es \<and> volumesShared info physicalInfo es \<and> claimsRefer info physicalInfo es)))"

lemma viewedFrom_quiet: "quietRun es \<Longrightarrow> viewedFrom e h (h @ es)"
  by (auto simp: viewedFrom_def)

lemma viewedFrom_both:
  assumes "quietRun es1" "quietRun es2" and own: "ownInfoOf e (Inr info, e1)" "mountedBy e1 physicalInfo es2"
    and made: "volumesShared info physicalInfo es3" "claimsRefer info physicalInfo es3"
  shows "viewedFrom e h (h @ es1 @ es2 @ es3)"
proof -
  have none: "CreatedVolume pv a \<notin> set (es1 @ es2)" "CreatedClaim pvc a \<notin> set (es1 @ es2)" for pv pvc a
    using assms(1,2) by (auto simp: list_all_iff)
  have "volumesShared info physicalInfo ((es1 @ es2) @ es3)"
    using made(1) none unfolding volumesShared_def by (simp only: set_append [of "es1 @ es2"] Un_iff) blast
  moreover have "claimsRefer info physicalInfo ((es1 @ es2) @ es3)"
    using made(2) none unfolding claimsRefer_def by (simp only: set_append [of "es1 @ es2"] Un_iff) blast
  moreover have "mountedBy e physicalInfo (es1 @ es2 @ es3)"
    using own unfolding mountedBy_def ownInfoOf_def by auto
  moreover have "(riNamespace info, riName info) = ownNames e" using own(1) by (simp add: ownInfoOf_def)
  ultimately show ?thesis unfolding viewedFrom_def append.assoc by blast
qed

lemma wp_viewed:
  assumes "ownInfoOf e (Inr info, e1)" and "quietRun es1"
  shows "wp (andThen (getPhysicalRuntimeInfo v e1) (\<lambda>(r, e).
      case r of
        Inl err \<Rightarrow> ret (Some err, e)
      | Inr physicalInfo \<Rightarrow>
          andThen (createVirtualVolume (feWorld v) info physicalInfo) (\<lambda>(accessModes, err).
          if err \<noteq> None then ret (err, e)
          else
            andThen (createVirtualClaim (feWorld v) info physicalInfo accessModes) (\<lambda>err. ret (err, e)))))
    (\<lambda>_ h'. viewedFrom e h h') (h @ es1)"
  unfolding wp_andThen [of "getPhysicalRuntimeInfo v e1"]
proof (rule wp_mono [OF wp_physicalInfo], elim exE conjE)
  fix r :: "((goerr + RuntimeInfo) \<times> ReferenceDatasetEngine) out" and h' es2
  assume h': "h' = (h @ es1) @ es2" "quietRun es2"
    and r: "\<forall>physicalInfo e2. r = Ret (Inr physicalInfo, e2) \<longrightarrow> mountedBy e1 physicalInfo es2"
  have stop: "viewedFrom e h h'" using viewedFrom_quiet [of "es1 @ es2"] assms(2) h' by simp
  have both: "wp (andThen (createVirtualVolume (feWorld v) info physicalInfo) (\<lambda>(accessModes, err).
      if err \<noteq> None then ret (err, e2)
      else andThen (createVirtualClaim (feWorld v) info physicalInfo accessModes) (\<lambda>err. ret (err, e2))))
      (\<lambda>_ h'. viewedFrom e h h') h'" if "r = Ret (Inr physicalInfo, e2)" for physicalInfo e2
    by (rule wp_mono [OF wp_createBoth]) (use viewedFrom_both [OF assms(2) h'(2) assms(1)] r that h'(1) in auto)
  show "case r of Ret a \<Rightarrow> wp (case a of (r, e) \<Rightarrow> (case r of Inl err \<Rightarrow> ret (Some err, e)
         | Inr physicalInfo \<Rightarrow>
             andThen (createVirtualVolume (feWorld v) info physicalInfo) (\<lambda>(accessModes, err).
             if err \<noteq> None then ret (err, e)
             else andThen (createVirtualClaim (feWorld v) info physicalInfo accessModes) (\<lambda>err. ret (err, e))))) (\<lambda>_ h'. viewedFrom e h h') h'
      | Panic s \<Rightarrow> viewedFrom e h h'"
    using stop both by (auto simp: wp_ret simp del: not_None_eq split: out.splits sum.splits)
qed

lemma wp_ownInfo:
  "wp (Reference_getRuntimeInfo v e) (\<lambda>r h'. \<exists>es. h' = h @ es \<and> quietRun es \<and> (\<forall>a. r = Ret a \<longrightarrow> ownInfoOf e a)) h"
proof (rule wp_intro)
  fix r h' assume run: "Reference_getRuntimeInfo v e h = (r, h')"
  obtain es where "h' = h @ es" "quietRun es"
    by (rule emits_run [OF emits_referenceInfo [where P = "\<lambda>ev. \<not> createsObject ev"] run]) auto
  moreover have "\<forall>a. r = Ret a \<longrightarrow> ownInfoOf e a" using yields_ownInfo run unfolding yields_def by (metis fst_conv)
  ultimately show "\<exists>es. h' = h @ es \<and> quietRun es \<and> (\<forall>a. r = Ret a \<longrightarrow> ownInfoOf e a)" by blast
qed

lemma wp_CreateVolume_viewed: "wp (Reference_CreateVolume v e) (\<lambda>_ h'. viewedFrom e h h') h"
  unfolding Reference_CreateVolume_def wp_andThen [of "Reference_getRuntimeInfo v e"]
  by (rule wp_mono [OF wp_ownInfo], elim exE conjE)
     (auto simp: wp_ret simp del: not_None_eq split: out.splits sum.splits intro!: wp_viewed viewedFrom_quiet)

text \<open>
  C23. The volume of a reference dataset is a view of the physical one. If the engine creates a volume or a claim, then for the
  runtime of its own name and the runtime of the one dataset that it mounts: a volume that it creates has the name of the volume of
  its own runtime, is bound to the claim of it, and has the handle, capacity, node affinity and attributes of the volume
  of the physical runtime, which the run has read, so nodes mount it through the same fuse, except for the sub
  path; it has an access mode, and only reading if the physical volume is for reading only. A claim that is created is the one of its
  own runtime, is taken for one of a dataset, refers to the claim of the physical runtime, which was read, and has the access
  modes and the name of a volume created with it.
\<close>

theorem reference_volume_is_view:
  assumes "Reference_CreateVolume v e h = (r, h @ es)" and "list_ex createsObject es"
  shows "\<exists>info physicalInfo. (riNamespace info, riName info) = ownNames e \<and> mountedBy e physicalInfo es \<and>
    volumesShared info physicalInfo es \<and> claimsRefer info physicalInfo es"
  using wp_run [OF wp_CreateVolume_viewed assms(1)] assms(2) by (auto simp: viewedFrom_def list_all_iff list_ex_iff)

definition basePV :: PersistentVolume where
  "basePV = \<lparr>pvMeta = newMeta ''ns-base'' '''' [] GetExpectedFluidAnnotations, pvPhase = ''Bound'', pvClaimRef = Some (''ns'', ''base''),
     pvAccessModes = [''ReadOnlyMany''], pvCapacity = ''100Pi'', pvVolumeHandle = ''ns-base'',
     pvAttributes = [(''runtime_name'', ''base''), (''fluid_path'', ''/runtime-mnt'')], pvNodeAffinity = None\<rparr>"

definition baseClaim :: Claim where
  "baseClaim = \<lparr>pvcMeta = newMeta ''base'' ''ns'' [] GetExpectedFluidAnnotations, pvcVolumeName = ''ns-base'',
     pvcAccessModes = [''ReadOnlyMany''], pvcRequest = ''100Pi''\<rparr>"

definition volumeWorld :: "bool \<Rightarrow> world" where
  "volumeWorld exists1 = referenceWorld
     \<lparr>kwGetVolume := \<lambda>_ name. if name = ''ns-base'' \<or> exists1 then Inr basePV else Inl (NotFound name), kwCreateVolume := \<lambda>_ _. None,
      kwGetClaim := \<lambda>_ name _. if name = ''base'' then Inr baseClaim else Inl (NotFound name), kwCreateClaim := \<lambda>_ _. None\<rparr>"

definition volumeEnv :: "bool \<Rightarrow> referenceEnv" where
  "volumeEnv exists1 = exampleReferenceEnv\<lparr>feWorld := volumeWorld exists1\<rparr>"

definition ownInfo :: RuntimeInfo where
  "ownInfo = exampleInfo\<lparr>riPlacementMode := Some ''Exclusive''\<rparr>"

definition baseInfo :: RuntimeInfo where
  "baseInfo = exampleInfo\<lparr>riName := ''base'', riNamespace := ''ns''\<rparr>"

definition volumeEngine :: ReferenceDatasetEngine where
  "volumeEngine = exampleReferenceEngine\<lparr>reRuntimeInfo := Some ownInfo, rePhysicalRuntimeInfo := Some baseInfo\<rparr>"

lemma volume_infos:
  "Reference_getRuntimeInfo v volumeEngine = ret (Inr ownInfo, volumeEngine)"
  "getPhysicalRuntimeInfo v volumeEngine = ret (Inr baseInfo, volumeEngine)"
  "GetPersistentVolumeName ownInfo = ''default-demo''" "GetPersistentVolumeName baseInfo = ''ns-base''"
  "riName ownInfo = ''demo''" "riNamespace ownInfo = ''default''" "riName baseInfo = ''base''" "riNamespace baseInfo = ''ns''"
  by (simp_all add: Reference_getRuntimeInfo_def buildReferenceInfo_def ownerReferenceInfo_def placementReferenceInfo_def
      getPhysicalRuntimeInfo_def volumeEngine_def ownInfo_def baseInfo_def exampleInfo_def IsPlacementModeSet_def GetPersistentVolumeName_def)

lemma volumeWorld_simps [simp]:
  "feWorld (volumeEnv exists1) = volumeWorld exists1" "kwCluster (volumeWorld exists1) h = referenceCluster"
  "kwGetVolume (volumeWorld exists1) h name = (if name = ''ns-base'' \<or> exists1 then Inr basePV else Inl (NotFound name))"
  "kwCreateVolume (volumeWorld exists1) h pv = None" "kwCreateClaim (volumeWorld exists1) h pvc = None"
  "kwGetClaim (volumeWorld exists1) h name ns = (if name = ''base'' then Inr baseClaim else Inl (NotFound name))"
  by (simp_all add: volumeEnv_def volumeWorld_def)

lemma base_annotated: "annotated GetExpectedFluidAnnotations (pvMeta basePV)" "pvAttributes basePV \<noteq> []"
  by (simp_all add: basePV_def newMeta_def annotated_def GetExpectedFluidAnnotations_def lookupStr_def)

lemma reference_create:
  "wp (Reference_CreateVolume (volumeEnv exists1) volumeEngine) (\<lambda>r es. r = Ret (None, volumeEngine) \<and>
     (if exists1 then (\<exists>pvc. CreatedClaim pvc None \<in> set es \<and> pvcAccessModes pvc = [])
      else (\<exists>pv pvc. CreatedVolume pv None \<in> set es \<and> CreatedClaim pvc None \<in> set es))) []"
  unfolding Reference_CreateVolume_def volume_infos createVirtualVolume_def createVirtualClaim_def IsPersistentVolumeExist_def
    IsPersistentVolumeClaimExist_def GetPersistentVolume_def GetPersistentVolumeClaim_def GetDataset_def withSubPath_def
  by (simp add: wp_rules Let_def volume_infos reference_mounts base_annotated) (simp add: virtualClaim_def)

theorem reference_volume_is_view_witness:
  "\<exists>es info physicalInfo pv pvc. Reference_CreateVolume (volumeEnv False) volumeEngine [] = (Ret (None, volumeEngine), es) \<and>
     CreatedVolume pv None \<in> set es \<and> CreatedClaim pvc None \<in> set es \<and> (riNamespace info, riName info) = (''default'', ''demo'') \<and>
     volumesShared info physicalInfo es \<and> claimsRefer info physicalInfo es"
proof -
  obtain es pv pvc where run: "Reference_CreateVolume (volumeEnv False) volumeEngine [] = (Ret (None, volumeEngine), es)"
    and made: "CreatedVolume pv None \<in> set es" "CreatedClaim pvc None \<in> set es"
    using reference_create [of False] by (auto simp: wp_def split: prod.splits)
  have "list_ex createsObject es" using made(1) by (auto simp: list_ex_iff intro!: bexI [of _ "CreatedVolume pv None"])
  moreover have "ownNames volumeEngine = (''default'', ''demo'')" by (simp add: ownNames_def volumeEngine_def volume_infos)
  ultimately show ?thesis
    using reference_volume_is_view [of "volumeEnv False" volumeEngine "[]" "Ret (None, volumeEngine)" es] run made by simp blast
qed

text \<open>
  A run that finds the volume in place, because an earlier run created it and failed before the claim, creates the claim without
  an access mode, which Kubernetes refuses.
\<close>

theorem claim_without_access_mode:
  "\<exists>pvc. CreatedClaim pvc None \<in> set (snd (Reference_CreateVolume (volumeEnv True) volumeEngine [])) \<and> pvcAccessModes pvc = []"
  using reference_create [of True] by (simp add: wp_def split: prod.splits)

section \<open>Withdrawing the reference\<close>

lemma withReference_removed:
  assumes "ref \<notin> set (dstDatasetRef (dStatus d))"
  shows "setStatus (\<lambda>s. s\<lparr>dstDatasetRef := RemoveString (dstDatasetRef s) ref\<rparr>) (withReference ref d) = d"
proof -
  have "filter (\<lambda>i. i \<noteq> ref) (dstDatasetRef (dStatus d)) = dstDatasetRef (dStatus d)"
    by (rule filter_True) (use assms in auto)
  then show ?thesis by (simp add: withReference_def RemoveString_def)
qed

definition withdrawnIn :: "string \<Rightarrow> kevent list \<Rightarrow> bool" where
  "withdrawnIn ref h \<longleftrightarrow>
     (\<exists>name namespace physical h1. h = h1 @ [Op (GotDataset name namespace (Inr physical))] \<and> ref \<notin> set (dstDatasetRef (dStatus physical))) \<or>
     (\<exists>name namespace physical h1 d. h = h1 @ [Op (GotDataset name namespace (Inr physical)), Op (UpdatedDatasetStatus d None)] \<and>
        set (dstDatasetRef (dStatus d)) = set (dstDatasetRef (dStatus physical)) - {ref} \<and>
        (\<forall>d0. physical = withReference ref d0 \<longrightarrow> ref \<notin> set (dstDatasetRef (dStatus d0)) \<longrightarrow> d = d0))"

lemma withdrawnIn_intros:
  "ref \<notin> set (dstDatasetRef (dStatus physical)) \<Longrightarrow> withdrawnIn ref (h1 @ [Op (GotDataset name namespace (Inr physical))])"
  "withdrawnIn ref (h1 @ [Op (GotDataset name namespace (Inr physical)), Op (UpdatedDatasetStatus
      (setStatus (\<lambda>s. s\<lparr>dstDatasetRef := RemoveString (dstDatasetRef s) ref\<rparr>) physical) None)])"
proof -
  show "withdrawnIn ref (h1 @ [Op (GotDataset name namespace (Inr physical))])" if "ref \<notin> set (dstDatasetRef (dStatus physical))"
    using that unfolding withdrawnIn_def by blast
  show "withdrawnIn ref (h1 @ [Op (GotDataset name namespace (Inr physical)), Op (UpdatedDatasetStatus
      (setStatus (\<lambda>s. s\<lparr>dstDatasetRef := RemoveString (dstDatasetRef s) ref\<rparr>) physical) None)])"
    unfolding withdrawnIn_def
    by (intro disjI2 exI conjI refl allI impI) (auto simp: RemoveString_def withReference_removed [unfolded RemoveString_def])
qed

text \<open>
  A shutdown that succeeds ends with the physical dataset free of the reference: it read it last without the reference, or took
  the reference, and no other, away. If the reference was the only change since the setup registered it, the dataset is as before.
\<close>

theorem reference_withdrawn:
  assumes "Reference_Shutdown v e h = (Ret (None, e'), h')" and "ref = GetDatasetRefName (reName e) (reNamespace e)"
  shows "withdrawnIn ref h'"
proof -
  have "wp (Reference_Shutdown v e) (\<lambda>r h'. r = Ret (None, e') \<longrightarrow> withdrawnIn ref h') h"
    unfolding Reference_Shutdown_def Let_def assms(2) [symmetric] wp_andThen [of "getPhysicalRuntimeInfo v e"]
    by (rule wp_intro)
       (auto simp: wp_rules GetDataset_def updateDatasetStatus_def ContainsString_def list_ex_iff Let_def withdrawnIn_intros
         split: out.splits sum.splits)
  from wp_run [OF this assms(1)] show ?thesis by blast
qed

section \<open>Mirroring the status\<close>

text \<open>
  Every status of a dataset that is written in \<open>es\<close> is that of a dataset read in \<open>es\<close>, put on the reference dataset as it was
  read, without references of its own and with a runtime.
\<close>

definition mirrored :: "ReferenceDatasetEngine \<Rightarrow> kevent list \<Rightarrow> bool" where
  "mirrored e es \<longleftrightarrow> (\<forall>d a. Op (UpdatedDatasetStatus d a) \<in> set es \<longrightarrow>
     (\<exists>virtual physical name namespace. Op (GotDataset (reName e) (reNamespace e) (Inr virtual)) \<in> set es \<and>
        Op (GotDataset name namespace (Inr physical)) \<in> set es \<and> d = virtual\<lparr>dStatus := dStatus d\<rparr> \<and> dstRuntimes (dStatus d) \<noteq> [] \<and>
        dStatus d = (dStatus physical)\<lparr>dstDatasetRef := [], dstRuntimes := dstRuntimes (dStatus d)\<rparr> \<and>
        set (dstRuntimes (dStatus virtual)) \<subseteq> set (dstRuntimes (dStatus d))))"

lemma mirroredStatus_props:
  "dstRuntimes (mirroredStatus e virtual physical) \<noteq> []"
  "set (dstRuntimes virtual) \<subseteq> set (dstRuntimes (mirroredStatus e virtual physical))"
  "mirroredStatus e virtual physical =
     physical\<lparr>dstDatasetRef := [], dstRuntimes := dstRuntimes (mirroredStatus e virtual physical)\<rparr>"
  by (auto simp: mirroredStatus_def AddRuntimesIfNotExist_def Let_def)

lemma mirrored_quiet: "list_all (\<lambda>ev. \<not> writesDataset ev) es \<Longrightarrow> mirrored e es"
  by (auto simp: mirrored_def list_all_iff)

lemma mirrored_append:
  "mirrored e es \<Longrightarrow> list_all (\<lambda>ev. \<not> writesDataset ev) es' \<Longrightarrow> mirrored e (es @ es')"
  unfolding mirrored_def list_all_iff by (simp only: set_append Un_iff) (metis writesDataset.simps(1))

lemma emits_syncRuntimeStatus: "emits (\<lambda>ev. \<not> writesDataset ev) (syncRuntimeStatus v dataset e)"
  unfolding syncRuntimeStatus_def Reference_getRuntime_def getRuntimeObject_def getPhysicalDatasetRuntimeStatus_def
    GetRuntimeStatus_def updateRuntimeStatus_def Let_def
  by (auto intro!: emits_rules emits_physicalInfo)

lemma wp_syncReference: "wp (syncReference v e) (\<lambda>_ h'. \<exists>es. h' = h @ es \<and> mirrored e es) h"
proof -
  have rest: "wp (syncRuntimeStatus v d e1) (\<lambda>_ h'. \<exists>es. h' = h @ es \<and> mirrored e es) (h @ es)" if "mirrored e es" for d e1 es
    by (rule wp_mono [OF wp_emits [OF emits_syncRuntimeStatus]]) (use mirrored_append [OF that] in auto)
  have written: "mirrored e (Op (GotDataset (reName e) (reNamespace e) (Inr virtual)) # es @
      [Op (GotDataset name namespace (Inr physical)),
       Op (UpdatedDatasetStatus (virtual\<lparr>dStatus := mirroredStatus e1 (dStatus virtual) (dStatus physical)\<rparr>) a)])"
    if "list_all (\<lambda>ev. \<not> writesDataset ev) es" for virtual es name namespace physical a e1
    unfolding mirrored_def using that mirroredStatus_props [where e = e1 and virtual = "dStatus virtual" and physical = "dStatus physical"]
    by (auto simp: list_all_iff)
  have info: "wp (getPhysicalRuntimeInfo v e) Q h1" if "\<And>r es. list_all (\<lambda>ev. \<not> writesDataset ev) es \<Longrightarrow> Q r (h1 @ es)" for Q h1
    by (rule wp_mono [OF wp_emits [OF emits_physicalInfo [where P = "\<lambda>ev. \<not> writesDataset ev"]]]) (use that in auto)
  show ?thesis
    unfolding syncReference_def readOwnDataset_def
    by (auto simp: wp_rules GetDataset_def updateDatasetStatus_def Let_def mirrored_quiet split: sum.splits out.splits
        intro!: info rest written)
qed

text \<open>
  A synchronisation of a reference dataset does nothing until the interval since the last one has passed, and otherwise copies: each
  status it writes to a dataset goes to the reference dataset as it was read in the run, is the status of a dataset that was
  read in the run except that no dataset refers to it, and keeps the runtimes of the reference dataset, of which there is at least one.
\<close>

theorem reference_mirrors_physical:
  assumes "Reference_Sync v e h = (r, h @ es)"
  shows "mirrored e es \<and>
    (\<not> Reference_permitSync e (clNow (kwCluster (feWorld v) h) (opHistory h)) \<longrightarrow>
       r = Ret (None, e) \<and> es = [Op (ReadClock (clNow (kwCluster (feWorld v) h) (opHistory h)))])"
proof -
  let ?t = "clNow (kwCluster (feWorld v) h) (opHistory h)"
  have clock: "mirrored e (Op (ReadClock t) # es)" "mirrored e (Op (ReadClock t) # es @ [Op (ReadClock t')])"
    if "mirrored e es" for t t' es
    using that unfolding mirrored_def by auto
  have "wp (Reference_Sync v e) (\<lambda>r h'. \<exists>es. h' = h @ es \<and> mirrored e es \<and>
      (\<not> Reference_permitSync e ?t \<longrightarrow> r = Ret (None, e) \<and> es = [Op (ReadClock ?t)])) h"
    unfolding Reference_Sync_def now_def
    by (auto simp: wp_rules Let_def mirrored_quiet split: out.splits
        intro!: wp_mono [OF wp_syncReference] clock)
  from wp_run [OF this assms] show ?thesis by simp
qed

definition syncEngine :: ReferenceDatasetEngine where
  "syncEngine = volumeEngine\<lparr>reTimeOfLastSync := -60\<rparr>"

lemma sync_info: "getPhysicalRuntimeInfo v syncEngine = ret (Inr baseInfo, syncEngine)"
  by (simp add: getPhysicalRuntimeInfo_def syncEngine_def volumeEngine_def)

lemma sync_names: "reName syncEngine = ''demo''" "reNamespace syncEngine = ''default''" "Reference_permitSync syncEngine 0"
  by (simp_all add: syncEngine_def volumeEngine_def exampleReferenceEngine_def Reference_permitSync_def)

lemma sync_clock: "clNow referenceCluster oh = 0"
  by (simp add: referenceCluster_def downCluster_def)

lemma reference_sync:
  "wp (Reference_Sync exampleReferenceEnv syncEngine) (\<lambda>r es. \<exists>d. Op (UpdatedDatasetStatus d None) \<in> set es) []"
proof -
  have status: "dStatus referenceDataset \<noteq> mirroredStatus syncEngine (dStatus referenceDataset) (dStatus baseDataset)"
    by (simp add: referenceDataset_def exampleDataset_def baseDataset_def mirroredStatus_def AddRuntimesIfNotExist_def Let_def)
  show ?thesis
    unfolding Reference_Sync_def syncReference_def readOwnDataset_def GetDataset_def now_def
    using status
    by (simp add: wp_rules Let_def volume_infos sync_info sync_names sync_clock updateDatasetStatus_def split: out.splits)
       (rule wp_mono [OF wp_emits [OF emits_syncRuntimeStatus]], auto)
qed

theorem reference_mirrors_physical_witness:
  "\<exists>r es d. Reference_Sync exampleReferenceEnv syncEngine [] = (r, es) \<and> Op (UpdatedDatasetStatus d None) \<in> set es \<and>
     dstRuntimes (dStatus d) \<noteq> [] \<and> mirrored syncEngine es"
proof -
  obtain r es d where run: "Reference_Sync exampleReferenceEnv syncEngine [] = (r, es)" and d: "Op (UpdatedDatasetStatus d None) \<in> set es"
    using reference_sync by (auto simp: wp_def split: prod.splits)
  have "mirrored syncEngine es"
    using reference_mirrors_physical [of exampleReferenceEnv syncEngine "[]" r es] run by simp
  with run d show ?thesis unfolding mirrored_def by blast
qed

section \<open>Errors\<close>

text \<open>
  The engine is built without an error only if the runtime of the physical dataset is known, also for a runtime that is being
  deleted: when the dataset and the mounts in the status of the runtime are gone, the deletion cannot proceed.
\<close>

lemma physicalInfo_known:
  "yields (\<lambda>(r, e). \<forall>info. r = Inr info \<longrightarrow> rePhysicalRuntimeInfo e = Some info) (getPhysicalRuntimeInfo v e)"
  unfolding getPhysicalRuntimeInfo_def by (auto intro!: yields_rules)

theorem engine_needs_physical:
  assumes "BuildReferenceDatasetThinEngine v eid name namespace runtimeType runtime h = (Ret (engine, None), h')"
  shows "\<exists>e info. engine = Some e \<and> rePhysicalRuntimeInfo e = Some info"
proof -
  have "yields (\<lambda>(engine, err). err = None \<longrightarrow> (\<exists>e info. engine = Some e \<and> rePhysicalRuntimeInfo e = Some info))
      (BuildReferenceDatasetThinEngine v eid name namespace runtimeType runtime)"
    unfolding BuildReferenceDatasetThinEngine_def withPhysicalInfo_def Let_def
    by (auto intro!: yields_rules yields_andThen [OF physicalInfo_known])
  from this [unfolded yields_def, rule_format, of h "(engine, None)"] assms show ?thesis by simp
qed

text \<open>A shutdown fails with the not-found error of the physical runtime, although it logs that there is nothing to update.\<close>

theorem shutdown_needs_physical:
  assumes "getPhysicalRuntimeInfo v e h = (Ret (Inl err, e'), h')"
  shows "Reference_Shutdown v e h = (Ret (Some err, e'), h')"
  using assms by (simp add: Reference_Shutdown_def Let_def andThen_def ret_def)

text \<open>
  The copy of a config map carries an identifier made of the name of the config map in the label that identifies the dataset.
\<close>

theorem config_map_mislabelled:
  "map_of (cmLabels (configMapCopy (''default'', ''base-config'') (referenceOwner referenceDataset) cm)) ''fluid.io/dataset-id'' =
     Some ''default-base-config'' \<and>
   GetDatasetId (omNamespace (dMeta referenceDataset)) (omName (dMeta referenceDataset)) (omUID (dMeta referenceDataset)) = ''default-demo''"
  by (simp add: configMapCopy_def update_conv' GetDatasetId_def GetNamespacedNameValueWithPrefix_def referenceDataset_def exampleDataset_def)

text \<open>
  References are not chained: if the mounts of an existing dataset are supported, it mounts one dataset and nothing else, and that
  dataset mounts none.
\<close>

theorem references_not_chained:
  assumes "checkDatasetMountSupport v e h = (Ret None, h @ es)" and "Op (GotDataset (reName e) (reNamespace e) (Inr dataset)) = hd es"
  shows "\<exists>namespace name physical. GetPhysicalDatasetFromMounts (dsMounts (dSpec dataset)) = [(namespace, name)] \<and>
    length (dsMounts (dSpec dataset)) = 1 \<and> tl es = [Op (GotDataset name namespace (Inr physical))] \<and>
    GetPhysicalDatasetFromMounts (dsMounts (dSpec physical)) = []"
proof -
  have "wp (checkDatasetMountSupport v e) (\<lambda>r h'. \<forall>es. r = Ret None \<longrightarrow> h' = h @ es \<longrightarrow>
      Op (GotDataset (reName e) (reNamespace e) (Inr dataset)) = hd es \<longrightarrow>
      (\<exists>namespace name physical. GetPhysicalDatasetFromMounts (dsMounts (dSpec dataset)) = [(namespace, name)] \<and>
         length (dsMounts (dSpec dataset)) = 1 \<and> tl es = [Op (GotDataset name namespace (Inr physical))] \<and>
         GetPhysicalDatasetFromMounts (dsMounts (dSpec physical)) = [])) h"
    unfolding checkDatasetMountSupport_def readOwnDataset_def GetDataset_def
    by (auto simp: wp_rules Let_def split: sum.splits list.splits)
  from wp_run [OF this assms(1)] assms(2) show ?thesis by blast
qed

end
