(* ===== verification/Spec2Isabelle.thy ===== *)
theory Spec2Isabelle
  imports Fluid_Prelude Go_Strings Cmd_Guard Mount_Info Volume_Locks Fuse_Recover Port_Allocator Dataset_Api
    Operation_Api Helm_Client Dataflow_Affinity Operation_Kinds Operation_Engine Operation_Controller Data_Flow
    Byte_Size Runtime_Api Kube_Client Runtime_Info Dataset_Volume Node_Placement Dataset_Controller Ctrl_Helper
    Alluxio_Operations Template_Engine Alluxio_State Alluxio_Ufs Alluxio_Engine Alluxio_Binding
    Runtime_Controller Alluxio_Runtime Runtime_Lookup Bash_Escape Node_Server
    Pod_Spec Pod_Scheduling Fuse_Template Fuse_Injector File_Prefetcher Webhook App_Controller
    Reference_Dataset
begin

text \<open>
  A verification library for Fluid, a Kubernetes-native orchestrator of datasets and the caches that serve
  them. All paths below are relative to \<open>src/\<close>.

  \<^bold>\<open>The program.\<close> Users declare datasets, runtimes (caches) and data operations (load, backup, migrate,
  process) as custom resources. Controllers reconcile each resource: they read it from the API server,
  compare it with what exists and write statuses, finalizers and helm releases. A CSI plugin on each node
  mounts datasets into pods and repairs broken mounts. The state of the system is in the API server and in
  the kernel's mount table; what a process keeps is a cache of engines, a table of volume locks and a port
  allocator.

  \<^bold>\<open>How it is modelled.\<close> \<open>Fluid_Prelude\<close> defines programs: functions from the history of interactions to an
  outcome (a value or a panic) and a longer history. Every call that leaves the process, to the API
  server, helm, the clock or the host, is one event with its request and its answer, and the answer is an
  arbitrary function of the history. So a statement without a hypothesis about the environment holds for
  all faults and all interleavings with other writers. Go errors are values of \<open>goerr\<close>, \<open>errors.Wrap\<close> included,
  since some of the code distinguishes wrapped errors. Loops are recursive functions; the retry loop of
  \<open>client-go\<close> has the four or five steps of its default backoff; three loops may run forever:
  the rounds of sidecar injections have fuel, and are proved to end when no FUSE daemon set mounts a claim; the random port allocator is a \<open>partial_function\<close> and is proved to end for every fair random source, and the loop that unmounts a
  path has fuel and is proved to end, with one round more than there are mounts, on every host with a stack of mounts. Times and
  durations are nanoseconds as unbounded integers, saturated where the code can reach the bounds of 64 bits.
  Proofs about programs use weakest preconditions (\<open>wp\<close>), the events a program can emit (\<open>emits\<close>), the values
  it can return (\<open>yields\<close>) and invariants of the history (\<open>keeps\<close>), each with its collection of rules.

  \<^bold>\<open>The theories.\<close>
  \<^item> \<open>Go_Strings\<close>: the functions of \<open>strings\<close> and \<open>strconv\<close> that the code uses, with their laws.
  \<^item> \<open>Cmd_Guard\<close> (\<open>pkg/utils/cmdguard\<close>): the checks on commands before they are run; what an accepted
    command cannot contain, and which scripts pass unchecked.
  \<^item> \<open>Mount_Info\<close> (\<open>pkg/utils/mountinfo\<close>): parsing of the mount table and detection of broken bind mounts, with
    an exact specification of the result and the collision of names under which it fails.
  \<^item> \<open>Volume_Locks\<close> (\<open>pkg/utils/volume_lock.go\<close>): the lock table as a locale \<open>try_lock\<close> with an interpretation,
    and all interleavings of its users as an inductive step relation.
  \<^item> \<open>Fuse_Recover\<close> (\<open>pkg/csi/recover\<close>): the recovery of broken mounts over these two.
  \<^item> \<open>Port_Allocator\<close> (\<open>pkg/ddc/base/portallocator\<close>): both policies and the restore of reserved ports; the
    allocator of Kubernetes is a parameter with a named contract.
  \<^item> \<open>Dataset_Api\<close> (\<open>api/v1alpha1/dataset_types.go\<close> and helpers of \<open>pkg/utils\<close>): the dataset and its methods;
    locales \<open>condition_list\<close> and \<open>operation_refs\<close>.
  \<^item> \<open>Operation_Api\<close>: the four kinds of data operations, the Kubernetes objects around them, the record
    \<open>cluster\<close> of everything the controllers call and the type \<open>event\<close> of their interactions.
  \<^item> \<open>Helm_Client\<close> (\<open>pkg/utils/helm\<close>): checking, installing and deleting releases, through \<open>Cmd_Guard\<close>.
  \<^item> \<open>Dataflow_Affinity\<close> (\<open>pkg/dataflow\<close>, \<open>pkg/utils/affinity.go\<close>): node affinity passed from one operation to the
    next.
  \<^item> \<open>Operation_Kinds\<close> (\<open>implement.go\<close> and \<open>status_handler.go\<close> of the four kinds): a Go interface value as a record of its
    methods, and the locale \<open>operation_contract\<close> of what the engine relies on, interpreted for each kind.
  \<^item> \<open>Operation_Engine\<close> (\<open>pkg/ddc/base/operation*.go\<close>): the state machine of a data operation. Which writes a step
    may make, registration before execution, release, fresh writes, progress and clean-up.
  \<^item> \<open>Operation_Controller\<close> (\<open>pkg/controllers/operation_controller.go\<close>, the four reconcilers, \<open>pkg/ddc/factory.go\<close>):
    finalizers, owners, deletion and the cache of engines.
  \<^item> \<open>Data_Flow\<close> (\<open>pkg/controllers/v1alpha1/dataflow\<close>): operations that wait for others.
  \<^item> \<open>Runtime_Api\<close>: the status of a runtime (\<open>api/v1alpha1/status.go\<close>), the record \<open>world\<close> that extends \<open>cluster\<close> by all
    that the side of the runtimes calls, polls with a deadline, and retries that carry a state.
  \<^item> \<open>Kube_Client\<close> (\<open>pkg/utils/kubeclient\<close>): nodes, volumes, claims and the pods that mount them; the merge of node
    selector and node affinity with its meaning for the scheduler.
  \<^item> \<open>Runtime_Info\<close> (\<open>pkg/ddc/base/runtime.go\<close>, \<open>label.go\<close>, \<open>pv.go\<close>, \<open>pkg/utils/label.go\<close>, \<open>pkg/utils/tieredstore\<close>): the tiered
    store and how a quota is shared by its paths, label names and their length, the order of media.
  \<^item> \<open>Dataset_Volume\<close> (\<open>pkg/utils/dataset/volume\<close>): volume and claim of a dataset; a reported deletion is confirmed, and the
    protection of a claim is only removed when no running pod mounts it.
  \<^item> \<open>Node_Placement\<close> (\<open>pkg/utils/dataset/lifecycle/node.go\<close>, \<open>pkg/utils/label.go\<close>, \<open>pkg/common/label.go\<close>): the labels of nodes as a
    refinement of a set of placed datasets, and the equivalence of the two ways to change labels.
  \<^item> \<open>Dataset_Controller\<close> (\<open>pkg/controllers/v1alpha1/dataset\<close>, \<open>pkg/controllers/deploy\<close>, \<open>pkg/ddc/base/dataset.go\<close>): life cycle of a
    dataset, its finalizer, references between datasets and the scaling of runtime controllers.
  \<^item> \<open>Ctrl_Helper\<close> (\<open>pkg/ctrl\<close>): what the runtimes share: statuses copied from stateful sets, scaling, tear-down.
  \<^item> \<open>Template_Engine\<close> (\<open>pkg/ddc/base/template_engine.go\<close>, \<open>setup.go\<close>, \<open>syncs.go\<close>): the interface \<open>Implement\<close> as a record of methods
    and the template over it. The locale \<open>cache_engine\<close> states what the template relies on and proves once that a
    dataset is bound only after master, workers and runtime were seen ready.
  \<^item> \<open>Byte_Size\<close> (\<open>pkg/utils/byte_size.go\<close>): sizes for people, with 64 bit floats as rounded rationals.
  \<^item> \<open>Alluxio_Operations\<close>, \<open>Alluxio_State\<close>, \<open>Alluxio_Ufs\<close>, \<open>Alluxio_Engine\<close> (\<open>pkg/ddc/alluxio\<close>): one cache engine in full, from
    the commands in the master pod to the methods of the template. \<open>Alluxio_Binding\<close> interprets \<open>cache_engine\<close> on it and
    shows that a shutdown gives up cleaning after a bounded number of attempts.

  \<^item> \<open>Runtime_Controller\<close> (\<open>pkg/controllers/runtime_controller.go\<close> and the reconcilers of the eight kinds of runtimes): the cache of engines,
    setup, volume and synchronisation in a row, deletion, the interval to the next reconciliation. The locale \<open>deletable_engine\<close> states that
    only the controller writes the runtime; \<open>Alluxio_Runtime\<close> interprets it and shows the order of a deletion and that it gives up cleaning.
  \<^item> \<open>Runtime_Lookup\<close> (\<open>pkg/ddc/base/runtime.go\<close>): what a client finds out about the runtime of a dataset.
  \<^item> \<open>Bash_Escape\<close> (\<open>pkg/utils/security\<close>): quoting for bash with an automaton of how bash reads it.
  \<^item> \<open>Node_Server\<close> (\<open>pkg/csi/plugins\<close>): publish, unpublish, stage and unstage of volumes under the lock table, with the loop that unmounts
    as a function with fuel; the label that starts and stops the fuse pod.
  \<^item> \<open>Pod_Spec\<close> (\<open>pkg/utils/volumes.go\<close>, \<open>capabilities.go\<close>, \<open>annotations.go\<close>, \<open>random.go\<close>): pods with their containers, volumes and mounts, and
    the helpers on them.
  \<^item> \<open>Pod_Scheduling\<close> (\<open>pkg/utils/webhook.go\<close> and the scheduling plugins of \<open>pkg/webhook/plugins\<close>): the plugins that write node affinities,
    with the nodes that the scheduler then allows.
  \<^item> \<open>Fuse_Template\<close> and \<open>Fuse_Injector\<close> (\<open>pkg/application/inject/fuse\<close>): the template of a FUSE container, post-start scripts, the platform mutators and the injector. A logic
    for programs that may fail (\<open>gives\<close>) shows that an injection keeps volumes and mounts consistent, confines sidecars and
    replaces the claims of datasets.
  \<^item> \<open>File_Prefetcher\<close> (\<open>pkg/webhook/plugins/fileprefetcher\<close>): the sidecar that reads files in advance.
  \<^item> \<open>Webhook\<close> (\<open>pkg/webhook\<close>): the runtimes of the claims of a pod, the profile of plugins and the handler. The locale
    \<open>mutating_handlers\<close> is the contract of a plugin and \<open>injection_relation\<close> that of an injection; their interpretations show what
    of a pod the webhook keeps. The rounds of injections have fuel, and as many rounds as the pod has claims are enough.
  \<^item> \<open>App_Controller\<close> (\<open>pkg/controllers/v1alpha1/fluidapp\<close>, \<open>pkg/ctrl/watch\<close>): unmounting the sidecars of a pod whose application has ended, the
    annotations that carry the place of a completed data operation to the next one, and the predicates on events.
  \<^item> \<open>Reference_Dataset\<close> (\<open>pkg/ddc/thin/referencedataset\<close>): the engine of a dataset that mounts another dataset. With \<open>Dataset_Controller\<close> it
    shows that a dataset stays while a reference to it is set up, and that the volume of the reference is a view of the physical one.

  \<^bold>\<open>Where the code departs from its intent.\<close> Some theorems state behaviour that the code does not mean to
  have: a failed mount that is reported as recovered, reserved ports that are forgotten after a failed
  restore, a required affinity that is dropped, panics on nil pointers and on a type assertion, an engine or a
  mount or a volume shared by two datasets whose namespace and name join to the same string, a second line of a
  script that the guard does not check, metadata that is never restored because the guard rejects the query, a
  node whose labels are reported as placed although the poll timed out, an exclusive label of another dataset
  that is deleted after a conflict, datasets of which one is enough for a node although each is required, an injection that
  panics on a short name of a volume, a sidecar whose mount is not found because the injector has renamed it, a
  reference dataset that cannot be deleted once its physical dataset is gone.

  \<^bold>\<open>Not modelled\<close>: the engines of the other cache systems, of the thin runtime all but the reference datasets
  (they enter through the methods that data operations call), the values of helm charts that \<open>transform.go\<close> of an engine
  computes (data for templates that are not Go code), metrics and command line programs. Logging has no effect and is
  left out. Of API objects the fields that the modelled code reads or writes are kept.
\<close>

end
